(* ===== verification/Js_Prelude.thy ===== *)
theory Js_Prelude
  imports Complex_Main "HOL-Library.Sublist"
begin

section \<open>The JavaScript the web client is written in\<close>

text \<open>
  The parts of the language and its standard library that the modelled modules use: string
  methods, \<open>BigInt\<close> parsing and printing, thrown errors as values, and the list idioms.

  A JavaScript string is a \<^typ>\<open>string\<close> holding the UTF-8 bytes of the text. The code measures
  and cuts (\<open>length\<close>, \<open>slice\<close>, \<open>padStart\<close>) only digits, currency codes, taxonomy codes and dates,
  where bytes and UTF-16 units agree; everything else is concatenation, equality, prefix and
  substring tests, which agree on UTF-8. A value that may be \<open>undefined\<close> is an \<^typ>\<open>'a option\<close>.
\<close>

named_theorems js_simps \<open>rewriting rules for the string and number primitives\<close>

subsection \<open>Thrown errors\<close>

text \<open>Every error class the client throws or catches, one constructor each; the
  \<open>Error\<close> constructor is the plain \<open>new Error(message)\<close>, \<open>ConnectError\<close> is what the Connect
  transport throws (its code and raw message), \<open>SyntaxError\<close> is \<open>BigInt\<close> of a malformed string,
  \<open>TypeError\<close> a property of \<open>undefined\<close>.\<close>

datatype connect_code = Unauthenticated | OtherCode nat

datatype js_error =
    UnknownCurrencyError string
  | SessionNotSetError
  | MixedBasisError
  | CreateOrganisationError string
  | ResolveGroupError string
  | ConnectError connect_code string
  | SyntaxError
  | TypeError
  | Error string

type_synonym 'a js = "js_error + 'a"

definition ebind :: "'a js \<Rightarrow> ('a \<Rightarrow> 'b js) \<Rightarrow> 'b js" where
  "ebind m f = (case m of Inl e \<Rightarrow> Inl e | Inr x \<Rightarrow> f x)"

lemma ebind_simps [simp]: "ebind (Inl e) f = Inl e" "ebind (Inr x) f = f x"
  by (simp_all add: ebind_def)

lemma ebind_Inr_iff: "ebind m f = Inr y \<longleftrightarrow> (\<exists>x. m = Inr x \<and> f x = Inr y)"
  by (auto simp: ebind_def split: sum.splits)

lemma ebind_Inl_iff: "ebind m f = Inl e \<longleftrightarrow> m = Inl e \<or> (\<exists>x. m = Inr x \<and> f x = Inl e)"
  by (auto simp: ebind_def split: sum.splits)

text \<open>\<open>xs.map(f)\<close> where \<open>f\<close> may throw: the first throw ends the map.\<close>

fun emap :: "('a \<Rightarrow> 'b js) \<Rightarrow> 'a list \<Rightarrow> 'b list js" where
  "emap f [] = Inr []"
| "emap f (x # xs) = ebind (f x) (\<lambda>y. ebind (emap f xs) (\<lambda>ys. Inr (y # ys)))"

lemma emap_Inr_conv: "emap f xs = Inr ys \<longleftrightarrow> map f xs = map Inr ys"
  by (induction xs arbitrary: ys) (auto simp: ebind_Inr_iff Cons_eq_map_conv)

lemma emap_total: "(\<And>x. x \<in> set xs \<Longrightarrow> f x = Inr (g x)) \<Longrightarrow> emap f xs = Inr (map g xs)"
  by (induction xs) auto

text \<open>\<open>xs.reduce((acc, x) => f(acc, x), z)\<close> where \<open>f\<close> may throw.\<close>

fun efold :: "('b \<Rightarrow> 'a \<Rightarrow> 'b js) \<Rightarrow> 'b \<Rightarrow> 'a list \<Rightarrow> 'b js" where
  "efold f z [] = Inr z"
| "efold f z (x # xs) = ebind (f z x) (\<lambda>y. efold f y xs)"

lemma efold_sum:
  assumes "\<And>x. x \<in> set xs \<Longrightarrow> h x = Some (v x)"
  shows "efold (\<lambda>acc x. case h x of None \<Rightarrow> Inl e | Some i \<Rightarrow> Inr (acc + i)) (z :: int) xs
    = Inr (z + (\<Sum>x \<leftarrow> xs. v x))"
  using assms by (induction xs arbitrary: z) (auto simp: add.assoc)

subsection \<open>Arrays\<close>

text \<open>\<open>xs[i]\<close> reads \<open>undefined\<close> past the end.\<close>

definition js_at :: "'a list \<Rightarrow> nat \<Rightarrow> 'a option" where
  "js_at xs i = (if i < length xs then Some (xs ! i) else None)"

lemma js_at_Nil [simp]: "js_at [] i = None"
  by (simp add: js_at_def)

lemma js_at_Cons_0 [simp]: "js_at (x # xs) 0 = Some x"
  by (simp add: js_at_def)

lemma js_at_Cons_Suc [simp]: "js_at (x # xs) (Suc i) = js_at xs i"
  by (simp add: js_at_def)

lemma js_at_Some_iff: "js_at xs i = Some x \<longleftrightarrow> i < length xs \<and> x = xs ! i"
  by (auto simp: js_at_def)

lemma js_at_mem: "js_at xs i = Some x \<Longrightarrow> x \<in> set xs"
  by (auto simp: js_at_Some_iff)

text \<open>\<open>slice(a, b)\<close> of a string or an array: negative positions count from the end, positions
  past the end are clamped, an empty range is empty.\<close>

definition js_slice :: "'a list \<Rightarrow> int \<Rightarrow> int \<Rightarrow> 'a list" where
  "js_slice xs a b =
     (let n = int (length xs);
          rel = (\<lambda>i. if i < 0 then max (n + i) 0 else min i n)
      in take (nat (rel b - rel a)) (drop (nat (rel a)) xs))"

definition js_slice_from :: "'a list \<Rightarrow> int \<Rightarrow> 'a list" where
  "js_slice_from xs a = js_slice xs a (int (length xs))"

lemma js_slice_prefix [js_simps]: "0 \<le> b \<Longrightarrow> js_slice xs 0 b = take (nat b) xs"
  by (auto simp: js_slice_def Let_def min_def)

lemma js_slice_from_drop [js_simps]: "0 \<le> a \<Longrightarrow> js_slice_from xs a = drop (nat a) xs"
  by (auto simp: js_slice_from_def js_slice_def Let_def min_def)

lemma js_slice_butlast [js_simps]: "js_slice xs 0 (- 1) = butlast xs"
  by (auto simp: js_slice_def Let_def max_def butlast_conv_take nat_diff_distrib)

lemma js_slice_from_last [js_simps]: "js_slice_from xs (- 1) = drop (length xs - 1) xs"
  by (auto simp: js_slice_from_def js_slice_def Let_def max_def nat_diff_distrib)

text \<open>\<open>xs.find(p)\<close>.\<close>

lemma find_Some_D: "find p xs = Some x \<Longrightarrow> p x \<and> x \<in> set xs"
  by (auto simp: find_Some_iff)

text \<open>\<open>new Map(pairs).get(k)\<close>: the last pair with a key wins.\<close>

definition js_map_get :: "('k \<times> 'v) list \<Rightarrow> 'k \<Rightarrow> 'v option" where
  "js_map_get kvs k = map_of (rev kvs) k"

lemma js_map_get_mem: "js_map_get kvs k = Some v \<Longrightarrow> (k, v) \<in> set kvs"
  by (auto simp: js_map_get_def dest: map_of_SomeD)

lemma js_map_get_distinct:
  "distinct (map fst kvs) \<Longrightarrow> (k, v) \<in> set kvs \<Longrightarrow> js_map_get kvs k = Some v"
  by (simp add: js_map_get_def rev_map [symmetric] distinct_map)

subsection \<open>Strings\<close>

definition js_startsWith :: "string \<Rightarrow> string \<Rightarrow> bool" where
  "js_startsWith s p \<longleftrightarrow> take (length p) s = p"

lemma js_startsWith_prefix: "js_startsWith s p \<longleftrightarrow> prefix p s"
  by (auto simp: js_startsWith_def prefix_def) (metis append_take_drop_id)

text \<open>\<open>s.includes(n)\<close>.\<close>

fun js_includes :: "string \<Rightarrow> string \<Rightarrow> bool" where
  "js_includes [] n = (n = [])"
| "js_includes (c # s) n = (js_startsWith (c # s) n \<or> js_includes s n)"

definition js_padStart :: "string \<Rightarrow> nat \<Rightarrow> char \<Rightarrow> string" where
  "js_padStart s n c = replicate (n - length s) c @ s"

lemma js_padStart_length [js_simps]: "length (js_padStart s n c) = max n (length s)"
  by (simp add: js_padStart_def)

text \<open>\<open>xs.join(sep)\<close>.\<close>

fun js_join :: "string \<Rightarrow> string list \<Rightarrow> string" where
  "js_join sep [] = []"
| "js_join sep [x] = x"
| "js_join sep (x # y # xs) = x @ sep @ js_join sep (y # xs)"

text \<open>\<open>s.split(c)\<close> on a one-character separator: \<open>n\<close> separators give \<open>n + 1\<close> pieces.\<close>

fun js_split :: "char \<Rightarrow> string \<Rightarrow> string list" where
  "js_split c [] = [[]]"
| "js_split c (x # xs) =
     (if x = c then [] # js_split c xs
      else case js_split c xs of [] \<Rightarrow> [[x]] | p # ps \<Rightarrow> (x # p) # ps)"

lemma js_split_nonempty [simp]: "js_split c s \<noteq> []"
  by (induction s) (auto split: list.splits)

text \<open>\<open>s.trim()\<close>, on the six ASCII white-space characters.\<close>

definition is_space :: "char \<Rightarrow> bool" where
  "is_space c \<longleftrightarrow> (of_char c :: nat) \<in> {9, 10, 11, 12, 13, 32}"

definition js_trim :: "string \<Rightarrow> string" where
  "js_trim s = rev (dropWhile is_space (rev (dropWhile is_space s)))"

lemma js_trim_id: "\<forall>c \<in> set s. \<not> is_space c \<Longrightarrow> js_trim s = s"
proof -
  assume "\<forall>c \<in> set s. \<not> is_space c"
  then have "\<And>t. set t = set s \<Longrightarrow> dropWhile is_space t = t"
    by (metis dropWhile_eq_self_iff hd_in_set)
  then show ?thesis by (simp add: js_trim_def)
qed

text \<open>\<open>toLowerCase\<close> and \<open>toUpperCase\<close>. Lower-casing covers the two scripts of the product's
  catalogues: ASCII, and the Cyrillic block U+0400 to U+042F in its two-byte UTF-8 form.\<close>

definition ascii_lower :: "char \<Rightarrow> char" where
  "ascii_lower c = (let n = of_char c :: nat in if 65 \<le> n \<and> n \<le> 90 then char_of (n + 32) else c)"

definition ascii_upper :: "char \<Rightarrow> char" where
  "ascii_upper c = (let n = of_char c :: nat in if 97 \<le> n \<and> n \<le> 122 then char_of (n - 32) else c)"

fun js_toLowerCase :: "string \<Rightarrow> string" where
  "js_toLowerCase [] = []"
| "js_toLowerCase [c] = [ascii_lower c]"
| "js_toLowerCase (c # d # s) =
     (let n = of_char d :: nat in
      if c = CHR 0xD0 \<and> 128 \<le> n \<and> n \<le> 143 then CHR 0xD1 # char_of (n + 16) # js_toLowerCase s
      else if c = CHR 0xD0 \<and> 144 \<le> n \<and> n \<le> 159 then CHR 0xD0 # char_of (n + 32) # js_toLowerCase s
      else if c = CHR 0xD0 \<and> 160 \<le> n \<and> n \<le> 175 then CHR 0xD1 # char_of (n - 32) # js_toLowerCase s
      else ascii_lower c # js_toLowerCase (d # s))"

definition js_toUpperCase :: "string \<Rightarrow> string" where
  "js_toUpperCase s = map ascii_upper s"

subsection \<open>Numbers: decimal text and BigInt\<close>

definition is_digit :: "char \<Rightarrow> bool" where
  "is_digit c \<longleftrightarrow> 48 \<le> (of_char c :: nat) \<and> (of_char c :: nat) \<le> 57"

definition digit_char :: "nat \<Rightarrow> char" where
  "digit_char d = char_of (48 + d)"

text \<open>The value of one digit in a radix, as \<open>BigInt\<close> reads it.\<close>

definition digit_val :: "nat \<Rightarrow> char \<Rightarrow> nat option" where
  "digit_val b c =
     (let n = of_char c :: nat;
          v = (if 48 \<le> n \<and> n \<le> 57 then n - 48
               else if 97 \<le> n \<and> n \<le> 102 then n - 87
               else if 65 \<le> n \<and> n \<le> 70 then n - 55
               else b)
      in if v < b then Some v else None)"

fun digits_acc :: "nat \<Rightarrow> nat \<Rightarrow> string \<Rightarrow> nat option" where
  "digits_acc b acc [] = Some acc"
| "digits_acc b acc (c # s) =
     (case digit_val b c of None \<Rightarrow> None | Some v \<Rightarrow> digits_acc b (b * acc + v) s)"

definition radix_digits :: "nat \<Rightarrow> string \<Rightarrow> nat option" where
  "radix_digits b s = (if s = [] then None else digits_acc b 0 s)"

text \<open>\<open>BigInt(s)\<close> of a string: white space trimmed, empty is zero, an optionally signed decimal,
  or an unsigned \<open>0x\<close>, \<open>0o\<close>, \<open>0b\<close> literal; anything else is a \<open>SyntaxError\<close>.\<close>

definition parse_bigint :: "string \<Rightarrow> int option" where
  "parse_bigint s =
     (let u = js_trim s; p = js_toLowerCase (take 2 u) in
      if u = [] then Some 0
      else if hd u = CHR ''-'' then map_option (\<lambda>n. - int n) (radix_digits 10 (tl u))
      else if hd u = CHR ''+'' then map_option int (radix_digits 10 (tl u))
      else if p = ''0x'' then map_option int (radix_digits 16 (drop 2 u))
      else if p = ''0o'' then map_option int (radix_digits 8 (drop 2 u))
      else if p = ''0b'' then map_option int (radix_digits 2 (drop 2 u))
      else map_option int (radix_digits 10 u))"

definition js_BigInt :: "string \<Rightarrow> int js" where
  "js_BigInt s = (case parse_bigint s of None \<Rightarrow> Inl SyntaxError | Some i \<Rightarrow> Inr i)"

text \<open>\<open>toString()\<close> of a \<open>BigInt\<close>.\<close>

fun show_nat :: "nat \<Rightarrow> string" where
  "show_nat n = (if n < 10 then [digit_char n] else show_nat (n div 10) @ [digit_char (n mod 10)])"

declare show_nat.simps [simp del]

definition show_int :: "int \<Rightarrow> string" where
  "show_int i = (if i < 0 then CHR ''-'' # show_nat (nat (- i)) else show_nat (nat i))"

lemma digit_char_code: "d < 10 \<Longrightarrow> (of_char (digit_char d) :: nat) = 48 + d"
  by (simp add: digit_char_def)

lemma digit_val_digit_char [simp]: "d < 10 \<Longrightarrow> digit_val 10 (digit_char d) = Some d"
  by (simp add: digit_val_def digit_char_code Let_def)

lemma is_digit_digit_char [simp]: "d < 10 \<Longrightarrow> is_digit (digit_char d)"
  by (simp add: is_digit_def digit_char_code)

lemma is_digit_not_space: "is_digit c \<Longrightarrow> \<not> is_space c"
  by (auto simp: is_digit_def is_space_def)

lemma js_trim_digits: "\<forall>c \<in> set s. is_digit c \<Longrightarrow> js_trim s = s"
  by (rule js_trim_id) (use is_digit_not_space in blast)

lemma show_nat_digits: "\<forall>c \<in> set (show_nat n). is_digit c"
proof (induction n rule: show_nat.induct)
  case (1 n)
  then show ?case by (subst show_nat.simps) auto
qed

lemma show_nat_nonempty [simp]: "show_nat n \<noteq> []"
  by (subst show_nat.simps) simp

lemma digits_acc_append:
  "digits_acc b acc (s @ t) = (case digits_acc b acc s of None \<Rightarrow> None | Some a \<Rightarrow> digits_acc b a t)"
  by (induction s arbitrary: acc) (auto split: option.splits)

lemma digits_acc_show_nat: "digits_acc 10 0 (show_nat n) = Some n"
proof (induction n rule: show_nat.induct)
  case (1 n)
  show ?case
  proof (cases "n < 10")
    case True
    then show ?thesis by (subst show_nat.simps) simp
  next
    case False
    then show ?thesis
      by (subst show_nat.simps) (simp add: digits_acc_append 1)
  qed
qed

lemma radix_digits_show_nat [simp]: "radix_digits 10 (show_nat n) = Some n"
  by (simp add: radix_digits_def digits_acc_show_nat)

lemma ascii_lower_fixed: "\<not> (65 \<le> (of_char c :: nat) \<and> (of_char c :: nat) \<le> 90) \<Longrightarrow> ascii_lower c = c"
  by (auto simp: ascii_lower_def Let_def)

lemma digit_lower: "is_digit c \<Longrightarrow> ascii_lower c = c"
  by (rule ascii_lower_fixed) (auto simp: is_digit_def)

lemma take2_digits_lower:
  "\<forall>c \<in> set s. is_digit c \<Longrightarrow> js_toLowerCase (take 2 s) = take 2 s"
  by (cases s; cases "tl s") (auto simp: digit_lower is_digit_def Let_def numeral_2_eq_2 take_Cons')

lemma parse_bigint_digits:
  assumes "\<forall>c \<in> set s. is_digit c" and "s \<noteq> []"
  shows "parse_bigint s = map_option int (radix_digits 10 s)"
proof -
  have trim: "js_trim s = s" by (rule js_trim_digits [OF assms(1)])
  have low: "js_toLowerCase (take 2 s) = take 2 s" by (rule take2_digits_lower [OF assms(1)])
  have hd: "is_digit (hd s)" using assms by simp
  then have no_sign: "hd s \<noteq> CHR ''-''" "hd s \<noteq> CHR ''+''" by (auto simp: is_digit_def)
  have "\<forall>c \<in> set (take 2 s). is_digit c" using assms(1) by (auto dest: in_set_takeD)
  then have "take 2 s \<noteq> ''0x''" "take 2 s \<noteq> ''0o''" "take 2 s \<noteq> ''0b''"
    by (auto simp: is_digit_def)
  then show ?thesis using assms(2) no_sign by (simp add: parse_bigint_def trim low Let_def)
qed

lemma parse_bigint_neg_digits:
  assumes "\<forall>c \<in> set s. is_digit c"
  shows "parse_bigint (CHR ''-'' # s) = map_option (\<lambda>n. - int n) (radix_digits 10 s)"
proof -
  have "js_trim (CHR ''-'' # s) = CHR ''-'' # s"
    by (rule js_trim_id) (use assms is_digit_not_space in \<open>auto simp: is_space_def\<close>)
  then show ?thesis by (simp add: parse_bigint_def Let_def)
qed

lemma parse_show_int [simp]: "parse_bigint (show_int i) = Some i"
  by (auto simp: show_int_def parse_bigint_digits parse_bigint_neg_digits show_nat_digits)

lemma js_BigInt_show [simp]: "js_BigInt (show_int i) = Inr i"
  by (simp add: js_BigInt_def)

lemma show_int_inj: "show_int i = show_int j \<longleftrightarrow> i = j"
  by (metis option.inject parse_show_int)

end
