(* ===== verification/Messages.thy ===== *)
theory Messages
  imports Js_Prelude
begin

section \<open>The message catalogues of i18n.ts\<close>

text \<open>
  \<open>src/web/src/i18n.ts\<close> holds one object per locale, from message keys to texts. Each is given
  here as an association list in the order of the source, cut into three runs of keys. Theory
  files are ASCII, so a text is spelled with \<open>en\<close> or \<open>ru\<close>, which compute its UTF-8 bytes:
  \<open>_\<close>, \<open>[\<close>, \<open>/\<close>, \<open>`\<close> and \<open>]\<close> stand for the em dash, the ellipsis, the middle dot and the two
  angle quotation marks; in \<open>ru\<close> a letter stands for the Cyrillic letter below and a run of
  Latin letters is put between \<open><\<close> and \<open>>\<close>.
\<close>

definition punct_bytes :: "char \<Rightarrow> string" where
  "punct_bytes c =
     (if c = CHR ''_'' then [CHR 0xE2, CHR 0x80, CHR 0x94]
      else if c = CHR ''['' then [CHR 0xE2, CHR 0x80, CHR 0xA6]
      else if c = CHR ''/'' then [CHR 0xC2, CHR 0xB7]
      else if c = CHR 0x60 then [CHR 0xC2, CHR 0xAB]
      else if c = CHR '']'' then [CHR 0xC2, CHR 0xBB]
      else [c])"

text \<open>The spellings of the Cyrillic letters, in alphabetical order from U+0410 and U+0430. The
  last letter of each row that has no capital in the catalogue is spelled by a control character
  that never occurs.\<close>

definition cyr_upper :: string where
  "cyr_upper = ''ABVGDEJZIYKLMNOPRSTUFHCQWX'' @ [CHR 0x01, CHR 0x02, CHR 0x03] @ ''!*#''"

definition cyr_lower :: string where
  "cyr_lower = ''abvgdejziyklmnoprstufhcqwx+|~=^@''"

fun index_from :: "nat \<Rightarrow> char \<Rightarrow> string \<Rightarrow> nat option" where
  "index_from i c [] = None"
| "index_from i c (d # s) = (if c = d then Some i else index_from (Suc i) c s)"

text \<open>The two UTF-8 bytes of a code point between U+0080 and U+07FF.\<close>

definition utf8_two :: "nat \<Rightarrow> string" where
  "utf8_two n = [char_of (192 + n div 64), char_of (128 + n mod 64)]"

definition cyr_bytes :: "char \<Rightarrow> string" where
  "cyr_bytes c =
     (if c = CHR ''$'' then utf8_two 1105
      else case index_from 1040 c cyr_upper of
        Some n \<Rightarrow> utf8_two n
      | None \<Rightarrow> (case index_from 1072 c cyr_lower of
          Some n \<Rightarrow> utf8_two n
        | None \<Rightarrow> punct_bytes c))"

definition en :: "string \<Rightarrow> string" where
  "en s = concat (map punct_bytes s)"

fun ru_text :: "bool \<Rightarrow> string \<Rightarrow> string" where
  "ru_text latin [] = []"
| "ru_text True (c # s) = (if c = CHR ''>'' then ru_text False s else punct_bytes c @ ru_text True s)"
| "ru_text False (c # s) = (if c = CHR ''<'' then ru_text True s else cyr_bytes c @ ru_text False s)"

definition ru :: "string \<Rightarrow> string" where
  "ru s = ru_text False s"

subsection \<open>The catalogues\<close>

definition messages_en_1 :: "(string \<times> string) list" where
  "messages_en_1 =
    [(''app.title'', en ''Veekst''),
     (''app.tagline'', en ''Management reporting for owner-run companies.''),
     (''a11y.skipToContent'', en ''Skip to content''),
     (''notFound.title'', en ''Page not found''),
     (''notFound.detail'', en ''There is nothing at this address.''),
     (''notFound.cta'', en ''Back to Veekst''),
     (''signIn.heading'', en ''Sign in''),
     (''signIn.google'', en ''Continue with Google''),
     (''signIn.blurb'', en ''Sign-in is by Google account.''),
     (''signedIn.greeting'', en ''Signed in''),
     (''signedIn.signOut'', en ''Sign out''),
     (''error.auth_not_configured'', en ''Sign-in is not configured on this server.''),
     (''error.invalid_flow'', en ''That sign-in link has expired or was already used. Please try again.''),
     (''error.invalid_token'', en ''Google could not be verified. Please try again.''),
     (''error.unverified_email'', en ''Your Google account's email address is not verified.''),
     (''error.email_taken'', en ''That email address already belongs to another account.''),
     (''error.internal_error'', en ''Something went wrong. Please try again.''),
     (''error.unknown'', en ''Sign-in failed. Please try again.''),
     (''error.org_name_required'', en ''Enter a name for the organisation.''),
     (''error.org_entity_name_required'', en ''Enter a name for the entity.''),
     (''error.org_unsupported_country'', en ''That country is not supported yet.''),
     (''error.org_unsupported_currency'', en ''That currency is not supported yet.''),
     (''error.org_already_a_member'', en ''You already belong to an organisation.''),
     (''firstRun.heading'', en ''Set up your organisation''),
     (''firstRun.blurb'', en ''One organisation, one entity, to start. You can invite others and add more later.''),
     (''firstRun.name'', en ''Organisation name''),
     (''firstRun.entityName'', en ''Entity name''),
     (''firstRun.market'', en ''Country and currency''),
     (''firstRun.market.by'', en ''Belarus _ BYN''),
     (''firstRun.market.kz'', en ''Kazakhstan _ KZT''),
     (''firstRun.market.pl'', en ''Poland _ PLN''),
     (''firstRun.submit'', en ''Create organisation''),
     (''firstRun.submitting'', en ''Creating[''),
     (''state.batch.pending'', en ''Pending''),
     (''state.batch.parsing'', en ''Parsing''),
     (''state.batch.rejected'', en ''Rejected''),
     (''state.batch.imported'', en ''Imported''),
     (''state.report.ready'', en ''Ready''),
     (''state.report.partial'', en ''Partial''),
     (''state.report.blocked'', en ''Blocked''),
     (''state.row.classified'', en ''Classified''),
     (''state.row.needsReview'', en ''Needs review''),
     (''state.row.blocked'', en ''Blocked''),
     (''nav.primary'', en ''Main''),
     (''nav.home'', en ''Home''),
     (''nav.imports'', en ''Imports''),
     (''nav.review'', en ''Review''),
     (''nav.reports'', en ''Reports''),
     (''nav.awaitingReview'', en ''awaiting review''),
     (''topbar.organisation'', en ''Organisation''),
     (''topbar.entity'', en ''Entity''),
     (''topbar.language'', en ''Language''),
     (''topbar.theme'', en ''Theme''),
     (''action.retry'', en ''Try again''),
     (''empty.imports.title'', en ''No files imported yet''),
     (''empty.imports.detail'', en ''Upload a bank statement or a ledger export to begin. Every file is validated before anything is stored, and a file that fails stores nothing.''),
     (''empty.review.title'', en ''Nothing to review''),
     (''empty.review.detail'', en ''Transactions the engine could not classify confidently appear here, grouped by counterparty. An empty queue means every imported row has a category.''),
     (''empty.reports.title'', en ''No report yet''),
     (''empty.reports.detail'', en ''The Management P&L is built from imported transactions. Import a bank statement or a ledger export and the report opens here.''),
     (''empty.batch.title'', en ''Batch not found''),
     (''empty.batch.detail'', en ''This import no longer exists, or it belongs to another organisation.''),
     (''chart.expenses.title'', en ''Top expense categories''),
     (''chart.expenses.note'', en ''Sections that cost money over the range, largest first.''),
     (''chart.cashflow.title'', en ''Money in and out''),
     (''chart.cashflow.note'', en ''Money that actually moved, month by month _ including what the P&L leaves out. Both bars are sizes: out is drawn as what left, not as a negative. Transfers between your own accounts are counted apart, in the reconciliation strip.''),
     (''chart.cashflow.net'', en ''Net movement''),
     (''chart.moneyflow.title'', en ''Money flow''),
     (''chart.moneyflow.note'', en ''Where the revenue for this range went.''),
     (''chart.moneyflow.unavailable'', en ''Nothing to draw: net sales are zero for this range, so there is no inflow for the expense side to come out of. The figures are below _ and a report with costs but no revenue is usually a classification problem, not an empty month.''),
     (''chart.moneyflow.totalIn'', en ''Total in''),
     (''chart.moneyflow.other'', en ''Other''),
     (''chart.netresult.title'', en ''Net result by month''),
     (''chart.netresult.note'', en ''Profit or loss in each month of the range. A loss is drawn as its size, in the loss colour _ this chart's value axis starts at zero.''),
     (''chart.netresult.series'', en ''Net result''),
     (''chart.netresult.profit'', en ''Profit''),
     (''chart.netresult.loss'', en ''Loss''),
     (''chart.revenueExpense.title'', en ''Revenue against expenses''),
     (''chart.revenueExpense.note'', en ''The P&L's own revenue and costs, month by month.''),
     (''chart.revenueExpense.revenue'', en ''Revenue''),
     (''chart.revenueExpense.expenses'', en ''Expenses''),
     (''chart.trend.title'', en ''Category trend''),
     (''chart.trend.note'', en ''Each section over the range, each on its own scale.''),
     (''chart.view.chart'', en ''Chart''),
     (''chart.view.table'', en ''Table''),
     (''landing.cta'', en ''Sign in''),
     (''landing.cta.secondary'', en ''See the report''),
     (''landing.nav.how'', en ''How it works''),
     (''landing.nav.product'', en ''The report''),
     (''landing.promise'', en ''Know what your business actually earned.''),
     (''landing.sub'', en ''Veekst turns your bank statements and your accountant's ledger into a management P&L you can open, line by line, down to the transaction.''),
     (''landing.problem.title'', en ''Your bank and your accountant disagree, and both are right''),
     (''landing.problem.body'', en ''A bank statement says when money moved. A ledger says when it was earned. Neither is a management report, and reconciling them by hand each month is where the evening goes _ so the numbers arrive late, or they arrive rounded, or they arrive as a feeling.''),
     (''landing.how.title'', en ''Three steps, and the report opens''),
     (''landing.how.1.title'', en ''Upload what you already have''),
     (''landing.how.1.body'', en ''Bank exports and ledger exports, CSV or XLSX. Every file is validated before anything is stored _ and a file that fails stores nothing, with the errors listed by the line number in your original file.''),
     (''landing.how.2.title'', en ''The engine classifies it''),
     (''landing.how.2.body'', en ''Deterministic rules first, and your own corrections remembered. Anything it is not sure about goes to a review queue instead of being guessed.''),
     (''landing.how.3.title'', en ''Read the report''),
     (''landing.how.3.body'', en ''Categories down, months across. Every figure opens to the transactions behind it, each carrying the rule that classified it and how confident it was.''),
     (''landing.product.title'', en ''This is the report''),
     (''landing.product.body'', en ''Not a screenshot _ the same component the application renders, on sample figures. The basis is stated where you read it, a line that cannot be computed honestly says so instead of guessing, and the reconciliation proves nothing was dropped.''),
     (''landing.close.title'', en ''See it on your own numbers''),
     (''landing.rights'', en ''Management reporting for owner-run companies.''),
     (''home.title'', en ''Home''),
     (''home.imports.count'', en ''Batches''),
     (''home.imports.latest'', en ''Latest'')]"

definition messages_ru_1 :: "(string \<times> string) list" where
  "messages_ru_1 =
    [(''app.title'', ru ''<Veekst>''),
     (''app.tagline'', ru ''Upravlenqeska@ otq$tnost~ dl@ sobstvennikov biznesa.''),
     (''a11y.skipToContent'', ru ''Pereyti k soderjimomu''),
     (''notFound.title'', ru ''Stranica ne naydena''),
     (''notFound.detail'', ru ''Po =tomu adresu niqego net.''),
     (''notFound.cta'', ru ''Vernut~s@ v <Veekst>''),
     (''signIn.heading'', ru ''Vhod''),
     (''signIn.google'', ru ''Voyti qerez <Google>''),
     (''signIn.blurb'', ru ''Vhod v|poln@ets@ qerez akkaunt <Google.>''),
     (''signedIn.greeting'', ru ''V| vowli''),
     (''signedIn.signOut'', ru ''V|yti''),
     (''error.auth_not_configured'', ru ''Vhod ne nastroen na =tom servere.''),
     (''error.invalid_flow'', ru ''Ss|lka dl@ vhoda ustarela ili uje ispol~zovana. Poprobuyte ex$ raz.''),
     (''error.invalid_token'', ru ''Ne udalos~ proverit~ otvet <Google. >Poprobuyte ex$ raz.''),
     (''error.unverified_email'', ru ''Adres =lektronnoy poqt| vawego akkaunta <Google >ne podtverjd$n.''),
     (''error.email_taken'', ru ''!tot adres =lektronnoy poqt| uje prinadlejit drugomu akkauntu.''),
     (''error.internal_error'', ru ''Qto-to powlo ne tak. Poprobuyte ex$ raz.''),
     (''error.unknown'', ru ''Ne udalos~ voyti. Poprobuyte ex$ raz.''),
     (''error.org_name_required'', ru ''Vvedite nazvanie organizacii.''),
     (''error.org_entity_name_required'', ru ''Vvedite nazvanie ^ridiqeskogo lica.''),
     (''error.org_unsupported_country'', ru ''!ta strana poka ne podderjivaets@.''),
     (''error.org_unsupported_currency'', ru ''!ta val^ta poka ne podderjivaets@.''),
     (''error.org_already_a_member'', ru ''V| uje sostoite v organizacii.''),
     (''firstRun.heading'', ru ''Nastroyte organizaci^''),
     (''firstRun.blurb'', ru ''Odna organizaci@, odno ^ridiqeskoe lico _ dl@ naqala. Pozje mojno priglasit~ drugih i dobavit~ bol~we.''),
     (''firstRun.name'', ru ''Nazvanie organizacii''),
     (''firstRun.entityName'', ru ''Nazvanie ^ridiqeskogo lica''),
     (''firstRun.market'', ru ''Strana i val^ta''),
     (''firstRun.market.by'', ru ''Belarus~ _ <BYN>''),
     (''firstRun.market.kz'', ru ''Kazahstan _ <KZT>''),
     (''firstRun.market.pl'', ru ''Pol~wa _ <PLN>''),
     (''firstRun.submit'', ru ''Sozdat~ organizaci^''),
     (''firstRun.submitting'', ru ''Sozdanie[''),
     (''state.batch.pending'', ru ''Ojidaet''),
     (''state.batch.parsing'', ru ''Obrabotka''),
     (''state.batch.rejected'', ru ''Otklon$n''),
     (''state.batch.imported'', ru ''Importirovan''),
     (''state.report.ready'', ru ''Gotov''),
     (''state.report.partial'', ru ''Qastiqno''),
     (''state.report.blocked'', ru ''Zablokirovan''),
     (''state.row.classified'', ru ''Klassificirovano''),
     (''state.row.needsReview'', ru ''Na proverku''),
     (''state.row.blocked'', ru ''Zablokirovano''),
     (''nav.primary'', ru ''Osnovnoe''),
     (''nav.home'', ru ''Glavna@''),
     (''nav.imports'', ru ''Import''),
     (''nav.review'', ru ''Proverka''),
     (''nav.reports'', ru ''Otq$t|''),
     (''nav.awaitingReview'', ru ''na proverke''),
     (''topbar.organisation'', ru ''Organizaci@''),
     (''topbar.entity'', ru ''*r. lico''),
     (''topbar.language'', ru ''#z|k''),
     (''topbar.theme'', ru ''Tema''),
     (''action.retry'', ru ''Povtorit~''),
     (''empty.imports.title'', ru ''Fayl| ex$ ne importirovan|''),
     (''empty.imports.detail'', ru ''Zagruzite bankovsku^ v|pisku ili v|gruzku iz uq$ta. Kajd|y fayl prover@ets@ do sohraneni@: fayl s owibkoy ne sohran@et niqego.''),
     (''empty.review.title'', ru ''Neqego prover@t~''),
     (''empty.review.detail'', ru ''Zdes~ po@vl@^ts@ operacii, kotor|e dvijok ne smog klassificirovat~ uverenno, sgruppirovann|e po kontragentu. Pusta@ oqered~ oznaqaet, qto u kajdoy importirovannoy stroki est~ kategori@.''),
     (''empty.reports.title'', ru ''Otq$ta poka net''),
     (''empty.reports.detail'', ru ''Upravlenqeskiy OPiU stroits@ iz importirovann|h operaciy. Zagruzite v|pisku ili v|gruzku _ i otq$t otkroets@ zdes~.''),
     (''empty.batch.title'', ru ''Paket ne nayden''),
     (''empty.batch.detail'', ru ''!tot import bol~we ne suxestvuet ili prinadlejit drugoy organizacii.''),
     (''chart.expenses.title'', ru ''Osnovn|e stat~i rashodov''),
     (''chart.expenses.note'', ru ''Stat~i, kotor|e stoili deneg za period, ot krupn|h k melkim.''),
     (''chart.cashflow.title'', ru ''Postupleni@ i spisani@''),
     (''chart.cashflow.note'', ru ''Den~gi, kotor|e real~no dvigalis~, po mes@cam _ vkl^qa@ to, qto ne popadaet v OPiU. Oba stolbca _ veliqin|: spisani@ narisovan| tem, skol~ko uwlo, a ne minusom. Perevod| mejdu svoimi sqetami sqita^ts@ otdel~no, v bloke sverki.''),
     (''chart.cashflow.net'', ru ''Qistoe dvijenie''),
     (''chart.moneyflow.title'', ru ''Dvijenie deneg''),
     (''chart.moneyflow.note'', ru ''Kuda uwla v|ruqka za =tot period.''),
     (''chart.moneyflow.unavailable'', ru ''Risovat~ neqego: v|ruqka za period nuleva@, to est~ net pritoka, iz kotorogo v|hodit rashodna@ storona. Cifr| nije _ a otq$t s rashodami i bez v|ruqki ob|qno znaqit problemu s klassifikaciey, a ne pustoy mes@c.''),
     (''chart.moneyflow.totalIn'', ru ''Vsego postupilo''),
     (''chart.moneyflow.other'', ru ''Proqee''),
     (''chart.netresult.title'', ru ''Itog po mes@cam''),
     (''chart.netresult.note'', ru ''Prib|l~ ili ub|tok v kajdom mes@ce perioda. Ub|tok risuets@ svoey veliqinoy, cvetom ub|tka _ os~ znaqeniy zdes~ naqinaets@ s nul@.''),
     (''chart.netresult.series'', ru ''Itog''),
     (''chart.netresult.profit'', ru ''Prib|l~''),
     (''chart.netresult.loss'', ru ''Ub|tok''),
     (''chart.revenueExpense.title'', ru ''V|ruqka i rashod|''),
     (''chart.revenueExpense.note'', ru ''V|ruqka i rashod| po OPiU, pomes@qno.''),
     (''chart.revenueExpense.revenue'', ru ''V|ruqka''),
     (''chart.revenueExpense.expenses'', ru ''Rashod|''),
     (''chart.trend.title'', ru ''Dinamika po kategori@m''),
     (''chart.trend.note'', ru ''Kajda@ stat~@ za period, kajda@ v svo$m maswtabe.''),
     (''chart.view.chart'', ru ''Grafik''),
     (''chart.view.table'', ru ''Tablica''),
     (''landing.cta'', ru ''Voyti''),
     (''landing.cta.secondary'', ru ''Smotret~ otq$t''),
     (''landing.nav.how'', ru ''Kak =to rabotaet''),
     (''landing.nav.product'', ru ''Otq$t''),
     (''landing.promise'', ru ''Uznayte, skol~ko biznes zarabotal na samom dele.''),
     (''landing.sub'', ru ''<Veekst >prevraxaet bankovskie v|piski i uq$tn|e dann|e buhgaltera v upravlenqeskiy otq$t, kotor|y mojno raskr|t~ postroqno _ vplot~ do operacii.''),
     (''landing.problem.title'', ru ''Bank i buhgalter protivoreqat drug drugu, i oba prav|''),
     (''landing.problem.body'', ru ''V|piska pokaz|vaet, kogda den~gi priwli. Uq$t pokaz|vaet, kogda oni zarabotan|. Ni to ni drugoe ne @vl@ets@ upravlenqeskim otq$tom, a sver@t~ ih vruqnu^ kajd|y mes@c _ =to poter@nn|y veqer. Po=tomu cifr| prihod@t pozdno, okrugl$nno ili na urovne oxuxeniy.''),
     (''landing.how.title'', ru ''Tri waga _ i otq$t otkr|t''),
     (''landing.how.1.title'', ru ''Zagruzite to, qto uje est~''),
     (''landing.how.1.body'', ru ''Bankovskie i uq$tn|e v|gruzki, <CSV >ili <XLSX. >Kajd|y fayl prover@ets@ do sohraneni@: fayl s owibkoy ne sohran@et niqego, a owibki pereqislen| po nomeram strok vawego ishodnogo fayla.''),
     (''landing.how.2.title'', ru ''Dvijok klassificiruet dann|e''),
     (''landing.how.2.body'', ru ''Snaqala determinirovann|e pravila, zatem _ zapomnenn|e vawi ispravleni@. Vs$, v q$m dvijok ne uveren, popadaet v oqered~ proverki, a ne ugad|vaets@.''),
     (''landing.how.3.title'', ru ''Qitayte otq$t''),
     (''landing.how.3.body'', ru ''Kategorii po strokam, mes@c| po stolbcam. L^ba@ summa raskr|vaets@ do operaciy, i kajda@ nes$t pravilo, kotoroe e$ klassificirovalo, i uverennost~.''),
     (''landing.product.title'', ru ''Vot takoy otq$t''),
     (''landing.product.body'', ru ''Ne skrinwot _ tot je komponent, qto renderit prilojenie, na demonstracionn|h dann|h. Metod uq$ta ukazan tam, gde v| qitaete, stroka, kotoru^ nel~z@ posqitat~ qestno, govorit ob =tom vmesto dogadki, a sverka dokaz|vaet, qto niqego ne poter@no.''),
     (''landing.close.title'', ru ''Posmotrite na svoih dann|h''),
     (''landing.rights'', ru ''Upravlenqeska@ otq$tnost~ dl@ sobstvennikov biznesa.''),
     (''home.title'', ru ''Glavna@''),
     (''home.imports.count'', ru ''Importirovano''),
     (''home.imports.latest'', ru ''Posledniy'')]"

definition messages_en_2 :: "(string \<times> string) list" where
  "messages_en_2 =
    [(''home.review.awaiting'', en ''Awaiting review''),
     (''home.reports.net'', en ''Net result''),
     (''home.account.title'', en ''Account''),
     (''imports.title'', en ''Imports''),
     (''imports.upload'', en ''Upload a file''),
     (''imports.chooseSource'', en ''Where is this file from?''),
     (''imports.source.ledger'', en ''Ledger''),
     (''imports.source.bank'', en ''Bank''),
     (''imports.sourceNote'', en ''This decides the accounting basis and cannot be read from the file. It is not optional.''),
     (''imports.col.file'', en ''File''),
     (''imports.col.source'', en ''Source''),
     (''imports.col.state'', en ''State''),
     (''imports.col.period'', en ''Period''),
     (''imports.col.uploaded'', en ''Uploaded''),
     (''imports.counts.imported'', en ''Rows imported''),
     (''imports.counts.duplicates'', en ''Duplicates skipped''),
     (''imports.counts.transfers'', en ''Internal transfers''),
     (''imports.counts.matches'', en ''Matches proposed''),
     (''batch.rejected.balance_mismatch'', en ''Opening balance plus movements does not equal the declared closing balance. Nothing from this file was stored.''),
     (''batch.errors.title'', en ''Validation errors''),
     (''batch.errors.line'', en ''Line''),
     (''batch.errors.download'', en ''Download the list''),
     (''batch.balance.title'', en ''Balance check''),
     (''batch.balance.opening'', en ''Opening''),
     (''batch.balance.movements'', en ''Movements''),
     (''batch.balance.closing'', en ''Computed closing''),
     (''batch.balance.declared'', en ''Declared closing''),
     (''batch.rows.title'', en ''Rows''),
     (''batch.rows.category'', en ''Category''),
     (''batch.rows.unclassified'', en ''Unclassified''),
     (''error.amount_unparseable'', en ''The amount could not be read as a number.''),
     (''error.date_implausible'', en ''The date does not exist.''),
     (''error.currency_unknown'', en ''Not a valid ISO-4217 currency code.''),
     (''error.debit_and_credit_both_set'', en ''Debit and credit are both filled in.''),
     (''error.description_missing'', en ''The description is empty.''),
     (''error.upload_missing'', en ''The file never reached us. Please upload it again.''),
     (''error.file_too_large'', en ''This file is larger than the 25 MB limit.''),
     (''error.object_store_not_configured'', en ''File upload is not configured on this server.''),
     (''error.invalid_argument'', en ''That request was not valid.''),
     (''error.batch_not_found'', en ''This import no longer exists, or it belongs to another organisation.''),
     (''error.not_a_member'', en ''You do not have access to that organisation.''),
     (''error.replacement_character'', en ''This file contains corrupted text. Re-export it and try again.''),
     (''error.account_unresolved'', en ''This file's account could not be matched to one on file.''),
     (''error.balance_mismatch'', en ''Opening balance plus movements does not equal the declared closing balance.''),
     (''error.row_count_mismatch'', en ''The number of rows does not match what the file declares.''),
     (''error.period_gap'', en ''A row falls outside the period this file declares.''),
     (''error.mixed_currency'', en ''This account is on file in a different currency.''),
     (''error.duplicate_bank_reference'', en ''The same posting appears twice in this file.''),
     (''validation.outcome.valid'', en ''Valid''),
     (''validation.outcome.valid_with_warnings'', en ''Valid, with warnings''),
     (''validation.outcome.rejected'', en ''Rejected''),
     (''error.validation_not_found'', en ''This import has not been validated, or it belongs to another organisation.''),
     (''error.override_reason_too_short'', en ''Write at least ten characters explaining the override.''),
     (''error.override_requires_approver_role'', en ''Only an owner, admin or approver may override a validation warning.''),
     (''error.already_overridden'', en ''This import was already overridden.''),
     (''error.override_only_over_warnings'', en ''A file with errors cannot be overridden _ only one with warnings can.''),
     (''error.already_imported'', en ''This file has already been imported.''),
     (''error.transfer_not_found'', en ''This transfer no longer exists, or belongs to another organisation.''),
     (''dedup.level.D2'', en ''Duplicate within this file''),
     (''dedup.level.D3'', en ''Already imported previously''),
     (''dedup.transfer.active'', en ''Excluded as a transfer between your own accounts''),
     (''dedup.transfer.dismissed'', en ''Included''),
     (''error.review_forbidden'', en ''You do not have permission to resolve this group.''),
     (''error.review_outcome_required'', en ''Choose approve, transfer or not in P&L.''),
     (''error.review_category_required'', en ''Choose a category before approving.''),
     (''error.review_category_not_allowed'', en ''A transfer or not-in-P&L decision does not take a category.''),
     (''error.review_unknown_category'', en ''That category no longer exists. Refresh and try again.''),
     (''error.review_group_is_empty'', en ''This group has already been resolved.''),
     (''error.review_decision_already_undone'', en ''This decision was already undone.''),
     (''error.review_already_decided'', en ''Somebody else already resolved this group.''),
     (''review.title'', en ''Review''),
     (''review.remaining'', en ''remaining''),
     (''review.suggested'', en ''Suggested''),
     (''review.legend'', en ''Keys''),
     (''review.key.digit'', en ''open a section or pick a category''),
     (''review.key.enter'', en ''approve this counterparty''),
     (''review.key.transfer'', en ''internal transfer''),
     (''review.key.notPnl'', en ''not in the P&L''),
     (''review.key.move'', en ''next / previous''),
     (''review.key.clear'', en ''clear''),
     (''review.key.back'', en ''up a level''),
     (''review.tree.root'', en ''All categories''),
     (''review.side.expense'', en ''Expense categories: money went out to this counterparty.''),
     (''review.side.income'', en ''Income categories: money came in from this counterparty.''),
     (''review.side.showAll'', en ''Show all categories''),
     (''review.side.showMatching'', en ''Show only the matching side''),
     (''review.selected'', en ''Selected''),
     (''review.transactions'', en ''Transactions''),
     (''review.groupOf'', en ''of''),
     (''review.blurb'', en ''Classify this counterparty once and every transaction from them -- past and future -- is classified the same way.''),
     (''review.search.placeholder'', en ''Filter categories''),
     (''review.search.empty'', en ''No category matches''),
     (''review.action.approve'', en ''Approve''),
     (''review.action.transfer'', en ''Mark as transfer''),
     (''review.action.notPnl'', en ''Not in P&L''),
     (''report.title'', en ''Management P&L''),
     (''report.tab.table'', en ''Table''),
     (''report.tab.charts'', en ''Charts''),
     (''report.category'', en ''Category''),
     (''report.total'', en ''Total''),
     (''report.percentOfRevenue'', en ''% of revenue''),
     (''report.basis.cash'', en ''Cash-basis''),
     (''report.basis.accrual'', en ''Accrual''),
     (''report.basis.note'', en ''derived from the source of the data, not chosen''),
     (''report.period.from'', en ''From''),
     (''report.period.to'', en ''To''),
     (''report.blocked'', en ''Blocked''),
     (''report.blocked.mixed_basis'', en ''This entity has both bank and ledger imports, with no confirmed match between them. Computing a report would count an invoice and its payment twice, so none is shown until they are reconciled.''),
     (''report.bucket.unclassified'', en ''Unclassified''),
     (''report.bucket.non_pnl'', en ''Excluded, non-P&L''),
     (''report.bucket.unallocated'', en ''Unallocated''),
     (''report.bucket.other_basis'', en ''Other basis''),
     (''line.01'', en ''Net sales''),
     (''line.02'', en ''Cost of sales'')]"

definition messages_ru_2 :: "(string \<times> string) list" where
  "messages_ru_2 =
    [(''home.review.awaiting'', ru ''Na proverke''),
     (''home.reports.net'', ru ''Finansov|y rezul~tat''),
     (''home.account.title'', ru ''Akkaunt''),
     (''imports.title'', ru ''Import''),
     (''imports.upload'', ru ''Zagruzit~ fayl''),
     (''imports.chooseSource'', ru ''Otkuda =tot fayl?''),
     (''imports.source.ledger'', ru ''Uq$t''),
     (''imports.source.bank'', ru ''Bank''),
     (''imports.sourceNote'', ru ''Opredel@et metod uq$ta i ne mojet b|t~ proqitan iz fayla. Ukazanie ob@zatel~no.''),
     (''imports.col.file'', ru ''Fayl''),
     (''imports.col.source'', ru ''Istoqnik''),
     (''imports.col.state'', ru ''Status''),
     (''imports.col.period'', ru ''Period''),
     (''imports.col.uploaded'', ru ''Zagrujen''),
     (''imports.counts.imported'', ru ''Strok importirovano''),
     (''imports.counts.duplicates'', ru ''Dublikatov propuxeno''),
     (''imports.counts.transfers'', ru ''Vnutrennih perevodov''),
     (''imports.counts.matches'', ru ''Predlojeno sopostavleniy''),
     (''batch.rejected.balance_mismatch'', ru ''Vhod@xiy ostatok pl^s oborot| ne ravn| za@vlennomu ishod@xemu ostatku. Iz =togo fayla niqego ne sohraneno.''),
     (''batch.errors.title'', ru ''Owibki proverki''),
     (''batch.errors.line'', ru ''Stroka''),
     (''batch.errors.download'', ru ''Skaqat~ spisok''),
     (''batch.balance.title'', ru ''Proverka balansa''),
     (''batch.balance.opening'', ru ''Vhod@xiy ostatok''),
     (''batch.balance.movements'', ru ''Oborot|''),
     (''batch.balance.closing'', ru ''Rasq$tn|y ostatok''),
     (''batch.balance.declared'', ru ''Za@vlenn|y ostatok''),
     (''batch.rows.title'', ru ''Stroki''),
     (''batch.rows.category'', ru ''Kategori@''),
     (''batch.rows.unclassified'', ru ''Ne klassificirovano''),
     (''error.amount_unparseable'', ru ''Summu ne udalos~ proqitat~ kak qislo.''),
     (''error.date_implausible'', ru ''Takoy dat| ne suxestvuet.''),
     (''error.currency_unknown'', ru ''Nedopustim|y kod val^t| <ISO-4217.>''),
     (''error.debit_and_credit_both_set'', ru ''Zapolnen| i debet, i kredit.''),
     (''error.description_missing'', ru ''Opisanie pustoe.''),
     (''error.upload_missing'', ru ''Fayl ne b|l poluqen. Pojaluysta, zagruzite ego snova.''),
     (''error.file_too_large'', ru ''Fayl prev|waet ograniqenie v 25 MB.''),
     (''error.object_store_not_configured'', ru ''Zagruzka faylov ne nastroena na =tom servere.''),
     (''error.invalid_argument'', ru ''Nekorrektn|y zapros.''),
     (''error.batch_not_found'', ru ''!tot import bol~we ne suxestvuet ili prinadlejit drugoy organizacii.''),
     (''error.not_a_member'', ru ''U vas net dostupa k =toy organizacii.''),
     (''error.replacement_character'', ru ''Fayl soderjit povrejd$nn|y tekst. !ksportiruyte ego zanovo i povtorite pop|tku.''),
     (''error.account_unresolved'', ru ''Ne udalos~ sopostavit~ sq$t iz =togo fayla s uje ime^xims@.''),
     (''error.balance_mismatch'', ru ''Vhod@xiy ostatok pl^s oborot| ne ravn| za@vlennomu ishod@xemu ostatku.''),
     (''error.row_count_mismatch'', ru ''Koliqestvo strok ne sovpadaet s za@vlenn|m v fayle.''),
     (''error.period_gap'', ru ''Est~ stroka vne perioda, za@vlennogo v fayle.''),
     (''error.mixed_currency'', ru ''!tot sq$t uje qislits@ v drugoy val^te.''),
     (''error.duplicate_bank_reference'', ru ''Odna i ta je provodka vstreqaets@ v fayle dvajd|.''),
     (''validation.outcome.valid'', ru ''Korrektno''),
     (''validation.outcome.valid_with_warnings'', ru ''Korrektno, s zameqani@mi''),
     (''validation.outcome.rejected'', ru ''Otkloneno''),
     (''error.validation_not_found'', ru ''!tot import ex$ ne proveren libo prinadlejit drugoy organizacii.''),
     (''error.override_reason_too_short'', ru ''Ukajite ne menee des@ti simvolov, po@sn@^xih rewenie ob iskl^qenii.''),
     (''error.override_requires_approver_role'', ru ''Iskl^qit~ preduprejdenie mojet tol~ko vladelec, administrator ili utverjda^xiy.''),
     (''error.already_overridden'', ru ''!to rewenie ob iskl^qenii uje b|lo prin@to ranee.''),
     (''error.override_only_over_warnings'', ru ''Fayl s owibkami nel~z@ iskl^qit~ iz proverki _ tol~ko fayl s zameqani@mi.''),
     (''error.already_imported'', ru ''!tot fayl uje b|l importirovan.''),
     (''error.transfer_not_found'', ru ''!tot perevod bol~we ne suxestvuet libo prinadlejit drugoy organizacii.''),
     (''dedup.level.D2'', ru ''Dubliruets@ vnutri =togo fayla''),
     (''dedup.level.D3'', ru ''Uje b|l importirovan ranee''),
     (''dedup.transfer.active'', ru ''Iskl^qeno kak perevod mejdu vawimi sqetami''),
     (''dedup.transfer.dismissed'', ru ''Uqteno''),
     (''error.review_forbidden'', ru ''U vas net prav dl@ reweni@ po =toy gruppe.''),
     (''error.review_outcome_required'', ru ''V|berite: utverdit~, perevod ili ne v OPiU.''),
     (''error.review_category_required'', ru ''V|berite kategori^ pered utverjdeniem.''),
     (''error.review_category_not_allowed'', ru ''Perevod ili rewenie `ne v OPiU] ne prinimaet kategori^.''),
     (''error.review_unknown_category'', ru ''!ta kategori@ bol~we ne suxestvuet. Obnovite stranicu i poprobuyte snova.''),
     (''error.review_group_is_empty'', ru ''!ta gruppa uje rewena.''),
     (''error.review_decision_already_undone'', ru ''!to rewenie uje otmeneno.''),
     (''error.review_already_decided'', ru ''Kto-to drugoy uje rewil po =toy gruppe.''),
     (''review.title'', ru ''Proverka''),
     (''review.remaining'', ru ''ostalos~''),
     (''review.suggested'', ru ''Predlojeno''),
     (''review.legend'', ru ''Klaviwi''),
     (''review.key.digit'', ru ''otkr|t~ razdel ili v|brat~ kategori^''),
     (''review.key.enter'', ru ''utverdit~ kontragenta''),
     (''review.key.transfer'', ru ''vnutrenniy perevod''),
     (''review.key.notPnl'', ru ''ne v OPiU''),
     (''review.key.move'', ru ''sledu^xiy / pred|duxiy''),
     (''review.key.clear'', ru ''sbrosit~''),
     (''review.key.back'', ru ''na uroven~ v|we''),
     (''review.tree.root'', ru ''Vse kategorii''),
     (''review.side.expense'', ru ''Rashodn|e kategorii: den~gi uwli kontragentu.''),
     (''review.side.income'', ru ''Dohodn|e kategorii: den~gi priwli ot kontragenta.''),
     (''review.side.showAll'', ru ''Pokazat~ vse kategorii''),
     (''review.side.showMatching'', ru ''Tol~ko podhod@xie po napravleni^''),
     (''review.selected'', ru ''V|brano''),
     (''review.transactions'', ru ''Operacii''),
     (''review.groupOf'', ru ''iz''),
     (''review.blurb'', ru ''Klassificiruyte kontragenta odin raz _ i kajda@ operaci@ ot nego, prowla@ i buduxa@, poluqit tu je kategori^.''),
     (''review.search.placeholder'', ru ''Fil~tr kategoriy''),
     (''review.search.empty'', ru ''Kategorii ne nayden|''),
     (''review.action.approve'', ru ''Utverdit~''),
     (''review.action.transfer'', ru ''Otmetit~ kak perevod''),
     (''review.action.notPnl'', ru ''Ne v OPiU''),
     (''report.title'', ru ''Upravlenqeskiy OPiU''),
     (''report.tab.table'', ru ''Tablica''),
     (''report.tab.charts'', ru ''Grafiki''),
     (''report.category'', ru ''Kategori@''),
     (''report.total'', ru ''Itogo''),
     (''report.percentOfRevenue'', ru ''% ot v|ruqki''),
     (''report.basis.cash'', ru ''Kassov|y metod''),
     (''report.basis.accrual'', ru ''Metod naqisleni@''),
     (''report.basis.note'', ru ''opredel@ets@ istoqnikom dann|h, a ne v|borom''),
     (''report.period.from'', ru ''S''),
     (''report.period.to'', ru ''Po''),
     (''report.blocked'', ru ''Zablokirovano''),
     (''report.blocked.mixed_basis'', ru ''U =togo ^ridiqeskogo lica est~ i bankovskie, i uq$tn|e import| bez podtverjd$nnogo sopostavleni@ mejdu nimi. Rasq$t otq$ta zadvoil b| sq$t i ego oplatu, po=tomu otq$t ne pokaz|vaets@, poka oni ne budut sveren|.''),
     (''report.bucket.unclassified'', ru ''Ne klassificirovano''),
     (''report.bucket.non_pnl'', ru ''Iskl^qeno, vne <P&L>''),
     (''report.bucket.unallocated'', ru ''Ne raspredeleno''),
     (''report.bucket.other_basis'', ru ''Drugoy bazis''),
     (''line.01'', ru ''V|ruqka''),
     (''line.02'', ru ''Sebestoimost~ prodaj'')]"

definition messages_en_3 :: "(string \<times> string) list" where
  "messages_en_3 =
    [(''line.03'', en ''Other cost of sales''),
     (''line.04'', en ''Operating expenses''),
     (''line.05'', en ''Other income and expenses''),
     (''line.06'', en ''Financial result''),
     (''line.07'', en ''Corporate income tax''),
     (''line.08'', en ''Capital expenditure''),
     (''line.09'', en ''Outside the P&L''),
     (''line.91'', en ''Gross margin''),
     (''line.92'', en ''Net margin''),
     (''line.93'', en ''Contribution margin''),
     (''line.94'', en ''Profit before tax''),
     (''line.95'', en ''Net profit''),
     (''category.0101'', en ''Software development''),
     (''category.02'', en ''Cost of sales''),
     (''category.030101'', en ''Promotion commission''),
     (''category.0401010101'', en ''Salary''),
     (''category.0401010201'', en ''1C Cloud''),
     (''category.0401010202'', en ''Accounting services''),
     (''category.0401010203'', en ''Audit''),
     (''category.0401010204'', en ''Bank commission''),
     (''category.0401010205'', en ''E-document workflow''),
     (''category.0401010206'', en ''Time & attendance''),
     (''category.0401020101'', en ''Salary''),
     (''category.0401020201'', en ''Business trips''),
     (''category.0401020202'', en ''Communication''),
     (''category.0401020203'', en ''Domain''),
     (''category.0401020204'', en ''Education''),
     (''category.0401020205'', en ''File storage''),
     (''category.0401020206'', en ''Hosting''),
     (''category.0401020207'', en ''IT equipment repair''),
     (''category.0401020208'', en ''Office rent''),
     (''category.0401020209'', en ''Office supplies''),
     (''category.0401020210'', en ''Small IT equipment''),
     (''category.0401020211'', en ''Sport''),
     (''category.0401020212'', en ''Stationery''),
     (''category.0401030101'', en ''HR tools''),
     (''category.0401040101'', en ''Claims''),
     (''category.0401040102'', en ''Court''),
     (''category.0401040103'', en ''Legal entity rent''),
     (''category.0401040104'', en ''Legal _ other''),
     (''category.0401040105'', en ''Relocation''),
     (''category.0401050101'', en ''Education''),
     (''category.0401050102'', en ''HeadHunter''),
     (''category.0402010101'', en ''Salary''),
     (''category.0402010201'', en ''Content creation''),
     (''category.0402010202'', en ''Google Ads''),
     (''category.0402010203'', en ''MarTech tools''),
     (''category.0402010204'', en ''Marketing channels''),
     (''category.0402010205'', en ''Marketplace advertising''),
     (''category.0402010206'', en ''Merch for employees''),
     (''category.0402010207'', en ''SEO''),
     (''category.0402020101'', en ''Salary''),
     (''category.0402020201'', en ''Sales activities''),
     (''category.0402020202'', en ''Sales tools''),
     (''category.0403'', en ''Payroll tax to distribute''),
     (''category.0404'', en ''Payroll to distribute''),
     (''category.0405010101'', en ''Education''),
     (''category.0405010102'', en ''Salary''),
     (''category.0405010201'', en ''Design tools''),
     (''category.0405010202'', en ''Production tools''),
     (''category.0405010203'', en ''Salary''),
     (''category.0406'', en ''Twoj StartUp''),
     (''category.050101'', en ''Expenses compensation''),
     (''category.050102'', en ''Expenses for 2022''),
     (''category.05010301'', en ''1%, Hi-Tech Park''),
     (''category.05010302'', en ''Advance tax''),
     (''category.05010303'', en ''Hi-Tech Park membership''),
     (''category.05010304'', en ''Other''),
     (''category.05010305'', en ''VAT''),
     (''category.050104'', en ''Tax fines''),
     (''category.050201'', en ''CIT refund''),
     (''category.050202'', en ''Return of payment''),
     (''category.060101'', en ''Currency exchange''),
     (''category.060102'', en ''Currency revaluation''),
     (''category.060201'', en ''Interest received''),
     (''category.07'', en ''Corporate income tax''),
     (''category.08'', en ''Capital expenditure''),
     (''category.09'', en ''Outside the P&L''),
     (''categoryBranch.0301'', en ''Promotion''),
     (''categoryBranch.0401'', en ''Administration''),
     (''categoryBranch.040101'', en ''Finance''),
     (''categoryBranch.04010101'', en ''Expenses''),
     (''categoryBranch.04010102'', en ''Services''),
     (''categoryBranch.040102'', en ''General management''),
     (''categoryBranch.04010201'', en ''Expenses''),
     (''categoryBranch.04010202'', en ''Services''),
     (''categoryBranch.040103'', en ''HR''),
     (''categoryBranch.04010301'', en ''Services''),
     (''categoryBranch.040104'', en ''Legal''),
     (''categoryBranch.04010401'', en ''Services''),
     (''categoryBranch.040105'', en ''Recruiting''),
     (''categoryBranch.04010501'', en ''Services''),
     (''categoryBranch.0402'', en ''Marketing and sales''),
     (''categoryBranch.040201'', en ''Marketing''),
     (''categoryBranch.04020101'', en ''Expenses''),
     (''categoryBranch.04020102'', en ''Services''),
     (''categoryBranch.040202'', en ''Sales''),
     (''categoryBranch.04020201'', en ''Expenses''),
     (''categoryBranch.04020202'', en ''Services''),
     (''categoryBranch.0405'', en ''Production''),
     (''categoryBranch.040501'', en ''Developers''),
     (''categoryBranch.04050101'', en ''Expenses''),
     (''categoryBranch.04050102'', en ''Services''),
     (''categoryBranch.0501'', en ''Other expenses''),
     (''categoryBranch.050103'', en ''Other taxes''),
     (''categoryBranch.0502'', en ''Other income''),
     (''categoryBranch.0601'', en ''Exchange differences''),
     (''categoryBranch.0602'', en ''Other financial income''),
     (''recon.title'', en ''Reconciliation''),
     (''recon.opening'', en ''Opening''),
     (''recon.in'', en ''In''),
     (''recon.out'', en ''Out''),
     (''recon.transfers'', en ''Transfers''),
     (''recon.closing'', en ''Closing''),
     (''stat.revenue'', en ''Revenue''),
     (''stat.expenses'', en ''Expenses''),
     (''stat.net'', en ''Net result''),
     (''stat.unreviewed'', en ''Awaiting review''),
     (''drilldown.close'', en ''Close''),
     (''drilldown.date'', en ''Date''),
     (''drilldown.description'', en ''Description''),
     (''drilldown.amount'', en ''Amount''),
     (''drilldown.category'', en ''Category''),
     (''drilldown.layer'', en ''Layer''),
     (''drilldown.confidence'', en ''Confidence''),
     (''drilldown.evidence'', en ''Match''),
     (''drilldown.operands'', en ''Made up of''),
     (''drilldown.empty'', en ''No transactions in this cell for this period.''),
     (''drilldown.provenance'', en ''Taxonomy {taxonomy} / ruleset {ruleset} / engine {engine}'')]"

definition messages_ru_3 :: "(string \<times> string) list" where
  "messages_ru_3 =
    [(''line.03'', ru ''Proqa@ sebestoimost~''),
     (''line.04'', ru ''Operacionn|e rashod|''),
     (''line.05'', ru ''Proqie dohod| i rashod|''),
     (''line.06'', ru ''Finansov|e dohod| i rashod|''),
     (''line.07'', ru ''Nalog na prib|l~''),
     (''line.08'', ru ''Kapital~n|e zatrat|''),
     (''line.09'', ru ''Vne OPiU''),
     (''line.91'', ru ''Valova@ prib|l~''),
     (''line.92'', ru ''Qista@ marja''),
     (''line.93'', ru ''Marjinal~na@ prib|l~''),
     (''line.94'', ru ''Prib|l~ do nalogooblojeni@''),
     (''line.95'', ru ''Qista@ prib|l~''),
     (''category.0101'', ru ''Razrabotka PO''),
     (''category.02'', ru ''Sebestoimost~ prodaj''),
     (''category.030101'', ru ''Komissi@ za prodvijenie''),
     (''category.0401010101'', ru ''Zarplata''),
     (''category.0401010201'', ru ''1S Oblako''),
     (''category.0401010202'', ru ''Buhgalterskie uslugi''),
     (''category.0401010203'', ru ''Audit''),
     (''category.0401010204'', ru ''Bankovska@ komissi@''),
     (''category.0401010205'', ru ''!lektronn|y dokumentooborot''),
     (''category.0401010206'', ru ''Uq$t raboqego vremeni''),
     (''category.0401020101'', ru ''Zarplata''),
     (''category.0401020201'', ru ''Komandirovki''),
     (''category.0401020202'', ru ''Sv@z~''),
     (''category.0401020203'', ru ''Domen''),
     (''category.0401020204'', ru ''Obuqenie''),
     (''category.0401020205'', ru ''Hranenie faylov''),
     (''category.0401020206'', ru ''Hosting''),
     (''category.0401020207'', ru ''Remont <IT->oborudovani@''),
     (''category.0401020208'', ru ''Arenda ofisa''),
     (''category.0401020209'', ru ''Ofisn|e prinadlejnosti''),
     (''category.0401020210'', ru ''Melkoe <IT->oborudovanie''),
     (''category.0401020211'', ru ''Sport''),
     (''category.0401020212'', ru ''Kanctovar|''),
     (''category.0401030101'', ru ''<HR->instrument|''),
     (''category.0401040101'', ru ''Pretenzii''),
     (''category.0401040102'', ru ''Sud''),
     (''category.0401040103'', ru ''Arenda (^r. lico)''),
     (''category.0401040104'', ru ''*ridiqeskie _ proqee''),
     (''category.0401040105'', ru ''Relokaci@''),
     (''category.0401050101'', ru ''Obuqenie''),
     (''category.0401050102'', ru ''<HeadHunter>''),
     (''category.0402010101'', ru ''Zarplata''),
     (''category.0402010201'', ru ''Sozdanie kontenta''),
     (''category.0402010202'', ru ''<Google >Reklama''),
     (''category.0402010203'', ru ''<MarTech->instrument|''),
     (''category.0402010204'', ru ''Marketingov|e kanal|''),
     (''category.0402010205'', ru ''Reklama na marketpleysah''),
     (''category.0402010206'', ru ''Merq dl@ sotrudnikov''),
     (''category.0402010207'', ru ''<SEO>''),
     (''category.0402020101'', ru ''Zarplata''),
     (''category.0402020201'', ru ''Meropri@ti@ po prodajam''),
     (''category.0402020202'', ru ''Instrument| prodaj''),
     (''category.0403'', ru ''Nalogi na FOT k raspredeleni^''),
     (''category.0404'', ru ''FOT k raspredeleni^''),
     (''category.0405010101'', ru ''Obuqenie''),
     (''category.0405010102'', ru ''Zarplata''),
     (''category.0405010201'', ru ''Instrument| dizayna''),
     (''category.0405010202'', ru ''Instrument| razrabotki''),
     (''category.0405010203'', ru ''Zarplata''),
     (''category.0406'', ru ''<Twoj StartUp>''),
     (''category.050101'', ru ''Kompensaci@ rashodov''),
     (''category.050102'', ru ''Rashod| za 2022 god''),
     (''category.05010301'', ru ''1%, Park v|sokih tehnologiy''),
     (''category.05010302'', ru ''Avansov|y nalog''),
     (''category.05010303'', ru ''Qlenstvo v Parke v|sokih tehnologiy''),
     (''category.05010304'', ru ''Proqee''),
     (''category.05010305'', ru ''NDS''),
     (''category.050104'', ru ''Nalogov|e wtraf|''),
     (''category.050201'', ru ''Vozvrat naloga na prib|l~''),
     (''category.050202'', ru ''Vozvrat plateja''),
     (''category.060101'', ru ''Obmen val^t|''),
     (''category.060102'', ru ''Pereocenka val^t|''),
     (''category.060201'', ru ''Poluqenn|e procent|''),
     (''category.07'', ru ''Nalog na prib|l~''),
     (''category.08'', ru ''Kapital~n|e zatrat|''),
     (''category.09'', ru ''Vne OPiU''),
     (''categoryBranch.0301'', ru ''Prodvijenie''),
     (''categoryBranch.0401'', ru ''Administrirovanie''),
     (''categoryBranch.040101'', ru ''Finans|''),
     (''categoryBranch.04010101'', ru ''Rashod|''),
     (''categoryBranch.04010102'', ru ''Uslugi''),
     (''categoryBranch.040102'', ru ''Obxee upravlenie''),
     (''categoryBranch.04010201'', ru ''Rashod|''),
     (''categoryBranch.04010202'', ru ''Uslugi''),
     (''categoryBranch.040103'', ru ''<HR>''),
     (''categoryBranch.04010301'', ru ''Uslugi''),
     (''categoryBranch.040104'', ru ''*ridiqeskiy otdel''),
     (''categoryBranch.04010401'', ru ''Uslugi''),
     (''categoryBranch.040105'', ru ''Rekruting''),
     (''categoryBranch.04010501'', ru ''Uslugi''),
     (''categoryBranch.0402'', ru ''Marketing i prodaji''),
     (''categoryBranch.040201'', ru ''Marketing''),
     (''categoryBranch.04020101'', ru ''Rashod|''),
     (''categoryBranch.04020102'', ru ''Uslugi''),
     (''categoryBranch.040202'', ru ''Prodaji''),
     (''categoryBranch.04020201'', ru ''Rashod|''),
     (''categoryBranch.04020202'', ru ''Uslugi''),
     (''categoryBranch.0405'', ru ''Proizvodstvo''),
     (''categoryBranch.040501'', ru ''Razrabotqiki''),
     (''categoryBranch.04050101'', ru ''Rashod|''),
     (''categoryBranch.04050102'', ru ''Uslugi''),
     (''categoryBranch.0501'', ru ''Proqie rashod|''),
     (''categoryBranch.050103'', ru ''Proqie nalogi''),
     (''categoryBranch.0502'', ru ''Proqie dohod|''),
     (''categoryBranch.0601'', ru ''Kursov|e raznic|''),
     (''categoryBranch.0602'', ru ''Proqie finansov|e dohod|''),
     (''recon.title'', ru ''Sverka''),
     (''recon.opening'', ru ''Vhod@xiy ostatok''),
     (''recon.in'', ru ''Postupleni@''),
     (''recon.out'', ru ''Spisani@''),
     (''recon.transfers'', ru ''Perevod|''),
     (''recon.closing'', ru ''Ishod@xiy ostatok''),
     (''stat.revenue'', ru ''V|ruqka''),
     (''stat.expenses'', ru ''Rashod|''),
     (''stat.net'', ru ''Finansov|y rezul~tat''),
     (''stat.unreviewed'', ru ''Na proverke''),
     (''drilldown.close'', ru ''Zakr|t~''),
     (''drilldown.date'', ru ''Data''),
     (''drilldown.description'', ru ''Opisanie''),
     (''drilldown.amount'', ru ''Summa''),
     (''drilldown.category'', ru ''Kategori@''),
     (''drilldown.layer'', ru ''Sloy''),
     (''drilldown.confidence'', ru ''Uverennost~''),
     (''drilldown.evidence'', ru ''Sopostavlenie''),
     (''drilldown.operands'', ru ''Sklad|vaets@ iz''),
     (''drilldown.empty'', ru ''V =toy @qeyke net operaciy za =tot period.''),
     (''drilldown.provenance'', ru ''Taksonomi@ {<taxonomy} / >pravila {<ruleset} / >dvijok {<engine}>'')]"

subsection \<open>Both catalogues carry the same keys\<close>

lemma message_keys_1: "map fst messages_en_1 = map fst messages_ru_1"
  by (simp add: messages_en_1_def messages_ru_1_def)

lemma message_keys_2: "map fst messages_en_2 = map fst messages_ru_2"
  by (simp add: messages_en_2_def messages_ru_2_def)

lemma message_keys_3: "map fst messages_en_3 = map fst messages_ru_3"
  by (simp add: messages_en_3_def messages_ru_3_def)

end
