(* ===== verification/I18n.thy ===== *)
theory I18n
  imports Messages
begin

section \<open>Locales and the message lookup of i18n.ts\<close>

text \<open>
  \<open>src/web/src/i18n.ts\<close>: the locale type, \<open>resolveLocale\<close>, the lookup \<open>t\<close> (here \<open>i18n_t\<close>) and
  \<open>authErrorMessage\<close>. A key built from a code at run time is cast to \<open>MessageKey\<close>, so \<open>t\<close> may be
  asked for a key the catalogue does not have; it then answers \<open>undefined\<close>, here \<^const>\<open>None\<close>.
\<close>

datatype Locale = En | Ru

definition messages :: "Locale \<Rightarrow> (string \<times> string) list" where
  "messages l = (case l of
      En \<Rightarrow> messages_en_1 @ messages_en_2 @ messages_en_3
    | Ru \<Rightarrow> messages_ru_1 @ messages_ru_2 @ messages_ru_3)"

text \<open>\<open>MessageKey\<close> is the keys of the English catalogue.\<close>

definition message_keys :: "string list" where
  "message_keys = map fst (messages En)"

definition resolveLocale :: "string option \<Rightarrow> Locale" where
  "resolveLocale raw =
     (case raw of None \<Rightarrow> En
      | Some r \<Rightarrow> if js_startsWith (js_toLowerCase r) ''ru'' then Ru else En)"

definition i18n_t :: "string \<Rightarrow> Locale \<Rightarrow> string option" where
  "i18n_t key l = map_of (messages l) key"

definition authErrorMessage :: "string option \<Rightarrow> Locale \<Rightarrow> string option" where
  "authErrorMessage code l =
     (case code of
        None \<Rightarrow> None
      | Some c \<Rightarrow>
          if c = '''' then None
          else let key = ''error.'' @ c
               in if key \<in> set message_keys then i18n_t key l else i18n_t ''error.unknown'' l)"

lemma messages_keys: "map fst (messages l) = message_keys"
  by (cases l) (simp_all add: messages_def message_keys_def message_keys_1 message_keys_2 message_keys_3)

text \<open>A key is in both catalogues or in neither.\<close>

lemma i18n_t_None_iff: "i18n_t key l = None \<longleftrightarrow> key \<notin> set message_keys"
  by (simp add: i18n_t_def map_of_eq_None_iff messages_keys [of l, symmetric])

lemma i18n_t_Some_iff: "(\<exists>s. i18n_t key l = Some s) \<longleftrightarrow> key \<in> set message_keys"
  using i18n_t_None_iff [of key l] by (cases "i18n_t key l") auto

lemma set_message_keys:
  "set message_keys =
     set (map fst messages_en_1) \<union> set (map fst messages_en_2) \<union> set (map fst messages_en_3)"
  by (simp only: message_keys_def messages_def Locale.case map_append set_append Un_assoc)

text \<open>Looking up a key that the first part of the catalogue does not have.\<close>

lemma i18n_t_2:
  assumes "key \<notin> set (map fst messages_en_1)"
  shows "i18n_t key l =
    (case map_of (case l of En \<Rightarrow> messages_en_2 | Ru \<Rightarrow> messages_ru_2) key of Some m \<Rightarrow> Some m
     | None \<Rightarrow> map_of (case l of En \<Rightarrow> messages_en_3 | Ru \<Rightarrow> messages_ru_3) key)"
proof -
  have "map_of messages_en_1 key = None" "map_of messages_ru_1 key = None" using assms
    by (simp_all only: map_of_eq_None_iff set_map [symmetric] message_keys_1 not_False_eq_True)
  then show ?thesis by (cases l) (simp_all add: i18n_t_def messages_def map_add_def split: option.splits)
qed

lemma error_unknown_key: "''error.unknown'' \<in> set message_keys"
proof -
  have "''error.unknown'' \<in> set (map fst messages_en_1)"
    by (simp add: messages_en_1_def)
  then show ?thesis unfolding set_message_keys by blast
qed

lemma authErrorMessage_total:
  "c \<noteq> '''' \<Longrightarrow> \<exists>s. authErrorMessage (Some c) l = Some s"
  by (auto simp: authErrorMessage_def Let_def i18n_t_Some_iff error_unknown_key)

lemma authErrorMessage_empty [simp]:
  "authErrorMessage None l = None" "authErrorMessage (Some '''') l = None"
  by (simp_all add: authErrorMessage_def)

end
