(* ===== verification/Data_Types.thy ===== *)
theory Data_Types
  imports I18n
begin

section \<open>The shapes the screens read\<close>

text \<open>
  \<open>src/web/src/data/types.ts\<close>. A union of string literals that the code decides by comparison is a
  datatype. \<open>EngineLayer\<close> stays a string: the data modules cast the wire's string to it unchecked,
  so any string can be met at run time. \<open>Period\<close> is the \<open>YYYY-MM\<close> string.
\<close>

record Money =
  minorUnits :: string
  currencyCode :: string

type_synonym Period = string

datatype SourceKind = Ledger | Bank

datatype Basis = Cash | Accrual

record Provenance =
  taxonomyVersion :: string
  rulesetVersion :: string
  engineVersion :: string

type_synonym EngineLayer = string

text \<open>The text of a source kind, as it is spelled into a message key.\<close>

definition SourceKind_text :: "SourceKind \<Rightarrow> string" where
  "SourceKind_text k = (case k of Ledger \<Rightarrow> ''ledger'' | Bank \<Rightarrow> ''bank'')"

end
