(* ===== verification/Money_Format.thy ===== *)
theory Money_Format
  imports Data_Types
begin

section \<open>Money on the client: money.ts\<close>

text \<open>
  \<open>src/web/src/money.ts\<close>. Amounts are decimal strings of minor units, summed and scaled as
  unbounded integers (\<open>BigInt\<close>). \<open>Intl.NumberFormat\<close> is given its values for the two locales of
  the product (CLDR): \<open>en-GB\<close> groups with a comma and marks the decimal with a point, \<open>ru-RU\<close>
  groups with U+00A0 and marks the decimal with a comma; both group by three from the right.
\<close>

definition EXPONENT :: "(string \<times> nat) list" where
  "EXPONENT =
    [(''AED'', 2), (''AFN'', 2), (''ALL'', 2), (''AMD'', 2), (''ANG'', 2), (''AOA'', 2), (''ARS'', 2),
     (''AUD'', 2), (''AWG'', 2), (''AZN'', 2), (''BAM'', 2), (''BBD'', 2), (''BDT'', 2), (''BGN'', 2),
     (''BHD'', 3), (''BIF'', 0), (''BMD'', 2), (''BND'', 2), (''BOB'', 2), (''BOV'', 2), (''BRL'', 2),
     (''BSD'', 2), (''BTN'', 2), (''BWP'', 2), (''BYN'', 2), (''BZD'', 2), (''CAD'', 2), (''CDF'', 2),
     (''CHE'', 2), (''CHF'', 2), (''CHW'', 2), (''CLF'', 4), (''CLP'', 0), (''CNY'', 2), (''COP'', 2),
     (''COU'', 2), (''CRC'', 2), (''CUC'', 2), (''CUP'', 2), (''CVE'', 2), (''CZK'', 2), (''DJF'', 0),
     (''DKK'', 2), (''DOP'', 2), (''DZD'', 2), (''EGP'', 2), (''ERN'', 2), (''ETB'', 2), (''EUR'', 2),
     (''FJD'', 2), (''FKP'', 2), (''GBP'', 2), (''GEL'', 2), (''GHS'', 2), (''GIP'', 2), (''GMD'', 2),
     (''GNF'', 0), (''GTQ'', 2), (''GYD'', 2), (''HKD'', 2), (''HNL'', 2), (''HTG'', 2), (''HUF'', 2),
     (''IDR'', 2), (''ILS'', 2), (''INR'', 2), (''IQD'', 3), (''IRR'', 2), (''ISK'', 0), (''JMD'', 2),
     (''JOD'', 3), (''JPY'', 0), (''KES'', 2), (''KGS'', 2), (''KHR'', 2), (''KMF'', 0), (''KPW'', 2),
     (''KRW'', 0), (''KWD'', 3), (''KYD'', 2), (''KZT'', 2), (''LAK'', 2), (''LBP'', 2), (''LKR'', 2),
     (''LRD'', 2), (''LSL'', 2), (''LYD'', 3), (''MAD'', 2), (''MDL'', 2), (''MGA'', 2), (''MKD'', 2),
     (''MMK'', 2), (''MNT'', 2), (''MOP'', 2), (''MRU'', 2), (''MUR'', 2), (''MVR'', 2), (''MWK'', 2),
     (''MXN'', 2), (''MXV'', 2), (''MYR'', 2), (''MZN'', 2), (''NAD'', 2), (''NGN'', 2), (''NIO'', 2),
     (''NOK'', 2), (''NPR'', 2), (''NZD'', 2), (''OMR'', 3), (''PAB'', 2), (''PEN'', 2), (''PGK'', 2),
     (''PHP'', 2), (''PKR'', 2), (''PLN'', 2), (''PYG'', 0), (''QAR'', 2), (''RON'', 2), (''RSD'', 2),
     (''RUB'', 2), (''RWF'', 0), (''SAR'', 2), (''SBD'', 2), (''SCR'', 2), (''SDG'', 2), (''SEK'', 2),
     (''SGD'', 2), (''SHP'', 2), (''SLE'', 2), (''SOS'', 2), (''SRD'', 2), (''SSP'', 2), (''STN'', 2),
     (''SVC'', 2), (''SYP'', 2), (''SZL'', 2), (''THB'', 2), (''TJS'', 2), (''TMT'', 2), (''TND'', 3),
     (''TOP'', 2), (''TRY'', 2), (''TTD'', 2), (''TWD'', 2), (''TZS'', 2), (''UAH'', 2), (''UGX'', 0),
     (''USD'', 2), (''USN'', 2), (''UYI'', 0), (''UYU'', 2), (''UYW'', 4), (''UZS'', 2), (''VED'', 2),
     (''VES'', 2), (''VND'', 0), (''VUV'', 0), (''WST'', 2), (''XAF'', 0), (''XAG'', 0), (''XAU'', 0),
     (''XBA'', 0), (''XBB'', 0), (''XBC'', 0), (''XBD'', 0), (''XCD'', 2), (''XDR'', 0), (''XOF'', 0),
     (''XPD'', 0), (''XPF'', 0), (''XPT'', 0), (''XSU'', 0), (''XUA'', 0), (''YER'', 2), (''ZAR'', 2),
     (''ZMW'', 2), (''ZWL'', 2)]"

definition MINUS :: string where
  "MINUS = [CHR 0xE2, CHR 0x88, CHR 0x92]"

definition NO_DATA :: string where
  "NO_DATA = [CHR 0xE2, CHR 0x80, CHR 0x94]"

definition exponentOf :: "string \<Rightarrow> nat option" where
  "exponentOf code = map_of EXPONENT (js_toUpperCase code)"

definition localeTag :: "Locale \<Rightarrow> string" where
  "localeTag l = (case l of En \<Rightarrow> ''en-GB'' | Ru \<Rightarrow> ''ru-RU'')"

definition decimalSeparator :: "Locale \<Rightarrow> string" where
  "decimalSeparator l = (case l of En \<Rightarrow> ''.'' | Ru \<Rightarrow> '','')"

text \<open>\<open>new Intl.NumberFormat(tag).format(n)\<close> of a \<open>BigInt\<close>.\<close>

definition groupSeparator :: "Locale \<Rightarrow> string" where
  "groupSeparator l = (case l of En \<Rightarrow> '','' | Ru \<Rightarrow> [CHR 0xC2, CHR 0xA0])"

function group_digits :: "string \<Rightarrow> string \<Rightarrow> string" where
  "group_digits sep s =
     (if length s \<le> 3 then s
      else group_digits sep (take (length s - 3) s) @ sep @ drop (length s - 3) s)"
  by pat_completeness auto
termination
  by (relation "measure (\<lambda>(sep, s). length s)") auto

declare group_digits.simps [simp del]

definition intl_format :: "Locale \<Rightarrow> int \<Rightarrow> string" where
  "intl_format l i =
     (if i < 0 then CHR ''-'' # group_digits (groupSeparator l) (show_nat (nat (- i)))
      else group_digits (groupSeparator l) (show_nat (nat i)))"

definition formatMinorUnits :: "string \<Rightarrow> nat \<Rightarrow> Locale \<Rightarrow> string js" where
  "formatMinorUnits units exponent l =
     (let negative = js_startsWith units ''-'';
          digits = js_padStart (if negative then js_slice_from units 1 else units) (exponent + 1) CHR ''0'';
          cut = int (length digits) - int exponent;
          whole = js_slice digits 0 cut;
          fraction = (if exponent = 0 then [] else js_slice_from digits cut)
      in ebind (js_BigInt whole) (\<lambda>w.
           let grouped = intl_format l w;
               body = (if fraction \<noteq> [] then grouped @ decimalSeparator l @ fraction else grouped)
           in Inr (if negative then MINUS @ body else body)))"

definition formatMoney :: "Money \<Rightarrow> Locale \<Rightarrow> string js" where
  "formatMoney m l =
     (case exponentOf (currencyCode m) of
        None \<Rightarrow> Inl (UnknownCurrencyError (currencyCode m))
      | Some e \<Rightarrow> formatMinorUnits (minorUnits m) e l)"

definition sumMinorUnits :: "string list \<Rightarrow> string js" where
  "sumMinorUnits values =
     ebind (efold (\<lambda>acc v. ebind (js_BigInt v) (\<lambda>i. Inr (acc + i))) 0 values)
       (\<lambda>s. Inr (show_int s))"

text \<open>\<open>BigInt\<close> division truncates towards zero.\<close>

definition bigint_div :: "int \<Rightarrow> int \<Rightarrow> int" where
  "bigint_div a b = sgn a * sgn b * (\<bar>a\<bar> div \<bar>b\<bar>)"

definition percentOf :: "string \<Rightarrow> string \<Rightarrow> Locale \<Rightarrow> string option js" where
  "percentOf amount base l =
     ebind (js_BigInt base) (\<lambda>baseBig.
       if baseBig = 0 then Inr None
       else ebind (js_BigInt amount) (\<lambda>a.
         let tenths = bigint_div (a * 1000) baseBig;
             negative = tenths < 0;
             abs = js_padStart (show_int (if negative then - tenths else tenths)) 2 CHR ''0'';
             body = js_slice abs 0 (- 1) @ decimalSeparator l @ js_slice_from abs (- 1) @ ''%''
         in Inr (Some (if negative then MINUS @ body else body))))"

text \<open>The cell formatter every screen repeats: the em dash for a currency outside the table.\<close>

definition fmt :: "Money \<Rightarrow> Locale \<Rightarrow> string js" where
  "fmt m l =
     (case exponentOf (currencyCode m) of
        None \<Rightarrow> Inr NO_DATA
      | Some e \<Rightarrow> formatMinorUnits (minorUnits m) e l)"

subsection \<open>Decimal digit strings\<close>

text \<open>The number a digit string spells.\<close>

definition digits_value :: "string \<Rightarrow> nat" where
  "digits_value s = (case digits_acc 10 0 s of None \<Rightarrow> 0 | Some n \<Rightarrow> n)"

lemma is_digit_val: "is_digit c \<Longrightarrow> \<exists>d < 10. digit_val 10 c = Some d \<and> digit_char d = c"
  by (auto simp: is_digit_def digit_val_def digit_char_def Let_def
      intro!: exI [of _ "of_char c - 48"])

lemma digits_acc_total: "\<forall>c \<in> set s. is_digit c \<Longrightarrow> \<exists>n. digits_acc 10 a s = Some n"
proof (induction s arbitrary: a)
  case (Cons c s)
  then obtain d where "digit_val 10 c = Some d" using is_digit_val by auto
  with Cons show ?case by simp
qed simp

lemma digits_acc_value:
  "\<forall>c \<in> set s. is_digit c \<Longrightarrow> digits_acc 10 0 s = Some (digits_value s)"
  using digits_acc_total [of s 0] by (auto simp: digits_value_def)

lemma digits_value_snoc:
  assumes "\<forall>c \<in> set s. is_digit c" and "d < 10"
  shows "digits_value (s @ [digit_char d]) = 10 * digits_value s + d"
proof -
  obtain n where "digits_acc 10 0 s = Some n" using digits_acc_total assms(1) by blast
  with assms(2) show ?thesis by (simp add: digits_value_def digits_acc_append)
qed

lemma digits_value_show [simp]: "digits_value (show_nat n) = n"
  by (simp add: digits_value_def digits_acc_show_nat)

lemma digits_value_Nil [simp]: "digits_value [] = 0"
  by (simp add: digits_value_def)

lemma zero_char: "CHR ''0'' = digit_char 0"
  by code_simp

lemma is_digit_zero [simp]: "is_digit CHR ''0''"
  by (simp add: is_digit_def)

lemma digits_value_zeros: "digits_value (replicate k CHR ''0'' @ s) = digits_value s"
proof -
  have "digits_acc 10 0 (replicate k CHR ''0'' @ s) = digits_acc 10 0 s"
    by (induction k) (simp_all add: digit_val_def)
  then show ?thesis by (simp add: digits_value_def)
qed

text \<open>A digit string of length \<open>n\<close> is its value, padded to \<open>n\<close> digits.\<close>

lemma digit_string_canonical:
  assumes "\<forall>c \<in> set s. is_digit c" and "s \<noteq> []"
  shows "js_padStart (show_nat (digits_value s)) (length s) CHR ''0'' = s"
  using assms
proof (induction s rule: rev_induct)
  case (snoc c s)
  then obtain d where d: "d < 10" "digit_char d = c" using is_digit_val by auto
  have val: "digits_value (s @ [c]) = 10 * digits_value s + d"
    using snoc.prems d digits_value_snoc [of s d] by auto
  show ?case
  proof (cases "digits_value s = 0")
    case True
    have "s = replicate (length s) CHR ''0''"
    proof (cases "s = []")
      case False
      with snoc have "js_padStart (show_nat 0) (length s) CHR ''0'' = s" using True by simp
      moreover have "show_nat 0 = [CHR ''0'']" by (simp add: show_nat.simps zero_char)
      ultimately show ?thesis using False
        by (metis js_padStart_def length_Cons length_replicate list.size(3) One_nat_def
            append_replicate_commute replicate_Suc replicate_app_Cons_same
            Suc_pred' length_greater_0_conv diff_Suc_1' append_Nil2)
    qed simp
    then have "replicate (length s) CHR ''0'' = s" by simp
    with d(2) show ?thesis
      unfolding val using True d(1) by (simp add: js_padStart_def show_nat.simps)
  next
    case False
    then have "s \<noteq> []" by auto
    with snoc have IH: "js_padStart (show_nat (digits_value s)) (length s) CHR ''0'' = s" by simp
    have "show_nat (10 * digits_value s + d) = show_nat (digits_value s) @ [c]"
      using False d by (subst show_nat.simps) simp
    with IH show ?thesis unfolding val by (simp add: js_padStart_def)
  qed
qed simp

lemma digits_value_split:
  assumes "\<forall>c \<in> set t. is_digit c" and "\<forall>c \<in> set s. is_digit c"
  shows "digits_value (s @ t) = digits_value s * 10 ^ length t + digits_value t"
  using assms
proof (induction t rule: rev_induct)
  case (snoc c t)
  then obtain d where d: "d < 10" "digit_char d = c" using is_digit_val by auto
  have "digits_value ((s @ t) @ [c]) = 10 * digits_value (s @ t) + d"
    "digits_value (t @ [c]) = 10 * digits_value t + d"
    using snoc.prems d digits_value_snoc [of "s @ t" d] digits_value_snoc [of t d] by auto
  with snoc show ?case by (simp add: algebra_simps)
qed simp

lemma digits_value_bound: "\<forall>c \<in> set s. is_digit c \<Longrightarrow> digits_value s < 10 ^ length s"
proof (induction s rule: rev_induct)
  case (snoc c s)
  then obtain d where d: "d < 10" "digit_char d = c" using is_digit_val by auto
  with snoc digits_value_snoc [of s d] show ?case by auto
qed simp

subsection \<open>Formatting keeps every unit\<close>

lemma show_nat_is_digit: "c \<in> set (show_nat n) \<Longrightarrow> is_digit c"
  using show_nat_digits by blast

lemma padded_digits: "c \<in> set (js_padStart (show_nat n) k CHR ''0'') \<Longrightarrow> is_digit c"
  by (auto simp: js_padStart_def show_nat_is_digit)

lemma padded_value: "digits_value (js_padStart (show_nat n) k CHR ''0'') = n"
  by (simp add: js_padStart_def digits_value_zeros)

lemma parse_digits_value:
  "\<forall>c \<in> set s. is_digit c \<Longrightarrow> s \<noteq> [] \<Longrightarrow> js_BigInt s = Inr (int (digits_value s))"
  by (simp add: js_BigInt_def parse_bigint_digits radix_digits_def digits_acc_value)

text \<open>Cutting \<open>e\<close> digits off the padded text divides by \<open>10 ^ e\<close>.\<close>

lemma cut_digits:
  fixes n e :: nat
  defines "digits \<equiv> js_padStart (show_nat n) (e + 1) CHR ''0''"
  shows "digits_value (take (length digits - e) digits) = n div 10 ^ e"
    and "digits_value (drop (length digits - e) digits) = n mod 10 ^ e"
    and "length (drop (length digits - e) digits) = e"
    and "take (length digits - e) digits \<noteq> []"
proof -
  let ?w = "take (length digits - e) digits" and ?f = "drop (length digits - e) digits"
  have len: "e < length digits" by (simp add: digits_def js_padStart_length)
  then show f: "length ?f = e" and "?w \<noteq> []" by auto
  have dig: "\<forall>c \<in> set digits. is_digit c" by (auto simp: digits_def padded_digits)
  then have digs: "\<forall>c \<in> set ?w. is_digit c" "\<forall>c \<in> set ?f. is_digit c"
    by (auto dest: in_set_takeD in_set_dropD)
  have "n = digits_value (?w @ ?f)" by (simp add: digits_def padded_value)
  also have "\<dots> = digits_value ?w * 10 ^ e + digits_value ?f"
    using digits_value_split [OF digs(2,1)] f by simp
  finally have n: "n = digits_value ?w * 10 ^ e + digits_value ?f" .
  have "digits_value ?f < 10 ^ e" using digits_value_bound [OF digs(2)] f by simp
  with n show "digits_value ?w = n div 10 ^ e" "digits_value ?f = n mod 10 ^ e"
    by (simp_all add: div_mult_self3 mod_mult_self3)
qed

lemma show_int_cases:
  obtains (neg) "i < 0" "show_int i = CHR ''-'' # show_nat (nat \<bar>i\<bar>)"
  | (nonneg) "0 \<le> i" "show_int i = show_nat (nat \<bar>i\<bar>)"
  by (cases "i < 0") (auto simp: show_int_def)

lemma startsWith_minus: "js_startsWith (show_int i) ''-'' \<longleftrightarrow> i < 0"
proof (cases i rule: show_int_cases)
  case nonneg
  have "hd (show_nat (nat \<bar>i\<bar>)) \<noteq> CHR ''-''"
    using show_nat_is_digit [of "hd (show_nat (nat \<bar>i\<bar>))" "nat \<bar>i\<bar>"] by (auto simp: is_digit_def)
  with nonneg show ?thesis by (cases "show_nat (nat \<bar>i\<bar>)") (auto simp: js_startsWith_def)
qed (simp add: js_startsWith_def)

lemma unsigned_digits:
  "(if i < 0 then js_slice_from (show_int i) 1 else show_int i) = show_nat (nat \<bar>i\<bar>)"
  by (cases i rule: show_int_cases) (auto simp: js_slice_from_drop)

lemma fraction_text:
  fixes n e :: nat
  defines "digits \<equiv> js_padStart (show_nat n) (e + 1) CHR ''0''"
  assumes "0 < e"
  shows "drop (length digits - e) digits = js_padStart (show_nat (n mod 10 ^ e)) e CHR ''0''"
proof -
  let ?f = "drop (length digits - e) digits"
  have "\<forall>c \<in> set ?f. is_digit c" by (auto simp: digits_def padded_digits dest: in_set_dropD)
  moreover have "length ?f = e" "digits_value ?f = n mod 10 ^ e"
    unfolding digits_def by (rule cut_digits)+
  moreover from this(1) \<open>0 < e\<close> have "?f \<noteq> []" by auto
  ultimately show ?thesis using digit_string_canonical [of ?f] by simp
qed

text \<open>The figure a formatted amount shows.\<close>

definition figure :: "int \<Rightarrow> nat \<Rightarrow> Locale \<Rightarrow> string" where
  "figure i e l =
     (if i < 0 then MINUS else []) @
     group_digits (groupSeparator l) (show_nat (nat \<bar>i\<bar> div 10 ^ e)) @
     (if e = 0 then []
      else decimalSeparator l @ js_padStart (show_nat (nat \<bar>i\<bar> mod 10 ^ e)) e CHR ''0'')"

lemma formatMinorUnits_figure: "formatMinorUnits (show_int i) e l = Inr (figure i e l)"
proof -
  define n where "n = nat \<bar>i\<bar>"
  define digits where "digits = js_padStart (show_nat n) (e + 1) CHR ''0''"
  have len: "e < length digits" by (simp add: digits_def js_padStart_length)
  have whole: "js_slice digits 0 (int (length digits) - int e) = take (length digits - e) digits"
    using len by (simp add: js_slice_prefix nat_diff_distrib)
  have frac: "js_slice_from digits (int (length digits) - int e) = drop (length digits - e) digits"
    using len by (simp add: js_slice_from_drop nat_diff_distrib)
  have "\<forall>c \<in> set (take (length digits - e) digits). is_digit c"
    by (auto simp: digits_def padded_digits dest: in_set_takeD)
  then have big: "js_BigInt (take (length digits - e) digits) = Inr (int (n div 10 ^ e))"
    using cut_digits(1,4) [of n e] by (simp add: parse_digits_value digits_def)
  have f: "0 < e \<Longrightarrow> drop (length digits - e) digits = js_padStart (show_nat (n mod 10 ^ e)) e CHR ''0''"
    using fraction_text by (simp add: digits_def)
  have ne: "0 < e \<Longrightarrow> js_padStart (show_nat (n mod 10 ^ e)) e CHR ''0'' \<noteq> []"
    by (simp add: js_padStart_def)
  show ?thesis
    unfolding formatMinorUnits_def Let_def startsWith_minus unsigned_digits
      n_def [symmetric] digits_def [symmetric] whole frac big figure_def
    using f ne by (auto simp: intl_format_def simp flip: n_def)
qed

lemma no_digit_separators:
  "filter is_digit (groupSeparator l) = []" "filter is_digit (decimalSeparator l) = []"
  "filter is_digit MINUS = []"
  by (cases l; simp add: groupSeparator_def decimalSeparator_def MINUS_def is_digit_def)+

lemma filter_group_digits:
  "filter is_digit sep = [] \<Longrightarrow> filter is_digit (group_digits sep s) = filter is_digit s"
proof (induction sep s rule: group_digits.induct)
  case (1 sep s)
  then show ?case
    by (subst group_digits.simps) (auto, metis append_take_drop_id filter_append)
qed

lemma filter_digits_id: "\<forall>c \<in> set s. is_digit c \<Longrightarrow> filter is_digit s = s"
  by simp

lemma figure_digits:
  "digits_value (filter is_digit (figure i e l)) = nat \<bar>i\<bar>"
proof -
  let ?n = "nat \<bar>i\<bar>"
  have "filter is_digit (figure i e l) = show_nat (?n div 10 ^ e) @
      (if e = 0 then [] else js_padStart (show_nat (?n mod 10 ^ e)) e CHR ''0'')"
    by (auto simp: figure_def no_digit_separators filter_group_digits show_nat_is_digit padded_digits)
  also have "digits_value \<dots> = ?n"
  proof (cases "e = 0")
    case False
    have "length (js_padStart (show_nat (?n mod 10 ^ e)) e CHR ''0'') = e"
      using cut_digits(3) fraction_text False by (metis not_gr_zero)
    with False show ?thesis
      by (subst if_not_P; simp) (subst digits_value_split;
        auto simp: padded_digits show_nat_is_digit padded_value div_mult_mod_eq)
  qed simp
  finally show ?thesis .
qed

lemma group_digits_head:
  "s \<noteq> [] \<Longrightarrow> group_digits sep s \<noteq> [] \<and> hd (group_digits sep s) = hd s"
proof (induction sep s rule: group_digits.induct)
  case (1 sep s)
  then show ?case
    by (subst (1 2) group_digits.simps) (auto simp: hd_append)
qed

lemma figure_sign: "js_startsWith (figure i e l) MINUS \<longleftrightarrow> i < 0"
proof (cases "i < 0")
  case True
  then show ?thesis by (simp add: figure_def js_startsWith_def)
next
  case False
  let ?w = "show_nat (nat \<bar>i\<bar> div 10 ^ e)"
  have "is_digit (hd ?w)" by (rule show_nat_is_digit [of _ "nat \<bar>i\<bar> div 10 ^ e"]) simp
  then have "hd ?w \<noteq> hd MINUS" by (auto simp: MINUS_def is_digit_def)
  with False have "hd (figure i e l) \<noteq> hd MINUS"
    using group_digits_head [of ?w "groupSeparator l"] by (simp add: figure_def hd_append)
  then have "\<not> js_startsWith (figure i e l) MINUS"
    by (cases "figure i e l") (auto simp: js_startsWith_def MINUS_def)
  with False show ?thesis by simp
qed

text \<open>C6. Formatting an amount prints every one of its minor units, in every currency and both
  locales: the digits of the figure spell the absolute amount exactly, beyond
  \<open>Number.MAX_SAFE_INTEGER\<close> too, and the figure opens with U+2212 when and only when the amount is
  negative; formatting never throws on an integer.\<close>

theorem formatMinorUnits_exact:
  "\<exists>out. formatMinorUnits (show_int i) e l = Inr out \<and>
     digits_value (filter is_digit out) = nat \<bar>i\<bar> \<and>
     (js_startsWith out MINUS = (i < 0))"
proof (intro exI conjI)
  show "formatMinorUnits (show_int i) e l = Inr (figure i e l)"
    by (rule formatMinorUnits_figure)
  show "digits_value (filter is_digit (figure i e l)) = nat \<bar>i\<bar>" by (rule figure_digits)
  show "js_startsWith (figure i e l) MINUS = (i < 0)"
    by (rule figure_sign)
qed

text \<open>The layout of a figure: the whole units grouped by threes, then, unless the currency has
  no minor unit, the locale's decimal mark and exactly as many digits as the currency's exponent;
  the whole part is the amount divided by \<open>10 ^ exponent\<close> and the fraction its remainder.\<close>

theorem formatMinorUnits_layout:
  "formatMinorUnits (show_int i) e l =
     Inr ((if i < 0 then MINUS else []) @
          group_digits (groupSeparator l) (show_nat (nat \<bar>i\<bar> div 10 ^ e)) @
          (if e = 0 then []
           else decimalSeparator l @ js_padStart (show_nat (nat \<bar>i\<bar> mod 10 ^ e)) e CHR ''0''))"
  by (simp only: formatMinorUnits_figure figure_def)

subsection \<open>Sums and percentages\<close>

lemma efold_BigInt:
  "efold (\<lambda>acc v. ebind (js_BigInt v) (\<lambda>i. Inr (acc + i))) z vs =
     (if list_all (\<lambda>v. parse_bigint v \<noteq> None) vs
      then Inr (z + (\<Sum>v \<leftarrow> vs. the (parse_bigint v))) else Inl SyntaxError)"
  by (induction vs arbitrary: z) (auto simp: js_BigInt_def split: option.splits)

text \<open>\<open>sumMinorUnits\<close> is integer addition: it throws a \<open>SyntaxError\<close> exactly when some value is
  not an integer literal, and otherwise returns the decimal text of the exact sum.\<close>

theorem sumMinorUnits_exact:
  "sumMinorUnits vs =
     (if list_all (\<lambda>v. parse_bigint v \<noteq> None) vs
      then Inr (show_int (\<Sum>v \<leftarrow> vs. the (parse_bigint v))) else Inl SyntaxError)"
  by (simp add: sumMinorUnits_def efold_BigInt)

definition percent_text :: "int \<Rightarrow> Locale \<Rightarrow> string" where
  "percent_text q l =
     (if q < 0 then MINUS else []) @ show_nat (nat \<bar>q\<bar> div 10) @ decimalSeparator l @
     show_nat (nat \<bar>q\<bar> mod 10) @ ''%''"

lemma percent_body:
  fixes n :: nat
  defines "a \<equiv> js_padStart (show_nat n) 2 CHR ''0''"
  shows "js_slice a 0 (- 1) @ d @ js_slice_from a (- 1) @ r
    = show_nat (n div 10) @ d @ show_nat (n mod 10) @ r"
proof (cases "n < 10")
  case True
  then have "show_nat n = [digit_char n]" by (simp add: show_nat.simps)
  moreover have "show_nat 0 = [CHR ''0'']" by (simp add: show_nat.simps zero_char)
  ultimately show ?thesis
    using True by (simp add: a_def js_padStart_def js_slice_butlast js_slice_from_last)
next
  case False
  then have n: "show_nat n = show_nat (n div 10) @ [digit_char (n mod 10)]"
    by (subst show_nat.simps) simp
  have "show_nat (n mod 10) = [digit_char (n mod 10)]" by (simp add: show_nat.simps)
  moreover have "2 \<le> length (show_nat n)"
    using show_nat_nonempty [of "n div 10"] by (cases "show_nat (n div 10)") (simp_all add: n)
  ultimately show ?thesis
    by (simp add: a_def js_padStart_def js_slice_butlast js_slice_from_last n)
qed

lemma percentOf_text:
  "percentOf (show_int a) (show_int b) l =
     Inr (if b = 0 then None else Some (percent_text (bigint_div (a * 1000) b) l))"
proof (cases "b = 0")
  case False
  let ?q = "bigint_div (a * 1000) b"
  have abs: "show_int (if ?q < 0 then - ?q else ?q) = show_nat (nat \<bar>?q\<bar>)"
    by (simp add: show_int_def)
  show ?thesis using False percent_body [of "nat \<bar>?q\<bar>" "decimalSeparator l"]
    by (simp only: percentOf_def Let_def abs percent_text_def js_BigInt_show ebind_simps if_False)
      simp
qed (simp add: percentOf_def)

lemma bigint_div_bounds:
  assumes "b \<noteq> 0"
  shows "\<bar>a - bigint_div a b * b\<bar> < \<bar>b\<bar>" and "\<bar>bigint_div a b * b\<bar> \<le> \<bar>a\<bar>"
proof -
  have b: "sgn b * b = \<bar>b\<bar>" by (simp add: abs_if sgn_if)
  have q: "bigint_div a b * b = sgn a * (\<bar>a\<bar> div \<bar>b\<bar> * \<bar>b\<bar>)"
    by (simp add: bigint_div_def b [symmetric] algebra_simps)
  have "a = sgn a * \<bar>a\<bar>" by (simp add: sgn_mult_abs)
  then have r: "a - bigint_div a b * b = sgn a * (\<bar>a\<bar> mod \<bar>b\<bar>)"
    unfolding q by (simp add: minus_div_mult_eq_mod [symmetric] right_diff_distrib)
  have pos: "0 < \<bar>b\<bar>" using assms by simp
  have "\<bar>a\<bar> mod \<bar>b\<bar> < \<bar>b\<bar>" by (rule pos_mod_bound [OF pos])
  moreover have "0 \<le> \<bar>a\<bar> mod \<bar>b\<bar>" by (rule pos_mod_sign [OF pos])
  ultimately show "\<bar>a - bigint_div a b * b\<bar> < \<bar>b\<bar>"
    unfolding r by (auto simp: abs_mult sgn_if)
  have "\<bar>a\<bar> div \<bar>b\<bar> * \<bar>b\<bar> \<le> \<bar>a\<bar>" by (simp add: minus_mod_eq_div_mult [symmetric] pos_mod_sign [OF pos])
  moreover have "0 \<le> \<bar>a\<bar> div \<bar>b\<bar> * \<bar>b\<bar>" by (simp add: pos_imp_zdiv_nonneg_iff assms)
  ultimately show "\<bar>bigint_div a b * b\<bar> \<le> \<bar>a\<bar>" unfolding q by (auto simp: abs_mult sgn_if)
qed

text \<open>\<open>percentOf\<close> has no percentage of a zero base; of any other base it prints, in the locale,
  the percentage cut to one decimal: the printed tenths \<open>q\<close> miss \<open>1000 * a / b\<close> by less than one
  tenth and never exceed it in size.\<close>

theorem percentOf_tenths:
  "\<exists>q. percentOf (show_int a) (show_int b) l = Inr (if b = 0 then None else Some (percent_text q l)) \<and>
     (b = 0 \<or> \<bar>1000 * a - q * b\<bar> < \<bar>b\<bar> \<and> \<bar>q * b\<bar> \<le> \<bar>1000 * a\<bar>)"
  using percentOf_text [of a b l] bigint_div_bounds [of b "1000 * a"]
  by (intro exI [of _ "bigint_div (a * 1000) b"]) (auto simp: mult.commute)

end
