(* ===== verification/Wire.thy ===== *)
theory Wire
  imports Money_Format
begin

section \<open>The messages on the wire\<close>

text \<open>
  The message and enum types of \<open>src/web/src/gen/vekst/v1\<close> that the data modules read and build,
  field by field. A record of the wire is named after its message with a leading \<open>P\<close> (the modules
  import them as \<open>Proto...\<close>); Isabelle's record fields share one name space, so a field carries the
  initials of its message. A \<open>number\<close> that counts is an \<^typ>\<open>int\<close>, a ratio is a \<^typ>\<open>rat\<close> (exact, where
  JavaScript rounds to 64 bits), a \<open>bigint\<close> is an \<^typ>\<open>int\<close>. \<open>Money\<close> on the wire is structurally the
  \<^typ>\<open>Money\<close> of the screens. An enum value the generated code does not name is not modelled.
\<close>

record Timestamp =
  ts_seconds :: int
  ts_nanos :: int

datatype PSourceKind =
    PSourceKind_UNSPECIFIED
  | PSourceKind_LEDGER
  | PSourceKind_BANK

datatype ImportStatus =
    ImportStatus_UNSPECIFIED
  | ImportStatus_AWAITING_UPLOAD
  | ImportStatus_ABANDONED
  | ImportStatus_UPLOADED
  | ImportStatus_PARSING
  | ImportStatus_PARSED
  | ImportStatus_VALIDATING
  | ImportStatus_VALIDATED
  | ImportStatus_REJECTED
  | ImportStatus_PERSISTING
  | ImportStatus_IMPORTED
  | ImportStatus_FAILED

datatype RunStatus =
    RunStatus_UNSPECIFIED
  | RunStatus_RUNNING
  | RunStatus_CLASSIFIED
  | RunStatus_FAILED

datatype PValidationOutcome =
    PValidationOutcome_UNSPECIFIED
  | PValidationOutcome_VALID
  | PValidationOutcome_VALID_WITH_WARNINGS
  | PValidationOutcome_REJECTED

datatype ReportBasis =
    ReportBasis_UNSPECIFIED
  | ReportBasis_LEDGER
  | ReportBasis_BANK

datatype ReportGranularity =
    ReportGranularity_UNSPECIFIED
  | ReportGranularity_MONTH
  | ReportGranularity_QUARTER
  | ReportGranularity_YEAR

datatype ReportBucketKind =
    ReportBucketKind_UNSPECIFIED
  | ReportBucketKind_UNCLASSIFIED
  | ReportBucketKind_NON_PNL
  | ReportBucketKind_UNALLOCATED
  | ReportBucketKind_OTHER_BASIS

datatype ReportAnswerKind =
    ReportAnswerKind_UNSPECIFIED
  | ReportAnswerKind_TRANSACTIONS
  | ReportAnswerKind_OPERANDS

datatype ReviewOutcome =
    ReviewOutcome_UNSPECIFIED
  | ReviewOutcome_CATEGORISED
  | ReviewOutcome_INTERNAL_TRANSFER
  | ReviewOutcome_NON_PNL
  | ReviewOutcome_SKIPPED

record PCreateOrganizationRequest =
  cor_name :: "string"
  cor_country :: "string"
  cor_baseCurrency :: "string"
  cor_entityName :: "string"

record PCreateOrganizationResponse =
  corq_organizationId :: "string"
  corq_entityId :: "string"

record PUser =
  usr_id :: "string"
  usr_email :: "string"
  usr_name :: "string"
  usr_locale :: "string"

type_synonym PGetCurrentUserRequest = unit

record PEntity =
  ent_id :: "string"
  ent_name :: "string"

record POrganisation =
  org_id :: "string"
  org_name :: "string"
  org_baseCurrency :: "string"
  org_role :: "string"
  org_entities :: "PEntity list"

record PGetCurrentUserResponse =
  gcurq_user :: "PUser option"
  gcurq_organisations :: "POrganisation list"

record PCreateImportBatchRequest =
  cibr_orgId :: "string"
  cibr_entityId :: "string"
  cibr_sourceKind :: "PSourceKind"
  cibr_fileName :: "string"
  cibr_declaredBytes :: "int"
  cibr_declaredType :: "string"
  cibr_importProfileId :: "string option"

record PClassificationRun =
  cr_status :: "RunStatus"
  cr_failureCode :: "string"
  cr_chunkCount :: "int"
  cr_classifiedCount :: "int"
  cr_reviewCount :: "int"
  cr_startedAt :: "Timestamp option"
  cr_finishedAt :: "Timestamp option"

record PImportBatch =
  ib_id :: "string"
  ib_entityId :: "string"
  ib_sourceKind :: "PSourceKind"
  ib_status :: "ImportStatus"
  ib_fileName :: "string"
  ib_byteLength :: "int"
  ib_failureCode :: "string"
  ib_createdAt :: "Timestamp option"
  ib_classificationRun :: "PClassificationRun option"

record PCreateImportBatchResponse =
  cibrq_batch :: "PImportBatch option"
  cibrq_uploadUrl :: "string"
  cibrq_uploadHeaders :: "(string \<times> string) list"
  cibrq_expiresAt :: "Timestamp option"

record PConfirmImportUploadRequest =
  ciur_orgId :: "string"
  ciur_batchId :: "string"

record PConfirmImportUploadResponse =
  ciurq_batch :: "PImportBatch option"

record PGetImportBatchRequest =
  gibr_orgId :: "string"
  gibr_batchId :: "string"

record PGetImportBatchResponse =
  gibrq_batch :: "PImportBatch option"

record PImportedRow =
  ir_id :: "string"
  ir_bookedOn :: "string"
  ir_lineNo :: "int"
  ir_postingNo :: "int"
  ir_documentRef :: "string"
  ir_amount :: "Money option"
  ir_baseAmount :: "Money option"
  ir_counterpartyRaw :: "string"
  ir_description :: "string"
  ir_regulatedCode :: "string"
  ir_categoryCode :: "string"
  ir_categoryName :: "string"
  ir_engineLayer :: "string"
  ir_evidence :: "string"
  ir_confidence :: "rat option"

record PListBatchTransactionsRequest =
  lbtr_orgId :: "string"
  lbtr_batchId :: "string"

record PListBatchTransactionsResponse =
  lbtrq_rows :: "PImportedRow list"

record PListImportBatchesRequest =
  libr_orgId :: "string"
  libr_entityId :: "string"

record PListImportBatchesResponse =
  librq_batches :: "PImportBatch list"

record PValidationError =
  ve_line :: "int"
  ve_field :: "string"
  ve_code :: "string"
  ve_raw :: "string"

record PBalanceMismatchDetail =
  bmd_opening :: "int"
  bmd_movements :: "int"
  bmd_closing :: "int"
  bmd_difference :: "int"
  bmd_currency :: "string"

record PValidationWarning =
  vw_code :: "string"
  vw_balanceMismatch :: "PBalanceMismatchDetail option"

record PValidationReport =
  vr_batchId :: "string"
  vr_outcome :: "PValidationOutcome"
  vr_rowCount :: "int"
  vr_errorCount :: "int"
  vr_warningCount :: "int"
  vr_balanceCheckPassed :: "bool option"
  vr_errors :: "PValidationError list"
  vr_warnings :: "PValidationWarning list"
  vr_overriddenByUserId :: "string"
  vr_overrideReason :: "string"
  vr_overriddenAt :: "Timestamp option"

record PGetValidationReportRequest =
  gvrr_orgId :: "string"
  gvrr_batchId :: "string"

record PGetValidationReportResponse =
  gvrrq_report :: "PValidationReport option"

record POverrideValidationRequest =
  ovr_orgId :: "string"
  ovr_batchId :: "string"
  ovr_reason :: "string"

record POverrideValidationResponse =
  ovrq_report :: "PValidationReport option"

record PDedupSummary =
  ds_importedRows :: "int"
  ds_skippedInBatch :: "int"
  ds_skippedCrossBatch :: "int"
  ds_internalTransfers :: "int"

record PGetDedupSummaryRequest =
  gdsr_orgId :: "string"
  gdsr_batchId :: "string"

record PGetDedupSummaryResponse =
  gdsrq_summary :: "PDedupSummary option"

record PSkippedRow =
  sr_lineNo :: "int"
  sr_postingNo :: "int"
  sr_level :: "string"
  sr_dedupHash :: "string"
  sr_matchedTransactionId :: "string"
  sr_matchedBatchId :: "string"
  sr_createdAt :: "Timestamp option"

record PListSkippedRowsRequest =
  lsrr_orgId :: "string"
  lsrr_batchId :: "string"

record PListSkippedRowsResponse =
  lsrrq_rows :: "PSkippedRow list"

record PInternalTransfer =
  it_id :: "string"
  it_outTransactionId :: "string"
  it_inTransactionId :: "string"
  it_detectedAt :: "Timestamp option"
  it_dismissedByUserId :: "string"
  it_dismissedAt :: "Timestamp option"

record PListInternalTransfersRequest =
  litr_orgId :: "string"
  litr_entityId :: "string"

record PListInternalTransfersResponse =
  litrq_transfers :: "PInternalTransfer list"

record PDismissInternalTransferRequest =
  ditr_orgId :: "string"
  ditr_transferId :: "string"

record PDismissInternalTransferResponse =
  ditrq_transfer :: "PInternalTransfer option"

record PGetManagementPNLRequest =
  gmpnlr_organizationId :: "string"
  gmpnlr_entityId :: "string"
  gmpnlr_from :: "string"
  gmpnlr_to :: "string"
  gmpnlr_granularity :: "ReportGranularity"
  gmpnlr_basis :: "ReportBasis"

record PReportFigure =
  rf_amount :: "Money option"
  rf_percentOfRevenue :: "rat option"

record PReportLine =
  rl_code :: "string"
  rl_label :: "string"
  rl_formula :: "string"
  rl_computed :: "bool"
  rl_byPeriod :: "PReportFigure list"
  rl_total :: "PReportFigure option"

record PReportBucketLine =
  rbl_kind :: "ReportBucketKind"
  rbl_byPeriod :: "Money list"
  rbl_total :: "Money option"

record PReportVersions =
  rv_taxonomy :: "string list"
  rv_ruleset :: "string list"
  rv_engine :: "string list"
  rv_normalize :: "string list"

record PReconciliationLine =
  rec_period :: "string"
  rec_opening :: "Money option"
  rec_in :: "Money option"
  rec_out :: "Money option"
  rec_transfers :: "Money option"
  rec_transferRowCount :: "int"
  rec_closing :: "Money option"
  rec_balances :: "bool"
  rec_derived :: "bool"

record PGetManagementPNLResponse =
  gmpnlrq_basis :: "ReportBasis"
  gmpnlrq_granularity :: "ReportGranularity"
  gmpnlrq_from :: "string"
  gmpnlrq_to :: "string"
  gmpnlrq_baseCurrency :: "string"
  gmpnlrq_periods :: "string list"
  gmpnlrq_lines :: "PReportLine list"
  gmpnlrq_buckets :: "PReportBucketLine list"
  gmpnlrq_versions :: "PReportVersions option"
  gmpnlrq_reconciliation :: "PReconciliationLine list"

record PListLineTransactionsRequest =
  lltr_organizationId :: "string"
  lltr_entityId :: "string"
  lltr_basis :: "ReportBasis"
  lltr_granularity :: "ReportGranularity"
  lltr_from :: "string"
  lltr_to :: "string"
  lltr_period :: "string"
  lltr_line :: "string"
  lltr_cursor :: "string"
  lltr_limit :: "int"

record PDrillTransaction =
  dt_id :: "string"
  dt_bookedOn :: "string"
  dt_batchId :: "string"
  dt_lineNo :: "int"
  dt_postingNo :: "int"
  dt_documentRef :: "string"
  dt_amount :: "Money option"
  dt_baseAmount :: "Money option"
  dt_counterpartyRaw :: "string"
  dt_description :: "string"
  dt_regulatedCode :: "string"
  dt_sourceKind :: "string"
  dt_categoryCode :: "string"
  dt_categoryName :: "string"
  dt_engineLayer :: "string"
  dt_evidence :: "string"
  dt_confidence :: "rat option"
  dt_decidedBy :: "string"

record PReportOperand =
  ro_code :: "string"
  ro_label :: "string"
  ro_subtracted :: "bool"

record PListLineTransactionsResponse =
  lltrq_kind :: "ReportAnswerKind"
  lltrq_transactions :: "PDrillTransaction list"
  lltrq_operands :: "PReportOperand list"
  lltrq_rowCount :: "int"
  lltrq_total :: "Money option"
  lltrq_nextCursor :: "string"

record PReviewGroup =
  rg_counterpartyKey :: "string"
  rg_displayName :: "string"
  rg_rowCount :: "int"
  rg_total :: "Money option"
  rg_firstSeen :: "string"
  rg_lastSeen :: "string"

record PListReviewGroupsRequest =
  lrgr_organizationId :: "string"
  lrgr_entityId :: "string"
  lrgr_limit :: "int"
  lrgr_offset :: "int"

record PListReviewGroupsResponse =
  lrgrq_groups :: "PReviewGroup list"
  lrgrq_totalRowCount :: "int"
  lrgrq_totalCounterpartyCount :: "int"
  lrgrq_totalAbsolute :: "Money option"

record PListGroupTransactionsRequest =
  lgtr_organizationId :: "string"
  lgtr_entityId :: "string"
  lgtr_counterpartyKey :: "string"

record PQueuedTransaction =
  qt_id :: "string"
  qt_bookedOn :: "string"
  qt_direction :: "string"
  qt_amount :: "Money option"
  qt_baseAmount :: "Money option"
  qt_description :: "string"
  qt_counterpartyRaw :: "string"
  qt_regulatedCode :: "string"
  qt_sourceKind :: "string"

record PListGroupTransactionsResponse =
  lgtrq_transactions :: "PQueuedTransaction list"

record PResolveGroupRequest =
  rgr_organizationId :: "string"
  rgr_entityId :: "string"
  rgr_counterpartyKey :: "string"
  rgr_outcome :: "ReviewOutcome"
  rgr_categoryCode :: "string"

record PResolveGroupResponse =
  rgrq_decisionId :: "string"
  rgrq_coveredCount :: "int"
  rgrq_coveredTotal :: "Money option"

record PListCategoriesRequest =
  lcr_organizationId :: "string"

record PCategory =
  cat_id :: "string"
  cat_code :: "string"
  cat_name :: "string"
  cat_path :: "string"
  cat_isPnl :: "bool"

record PListCategoriesResponse =
  lcrq_categories :: "PCategory list"

end
