(* ===== verification/Session_Io.thy ===== *)
theory Session_Io
  imports Wire
begin

section \<open>The session, the network and asynchronous code\<close>

text \<open>
  \<open>src/web/src/data/session.ts\<close> and \<open>data/auth.ts\<close>, and the effects every data module has. An
  \<open>async\<close> function is a state transformer over the \<open>world\<close>: the module variable \<open>current\<close> of
  session.ts, the state of the server (of any type \<open>'s\<close>), and the list of everything the browser
  has sent so far. Its result is a value or the error it rejects with. Calls run in the order the
  code issues them.

  What is not in the repository is a field of the environment \<open>env\<close>: the answers of the Connect
  backend and of the object store, \<open>timestampDate\<close> of \<open>@bufbuild/protobuf\<close> (a \<open>Date\<close> is its
  milliseconds since the epoch), and the three fields the code reads off
  \<open>ConnectError.from(err)\<close>. Properties assume nothing about them unless they say so.
\<close>

subsection \<open>What the browser sends\<close>

datatype call =
    CreateOrganization PCreateOrganizationRequest
  | CreateImportBatch PCreateImportBatchRequest
  | ConfirmImportUpload PConfirmImportUploadRequest
  | GetImportBatch PGetImportBatchRequest
  | ListImportBatches PListImportBatchesRequest
  | ListBatchTransactions PListBatchTransactionsRequest
  | GetValidationReport PGetValidationReportRequest
  | OverrideValidation POverrideValidationRequest
  | GetDedupSummary PGetDedupSummaryRequest
  | ListSkippedRows PListSkippedRowsRequest
  | ListInternalTransfers PListInternalTransfersRequest
  | DismissInternalTransfer PDismissInternalTransferRequest
  | GetManagementPNL PGetManagementPNLRequest
  | ListLineTransactions PListLineTransactionsRequest
  | ListReviewGroups PListReviewGroupsRequest
  | ListGroupTransactions PListGroupTransactionsRequest
  | ResolveGroup PResolveGroupRequest
  | ListCategories PListCategoriesRequest
  | PutObject string "(string \<times> string) list" string
  | PostLogout
  | Navigate string

text \<open>The tenant a call names, for the calls that name one.\<close>

fun call_org :: "call \<Rightarrow> string option" where
  "call_org (CreateImportBatch r) = Some (cibr_orgId r)"
| "call_org (ConfirmImportUpload r) = Some (ciur_orgId r)"
| "call_org (GetImportBatch r) = Some (gibr_orgId r)"
| "call_org (ListImportBatches r) = Some (libr_orgId r)"
| "call_org (ListBatchTransactions r) = Some (lbtr_orgId r)"
| "call_org (GetValidationReport r) = Some (gvrr_orgId r)"
| "call_org (OverrideValidation r) = Some (ovr_orgId r)"
| "call_org (GetDedupSummary r) = Some (gdsr_orgId r)"
| "call_org (ListSkippedRows r) = Some (lsrr_orgId r)"
| "call_org (ListInternalTransfers r) = Some (litr_orgId r)"
| "call_org (DismissInternalTransfer r) = Some (ditr_orgId r)"
| "call_org (GetManagementPNL r) = Some (gmpnlr_organizationId r)"
| "call_org (ListLineTransactions r) = Some (lltr_organizationId r)"
| "call_org (ListReviewGroups r) = Some (lrgr_organizationId r)"
| "call_org (ListGroupTransactions r) = Some (lgtr_organizationId r)"
| "call_org (ResolveGroup r) = Some (rgr_organizationId r)"
| "call_org (ListCategories r) = Some (lcr_organizationId r)"
| "call_org _ = None"

subsection \<open>The world and the environment\<close>

record Session =
  orgId :: string
  entityId :: string
  baseCurrency :: string

record 's world =
  current :: "Session option"
  server :: 's
  sent :: "call list"

type_synonym ('s, 'a) io = "'s world \<Rightarrow> 'a js \<times> 's world"

type_synonym ('s, 'q, 'r) rpc = "'s \<Rightarrow> 'q \<Rightarrow> 'r js \<times> 's"

record 's env =
  timestampDate :: "Timestamp \<Rightarrow> int"
  connectCode :: "js_error \<Rightarrow> connect_code"
  connectRawMessage :: "js_error \<Rightarrow> string"
  connectMessage :: "js_error \<Rightarrow> string"
  createOrganization :: "('s, PCreateOrganizationRequest, PCreateOrganizationResponse) rpc"
  createImportBatchRpc :: "('s, PCreateImportBatchRequest, PCreateImportBatchResponse) rpc"
  confirmImportUploadRpc :: "('s, PConfirmImportUploadRequest, PConfirmImportUploadResponse) rpc"
  getImportBatch :: "('s, PGetImportBatchRequest, PGetImportBatchResponse) rpc"
  listImportBatches :: "('s, PListImportBatchesRequest, PListImportBatchesResponse) rpc"
  listBatchTransactionsRpc :: "('s, PListBatchTransactionsRequest, PListBatchTransactionsResponse) rpc"
  getValidationReportRpc :: "('s, PGetValidationReportRequest, PGetValidationReportResponse) rpc"
  overrideValidationRpc :: "('s, POverrideValidationRequest, POverrideValidationResponse) rpc"
  getDedupSummaryRpc :: "('s, PGetDedupSummaryRequest, PGetDedupSummaryResponse) rpc"
  listSkippedRowsRpc :: "('s, PListSkippedRowsRequest, PListSkippedRowsResponse) rpc"
  listInternalTransfersRpc :: "('s, PListInternalTransfersRequest, PListInternalTransfersResponse) rpc"
  dismissInternalTransferRpc ::
    "('s, PDismissInternalTransferRequest, PDismissInternalTransferResponse) rpc"
  getManagementPNL :: "('s, PGetManagementPNLRequest, PGetManagementPNLResponse) rpc"
  listLineTransactions :: "('s, PListLineTransactionsRequest, PListLineTransactionsResponse) rpc"
  listReviewGroupsRpc :: "('s, PListReviewGroupsRequest, PListReviewGroupsResponse) rpc"
  listGroupTransactionsRpc :: "('s, PListGroupTransactionsRequest, PListGroupTransactionsResponse) rpc"
  resolveGroup :: "('s, PResolveGroupRequest, PResolveGroupResponse) rpc"
  listCategoriesRpc :: "('s, PListCategoriesRequest, PListCategoriesResponse) rpc"
  put_object :: "'s \<Rightarrow> string \<Rightarrow> (string \<times> string) list \<Rightarrow> string \<Rightarrow> int js \<times> 's"
  post_logout :: "'s \<Rightarrow> unit js \<times> 's"

subsection \<open>Sequencing\<close>

definition io_return :: "'a \<Rightarrow> ('s, 'a) io" where
  "io_return x w = (Inr x, w)"

definition io_throw :: "js_error \<Rightarrow> ('s, 'a) io" where
  "io_throw e w = (Inl e, w)"

definition io_lift :: "'a js \<Rightarrow> ('s, 'a) io" where
  "io_lift r w = (r, w)"

definition io_bind :: "('s, 'a) io \<Rightarrow> ('a \<Rightarrow> ('s, 'b) io) \<Rightarrow> ('s, 'b) io" where
  "io_bind m f w = (case m w of (Inl e, w') \<Rightarrow> (Inl e, w') | (Inr x, w') \<Rightarrow> f x w')"

text \<open>\<open>try { ... } catch (err) { ... }\<close>.\<close>

definition io_catch :: "('s, 'a) io \<Rightarrow> (js_error \<Rightarrow> ('s, 'a) io) \<Rightarrow> ('s, 'a) io" where
  "io_catch m h w = (case m w of (Inl e, w') \<Rightarrow> h e w' | (Inr x, w') \<Rightarrow> (Inr x, w'))"

text \<open>\<open>Promise.all([a, b])\<close>: both are started and both run; the first rejection is the result.\<close>

definition io_all2 :: "('s, 'a) io \<Rightarrow> ('s, 'b) io \<Rightarrow> ('s, 'a \<times> 'b) io" where
  "io_all2 m n w =
     (case m w of (r1, w1) \<Rightarrow> case n w1 of (r2, w2) \<Rightarrow>
        (ebind r1 (\<lambda>x. ebind r2 (\<lambda>y. Inr (x, y))), w2))"

text \<open>One RPC: the request is recorded as sent and the server's answer is the result.\<close>

definition rpc :: "('q \<Rightarrow> call) \<Rightarrow> ('s, 'q, 'r) rpc \<Rightarrow> 'q \<Rightarrow> ('s, 'r) io" where
  "rpc mk handler q w =
     (case handler (server w) q of
        (r, s) \<Rightarrow> (r, w\<lparr>server := s, sent := sent w @ [mk q]\<rparr>))"

subsection \<open>session.ts\<close>

definition setSession :: "Session \<Rightarrow> ('s, unit) io" where
  "setSession s w = (Inr (), w\<lparr>current := Some s\<rparr>)"

definition clearSession :: "('s, unit) io" where
  "clearSession w = (Inr (), w\<lparr>current := None\<rparr>)"

definition requireSession :: "('s, Session) io" where
  "requireSession w = (case current w of None \<Rightarrow> (Inl SessionNotSetError, w) | Some s \<Rightarrow> (Inr s, w))"

subsection \<open>auth.ts\<close>

definition signOut :: "'s env \<Rightarrow> ('s, unit) io" where
  "signOut E =
     io_bind clearSession (\<lambda>_.
     io_bind (rpc (\<lambda>_. PostLogout) (\<lambda>s _. post_logout E s) ()) (\<lambda>_.
     (\<lambda>w. (Inr (), w\<lparr>sent := sent w @ [Navigate ''/'']\<rparr>))))"

subsection \<open>What a program may do to the world\<close>

text \<open>
  \<open>calls_under C P m\<close>: started with a session that satisfies \<open>C\<close>, whatever the server answers,
  \<open>m\<close> leaves the session as it is and adds to what was sent only calls that satisfy \<open>P\<close>.
  \<open>calls_only P m\<close> says it of every session.
\<close>

definition calls_under :: "(Session option \<Rightarrow> bool) \<Rightarrow> (call \<Rightarrow> bool) \<Rightarrow> ('s, 'a) io \<Rightarrow> bool" where
  "calls_under C P m \<longleftrightarrow>
     (\<forall>w. C (current w) \<longrightarrow> current (snd (m w)) = current w \<and>
          (\<exists>cs. sent (snd (m w)) = sent w @ cs \<and> list_all P cs))"

abbreviation calls_only :: "(call \<Rightarrow> bool) \<Rightarrow> ('s, 'a) io \<Rightarrow> bool" where
  "calls_only P m \<equiv> calls_under (\<lambda>_. True) P m"

lemmas calls_only_def = calls_under_def [of "\<lambda>_. True", simplified]

named_theorems calls_only_intros \<open>rules that build \<open>calls_under\<close> along the code\<close>

lemma calls_underD:
  assumes "calls_under C P m" "C (current w)" "m w = (r, w')"
  obtains cs where "current w' = current w" "sent w' = sent w @ cs" "list_all P cs"
  using assms unfolding calls_under_def by (metis snd_conv)

lemma calls_underI:
  assumes "\<And>w r w'. C (current w) \<Longrightarrow> m w = (r, w') \<Longrightarrow>
    current w' = current w \<and> (\<exists>cs. sent w' = sent w @ cs \<and> list_all P cs)"
  shows "calls_under C P m"
  unfolding calls_under_def using assms by (metis prod.collapse)

lemma calls_under_only [elim]: "calls_only P m \<Longrightarrow> calls_under C P m"
  by (simp add: calls_under_def)

lemma calls_only_return [calls_only_intros]: "calls_under C P (io_return x)"
  by (simp add: calls_under_def io_return_def)

lemma calls_only_throw [calls_only_intros]: "calls_under C P (io_throw e)"
  by (simp add: calls_under_def io_throw_def)

lemma calls_only_lift [calls_only_intros]: "calls_under C P (io_lift r)"
  by (simp add: calls_under_def io_lift_def)

lemma calls_only_bind [calls_only_intros]:
  assumes m: "calls_under C P m" and f: "\<And>x. calls_under C P (f x)"
  shows "calls_under C P (io_bind m f)"
proof (rule calls_underI)
  fix w r w'
  assume C: "C (current w)" and run: "io_bind m f w = (r, w')"
  obtain r1 w1 where mw: "m w = (r1, w1)" by fastforce
  from m C mw obtain cs where cs: "current w1 = current w" "sent w1 = sent w @ cs" "list_all P cs"
    by (rule calls_underD)
  show "current w' = current w \<and> (\<exists>cs. sent w' = sent w @ cs \<and> list_all P cs)"
  proof (cases r1)
    case (Inl e)
    with mw cs run show ?thesis by (auto simp: io_bind_def)
  next
    case (Inr x)
    with mw run have "f x w1 = (r, w')" by (simp add: io_bind_def)
    with f [of x] C cs(1) obtain ds where "current w' = current w1" "sent w' = sent w1 @ ds"
      "list_all P ds" by (metis calls_underD)
    with cs show ?thesis by auto
  qed
qed

lemma calls_only_catch [calls_only_intros]:
  assumes m: "calls_under C P m" and h: "\<And>e. calls_under C P (h e)"
  shows "calls_under C P (io_catch m h)"
proof (rule calls_underI)
  fix w r w'
  assume C: "C (current w)" and run: "io_catch m h w = (r, w')"
  obtain r1 w1 where mw: "m w = (r1, w1)" by fastforce
  from m C mw obtain cs where cs: "current w1 = current w" "sent w1 = sent w @ cs" "list_all P cs"
    by (rule calls_underD)
  show "current w' = current w \<and> (\<exists>cs. sent w' = sent w @ cs \<and> list_all P cs)"
  proof (cases r1)
    case (Inr x)
    with mw cs run show ?thesis by (auto simp: io_catch_def)
  next
    case (Inl e)
    with mw run have "h e w1 = (r, w')" by (simp add: io_catch_def)
    with h [of e] C cs(1) obtain ds where "current w' = current w1" "sent w' = sent w1 @ ds"
      "list_all P ds" by (metis calls_underD)
    with cs show ?thesis by auto
  qed
qed

lemma calls_only_all2 [calls_only_intros]:
  assumes m: "calls_under C P m" and n: "calls_under C P n"
  shows "calls_under C P (io_all2 m n)"
proof (rule calls_underI)
  fix w r w'
  assume C: "C (current w)" and run: "io_all2 m n w = (r, w')"
  obtain r1 w1 where mw: "m w = (r1, w1)" by fastforce
  from m C mw obtain cs where cs: "current w1 = current w" "sent w1 = sent w @ cs" "list_all P cs"
    by (rule calls_underD)
  from run mw obtain r2 where "n w1 = (r2, w')" by (auto simp: io_all2_def split: prod.splits)
  with n C cs(1) obtain ds where "current w' = current w1" "sent w' = sent w1 @ ds" "list_all P ds"
    by (metis calls_underD)
  with cs show "current w' = current w \<and> (\<exists>cs. sent w' = sent w @ cs \<and> list_all P cs)" by auto
qed

lemma calls_only_rpc [calls_only_intros]: "P (mk q) \<Longrightarrow> calls_under C P (rpc mk h q)"
  by (auto simp: calls_under_def rpc_def split: prod.split)

lemma calls_only_if [calls_only_intros]:
  "calls_under C P a \<Longrightarrow> calls_under C P b \<Longrightarrow> calls_under C P (if c then a else b)"
  by simp

lemma calls_only_option [calls_only_intros]:
  "calls_under C P a \<Longrightarrow> (\<And>x. calls_under C P (f x)) \<Longrightarrow>
     calls_under C P (case v of None \<Rightarrow> a | Some x \<Rightarrow> f x)"
  by (cases v) simp_all

lemma calls_only_prod [calls_only_intros]:
  "(\<And>x y. calls_under C P (f x y)) \<Longrightarrow> calls_under C P (case v of (x, y) \<Rightarrow> f x y)"
  by (cases v) simp

lemma calls_only_requireSession [calls_only_intros]: "calls_under C P requireSession"
  by (auto simp: calls_under_def requireSession_def split: option.splits)

lemma requireSession_None [simp]: "current w = None \<Longrightarrow> requireSession w = (Inl SessionNotSetError, w)"
  by (simp add: requireSession_def)

lemma requireSession_Some [simp]: "current w = Some s \<Longrightarrow> requireSession w = (Inr s, w)"
  by (simp add: requireSession_def)

lemma requireSession_bind:
  "io_bind requireSession f w =
     (case current w of None \<Rightarrow> (Inl SessionNotSetError, w) | Some s \<Rightarrow> f s w)"
  by (simp add: io_bind_def requireSession_def split: option.splits)

lemma io_bind_Inl: "m w = (Inl e, w') \<Longrightarrow> io_bind m f w = (Inl e, w')"
  by (simp add: io_bind_def)

lemma io_bind_Inr: "m w = (Inr x, w') \<Longrightarrow> io_bind m f w = f x w'"
  by (simp add: io_bind_def)

lemma rpc_step: "h (server w) q = (r, s) \<Longrightarrow> rpc mk h q w = (r, w\<lparr>server := s, sent := sent w @ [mk q]\<rparr>)"
  by (simp add: rpc_def)

subsection \<open>The contract of a data call\<close>

text \<open>
  What a screen relies on when it calls into a data module: without a session the call throws and
  sends nothing; with one, everything it sends names the session's organisation, and the session is
  left alone. Each data module interprets this locale for each of its operations.
\<close>

locale tenant_call =
  fixes op :: "('s, 'a) io"
  assumes without_session: "current w = None \<Longrightarrow> op w = (Inl SessionNotSetError, w)"
    and with_session: "current w = Some s \<Longrightarrow>
      \<exists>cs. sent (snd (op w)) = sent w @ cs \<and> list_all (\<lambda>c. call_org c = Some (orgId s)) cs"
    and keeps_session: "current (snd (op w)) = current w"
begin

lemma sends_nothing_without_session: "current w = None \<Longrightarrow> sent (snd (op w)) = sent w"
  by (simp add: without_session)

lemma only_own_tenant:
  assumes "current w = Some s"
  shows "\<forall>c \<in> set (sent (snd (op w))) - set (sent w). call_org c = Some (orgId s)"
proof -
  obtain cs where "sent (snd (op w)) = sent w @ cs" "list_all (\<lambda>c. call_org c = Some (orgId s)) cs"
    using with_session [OF assms] by blast
  then show ?thesis by (auto simp: list_all_iff)
qed

end

text \<open>The calls an operation makes for the session it runs in.\<close>

abbreviation own_calls :: "Session \<Rightarrow> ('s, 'a) io \<Rightarrow> bool" where
  "own_calls s m \<equiv> calls_under (\<lambda>c. c = Some s) (\<lambda>c. call_org c = Some (orgId s)) m"

lemma tenant_callI:
  assumes "\<And>s. own_calls s (f s)"
  shows "tenant_call (io_bind requireSession f)"
proof
  fix w :: "'a world"
  show "current w = None \<Longrightarrow> io_bind requireSession f w = (Inl SessionNotSetError, w)"
    by (simp add: requireSession_bind)
  show "current w = Some s \<Longrightarrow> \<exists>cs. sent (snd (io_bind requireSession f w)) = sent w @ cs \<and>
      list_all (\<lambda>c. call_org c = Some (orgId s)) cs" for s
    using assms [of s] by (simp add: requireSession_bind calls_under_def)
  show "current (snd (io_bind requireSession f w)) = current w"
    using assms by (auto simp: requireSession_bind calls_under_def split: option.splits)
qed

lemma tenant_call_own: "tenant_call m \<Longrightarrow> own_calls s m"
  by (simp add: tenant_call_def calls_under_def)

subsection \<open>Properties\<close>

text \<open>Signing out drops the session before anything is sent, posts to the logout route exactly
  once, and leaves the page only after that request was answered: a failed logout request rejects
  with the session already gone and without a navigation.\<close>

theorem signOut_order:
  "current (snd (signOut E w)) = None \<and>
   sent (snd (signOut E w)) = sent w @ [PostLogout] @
     (case fst (post_logout E (server w)) of Inl e \<Rightarrow> [] | Inr u \<Rightarrow> [Navigate ''/''])"
  by (auto simp: signOut_def io_bind_def clearSession_def rpc_def split: prod.splits sum.splits)

end
