(* ===== verification/Demo_Env.thy ===== *)
theory Demo_Env
  imports Session_Io
begin

section \<open>A concrete environment\<close>

text \<open>
  A server that answers every request with an empty message, except that it knows one imported
  batch, and an object store that accepts every upload. It shows that the hypotheses of the
  properties about the data modules can hold together; no property is about it.
\<close>

definition demo_batch :: PImportBatch where
  "demo_batch =
     \<lparr>ib_id = ''b1'',
         ib_entityId = [],
         ib_sourceKind = PSourceKind_LEDGER,
         ib_status = ImportStatus_IMPORTED,
         ib_fileName = ''f.csv'',
         ib_byteLength = 0,
         ib_failureCode = [],
         ib_createdAt = None,
         ib_classificationRun = None\<rparr>"

definition demo_env :: "unit env" where
  "demo_env =
     \<lparr>timestampDate = (\<lambda>ts. 1000 * ts_seconds ts),
      connectCode = (\<lambda>e. case e of ConnectError c m \<Rightarrow> c | _ \<Rightarrow> OtherCode 2),
      connectRawMessage = (\<lambda>e. case e of ConnectError c m \<Rightarrow> m | _ \<Rightarrow> []),
      connectMessage = (\<lambda>e. case e of ConnectError c m \<Rightarrow> m | _ \<Rightarrow> []),
      createOrganization = (\<lambda>s q. (Inr \<lparr>corq_organizationId = [],
         corq_entityId = []\<rparr>, s)),
      createImportBatchRpc = (\<lambda>s q. (Inr \<lparr>cibrq_batch = Some demo_batch,
         cibrq_uploadUrl = ''u'',
         cibrq_uploadHeaders = [],
         cibrq_expiresAt = None\<rparr>, s)),
      confirmImportUploadRpc = (\<lambda>s q. (Inr \<lparr>ciurq_batch = None\<rparr>, s)),
      getImportBatch = (\<lambda>s q. (Inr \<lparr>gibrq_batch = Some demo_batch\<rparr>, s)),
      listImportBatches = (\<lambda>s q. (Inr \<lparr>librq_batches = [demo_batch]\<rparr>, s)),
      listBatchTransactionsRpc = (\<lambda>s q. (Inr \<lparr>lbtrq_rows = []\<rparr>, s)),
      getValidationReportRpc = (\<lambda>s q. (Inr \<lparr>gvrrq_report = None\<rparr>, s)),
      overrideValidationRpc = (\<lambda>s q. (Inr \<lparr>ovrq_report = None\<rparr>, s)),
      getDedupSummaryRpc = (\<lambda>s q. (Inr \<lparr>gdsrq_summary = None\<rparr>, s)),
      listSkippedRowsRpc = (\<lambda>s q. (Inr \<lparr>lsrrq_rows = []\<rparr>, s)),
      listInternalTransfersRpc = (\<lambda>s q. (Inr \<lparr>litrq_transfers = []\<rparr>, s)),
      dismissInternalTransferRpc = (\<lambda>s q. (Inr \<lparr>ditrq_transfer = None\<rparr>, s)),
      getManagementPNL = (\<lambda>s q. (Inr \<lparr>gmpnlrq_basis = ReportBasis_LEDGER,
         gmpnlrq_granularity = ReportGranularity_MONTH,
         gmpnlrq_from = [],
         gmpnlrq_to = [],
         gmpnlrq_baseCurrency = [],
         gmpnlrq_periods = [],
         gmpnlrq_lines = [],
         gmpnlrq_buckets = [],
         gmpnlrq_versions = None,
         gmpnlrq_reconciliation = []\<rparr>, s)),
      listLineTransactions = (\<lambda>s q. (Inr \<lparr>lltrq_kind = ReportAnswerKind_TRANSACTIONS,
         lltrq_transactions = [],
         lltrq_operands = [],
         lltrq_rowCount = 0,
         lltrq_total = None,
         lltrq_nextCursor = []\<rparr>, s)),
      listReviewGroupsRpc = (\<lambda>s q. (Inr \<lparr>lrgrq_groups = [],
         lrgrq_totalRowCount = 0,
         lrgrq_totalCounterpartyCount = 0,
         lrgrq_totalAbsolute = None\<rparr>, s)),
      listGroupTransactionsRpc = (\<lambda>s q. (Inr \<lparr>lgtrq_transactions = []\<rparr>, s)),
      resolveGroup = (\<lambda>s q. (Inr \<lparr>rgrq_decisionId = [],
         rgrq_coveredCount = 0,
         rgrq_coveredTotal = None\<rparr>, s)),
      listCategoriesRpc = (\<lambda>s q. (Inr \<lparr>lcrq_categories = []\<rparr>, s)),
      put_object = (\<lambda>s url headers body. (Inr 200, s)),
      post_logout = (\<lambda>s. (Inr (), s))\<rparr>"

definition demo_world :: "unit world" where
  "demo_world =
     \<lparr>current = Some \<lparr>orgId = ''o1'', entityId = ''e1'', baseCurrency = ''BYN''\<rparr>,
      server = (), sent = []\<rparr>"

end
