(* ===== verification/Imports_Data.thy ===== *)
theory Imports_Data
  imports Demo_Env
begin

section \<open>Import batches: importUpload.ts, imports.ts, validation.ts, dedup.ts, org.ts\<close>

text \<open>
  The data modules of \<open>src/web/src/data\<close> around one uploaded file: the upload handshake, the batch
  list and detail, the validation report and its override, the deduplication summary, and the
  creation of an organisation. Each \<open>...FromProto\<close> function and each operation is one definition.
\<close>

subsection \<open>Dates\<close>

text \<open>\<open>Date.prototype.toISOString\<close> of a date given as milliseconds since the epoch: the proleptic
  Gregorian date of the day and the time of the day, years outside 0 to 9999 with a sign and six
  digits.\<close>

definition civil_from_days :: "int \<Rightarrow> int \<times> int \<times> int" where
  "civil_from_days days =
     (let z = days + 719468;
          era = z div 146097;
          doe = z mod 146097;
          yoe = (doe - doe div 1460 + doe div 36524 - doe div 146096) div 365;
          doy = doe - (365 * yoe + yoe div 4 - yoe div 100);
          mp = (5 * doy + 2) div 153;
          d = doy - (153 * mp + 2) div 5 + 1;
          m = (if mp < 10 then mp + 3 else mp - 9)
      in (yoe + era * 400 + (if m \<le> 2 then 1 else 0), m, d))"

definition pad_int :: "nat \<Rightarrow> int \<Rightarrow> string" where
  "pad_int n i = js_padStart (show_int i) n CHR ''0''"

definition toISOString :: "int \<Rightarrow> string" where
  "toISOString ms =
     (let (y, m, d) = civil_from_days (ms div 86400000);
          tod = ms mod 86400000;
          year = (if 0 \<le> y \<and> y \<le> 9999 then pad_int 4 y
                  else if y < 0 then ''-'' @ pad_int 6 (- y) else ''+'' @ pad_int 6 y)
      in year @ ''-'' @ pad_int 2 m @ ''-'' @ pad_int 2 d @ ''T'' @ pad_int 2 (tod div 3600000) @ '':'' @
         pad_int 2 (tod div 60000 mod 60) @ '':'' @ pad_int 2 (tod div 1000 mod 60) @ ''.'' @
         pad_int 3 (tod mod 1000) @ ''Z'')"

subsection \<open>importUpload.ts\<close>

definition toProtoSourceKind :: "SourceKind \<Rightarrow> PSourceKind" where
  "toProtoSourceKind k = (if k = Ledger then PSourceKind_LEDGER else PSourceKind_BANK)"

record ReservedUpload =
  ru_batchId :: string
  ru_uploadUrl :: string
  ru_uploadHeaders :: "(string \<times> string) list"

record CreateImportBatchInput =
  ci_orgId :: string
  ci_entityId :: string
  ci_sourceKind :: SourceKind
  ci_fileName :: string
  ci_declaredBytes :: int
  ci_declaredType :: string

definition createImportBatch :: "'s env \<Rightarrow> CreateImportBatchInput \<Rightarrow> ('s, ReservedUpload) io" where
  "createImportBatch E input =
     io_bind (rpc CreateImportBatch (createImportBatchRpc E)
        \<lparr>cibr_orgId = ci_orgId input, cibr_entityId = ci_entityId input,
         cibr_sourceKind = toProtoSourceKind (ci_sourceKind input),
         cibr_fileName = ci_fileName input, cibr_declaredBytes = ci_declaredBytes input,
         cibr_declaredType = ci_declaredType input, cibr_importProfileId = None\<rparr>) (\<lambda>res.
     case cibrq_batch res of
       None \<Rightarrow> io_throw (Error ''createImportBatch: response carried no batch'')
     | Some b \<Rightarrow> io_return
         \<lparr>ru_batchId = ib_id b, ru_uploadUrl = cibrq_uploadUrl res,
          ru_uploadHeaders = cibrq_uploadHeaders res\<rparr>)"

text \<open>A \<open>File\<close> of the browser: its name, size, type and bytes.\<close>

record File =
  file_name :: string
  file_size :: int
  file_type :: string
  file_body :: string

definition res_ok :: "int \<Rightarrow> bool" where
  "res_ok status \<longleftrightarrow> 200 \<le> status \<and> status \<le> 299"

definition putUpload :: "'s env \<Rightarrow> ReservedUpload \<Rightarrow> File \<Rightarrow> ('s, unit) io" where
  "putUpload E upload file =
     io_bind (\<lambda>w. case put_object E (server w) (ru_uploadUrl upload) (ru_uploadHeaders upload) (file_body file) of
         (r, s) \<Rightarrow> (r, w\<lparr>server := s, sent := sent w @
           [PutObject (ru_uploadUrl upload) (ru_uploadHeaders upload) (file_body file)]\<rparr>)) (\<lambda>status.
     if \<not> res_ok status
     then io_throw (Error (''upload to the object store failed: '' @ show_int status))
     else io_return ())"

definition confirmImportUpload :: "'s env \<Rightarrow> string \<Rightarrow> string \<Rightarrow> ('s, unit) io" where
  "confirmImportUpload E org batchId =
     io_bind (rpc ConfirmImportUpload (confirmImportUploadRpc E)
        \<lparr>ciur_orgId = org, ciur_batchId = batchId\<rparr>) (\<lambda>_. io_return ())"

subsection \<open>imports.ts: the shapes\<close>

datatype BatchState = Pending | Parsing | Rejected | Imported

fun STATE_BY_STATUS :: "ImportStatus \<Rightarrow> BatchState" where
  "STATE_BY_STATUS ImportStatus_UNSPECIFIED = Pending"
| "STATE_BY_STATUS ImportStatus_AWAITING_UPLOAD = Pending"
| "STATE_BY_STATUS ImportStatus_UPLOADED = Pending"
| "STATE_BY_STATUS ImportStatus_PARSING = Parsing"
| "STATE_BY_STATUS ImportStatus_PARSED = Parsing"
| "STATE_BY_STATUS ImportStatus_VALIDATING = Parsing"
| "STATE_BY_STATUS ImportStatus_VALIDATED = Parsing"
| "STATE_BY_STATUS ImportStatus_PERSISTING = Parsing"
| "STATE_BY_STATUS ImportStatus_REJECTED = Rejected"
| "STATE_BY_STATUS ImportStatus_ABANDONED = Rejected"
| "STATE_BY_STATUS ImportStatus_FAILED = Rejected"
| "STATE_BY_STATUS ImportStatus_IMPORTED = Imported"

definition fromProtoSourceKind :: "PSourceKind \<Rightarrow> SourceKind" where
  "fromProtoSourceKind k = (if k = PSourceKind_LEDGER then Ledger else Bank)"

record BatchCounts =
  rowsImported :: int
  duplicatesSkipped :: int
  internalTransfersFound :: int

record Batch =
  batch_id :: string
  fileName :: string
  sourceKind :: SourceKind
  state :: BatchState
  uploadedAt :: string
  rejectionReason :: "string option"

text \<open>\<open>s || undefined\<close>: the empty string is \<open>undefined\<close>.\<close>

definition or_undefined :: "string \<Rightarrow> string option" where
  "or_undefined s = (if s = [] then None else Some s)"

definition batchFromProto :: "'s env \<Rightarrow> PImportBatch \<Rightarrow> Batch" where
  "batchFromProto E b =
     \<lparr>batch_id = ib_id b,
      fileName = ib_fileName b,
      sourceKind = fromProtoSourceKind (ib_sourceKind b),
      state = STATE_BY_STATUS (ib_status b),
      uploadedAt = toISOString (case ib_createdAt b of Some ts \<Rightarrow> timestampDate E ts | None \<Rightarrow> 0),
      rejectionReason = or_undefined (ib_failureCode b)\<rparr>"

record ValidationError =
  fileLine :: int
  err_code :: string
  detail :: "string option"

definition errorFromProto :: "PValidationError \<Rightarrow> ValidationError" where
  "errorFromProto e =
     \<lparr>fileLine = ve_line e, err_code = ve_code e, detail = or_undefined (ve_raw e)\<rparr>"

record BalanceCheck =
  bc_opening :: Money
  bc_movements :: Money
  bc_closing :: Money
  bc_declared :: Money

record BatchDetail = Batch +
  errors :: "ValidationError list"
  counts :: "BatchCounts option"
  balanceCheck :: "BalanceCheck option"

definition balanceCheckFromProto :: "PBalanceMismatchDetail \<Rightarrow> BalanceCheck" where
  "balanceCheckFromProto bm =
     (let money = (\<lambda>u. \<lparr>minorUnits = show_int u, currencyCode = bmd_currency bm\<rparr>)
      in \<lparr>bc_opening = money (bmd_opening bm),
          bc_movements = money (bmd_movements bm),
          bc_closing = money (bmd_opening bm + bmd_movements bm),
          bc_declared = money (bmd_closing bm)\<rparr>)"

record BatchRow =
  row_id :: string
  row_bookedOn :: string
  row_lineNo :: int
  row_postingNo :: int
  row_documentRef :: string
  row_amount :: Money
  row_baseAmount :: "Money option"
  row_counterpartyRaw :: string
  row_description :: string
  row_regulatedCode :: string
  row_categoryCode :: string
  row_categoryName :: string
  row_engineLayer :: EngineLayer
  row_evidence :: string
  row_confidence :: "rat option"

definition moneyFromProto :: "Money option \<Rightarrow> Money" where
  "moneyFromProto m =
     (case m of
        Some m \<Rightarrow> \<lparr>minorUnits = minorUnits m, currencyCode = currencyCode m\<rparr>
      | None \<Rightarrow> \<lparr>minorUnits = ''0'', currencyCode = []\<rparr>)"

definition batchRowFromProto :: "PImportedRow \<Rightarrow> BatchRow" where
  "batchRowFromProto r =
     \<lparr>row_id = ir_id r,
      row_bookedOn = ir_bookedOn r,
      row_lineNo = ir_lineNo r,
      row_postingNo = ir_postingNo r,
      row_documentRef = ir_documentRef r,
      row_amount = moneyFromProto (ir_amount r),
      row_baseAmount = (case ir_baseAmount r of Some m \<Rightarrow> Some (moneyFromProto (Some m)) | None \<Rightarrow> None),
      row_counterpartyRaw = ir_counterpartyRaw r,
      row_description = ir_description r,
      row_regulatedCode = ir_regulatedCode r,
      row_categoryCode = ir_categoryCode r,
      row_categoryName = ir_categoryName r,
      row_engineLayer = ir_engineLayer r,
      row_evidence = ir_evidence r,
      row_confidence = ir_confidence r\<rparr>"

subsection \<open>imports.ts: the operations\<close>

definition listBatches :: "'s env \<Rightarrow> ('s, Batch list) io" where
  "listBatches E =
     io_bind requireSession (\<lambda>s.
     io_bind (rpc ListImportBatches (listImportBatches E)
        \<lparr>libr_orgId = orgId s, libr_entityId = entityId s\<rparr>) (\<lambda>res.
     io_return (map (batchFromProto E) (librq_batches res))))"

text \<open>\<open>promise.catch(() => undefined)\<close>.\<close>

definition or_absent :: "('s, 'a) io \<Rightarrow> ('s, 'a option) io" where
  "or_absent m = io_catch (io_bind m (\<lambda>x. io_return (Some x))) (\<lambda>_. io_return None)"

definition getBatch :: "'s env \<Rightarrow> string \<Rightarrow> ('s, BatchDetail option) io" where
  "getBatch E bid =
     io_bind requireSession (\<lambda>s.
     io_bind (rpc GetImportBatch (getImportBatch E) \<lparr>gibr_orgId = orgId s, gibr_batchId = bid\<rparr>) (\<lambda>batchRes.
     case gibrq_batch batchRes of
       None \<Rightarrow> io_return None
     | Some pb \<Rightarrow>
         let batch = batchFromProto E pb in
         io_bind (or_absent (rpc GetValidationReport (getValidationReportRpc E)
            \<lparr>gvrr_orgId = orgId s, gvrr_batchId = bid\<rparr>)) (\<lambda>validation.
         io_bind (or_absent (rpc GetDedupSummary (getDedupSummaryRpc E)
            \<lparr>gdsr_orgId = orgId s, gdsr_batchId = bid\<rparr>)) (\<lambda>dedup.
         let report = Option.bind validation gvrrq_report;
             balanceMismatch = Option.bind (Option.bind report
               (\<lambda>r. find (\<lambda>x. vw_balanceMismatch x \<noteq> None) (vr_warnings r))) vw_balanceMismatch;
             summary = Option.bind dedup gdsrq_summary
         in io_return (Some (Batch.extend batch
              (BatchDetail.fields
                (case report of Some r \<Rightarrow> map errorFromProto (vr_errors r) | None \<Rightarrow> [])
                (map_option (\<lambda>y. \<lparr>rowsImported = ds_importedRows y,
                   duplicatesSkipped = ds_skippedInBatch y + ds_skippedCrossBatch y,
                   internalTransfersFound = ds_internalTransfers y\<rparr>) summary)
                (map_option balanceCheckFromProto balanceMismatch))))))))"

definition uploadBatch :: "'s env \<Rightarrow> File \<Rightarrow> SourceKind \<Rightarrow> ('s, BatchDetail) io" where
  "uploadBatch E file kind =
     io_bind requireSession (\<lambda>s.
     io_bind (createImportBatch E
        \<lparr>ci_orgId = orgId s, ci_entityId = entityId s, ci_sourceKind = kind,
         ci_fileName = file_name file, ci_declaredBytes = file_size file,
         ci_declaredType = (if file_type file \<noteq> [] then file_type file else ''application/octet-stream'')\<rparr>)
       (\<lambda>reserved.
     io_bind (putUpload E reserved file) (\<lambda>_.
     io_bind (confirmImportUpload E (orgId s) (ru_batchId reserved)) (\<lambda>_.
     io_bind (getBatch E (ru_batchId reserved)) (\<lambda>found.
     case found of
       None \<Rightarrow> io_throw (Error ''uploadBatch: batch vanished immediately after confirming its upload'')
     | Some d \<Rightarrow> io_return d)))))"

definition listBatchTransactions :: "'s env \<Rightarrow> string \<Rightarrow> ('s, BatchRow list) io" where
  "listBatchTransactions E bid =
     io_bind requireSession (\<lambda>s.
     io_bind (rpc ListBatchTransactions (listBatchTransactionsRpc E)
        \<lparr>lbtr_orgId = orgId s, lbtr_batchId = bid\<rparr>) (\<lambda>res.
     io_return (map batchRowFromProto (lbtrq_rows res))))"

subsection \<open>The operations keep the contract of a data call\<close>

lemma calls_only_or_absent [calls_only_intros]: "calls_under C P m \<Longrightarrow> calls_under C P (or_absent m)"
  unfolding or_absent_def by (intro calls_only_intros)

lemma calls_only_createImportBatch [calls_only_intros]:
  "(\<And>q. cibr_orgId q = ci_orgId input \<Longrightarrow> P (CreateImportBatch q)) \<Longrightarrow>
     calls_under C P (createImportBatch E input)"
  unfolding createImportBatch_def by (intro calls_only_intros) simp_all

lemma calls_only_putUpload [calls_only_intros]:
  "P (PutObject (ru_uploadUrl u) (ru_uploadHeaders u) (file_body f)) \<Longrightarrow> calls_under C P (putUpload E u f)"
  unfolding putUpload_def
  by (intro calls_only_intros) (auto simp: calls_under_def split: prod.split)

lemma calls_only_confirm [calls_only_intros]:
  "P (ConfirmImportUpload \<lparr>ciur_orgId = org, ciur_batchId = bid\<rparr>) \<Longrightarrow>
     calls_under C P (confirmImportUpload E org bid)"
  unfolding confirmImportUpload_def by (intro calls_only_intros)

lemma calls_only_getBatch:
  assumes "\<And>q. P (GetImportBatch q)" "\<And>q. P (GetValidationReport q)" "\<And>q. P (GetDedupSummary q)"
  shows "calls_under C P (getBatch E bid)"
  unfolding getBatch_def Let_def by (intro calls_only_intros assms)

lemma tenant_listBatches: "tenant_call (listBatches E)"
  unfolding listBatches_def by (rule tenant_callI) (intro calls_only_intros; simp)

lemma tenant_getBatch: "tenant_call (getBatch E bid)"
  unfolding getBatch_def Let_def by (rule tenant_callI) (intro calls_only_intros; simp)

lemma tenant_listBatchTransactions: "tenant_call (listBatchTransactions E bid)"
  unfolding listBatchTransactions_def by (rule tenant_callI) (intro calls_only_intros; simp)

interpretation list_batches: tenant_call "listBatches E" for E :: "'s env"
  by (rule tenant_listBatches)

interpretation get_batch: tenant_call "getBatch E bid" for E :: "'s env" and bid
  by (rule tenant_getBatch)

interpretation list_rows: tenant_call "listBatchTransactions E bid" for E :: "'s env" and bid
  by (rule tenant_listBatchTransactions)

subsection \<open>Properties\<close>

text \<open>The object store is not told a tenant, so an upload's calls name the session's organisation
  or are the \<open>PUT\<close> itself.\<close>

lemma upload_tail_calls:
  "\<exists>ds. sent (snd (io_bind (getBatch E bid) (\<lambda>found. case found of
        None \<Rightarrow> io_throw err | Some d \<Rightarrow> io_return d) w)) = sent w @ ds \<and>
      list_all (\<lambda>c. \<forall>q. c \<noteq> ConfirmImportUpload q) ds"
proof -
  have "calls_only (\<lambda>c. \<forall>q. c \<noteq> ConfirmImportUpload q) (io_bind (getBatch E bid) (\<lambda>found. case found of
        None \<Rightarrow> io_throw err | Some d \<Rightarrow> io_return d))"
    by (intro calls_only_intros calls_only_getBatch) simp_all
  then show ?thesis by (simp add: calls_only_def)
qed

definition upload_request :: "Session \<Rightarrow> File \<Rightarrow> SourceKind \<Rightarrow> PCreateImportBatchRequest" where
  "upload_request s file kind =
     \<lparr>cibr_orgId = orgId s, cibr_entityId = entityId s, cibr_sourceKind = toProtoSourceKind kind,
      cibr_fileName = file_name file, cibr_declaredBytes = file_size file,
      cibr_declaredType = (if file_type file \<noteq> [] then file_type file else ''application/octet-stream''),
      cibr_importProfileId = None\<rparr>"

text \<open>C3. The upload handshake confirms an upload only after the object store accepted the file: when
  \<open>confirmImportUpload\<close> is sent, the reservation was answered with a batch, the file was put with
  exactly the signed address and headers of that answer, the store replied with a 2xx status, and the
  confirmation names the session's organisation and the reserved batch; the three calls are the first
  three and in this order.\<close>

theorem uploadBatch_confirms_stored_file:
  assumes "current w = Some s"
    and "sent (snd (uploadBatch E file kind w)) = sent w @ cs"
    and "ConfirmImportUpload q \<in> set cs"
  shows "\<exists>res s1 b st s2.
    createImportBatchRpc E (server w) (upload_request s file kind) = (Inr res, s1) \<and>
    cibrq_batch res = Some b \<and>
    put_object E s1 (cibrq_uploadUrl res) (cibrq_uploadHeaders res) (file_body file) = (Inr st, s2) \<and>
    res_ok st \<and>
    q = \<lparr>ciur_orgId = orgId s, ciur_batchId = ib_id b\<rparr> \<and>
    take 3 cs = [CreateImportBatch (upload_request s file kind),
      PutObject (cibrq_uploadUrl res) (cibrq_uploadHeaders res) (file_body file),
      ConfirmImportUpload q]"
proof -
  let ?q = "upload_request s file kind"
  let ?tail = "\<lambda>bid. io_bind (getBatch E bid) (\<lambda>found. case found of
      None \<Rightarrow> io_throw (Error ''uploadBatch: batch vanished immediately after confirming its upload'')
    | Some d \<Rightarrow> io_return d)"
  obtain r1 s1 where create: "createImportBatchRpc E (server w) ?q = (r1, s1)" by fastforce
  define w1 where "w1 = w\<lparr>server := s1, sent := sent w @ [CreateImportBatch ?q]\<rparr>"
  have rpc1: "rpc CreateImportBatch (createImportBatchRpc E) ?q w = (r1, w1)"
    using create by (simp add: rpc_step w1_def)
  show ?thesis
  proof (cases "\<exists>res b. r1 = Inr res \<and> cibrq_batch res = Some b")
    case False
    then have "sent (snd (uploadBatch E file kind w)) = sent w @ [CreateImportBatch ?q]"
      using rpc1 assms(1) unfolding uploadBatch_def createImportBatch_def upload_request_def
      by (cases r1) (auto simp: requireSession_bind io_bind_def io_throw_def w1_def upload_request_def
          split: option.splits)
    with assms(2,3) show ?thesis by auto
  next
    case True
    then obtain res b where res: "r1 = Inr res" "cibrq_batch res = Some b" by blast
    let ?url = "cibrq_uploadUrl res" and ?hs = "cibrq_uploadHeaders res" and ?body = "file_body file"
    let ?rv = "\<lparr>ru_batchId = ib_id b, ru_uploadUrl = ?url, ru_uploadHeaders = ?hs\<rparr>"
    have up: "uploadBatch E file kind w =
      io_bind (putUpload E ?rv file) (\<lambda>_. io_bind (confirmImportUpload E (orgId s) (ib_id b))
        (\<lambda>_. ?tail (ib_id b))) w1"
      using rpc1 res assms(1) unfolding uploadBatch_def createImportBatch_def upload_request_def
      by (simp add: requireSession_bind io_bind_def io_return_def)
    obtain r2 s2 where put: "put_object E s1 ?url ?hs ?body = (r2, s2)" by fastforce
    define w2 where "w2 = w1\<lparr>server := s2, sent := sent w1 @ [PutObject ?url ?hs ?body]\<rparr>"
    show ?thesis
    proof (cases "\<exists>st. r2 = Inr st \<and> res_ok st")
      case False
      then have "sent (snd (putUpload E ?rv file w1)) = sent w2" "\<exists>e. fst (putUpload E ?rv file w1) = Inl e"
        using put by (cases r2; simp add: putUpload_def io_bind_def io_throw_def w1_def w2_def)+
      then obtain e w' where "putUpload E ?rv file w1 = (Inl e, w')" "sent w' = sent w2"
        by (metis prod.collapse)
      then have "sent (snd (uploadBatch E file kind w)) = sent w2"
        unfolding up by (simp add: io_bind_Inl)
      with assms(2,3) show ?thesis by (auto simp: w2_def w1_def)
    next
      case True
      then obtain st where st: "r2 = Inr st" "res_ok st" by blast
      then have p: "putUpload E ?rv file w1 = (Inr (), w2)"
        using put by (simp add: putUpload_def io_bind_def io_return_def w1_def w2_def)
      let ?c = "\<lparr>ciur_orgId = orgId s, ciur_batchId = ib_id b\<rparr>"
      obtain r3 s3 where conf: "confirmImportUploadRpc E (server w2) ?c = (r3, s3)" by fastforce
      define w3 where "w3 = w2\<lparr>server := s3, sent := sent w2 @ [ConfirmImportUpload ?c]\<rparr>"
      have rpc3: "rpc ConfirmImportUpload (confirmImportUploadRpc E) ?c w2 = (r3, w3)"
        using conf by (simp add: rpc_step w3_def)
      obtain ds where ds: "sent (snd (uploadBatch E file kind w)) = sent w3 @ ds"
        "list_all (\<lambda>c. \<forall>q. c \<noteq> ConfirmImportUpload q) ds"
      proof (cases r3)
        case (Inl e)
        then have "confirmImportUpload E (orgId s) (ib_id b) w2 = (Inl e, w3)"
          using rpc3 by (simp add: confirmImportUpload_def io_bind_Inl)
        then have "snd (uploadBatch E file kind w) = w3"
          unfolding up by (simp add: io_bind_def [of "putUpload E ?rv file"] p io_bind_Inl)
        then show ?thesis using that [of "[]"] by simp
      next
        case (Inr x)
        then have "confirmImportUpload E (orgId s) (ib_id b) w2 = (Inr (), w3)"
          using rpc3 by (simp add: confirmImportUpload_def io_bind_Inr io_return_def)
        then have eq: "uploadBatch E file kind w = ?tail (ib_id b) w3"
          unfolding up by (simp add: io_bind_def [of "putUpload E ?rv file"]
              io_bind_def [of "confirmImportUpload E (orgId s) (ib_id b)"] p)
        from upload_tail_calls [of E "ib_id b" _ w3] obtain ds where
          "sent (snd (?tail (ib_id b) w3)) = sent w3 @ ds"
          "list_all (\<lambda>c. \<forall>q. c \<noteq> ConfirmImportUpload q) ds" by blast
        then show ?thesis using that eq by simp
      qed
      have "cs = [CreateImportBatch ?q, PutObject ?url ?hs ?body, ConfirmImportUpload ?c] @ ds"
        using assms(2) ds(1) by (simp add: w1_def w2_def w3_def)
      with assms(3) create res put st ds(2) show ?thesis by (auto simp: list_all_iff)
    qed
  qed
qed

definition demo_file :: File where
  "demo_file = \<lparr>file_name = ''f.csv'', file_size = 3, file_type = [], file_body = ''abc''\<rparr>"

lemma demo_upload_run:
  "sent (snd (uploadBatch demo_env demo_file Bank demo_world)) =
     sent demo_world @
     [CreateImportBatch (upload_request (the (current demo_world)) demo_file Bank),
      PutObject ''u'' [] ''abc'',
      ConfirmImportUpload \<lparr>ciur_orgId = ''o1'', ciur_batchId = ''b1''\<rparr>,
      GetImportBatch \<lparr>gibr_orgId = ''o1'', gibr_batchId = ''b1''\<rparr>,
      GetValidationReport \<lparr>gvrr_orgId = ''o1'', gvrr_batchId = ''b1''\<rparr>,
      GetDedupSummary \<lparr>gdsr_orgId = ''o1'', gdsr_batchId = ''b1''\<rparr>]"
  by (simp add: uploadBatch_def requireSession_bind createImportBatch_def putUpload_def getBatch_def
      confirmImportUpload_def rpc_def io_bind_def io_return_def or_absent_def io_catch_def Let_def
      demo_env_def demo_world_def demo_batch_def demo_file_def upload_request_def res_ok_def)

theorem uploadBatch_confirms_stored_file_witness:
  "\<exists>res s1 b st s2.
    createImportBatchRpc demo_env (server demo_world)
      (upload_request (the (current demo_world)) demo_file Bank) = (Inr res, s1) \<and>
    cibrq_batch res = Some b \<and>
    put_object demo_env s1 (cibrq_uploadUrl res) (cibrq_uploadHeaders res) ''abc'' = (Inr st, s2) \<and>
    res_ok st \<and> ib_id b = ''b1''"
proof -
  have session: "current demo_world = Some (the (current demo_world))" by (simp add: demo_world_def)
  show ?thesis
    using uploadBatch_confirms_stored_file [OF session demo_upload_run,
        of "\<lparr>ciur_orgId = ''o1'', ciur_batchId = ''b1''\<rparr>"]
    by (auto simp: demo_file_def)
qed

text \<open>C12. A batch's detail never fails for want of a validation report or a deduplication summary:
  once the batch itself was answered, both later calls may be refused in any way and the detail is
  still returned, with the errors, counts and balance check of exactly the parts that were answered.\<close>

theorem getBatch_tolerates_missing_reports:
  assumes "current w = Some s"
    and "getImportBatch E (server w) \<lparr>gibr_orgId = orgId s, gibr_batchId = bid\<rparr> = (Inr res, s1)"
    and "gibrq_batch res = Some pb"
  shows "\<exists>d. fst (getBatch E bid w) = Inr (Some d) \<and>
    Batch.truncate d = batchFromProto E pb \<and>
    (\<forall>e s2. getValidationReportRpc E s1 \<lparr>gvrr_orgId = orgId s, gvrr_batchId = bid\<rparr> = (Inl e, s2)
      \<longrightarrow> errors d = [] \<and> balanceCheck d = None)"
proof -
  obtain r2 s2 where v: "getValidationReportRpc E s1 \<lparr>gvrr_orgId = orgId s, gvrr_batchId = bid\<rparr> = (r2, s2)"
    by fastforce
  obtain r3 s3 where u: "getDedupSummaryRpc E s2 \<lparr>gdsr_orgId = orgId s, gdsr_batchId = bid\<rparr> = (r3, s3)"
    by fastforce
  show ?thesis
    using assms v u
    by (cases r2; cases r3)
      (simp_all add: getBatch_def requireSession_bind rpc_def io_bind_def io_return_def or_absent_def
        io_catch_def Let_def Batch.defs BatchDetail.defs)
qed

theorem getBatch_tolerates_missing_reports_witness:
  "\<exists>d. fst (getBatch demo_env ''b1'' demo_world) = Inr (Some d) \<and>
    Batch.truncate d = batchFromProto demo_env demo_batch"
proof -
  let ?s = "\<lparr>orgId = ''o1'', entityId = ''e1'', baseCurrency = ''BYN''\<rparr>"
  have "current demo_world = Some ?s" by (simp add: demo_world_def)
  moreover have "getImportBatch demo_env (server demo_world) \<lparr>gibr_orgId = orgId ?s, gibr_batchId = ''b1''\<rparr>
    = (Inr \<lparr>gibrq_batch = Some demo_batch\<rparr>, ())" by (simp add: demo_env_def)
  ultimately show ?thesis
    using getBatch_tolerates_missing_reports [of demo_world ?s demo_env "''b1''" _ _ demo_batch] by fastforce
qed

text \<open>The closing balance shown beside a mismatch is computed, never copied: it is the integer sum
  of the opening balance and the movements that are shown, and the declared closing balance is kept
  apart from it.\<close>

theorem balanceCheck_computed:
  "parse_bigint (minorUnits (bc_closing (balanceCheckFromProto bm))) =
     Some (the (parse_bigint (minorUnits (bc_opening (balanceCheckFromProto bm)))) +
           the (parse_bigint (minorUnits (bc_movements (balanceCheckFromProto bm))))) \<and>
   parse_bigint (minorUnits (bc_declared (balanceCheckFromProto bm))) = Some (bmd_closing bm)"
  by (simp add: balanceCheckFromProto_def Let_def)

end
