(* ===== verification/Batch_Reports.thy ===== *)
theory Batch_Reports
  imports Imports_Data
begin

section \<open>validation.ts, dedup.ts and org.ts\<close>

text \<open>
  The remaining data modules that wrap one RPC each: a batch's validation report and its override,
  the deduplication summary, skipped rows and internal transfers, and the creation of an
  organisation, whose refusals are decoded into a code.
\<close>

subsection \<open>validation.ts\<close>

datatype ValidationOutcome = Valid | ValidWithWarnings | OutcomeRejected

definition outcomeFromProto :: "PValidationOutcome \<Rightarrow> ValidationOutcome" where
  "outcomeFromProto x = (case x of
      PValidationOutcome_VALID \<Rightarrow> Valid
    | PValidationOutcome_REJECTED \<Rightarrow> OutcomeRejected
    | _ \<Rightarrow> ValidWithWarnings)"

record ValidationErrorDetail =
  ved_line :: int
  ved_field :: string
  ved_code :: string
  ved_raw :: string

record ValidationWarningDetail =
  vwd_code :: string
  vwd_balanceMismatch :: "PBalanceMismatchDetail option"

record ValidationReportView =
  vrv_batchId :: string
  vrv_outcome :: ValidationOutcome
  vrv_rowCount :: int
  vrv_errorCount :: int
  vrv_warningCount :: int
  vrv_balanceCheckPassed :: "bool option"
  vrv_errors :: "ValidationErrorDetail list"
  vrv_warnings :: "ValidationWarningDetail list"
  vrv_overriddenByUserId :: string
  vrv_overrideReason :: string
  vrv_overriddenAt :: "int option"

definition validationFromProto :: "'s env \<Rightarrow> PValidationReport \<Rightarrow> ValidationReportView" where
  "validationFromProto E report =
     \<lparr>vrv_batchId = vr_batchId report,
      vrv_outcome = outcomeFromProto (vr_outcome report),
      vrv_rowCount = vr_rowCount report,
      vrv_errorCount = vr_errorCount report,
      vrv_warningCount = vr_warningCount report,
      vrv_balanceCheckPassed = vr_balanceCheckPassed report,
      vrv_errors = map (\<lambda>e. \<lparr>ved_line = ve_line e, ved_field = ve_field e, ved_code = ve_code e,
        ved_raw = ve_raw e\<rparr>) (vr_errors report),
      vrv_warnings = map (\<lambda>x. \<lparr>vwd_code = vw_code x, vwd_balanceMismatch = vw_balanceMismatch x\<rparr>)
        (vr_warnings report),
      vrv_overriddenByUserId = vr_overriddenByUserId report,
      vrv_overrideReason = vr_overrideReason report,
      vrv_overriddenAt = map_option (timestampDate E) (vr_overriddenAt report)\<rparr>"

definition getValidationReport :: "'s env \<Rightarrow> string \<Rightarrow> string \<Rightarrow> ('s, ValidationReportView) io" where
  "getValidationReport E org bid =
     io_bind (rpc GetValidationReport (getValidationReportRpc E)
        \<lparr>gvrr_orgId = org, gvrr_batchId = bid\<rparr>) (\<lambda>res.
     case gvrrq_report res of
       None \<Rightarrow> io_throw (Error ''getValidationReport: response carried no report'')
     | Some r \<Rightarrow> io_return (validationFromProto E r))"

definition overrideValidation ::
    "'s env \<Rightarrow> string \<Rightarrow> string \<Rightarrow> string \<Rightarrow> ('s, ValidationReportView) io" where
  "overrideValidation E org bid reason =
     io_bind (rpc OverrideValidation (overrideValidationRpc E)
        \<lparr>ovr_orgId = org, ovr_batchId = bid, ovr_reason = reason\<rparr>) (\<lambda>res.
     case ovrq_report res of
       None \<Rightarrow> io_throw (Error ''overrideValidation: response carried no report'')
     | Some r \<Rightarrow> io_return (validationFromProto E r))"

subsection \<open>dedup.ts\<close>

record DedupSummaryView =
  dsv_importedRows :: int
  dsv_skippedInBatch :: int
  dsv_skippedCrossBatch :: int
  dsv_internalTransfers :: int

definition summaryFromProto :: "PDedupSummary \<Rightarrow> DedupSummaryView" where
  "summaryFromProto s =
     \<lparr>dsv_importedRows = ds_importedRows s, dsv_skippedInBatch = ds_skippedInBatch s,
      dsv_skippedCrossBatch = ds_skippedCrossBatch s, dsv_internalTransfers = ds_internalTransfers s\<rparr>"

definition getDedupSummary :: "'s env \<Rightarrow> string \<Rightarrow> string \<Rightarrow> ('s, DedupSummaryView) io" where
  "getDedupSummary E org bid =
     io_bind (rpc GetDedupSummary (getDedupSummaryRpc E)
        \<lparr>gdsr_orgId = org, gdsr_batchId = bid\<rparr>) (\<lambda>res.
     case gdsrq_summary res of
       None \<Rightarrow> io_throw (Error ''getDedupSummary: response carried no summary'')
     | Some s \<Rightarrow> io_return (summaryFromProto s))"

record SkippedRowView =
  srv_lineNo :: int
  srv_postingNo :: int
  srv_level :: string
  srv_dedupHash :: string
  srv_matchedTransactionId :: string
  srv_matchedBatchId :: string
  srv_createdAt :: int

definition skippedRowFromProto :: "'s env \<Rightarrow> PSkippedRow \<Rightarrow> SkippedRowView" where
  "skippedRowFromProto E r =
     \<lparr>srv_lineNo = sr_lineNo r, srv_postingNo = sr_postingNo r, srv_level = sr_level r,
      srv_dedupHash = sr_dedupHash r, srv_matchedTransactionId = sr_matchedTransactionId r,
      srv_matchedBatchId = sr_matchedBatchId r,
      srv_createdAt = (case sr_createdAt r of Some ts \<Rightarrow> timestampDate E ts | None \<Rightarrow> 0)\<rparr>"

definition listSkippedRows :: "'s env \<Rightarrow> string \<Rightarrow> string \<Rightarrow> ('s, SkippedRowView list) io" where
  "listSkippedRows E org bid =
     io_bind (rpc ListSkippedRows (listSkippedRowsRpc E)
        \<lparr>lsrr_orgId = org, lsrr_batchId = bid\<rparr>) (\<lambda>res.
     io_return (map (skippedRowFromProto E) (lsrrq_rows res)))"

record InternalTransferView =
  itv_id :: string
  itv_outTransactionId :: string
  itv_inTransactionId :: string
  itv_detectedAt :: int
  itv_dismissedByUserId :: string
  itv_dismissedAt :: "int option"

definition transferFromProto :: "'s env \<Rightarrow> PInternalTransfer \<Rightarrow> InternalTransferView" where
  "transferFromProto E x =
     \<lparr>itv_id = it_id x, itv_outTransactionId = it_outTransactionId x,
      itv_inTransactionId = it_inTransactionId x,
      itv_detectedAt = (case it_detectedAt x of Some ts \<Rightarrow> timestampDate E ts | None \<Rightarrow> 0),
      itv_dismissedByUserId = it_dismissedByUserId x,
      itv_dismissedAt = map_option (timestampDate E) (it_dismissedAt x)\<rparr>"

definition listInternalTransfers ::
    "'s env \<Rightarrow> string \<Rightarrow> string \<Rightarrow> ('s, InternalTransferView list) io" where
  "listInternalTransfers E org ent =
     io_bind (rpc ListInternalTransfers (listInternalTransfersRpc E)
        \<lparr>litr_orgId = org, litr_entityId = ent\<rparr>) (\<lambda>res.
     io_return (map (transferFromProto E) (litrq_transfers res)))"

definition dismissInternalTransfer ::
    "'s env \<Rightarrow> string \<Rightarrow> string \<Rightarrow> ('s, InternalTransferView) io" where
  "dismissInternalTransfer E org tid =
     io_bind (rpc DismissInternalTransfer (dismissInternalTransferRpc E)
        \<lparr>ditr_orgId = org, ditr_transferId = tid\<rparr>) (\<lambda>res.
     case ditrq_transfer res of
       None \<Rightarrow> io_throw (Error ''dismissInternalTransfer: response carried no transfer'')
     | Some x \<Rightarrow> io_return (transferFromProto E x))"

subsection \<open>org.ts\<close>

record CreatedOrganisation =
  co_organizationId :: string
  co_entityId :: string

record CreateOrganisationInput =
  coi_name :: string
  coi_country :: string
  coi_baseCurrency :: string
  coi_entityName :: string

text \<open>\<open>ConnectError.from(err).rawMessage || "error.unknown"\<close>.\<close>

definition coded :: "'s env \<Rightarrow> js_error \<Rightarrow> string" where
  "coded E err = (let m = connectRawMessage E err in if m \<noteq> [] then m else ''error.unknown'')"

definition createOrganisation :: "'s env \<Rightarrow> CreateOrganisationInput \<Rightarrow> ('s, CreatedOrganisation) io" where
  "createOrganisation E input =
     io_catch
       (io_bind (rpc CreateOrganization (createOrganization E)
          \<lparr>cor_name = coi_name input, cor_country = coi_country input,
           cor_baseCurrency = coi_baseCurrency input, cor_entityName = coi_entityName input\<rparr>) (\<lambda>res.
        io_return \<lparr>co_organizationId = corq_organizationId res, co_entityId = corq_entityId res\<rparr>))
       (\<lambda>err. io_throw (CreateOrganisationError (coded E err)))"

end
