(* ===== verification/Report_Data.thy ===== *)
theory Report_Data
  imports Imports_Data
begin

section \<open>The Management P\&L: data/report.ts\<close>

text \<open>
  \<open>src/web/src/data/report.ts\<close>: the report's basis derived from the imported batches, the decoding
  of the answer into the lines and buckets of the table, the derived totals (expenses, cash per
  period, the reconciliation strip), and the drill-down behind one figure. A wire amount is turned
  into a \<open>BigInt\<close> only where it is summed, so those definitions may throw a \<open>SyntaxError\<close>.
\<close>

subsection \<open>Amounts\<close>

definition report_money :: "Money option \<Rightarrow> Money" where
  "report_money m =
     (case m of
        Some m \<Rightarrow> \<lparr>minorUnits = minorUnits m, currencyCode = currencyCode m\<rparr>
      | None \<Rightarrow> \<lparr>minorUnits = ''0'', currencyCode = []\<rparr>)"

definition subMinorUnits :: "string \<Rightarrow> string \<Rightarrow> string js" where
  "subMinorUnits a b =
     ebind (js_BigInt a) (\<lambda>x. ebind (js_BigInt b) (\<lambda>y. Inr (show_int (x - y))))"

definition ZERO :: Money where
  "ZERO = \<lparr>minorUnits = ''0'', currencyCode = []\<rparr>"

text \<open>\<open>BigInt(m?.minorUnits ?? "0")\<close>.\<close>

definition big_or_zero :: "Money option \<Rightarrow> int js" where
  "big_or_zero m = js_BigInt (case m of Some m \<Rightarrow> minorUnits m | None \<Rightarrow> ''0'')"

subsection \<open>The basis\<close>

definition imported_kinds :: "Batch list \<Rightarrow> SourceKind set" where
  "imported_kinds batches = set (map sourceKind (filter (\<lambda>b. state b = Imported) batches))"

definition basis_of_batches :: "Batch list \<Rightarrow> ReportBasis js" where
  "basis_of_batches batches =
     (let kinds = imported_kinds batches in
      if card kinds > 1 then Inl MixedBasisError
      else Inr (if Ledger \<in> kinds then ReportBasis_LEDGER else ReportBasis_BANK))"

definition deriveBasis :: "'s env \<Rightarrow> ('s, ReportBasis) io" where
  "deriveBasis E = io_bind (listBatches E) (\<lambda>batches. io_lift (basis_of_batches batches))"

definition basisFromProto :: "ReportBasis \<Rightarrow> Basis" where
  "basisFromProto b = (if b = ReportBasis_LEDGER then Accrual else Cash)"

subsection \<open>Lines and buckets\<close>

record ReportLine =
  ln_categoryId :: string
  ln_label :: string
  ln_computed :: bool
  ln_values :: "Money list"
  ln_total :: Money
  ln_percentOfRevenue :: "rat option"

definition figureMoney :: "PReportFigure option \<Rightarrow> Money" where
  "figureMoney f = report_money (Option.bind f rf_amount)"

definition lineFromProto :: "PReportLine \<Rightarrow> ReportLine" where
  "lineFromProto l =
     \<lparr>ln_categoryId = rl_code l,
      ln_label = rl_label l,
      ln_computed = rl_computed l,
      ln_values = map (\<lambda>f. figureMoney (Some f)) (rl_byPeriod l),
      ln_total = figureMoney (rl_total l),
      ln_percentOfRevenue = Option.bind (rl_total l) rf_percentOfRevenue\<rparr>"

datatype BucketKind = Unclassified | NonPnl | Unallocated | OtherBasis

definition BucketKind_text :: "BucketKind \<Rightarrow> string" where
  "BucketKind_text k = (case k of
      Unclassified \<Rightarrow> ''unclassified'' | NonPnl \<Rightarrow> ''non_pnl''
    | Unallocated \<Rightarrow> ''unallocated'' | OtherBasis \<Rightarrow> ''other_basis'')"

fun BUCKET_KIND :: "ReportBucketKind \<Rightarrow> BucketKind option" where
  "BUCKET_KIND ReportBucketKind_UNSPECIFIED = None"
| "BUCKET_KIND ReportBucketKind_UNCLASSIFIED = Some Unclassified"
| "BUCKET_KIND ReportBucketKind_NON_PNL = Some NonPnl"
| "BUCKET_KIND ReportBucketKind_UNALLOCATED = Some Unallocated"
| "BUCKET_KIND ReportBucketKind_OTHER_BASIS = Some OtherBasis"

record ReportBucket =
  bk_kind :: BucketKind
  bk_values :: "Money list"
  bk_total :: Money

definition bucketFromProto :: "PReportBucketLine \<Rightarrow> ReportBucket option" where
  "bucketFromProto b =
     (case BUCKET_KIND (rbl_kind b) of
        None \<Rightarrow> None
      | Some kind \<Rightarrow> Some \<lparr>bk_kind = kind, bk_values = map (\<lambda>m. report_money (Some m)) (rbl_byPeriod b),
          bk_total = report_money (rbl_total b)\<rparr>)"

subsection \<open>The reconciliation strip and the cash movement\<close>

record Reconciliation =
  rcn_opening :: Money
  rcn_moneyIn :: Money
  rcn_moneyOut :: Money
  rcn_transfers :: Money
  rcn_closing :: Money

definition sum_pick :: "(PReconciliationLine \<Rightarrow> Money option) \<Rightarrow> PReconciliationLine list \<Rightarrow> int js" where
  "sum_pick pick lines =
     efold (\<lambda>acc l. ebind (big_or_zero (pick l)) (\<lambda>v. Inr (acc + v))) 0 lines"

definition aggregateReconciliation :: "PReconciliationLine list \<Rightarrow> Reconciliation js" where
  "aggregateReconciliation lines =
     (case lines of
        [] \<Rightarrow> Inr \<lparr>rcn_opening = ZERO, rcn_moneyIn = ZERO, rcn_moneyOut = ZERO,
               rcn_transfers = ZERO, rcn_closing = ZERO\<rparr>
      | first # _ \<Rightarrow>
          let currency = (case rec_opening first of Some m \<Rightarrow> currencyCode m | None \<Rightarrow> []);
              m = (\<lambda>v. \<lparr>minorUnits = show_int v, currencyCode = currency\<rparr>)
          in ebind (big_or_zero (rec_opening first)) (\<lambda>opening.
             ebind (sum_pick rec_in lines) (\<lambda>moneyIn.
             ebind (sum_pick rec_out lines) (\<lambda>moneyOut.
             ebind (sum_pick rec_transfers lines) (\<lambda>transfers.
             let closing = opening + moneyIn - moneyOut - transfers
             in Inr \<lparr>rcn_opening = m opening, rcn_moneyIn = m moneyIn, rcn_moneyOut = m (- moneyOut),
                  rcn_transfers = m (- transfers), rcn_closing = m closing\<rparr>)))))"

record CashPeriod =
  cp_period :: Period
  cp_moneyIn :: Money
  cp_moneyOut :: Money
  cp_net :: Money

definition cashByPeriod :: "string list \<Rightarrow> PReconciliationLine list \<Rightarrow> string \<Rightarrow> CashPeriod list js" where
  "cashByPeriod periods lines currency =
     (let byPeriod = map (\<lambda>l. (rec_period l, l)) lines in
      emap (\<lambda>period.
        let line = js_map_get byPeriod period;
            m = (\<lambda>v. \<lparr>minorUnits = show_int v, currencyCode = currency\<rparr>)
        in ebind (big_or_zero (Option.bind line rec_in)) (\<lambda>moneyIn.
           ebind (big_or_zero (Option.bind line rec_out)) (\<lambda>out.
           let moneyOut = - out
           in Inr \<lparr>cp_period = period, cp_moneyIn = m moneyIn, cp_moneyOut = m moneyOut,
                cp_net = m (moneyIn + moneyOut)\<rparr>))) periods)"

definition provenanceFromProto :: "PReportVersions option \<Rightarrow> Provenance" where
  "provenanceFromProto v =
     (let join = (\<lambda>pick. js_join '', '' (case v of Some v \<Rightarrow> pick v | None \<Rightarrow> []))
      in \<lparr>taxonomyVersion = join rv_taxonomy, rulesetVersion = join rv_ruleset,
          engineVersion = join rv_engine\<rparr>)"

subsection \<open>The report\<close>

record Report =
  rp_currencyCode :: string
  rp_periods :: "Period list"
  rp_basis :: Basis
  rp_lines :: "ReportLine list"
  rp_buckets :: "ReportBucket list"
  rp_netByPeriod :: "Money list"
  rp_netTotal :: Money
  rp_revenueTotal :: Money
  rp_expensesTotal :: Money
  rp_expensesByPeriod :: "Money list"
  rp_cash :: "CashPeriod list"
  rp_reconciliation :: Reconciliation
  rp_provenance :: Provenance
  rp_unreviewedAmount :: Money

definition NET_SALES :: string where "NET_SALES = ''01''"
definition CM :: string where "CM = ''93''"
definition NI :: string where "NI = ''95''"

text \<open>\<open>(line?.values[i] ?? ZERO).minorUnits\<close>.\<close>

definition value_at :: "ReportLine option \<Rightarrow> nat \<Rightarrow> string" where
  "value_at line i =
     minorUnits (case Option.bind line (\<lambda>l. js_at (ln_values l) i) of Some m \<Rightarrow> m | None \<Rightarrow> ZERO)"

definition total_of :: "ReportLine option \<Rightarrow> Money" where
  "total_of line = (case line of Some l \<Rightarrow> ln_total l | None \<Rightarrow> ZERO)"

definition reportFromProto ::
    "Basis \<Rightarrow> string list \<Rightarrow> PReportLine list \<Rightarrow> PReportBucketLine list \<Rightarrow>
     PReconciliationLine list \<Rightarrow> PReportVersions option \<Rightarrow> Report js" where
  "reportFromProto basis periods protoLines protoBuckets protoReconciliation versions =
     (let lines = map lineFromProto protoLines;
          buckets = map the (filter (\<lambda>b. b \<noteq> None) (map bucketFromProto protoBuckets));
          byCode = map (\<lambda>l. (ln_categoryId l, l)) lines;
          revenue = js_map_get byCode NET_SALES;
          cm = js_map_get byCode CM;
          ni = js_map_get byCode NI;
          unclassified = find (\<lambda>b. bk_kind b = Unclassified) buckets;
          revenueTotal = total_of revenue;
          currency = (if currencyCode revenueTotal \<noteq> [] then currencyCode revenueTotal
            else case lines of [] \<Rightarrow> [] | l # _ \<Rightarrow> currencyCode (ln_total l));
          zero = \<lparr>minorUnits = ''0'', currencyCode = currency\<rparr>
      in ebind (subMinorUnits (minorUnits revenueTotal) (minorUnits (total_of cm))) (\<lambda>expenses.
         ebind (emap (\<lambda>i. ebind (subMinorUnits (value_at revenue i) (value_at cm i))
             (\<lambda>u. Inr \<lparr>minorUnits = u, currencyCode = currency\<rparr>)) [0..<length periods]) (\<lambda>expensesByPeriod.
         ebind (cashByPeriod periods protoReconciliation currency) (\<lambda>cash.
         ebind (aggregateReconciliation protoReconciliation) (\<lambda>reconciliation.
         Inr \<lparr>rp_currencyCode = currency,
              rp_periods = periods,
              rp_basis = basis,
              rp_lines = lines,
              rp_buckets = buckets,
              rp_netByPeriod = (case ni of Some l \<Rightarrow> ln_values l | None \<Rightarrow> map (\<lambda>_. zero) periods),
              rp_netTotal = (case ni of Some l \<Rightarrow> ln_total l | None \<Rightarrow> zero),
              rp_revenueTotal = revenueTotal,
              rp_expensesTotal = \<lparr>minorUnits = expenses, currencyCode = currency\<rparr>,
              rp_expensesByPeriod = expensesByPeriod,
              rp_cash = cash,
              rp_reconciliation = reconciliation,
              rp_provenance = provenanceFromProto versions,
              rp_unreviewedAmount = (case unclassified of Some b \<Rightarrow> bk_total b | None \<Rightarrow> zero)\<rparr>)))))"

definition getReport :: "'s env \<Rightarrow> Period \<Rightarrow> Period \<Rightarrow> ('s, Report) io" where
  "getReport E fromP toP =
     io_bind requireSession (\<lambda>s.
     io_bind (deriveBasis E) (\<lambda>basis.
     io_bind (rpc GetManagementPNL (getManagementPNL E)
        \<lparr>gmpnlr_organizationId = orgId s, gmpnlr_entityId = entityId s, gmpnlr_from = fromP,
         gmpnlr_to = toP, gmpnlr_granularity = ReportGranularity_MONTH, gmpnlr_basis = basis\<rparr>) (\<lambda>res.
     io_lift (reportFromProto (basisFromProto (gmpnlrq_basis res)) (gmpnlrq_periods res)
       (gmpnlrq_lines res) (gmpnlrq_buckets res) (gmpnlrq_reconciliation res) (gmpnlrq_versions res)))))"

subsection \<open>The drill-down\<close>

record DrilldownRow =
  dr_id :: string
  dr_bookedOn :: string
  dr_description :: string
  dr_amount :: Money
  dr_categoryLabel :: string
  dr_layer :: EngineLayer
  dr_confidence :: "rat option"
  dr_evidence :: "string option"

definition rowFromProto :: "PDrillTransaction \<Rightarrow> DrilldownRow" where
  "rowFromProto x =
     \<lparr>dr_id = dt_id x,
      dr_bookedOn = dt_bookedOn x,
      dr_description = dt_description x,
      dr_amount = report_money (dt_amount x),
      dr_categoryLabel = dt_categoryName x,
      dr_layer = (if dt_engineLayer x \<noteq> [] then dt_engineLayer x else ''L0''),
      dr_confidence = dt_confidence x,
      dr_evidence = or_undefined (dt_evidence x)\<rparr>"

record DrilldownOperand =
  op_categoryId :: string
  op_label :: string
  op_subtracted :: bool

definition operandFromProto :: "PReportOperand \<Rightarrow> DrilldownOperand" where
  "operandFromProto x = \<lparr>op_categoryId = ro_code x, op_label = ro_label x, op_subtracted = ro_subtracted x\<rparr>"

datatype DrilldownKind = Transactions | Operands

record Drilldown =
  dd_categoryId :: string
  dd_categoryLabel :: string
  dd_period :: Period
  dd_amount :: Money
  dd_kind :: DrilldownKind
  dd_rows :: "DrilldownRow list"
  dd_operands :: "DrilldownOperand list"
  dd_provenance :: Provenance

definition getDrilldown :: "'s env \<Rightarrow> string \<Rightarrow> Period \<Rightarrow> Period \<Rightarrow> Period \<Rightarrow> ('s, Drilldown) io" where
  "getDrilldown E cat period fromP toP =
     io_bind requireSession (\<lambda>s.
     io_bind (io_all2 (deriveBasis E) (getReport E fromP toP)) (\<lambda>(basis, report).
     let line = find (\<lambda>l. ln_categoryId l = cat) (rp_lines report) in
     io_bind (rpc ListLineTransactions (listLineTransactions E)
        \<lparr>lltr_organizationId = orgId s, lltr_entityId = entityId s, lltr_basis = basis,
         lltr_granularity = ReportGranularity_MONTH, lltr_from = fromP, lltr_to = toP,
         lltr_period = period, lltr_line = cat, lltr_cursor = [], lltr_limit = 500\<rparr>) (\<lambda>res.
     io_return
       \<lparr>dd_categoryId = cat,
        dd_categoryLabel = (case line of Some l \<Rightarrow> ln_label l | None \<Rightarrow> cat),
        dd_period = period,
        dd_amount = report_money (lltrq_total res),
        dd_kind = (if lltrq_kind res = ReportAnswerKind_OPERANDS then Operands else Transactions),
        dd_rows = map rowFromProto (lltrq_transactions res),
        dd_operands = map operandFromProto (lltrq_operands res),
        dd_provenance = rp_provenance report\<rparr>)))"

subsection \<open>Integers behind the amounts\<close>

lemma emap_Inr_all2: "emap f xs = Inr ys \<longleftrightarrow> list_all2 (\<lambda>x y. f x = Inr y) xs ys"
  by (induction xs arbitrary: ys) (auto simp: ebind_Inr_iff list_all2_Cons1)

lemma ebind_InrE:
  "ebind m f = Inr y \<Longrightarrow> (\<And>x. m = Inr x \<Longrightarrow> f x = Inr y \<Longrightarrow> P) \<Longrightarrow> P"
  by (auto simp: ebind_Inr_iff)

text \<open>The integer an amount stands for, and the integer of a wire amount that may be absent.\<close>

definition units :: "Money \<Rightarrow> int" where
  "units m = the (parse_bigint (minorUnits m))"

definition wire_units :: "Money option \<Rightarrow> int" where
  "wire_units m = (case m of Some m \<Rightarrow> units m | None \<Rightarrow> 0)"

definition integral :: "Money option \<Rightarrow> bool" where
  "integral m = (case m of Some m \<Rightarrow> parse_bigint (minorUnits m) \<noteq> None | None \<Rightarrow> True)"

lemma parse_zero [simp]: "parse_bigint ''0'' = Some 0"
  by code_simp

lemma js_BigInt_zero [simp]: "js_BigInt ''0'' = Inr 0"
  by (simp add: js_BigInt_def)

lemma units_show [simp]: "units \<lparr>minorUnits = show_int i, currencyCode = c\<rparr> = i"
  by (simp add: units_def)

lemma units_zero_record [simp]: "units \<lparr>minorUnits = ''0'', currencyCode = c\<rparr> = 0"
  by (simp add: units_def)

lemma units_ZERO [simp]: "units ZERO = 0"
  by (simp add: units_def ZERO_def)

lemma js_BigInt_cases: "js_BigInt s = (if parse_bigint s = None then Inl SyntaxError else Inr (the (parse_bigint s)))"
  by (auto simp: js_BigInt_def split: option.splits)

lemma big_or_zero_eq:
  "big_or_zero m = (if integral m then Inr (wire_units m) else Inl SyntaxError)"
  by (auto simp: big_or_zero_def integral_def wire_units_def units_def js_BigInt_def split: option.splits)

lemma sum_pick_eq:
  "sum_pick pick lines =
     (if list_all (integral \<circ> pick) lines then Inr (\<Sum>l \<leftarrow> lines. wire_units (pick l)) else Inl SyntaxError)"
proof -
  have "efold (\<lambda>acc l. ebind (big_or_zero (pick l)) (\<lambda>v. Inr (acc + v))) z lines =
     (if list_all (integral \<circ> pick) lines then Inr (z + (\<Sum>l \<leftarrow> lines. wire_units (pick l)))
      else Inl SyntaxError)" for z
    by (induction lines arbitrary: z) (auto simp: big_or_zero_eq add.assoc)
  then show ?thesis by (simp add: sum_pick_def)
qed

lemma subMinorUnits_eq:
  "subMinorUnits a b =
     (if parse_bigint a = None \<or> parse_bigint b = None then Inl SyntaxError
      else Inr (show_int (the (parse_bigint a) - the (parse_bigint b))))"
  by (auto simp: subMinorUnits_def js_BigInt_cases)

lemma report_money_eq: "report_money m = (case m of None \<Rightarrow> ZERO | Some m \<Rightarrow> m)"
  by (auto simp: report_money_def ZERO_def split: option.splits)

lemma units_report_money [simp]: "units (report_money m) = wire_units m"
  by (simp add: report_money_eq wire_units_def split: option.splits)

subsection \<open>Properties: the basis\<close>

definition imports_kind :: "SourceKind \<Rightarrow> Batch list \<Rightarrow> bool" where
  "imports_kind k = list_ex (\<lambda>b. state b = Imported \<and> sourceKind b = k)"

lemma mem_imported_kinds: "k \<in> imported_kinds bs \<longleftrightarrow> imports_kind k bs"
  by (auto simp: imported_kinds_def imports_kind_def list_ex_iff)

lemma card_imported_kinds: "card (imported_kinds bs) > 1 \<longleftrightarrow> imports_kind Ledger bs \<and> imports_kind Bank bs"
proof -
  have sub: "imported_kinds bs \<subseteq> {Ledger, Bank}" by (auto intro: SourceKind.exhaust)
  have two: "card {Ledger, Bank} = 2" by simp
  show ?thesis
  proof
    assume "card (imported_kinds bs) > 1"
    with sub two have "imported_kinds bs = {Ledger, Bank}"
      by (metis Suc_1 Suc_leI card_seteq finite.emptyI finite.insertI)
    then show "imports_kind Ledger bs \<and> imports_kind Bank bs"
      using mem_imported_kinds [of _ bs] by auto
  next
    assume "imports_kind Ledger bs \<and> imports_kind Bank bs"
    with sub have "imported_kinds bs = {Ledger, Bank}"
      using mem_imported_kinds [of _ bs] by auto
    then show "card (imported_kinds bs) > 1" by simp
  qed
qed

lemma basis_of_batches_cases:
  "basis_of_batches bs =
     (if imports_kind Ledger bs \<and> imports_kind Bank bs then Inl MixedBasisError
      else if imports_kind Ledger bs then Inr ReportBasis_LEDGER
      else Inr ReportBasis_BANK)"
  using card_imported_kinds [of bs] by (auto simp: basis_of_batches_def Let_def mem_imported_kinds)

text \<open>The basis of a report is refused exactly when the entity's imported batches mix bank and
  ledger data; otherwise it is the ledger basis when a ledger batch was imported and the bank basis in
  every other case, no import at all included. Batches that are pending, parsing or rejected do not
  count.\<close>

theorem basis_of_batches_exact:
  "basis_of_batches bs =
     (if imports_kind Ledger bs \<and> imports_kind Bank bs then Inl MixedBasisError
      else if imports_kind Ledger bs then Inr ReportBasis_LEDGER
      else Inr ReportBasis_BANK)"
  by (rule basis_of_batches_cases)

subsection \<open>Properties: money moved\<close>

text \<open>C4. The reconciliation strip balances as it is displayed: whatever the server's lines are, either
  an amount is not an integer and the strip is refused with a syntax error, or the closing amount is the
  exact sum of the opening, incoming, outgoing and transfer amounts that are shown beside it, opening is
  the first period's, the other three are the exact sums over every period with outgoing and transfers
  negated, and the server's own closing amounts are not used.\<close>

theorem aggregateReconciliation_balances:
  "case aggregateReconciliation lines of
     Inl e \<Rightarrow> e = SyntaxError
   | Inr r \<Rightarrow>
       units (rcn_closing r) =
         units (rcn_opening r) + units (rcn_moneyIn r) + units (rcn_moneyOut r) + units (rcn_transfers r) \<and>
       units (rcn_opening r) = (case lines of [] \<Rightarrow> 0 | l # _ \<Rightarrow> wire_units (rec_opening l)) \<and>
       units (rcn_moneyIn r) = (\<Sum>l \<leftarrow> lines. wire_units (rec_in l)) \<and>
       units (rcn_moneyOut r) = - (\<Sum>l \<leftarrow> lines. wire_units (rec_out l)) \<and>
       units (rcn_transfers r) = - (\<Sum>l \<leftarrow> lines. wire_units (rec_transfers l))"
  by (cases lines) (auto simp: aggregateReconciliation_def Let_def big_or_zero_eq sum_pick_eq)

lemma aggregateReconciliation_sums:
  assumes "aggregateReconciliation lines = Inr r"
  shows "units (rcn_moneyIn r) = (\<Sum>l \<leftarrow> lines. wire_units (rec_in l))"
    and "units (rcn_moneyOut r) = - (\<Sum>l \<leftarrow> lines. wire_units (rec_out l))"
  using assms
  by (cases lines; auto simp: aggregateReconciliation_def Let_def big_or_zero_eq sum_pick_eq
      split: if_splits)+

definition cash_row :: "PReconciliationLine list \<Rightarrow> string \<Rightarrow> string \<Rightarrow> CashPeriod js" where
  "cash_row lines currency period =
     (let line = js_map_get (map (\<lambda>l. (rec_period l, l)) lines) period;
          i = Option.bind line rec_in; out = Option.bind line rec_out;
          m = (\<lambda>v. \<lparr>minorUnits = show_int v, currencyCode = currency\<rparr>)
      in if integral i \<and> integral out
         then Inr \<lparr>cp_period = period, cp_moneyIn = m (wire_units i), cp_moneyOut = m (- wire_units out),
           cp_net = m (wire_units i - wire_units out)\<rparr>
         else Inl SyntaxError)"

lemma cashByPeriod_rows: "cashByPeriod periods lines currency = emap (cash_row lines currency) periods"
  unfolding cashByPeriod_def Let_def
  by (rule arg_cong [where f = "\<lambda>f. emap f periods"])
    (auto simp: cash_row_def Let_def big_or_zero_eq fun_eq_iff)

lemma emap_Inl_D: "emap f xs = Inl e \<Longrightarrow> \<exists>x \<in> set xs. f x = Inl e"
  by (induction xs) (auto simp: ebind_Inl_iff)

lemma cash_row_Inr:
  assumes "cash_row lines currency p = Inr c"
  shows "cp_period c = p \<and> units (cp_net c) = units (cp_moneyIn c) + units (cp_moneyOut c) \<and>
    units (cp_moneyIn c) = wire_units (Option.bind (js_map_get (map (\<lambda>l. (rec_period l, l)) lines) p) rec_in) \<and>
    units (cp_moneyOut c) = - wire_units (Option.bind (js_map_get (map (\<lambda>l. (rec_period l, l)) lines) p) rec_out)"
  using assms by (auto simp: cash_row_def Let_def split: if_splits)

text \<open>The cash rows follow the report's periods one for one and in order, whatever order the
  server's lines have, and the net of every row is the exact sum of the incoming and the (negative)
  outgoing amount shown in it; the only failure is an amount that is not an integer.\<close>

theorem cashByPeriod_net:
  "case cashByPeriod periods lines currency of
     Inl e \<Rightarrow> e = SyntaxError
   | Inr rows \<Rightarrow>
       map cp_period rows = periods \<and>
       list_all (\<lambda>c. units (cp_net c) = units (cp_moneyIn c) + units (cp_moneyOut c)) rows"
proof (cases "cashByPeriod periods lines currency")
  case (Inl e)
  then show ?thesis
    by (auto simp: cashByPeriod_rows cash_row_def Let_def dest!: emap_Inl_D split: if_splits)
next
  case (Inr rows)
  then have "list_all2 (\<lambda>p c. cash_row lines currency p = Inr c) periods rows"
    by (simp add: cashByPeriod_rows emap_Inr_all2)
  then have "list_all2 (\<lambda>p c. cp_period c = p \<and>
      units (cp_net c) = units (cp_moneyIn c) + units (cp_moneyOut c)) periods rows"
    by (rule list.rel_mono_strong) (use cash_row_Inr in blast)
  then have "map cp_period rows = periods \<and>
     list_all (\<lambda>c. units (cp_net c) = units (cp_moneyIn c) + units (cp_moneyOut c)) rows"
    by (induction rule: list_all2_induct) auto
  with Inr show ?thesis by simp
qed

lemma cash_lookup:
  assumes "distinct (map rec_period lines)" "l \<in> set lines"
  shows "js_map_get (map (\<lambda>l. (rec_period l, l)) lines) (rec_period l) = Some l"
  by (rule js_map_get_distinct) (use assms in \<open>auto simp: comp_def\<close>)

lemma cash_sum:
  assumes d: "distinct periods" "distinct (map rec_period lines)"
    and same: "set periods = set (map rec_period lines)"
    and pick: "\<And>p. v p = f (js_map_get (map (\<lambda>l. (rec_period l, l)) lines) p)"
  shows "(\<Sum>p \<leftarrow> periods. v p) = (\<Sum>l \<leftarrow> lines. (f (Some l) :: int))"
proof -
  have "(\<Sum>p \<leftarrow> periods. v p) = (\<Sum>p \<in> set periods. v p)"
    by (rule sum_list_distinct_conv_sum_set [OF d(1)])
  also have "\<dots> = (\<Sum>p \<in> set (map rec_period lines). v p)"
    by (simp only: same)
  also have "\<dots> = (\<Sum>p \<leftarrow> map rec_period lines. v p)"
    by (rule sum_list_distinct_conv_sum_set [OF d(2), symmetric])
  also have "\<dots> = (\<Sum>l \<leftarrow> lines. f (Some l))"
    by (rule arg_cong [where f = sum_list]) (simp add: pick cash_lookup [OF d(2)])
  finally show ?thesis .
qed

lemma cashByPeriod_sums:
  assumes "cashByPeriod periods lines currency = Inr rows"
  shows "(\<Sum>c \<leftarrow> rows. units (cp_moneyIn c)) = (\<Sum>p \<leftarrow> periods. wire_units
      (Option.bind (js_map_get (map (\<lambda>l. (rec_period l, l)) lines) p) rec_in))"
    and "(\<Sum>c \<leftarrow> rows. units (cp_moneyOut c)) = (\<Sum>p \<leftarrow> periods. - wire_units
      (Option.bind (js_map_get (map (\<lambda>l. (rec_period l, l)) lines) p) rec_out))"
proof -
  from assms have "list_all2 (\<lambda>p c. cash_row lines currency p = Inr c) periods rows"
    by (simp add: cashByPeriod_rows emap_Inr_all2)
  then show "(\<Sum>c \<leftarrow> rows. units (cp_moneyIn c)) = (\<Sum>p \<leftarrow> periods. wire_units
      (Option.bind (js_map_get (map (\<lambda>l. (rec_period l, l)) lines) p) rec_in))"
    and "(\<Sum>c \<leftarrow> rows. units (cp_moneyOut c)) = (\<Sum>p \<leftarrow> periods. - wire_units
      (Option.bind (js_map_get (map (\<lambda>l. (rec_period l, l)) lines) p) rec_out))"
    by (induction rule: list_all2_induct) (auto dest: cash_row_Inr)
qed

text \<open>C7. The cash tab and the reconciliation strip are two views of one movement: when the server
  sends one reconciliation line for each period of the report, in any order, the incoming and outgoing
  amounts of the cash rows add up exactly to the incoming and outgoing amounts of the strip.\<close>

theorem cash_matches_strip:
  assumes "distinct periods" and "distinct (map rec_period lines)"
    and "set periods = set (map rec_period lines)"
    and "cashByPeriod periods lines currency = Inr rows"
    and "aggregateReconciliation lines = Inr strip"
  shows "(\<Sum>c \<leftarrow> rows. units (cp_moneyIn c)) = units (rcn_moneyIn strip) \<and>
    (\<Sum>c \<leftarrow> rows. units (cp_moneyOut c)) = units (rcn_moneyOut strip)"
  using cashByPeriod_sums [OF assms(4)] aggregateReconciliation_sums [OF assms(5)]
    cash_sum [OF assms(1-3), of "\<lambda>p. wire_units (Option.bind (js_map_get (map (\<lambda>l. (rec_period l, l)) lines) p) rec_in)"
      "\<lambda>x. wire_units (Option.bind x rec_in)"]
    cash_sum [OF assms(1-3), of "\<lambda>p. - wire_units (Option.bind (js_map_get (map (\<lambda>l. (rec_period l, l)) lines) p) rec_out)"
      "\<lambda>x. - wire_units (Option.bind x rec_out)"]
  by (simp add: uminus_sum_list_map [unfolded comp_def, symmetric])

definition demo_wire_money :: "int \<Rightarrow> Money option" where
  "demo_wire_money i = Some \<lparr>minorUnits = show_int i, currencyCode = ''BYN''\<rparr>"

definition demo_strip_lines :: "PReconciliationLine list" where
  "demo_strip_lines =
    [\<lparr>rec_period = ''2026-02'', rec_opening = demo_wire_money 700, rec_in = demo_wire_money 500,
      rec_out = demo_wire_money 900, rec_transfers = None, rec_transferRowCount = 0,
      rec_closing = demo_wire_money 300, rec_balances = True, rec_derived = True\<rparr>,
     \<lparr>rec_period = ''2026-01'', rec_opening = demo_wire_money 300, rec_in = demo_wire_money 20,
      rec_out = None, rec_transfers = demo_wire_money 5, rec_transferRowCount = 1,
      rec_closing = demo_wire_money 315, rec_balances = True, rec_derived = True\<rparr>]"

theorem cash_matches_strip_witness:
  "\<exists>rows strip. cashByPeriod [''2026-01'', ''2026-02''] demo_strip_lines ''BYN'' = Inr rows \<and>
    aggregateReconciliation demo_strip_lines = Inr strip \<and> units (rcn_moneyIn strip) = 520 \<and>
    (\<Sum>c \<leftarrow> rows. units (cp_moneyIn c)) = 520"
proof -
  obtain rows where rows: "cashByPeriod [''2026-01'', ''2026-02''] demo_strip_lines ''BYN'' = Inr rows"
    by (simp add: cashByPeriod_def demo_strip_lines_def demo_wire_money_def Let_def big_or_zero_def
        js_map_get_def)
  obtain strip where strip: "aggregateReconciliation demo_strip_lines = Inr strip"
    and total: "units (rcn_moneyIn strip) = 520"
    by (simp add: aggregateReconciliation_def demo_strip_lines_def demo_wire_money_def Let_def
        big_or_zero_def sum_pick_def)
  have "(\<Sum>c \<leftarrow> rows. units (cp_moneyIn c)) = units (rcn_moneyIn strip) \<and>
    (\<Sum>c \<leftarrow> rows. units (cp_moneyOut c)) = units (rcn_moneyOut strip)"
    by (rule cash_matches_strip [OF _ _ _ rows strip]) (auto simp: demo_strip_lines_def)
  with rows strip total show ?thesis by auto
qed

subsection \<open>Properties: the report\<close>

text \<open>The wire line with a code, and its integer total and figures.\<close>

definition wire_line :: "string \<Rightarrow> PReportLine list \<Rightarrow> PReportLine option" where
  "wire_line code lines = js_map_get (map (\<lambda>l. (rl_code l, l)) lines) code"

definition figure_units :: "PReportFigure option \<Rightarrow> int" where
  "figure_units f = wire_units (Option.bind f rf_amount)"

definition wire_total :: "string \<Rightarrow> PReportLine list \<Rightarrow> int" where
  "wire_total code lines = figure_units (Option.bind (wire_line code lines) rl_total)"

definition wire_figure :: "string \<Rightarrow> PReportLine list \<Rightarrow> nat \<Rightarrow> int" where
  "wire_figure code lines i =
     figure_units (Option.bind (wire_line code lines) (\<lambda>l. js_at (rl_byPeriod l) i))"

lemma lookup_lineFromProto:
  "js_map_get (map (\<lambda>l. (ln_categoryId l, l)) (map lineFromProto pl)) code =
     map_option lineFromProto (wire_line code pl)"
proof -
  have pairs: "map (\<lambda>l. (ln_categoryId l, l)) (map lineFromProto pl) =
      map (\<lambda>(k, v). (k, lineFromProto v)) (map (\<lambda>l. (rl_code l, l)) pl)"
    by (simp add: lineFromProto_def)
  show ?thesis
    unfolding pairs js_map_get_def wire_line_def by (simp only: rev_map map_of_map comp_apply)
qed

lemmas lookup_line = lookup_lineFromProto lookup_lineFromProto [unfolded map_map]

lemma units_total_of:
  "units (total_of (map_option lineFromProto (wire_line code pl))) = wire_total code pl"
  by (cases "wire_line code pl")
    (simp_all add: total_of_def wire_total_def figure_units_def wire_units_def lineFromProto_def figureMoney_def)

lemma value_at_units:
  "the (parse_bigint (value_at (map_option lineFromProto (wire_line code pl)) i)) = wire_figure code pl i"
  by (cases "wire_line code pl")
    (auto simp: value_at_def wire_figure_def figure_units_def lineFromProto_def figureMoney_def js_at_def
      wire_units_def report_money_eq units_def ZERO_def split: option.splits)

text \<open>C5. The headline figures of the report are one consistent set: the only failure is an amount that
  is not an integer, and otherwise revenue is the total of NET SALES, the net result the total of NI, and
  expenses are revenue minus CM exactly, in the total and in every period of the report (a period the
  server left out counts as zero).\<close>

theorem reportFromProto_figures:
  "case reportFromProto basis periods pl pb pr v of
     Inl e \<Rightarrow> e = SyntaxError
   | Inr r \<Rightarrow>
       units (rp_revenueTotal r) = wire_total NET_SALES pl \<and>
       units (rp_netTotal r) = wire_total NI pl \<and>
       units (rp_expensesTotal r) = wire_total NET_SALES pl - wire_total CM pl \<and>
       map units (rp_expensesByPeriod r) =
         map (\<lambda>i. wire_figure NET_SALES pl i - wire_figure CM pl i) [0..<length periods]"
proof (cases "reportFromProto basis periods pl pb pr v")
  case (Inl e)
  have "cashByPeriod periods pr c = Inl e' \<Longrightarrow> e' = SyntaxError" for c e'
    by (auto simp: cashByPeriod_rows cash_row_def Let_def dest!: emap_Inl_D split: if_splits)
  moreover have "aggregateReconciliation pr = Inl e' \<Longrightarrow> e' = SyntaxError" for e'
    by (cases pr) (auto simp: aggregateReconciliation_def Let_def big_or_zero_eq sum_pick_eq split: if_splits)
  ultimately have "e = SyntaxError"
    using Inl by (auto simp: reportFromProto_def Let_def ebind_Inl_iff subMinorUnits_eq
        dest!: emap_Inl_D split: if_split_asm)
  with Inl show ?thesis by simp
next
  case (Inr r)
  let ?line = "\<lambda>code. map_option lineFromProto (wire_line code pl)"
  note defs = reportFromProto_def Let_def ebind_Inr_iff lookup_line
  from Inr have rev: "rp_revenueTotal r = total_of (?line NET_SALES)"
    and net: "units (rp_netTotal r) = units (total_of (?line NI))"
    by (auto simp: defs total_of_def split: option.splits)
  from Inr have exp: "units (rp_expensesTotal r) = units (total_of (?line NET_SALES)) - units (total_of (?line CM))"
    by (auto simp: defs subMinorUnits_eq units_def [of "total_of _"] split: if_split_asm)
  define c where "c = (if currencyCode (total_of (?line NET_SALES)) \<noteq> []
      then currencyCode (total_of (?line NET_SALES))
      else case map lineFromProto pl of [] \<Rightarrow> [] | l # _ \<Rightarrow> currencyCode (ln_total l))"
  from Inr have "emap (\<lambda>i. ebind (subMinorUnits (value_at (?line NET_SALES) i) (value_at (?line CM) i))
      (\<lambda>u. Inr \<lparr>minorUnits = u, currencyCode = c\<rparr>)) [0..<length periods] = Inr (rp_expensesByPeriod r)"
    unfolding reportFromProto_def Let_def lookup_lineFromProto c_def [symmetric]
    by - (elim ebind_InrE, drule sum.inject(2) [THEN iffD1], hypsubst, simp only: Report.select_convs)
  then have "list_all2 (\<lambda>i m. ebind (subMinorUnits (value_at (?line NET_SALES) i) (value_at (?line CM) i))
      (\<lambda>u. Inr \<lparr>minorUnits = u, currencyCode = c\<rparr>) = Inr m) [0..<length periods] (rp_expensesByPeriod r)"
    by (simp only: emap_Inr_all2)
  then have "list_all2 (\<lambda>i m. units m = wire_figure NET_SALES pl i - wire_figure CM pl i)
      [0..<length periods] (rp_expensesByPeriod r)"
    by (rule list.rel_mono_strong)
      (auto simp: ebind_Inr_iff subMinorUnits_eq value_at_units split: if_splits)
  then have per: "map units (rp_expensesByPeriod r) =
      map (\<lambda>i. wire_figure NET_SALES pl i - wire_figure CM pl i) [0..<length periods]"
    by (induction rule: list_all2_induct) auto
  show ?thesis
    using Inr by (simp add: rev net exp per units_total_of)
qed

subsection \<open>Properties: the calls of a report\<close>

definition batches_request :: "Session \<Rightarrow> PListImportBatchesRequest" where
  "batches_request s = \<lparr>libr_orgId = orgId s, libr_entityId = entityId s\<rparr>"

definition pnl_request :: "Session \<Rightarrow> Period \<Rightarrow> Period \<Rightarrow> ReportBasis \<Rightarrow> PGetManagementPNLRequest" where
  "pnl_request s fromP toP basis =
     \<lparr>gmpnlr_organizationId = orgId s, gmpnlr_entityId = entityId s, gmpnlr_from = fromP,
      gmpnlr_to = toP, gmpnlr_granularity = ReportGranularity_MONTH, gmpnlr_basis = basis\<rparr>"

text \<open>The basis the answer of \<open>ListImportBatches\<close> leads to.\<close>

definition basis_answer :: "'s env \<Rightarrow> PListImportBatchesResponse js \<Rightarrow> ReportBasis js" where
  "basis_answer E r = ebind r (\<lambda>res. basis_of_batches (map (batchFromProto E) (librq_batches res)))"

lemma deriveBasis_run:
  assumes "current w = Some s" and "listImportBatches E (server w) (batches_request s) = (r, s1)"
  shows "deriveBasis E w =
    (basis_answer E r, w\<lparr>server := s1, sent := sent w @ [ListImportBatches (batches_request s)]\<rparr>)"
  using assms
  by (cases r) (simp_all add: deriveBasis_def listBatches_def requireSession_bind io_bind_def rpc_def
      batches_request_def io_lift_def io_return_def basis_answer_def)

lemma getReport_run:
  assumes "current w = Some s" and "listImportBatches E (server w) (batches_request s) = (r, s1)"
  shows "getReport E fromP toP w =
    (let w1 = w\<lparr>server := s1, sent := sent w @ [ListImportBatches (batches_request s)]\<rparr> in
     case basis_answer E r of
       Inl e \<Rightarrow> (Inl e, w1)
     | Inr b \<Rightarrow>
         let q = pnl_request s fromP toP b in
         case getManagementPNL E s1 q of (r2, s2) \<Rightarrow>
           (ebind r2 (\<lambda>res. reportFromProto (basisFromProto (gmpnlrq_basis res)) (gmpnlrq_periods res)
              (gmpnlrq_lines res) (gmpnlrq_buckets res) (gmpnlrq_reconciliation res) (gmpnlrq_versions res)),
            w1\<lparr>server := s2, sent := sent w1 @ [GetManagementPNL q]\<rparr>))"
  using assms deriveBasis_run [OF assms]
  by (auto simp: getReport_def requireSession_bind io_bind_def rpc_def pnl_request_def io_lift_def Let_def
      ebind_def split: sum.splits prod.splits)

text \<open>All the imported batches of an answer are of the kind a basis reports on.\<close>

definition uniform_for :: "ReportBasis \<Rightarrow> PImportBatch list \<Rightarrow> bool" where
  "uniform_for basis = list_all (\<lambda>b. STATE_BY_STATUS (ib_status b) = Imported \<longrightarrow>
     basisFromProto basis = (if ib_sourceKind b = PSourceKind_LEDGER then Accrual else Cash))"

lemma basis_answer_uniform:
  assumes "basis_answer E (Inr res) = Inr basis"
  shows "uniform_for basis (librq_batches res)"
  using assms
  by (auto simp: basis_answer_def basis_of_batches_cases imports_kind_def list_ex_iff uniform_for_def
      list_all_iff basisFromProto_def batchFromProto_def fromProtoSourceKind_def split: if_splits)

text \<open>C1. A profit and loss is only ever asked for on a basis that all of the entity's imports share:
  when \<open>GetManagementPNL\<close> is sent, the entity's batches were listed first and the answer's imported
  batches are all ledger files on the accrual basis and all bank files on the cash basis, so an invoice
  and its payment are never counted together; the request names the session's organisation and entity
  and the months asked for, and nothing else is sent.\<close>

theorem getReport_uniform_basis:
  assumes "current w = Some s"
    and "sent (snd (getReport E fromP toP w)) = sent w @ cs"
    and "GetManagementPNL q \<in> set cs"
  shows "\<exists>res s1. listImportBatches E (server w) (batches_request s) = (Inr res, s1) \<and>
    uniform_for (gmpnlr_basis q) (librq_batches res) \<and>
    q = pnl_request s fromP toP (gmpnlr_basis q) \<and>
    cs = [ListImportBatches (batches_request s), GetManagementPNL q]"
proof -
  obtain r s1 where r: "listImportBatches E (server w) (batches_request s) = (r, s1)" by fastforce
  note run = getReport_run [OF assms(1) r]
  from assms(2,3) run obtain res b where res: "r = Inr res" "basis_answer E r = Inr b"
    by (cases r; cases "basis_answer E r") (auto simp: Let_def basis_answer_def)
  with assms(2,3) run have "q = pnl_request s fromP toP b"
    "cs = [ListImportBatches (batches_request s), GetManagementPNL q]"
    by (auto simp: Let_def split: prod.splits)
  with r res basis_answer_uniform show ?thesis by (fastforce simp: pnl_request_def)
qed

lemma demo_report_run:
  "sent (snd (getReport demo_env ''2026-01'' ''2026-03'' demo_world)) =
     sent demo_world @
     [ListImportBatches (batches_request (the (current demo_world))),
      GetManagementPNL (pnl_request (the (current demo_world)) ''2026-01'' ''2026-03'' ReportBasis_LEDGER)]"
proof -
  have "current demo_world = Some (the (current demo_world))" by (simp add: demo_world_def)
  moreover have "listImportBatches demo_env (server demo_world) (batches_request (the (current demo_world)))
    = (Inr \<lparr>librq_batches = [demo_batch]\<rparr>, ())" by (simp add: demo_env_def)
  moreover have "basis_answer demo_env (Inr \<lparr>librq_batches = [demo_batch]\<rparr>) = Inr ReportBasis_LEDGER"
    by (simp add: basis_answer_def basis_of_batches_cases imports_kind_def batchFromProto_def demo_batch_def
        fromProtoSourceKind_def)
  ultimately show ?thesis by (simp add: getReport_run Let_def split: prod.split)
qed

theorem getReport_uniform_basis_witness:
  "\<exists>res s1. listImportBatches demo_env (server demo_world) (batches_request (the (current demo_world)))
      = (Inr res, s1) \<and> uniform_for ReportBasis_LEDGER (librq_batches res)"
proof -
  have "current demo_world = Some (the (current demo_world))" by (simp add: demo_world_def)
  from getReport_uniform_basis [OF this demo_report_run,
      of "pnl_request (the (current demo_world)) ''2026-01'' ''2026-03'' ReportBasis_LEDGER"]
  show ?thesis by (auto simp: pnl_request_def)
qed

lemma own_deriveBasis [calls_only_intros]: "own_calls s (deriveBasis E)"
  unfolding deriveBasis_def
  by (intro calls_only_intros tenant_call_own [OF tenant_listBatches])

lemma tenant_getReport: "tenant_call (getReport E fromP toP)"
  unfolding getReport_def
  by (rule tenant_callI) (intro calls_only_intros own_deriveBasis; simp)

lemma own_getReport [calls_only_intros]: "own_calls s (getReport E fromP toP)"
  by (rule tenant_call_own [OF tenant_getReport])

lemma tenant_getDrilldown: "tenant_call (getDrilldown E cat period fromP toP)"
  unfolding getDrilldown_def Let_def
  by (rule tenant_callI) (intro calls_only_intros own_deriveBasis; simp)

interpretation get_report: tenant_call "getReport E fromP toP" for E :: "'s env" and fromP toP
  by (rule tenant_getReport)

interpretation get_drilldown: tenant_call "getDrilldown E cat period fromP toP"
  for E :: "'s env" and cat period fromP toP
  by (rule tenant_getDrilldown)

lemma getReport_sends:
  assumes "current w = Some s" and "listImportBatches E (server w) (batches_request s) = (r, s1)"
    and "getReport E fromP toP w = (res, w')"
  shows "(case basis_answer E r of
       Inl e \<Rightarrow> res = Inl e \<and> sent w' = sent w @ [ListImportBatches (batches_request s)]
     | Inr b \<Rightarrow> sent w' = sent w @ [ListImportBatches (batches_request s),
         GetManagementPNL (pnl_request s fromP toP b)]) \<and> current w' = current w"
  using assms(3) getReport_run [OF assms(1,2), of fromP toP]
  by (auto simp: Let_def split: sum.splits prod.splits)

text \<open>An answer that lists an imported ledger file.\<close>

definition lists_ledger :: "PListImportBatchesResponse \<Rightarrow> bool" where
  "lists_ledger res = list_ex (\<lambda>b. STATE_BY_STATUS (ib_status b) = Imported \<and>
     ib_sourceKind b = PSourceKind_LEDGER) (librq_batches res)"

lemma basis_answer_ledger:
  assumes "basis_answer E (Inr res) = Inr b"
  shows "b = (if lists_ledger res then ReportBasis_LEDGER else ReportBasis_BANK)"
  using assms
  by (auto simp: basis_answer_def basis_of_batches_cases imports_kind_def list_ex_iff lists_ledger_def
      batchFromProto_def fromProtoSourceKind_def split: if_splits)

lemma basis_answer_InrD: "basis_answer E r = Inr b \<Longrightarrow> \<exists>res. r = Inr res"
  by (cases r) (simp_all add: basis_answer_def)

text \<open>The request for the rows behind a cell.\<close>

definition drilldown_query :: "Session \<Rightarrow> ReportBasis \<Rightarrow> string \<Rightarrow> Period \<Rightarrow> Period \<Rightarrow> Period \<Rightarrow> PListLineTransactionsRequest" where
  "drilldown_query s basis cat period fromP toP =
     \<lparr>lltr_organizationId = orgId s, lltr_entityId = entityId s, lltr_basis = basis,
      lltr_granularity = ReportGranularity_MONTH, lltr_from = fromP, lltr_to = toP,
      lltr_period = period, lltr_line = cat, lltr_cursor = [], lltr_limit = 500\<rparr>"

lemma getDrilldown_sends:
  assumes w: "current w = Some s" and r: "listImportBatches E (server w) (batches_request s) = (r, s1)"
    and r2: "listImportBatches E s1 (batches_request s) = (r2, s2)"
  obtains (refused) "\<forall>q. ListLineTransactions q \<notin> set (drop (length (sent w)) (sent (snd (getDrilldown E cat period fromP toP w))))"
  | (asked) b b' where "basis_answer E r = Inr b" "basis_answer E r2 = Inr b'"
    "sent (snd (getDrilldown E cat period fromP toP w)) = sent w @
       [ListImportBatches (batches_request s), ListImportBatches (batches_request s),
        GetManagementPNL (pnl_request s fromP toP b'), ListLineTransactions (drilldown_query s b cat period fromP toP)]"
proof -
  define w1 where "w1 = w\<lparr>server := s1, sent := sent w @ [ListImportBatches (batches_request s)]\<rparr>"
  have basis: "deriveBasis E w = (basis_answer E r, w1)"
    unfolding w1_def by (rule deriveBasis_run [OF w r])
  obtain rep w2 where rep: "getReport E fromP toP w1 = (rep, w2)" by fastforce
  have w1s: "current w1 = Some s" and r2': "listImportBatches E (server w1) (batches_request s) = (r2, s2)"
    using w r2 by (simp_all add: w1_def)
  note sends = getReport_sends [OF w1s r2' rep]
  have stopped: "sent (snd (getDrilldown E cat period fromP toP w)) = sent w2"
    if "(\<exists>e. basis_answer E r = Inl e) \<or> (\<exists>e. rep = Inl e)"
    using w basis rep that
    by (cases "basis_answer E r") (auto simp: getDrilldown_def requireSession_bind io_bind_def io_all2_def)
  have "\<forall>q. ListLineTransactions q \<notin> set (drop (length (sent w)) (sent w2))"
    using sends by (auto simp: w1_def split: sum.splits)
  with stopped have no: "(\<exists>e. basis_answer E r = Inl e) \<or> (\<exists>e. rep = Inl e) \<Longrightarrow> thesis" by (auto intro: refused)
  show thesis
  proof (cases "basis_answer E r"; cases rep)
    fix b report
    assume b: "basis_answer E r = Inr b" and report: "rep = Inr report"
    from sends report obtain b' where b': "basis_answer E r2 = Inr b'"
      and w2: "sent w2 = sent w1 @ [ListImportBatches (batches_request s), GetManagementPNL (pnl_request s fromP toP b')]"
      by (auto split: sum.splits)
    have "sent (snd (getDrilldown E cat period fromP toP w)) = sent w2 @
        [ListLineTransactions (drilldown_query s b cat period fromP toP)]"
      using w basis rep report b
      by (simp add: getDrilldown_def requireSession_bind io_bind_def io_all2_def Let_def rpc_def
          io_return_def drilldown_query_def split: prod.split sum.split)
    with b b' w2 show thesis by (intro asked) (simp_all add: w1_def)
  qed (use no in auto)
qed

text \<open>C8. A drill-down asks for exactly the cell that was opened: when \<open>ListLineTransactions\<close> is sent, the entity's
  batches were listed twice and the profit and loss of the same session and months was asked for just before it,
  and the rows asked for are those of the line and period of the cell, over the same months, monthly, from the
  first row on. The basis is derived twice, once for the rows and once for the profit and loss, each time one that
  all the imports then listed share; the two are the same exactly when both listings, or neither, held an imported
  ledger file, so rows and figure can only part when the imports change while the panel opens.\<close>

theorem getDrilldown_asks_for_the_cell:
  assumes "current w = Some s"
    and "sent (snd (getDrilldown E cat period fromP toP w)) = sent w @ cs"
    and "ListLineTransactions q \<in> set cs"
  shows "\<exists>res1 s1 res2 s2 b b'.
    listImportBatches E (server w) (batches_request s) = (Inr res1, s1) \<and>
    listImportBatches E s1 (batches_request s) = (Inr res2, s2) \<and>
    cs = [ListImportBatches (batches_request s), ListImportBatches (batches_request s),
      GetManagementPNL (pnl_request s fromP toP b'), ListLineTransactions q] \<and>
    q = drilldown_query s b cat period fromP toP \<and>
    uniform_for b (librq_batches res1) \<and> uniform_for b' (librq_batches res2) \<and>
    (b = b') = (lists_ledger res1 = lists_ledger res2)"
proof -
  obtain r s1 where r: "listImportBatches E (server w) (batches_request s) = (r, s1)" by fastforce
  obtain r2 s2 where r2: "listImportBatches E s1 (batches_request s) = (r2, s2)" by fastforce
  show ?thesis
  proof (rule getDrilldown_sends [OF assms(1) r r2, of cat period fromP toP], goal_cases)
    case 1
    with assms(2,3) show ?thesis by auto
  next
    case asked: (2 b b')
    from asked(1,2) obtain res1 res2 where "r = Inr res1" "r2 = Inr res2" by (blast dest: basis_answer_InrD)
    note ans = asked(1,2) [unfolded this]
    have "cs = [ListImportBatches (batches_request s), ListImportBatches (batches_request s),
        GetManagementPNL (pnl_request s fromP toP b'), ListLineTransactions (drilldown_query s b cat period fromP toP)]"
      using asked(3) assms(2) by simp
    moreover have "(b = b') = (lists_ledger res1 = lists_ledger res2)"
      using ans [THEN basis_answer_ledger] by simp
    ultimately show ?thesis
      using r r2 assms(3) ans [THEN basis_answer_uniform] \<open>r = Inr res1\<close> \<open>r2 = Inr res2\<close>
      by (intro exI [of _ res1] exI [of _ s1] exI [of _ res2] exI [of _ s2] exI [of _ b] exI [of _ b']) auto
  qed
qed

lemma demo_basis: "basis_answer demo_env (Inr \<lparr>librq_batches = [demo_batch]\<rparr>) = Inr ReportBasis_LEDGER"
  by (simp add: basis_answer_def basis_of_batches_cases imports_kind_def batchFromProto_def demo_batch_def
      fromProtoSourceKind_def)

lemma demo_report: "\<exists>r. reportFromProto b [] [] [] [] None = Inr r"
  by (simp add: reportFromProto_def Let_def js_map_get_def total_of_def subMinorUnits_def ZERO_def
      cashByPeriod_def aggregateReconciliation_def)

lemma demo_drilldown:
  "sent (snd (getDrilldown demo_env ''01'' ''2026-02'' ''2026-01'' ''2026-03'' demo_world)) =
     sent demo_world @ [ListImportBatches (batches_request (the (current demo_world))),
      ListImportBatches (batches_request (the (current demo_world))),
      GetManagementPNL (pnl_request (the (current demo_world)) ''2026-01'' ''2026-03'' ReportBasis_LEDGER),
      ListLineTransactions (drilldown_query (the (current demo_world)) ReportBasis_LEDGER ''01'' ''2026-02''
        ''2026-01'' ''2026-03'')]"
proof -
  let ?s = "the (current demo_world)"
  let ?l = "ListImportBatches (batches_request ?s)"
  define w1 where "w1 = demo_world\<lparr>server := (), sent := sent demo_world @ [?l]\<rparr>"
  have s: "current demo_world = Some ?s" "current w1 = Some ?s" by (simp_all add: demo_world_def w1_def)
  have l: "listImportBatches demo_env u r = (Inr \<lparr>librq_batches = [demo_batch]\<rparr>, ())" for u r
    by (simp add: demo_env_def)
  have basis: "deriveBasis demo_env demo_world = (Inr ReportBasis_LEDGER, w1)"
    unfolding w1_def by (simp add: deriveBasis_run [OF s(1) l] demo_basis)
  obtain rep where rep: "reportFromProto Accrual [] [] [] [] None = Inr rep" using demo_report by blast
  define w2 where "w2 = w1\<lparr>sent := sent demo_world @ [?l, ?l,
      GetManagementPNL (pnl_request ?s ''2026-01'' ''2026-03'' ReportBasis_LEDGER)]\<rparr>"
  have report: "getReport demo_env ''2026-01'' ''2026-03'' w1 = (Inr rep, w2)"
    by (simp add: getReport_run [OF s(2) l] demo_basis Let_def)
      (simp add: demo_env_def rep basisFromProto_def w1_def w2_def)
  show ?thesis
    using s(1) by (simp add: getDrilldown_def requireSession_bind io_bind_def io_all2_def basis report Let_def
        rpc_def io_return_def)
      (simp add: demo_env_def w2_def io_return_def Let_def drilldown_query_def)
qed

theorem getDrilldown_asks_for_the_cell_witness:
  "\<exists>b. drilldown_query (the (current demo_world)) ReportBasis_LEDGER ''01'' ''2026-02'' ''2026-01'' ''2026-03'' =
      drilldown_query (the (current demo_world)) b ''01'' ''2026-02'' ''2026-01'' ''2026-03'' \<and>
    uniform_for b [demo_batch]"
proof -
  have "current demo_world = Some (the (current demo_world))" by (simp add: demo_world_def)
  from getDrilldown_asks_for_the_cell [OF this demo_drilldown, simplified]
  show ?thesis by (auto simp: demo_env_def)
qed

end
