(* ===== verification/Review_Data.thy ===== *)
theory Review_Data
  imports Batch_Reports
begin

section \<open>The review queue: data/review.ts\<close>

text \<open>
  \<open>src/web/src/data/review.ts\<close>: the groups waiting for a decision, a group's rows, the totals of
  the badge, the categories a reviewer can assign, and the decision itself, whose refusal is decoded
  into a \<open>ResolveGroupError\<close> that carries a code.
\<close>

definition PAGE_SIZE :: int where "PAGE_SIZE = 500"

definition review_money :: "Money option \<Rightarrow> Money" where
  "review_money m =
     (case m of
        Some m \<Rightarrow> \<lparr>minorUnits = minorUnits m, currencyCode = currencyCode m\<rparr>
      | None \<Rightarrow> \<lparr>minorUnits = ''0'', currencyCode = []\<rparr>)"

record ReviewTransaction =
  rt_id :: string
  rt_bookedOn :: string
  rt_description :: string
  rt_amount :: Money

definition transactionFromProto :: "PQueuedTransaction \<Rightarrow> ReviewTransaction" where
  "transactionFromProto x =
     \<lparr>rt_id = qt_id x, rt_bookedOn = qt_bookedOn x, rt_description = qt_description x,
      rt_amount = review_money (qt_amount x)\<rparr>"

record ReviewGroup =
  gr_counterpartyKey :: string
  gr_counterpartyLabel :: string
  gr_rowCount :: int
  gr_total :: Money
  gr_firstSeen :: string
  gr_lastSeen :: string

definition groupFromProto :: "PReviewGroup \<Rightarrow> ReviewGroup" where
  "groupFromProto g =
     \<lparr>gr_counterpartyKey = rg_counterpartyKey g, gr_counterpartyLabel = rg_displayName g,
      gr_rowCount = rg_rowCount g, gr_total = review_money (rg_total g),
      gr_firstSeen = rg_firstSeen g, gr_lastSeen = rg_lastSeen g\<rparr>"

definition listReviewGroups :: "'s env \<Rightarrow> ('s, ReviewGroup list) io" where
  "listReviewGroups E =
     io_bind requireSession (\<lambda>s.
     io_bind (rpc ListReviewGroups (listReviewGroupsRpc E)
        \<lparr>lrgr_organizationId = orgId s, lrgr_entityId = entityId s, lrgr_limit = PAGE_SIZE,
         lrgr_offset = 0\<rparr>) (\<lambda>res.
     io_return (map groupFromProto (lrgrq_groups res))))"

definition listGroupTransactions :: "'s env \<Rightarrow> string \<Rightarrow> ('s, ReviewTransaction list) io" where
  "listGroupTransactions E key =
     io_bind requireSession (\<lambda>s.
     io_bind (rpc ListGroupTransactions (listGroupTransactionsRpc E)
        \<lparr>lgtr_organizationId = orgId s, lgtr_entityId = entityId s, lgtr_counterpartyKey = key\<rparr>) (\<lambda>res.
     io_return (map transactionFromProto (lgtrq_transactions res))))"

record ReviewSummary =
  rs_groups :: int
  rs_rows :: int
  rs_amount :: Money

definition reviewSummary :: "'s env \<Rightarrow> ('s, ReviewSummary) io" where
  "reviewSummary E =
     io_bind requireSession (\<lambda>s.
     io_bind (rpc ListReviewGroups (listReviewGroupsRpc E)
        \<lparr>lrgr_organizationId = orgId s, lrgr_entityId = entityId s, lrgr_limit = 1, lrgr_offset = 0\<rparr>) (\<lambda>res.
     io_return
       \<lparr>rs_groups = lrgrq_totalCounterpartyCount res, rs_rows = lrgrq_totalRowCount res,
        rs_amount = review_money (lrgrq_totalAbsolute res)\<rparr>))"

record Category =
  ct_id :: string
  ct_code :: string
  ct_label :: string
  ct_path :: string

definition categoryFromProto :: "PCategory \<Rightarrow> Category" where
  "categoryFromProto c =
     \<lparr>ct_id = cat_id c, ct_code = cat_code c, ct_label = cat_name c, ct_path = cat_path c\<rparr>"

definition listCategories :: "'s env \<Rightarrow> ('s, Category list) io" where
  "listCategories E =
     io_bind requireSession (\<lambda>s.
     io_bind (rpc ListCategories (listCategoriesRpc E) \<lparr>lcr_organizationId = orgId s\<rparr>) (\<lambda>res.
     io_return (map categoryFromProto (lcrq_categories res))))"

datatype ReviewDecision = Classify string | InternalTransfer | NotInPnl

fun toProtoOutcome :: "ReviewDecision \<Rightarrow> ReviewOutcome" where
  "toProtoOutcome (Classify _) = ReviewOutcome_CATEGORISED"
| "toProtoOutcome InternalTransfer = ReviewOutcome_INTERNAL_TRANSFER"
| "toProtoOutcome NotInPnl = ReviewOutcome_NON_PNL"

definition resolve_request :: "Session \<Rightarrow> string \<Rightarrow> ReviewDecision \<Rightarrow> PResolveGroupRequest" where
  "resolve_request s key d =
     \<lparr>rgr_organizationId = orgId s, rgr_entityId = entityId s, rgr_counterpartyKey = key,
      rgr_outcome = toProtoOutcome d,
      rgr_categoryCode = (case d of Classify code \<Rightarrow> code | _ \<Rightarrow> [])\<rparr>"

definition decideGroup :: "'s env \<Rightarrow> string \<Rightarrow> ReviewDecision \<Rightarrow> ('s, unit) io" where
  "decideGroup E key d =
     io_bind requireSession (\<lambda>s.
     io_catch
       (io_bind (rpc ResolveGroup (resolveGroup E) (resolve_request s key d)) (\<lambda>_. io_return ()))
       (\<lambda>err. io_throw (ResolveGroupError (coded E err))))"

subsection \<open>The contract of a data call\<close>

lemma tenant_listReviewGroups: "tenant_call (listReviewGroups E)"
  unfolding listReviewGroups_def by (rule tenant_callI) (intro calls_only_intros; simp)

lemma tenant_listGroupTransactions: "tenant_call (listGroupTransactions E key)"
  unfolding listGroupTransactions_def by (rule tenant_callI) (intro calls_only_intros; simp)

lemma tenant_reviewSummary: "tenant_call (reviewSummary E)"
  unfolding reviewSummary_def by (rule tenant_callI) (intro calls_only_intros; simp)

lemma tenant_listCategories: "tenant_call (listCategories E)"
  unfolding listCategories_def by (rule tenant_callI) (intro calls_only_intros; simp)

lemma tenant_decideGroup: "tenant_call (decideGroup E key d)"
  unfolding decideGroup_def
  by (rule tenant_callI) (intro calls_only_intros; simp add: resolve_request_def)

interpretation review_groups: tenant_call "listReviewGroups E" for E :: "'s env"
  by (rule tenant_listReviewGroups)

interpretation group_rows: tenant_call "listGroupTransactions E key" for E :: "'s env" and key
  by (rule tenant_listGroupTransactions)

interpretation review_summary: tenant_call "reviewSummary E" for E :: "'s env"
  by (rule tenant_reviewSummary)

interpretation list_categories: tenant_call "listCategories E" for E :: "'s env"
  by (rule tenant_listCategories)

interpretation decide_group: tenant_call "decideGroup E key d" for E :: "'s env" and key d
  by (rule tenant_decideGroup)

subsection \<open>Properties\<close>

lemma coded_nonempty [simp]: "coded E err \<noteq> []"
  by (simp add: coded_def Let_def)

text \<open>A decision is one request and its failure is always a code: without a session it throws and
  sends nothing; with one it sends exactly one \<open>ResolveGroup\<close> for the session's tenant and the given
  counterparty, with a category code when and only when the decision classifies; and whatever the
  backend refuses with, the screen meets a \<open>ResolveGroupError\<close> with a non-empty code.\<close>

theorem decideGroup_request:
  "case current w of
     None \<Rightarrow> decideGroup E key d w = (Inl SessionNotSetError, w)
   | Some s \<Rightarrow>
       sent (snd (decideGroup E key d w)) = sent w @ [ResolveGroup (resolve_request s key d)] \<and>
       (case fst (resolveGroup E (server w) (resolve_request s key d)) of
          Inr _ \<Rightarrow> fst (decideGroup E key d w) = Inr ()
        | Inl err \<Rightarrow> \<exists>code. code \<noteq> [] \<and> fst (decideGroup E key d w) = Inl (ResolveGroupError code)) \<and>
       rgr_categoryCode (resolve_request s key d) = (case d of Classify code \<Rightarrow> code | _ \<Rightarrow> [])"
  by (auto simp: decideGroup_def requireSession_bind io_catch_def io_bind_def rpc_def io_return_def
      io_throw_def resolve_request_def split: option.splits prod.splits sum.splits)

end
