(* ===== verification/Category_Names.thy ===== *)
theory Category_Names
  imports Review_Data Report_Data
begin

section \<open>What lines and categories are called: lineName.ts and categoryName.ts\<close>

text \<open>
  \<open>src/web/src/app/lineName.ts\<close> and \<open>src/web/src/app/categoryName.ts\<close>: names resolved from codes
  per locale, with the wire's label for a code the build does not know.
\<close>

text \<open>\<open>t(key as MessageKey, locale)\<close> for a key built from a code: a missing key is \<open>undefined\<close>, which
  prints as nothing.\<close>

definition shown :: "string option \<Rightarrow> string" where
  "shown s = (case s of None \<Rightarrow> [] | Some s \<Rightarrow> s)"

definition LINE_NAMED :: "string list" where
  "LINE_NAMED = [''01'', ''02'', ''03'', ''04'', ''05'', ''06'', ''07'', ''08'', ''09'',
     ''91'', ''92'', ''93'', ''94'', ''95'']"

definition lineName :: "string \<Rightarrow> string \<Rightarrow> Locale \<Rightarrow> string" where
  "lineName code fallback l =
     (if code \<notin> set LINE_NAMED then fallback else shown (i18n_t (''line.'' @ code) l))"

text \<open>\<open>x.toLowerCase().replace(/\s+/g, " ").trim()\<close>.\<close>

fun collapse_spaces :: "bool \<Rightarrow> string \<Rightarrow> string" where
  "collapse_spaces inside [] = []"
| "collapse_spaces inside (c # s) =
     (if is_space c then (if inside then collapse_spaces True s else CHR '' '' # collapse_spaces True s)
      else c # collapse_spaces False s)"

definition flat :: "string \<Rightarrow> string" where
  "flat x = js_trim (collapse_spaces False (js_toLowerCase x))"

definition same_name :: "string \<Rightarrow> string \<Rightarrow> bool" where
  "same_name a b \<longleftrightarrow> flat a = flat b"

definition lineAbbreviation :: "string \<Rightarrow> string \<Rightarrow> Locale \<Rightarrow> string" where
  "lineAbbreviation code label l =
     (if code \<notin> set LINE_NAMED then []
      else if same_name label (lineName code label l) then [] else label)"

definition BUCKET_KEY :: "BucketKind \<Rightarrow> string" where
  "BUCKET_KEY k = (case k of
      Unclassified \<Rightarrow> ''report.bucket.unclassified'' | NonPnl \<Rightarrow> ''report.bucket.non_pnl''
    | Unallocated \<Rightarrow> ''report.bucket.unallocated'' | OtherBasis \<Rightarrow> ''report.bucket.other_basis'')"

text \<open>\<open>id in BUCKET_KEY\<close>: the identifiers that are the name of a bucket. (The operator also finds
  what every object inherits, \<open>toString\<close> and its like, which are no line codes.)\<close>

definition bucket_named :: "string \<Rightarrow> BucketKind option" where
  "bucket_named cell = find (\<lambda>k. BucketKind_text k = cell) [Unclassified, NonPnl, Unallocated, OtherBasis]"

definition cellName :: "string \<Rightarrow> string \<Rightarrow> Locale \<Rightarrow> string" where
  "cellName cell fallback l =
     (case bucket_named cell of
        Some k \<Rightarrow> shown (i18n_t (BUCKET_KEY k) l)
      | None \<Rightarrow> lineName cell fallback l)"

definition CATEGORY_NAMED :: "string list" where
  "CATEGORY_NAMED =
    [''0101'', ''02'', ''030101'',
     ''0401010101'', ''0401010201'', ''0401010202'', ''0401010203'', ''0401010204'', ''0401010205'', ''0401010206'',
     ''0401020101'', ''0401020201'', ''0401020202'', ''0401020203'', ''0401020204'', ''0401020205'', ''0401020206'',
     ''0401020207'', ''0401020208'', ''0401020209'', ''0401020210'', ''0401020211'', ''0401020212'',
     ''0401030101'',
     ''0401040101'', ''0401040102'', ''0401040103'', ''0401040104'', ''0401040105'',
     ''0401050101'', ''0401050102'',
     ''0402010101'', ''0402010201'', ''0402010202'', ''0402010203'', ''0402010204'', ''0402010205'', ''0402010206'', ''0402010207'',
     ''0402020101'', ''0402020201'', ''0402020202'',
     ''0403'', ''0404'',
     ''0405010101'', ''0405010102'', ''0405010201'', ''0405010202'', ''0405010203'',
     ''0406'',
     ''050101'', ''050102'',
     ''05010301'', ''05010302'', ''05010303'', ''05010304'', ''05010305'', ''050104'',
     ''050201'', ''050202'',
     ''060101'', ''060102'', ''060201'',
     ''07'', ''08'', ''09'']"

definition categoryName :: "string \<Rightarrow> string \<Rightarrow> Locale \<Rightarrow> string" where
  "categoryName code fallback l =
     (if code \<notin> set CATEGORY_NAMED then fallback else shown (i18n_t (''category.'' @ code) l))"

definition BRANCHES :: "string list" where
  "BRANCHES =
    [''0301'',
     ''0401'', ''040101'', ''04010101'', ''04010102'', ''040102'', ''04010201'', ''04010202'',
     ''040103'', ''04010301'', ''040104'', ''04010401'', ''040105'', ''04010501'',
     ''0402'', ''040201'', ''04020101'', ''04020102'', ''040202'', ''04020201'', ''04020202'',
     ''0405'', ''040501'', ''04050101'', ''04050102'',
     ''0501'', ''050103'', ''0502'',
     ''0601'', ''0602'']"

definition branchName :: "string \<Rightarrow> string \<Rightarrow> Locale \<Rightarrow> string" where
  "branchName code fallback l =
     (if code \<notin> set BRANCHES then fallback else shown (i18n_t (''categoryBranch.'' @ code) l))"

subsection \<open>Every named code has a message\<close>

lemma catalogue_names_2:
  "''line.01'' \<in> set (map fst messages_en_2)" "''line.02'' \<in> set (map fst messages_en_2)"
  by (simp_all add: messages_en_2_def)

lemma catalogue_names_3:
  "take 108 (map fst messages_en_3) =
     map ((@) ''line.'') (drop 2 LINE_NAMED) @ map ((@) ''category.'') CATEGORY_NAMED @
     map ((@) ''categoryBranch.'') BRANCHES"
  by (simp add: messages_en_3_def LINE_NAMED_def CATEGORY_NAMED_def BRANCHES_def)

lemma mem_catalogue_3:
  "k \<in> set (map fst messages_en_3) \<Longrightarrow> k \<in> set message_keys"
  by (simp only: set_message_keys) blast

lemma mem_catalogue_2:
  "k \<in> set (map fst messages_en_2) \<Longrightarrow> k \<in> set message_keys"
  by (simp only: set_message_keys) blast

lemma named_3:
  assumes "k \<in> set (map ((@) ''line.'') (drop 2 LINE_NAMED)) \<union> set (map ((@) ''category.'') CATEGORY_NAMED) \<union>
    set (map ((@) ''categoryBranch.'') BRANCHES)"
  shows "k \<in> set message_keys"
proof (rule mem_catalogue_3)
  have "k \<in> set (take 108 (map fst messages_en_3))"
    using assms unfolding catalogue_names_3 by (simp only: set_append) blast
  then show "k \<in> set (map fst messages_en_3)" by (rule in_set_takeD)
qed

lemma line_key: "code \<in> set LINE_NAMED \<Longrightarrow> ''line.'' @ code \<in> set message_keys"
proof -
  assume "code \<in> set LINE_NAMED"
  then consider "code \<in> set (take 2 LINE_NAMED)" | "code \<in> set (drop 2 LINE_NAMED)"
    by (metis Un_iff append_take_drop_id set_append)
  then show ?thesis
  proof cases
    case 1
    then have "code = ''01'' \<or> code = ''02''" by (simp add: LINE_NAMED_def)
    then have "''line.'' @ code \<in> set (map fst messages_en_2)"
      using catalogue_names_2 by (elim disjE) (simp_all only: append.simps)
    then show ?thesis by (rule mem_catalogue_2)
  next
    case 2
    then show ?thesis by (intro named_3) (simp del: append_Cons append_Nil)
  qed
qed

lemma category_key: "code \<in> set CATEGORY_NAMED \<Longrightarrow> ''category.'' @ code \<in> set message_keys"
  by (intro named_3) (simp del: append_Cons append_Nil)

lemma branch_key: "code \<in> set BRANCHES \<Longrightarrow> ''categoryBranch.'' @ code \<in> set message_keys"
  by (intro named_3) (simp del: append_Cons append_Nil)

lemma bucket_key: "BUCKET_KEY k \<in> set message_keys"
proof (rule mem_catalogue_2)
  show "BUCKET_KEY k \<in> set (map fst messages_en_2)"
    by (cases k) (simp_all add: BUCKET_KEY_def messages_en_2_def)
qed

text \<open>C16. A name never falls through the catalogue: every P\&L line, leaf category and branch the client
  names from its code, and every exclusion bucket, has a message in both locales, so a code it knows is
  never shown as the wire's text and never as nothing.\<close>

theorem names_catalogued:
  "list_all (\<lambda>code. lineName code fallback l = the (i18n_t (''line.'' @ code) l) \<and>
      i18n_t (''line.'' @ code) l \<noteq> None) LINE_NAMED \<and>
   list_all (\<lambda>code. categoryName code fallback l = the (i18n_t (''category.'' @ code) l) \<and>
      i18n_t (''category.'' @ code) l \<noteq> None) CATEGORY_NAMED \<and>
   list_all (\<lambda>code. branchName code fallback l = the (i18n_t (''categoryBranch.'' @ code) l) \<and>
      i18n_t (''categoryBranch.'' @ code) l \<noteq> None) BRANCHES \<and>
   list_all (\<lambda>k. cellName (BucketKind_text k) fallback l = the (i18n_t (BUCKET_KEY k) l) \<and>
      i18n_t (BUCKET_KEY k) l \<noteq> None) [Unclassified, NonPnl, Unallocated, OtherBasis]"
proof (intro conjI)
  have some: "key \<in> set message_keys \<Longrightarrow> i18n_t key l \<noteq> None \<and> shown (i18n_t key l) = the (i18n_t key l)" for key
    using i18n_t_None_iff [of key l] by (auto simp: shown_def)
  show "list_all (\<lambda>code. lineName code fallback l = the (i18n_t (''line.'' @ code) l) \<and>
      i18n_t (''line.'' @ code) l \<noteq> None) LINE_NAMED"
    using some [OF line_key] by (simp add: list_all_iff lineName_def del: append_Cons append_Nil)
  show "list_all (\<lambda>code. categoryName code fallback l = the (i18n_t (''category.'' @ code) l) \<and>
      i18n_t (''category.'' @ code) l \<noteq> None) CATEGORY_NAMED"
    using some [OF category_key] by (simp add: list_all_iff categoryName_def del: append_Cons append_Nil)
  show "list_all (\<lambda>code. branchName code fallback l = the (i18n_t (''categoryBranch.'' @ code) l) \<and>
      i18n_t (''categoryBranch.'' @ code) l \<noteq> None) BRANCHES"
    using some [OF branch_key] by (simp add: list_all_iff branchName_def del: append_Cons append_Nil)
  have named: "bucket_named (BucketKind_text k) = Some k" for k
    by (cases k) (simp_all add: bucket_named_def BucketKind_text_def)
  show "list_all (\<lambda>k. cellName (BucketKind_text k) fallback l = the (i18n_t (BUCKET_KEY k) l) \<and>
      i18n_t (BUCKET_KEY k) l \<noteq> None) [Unclassified, NonPnl, Unallocated, OtherBasis]"
    using some [OF bucket_key] by (simp add: cellName_def named)
qed

text \<open>A code the build has never heard of keeps the wire's label as its name and gets no
  abbreviation beside it; a known line's abbreviation is the wire's label or nothing, and it is nothing
  exactly when label and name differ in case and spacing only.\<close>

theorem unknown_codes_keep_label:
  "(if code \<in> set LINE_NAMED
    then lineAbbreviation code label l =
      (if flat label = flat (lineName code label l) then [] else label)
    else lineName code label l = label \<and> lineAbbreviation code label l = []) \<and>
   (code \<in> set CATEGORY_NAMED \<or> categoryName code label l = label) \<and>
   (code \<in> set BRANCHES \<or> branchName code label l = label)"
  by (simp add: lineName_def lineAbbreviation_def same_name_def categoryName_def branchName_def)

end
