(* ===== verification/Period.thy ===== *)
theory Period
  imports Imports_Data
begin

section \<open>Months: ui/period.ts and the picker of app/PeriodPicker.tsx\<close>

text \<open>
  \<open>src/web/src/ui/period.ts\<close>: the year-to-date default, parsing of \<open>YYYY-MM\<close> and the three ways a
  range or a month is written; and the two conversions of \<open>src/web/src/app/PeriodPicker.tsx\<close> between
  that text and a local \<open>Date\<close>. A \<open>Date\<close> that is the first of a month is its year and its month
  counted from zero. The month names of \<open>Intl.DateTimeFormat\<close> and the one-decimal percent format of
  \<open>Intl.NumberFormat\<close> are data of the platform: the record \<open>intl\<close>, an argument of the formatters.
\<close>

definition EN_DASH :: string where
  "EN_DASH = [CHR 0xE2, CHR 0x80, CHR 0x93]"

subsection \<open>The shape of a period\<close>

definition is_digit_from :: "char \<Rightarrow> char \<Rightarrow> char \<Rightarrow> bool" where
  "is_digit_from a b c \<longleftrightarrow> (of_char a :: nat) \<le> of_char c \<and> (of_char c :: nat) \<le> of_char b"

text \<open>\<open>/^(\d{4})-(0[1-9]|1[0-2])$/\<close>.\<close>

definition PERIOD_test :: "string \<Rightarrow> bool" where
  "PERIOD_test s =
     (case s of
        [a, b, c, d, e, f, g] \<Rightarrow>
          list_all is_digit [a, b, c, d] \<and> e = CHR ''-'' \<and>
          ((f = CHR ''0'' \<and> is_digit_from CHR ''1'' CHR ''9'' g) \<or>
           (f = CHR ''1'' \<and> is_digit_from CHR ''0'' CHR ''2'' g))
      | _ \<Rightarrow> False)"

text \<open>\<open>Number(text)\<close> of a digit string.\<close>

definition number :: "string \<Rightarrow> nat" where
  "number s = (case digits_acc 10 0 s of Some n \<Rightarrow> n | None \<Rightarrow> 0)"

text \<open>\<open>Date.UTC(y, m, 1)\<close> and \<open>new Date(y, m, 1)\<close> take a year below 100 as one of the 1900s.\<close>

definition date_year :: "nat \<Rightarrow> nat" where
  "date_year y = (if y \<le> 99 then 1900 + y else y)"

definition parse_period :: "string \<Rightarrow> (nat \<times> nat) option" where
  "parse_period s =
     (if PERIOD_test s then Some (date_year (number (take 4 s)), number (drop 5 s) - 1) else None)"

subsection \<open>period.ts\<close>

definition period_text :: "int \<Rightarrow> int \<Rightarrow> string" where
  "period_text year month = show_int year @ ''-'' @ js_padStart (show_int month) 2 CHR ''0''"

text \<open>\<open>defaultRange(now)\<close>, \<open>now\<close> in milliseconds since the epoch.\<close>

definition defaultRange :: "int \<Rightarrow> string \<times> string" where
  "defaultRange now =
     (let (year, m, _) = civil_from_days (now div 86400000);
          month = js_padStart (show_int m) 2 CHR ''0''
      in (show_int year @ ''-01'', show_int year @ ''-'' @ month))"

record intl =
  month_short :: "Locale \<Rightarrow> nat \<times> nat \<Rightarrow> string"
  month_year :: "Locale \<Rightarrow> nat \<times> nat \<Rightarrow> string"
  month_year_long :: "Locale \<Rightarrow> nat \<times> nat \<Rightarrow> string"
  percent_one :: "Locale \<Rightarrow> rat \<Rightarrow> string"

definition formatPeriodRange :: "intl \<Rightarrow> string \<Rightarrow> string \<Rightarrow> Locale \<Rightarrow> string" where
  "formatPeriodRange N fromP toP l =
     (case (parse_period fromP, parse_period toP) of
        (Some a, Some b) \<Rightarrow>
          if fst a = fst b then month_short N l a @ '' '' @ EN_DASH @ '' '' @ month_year N l b
          else month_year N l a @ '' '' @ EN_DASH @ '' '' @ month_year N l b
      | _ \<Rightarrow> fromP @ '' '' @ EN_DASH @ '' '' @ toP)"

definition formatPeriodShort :: "intl \<Rightarrow> string \<Rightarrow> Locale \<Rightarrow> string" where
  "formatPeriodShort N period l =
     (case parse_period period of None \<Rightarrow> period | Some d \<Rightarrow> month_short N l d)"

definition formatPeriodLong :: "intl \<Rightarrow> string \<Rightarrow> Locale \<Rightarrow> string" where
  "formatPeriodLong N period l =
     (case parse_period period of None \<Rightarrow> period | Some d \<Rightarrow> month_year_long N l d)"

subsection \<open>PeriodPicker.tsx\<close>

text \<open>\<open>None\<close> is an invalid date: a part that is missing or not decimal digits. A month outside 1 to 12
  carries into the year.\<close>

definition toLocalMonth :: "string \<Rightarrow> (nat \<times> nat) option" where
  "toLocalMonth month =
     (case map (radix_digits 10) (js_split CHR ''-'' month) of
        Some y # Some m # _ \<Rightarrow>
          let months = 12 * int (date_year y) + int m - 1 in Some (nat (months div 12), nat (months mod 12))
      | _ \<Rightarrow> None)"

definition fromLocalMonth :: "nat \<times> nat \<Rightarrow> string" where
  "fromLocalMonth d = show_nat (fst d) @ ''-'' @ js_padStart (show_nat (snd d + 1)) 2 CHR ''0''"

text \<open>The two fields of the picker: each changes its end of the range and keeps the other; clearing a
  field (no date) changes nothing.\<close>

datatype month_field = FromField | ToField

definition pick_month :: "month_field \<Rightarrow> (nat \<times> nat) option \<Rightarrow> string \<times> string \<Rightarrow> string \<times> string" where
  "pick_month f date r =
     (case date of None \<Rightarrow> r
      | Some d \<Rightarrow> (case f of FromField \<Rightarrow> (fromLocalMonth d, snd r) | ToField \<Rightarrow> (fst r, fromLocalMonth d)))"

subsection \<open>Properties\<close>

lemma digit_char_01: "digit_char 0 = CHR ''0''" "digit_char 1 = CHR ''1''"
  by code_simp+

lemma period_shape:
  assumes "PERIOD_test p"
  obtains a b c d f g where "p = map digit_char [a, b, c, d] @ ''-'' @ map digit_char [f, g]"
    and "a < 10" "b < 10" "c < 10" "d < 10" "f < 10" "g < 10"
    and "1 \<le> 10 * f + g" "10 * f + g \<le> 12"
proof -
  from assms obtain a b c d f g where p: "p = [a, b, c, d, CHR ''-'', f, g]"
    and ds: "is_digit a" "is_digit b" "is_digit c" "is_digit d"
    and m: "(f = CHR ''0'' \<and> is_digit_from CHR ''1'' CHR ''9'' g) \<or>
           (f = CHR ''1'' \<and> is_digit_from CHR ''0'' CHR ''2'' g)"
    by (auto simp: PERIOD_test_def split: list.splits)
  have dig: "\<exists>k. k < 10 \<and> x = digit_char k" if "is_digit x" for x
    using that by (intro exI [of _ "of_char x - 48"]) (auto simp: is_digit_def digit_char_def)
  have "is_digit g" using m by (auto simp: is_digit_from_def is_digit_def)
  then obtain k where k: "k < 10" "g = digit_char k" using dig by blast
  have code: "(of_char g :: nat) = 48 + k" using k by (simp add: digit_char_code)
  from m consider "f = digit_char 0" "1 \<le> k" | "f = digit_char 1" "k \<le> 2"
    using code digit_char_01 by (auto simp: is_digit_from_def)
  then obtain h where "h < 10" "f = digit_char h" "1 \<le> 10 * h + k" "10 * h + k \<le> 12"
    using k(1) by (cases; force)
  moreover obtain a' b' c' d' where "a' < 10" "a = digit_char a'" "b' < 10" "b = digit_char b'"
    "c' < 10" "c = digit_char c'" "d' < 10" "d = digit_char d'"
    using dig [OF ds(1)] dig [OF ds(2)] dig [OF ds(3)] dig [OF ds(4)] by blast
  ultimately show ?thesis
    using p k by (intro that [of a' b' c' d' h k]) simp_all
qed

lemma digit_char_eq_dash [simp]: "d < 10 \<Longrightarrow> digit_char d \<noteq> CHR ''-''"
  by (auto dest: is_digit_digit_char simp: is_digit_def)

lemma show_nat_small: "n < 10 \<Longrightarrow> show_nat n = [digit_char n]"
  by (subst show_nat.simps) simp

lemma show_nat_snoc: "0 < n \<Longrightarrow> d < 10 \<Longrightarrow> show_nat (10 * n + d) = show_nat n @ [digit_char d]"
  by (subst show_nat.simps) simp

lemma show_year:
  assumes "0 < a" "a < 10" "b < 10" "c < 10" "d < 10"
  shows "show_nat (10 * (10 * (10 * a + b) + c) + d) = map digit_char [a, b, c, d]"
proof -
  have "show_nat (10 * (10 * (10 * a + b) + c) + d) = show_nat (10 * (10 * a + b) + c) @ [digit_char d]"
    using assms by (intro show_nat_snoc) simp_all
  also have "show_nat (10 * (10 * a + b) + c) = show_nat (10 * a + b) @ [digit_char c]"
    using assms by (intro show_nat_snoc) simp_all
  also have "show_nat (10 * a + b) = show_nat a @ [digit_char b]"
    using assms by (intro show_nat_snoc) simp_all
  finally show ?thesis using assms by (simp add: show_nat_small)
qed

lemma show_month:
  assumes "f < 10" "g < 10"
  shows "js_padStart (show_nat (10 * f + g)) 2 CHR ''0'' = map digit_char [f, g]"
  using assms digit_char_01(1)
  by (cases "f = 0") (simp_all add: show_nat_snoc show_nat_small js_padStart_def numeral_2_eq_2)

lemma parse_shape:
  assumes "p = map digit_char [a, b, c, d] @ ''-'' @ map digit_char [f, g]"
    and "a < 10" "b < 10" "c < 10" "d < 10" "f < 10" "g < 10"
  shows "js_split CHR ''-'' p = [map digit_char [a, b, c, d], map digit_char [f, g]]"
    and "radix_digits 10 (map digit_char [a, b, c, d]) = Some (10 * (10 * (10 * a + b) + c) + d)"
    and "radix_digits 10 (map digit_char [f, g]) = Some (10 * f + g)"
  using assms by (simp_all add: radix_digits_def)

text \<open>The month picker and the address agree: a period of the address with a four-digit year from
  1000 on, put into the picker as a local date and read back, is the same text, and a month picked in
  one field never changes the other end of the range.\<close>

theorem picker_roundtrip:
  "(if PERIOD_test p \<and> hd p \<noteq> CHR ''0'' then map_option fromLocalMonth (toLocalMonth p) = Some p else True) \<and>
   snd (pick_month FromField date r) = snd r \<and> fst (pick_month ToField date r) = fst r"
proof -
  have "map_option fromLocalMonth (toLocalMonth p) = Some p" if "PERIOD_test p" "hd p \<noteq> CHR ''0''"
  proof -
    from that(1) obtain a b c d f g where
      p: "p = map digit_char [a, b, c, d] @ ''-'' @ map digit_char [f, g]"
      and ds: "a < 10" "b < 10" "c < 10" "d < 10" "f < 10" "g < 10"
      and m: "1 \<le> 10 * f + g" "10 * f + g \<le> 12"
      by (rule period_shape)
    note parts = parse_shape [OF p ds]
    have a: "0 < a" using that(2) p digit_char_01 by (cases a) auto
    let ?y = "10 * (10 * (10 * a + b) + c) + d" and ?m = "10 * f + g"
    have y: "date_year ?y = ?y" using a by (simp add: date_year_def)
    have months: "12 * int ?y + int ?m - 1 = 12 * int ?y + int (?m - 1)" "int (?m - 1) < 12"
      using m by linarith+
    have pieces: "map (radix_digits 10) (js_split CHR ''-'' p) = [Some ?y, Some ?m]"
      unfolding parts(1) list.map(2) [of "radix_digits 10"] list.map(1) [of "radix_digits 10"] parts(2,3) ..
    have carry: "nat ((12 * int y + int k) div 12) = y" "nat ((12 * int y + int k) mod 12) = k"
      if "int k < 12" for y k
      using that by (simp_all add: mod_add_eq [symmetric])
    from carry [OF months(2), of ?y] have "toLocalMonth p = Some (?y, ?m - 1)"
      unfolding toLocalMonth_def pieces list.case option.case Let_def y months(1) by (simp only:)
    moreover have "?m - 1 + 1 = ?m" using m by simp
    ultimately show ?thesis
      using a ds m show_year [of a b c d] show_month [of f g] p
      unfolding fromLocalMonth_def by (simp del: Suc_pred')
  qed
  then show ?thesis by (simp add: pick_month_def split: option.split)
qed

text \<open>A month is written through the platform's names exactly when its text is a period, otherwise
  the text itself is shown; and a range prints its year once when and only when both ends are in one
  year.\<close>

theorem period_texts:
  "formatPeriodShort N p l = (if PERIOD_test p then month_short N l (the (parse_period p)) else p) \<and>
   formatPeriodLong N p l = (if PERIOD_test p then month_year_long N l (the (parse_period p)) else p) \<and>
   formatPeriodRange N p q l =
     (if PERIOD_test p \<and> PERIOD_test q
      then (if fst (the (parse_period p)) = fst (the (parse_period q)) then month_short N l (the (parse_period p))
            else month_year N l (the (parse_period p))) @ '' '' @ EN_DASH @ '' '' @ month_year N l (the (parse_period q))
      else p @ '' '' @ EN_DASH @ '' '' @ q)"
  by (simp add: formatPeriodShort_def formatPeriodLong_def formatPeriodRange_def parse_period_def)

text \<open>A year below 100 is read as one of the 1900s.\<close>

lemma early_years: "parse_period ''0050-03'' = Some (1950, 2)"
  by code_simp

end
