(* ===== verification/Preferences.thy ===== *)
theory Preferences
  imports Period
begin

section \<open>What the browser remembers: ui/preferences.ts, ui/periodPreference.ts, and the router's search\<close>

text \<open>
  \<open>src/web/src/ui/preferences.ts\<close> (theme and language), \<open>src/web/src/ui/periodPreference.ts\<close> (the month
  range) and \<open>validateSearch\<close> and the redirects of \<open>src/web/src/router.tsx\<close>. The state of a page view is
  the modules' variables, what they wrote on the document, how often they told their subscribers, and
  \<open>localStorage\<close>, which may refuse to be read or written. Storage outlives the page view, the
  variables and the document do not (\<open>reload\<close>).
\<close>

datatype ThemeChoice = System | Light | Dark

definition ThemeChoice_text :: "ThemeChoice \<Rightarrow> string" where
  "ThemeChoice_text th = (case th of System \<Rightarrow> ''system'' | Light \<Rightarrow> ''light'' | Dark \<Rightarrow> ''dark'')"

definition Locale_text :: "Locale \<Rightarrow> string" where
  "Locale_text l = (case l of En \<Rightarrow> ''en'' | Ru \<Rightarrow> ''ru'')"

record page =
  pg_theme :: ThemeChoice
  pg_locale :: Locale
  pg_range :: "string \<times> string"
  pg_document :: bool
  pg_dataTheme :: "string option"
  pg_lang :: string
  pg_prefEmits :: nat
  pg_rangeEmits :: nat
  pg_items :: "string \<Rightarrow> string option"
  pg_readable :: bool
  pg_writable :: bool

subsection \<open>Storage\<close>

definition THEME_KEY :: string where "THEME_KEY = ''veekst.theme''"
definition LOCALE_KEY :: string where "LOCALE_KEY = ''veekst.locale''"
definition FROM_KEY :: string where "FROM_KEY = ''veekst.period.from''"
definition TO_KEY :: string where "TO_KEY = ''veekst.period.to''"

definition storage_read :: "string \<Rightarrow> page \<Rightarrow> string option" where
  "storage_read key p = (if pg_readable p then pg_items p key else None)"

definition storage_write :: "string \<Rightarrow> string \<Rightarrow> page \<Rightarrow> page" where
  "storage_write key v p = (if pg_writable p then p\<lparr>pg_items := (pg_items p)(key \<mapsto> v)\<rparr> else p)"

subsection \<open>preferences.ts\<close>

definition pref_resolveLocale :: "string option \<Rightarrow> Locale" where
  "pref_resolveLocale raw =
     (case raw of None \<Rightarrow> En
      | Some r \<Rightarrow> if js_startsWith (js_toLowerCase r) ''ru'' then Ru else En)"

definition apply_preferences :: "page \<Rightarrow> page" where
  "apply_preferences p =
     (if \<not> pg_document p then p
      else p\<lparr>pg_dataTheme := (if pg_theme p = System then None else Some (ThemeChoice_text (pg_theme p))),
             pg_lang := Locale_text (pg_locale p)\<rparr>)"

definition emit_preferences :: "page \<Rightarrow> page" where
  "emit_preferences p = p\<lparr>pg_prefEmits := pg_prefEmits p + 1\<rparr>"

text \<open>\<open>navigator\<close> may be missing; its language may be undefined.\<close>

definition initPreferences :: "string option option \<Rightarrow> page \<Rightarrow> page" where
  "initPreferences navigator p =
     (let th = storage_read THEME_KEY p;
          l = storage_read LOCALE_KEY p
      in apply_preferences (p\<lparr>
           pg_theme := (if th = Some ''light'' then Light else if th = Some ''dark'' then Dark
             else if th = Some ''system'' then System else pg_theme p),
           pg_locale := (if l = Some ''en'' then En else if l = Some ''ru'' then Ru
             else case navigator of None \<Rightarrow> pg_locale p | Some lang \<Rightarrow> pref_resolveLocale lang)\<rparr>))"

definition setTheme :: "ThemeChoice \<Rightarrow> page \<Rightarrow> page" where
  "setTheme th p =
     emit_preferences (apply_preferences (storage_write THEME_KEY (ThemeChoice_text th) (p\<lparr>pg_theme := th\<rparr>)))"

definition setLocale :: "Locale \<Rightarrow> page \<Rightarrow> page" where
  "setLocale l p =
     emit_preferences (apply_preferences (storage_write LOCALE_KEY (Locale_text l) (p\<lparr>pg_locale := l\<rparr>)))"

text \<open>\<open>prefers\<close> is what \<open>matchMedia\<close> answers, \<open>None\<close> where there is none.\<close>

definition resolvedTheme :: "bool option \<Rightarrow> ThemeChoice \<Rightarrow> ThemeChoice" where
  "resolvedTheme prefers choice =
     (if choice \<noteq> System then choice
      else case prefers of None \<Rightarrow> Light | Some dark \<Rightarrow> if dark then Dark else Light)"

subsection \<open>periodPreference.ts\<close>

definition initPeriodRange :: "int \<Rightarrow> page \<Rightarrow> page" where
  "initPeriodRange now p =
     (case (storage_read FROM_KEY p, storage_read TO_KEY p) of
        (Some a, Some b) \<Rightarrow>
          if PERIOD_test a \<and> PERIOD_test b then p\<lparr>pg_range := (a, b)\<rparr> else p\<lparr>pg_range := defaultRange now\<rparr>
      | _ \<Rightarrow> p\<lparr>pg_range := defaultRange now\<rparr>)"

definition getPeriodRange :: "page \<Rightarrow> string \<times> string" where
  "getPeriodRange p = pg_range p"

definition setPeriodRange :: "string \<times> string \<Rightarrow> page \<Rightarrow> page" where
  "setPeriodRange r p =
     (let p = p\<lparr>pg_range := r\<rparr>;
          p = storage_write FROM_KEY (fst r) p;
          p = storage_write TO_KEY (snd r) p
      in p\<lparr>pg_rangeEmits := pg_rangeEmits p + 1\<rparr>)"

text \<open>A new page view over the same storage: the modules' initial values and a fresh document, then what
  \<open>main.tsx\<close> runs before the first render.\<close>

definition reload :: "int \<Rightarrow> string option option \<Rightarrow> page \<Rightarrow> page" where
  "reload now navigator p =
     initPeriodRange now (initPreferences navigator
       (p\<lparr>pg_theme := System, pg_locale := En, pg_range := defaultRange now, pg_dataTheme := None,
          pg_lang := ''en'', pg_prefEmits := 0, pg_rangeEmits := 0\<rparr>))"

subsection \<open>The router's search\<close>

datatype js_value = JsString string | JsOther

datatype ReportView = TableView | ChartsView

definition VIEWS :: "(string \<times> ReportView) list" where
  "VIEWS = [(''table'', TableView), (''charts'', ChartsView)]"

definition pick_period :: "js_value option \<Rightarrow> string \<Rightarrow> string" where
  "pick_period v d = (case v of Some (JsString s) \<Rightarrow> if PERIOD_test s then s else d | _ \<Rightarrow> d)"

record search =
  se_from :: string
  se_to :: string
  se_view :: ReportView

definition validateSearch :: "page \<Rightarrow> (string \<Rightarrow> js_value option) \<Rightarrow> search" where
  "validateSearch p q =
     (let fallback = getPeriodRange p;
          view = (case q ''view'' of
              Some (JsString s) \<Rightarrow> (case map_of VIEWS s of Some v \<Rightarrow> v | None \<Rightarrow> TableView)
            | _ \<Rightarrow> TableView)
      in \<lparr>se_from = pick_period (q ''from'') (fst fallback), se_to = pick_period (q ''to'') (snd fallback),
          se_view = view\<rparr>)"

datatype redirect = ToHome | ToPnl search

definition appIndex_beforeLoad :: redirect where
  "appIndex_beforeLoad = ToHome"

definition reports_beforeLoad :: "page \<Rightarrow> redirect" where
  "reports_beforeLoad p =
     ToPnl \<lparr>se_from = fst (getPeriodRange p), se_to = snd (getPeriodRange p), se_view = TableView\<rparr>"

subsection \<open>A choice that is remembered\<close>

text \<open>
  What the rest of the client relies on: a choice applies at once, whatever the storage does, and
  opening the application again over a storage that works brings it back.
\<close>

definition storage_works :: "page \<Rightarrow> bool" where
  "storage_works p \<longleftrightarrow> pg_readable p \<and> pg_writable p"

locale remembered =
  fixes get :: "page \<Rightarrow> 'v" and set_choice :: "'v \<Rightarrow> page \<Rightarrow> page" and valid :: "'v \<Rightarrow> bool"
  assumes applies: "get (set_choice v p) = v"
    and returns: "storage_works p \<Longrightarrow> valid v \<Longrightarrow> get (reload now navigator (set_choice v p)) = v"
    and keeps_storage: "storage_works (set_choice v p) = storage_works p"
begin

lemma works_after: "storage_works (fold set_choice vs p) = storage_works p"
  by (induction vs arbitrary: p) (simp_all add: keeps_storage)

lemma last_choice_applies: "vs \<noteq> [] \<Longrightarrow> get (fold set_choice vs p) = last vs"
  by (cases vs rule: rev_cases) (simp_all add: applies)

lemma last_choice_returns:
  assumes "storage_works p" "vs \<noteq> []" "valid (last vs)"
  shows "get (reload now navigator (fold set_choice vs p)) = last vs"
  using assms by (cases vs rule: rev_cases) (simp_all add: returns works_after)

end

lemma keys_distinct [simp]:
  "THEME_KEY \<noteq> LOCALE_KEY" "THEME_KEY \<noteq> FROM_KEY" "THEME_KEY \<noteq> TO_KEY" "LOCALE_KEY \<noteq> FROM_KEY"
  "LOCALE_KEY \<noteq> TO_KEY" "FROM_KEY \<noteq> TO_KEY" "LOCALE_KEY \<noteq> THEME_KEY" "FROM_KEY \<noteq> THEME_KEY"
  "TO_KEY \<noteq> THEME_KEY" "FROM_KEY \<noteq> LOCALE_KEY" "TO_KEY \<noteq> LOCALE_KEY" "TO_KEY \<noteq> FROM_KEY"
  by (simp_all add: THEME_KEY_def LOCALE_KEY_def FROM_KEY_def TO_KEY_def)

lemma apply_keeps [simp]:
  "pg_theme (apply_preferences p) = pg_theme p" "pg_locale (apply_preferences p) = pg_locale p"
  "pg_range (apply_preferences p) = pg_range p" "pg_items (apply_preferences p) = pg_items p"
  "pg_readable (apply_preferences p) = pg_readable p" "pg_writable (apply_preferences p) = pg_writable p"
  "pg_document (apply_preferences p) = pg_document p"
  by (simp_all add: apply_preferences_def)

lemma write_keeps [simp]:
  "pg_theme (storage_write k v p) = pg_theme p" "pg_locale (storage_write k v p) = pg_locale p"
  "pg_range (storage_write k v p) = pg_range p" "pg_readable (storage_write k v p) = pg_readable p"
  "pg_writable (storage_write k v p) = pg_writable p" "pg_document (storage_write k v p) = pg_document p"
  by (simp_all add: storage_write_def)

lemma emit_keeps [simp]:
  "pg_theme (emit_preferences p) = pg_theme p" "pg_locale (emit_preferences p) = pg_locale p"
  "pg_range (emit_preferences p) = pg_range p" "pg_items (emit_preferences p) = pg_items p"
  "pg_readable (emit_preferences p) = pg_readable p" "pg_writable (emit_preferences p) = pg_writable p"
  "pg_document (emit_preferences p) = pg_document p"
  by (simp_all add: emit_preferences_def)

lemma items_after_write [simp]:
  "pg_items (storage_write k v p) = (if pg_writable p then (pg_items p)(k \<mapsto> v) else pg_items p)"
  by (simp add: storage_write_def)

lemma init_range_keeps [simp]:
  "pg_theme (initPeriodRange now p) = pg_theme p" "pg_locale (initPeriodRange now p) = pg_locale p"
  by (auto simp: initPeriodRange_def split: option.split)

lemma init_prefs_keeps [simp]:
  "pg_items (initPreferences nv p) = pg_items p" "pg_readable (initPreferences nv p) = pg_readable p"
  "pg_writable (initPreferences nv p) = pg_writable p"
  by (simp_all add: initPreferences_def Let_def)

text \<open>The choices a new page view starts with.\<close>

lemma theme_after_reload:
  "pg_theme (reload now nv p) =
     (let th = storage_read THEME_KEY p in if th = Some ''light'' then Light else if th = Some ''dark'' then Dark
      else System)"
  by (simp add: reload_def initPreferences_def Let_def storage_read_def)

lemma locale_after_reload:
  "pg_locale (reload now nv p) =
     (let l = storage_read LOCALE_KEY p in if l = Some ''en'' then En else if l = Some ''ru'' then Ru
      else case nv of None \<Rightarrow> En | Some lang \<Rightarrow> pref_resolveLocale lang)"
  by (simp add: reload_def initPreferences_def Let_def storage_read_def split: option.split)

lemma range_after_reload:
  "getPeriodRange (reload now nv p) =
     (case (storage_read FROM_KEY p, storage_read TO_KEY p) of
        (Some a, Some b) \<Rightarrow> if PERIOD_test a \<and> PERIOD_test b then (a, b) else defaultRange now
      | _ \<Rightarrow> defaultRange now)"
  by (auto simp: reload_def initPeriodRange_def getPeriodRange_def storage_read_def split: option.split)

lemma set_keeps_works [simp]:
  "storage_works (setTheme th p) = storage_works p" "storage_works (setLocale l p) = storage_works p"
  "storage_works (setPeriodRange r p) = storage_works p"
  by (simp_all add: storage_works_def setTheme_def setLocale_def setPeriodRange_def Let_def)

lemma set_applies [simp]:
  "pg_theme (setTheme th p) = th" "pg_locale (setLocale l p) = l" "getPeriodRange (setPeriodRange r p) = r"
  by (simp_all add: setTheme_def setLocale_def setPeriodRange_def getPeriodRange_def Let_def)

lemma set_stores:
  assumes "storage_works p"
  shows "storage_read THEME_KEY (setTheme th p) = Some (ThemeChoice_text th)"
    and "storage_read LOCALE_KEY (setLocale l p) = Some (Locale_text l)"
    and "storage_read FROM_KEY (setPeriodRange r p) = Some (fst r)"
    and "storage_read TO_KEY (setPeriodRange r p) = Some (snd r)"
  using assms
  by (simp_all add: storage_works_def storage_read_def setTheme_def setLocale_def setPeriodRange_def Let_def)

interpretation theme_choice: remembered pg_theme setTheme "\<lambda>_. True"
proof
  show "storage_works p \<Longrightarrow> pg_theme (reload now nv (setTheme v p)) = v" for p now nv v
    by (cases v) (simp_all add: theme_after_reload set_stores ThemeChoice_text_def)
qed simp_all

interpretation locale_choice: remembered pg_locale setLocale "\<lambda>_. True"
proof
  show "storage_works p \<Longrightarrow> pg_locale (reload now nv (setLocale v p)) = v" for p now nv v
    by (cases v) (simp_all add: locale_after_reload set_stores Locale_text_def)
qed simp_all

interpretation range_choice: remembered getPeriodRange setPeriodRange "\<lambda>(a, b). PERIOD_test a \<and> PERIOD_test b"
proof
  show "storage_works p \<Longrightarrow> (case v of (a, b) \<Rightarrow> PERIOD_test a \<and> PERIOD_test b) \<Longrightarrow>
      getPeriodRange (reload now nv (setPeriodRange v p)) = v" for p now nv v
    by (cases v) (simp add: range_after_reload set_stores)
qed simp_all

subsection \<open>Properties\<close>

text \<open>A choice of theme, language or months applies at once, also where storage refuses, and the last
  one made is there again when the application is opened over a storage that works: after any series of
  choices, a new page view starts with the last theme, the last language and, if both its ends are
  periods, the last range.\<close>

theorem choices_are_remembered:
  assumes "ths \<noteq> []" and "ls \<noteq> []" and "rs \<noteq> []"
    and "PERIOD_test (fst (last rs))" and "PERIOD_test (snd (last rs))"
  shows "pg_theme (fold setTheme ths p) = last ths \<and> pg_locale (fold setLocale ls p) = last ls \<and>
    getPeriodRange (fold setPeriodRange rs p) = last rs \<and>
    (if storage_works p then
      pg_theme (reload now nv (fold setTheme ths p)) = last ths \<and>
      pg_locale (reload now nv (fold setLocale ls p)) = last ls \<and>
      getPeriodRange (reload now nv (fold setPeriodRange rs p)) = last rs
     else True)"
  using assms theme_choice.last_choice_applies locale_choice.last_choice_applies
    range_choice.last_choice_applies theme_choice.last_choice_returns locale_choice.last_choice_returns
    range_choice.last_choice_returns [of p rs]
  by (auto simp: case_prod_unfold)

definition demo_page :: page where
  "demo_page = \<lparr>pg_theme = System, pg_locale = En, pg_range = (''2026-01'', ''2026-09''), pg_document = True,
     pg_dataTheme = None, pg_lang = ''en'', pg_prefEmits = 0, pg_rangeEmits = 0, pg_items = (\<lambda>_. None),
     pg_readable = True, pg_writable = True\<rparr>"

theorem choices_are_remembered_witness:
  "pg_theme (reload 0 None (fold setTheme [Light, Dark] demo_page)) = Dark \<and>
   getPeriodRange (reload 0 None (fold setPeriodRange [(''2025-01'', ''2025-12'')] demo_page)) =
     (''2025-01'', ''2025-12'')"
proof -
  have "storage_works demo_page" by (simp add: storage_works_def demo_page_def)
  moreover have "PERIOD_test ''2025-01''" "PERIOD_test ''2025-12''" by code_simp+
  ultimately show ?thesis
    using choices_are_remembered [of "[Light, Dark]" "[En]" "[(''2025-01'', ''2025-12'')]" demo_page 0 None]
    by simp
qed

text \<open>What the stylesheet and a screen reader see is what was chosen: no \<open>data-theme\<close> for the system's
  theme, the chosen one otherwise, and the language on the document.\<close>

definition document_agrees :: "page \<Rightarrow> bool" where
  "document_agrees p \<longleftrightarrow>
     pg_dataTheme p = (case pg_theme p of System \<Rightarrow> None | Light \<Rightarrow> Some ''light'' | Dark \<Rightarrow> Some ''dark'') \<and>
     pg_lang p = (case pg_locale p of En \<Rightarrow> ''en'' | Ru \<Rightarrow> ''ru'')"

lemma document_after_apply: "pg_document p \<Longrightarrow> document_agrees (apply_preferences p)"
  by (cases "pg_theme p"; cases "pg_locale p")
    (simp_all add: document_agrees_def apply_preferences_def ThemeChoice_text_def Locale_text_def)

lemma document_emit [simp]: "document_agrees (emit_preferences p) = document_agrees p"
  by (simp add: document_agrees_def emit_preferences_def)

text \<open>In a browser the document always shows the choices: after the first read of the storage and after
  every choice of theme or language, whether or not it could be stored, the \<open>data-theme\<close> attribute is
  absent for the system theme and names the chosen one otherwise, and \<open>lang\<close> is the language.\<close>

theorem document_follows_choices:
  "if pg_document p
   then document_agrees (initPreferences nv p) \<and> document_agrees (setTheme th p) \<and> document_agrees (setLocale l p)
   else True"
proof (cases "pg_document p")
  case True
  then show ?thesis
    by (simp add: initPreferences_def setTheme_def setLocale_def Let_def document_after_apply)
qed simp

text \<open>The report always opens on a valid view and on the months of the address where they are months:
  each end of the range is the address's when that is a period and the remembered one otherwise, anything
  but \<open>charts\<close> opens the table, and the redirect from the reports carries the remembered range.\<close>

theorem validateSearch_exact:
  "se_from (validateSearch p q) =
     (case q ''from'' of Some (JsString s) \<Rightarrow> if PERIOD_test s then s else fst (pg_range p)
      | _ \<Rightarrow> fst (pg_range p)) \<and>
   se_to (validateSearch p q) =
     (case q ''to'' of Some (JsString s) \<Rightarrow> if PERIOD_test s then s else snd (pg_range p)
      | _ \<Rightarrow> snd (pg_range p)) \<and>
   se_view (validateSearch p q) = (if q ''view'' = Some (JsString ''charts'') then ChartsView else TableView) \<and>
   reports_beforeLoad p = ToPnl (validateSearch p (\<lambda>_. None))"
  by (auto simp: validateSearch_def reports_beforeLoad_def pick_period_def getPeriodRange_def VIEWS_def Let_def
      split: option.split js_value.split)

text \<open>Half an address: one end is the link's, the other the remembered one, and the range may be upside
  down.\<close>

lemma truncated_link_mixes_ranges:
  "let s = validateSearch demo_page (\<lambda>k. if k = ''from'' then Some (JsString ''2027-01'') else None)
   in se_from s = ''2027-01'' \<and> se_to s = ''2026-09''"
  by code_simp

end
