(* ===== verification/Html.thy ===== *)
theory Html
  imports Category_Names Preferences
begin

section \<open>What a component renders\<close>

text \<open>
  A component of the application is a function from its properties and the state of its queries to
  an element tree: text, elements with the attributes that carry meaning, and the router's links with
  their target, path parameters, search and attributes. Class names and inline styles are left out. A render may
  throw (\<open>BigInt\<close> of a malformed amount), so it is an \<open>html js\<close>.

  The theory also holds \<open>src/web/src/ui/feedback.tsx\<close> and the chips of \<open>src/web/src/ui/StateChip.tsx\<close>.
\<close>

datatype html =
    Txt string
  | El string "(string \<times> string) list" "html list"
  | LinkTo string "(string \<times> string) list" "(string \<times> string) list" "(string \<times> string) list" "html list"

fun links :: "html \<Rightarrow> (string \<times> (string \<times> string) list \<times> (string \<times> string) list) list" where
  "links (Txt s) = []"
| "links (El t as cs) = concat (map links cs)"
| "links (LinkTo to ps se as cs) = (to, ps, se) # concat (map links cs)"

fun texts :: "html \<Rightarrow> string list" where
  "texts (Txt s) = [s]"
| "texts (El t as cs) = concat (map texts cs)"
| "texts (LinkTo to ps se as cs) = concat (map texts cs)"

text \<open>The elements with a tag.\<close>

fun tagged :: "string \<Rightarrow> html \<Rightarrow> html list" where
  "tagged tag (Txt s) = []"
| "tagged tag (El t as cs) = (if t = tag then [El t as cs] else []) @ concat (map (tagged tag) cs)"
| "tagged tag (LinkTo to ps se as cs) = concat (map (tagged tag) cs)"

definition kids :: "html \<Rightarrow> html list" where
  "kids h = (case h of Txt _ \<Rightarrow> [] | El _ _ cs \<Rightarrow> cs | LinkTo _ _ _ _ cs \<Rightarrow> cs)"

text \<open>\<open>{t(key, locale)}\<close>: an undefined message renders nothing.\<close>

definition msg :: "string \<Rightarrow> Locale \<Rightarrow> html" where
  "msg key l = Txt (shown (i18n_t key l))"

text \<open>The state of a query.\<close>

datatype 'a query = Pending | Failed js_error | Loaded 'a

subsection \<open>feedback.tsx\<close>

definition EmptyState :: "string \<Rightarrow> string \<Rightarrow> html option \<Rightarrow> html" where
  "EmptyState title blurb action =
     El ''div'' [] ([El ''p'' [] [Txt title], El ''p'' [] [Txt blurb]] @
       (case action of Some a \<Rightarrow> [El ''div'' [] [a]] | None \<Rightarrow> []))"

definition Skeleton :: "nat \<Rightarrow> html" where
  "Skeleton rows = El ''div'' [(''aria-hidden'', ''true'')] (map (\<lambda>i. El ''div'' [] []) [0..<rows])"

definition Loading :: "string \<Rightarrow> nat \<Rightarrow> html" where
  "Loading label rows =
     El ''div'' [(''role'', ''status''), (''aria-live'', ''polite'')] [El ''span'' [] [Txt label], Skeleton rows]"

definition ErrorState :: "string \<Rightarrow> string option \<Rightarrow> html" where
  "ErrorState message retryLabel =
     El ''div'' [(''role'', ''alert'')] ([El ''p'' [] [Txt message]] @
       (case retryLabel of
          Some r \<Rightarrow> if r \<noteq> [] then [El ''button'' [] [Txt r]] else []
        | None \<Rightarrow> []))"

subsection \<open>StateChip.tsx\<close>

datatype Tone = ToneOk | ToneWarn | ToneDanger | ToneNeutral
datatype Shape = ShapeCheck | ShapeAlert | ShapeCross | ShapeDot | ShapeClock | ShapeHalf

fun BATCH_chip :: "BatchState \<Rightarrow> Tone \<times> Shape" where
  "BATCH_chip BatchState.Pending = (ToneNeutral, ShapeClock)"
| "BATCH_chip Parsing = (ToneNeutral, ShapeDot)"
| "BATCH_chip Rejected = (ToneDanger, ShapeCross)"
| "BATCH_chip Imported = (ToneOk, ShapeCheck)"

datatype ReportState = Ready | Partial | BlockedReport
datatype RowState = Classified | NeedsReview | BlockedRow

fun REPORT_chip :: "ReportState \<Rightarrow> Tone \<times> Shape" where
  "REPORT_chip Ready = (ToneOk, ShapeCheck)"
| "REPORT_chip Partial = (ToneWarn, ShapeHalf)"
| "REPORT_chip BlockedReport = (ToneDanger, ShapeAlert)"

fun ROW_chip :: "RowState \<Rightarrow> Tone \<times> Shape" where
  "ROW_chip Classified = (ToneNeutral, ShapeCheck)"
| "ROW_chip NeedsReview = (ToneWarn, ShapeAlert)"
| "ROW_chip BlockedRow = (ToneDanger, ShapeAlert)"

definition PATHS :: "Shape \<Rightarrow> string" where
  "PATHS s = (case s of
      ShapeCheck \<Rightarrow> ''M3 8.5 6.5 12 13 4'' | ShapeAlert \<Rightarrow> ''M8 3.5v5.5M8 12v.01''
    | ShapeCross \<Rightarrow> ''M4.5 4.5l7 7M11.5 4.5l-7 7'' | ShapeDot \<Rightarrow> ''M8 8v.01''
    | ShapeClock \<Rightarrow> ''M8 4.5V8l2.5 1.5'' | ShapeHalf \<Rightarrow> ''M8 2.5a5.5 5.5 0 0 1 0 11z'')"

definition Icon :: "Shape \<Rightarrow> html" where
  "Icon s = El ''svg'' [(''fill'', if s = ShapeHalf then ''currentColor'' else ''none''), (''aria-hidden'', ''true'')]
     ((if s = ShapeClock \<or> s = ShapeDot then [El ''circle'' [] []] else []) @ [El ''path'' [(''d'', PATHS s)] []])"

definition Tone_text :: "Tone \<Rightarrow> string" where
  "Tone_text x = (case x of ToneOk \<Rightarrow> ''text-ok'' | ToneWarn \<Rightarrow> ''text-warn'' | ToneDanger \<Rightarrow> ''text-danger''
    | ToneNeutral \<Rightarrow> ''text-text-muted'')"

definition Chip :: "Tone \<Rightarrow> Shape \<Rightarrow> string \<Rightarrow> html" where
  "Chip tone shape label = El ''span'' [(''tone'', Tone_text tone)] [Icon shape, Txt label]"

definition BatchState_text :: "BatchState \<Rightarrow> string" where
  "BatchState_text s = (case s of BatchState.Pending \<Rightarrow> ''pending'' | Parsing \<Rightarrow> ''parsing'' | Rejected \<Rightarrow> ''rejected''
    | Imported \<Rightarrow> ''imported'')"

definition BatchStateChip :: "BatchState \<Rightarrow> Locale \<Rightarrow> html" where
  "BatchStateChip s l =
     (case BATCH_chip s of (tone, shape) \<Rightarrow> Chip tone shape (shown (i18n_t (''state.batch.'' @ BatchState_text s) l)))"

definition ReportState_text :: "ReportState \<Rightarrow> string" where
  "ReportState_text s = (case s of Ready \<Rightarrow> ''ready'' | Partial \<Rightarrow> ''partial'' | BlockedReport \<Rightarrow> ''blocked'')"

definition RowState_text :: "RowState \<Rightarrow> string" where
  "RowState_text s = (case s of Classified \<Rightarrow> ''classified'' | NeedsReview \<Rightarrow> ''needsReview'' | BlockedRow \<Rightarrow> ''blocked'')"

definition ReportStateChip :: "ReportState \<Rightarrow> Locale \<Rightarrow> html" where
  "ReportStateChip s l =
     (case REPORT_chip s of (tone, shape) \<Rightarrow> Chip tone shape (shown (i18n_t (''state.report.'' @ ReportState_text s) l)))"

definition RowStateChip :: "RowState \<Rightarrow> Locale \<Rightarrow> html" where
  "RowStateChip s l =
     (case ROW_chip s of (tone, shape) \<Rightarrow> Chip tone shape (shown (i18n_t (''state.row.'' @ RowState_text s) l)))"

text \<open>Within a family the mark and the hue alone tell the states apart.\<close>

lemma chips_distinct: "inj BATCH_chip" "inj REPORT_chip" "inj ROW_chip"
proof -
  show "inj BATCH_chip"
  proof (rule injI)
    show "BATCH_chip x = BATCH_chip y \<Longrightarrow> x = y" for x y by (cases x; cases y) simp_all
  qed
  show "inj REPORT_chip"
  proof (rule injI)
    show "REPORT_chip x = REPORT_chip y \<Longrightarrow> x = y" for x y by (cases x; cases y) simp_all
  qed
  show "inj ROW_chip"
  proof (rule injI)
    show "ROW_chip x = ROW_chip y \<Longrightarrow> x = y" for x y by (cases x; cases y) simp_all
  qed
qed

subsection \<open>useVirtualRows.ts\<close>

text \<open>What the windowing library is told of its viewport: a side that measures zero is not laid out yet and
  is replaced by the fallback.\<close>

definition FALLBACK :: "int \<times> int" where
  "FALLBACK = (900, 480)"

definition virtual_rect :: "int \<times> int \<Rightarrow> int \<times> int" where
  "virtual_rect rect =
     (if fst rect \<noteq> 0 then fst rect else fst FALLBACK, if snd rect \<noteq> 0 then snd rect else snd FALLBACK)"

lemma virtual_rect_not_empty: "fst (virtual_rect rect) \<noteq> 0 \<and> snd (virtual_rect rect) \<noteq> 0"
  by (simp add: virtual_rect_def FALLBACK_def)

end
