(* ===== verification/Report_View.thy ===== *)
theory Report_View
  imports Html
begin

section \<open>The report on screen: PnlTable, StatTiles, Reconciliation, ReportScreen\<close>

text \<open>
  \<open>src/web/src/app/PnlTable.tsx\<close>, \<open>StatTiles.tsx\<close>, \<open>Reconciliation.tsx\<close>, \<open>ReportScreen.tsx\<close> and
  \<open>DrilldownPanel.tsx\<close>: what is rendered for a report in every state of its query. The six charts of
  the charts tab are opaque elements here.
\<close>

subsection \<open>PnlTable.tsx\<close>

definition NET_INCOME :: string where "NET_INCOME = ''95''"

definition fmtPercent :: "intl \<Rightarrow> rat option \<Rightarrow> Locale \<Rightarrow> string" where
  "fmtPercent N ratio l = (case ratio of None \<Rightarrow> [] | Some r \<Rightarrow> percent_one N l r)"

text \<open>\<open>report.periods[i]!\<close> past the end is \<open>undefined\<close>, which a path parameter spells out.\<close>

definition period_at :: "Report \<Rightarrow> nat \<Rightarrow> string" where
  "period_at r i = (case js_at (rp_periods r) i of Some p \<Rightarrow> p | None \<Rightarrow> ''undefined'')"

definition CELL_ROUTE :: string where
  "CELL_ROUTE = ''/app/reports/pnl/cell/$categoryId/$period''"

definition Figure :: "Money \<Rightarrow> string \<Rightarrow> string \<Rightarrow> Locale \<Rightarrow> string \<Rightarrow> string \<Rightarrow> bool \<Rightarrow> html js" where
  "Figure v cat period l fromP toP linked =
     ebind (fmt v l) (\<lambda>text. Inr
       (if \<not> linked then El ''td'' [] [Txt text]
        else El ''td'' [] [LinkTo CELL_ROUTE [(''categoryId'', cat), (''period'', period)]
          [(''from'', fromP), (''to'', toP), (''view'', ''table'')] [] [Txt text]]))"

definition figures :: "Report \<Rightarrow> Money list \<Rightarrow> string \<Rightarrow> Locale \<Rightarrow> string \<Rightarrow> string \<Rightarrow> bool \<Rightarrow> html list js" where
  "figures r vs cat l fromP toP linked =
     emap (\<lambda>(i, v). Figure v cat (period_at r i) l fromP toP linked) (enumerate 0 vs)"

text \<open>The three weights of a row: the bottom line, a computed line, a section.\<close>

definition row_weight :: "ReportLine \<Rightarrow> string" where
  "row_weight x = (if ln_categoryId x = NET_INCOME then ''semibold'' else if ln_computed x then ''medium'' else ''normal'')"

definition Row :: "intl \<Rightarrow> ReportLine \<Rightarrow> Report \<Rightarrow> Locale \<Rightarrow> string \<Rightarrow> string \<Rightarrow> bool \<Rightarrow> html js" where
  "Row N x r l fromP toP linked =
     (let abbreviation = lineAbbreviation (ln_categoryId x) (ln_label x) l in
      ebind (figures r (ln_values x) (ln_categoryId x) l fromP toP linked) (\<lambda>cells.
      ebind (fmt (ln_total x) l) (\<lambda>total.
      Inr (El ''tr'' [(''weight'', row_weight x)]
        ([El ''th'' [(''scope'', ''row'')] ([Txt (lineName (ln_categoryId x) (ln_label x) l)] @
            (if abbreviation \<noteq> [] then [El ''span'' [] [Txt abbreviation]] else []))] @
         cells @
         [El ''td'' [] [Txt total], El ''td'' [] [Txt (fmtPercent N (ln_percentOfRevenue x) l)]])))))"

definition BucketRow :: "ReportBucket \<Rightarrow> Report \<Rightarrow> Locale \<Rightarrow> string \<Rightarrow> string \<Rightarrow> bool \<Rightarrow> html js" where
  "BucketRow b r l fromP toP linked =
     (ebind (figures r (bk_values b) (BucketKind_text (bk_kind b)) l fromP toP linked) (\<lambda>cells.
      ebind (fmt (bk_total b) l) (\<lambda>total.
      Inr (El ''tr'' []
        ([El ''th'' [(''scope'', ''row'')] [msg (BUCKET_KEY (bk_kind b)) l]] @ cells @
         [El ''td'' [] [Txt total], El ''td'' [] []])))))"

definition PnlHead :: "intl \<Rightarrow> Report \<Rightarrow> Locale \<Rightarrow> html" where
  "PnlHead N r l =
     El ''thead'' [] [El ''tr'' []
       ([El ''th'' [(''scope'', ''col'')] [El ''span'' []
           [msg ''report.category'' l, Txt ('' '' @ [CHR 0xC2, CHR 0xB7] @ '' ''), Txt (rp_currencyCode r)]]] @
        map (\<lambda>p. El ''th'' [(''scope'', ''col'')] [Txt (formatPeriodShort N p l)]) (rp_periods r) @
        [El ''th'' [(''scope'', ''col'')] [msg ''report.total'' l],
         El ''th'' [(''scope'', ''col'')] [msg ''report.percentOfRevenue'' l]])]"

definition PnlTable :: "intl \<Rightarrow> Report \<Rightarrow> Locale \<Rightarrow> string \<Rightarrow> string \<Rightarrow> bool \<Rightarrow> html js" where
  "PnlTable N r l fromP toP linked =
     ebind (emap (\<lambda>x. Row N x r l fromP toP linked) (rp_lines r)) (\<lambda>rows.
     ebind (emap (\<lambda>b. BucketRow b r l fromP toP linked) (rp_buckets r)) (\<lambda>buckets.
     Inr (El ''div'' [] [El ''table'' []
       ([PnlHead N r l, El ''tbody'' [] rows] @
        (if rp_buckets r \<noteq> [] then [El ''tbody'' [] buckets] else []))])))"

subsection \<open>StatTiles.tsx and Reconciliation.tsx\<close>

definition Tile :: "string \<Rightarrow> Money \<Rightarrow> Locale \<Rightarrow> html js" where
  "Tile labelKey v l =
     ebind (fmt v l) (\<lambda>text. Inr (El ''div'' [] [El ''span'' [] [msg labelKey l], El ''span'' [] [Txt text]]))"

definition StatTiles :: "Report \<Rightarrow> Locale \<Rightarrow> html js" where
  "StatTiles r l =
     ebind (emap (\<lambda>(k, v). Tile k v l)
       [(''stat.revenue'', rp_revenueTotal r), (''stat.expenses'', rp_expensesTotal r),
        (''stat.net'', rp_netTotal r), (''stat.unreviewed'', rp_unreviewedAmount r)]) (\<lambda>tiles.
     Inr (El ''div'' [] tiles))"

definition ReconCell :: "string \<Rightarrow> Money \<Rightarrow> Locale \<Rightarrow> html js" where
  "ReconCell labelKey v l =
     ebind (fmt v l) (\<lambda>text. Inr (El ''div'' [] [El ''span'' [] [msg labelKey l], El ''span'' [] [Txt text]]))"

definition ReconciliationStrip :: "Reconciliation \<Rightarrow> Locale \<Rightarrow> html js" where
  "ReconciliationStrip x l =
     ebind (emap (\<lambda>(k, v). ReconCell k v l)
       [(''recon.opening'', rcn_opening x), (''recon.in'', rcn_moneyIn x), (''recon.out'', rcn_moneyOut x),
        (''recon.transfers'', rcn_transfers x), (''recon.closing'', rcn_closing x)]) (\<lambda>cells.
     Inr (El ''section'' [] [El ''h2'' [] [msg ''recon.title'' l], El ''div'' [] cells]))"

subsection \<open>ReportScreen.tsx\<close>

definition ReportView_text :: "ReportView \<Rightarrow> string" where
  "ReportView_text v = (case v of TableView \<Rightarrow> ''table'' | ChartsView \<Rightarrow> ''charts'')"

definition search_params :: "search \<Rightarrow> (string \<times> string) list" where
  "search_params s = [(''from'', se_from s), (''to'', se_to s), (''view'', ReportView_text (se_view s))]"

definition ViewTabs :: "search \<Rightarrow> Locale \<Rightarrow> html" where
  "ViewTabs s l =
     El ''nav'' [(''aria-label'', shown (i18n_t ''report.title'' l))]
       (map (\<lambda>(v, key). LinkTo ''/app/reports/pnl'' [] (search_params (s\<lparr>se_view := v\<rparr>))
          (if v = se_view s then [(''aria-current'', ''page'')] else []) [msg key l])
        [(TableView, ''report.tab.table''), (ChartsView, ''report.tab.charts'')])"

definition nothing_happened :: "Report \<Rightarrow> bool" where
  "nothing_happened r \<longleftrightarrow>
     list_all (\<lambda>x. minorUnits (ln_total x) = ''0'') (rp_lines r) \<and>
     list_all (\<lambda>b. minorUnits (bk_total b) = ''0'') (rp_buckets r)"

definition chart_names :: "string list" where
  "chart_names = [''MoneyFlowChart'', ''CashFlowChart'', ''ExpenseCategoriesChart'', ''NetResultChart'',
     ''RevenueExpenseChart'', ''CategoryTrendChart'']"

definition report_body :: "intl \<Rightarrow> Report \<Rightarrow> search \<Rightarrow> Locale \<Rightarrow> html list js" where
  "report_body N r s l =
     (if nothing_happened r
      then Inr [EmptyState (shown (i18n_t ''empty.reports.title'' l)) (shown (i18n_t ''empty.reports.detail'' l)) None]
      else ebind (StatTiles r l) (\<lambda>tiles.
        ebind (if se_view s = TableView
               then ebind (PnlTable N r l (se_from s) (se_to s) True) (\<lambda>tbl. Inr (El ''div'' [] [tbl]))
               else Inr (El ''div'' [] (map (\<lambda>c. El c [] []) chart_names))) (\<lambda>main.
        ebind (ReconciliationStrip (rp_reconciliation r) l) (\<lambda>strip.
        Inr [tiles, ViewTabs s l, main, strip, El ''Outlet'' [] []]))))"

text \<open>\<open>error_text\<close> is \<open>String(error)\<close>.\<close>

definition ReportScreen :: "intl \<Rightarrow> (js_error \<Rightarrow> string) \<Rightarrow> Report query \<Rightarrow> search \<Rightarrow> Locale \<Rightarrow> html js" where
  "ReportScreen N error_text q s l =
     ebind (case q of
         query.Pending \<Rightarrow> Inr [Loading (shown (i18n_t ''report.title'' l)) 6]
       | Failed e \<Rightarrow>
           Inr [if e = MixedBasisError
                then El ''div'' [] [El ''span'' [] [msg ''report.blocked'' l], El ''p'' [] [msg ''report.blocked.mixed_basis'' l]]
                else ErrorState (error_text e) None]
       | Loaded r \<Rightarrow> report_body N r s l) (\<lambda>body.
     Inr (El ''div'' []
       (El ''header'' [] (El ''h1'' [] [msg ''report.title'' l] #
          (case q of
             Loaded r \<Rightarrow>
               [El ''span'' [] [msg (if rp_basis r = Cash then ''report.basis.cash'' else ''report.basis.accrual'') l],
                El ''span'' [] [msg ''report.basis.note'' l]]
           | _ \<Rightarrow> [])) # body)))"

subsection \<open>DrilldownPanel.tsx\<close>

definition round_half_up :: "rat \<Rightarrow> int" where
  "round_half_up x = \<lfloor>x + 1 / 2\<rfloor>"

definition DrillRow :: "DrilldownRow \<Rightarrow> Locale \<Rightarrow> html js" where
  "DrillRow x l =
     ebind (fmt (dr_amount x) l) (\<lambda>amount. Inr (El ''div'' []
       [El ''span'' [] [Txt (dr_bookedOn x)], El ''span'' [] [Txt (dr_description x)],
        El ''span'' [] [Txt (dr_categoryLabel x)], El ''span'' [] [Txt (dr_layer x)],
        El ''span'' [] [Txt (case dr_confidence x of
            Some c \<Rightarrow> show_int (round_half_up (c * 100)) @ ''%'' | None \<Rightarrow> NO_DATA)],
        El ''span'' [] [Txt amount]]))"

definition Operands_list :: "DrilldownOperand list \<Rightarrow> string \<Rightarrow> search \<Rightarrow> Locale \<Rightarrow> html" where
  "Operands_list xs period s l =
     El ''ul'' [] (map (\<lambda>x. El ''li'' []
       [LinkTo CELL_ROUTE [(''categoryId'', op_categoryId x), (''period'', period)] (search_params s) []
          [El ''span'' [] [Txt (lineName (op_categoryId x) (op_label x) l)],
           El ''span'' [] [Txt (if op_subtracted x then MINUS else ''+'')]]]) xs)"

text \<open>\<open>text.replace(pattern, value)\<close>: the first occurrence. (A dollar in the value is taken as it is; a
  version carries none.)\<close>

fun js_replace :: "string \<Rightarrow> string \<Rightarrow> string \<Rightarrow> string" where
  "js_replace pat v [] = (if pat = [] then v else [])"
| "js_replace pat v (c # s) =
     (if js_startsWith (c # s) pat then v @ drop (length pat) (c # s) else c # js_replace pat v s)"

definition drill_empty :: "Drilldown \<Rightarrow> bool" where
  "drill_empty d \<longleftrightarrow> dd_kind d = Transactions \<and> dd_rows d = []"

definition DrilldownPanel ::
    "intl \<Rightarrow> (js_error \<Rightarrow> string) \<Rightarrow> string \<Rightarrow> string \<Rightarrow> search \<Rightarrow> Drilldown query \<Rightarrow> Locale \<Rightarrow> html js" where
  "DrilldownPanel N error_text cat period s q l =
     (let data = (case q of Loaded d \<Rightarrow> Some d | _ \<Rightarrow> None) in
      ebind (case data of None \<Rightarrow> Inr [] | Some d \<Rightarrow> ebind (fmt (dd_amount d) l) (\<lambda>a. Inr [El ''span'' [] [Txt a]]))
        (\<lambda>amount.
      ebind (case data of
          Some d \<Rightarrow>
            if dd_kind d = Transactions \<and> \<not> drill_empty d
            then ebind (emap (\<lambda>x. DrillRow x l) (dd_rows d)) (\<lambda>rows. Inr [El ''div'' [] rows]) else Inr []
        | None \<Rightarrow> Inr []) (\<lambda>rows.
      Inr (El ''div'' []
        ([El ''header'' []
           ([El ''div'' []
              [El ''h2'' [] [Txt (cellName cat (case data of Some d \<Rightarrow> dd_categoryLabel d | None \<Rightarrow> cat) l)],
               El ''p'' [] [Txt (formatPeriodLong N period l)]]] @ amount @
            [LinkTo ''/app/reports/pnl'' [] (search_params s)
               [(''aria-label'', shown (i18n_t ''drilldown.close'' l))] [msg ''drilldown.close'' l]]),
          El ''div'' []
           ((case q of query.Pending \<Rightarrow> [Loading [CHR 0xE2, CHR 0x80, CHR 0xA6] 4] | _ \<Rightarrow> []) @
            (case q of Failed e \<Rightarrow> [ErrorState (error_text e) None] | _ \<Rightarrow> []) @
            (case data of Some d \<Rightarrow> if drill_empty d then [El ''p'' [] [msg ''drilldown.empty'' l]] else [] | None \<Rightarrow> []) @
            (case data of
               Some d \<Rightarrow> if dd_kind d = Operands
                 then [El ''h3'' [] [msg ''drilldown.operands'' l], Operands_list (dd_operands d) period s l] else []
             | None \<Rightarrow> []) @ rows)] @
         (case data of
            Some d \<Rightarrow> [El ''footer'' [] [El ''p'' [] [Txt
              (js_replace ''{engine}'' (engineVersion (dd_provenance d))
               (js_replace ''{ruleset}'' (rulesetVersion (dd_provenance d))
                (js_replace ''{taxonomy}'' (taxonomyVersion (dd_provenance d))
                  (shown (i18n_t ''drilldown.provenance'' l)))))]]]
          | None \<Rightarrow> []))))))"

subsection \<open>Properties: the table\<close>

definition cell_link ::
    "Report \<Rightarrow> string \<Rightarrow> string \<Rightarrow> string \<Rightarrow> nat \<Rightarrow> string \<times> (string \<times> string) list \<times> (string \<times> string) list" where
  "cell_link r cat fromP toP i =
     (CELL_ROUTE, [(''categoryId'', cat), (''period'', period_at r i)],
      [(''from'', fromP), (''to'', toP), (''view'', ''table'')])"

lemma Figure_facts:
  assumes "Figure v cat (period_at r i) l fromP toP linked = Inr h"
  shows "links h = (if linked then [cell_link r cat fromP toP i] else []) \<and> tagged ''tr'' h = []"
  using assms by (auto simp: Figure_def ebind_Inr_iff cell_link_def)

lemma figures_facts:
  assumes "figures r vs cat l fromP toP linked = Inr cells"
  shows "concat (map links cells) = (if linked then map (cell_link r cat fromP toP) [0..<length vs] else []) \<and>
    length cells = length vs \<and> concat (map (tagged ''tr'') cells) = []"
proof -
  have "concat (map links cells) = (if linked then map (cell_link r cat fromP toP) [n..<n + length vs] else []) \<and>
    length cells = length vs \<and> concat (map (tagged ''tr'') cells) = []"
    if "emap (\<lambda>(i, v). Figure v cat (period_at r i) l fromP toP linked) (enumerate n vs) = Inr cells" for n
    using that
  proof (induction vs arbitrary: n cells)
    case (Cons v vs)
    from Cons.prems obtain h hs where h: "Figure v cat (period_at r n) l fromP toP linked = Inr h"
      and hs: "emap (\<lambda>(i, v). Figure v cat (period_at r i) l fromP toP linked) (enumerate (Suc n) vs) = Inr hs"
      and cells: "cells = h # hs"
      by (auto simp: ebind_Inr_iff)
    have "[n..<n + length (v # vs)] = n # [Suc n..<Suc n + length vs]"
      by (subst upt_conv_Cons) (simp_all del: upt_Suc)
    with Cons.IH [OF hs] Figure_facts [OF h] cells show ?case by auto
  qed simp
  from this [of 0] assms show ?thesis by (simp add: figures_def)
qed

lemma Row_facts:
  assumes "Row N x r l fromP toP linked = Inr h"
  shows "links h = (if linked then map (cell_link r (ln_categoryId x) fromP toP) [0..<length (ln_values x)] else []) \<and>
    map (length \<circ> kids) (tagged ''tr'' h) = [length (ln_values x) + 3]"
proof -
  from assms obtain cells where "figures r (ln_values x) (ln_categoryId x) l fromP toP linked = Inr cells"
    by (auto simp: Row_def Let_def ebind_Inr_iff)
  from figures_facts [OF this] assms this show ?thesis
    by (auto simp: Row_def Let_def ebind_Inr_iff kids_def)
qed

lemma BucketRow_facts:
  assumes "BucketRow b r l fromP toP linked = Inr h"
  shows "links h = (if linked then map (cell_link r (BucketKind_text (bk_kind b)) fromP toP) [0..<length (bk_values b)] else []) \<and>
    map (length \<circ> kids) (tagged ''tr'' h) = [length (bk_values b) + 3]"
proof -
  from assms obtain cells where "figures r (bk_values b) (BucketKind_text (bk_kind b)) l fromP toP linked = Inr cells"
    by (auto simp: BucketRow_def ebind_Inr_iff)
  from figures_facts [OF this] assms this show ?thesis
    by (auto simp: BucketRow_def ebind_Inr_iff kids_def msg_def)
qed

lemma emap_concat:
  assumes "emap f xs = Inr ys" "\<And>x y. f x = Inr y \<Longrightarrow> g y = h x"
  shows "concat (map g ys) = concat (map h xs)"
  using assms(1) by (induction xs arbitrary: ys) (auto simp: ebind_Inr_iff assms(2))

lemma PnlHead_facts: "links (PnlHead N r l) = [] \<and>
    map (length \<circ> kids) (tagged ''tr'' (PnlHead N r l)) = [length (rp_periods r) + 3]"
  by (simp add: PnlHead_def kids_def msg_def comp_def)

lemma map_length_concat: "map f (concat (map g xs)) = concat (map (\<lambda>x. map f (g x)) xs)"
  by (induction xs) simp_all

lemma PnlTable_parts:
  assumes "PnlTable N r l fromP toP linked = Inr h"
  obtains rows buckets where "emap (\<lambda>x. Row N x r l fromP toP linked) (rp_lines r) = Inr rows"
    and "emap (\<lambda>b. BucketRow b r l fromP toP linked) (rp_buckets r) = Inr buckets"
    and "links h = concat (map links rows) @ concat (map links buckets)"
    and "tagged ''tr'' h = tagged ''tr'' (PnlHead N r l) @ concat (map (tagged ''tr'') rows) @
      concat (map (tagged ''tr'') buckets)"
  using assms PnlHead_facts [of N r l]
  by (auto simp: PnlTable_def ebind_Inr_iff split: if_splits)

text \<open>Every figure of the profit and loss leads to its own transactions and to nothing else: the links
  of the table are, row by row and in print order, one per figure, for the line's own code or the bucket's
  own kind, the column's own month and the range on screen, and reopen the table; totals and percentages
  lead nowhere; and where the table is only shown, as on the landing page, it has no link at all.\<close>

theorem PnlTable_links:
  "case PnlTable N r l fromP toP linked of
     Inl e \<Rightarrow> True
   | Inr h \<Rightarrow> links h = (if linked then
       concat (map (\<lambda>x. map (cell_link r (ln_categoryId x) fromP toP) [0..<length (ln_values x)]) (rp_lines r)) @
       concat (map (\<lambda>b. map (cell_link r (BucketKind_text (bk_kind b)) fromP toP) [0..<length (bk_values b)])
         (rp_buckets r)) else [])"
proof (cases "PnlTable N r l fromP toP linked")
  case (Inr h)
  then obtain rows buckets where rows: "emap (\<lambda>x. Row N x r l fromP toP linked) (rp_lines r) = Inr rows"
    and buckets: "emap (\<lambda>b. BucketRow b r l fromP toP linked) (rp_buckets r) = Inr buckets"
    and h: "links h = concat (map links rows) @ concat (map links buckets)"
    by (rule PnlTable_parts)
  show ?thesis
    using Inr h emap_concat [OF rows, of links] emap_concat [OF buckets, of links]
      Row_facts BucketRow_facts
    by (cases linked) (auto simp: concat_eq_Nil_conv)
qed simp

text \<open>The table is rectangular: its head has a column for the name, one for each month, the total and
  the percentage, and each line and bucket has exactly one row with a cell for its name, one for each of
  its figures and two more, so a report whose lines have a figure for every month lines up under its head.\<close>

theorem PnlTable_rectangular:
  "case PnlTable N r l fromP toP linked of
     Inl e \<Rightarrow> True
   | Inr h \<Rightarrow> map (length \<circ> kids) (tagged ''tr'' h) =
       (length (rp_periods r) + 3) # map (\<lambda>x. length (ln_values x) + 3) (rp_lines r) @
       map (\<lambda>b. length (bk_values b) + 3) (rp_buckets r)"
proof (cases "PnlTable N r l fromP toP linked")
  case (Inr h)
  then obtain rows buckets where rows: "emap (\<lambda>x. Row N x r l fromP toP linked) (rp_lines r) = Inr rows"
    and buckets: "emap (\<lambda>b. BucketRow b r l fromP toP linked) (rp_buckets r) = Inr buckets"
    and h: "tagged ''tr'' h = tagged ''tr'' (PnlHead N r l) @ concat (map (tagged ''tr'') rows) @
      concat (map (tagged ''tr'') buckets)"
    by (rule PnlTable_parts)
  have "concat (map (\<lambda>y. map (length \<circ> kids) (tagged ''tr'' y)) rows) =
      concat (map (\<lambda>x. [length (ln_values x) + 3]) (rp_lines r))"
    by (rule emap_concat [OF rows]) (use Row_facts in blast)
  moreover have "concat (map (\<lambda>y. map (length \<circ> kids) (tagged ''tr'' y)) buckets) =
      concat (map (\<lambda>b. [length (bk_values b) + 3]) (rp_buckets r))"
    by (rule emap_concat [OF buckets]) (use BucketRow_facts in blast)
  ultimately show ?thesis
    using Inr PnlHead_facts [of N r l] by (simp add: h map_length_concat del: comp_apply)
qed simp

subsection \<open>Properties: the screen\<close>

lemma report_body_parts:
  assumes "report_body N r s l = Inr hs" "\<not> nothing_happened r"
  obtains strip where "ReconciliationStrip (rp_reconciliation r) l = Inr strip" "strip \<in> set hs"
  using assms by (auto simp: report_body_def ebind_Inr_iff)

text \<open>What the report screen shows in each state of its query: while it waits, no figure and no link;
  for an entity that mixes its imports, the blocked notice and nothing computed; for any other failure,
  the error; and for a report in which something happened, on either tab, the reconciliation strip of
  that very report beside the figures.\<close>

theorem ReportScreen_states:
  "case ReportScreen N error_text q s l of
     Inl e \<Rightarrow> \<exists>r. q = Loaded r
   | Inr h \<Rightarrow>
       (case q of
          query.Pending \<Rightarrow> links h = [] \<and> tagged ''table'' h = []
        | Failed e \<Rightarrow> links h = [] \<and> tagged ''table'' h = [] \<and>
            texts h = shown (i18n_t ''report.title'' l) #
              (if e = MixedBasisError
               then [shown (i18n_t ''report.blocked'' l), shown (i18n_t ''report.blocked.mixed_basis'' l)]
               else [error_text e])
        | Loaded r \<Rightarrow>
            nothing_happened r \<or>
            (\<exists>strip. ReconciliationStrip (rp_reconciliation r) l = Inr strip \<and> strip \<in> set (kids h)))"
proof (cases q)
  case Pending
  then show ?thesis
    by (simp add: ReportScreen_def msg_def Loading_def Skeleton_def comp_def concat_eq_Nil_conv)
next
  case (Failed e)
  then show ?thesis by (simp add: ReportScreen_def msg_def ErrorState_def)
next
  case (Loaded r)
  show ?thesis
  proof (cases "report_body N r s l")
    case (Inl e)
    with Loaded show ?thesis by (simp add: ReportScreen_def)
  next
    case (Inr hs)
    show ?thesis
    proof (cases "nothing_happened r")
      case True
      with Loaded Inr show ?thesis by (simp add: ReportScreen_def)
    next
      case False
      from report_body_parts [OF Inr False] obtain strip where
        "ReconciliationStrip (rp_reconciliation r) l = Inr strip" "strip \<in> set hs" .
      with Loaded Inr show ?thesis by (simp add: ReportScreen_def kids_def)
    qed
  qed
qed

text \<open>The drill-down panel always has a way back to the report it was opened from, with its range and
  tab; a computed line opens onto its operands, each a link to its own cell in the same month with the
  same range and tab, in the server's order; and transactions lead nowhere.\<close>

theorem DrilldownPanel_links:
  "case DrilldownPanel N error_text cat period s q l of
     Inl e \<Rightarrow> \<exists>d. q = Loaded d
   | Inr h \<Rightarrow> links h = (''/app/reports/pnl'', [], search_params s) #
       (case q of
          Loaded d \<Rightarrow> if dd_kind d = Operands
            then map (\<lambda>x. (CELL_ROUTE, [(''categoryId'', op_categoryId x), (''period'', period)], search_params s))
              (dd_operands d) else []
        | _ \<Rightarrow> [])"
proof -
  have row: "links h = []" if "DrillRow x l = Inr h" for x h
    using that by (auto simp: DrillRow_def ebind_Inr_iff)
  have rows: "concat (map links hs) = []" if "emap (\<lambda>x. DrillRow x l) xs = Inr hs" for xs hs
    using emap_concat [OF that, of links "\<lambda>_. []"] row by simp
  note defs = DrilldownPanel_def Let_def msg_def Loading_def Skeleton_def ErrorState_def Operands_list_def
    comp_def drill_empty_def concat_eq_Nil_conv
  show ?thesis
  proof (cases q)
    case (Loaded d)
    show ?thesis
    proof (cases "fmt (dd_amount d) l")
      case (Inl e)
      with Loaded show ?thesis by (simp add: defs)
    next
      case (Inr a)
      show ?thesis
      proof (cases "dd_kind d = Transactions \<and> dd_rows d \<noteq> []")
        case True
        with Loaded Inr rows show ?thesis
          by (cases "emap (\<lambda>x. DrillRow x l) (dd_rows d)") (simp_all add: defs)
      next
        case False
        with Loaded Inr show ?thesis by (cases "dd_kind d") (simp_all add: defs)
      qed
    qed
  qed (simp_all add: defs)
qed

text \<open>A line that took 5 in one month and gave it back in the next totals zero, and so does every other:
  the screen says nothing happened, and neither the months nor the strip are shown.\<close>

definition cancelling_report :: Report where
  "cancelling_report =
     (let m = (\<lambda>u. \<lparr>minorUnits = u, currencyCode = ''BYN''\<rparr>) in
      \<lparr>rp_currencyCode = ''BYN'', rp_periods = [''2026-01'', ''2026-02''], rp_basis = Cash,
       rp_lines = [\<lparr>ln_categoryId = ''01'', ln_label = ''NET SALES'', ln_computed = False,
         ln_values = [m ''500'', m ''-500''], ln_total = m ''0'', ln_percentOfRevenue = None\<rparr>],
       rp_buckets = [], rp_netByPeriod = [m ''500'', m ''-500''], rp_netTotal = m ''0'',
       rp_revenueTotal = m ''0'', rp_expensesTotal = m ''0'', rp_expensesByPeriod = [m ''0'', m ''0''],
       rp_cash = [], rp_reconciliation = \<lparr>rcn_opening = m ''0'', rcn_moneyIn = m ''500'', rcn_moneyOut = m ''-500'',
         rcn_transfers = m ''0'', rcn_closing = m ''0''\<rparr>,
       rp_provenance = \<lparr>taxonomyVersion = [], rulesetVersion = [], engineVersion = []\<rparr>,
       rp_unreviewedAmount = m ''0''\<rparr>)"

lemma cancelling_report_hidden:
  "nothing_happened cancelling_report \<and>
   (case report_body N cancelling_report s l of Inr hs \<Rightarrow> length hs = 1 | Inl e \<Rightarrow> False)"
  by (simp add: cancelling_report_def nothing_happened_def report_body_def Let_def)

end
