(* ===== verification/Imports_View.thy ===== *)
theory Imports_View
  imports Html "HOL-Library.Multiset"
begin

section \<open>Imports on screen: Upload, ImportsScreen, BatchScreen\<close>

text \<open>
  \<open>src/web/src/app/Upload.tsx\<close> as a state machine, \<open>ImportsScreen.tsx\<close> and \<open>BatchScreen.tsx\<close> as
  renders, and the file of errors that \<open>BatchScreen\<close> offers for download.
\<close>

subsection \<open>Upload.tsx\<close>

text \<open>The state of the component, the file control's value, the uploads that are still running, and how
  often \<open>onUploaded\<close> was called.\<close>

record upload_state =
  up_sourceKind :: "SourceKind option"
  up_busy :: bool
  up_fileValue :: "string option"
  up_running :: "(File \<times> SourceKind) list"
  up_uploaded :: nat

definition upload_init :: upload_state where
  "upload_init = \<lparr>up_sourceKind = None, up_busy = False, up_fileValue = None, up_running = [], up_uploaded = 0\<rparr>"

text \<open>\<open>onPick\<close> up to its \<open>await\<close>. The control is rendered, and can change, only when a source is chosen.\<close>

definition onPick :: "File option \<Rightarrow> upload_state \<Rightarrow> upload_state" where
  "onPick file st =
     (case (file, up_sourceKind st) of
        (Some f, Some k) \<Rightarrow> st\<lparr>up_busy := True, up_running := up_running st @ [(f, k)]\<rparr>
      | _ \<Rightarrow> st)"

text \<open>The rest of \<open>onPick\<close>, when the upload it awaits has ended: the \<open>try\<close> block on success, then
  \<open>finally\<close>. A failure passes through to a caller that ignores it.\<close>

definition upload_settled :: "nat \<Rightarrow> 'a js \<Rightarrow> upload_state \<Rightarrow> upload_state" where
  "upload_settled i res st =
     (if i \<ge> length (up_running st) then st
      else let st = st\<lparr>up_running := take i (up_running st) @ drop (Suc i) (up_running st)\<rparr>;
               st = (case res of
                   Inr _ \<Rightarrow> st\<lparr>up_uploaded := up_uploaded st + 1, up_sourceKind := None, up_fileValue := None\<rparr>
                 | Inl _ \<Rightarrow> st)
           in st\<lparr>up_busy := False\<rparr>)"

datatype upload_event = ChooseSource SourceKind | PickFile "File option" | UploadEnded nat "unit js"

fun upload_step :: "upload_state \<Rightarrow> upload_event \<Rightarrow> upload_state" where
  "upload_step st (ChooseSource k) = st\<lparr>up_sourceKind := Some k\<rparr>"
| "upload_step st (PickFile file) =
     (if up_sourceKind st = None then st
      else onPick file (st\<lparr>up_fileValue := map_option file_name file\<rparr>))"
| "upload_step st (UploadEnded i res) = upload_settled i res st"

definition upload_run :: "upload_event list \<Rightarrow> upload_state" where
  "upload_run es = foldl upload_step upload_init es"

definition Upload :: "upload_state \<Rightarrow> Locale \<Rightarrow> html" where
  "Upload st l =
     El ''section'' []
       [El ''h2'' [] [msg ''imports.chooseSource'' l],
        El ''div'' []
          (map (\<lambda>k. El ''button'' [(''aria-pressed'', if up_sourceKind st = Some k then ''true'' else ''false'')]
             [msg (''imports.source.'' @ SourceKind_text k) l]) [Bank, Ledger] @
           (if up_sourceKind st = None then []
            else [El ''label'' []
              [if up_busy st then Txt [CHR 0xE2, CHR 0x80, CHR 0xA6] else msg ''imports.upload'' l,
               El ''input'' [(''type'', ''file''), (''accept'', ''.csv,.xlsx'')] []]])),
        El ''p'' [] [msg ''imports.sourceNote'' l]]"

subsection \<open>ImportsScreen.tsx\<close>

definition ImportsRow :: "Batch \<Rightarrow> Locale \<Rightarrow> html" where
  "ImportsRow b l =
     El ''tr'' []
       [El ''td'' [] [LinkTo ''/app/imports/$batchId'' [(''batchId'', batch_id b)] [] [] [Txt (fileName b)]],
        El ''td'' [] [msg (''imports.source.'' @ SourceKind_text (sourceKind b)) l],
        El ''td'' [] [BatchStateChip (state b) l],
        El ''td'' [] [Txt (js_slice (uploadedAt b) 0 10)]]"

definition ImportsScreen :: "(js_error \<Rightarrow> string) \<Rightarrow> Batch list query \<Rightarrow> upload_state \<Rightarrow> Locale \<Rightarrow> html" where
  "ImportsScreen error_text q up l =
     El ''div'' []
       ([El ''h1'' [] [msg ''imports.title'' l], Upload up l] @
        (case q of query.Pending \<Rightarrow> [Loading (shown (i18n_t ''imports.title'' l)) 4] | _ \<Rightarrow> []) @
        (case q of Failed e \<Rightarrow> [ErrorState (error_text e) None] | _ \<Rightarrow> []) @
        (case q of Loaded bs \<Rightarrow> if bs = []
            then [EmptyState (shown (i18n_t ''empty.imports.title'' l)) (shown (i18n_t ''empty.imports.detail'' l)) None]
            else [] | _ \<Rightarrow> []) @
        (case q of Loaded bs \<Rightarrow> if bs \<noteq> []
            then [El ''div'' [] [El ''table'' []
              [El ''thead'' [] [El ''tr'' []
                 (map (\<lambda>c. El ''th'' [(''scope'', ''col'')] [msg (''imports.col.'' @ c) l])
                   [''file'', ''source'', ''state'', ''uploaded''])],
               El ''tbody'' [] (map (\<lambda>b. ImportsRow b l) bs)]]]
            else [] | _ \<Rightarrow> []))"

subsection \<open>BatchScreen.tsx\<close>

text \<open>\<open>replaceAll('"', '""')\<close>.\<close>

definition double_quotes :: "string \<Rightarrow> string" where
  "double_quotes s = concat (map (\<lambda>c. if c = CHR 34 then [CHR 34, CHR 34] else [c]) s)"

definition error_line :: "ValidationError \<Rightarrow> string" where
  "error_line e =
     show_int (fileLine e) @ '','' @ err_code e @ '','' @ [CHR 34] @
     double_quotes (case detail e of Some d \<Rightarrow> d | None \<Rightarrow> []) @ [CHR 34]"

definition download_text :: "BatchDetail \<Rightarrow> Locale \<Rightarrow> string" where
  "download_text b l =
     shown (i18n_t ''batch.errors.line'' l) @ '',code,detail'' @ [CHR 10] @
     js_join [CHR 10] (map error_line (errors b))"

definition download_name :: "BatchDetail \<Rightarrow> string" where
  "download_name b = fileName b @ ''.errors.csv''"

definition SHOWN :: nat where "SHOWN = 200"

definition Errors_row :: "ValidationError \<Rightarrow> Locale \<Rightarrow> html" where
  "Errors_row e l = El ''div'' []
     ([El ''span'' [] [Txt (show_int (fileLine e))], El ''span'' [] [msg (''error.'' @ err_code e) l]] @
      (case detail e of Some d \<Rightarrow> if d \<noteq> [] then [El ''span'' [] [Txt d]] else [] | None \<Rightarrow> []))"

definition Errors_more :: "nat \<Rightarrow> Locale \<Rightarrow> html" where
  "Errors_more n l = El ''p'' [] [Txt (show_nat n), Txt (''+ '' @ [CHR 0xE2, CHR 0x80, CHR 0x94] @ '' ''),
     msg ''batch.errors.download'' l]"

definition Errors_list :: "ValidationError list \<Rightarrow> Locale \<Rightarrow> html" where
  "Errors_list es l =
     El ''div'' []
       (map (\<lambda>e. Errors_row e l) (take SHOWN es) @
        (if length es > SHOWN then [Errors_more (length es - SHOWN) l] else []))"

definition BatchRow_view :: "BatchRow \<Rightarrow> Locale \<Rightarrow> html js" where
  "BatchRow_view x l =
     ebind (fmt (row_amount x) l) (\<lambda>amount. Inr (El ''div'' []
       [El ''span'' [] [Txt (show_int (row_lineNo x))],
        El ''span'' [] [Txt (row_bookedOn x)],
        El ''span'' [] [Txt (if row_counterpartyRaw x \<noteq> [] then row_counterpartyRaw x else row_description x)],
        El ''span'' [] [if row_categoryCode x \<noteq> [] then Txt (row_categoryName x) else msg ''batch.rows.unclassified'' l],
        El ''span'' [] [Txt amount]]))"

definition CountsCard :: "BatchCounts \<Rightarrow> Locale \<Rightarrow> html" where
  "CountsCard c l =
     El ''dl'' [] (map (\<lambda>(key, v). El ''div'' [] [El ''dt'' [] [msg key l], El ''dd'' [] [Txt (show_int v)]])
       [(''imports.counts.imported'', rowsImported c), (''imports.counts.duplicates'', duplicatesSkipped c),
        (''imports.counts.transfers'', internalTransfersFound c)])"

definition BalanceCard :: "BalanceCheck \<Rightarrow> Locale \<Rightarrow> html js" where
  "BalanceCard c l =
     ebind (emap (\<lambda>(key, v). ebind (fmt v l) (\<lambda>text.
         Inr (El ''div'' [] [El ''dt'' [] [msg key l], El ''dd'' [] [Txt text]])))
       [(''batch.balance.opening'', bc_opening c), (''batch.balance.movements'', bc_movements c),
        (''batch.balance.closing'', bc_closing c), (''batch.balance.declared'', bc_declared c)]) (\<lambda>rows.
     Inr (El ''section'' [] [El ''h2'' [] [msg ''batch.balance.title'' l], El ''dl'' [] rows]))"

text \<open>The windowed rows are those \<open>window\<close> picks (\<open>@tanstack/react-virtual\<close>).\<close>

definition RowsCard :: "(nat \<Rightarrow> nat list) \<Rightarrow> BatchRow list \<Rightarrow> Locale \<Rightarrow> html js" where
  "RowsCard window rows l =
     ebind (emap (\<lambda>i. BatchRow_view (rows ! i) l) (filter (\<lambda>i. i < length rows) (window (length rows)))) (\<lambda>hs.
     Inr (El ''section'' []
       [El ''div'' [] [El ''h2'' [] [msg ''batch.rows.title'' l], El ''span'' [] [Txt (show_nat (length rows))]],
        El ''div'' [] hs]))"

definition ErrorsCard :: "BatchDetail \<Rightarrow> Locale \<Rightarrow> html" where
  "ErrorsCard b l =
     El ''section'' []
       [El ''div'' [] [El ''h2'' [] [msg ''batch.errors.title'' l], El ''button'' [] [msg ''batch.errors.download'' l],
          El ''span'' [] [msg ''batch.errors.line'' l]],
        El ''div'' [] [Errors_list (errors b) l]]"

definition BatchScreen ::
    "(js_error \<Rightarrow> string) \<Rightarrow> (nat \<Rightarrow> nat list) \<Rightarrow> string \<Rightarrow> BatchDetail option query \<Rightarrow> BatchRow list query \<Rightarrow>
     Locale \<Rightarrow> html js" where
  "BatchScreen error_text window batchId q rows l =
     (case q of
        query.Pending \<Rightarrow> Inr (Loading batchId 4)
      | Failed e \<Rightarrow> Inr (ErrorState (error_text e) None)
      | Loaded None \<Rightarrow>
          Inr (EmptyState (shown (i18n_t ''empty.batch.title'' l)) (shown (i18n_t ''empty.batch.detail'' l)) None)
      | Loaded (Some b) \<Rightarrow>
          ebind (case balanceCheck b of Some c \<Rightarrow> ebind (BalanceCard c l) (\<lambda>h. Inr [h]) | None \<Rightarrow> Inr []) (\<lambda>balance.
          ebind (case rows of
              Loaded xs \<Rightarrow> if xs \<noteq> [] then ebind (RowsCard window xs l) (\<lambda>h. Inr [h]) else Inr []
            | _ \<Rightarrow> Inr []) (\<lambda>rowsCard.
          Inr (El ''div'' []
            ([El ''header'' []
               [El ''h1'' [] [Txt (fileName b)], BatchStateChip (state b) l,
                El ''span'' [] [msg (''imports.source.'' @ SourceKind_text (sourceKind b)) l]]] @
             (case rejectionReason b of
                Some r \<Rightarrow> if r \<noteq> [] then [El ''p'' [] [msg (''batch.rejected.'' @ r) l]] else []
              | None \<Rightarrow> []) @
             (case counts b of Some c \<Rightarrow> [CountsCard c l] | None \<Rightarrow> []) @
             balance @ rowsCard @
             (if errors b \<noteq> [] then [ErrorsCard b l] else []))))))"

subsection \<open>What the error file says to a reader of CSV\<close>

text \<open>A reader of comma-separated values as RFC 4180 has them: a field is quoted, with the quotes
  inside it doubled, or runs to the next comma or line end.\<close>

fun csv_quoted :: "string \<Rightarrow> string \<times> string" where
  "csv_quoted [] = ([], [])"
| "csv_quoted [c] = (if c = CHR 34 then ([], []) else ([c], []))"
| "csv_quoted (c # d # cs) =
     (if c \<noteq> CHR 34 then (case csv_quoted (d # cs) of (f, rest) \<Rightarrow> (c # f, rest))
      else if d = CHR 34 then (case csv_quoted cs of (f, rest) \<Rightarrow> (CHR 34 # f, rest))
      else ([], d # cs))"

definition plain_char :: "char \<Rightarrow> bool" where
  "plain_char c = (c \<noteq> CHR 34 \<and> c \<noteq> CHR 44 \<and> c \<noteq> CHR 10)"

definition csv_field :: "string \<Rightarrow> string \<times> string" where
  "csv_field s =
     (case s of c # cs \<Rightarrow> if c = CHR 34 then csv_quoted cs
        else (takeWhile (\<lambda>c. c \<noteq> CHR 44 \<and> c \<noteq> CHR 10) s, dropWhile (\<lambda>c. c \<noteq> CHR 44 \<and> c \<noteq> CHR 10) s)
      | [] \<Rightarrow> ([], []))"

lemma csv_quoted_shorter: "length (snd (csv_quoted s)) \<le> length s"
  by (induction s rule: csv_quoted.induct) (auto split: prod.splits)

lemma csv_field_shorter: "length (snd (csv_field s)) \<le> length s"
  using csv_quoted_shorter [of "tl s"] length_dropWhile_le
  by (auto simp: csv_field_def split: list.splits intro: le_SucI)

function csv :: "string \<Rightarrow> string list list" where
  "csv s = (case csv_field s of (f, rest) \<Rightarrow>
     (case rest of [] \<Rightarrow> [[f]]
      | c # cs \<Rightarrow> if c = CHR 44 then (f # hd (csv cs)) # tl (csv cs) else [f] # csv cs))"
  by pat_completeness auto
termination
proof (relation "measure length")
  fix s f rest c cs
  assume "(f, rest) = csv_field s" and "rest = c # cs"
  then have "length cs < length s" using csv_field_shorter [of s] by (metis Suc_le_eq length_Cons snd_conv)
  then show "(cs, s) \<in> measure length" "(cs, s) \<in> measure length" "(cs, s) \<in> measure length" by simp_all
qed simp

declare csv.simps [simp del]

definition sep_char :: "string \<Rightarrow> bool" where
  "sep_char s = (case s of [] \<Rightarrow> True | c # _ \<Rightarrow> c = CHR 44 \<or> c = CHR 10)"

lemma csv_field_plain:
  assumes "list_all plain_char f" and "sep_char rest"
  shows "csv_field (f @ rest) = (f, rest)"
proof -
  let ?P = "\<lambda>c. c \<noteq> CHR 44 \<and> c \<noteq> CHR 10"
  have "takeWhile ?P (f @ rest) = f \<and> dropWhile ?P (f @ rest) = rest"
    using assms by (induction f) (auto simp: plain_char_def sep_char_def split: list.splits)
  moreover have "csv_field (f @ rest) = (takeWhile ?P (f @ rest), dropWhile ?P (f @ rest))"
  proof (cases "f @ rest")
    case (Cons c cs)
    then have "c \<noteq> CHR 34" using assms by (cases f) (auto simp: plain_char_def sep_char_def)
    then show ?thesis using Cons by (simp add: csv_field_def)
  qed (simp add: csv_field_def)
  ultimately show ?thesis by simp
qed

lemma csv_quoted_doubled:
  "rest = [] \<or> hd rest \<noteq> CHR 34 \<Longrightarrow> csv_quoted (double_quotes s @ CHR 34 # rest) = (s, rest)"
proof (induction s)
  case Nil
  then show ?case by (cases rest) (auto simp: double_quotes_def)
next
  case (Cons c s)
  then have IH: "csv_quoted (double_quotes s @ CHR 34 # rest) = (s, rest)" by simp
  obtain d ds where d: "double_quotes s @ CHR 34 # rest = d # ds" by (cases "double_quotes s") auto
  show ?case
  proof (cases "c = CHR 34")
    case True
    then show ?thesis using IH by (simp add: double_quotes_def)
  next
    case False
    have "double_quotes (c # s) @ CHR 34 # rest = c # d # ds"
      using False d by (simp add: double_quotes_def)
    then show ?thesis using False IH d by simp
  qed
qed

lemma csv_field_quoted:
  assumes "sep_char rest"
  shows "csv_field (CHR 34 # double_quotes s @ CHR 34 # rest) = (s, rest)"
proof -
  have "rest = [] \<or> hd rest \<noteq> CHR 34" using assms by (auto simp: sep_char_def split: list.splits)
  then show ?thesis by (simp add: csv_field_def csv_quoted_doubled)
qed

lemma csv_step:
  "csv_field s = (f, CHR 44 # cs) \<Longrightarrow> csv s = (f # hd (csv cs)) # tl (csv cs)"
  "csv_field s = (f, CHR 10 # cs) \<Longrightarrow> csv s = [f] # csv cs"
  "csv_field s = (f, []) \<Longrightarrow> csv s = [[f]]"
  by (simp_all add: csv.simps [of s])

lemma plain_digits: "list_all plain_char (show_int i)"
proof -
  have "is_digit c \<Longrightarrow> plain_char c" for c by (auto simp: is_digit_def plain_char_def)
  then have "list_all plain_char (show_nat n)" for n using show_nat_digits [of n] by (auto simp: list_all_iff)
  then show ?thesis by (simp add: show_int_def plain_char_def)
qed

definition error_fields :: "ValidationError \<Rightarrow> string list" where
  "error_fields e = [show_int (fileLine e), err_code e, case detail e of Some d \<Rightarrow> d | None \<Rightarrow> []]"

lemma csv_error_line:
  assumes "list_all plain_char (err_code e)"
  shows "csv (error_line e) = [error_fields e]"
    and "csv (error_line e @ CHR 10 # later) = error_fields e # csv later"
proof -
  let ?d = "case detail e of Some d \<Rightarrow> d | None \<Rightarrow> []"
  have sep: "sep_char []" "sep_char (CHR 44 # xs)" "sep_char (CHR 10 # xs)" for xs by (simp_all add: sep_char_def)
  have line: "error_line e @ rest = show_int (fileLine e) @ CHR 44 # err_code e @ CHR 44 #
      CHR 34 # double_quotes ?d @ CHR 34 # rest" for rest
    by (simp add: error_line_def)
  have fields: "csv (error_line e @ rest)
      = (show_int (fileLine e) # err_code e # hd (csv (CHR 34 # double_quotes ?d @ CHR 34 # rest)))
        # tl (csv (CHR 34 # double_quotes ?d @ CHR 34 # rest))" for rest
    by (simp add: line csv_step(1) [OF csv_field_plain [OF plain_digits sep(2)]]
        csv_step(1) [OF csv_field_plain [OF assms sep(2)]])
  show "csv (error_line e) = [error_fields e]"
    using fields [of "[]"] csv_step(3) [OF csv_field_quoted [OF sep(1)], of ?d] by (simp add: error_fields_def)
  show "csv (error_line e @ CHR 10 # later) = error_fields e # csv later"
    using fields [of "CHR 10 # later"] csv_step(2) [OF csv_field_quoted [OF sep(3)], of ?d later]
    by (simp add: error_fields_def)
qed

lemma csv_error_lines:
  "es \<noteq> [] \<Longrightarrow> list_all (\<lambda>e. list_all plain_char (err_code e)) es
   \<Longrightarrow> csv (js_join [CHR 10] (map error_line es)) = map error_fields es"
proof (induction es rule: induct_list012)
  case (3 e e' es)
  have "js_join [CHR 10] (map error_line (e # e' # es))
      = error_line e @ CHR 10 # js_join [CHR 10] (map error_line (e' # es))" by simp
  then show ?case using 3 csv_error_line(2) [of e] by simp
qed (simp_all add: csv_error_line(1))

text \<open>The label of the header is a word in either language.\<close>

lemma errors_line_key: "''batch.errors.line'' \<notin> set (map fst messages_en_1)"
  by (simp add: messages_en_1_def)

lemma errors_line_label:
  "i18n_t ''batch.errors.line'' l = Some (case l of En \<Rightarrow> en ''Line'' | Ru \<Rightarrow> ru ''Stroka'')"
  by (cases l; simp only: i18n_t_2 [OF errors_line_key] messages_en_2_def messages_ru_2_def map_of.simps Locale.case) simp_all

lemma errors_line_plain: "list_all plain_char (shown (i18n_t ''batch.errors.line'' l))"
proof -
  have "list_all plain_char (en ''Line'')" "list_all plain_char (ru ''Stroka'')" by code_simp+
  then show ?thesis by (cases l) (simp_all add: errors_line_label shown_def)
qed

lemma csv_download:
  assumes "list_all (\<lambda>e. list_all plain_char (err_code e)) (errors b)" and "errors b \<noteq> []"
  shows "csv (download_text b l)
    = [shown (i18n_t ''batch.errors.line'' l), ''code'', ''detail''] # map error_fields (errors b)"
proof -
  let ?h = "shown (i18n_t ''batch.errors.line'' l)"
  let ?body = "js_join [CHR 10] (map error_line (errors b))"
  have contents: "download_text b l = ?h @ CHR 44 # ''code'' @ CHR 44 # ''detail'' @ CHR 10 # ?body"
    by (simp add: download_text_def)
  have sep: "sep_char (CHR 44 # xs)" "sep_char (CHR 10 # xs)" for xs by (simp_all add: sep_char_def)
  have words: "list_all plain_char ''code''" "list_all plain_char ''detail''" by code_simp+
  have "csv (''detail'' @ CHR 10 # ?body) = [''detail''] # map error_fields (errors b)"
    using csv_step(2) [OF csv_field_plain [OF words(2) sep(2)]] csv_error_lines [OF assms(2,1)] by simp
  then have "csv (''code'' @ CHR 44 # ''detail'' @ CHR 10 # ?body)
      = [''code'', ''detail''] # map error_fields (errors b)"
    using csv_step(1) [OF csv_field_plain [OF words(1) sep(1)]] by simp
  then show ?thesis
    using csv_step(1) [OF csv_field_plain [OF errors_line_plain sep(1)]] by (simp add: contents)
qed

subsection \<open>Properties\<close>

text \<open>C17. The downloaded error file reads back: a CSV reader that knows quoting gets the header and,
  for every error of the batch in order, its line in the original file, its code and its detail, whatever
  quotes, commas and line ends the detail contains (the codes themselves are plain words).\<close>

theorem download_reads_back:
  assumes "list_all (\<lambda>e. list_all plain_char (err_code e)) (errors b)" and "errors b \<noteq> []"
  shows "csv (download_text b l)
    = [shown (i18n_t ''batch.errors.line'' l), ''code'', ''detail''] #
      map (\<lambda>e. [show_int (fileLine e), err_code e, case detail e of Some d \<Rightarrow> d | None \<Rightarrow> []]) (errors b)"
  using csv_download [OF assms] by (simp add: error_fields_def [abs_def])

definition sample_rejected :: BatchDetail where
  "sample_rejected = \<lparr>batch_id = ''b1'', fileName = ''may.csv'', sourceKind = Bank, state = Rejected, uploadedAt = ''2026-05-01'',
     rejectionReason = None,
     errors = [\<lparr>fileLine = 7, err_code = ''amount_unparseable'', detail = Some [CHR 34, CHR 10, CHR 44]\<rparr>],
     counts = None, balanceCheck = None\<rparr>"

lemma download_reads_back_witness:
  "csv (download_text sample_rejected En) =
     [shown (i18n_t ''batch.errors.line'' En), ''code'', ''detail''] # [[''7'', ''amount_unparseable'', [CHR 34, CHR 10, CHR 44]]]"
proof -
  have "list_all (\<lambda>e. list_all plain_char (err_code e)) (errors sample_rejected)" by code_simp
  moreover have "errors sample_rejected \<noteq> []" by (simp add: sample_rejected_def)
  moreover have "show_int 7 = ''7''" by code_simp
  ultimately show ?thesis
    using download_reads_back [of sample_rejected En] by (simp add: sample_rejected_def)
qed

lemma Errors_row:
  "tagged ''div'' (Errors_row e l) = [Errors_row e l]" "tagged ''p'' (Errors_row e l) = []"
  "hd (texts (Errors_row e l)) = show_int (fileLine e)"
  by (auto simp: Errors_row_def msg_def split: option.splits)

lemma Errors_more:
  "tagged ''div'' (Errors_more n l) = []" "tagged ''p'' (Errors_more n l) = [Errors_more n l]"
  "hd (texts (Errors_more n l)) = show_nat n"
  by (simp_all add: Errors_more_def msg_def)

lemma Errors_rows:
  "concat (map (\<lambda>e. [Errors_row e l]) es) = map (\<lambda>e. Errors_row e l) es"
  by (induction es) simp_all

text \<open>The error list is bounded: it shows the first 200 errors, one block each in order, and when
  there are more, one closing paragraph that begins with exactly the number left out.\<close>

theorem Errors_list_capped:
  "length (tagged ''div'' (Errors_list es l)) = min (length es) 200 + 1
   \<and> map (\<lambda>h. hd (texts h)) (filter (\<lambda>h. tagged ''div'' h \<noteq> []) (kids (Errors_list es l)))
     = map (\<lambda>e. show_int (fileLine e)) (take 200 es)
   \<and> (if length es \<le> 200 then tagged ''p'' (Errors_list es l) = []
      else map (\<lambda>h. hd (texts h)) (tagged ''p'' (Errors_list es l)) = [show_nat (length es - 200)])"
  by (simp add: Errors_list_def SHOWN_def Errors_rows Errors_row Errors_more o_def kids_def filter_map)

text \<open>A source comes before a file: the file control exists exactly when a source has been chosen,
  an upload starts only when a file is picked while one is, carries that source and that file, and no other
  event starts one.\<close>

theorem upload_gate:
  "(tagged ''input'' (Upload st l) = []) = (up_sourceKind st = None)
   \<and> (case (ev, up_sourceKind st) of
        (PickFile (Some f), Some k) \<Rightarrow> up_running (upload_step st ev) = up_running st @ [(f, k)] \<and> up_busy (upload_step st ev)
      | (PickFile _, None) \<Rightarrow> upload_step st ev = st
      | (UploadEnded i _, _) \<Rightarrow> mset (up_running (upload_step st ev)) \<subseteq># mset (up_running st)
      | _ \<Rightarrow> up_running (upload_step st ev) = up_running st)"
proof -
  have "tagged ''input'' (Upload st l) = [] \<longleftrightarrow> up_sourceKind st = None"
    by (simp add: Upload_def msg_def)
  moreover have "mset (take i xs @ drop (Suc i) xs) \<subseteq># mset xs" for i and xs :: "(File \<times> SourceKind) list"
    by (metis append_take_drop_id drop_drop mset_append mset_subset_eq_add_left add.commute plus_1_eq_Suc
        subset_mset.add_left_mono union_commute)
  ultimately show ?thesis
    by (cases ev) (auto simp: onPick_def upload_settled_def Let_def split: option.splits sum.splits)
qed

subsection \<open>What the screens do not say\<close>

text \<open>A failed upload leaves the component as it was before the pick: nothing on screen tells it from
  a file that was never picked.\<close>

lemma failed_upload_is_silent:
  assumes "up_sourceKind st = Some k" and "up_running st = []" and "\<not> up_busy st"
  shows "Upload (upload_step (upload_step st (PickFile (Some f))) (UploadEnded 0 (Inl e))) l = Upload st l"
  using assms by (simp add: onPick_def upload_settled_def Upload_def)

text \<open>The control stays usable while an upload runs; after a second pick, the end of the first upload
  already clears the busy label of the second.\<close>

lemma busy_cleared_under_running_upload:
  assumes "up_sourceKind st = Some k" and "up_running st = []"
  shows "let st' = upload_step (upload_step (upload_step st (PickFile (Some f))) (PickFile (Some g))) (UploadEnded 0 res)
         in up_running st' = [(g, k)] \<and> \<not> up_busy st'"
  using assms by (simp add: onPick_def upload_settled_def Let_def split: sum.splits)

text \<open>A file rejected for a reason other than its balance gets an empty paragraph: the catalogue has the
  text of \<open>upload_missing\<close> under \<open>error.\<close>, and nothing under \<open>batch.rejected.\<close>.\<close>

lemma rejected_without_words:
  "i18n_t ''batch.rejected.upload_missing'' l = None \<and> msg ''batch.rejected.upload_missing'' l = Txt []"
proof -
  have "''batch.rejected.upload_missing'' \<notin> set (map fst messages_en_1)" by (simp add: messages_en_1_def)
  moreover have "''batch.rejected.upload_missing'' \<notin> set (map fst messages_en_2)" by (simp add: messages_en_2_def)
  moreover have "''batch.rejected.upload_missing'' \<notin> set (map fst messages_en_3)" by (simp add: messages_en_3_def)
  ultimately have "i18n_t ''batch.rejected.upload_missing'' l = None"
    by (simp only: i18n_t_None_iff set_message_keys Un_iff simp_thms)
  then show ?thesis by (simp add: msg_def shown_def)
qed

end
