(* ===== verification/Category_Tree.thy ===== *)
theory Category_Tree
  imports Category_Names "HOL-Library.Multiset"
begin

section \<open>The review picker's taxonomy: categoryTree.ts\<close>

text \<open>
  \<open>src/web/src/app/categoryTree.ts\<close>. The code builds the tree by mutation: a map from keys to the
  branches made so far, and \<open>children.push\<close> on the branch found under a key. Here the tree is a
  value, a branch of the map is the branch of the tree that carries the key (\<open>branch_keys\<close>), and
  \<open>push_child\<close> appends to the branch with a given key wherever in the tree it is, as the mutation does.
\<close>

subsection \<open>The data\<close>

definition SEPARATOR :: string where
  "SEPARATOR = CHR '' '' # [CHR 0xE2, CHR 0x80, CHR 0xBA] @ '' ''"

datatype TreeNode =
    TreeLeaf (node_key: string) (leaf_code: string) (leaf_name: string) (node_label: string)
      (leaf_trail: "string list")
  | TreeBranch (node_key: string) (node_label: string) "TreeNode list"

definition is_branch :: "TreeNode \<Rightarrow> bool" where
  "is_branch n = (case n of TreeBranch _ _ _ \<Rightarrow> True | _ \<Rightarrow> False)"

text \<open>\<open>node.children\<close>, which only a branch has.\<close>

definition node_children :: "TreeNode \<Rightarrow> TreeNode list" where
  "node_children n = (case n of TreeBranch _ _ cs \<Rightarrow> cs | _ \<Rightarrow> [])"

datatype Side = Income | Expense | Both

definition SIDES :: "(string \<times> Side) list" where
  "SIDES = [(''01'', Income), (''0502'', Income), (''0602'', Income), (''02'', Expense), (''03'', Expense),
     (''04'', Expense), (''0501'', Expense), (''07'', Expense), (''08'', Expense)]"

definition sideOf :: "string \<Rightarrow> Side" where
  "sideOf code =
     (case find (\<lambda>(p, _). js_startsWith code p) SIDES of Some (_, s) \<Rightarrow> s | None \<Rightarrow> Both)"

definition segmentsOf :: "string \<Rightarrow> string list" where
  "segmentsOf path = filter (\<lambda>s. s \<noteq> []) (map js_trim (js_split CHR ''>'' path))"

subsection \<open>Building\<close>

fun branch_keys :: "TreeNode \<Rightarrow> string list" where
  "branch_keys (TreeLeaf _ _ _ _ _) = []"
| "branch_keys (TreeBranch k _ cs) = k # concat (map branch_keys cs)"

fun push_child :: "string \<Rightarrow> TreeNode \<Rightarrow> TreeNode \<Rightarrow> TreeNode" where
  "push_child key n (TreeLeaf k c nm lb tr) = TreeLeaf k c nm lb tr"
| "push_child key n (TreeBranch k lb cs) =
     TreeBranch k lb (map (push_child key n) cs @ (if k = key then [n] else []))"

text \<open>One turn of the loop over the ancestors: the tree, the key of \<open>parent\<close> and the trail so far.\<close>

definition ancestor_label :: "nat \<Rightarrow> string option \<Rightarrow> string \<Rightarrow> Locale \<Rightarrow> string" where
  "ancestor_label i code raw l =
     (case code of None \<Rightarrow> raw
      | Some c \<Rightarrow> if i = 0 then lineName c raw l else branchName c raw l)"

fun descend :: "Category \<Rightarrow> Locale \<Rightarrow> bool \<Rightarrow> nat \<Rightarrow> string list \<Rightarrow> TreeNode \<times> string \<times> string list
    \<Rightarrow> TreeNode \<times> string \<times> string list" where
  "descend c l aligned i [] st = st"
| "descend c l aligned i (raw # rest) (t, parent, trail) =
     (let code = (if aligned then Some (js_slice (ct_code c) 0 (2 * (int i + 1))) else None);
          label = ancestor_label i code raw l;
          key = parent @ ''/'' @ (case code of Some x \<Rightarrow> x | None \<Rightarrow> raw);
          t' = (if key \<in> set (branch_keys t) then t else push_child parent (TreeBranch key label []) t)
      in descend c l aligned (Suc i) rest (t', key, trail @ [label]))"

definition add_category :: "Locale \<Rightarrow> TreeNode \<Rightarrow> Category \<Rightarrow> TreeNode" where
  "add_category l t c =
     (let segments = segmentsOf (ct_path c);
          ancestors = (if segments \<noteq> [] then js_slice segments 0 (- 1) else []);
          aligned = (length (ct_code c) = 2 * length segments)
      in case descend c l aligned 0 ancestors (t, [], []) of (t', parent, trail) \<Rightarrow>
         let name = categoryName (ct_code c) (ct_label c) l
         in push_child parent (TreeLeaf (parent @ ''/'' @ ct_code c) (ct_code c) name name trail) t')"

definition empty_root :: TreeNode where
  "empty_root = TreeBranch [] [] []"

subsection \<open>Folding\<close>

definition relabel :: "string \<Rightarrow> TreeNode \<Rightarrow> TreeNode" where
  "relabel lb n = (case n of
      TreeLeaf k c nm _ tr \<Rightarrow> TreeLeaf k c nm lb tr
    | TreeBranch k _ cs \<Rightarrow> TreeBranch k lb cs)"

text \<open>The \<open>while\<close> loop of \<open>fold\<close>: \<open>unchain lb n\<close> is where it ends, started on \<open>n\<close> with the label \<open>lb\<close>.\<close>

fun unchain :: "string \<Rightarrow> TreeNode \<Rightarrow> TreeNode" where
  "unchain lb (TreeBranch k _ [only]) = unchain (lb @ SEPARATOR @ node_label only) only"
| "unchain lb n = relabel lb n"

fun node_count :: "TreeNode \<Rightarrow> nat" where
  "node_count (TreeLeaf _ _ _ _ _) = 1"
| "node_count (TreeBranch _ _ cs) = Suc (sum_list (map node_count cs))"

lemma node_count_relabel [simp]: "node_count (relabel lb n) = node_count n"
  by (cases n) (simp_all add: relabel_def)

lemma node_count_unchain: "node_count (unchain lb n) \<le> node_count n"
  by (induction lb n rule: unchain.induct) (simp_all add: le_SucI)

lemma node_count_child: "c \<in> set cs \<Longrightarrow> node_count c < node_count (TreeBranch k lb cs)"
  by (simp add: le_imp_less_Suc member_le_sum_list)

function fold_branch :: "TreeNode \<Rightarrow> TreeNode" where
  "fold_branch (TreeLeaf k c nm lb tr) = TreeLeaf k c nm lb tr"
| "fold_branch (TreeBranch k lb cs) =
     TreeBranch k lb (map (\<lambda>child. fold_branch (unchain (node_label child) child)) cs)"
  by pat_completeness auto
termination
  by (relation "measure node_count")
    (auto intro: le_less_trans [OF node_count_unchain node_count_child] simp del: node_count.simps)

definition buildCategoryTree :: "Category list \<Rightarrow> Locale \<Rightarrow> TreeNode" where
  "buildCategoryTree cs l =
     (let root = foldl (add_category l) empty_root cs
      in TreeBranch (node_key root) (node_label root)
           (map (\<lambda>sec. if is_branch sec then fold_branch sec else sec) (node_children root)))"

subsection \<open>Reading\<close>

fun leavesOf :: "TreeNode \<Rightarrow> TreeNode list" where
  "leavesOf (TreeLeaf k c nm lb tr) = [TreeLeaf k c nm lb tr]"
| "leavesOf (TreeBranch k lb cs) = concat (map leavesOf cs)"

fun openPath :: "TreeNode \<Rightarrow> string list \<Rightarrow> TreeNode list" where
  "openPath cur [] = []"
| "openPath cur (key # keys) =
     (case find (\<lambda>c. is_branch c \<and> node_key c = key) (node_children cur) of
        None \<Rightarrow> []
      | Some n \<Rightarrow> n # openPath n keys)"

subsection \<open>What a push does to the leaves and the keys\<close>

lemma leavesOf_are_leaves: "n \<in> set (leavesOf t) \<Longrightarrow> leavesOf n = [n]"
  by (induction t rule: leavesOf.induct) auto

lemma mset_concat_map: "mset (concat (map f xs)) = (\<Sum>x \<leftarrow> xs. mset (f x))"
  by (induction xs) simp_all

lemma sum_list_mset_plus:
  "(\<Sum>x \<leftarrow> xs. f x + g x) = (\<Sum>x \<leftarrow> xs. f x) + (\<Sum>x \<leftarrow> xs. (g x :: 'a multiset))"
  by (induction xs) (simp_all add: ac_simps)

lemma repeat_mset_sum_list:
  "(\<Sum>x \<leftarrow> xs. repeat_mset (g x) M) = repeat_mset (\<Sum>x \<leftarrow> xs. g x) M"
  by (induction xs) (simp_all add: repeat_mset_distrib)

lemma count_concat: "count_list (concat xss) key = (\<Sum>xs \<leftarrow> xss. count_list xs key)"
  by (induction xss) simp_all

lemma mset_leaves_push:
  "mset (leavesOf (push_child key n t)) =
     mset (leavesOf t) + repeat_mset (count_list (branch_keys t) key) (mset (leavesOf n))"
proof (induction key n t rule: push_child.induct)
  case (2 key n k lb cs)
  have "(\<Sum>c \<leftarrow> cs. mset (leavesOf (push_child key n c))) =
      (\<Sum>c \<leftarrow> cs. mset (leavesOf c) + repeat_mset (count_list (branch_keys c) key) (mset (leavesOf n)))"
    by (rule arg_cong [where f = sum_list], rule map_cong) (simp_all add: 2)
  then show ?case
    by (auto simp: mset_concat_map comp_def sum_list_mset_plus repeat_mset_sum_list count_concat
        repeat_mset_distrib)
qed simp

lemma mset_keys_push:
  "mset (branch_keys (push_child key n t)) =
     mset (branch_keys t) + repeat_mset (count_list (branch_keys t) key) (mset (branch_keys n))"
proof (induction key n t rule: push_child.induct)
  case (2 key n k lb cs)
  have "(\<Sum>c \<leftarrow> cs. mset (branch_keys (push_child key n c))) =
      (\<Sum>c \<leftarrow> cs. mset (branch_keys c) + repeat_mset (count_list (branch_keys c) key) (mset (branch_keys n)))"
    by (rule arg_cong [where f = sum_list], rule map_cong) (simp_all add: 2)
  then show ?case
    by (auto simp: mset_concat_map comp_def sum_list_mset_plus repeat_mset_sum_list count_concat
        repeat_mset_distrib)
qed simp

subsection \<open>The tree while it is built\<close>

text \<open>Every branch key names one branch.\<close>

definition keys_ok :: "TreeNode \<Rightarrow> bool" where
  "keys_ok t \<longleftrightarrow> distinct (branch_keys t)"

lemma distinct_count_list: "distinct xs \<Longrightarrow> x \<in> set xs \<Longrightarrow> count_list xs x = 1"
  by (induction xs) (auto simp: count_list_0_iff)

lemma keys_ok_count: "keys_ok t \<Longrightarrow> key \<in> set (branch_keys t) \<Longrightarrow> count_list (branch_keys t) key = 1"
  by (simp add: keys_ok_def distinct_count_list)

lemma push_new_branch:
  assumes "keys_ok t" "parent \<in> set (branch_keys t)" "key \<notin> set (branch_keys t)"
  shows "keys_ok (push_child parent (TreeBranch key lb []) t)"
    and "set (branch_keys (push_child parent (TreeBranch key lb []) t)) = insert key (set (branch_keys t))"
    and "mset (leavesOf (push_child parent (TreeBranch key lb []) t)) = mset (leavesOf t)"
proof -
  have one: "count_list (branch_keys t) parent = 1" by (rule keys_ok_count [OF assms(1,2)])
  have keys: "mset (branch_keys (push_child parent (TreeBranch key lb []) t)) = mset (key # branch_keys t)"
    by (simp add: mset_keys_push one)
  show "keys_ok (push_child parent (TreeBranch key lb []) t)"
    using assms(1,3) mset_eq_imp_distinct_iff [OF keys] by (simp add: keys_ok_def)
  show "set (branch_keys (push_child parent (TreeBranch key lb []) t)) = insert key (set (branch_keys t))"
    using mset_eq_setD [OF keys] by simp
  show "mset (leavesOf (push_child parent (TreeBranch key lb []) t)) = mset (leavesOf t)"
    by (simp add: mset_leaves_push)
qed

lemma descend_keeps:
  assumes "keys_ok t" "parent \<in> set (branch_keys t)"
    and "descend c l aligned i raws (t, parent, trail) = (t', parent', trail')"
  shows "keys_ok t' \<and> parent' \<in> set (branch_keys t') \<and> set (branch_keys t) \<subseteq> set (branch_keys t') \<and>
    mset (leavesOf t') = mset (leavesOf t)"
  using assms
proof (induction c l aligned i raws "(t, parent, trail)" arbitrary: t parent trail rule: descend.induct)
  case (2 c l aligned i raw rest t parent trail)
  let ?code = "if aligned then Some (js_slice (ct_code c) 0 (2 * (int i + 1))) else None"
  let ?label = "ancestor_label i ?code raw l"
  let ?key = "parent @ ''/'' @ (case ?code of Some x \<Rightarrow> x | None \<Rightarrow> raw)"
  let ?t = "if ?key \<in> set (branch_keys t) then t else push_child parent (TreeBranch ?key ?label []) t"
  have ok: "keys_ok ?t" and mem: "?key \<in> set (branch_keys ?t)"
    and sub: "set (branch_keys t) \<subseteq> set (branch_keys ?t)"
    and same: "mset (leavesOf ?t) = mset (leavesOf t)"
    using push_new_branch [OF 2(2,3), of ?key ?label] 2(2)
    by (cases "?key \<in> set (branch_keys t)"; simp only: if_True if_False simp_thms insertI1 subset_insertI
        subset_refl)+
  have step: "descend c l aligned (Suc i) rest (?t, ?key, trail @ [?label]) = (t', parent', trail')"
    using 2(4) by (simp only: descend.simps Let_def)
  from 2(1) [OF refl refl refl refl ok mem step] sub same show ?case
    by (simp only: simp_thms) blast
qed simp

lemma add_category_keeps:
  assumes "keys_ok t" "[] \<in> set (branch_keys t)"
  shows "keys_ok (add_category l t c) \<and> set (branch_keys t) \<subseteq> set (branch_keys (add_category l t c)) \<and>
    mset (map (\<lambda>n. (leaf_code n, leaf_name n)) (leavesOf (add_category l t c))) =
      mset (map (\<lambda>n. (leaf_code n, leaf_name n)) (leavesOf t)) +
      {#(ct_code c, categoryName (ct_code c) (ct_label c) l)#}"
proof -
  define ancestors where "ancestors = (if segmentsOf (ct_path c) \<noteq> []
    then js_slice (segmentsOf (ct_path c)) 0 (- 1) else [])"
  define aligned where "aligned = (length (ct_code c) = 2 * length (segmentsOf (ct_path c)))"
  define name where "name = categoryName (ct_code c) (ct_label c) l"
  obtain t' parent trail where d: "descend c l aligned 0 ancestors (t, [], []) = (t', parent, trail)"
    by (cases "descend c l aligned 0 ancestors (t, [], [])") auto
  note k = descend_keeps [OF assms d]
  define leaf where "leaf = TreeLeaf (parent @ ''/'' @ ct_code c) (ct_code c) name name trail"
  have add: "add_category l t c = push_child parent leaf t'"
    by (simp only: add_category_def Let_def ancestors_def [symmetric] aligned_def [symmetric] d prod.case
        name_def [symmetric] leaf_def)
  have one: "count_list (branch_keys t') parent = 1" using k by (simp add: keys_ok_count)
  have keys: "mset (branch_keys (add_category l t c)) = mset (branch_keys t')"
    by (simp add: add mset_keys_push leaf_def)
  have leaves: "mset (leavesOf (add_category l t c)) = mset (leavesOf t') + {#leaf#}"
    by (simp add: add mset_leaves_push one) (simp add: leaf_def)
  show ?thesis
    using k mset_eq_imp_distinct_iff [OF keys] mset_eq_setD [OF keys] leaves
    by (simp add: keys_ok_def leaf_def name_def mset_map [symmetric] del: mset_map)
      (simp add: mset_map)
qed

lemma build_keeps:
  assumes "keys_ok t" "[] \<in> set (branch_keys t)"
  shows "mset (map (\<lambda>n. (leaf_code n, leaf_name n)) (leavesOf (foldl (add_category l) t cs))) =
    mset (map (\<lambda>n. (leaf_code n, leaf_name n)) (leavesOf t)) +
    mset (map (\<lambda>c. (ct_code c, categoryName (ct_code c) (ct_label c) l)) cs)"
  using assms
proof (induction cs arbitrary: t)
  case (Cons c cs)
  from add_category_keeps [OF Cons.prems, of l c] Cons.prems
  have "keys_ok (add_category l t c)" "[] \<in> set (branch_keys (add_category l t c))" by auto
  from Cons.IH [OF this] add_category_keeps [OF Cons.prems, of l c] show ?case by simp
qed simp

subsection \<open>Folding keeps the leaves\<close>

definition leaf_ids :: "TreeNode \<Rightarrow> (string \<times> string) list" where
  "leaf_ids t = map (\<lambda>n. (leaf_code n, leaf_name n)) (leavesOf t)"

lemma leaf_ids_simps [simp]:
  "leaf_ids (TreeLeaf k c nm lb tr) = [(c, nm)]"
  "leaf_ids (TreeBranch k lb cs) = concat (map leaf_ids cs)"
  by (simp_all add: leaf_ids_def [abs_def] map_concat comp_def)

lemma leaf_ids_relabel [simp]: "leaf_ids (relabel lb n) = leaf_ids n"
  by (cases n) (simp_all add: relabel_def)

lemma leaf_ids_unchain [simp]: "leaf_ids (unchain lb n) = leaf_ids n"
  by (induction lb n rule: unchain.induct) simp_all

lemma leaf_ids_fold [simp]: "leaf_ids (fold_branch t) = leaf_ids t"
proof (induction t rule: fold_branch.induct)
  case (2 k lb cs)
  have "map (leaf_ids \<circ> (\<lambda>child. fold_branch (unchain (node_label child) child))) cs = map leaf_ids cs"
    using 2 by simp
  then show ?case by (simp only: fold_branch.simps leaf_ids_simps map_map)
qed simp

lemma leaf_ids_build: "leaf_ids (buildCategoryTree cs l) = leaf_ids (foldl (add_category l) empty_root cs)"
proof -
  have "is_branch t \<Longrightarrow> is_branch (foldl (add_category l) t cs)" for t
  proof (induction cs arbitrary: t)
    case (Cons c cs)
    have push: "is_branch u \<Longrightarrow> is_branch (push_child key n u)" for key n u
      by (cases u) (simp_all add: is_branch_def)
    have "is_branch u \<Longrightarrow> is_branch (fst (descend c l a i raws (u, p, tr)))" for a i raws u p tr
      by (induction c l a i raws "(u, p, tr)" arbitrary: u p tr rule: descend.induct) (simp_all add: Let_def push)
    with Cons.prems have "is_branch (add_category l t c)"
      by (auto simp: add_category_def Let_def push split: prod.split) (metis fst_conv push)+
    then show ?case using Cons.IH by simp
  qed simp
  then have "is_branch (foldl (add_category l) empty_root cs)" by (simp add: empty_root_def is_branch_def)
  then obtain k lb ns where root: "foldl (add_category l) empty_root cs = TreeBranch k lb ns"
    by (cases "foldl (add_category l) empty_root cs") (simp_all add: is_branch_def)
  have "map (leaf_ids \<circ> (\<lambda>sec. if is_branch sec then fold_branch sec else sec)) ns = map leaf_ids ns"
    by (rule map_cong) simp_all
  then show ?thesis
    unfolding buildCategoryTree_def root Let_def node_children_def
    by (simp only: TreeNode.case leaf_ids_simps map_map)
qed

lemma leaf_ids_complete:
  "mset (leaf_ids (buildCategoryTree cs l)) =
   mset (map (\<lambda>c. (ct_code c, categoryName (ct_code c) (ct_label c) l)) cs)"
  using build_keeps [of empty_root l cs]
  by (simp add: leaf_ids_build) (simp add: leaf_ids_def empty_root_def keys_ok_def)

lemma leaf_codes_build: "leaf_code ` set (leavesOf (buildCategoryTree cs l)) = ct_code ` set cs"
proof -
  have "set (leaf_ids (buildCategoryTree cs l)) =
      set (map (\<lambda>c. (ct_code c, categoryName (ct_code c) (ct_label c) l)) cs)"
    by (rule mset_eq_setD [OF leaf_ids_complete])
  then have "fst ` set (leaf_ids (buildCategoryTree cs l)) =
      fst ` set (map (\<lambda>c. (ct_code c, categoryName (ct_code c) (ct_label c) l)) cs)"
    by (rule arg_cong)
  then show ?thesis by (simp add: leaf_ids_def image_image)
qed

text \<open>C15. The picker's tree holds every category it was given exactly once: whatever the codes and
  paths are, misaligned, shared or empty, the leaves of the built and folded tree are the given
  categories with their multiplicities, each under its own code and its own name.\<close>

theorem buildCategoryTree_complete:
  "mset (map (\<lambda>n. (leaf_code n, leaf_name n)) (leavesOf (buildCategoryTree cs l))) =
   mset (map (\<lambda>c. (ct_code c, categoryName (ct_code c) (ct_label c) l)) cs)"
  using leaf_ids_complete [of cs l] by (simp add: leaf_ids_def)

subsection \<open>What folding hides and what it does not\<close>

text \<open>What is read on the way to each leaf: the labels of the nodes, joined by the separator.\<close>

fun label_paths :: "TreeNode \<Rightarrow> (string \<times> string) list" where
  "label_paths (TreeLeaf k c nm lb tr) = [(lb, c)]"
| "label_paths (TreeBranch k lb cs) =
     map (\<lambda>(p, c). (lb @ SEPARATOR @ p, c)) (concat (map label_paths cs))"

lemma label_paths_relabel:
  "label_paths (relabel (x @ node_label n) n) = map (\<lambda>(p, c). (x @ p, c)) (label_paths n)"
  by (cases n) (auto simp: relabel_def comp_def case_prod_unfold)

lemma relabel_same [simp]: "relabel (node_label n) n = n"
  by (cases n) (simp_all add: relabel_def)

lemma label_paths_unchain: "label_paths (unchain lb n) = label_paths (relabel lb n)"
proof (induction lb n rule: unchain.induct)
  case (1 lb k lb' only)
  then show ?case
    using label_paths_relabel [of "lb @ SEPARATOR" only] by (simp add: relabel_def)
qed simp_all

lemma label_paths_fold: "label_paths (fold_branch t) = label_paths t"
proof (induction t rule: fold_branch.induct)
  case (2 k lb cs)
  have "map (label_paths \<circ> (\<lambda>child. fold_branch (unchain (node_label child) child))) cs = map label_paths cs"
    by (rule map_cong) (simp_all add: 2 label_paths_unchain)
  then show ?case by (simp only: fold_branch.simps label_paths.simps map_map)
qed simp

text \<open>No branch in the node has a single child.\<close>

fun no_single :: "TreeNode \<Rightarrow> bool" where
  "no_single (TreeLeaf _ _ _ _ _) = True"
| "no_single (TreeBranch _ _ cs) = (length cs \<noteq> 1 \<and> list_all no_single cs)"

lemma unchain_not_single: "length (node_children (unchain lb n)) \<noteq> 1"
  by (induction lb n rule: unchain.induct) (simp_all add: relabel_def node_children_def)

lemma fold_children:
  "node_children (fold_branch t) =
     map (\<lambda>child. fold_branch (unchain (node_label child) child)) (node_children t)"
  by (cases t) (simp_all add: node_children_def)

lemma no_single_cases:
  "no_single n = (is_branch n \<longrightarrow> length (node_children n) \<noteq> 1 \<and> list_all no_single (node_children n))"
  by (cases n) (simp_all add: is_branch_def node_children_def)

lemma fold_no_single: "list_all no_single (node_children (fold_branch t))"
proof (induction t rule: fold_branch.induct)
  case (2 k lb cs)
  have "no_single (fold_branch (unchain (node_label c) c))" if "c \<in> set cs" for c
    using 2 [OF that] unchain_not_single [of "node_label c" c]
    by (subst no_single_cases) (simp add: fold_children)
  then show ?case
    by (simp only: fold_branch.simps node_children_def TreeNode.case list_all_iff set_map) blast
qed (simp add: node_children_def)

text \<open>Folding removes only clicks that lead to one place: below the sections no branch has a single
  child, the sections themselves are kept, and what is read on the way to each category, label after
  label, is letter for letter what it was before folding.\<close>

theorem fold_hides_nothing:
  "list_all (\<lambda>sec. list_all no_single (node_children sec)) (node_children (buildCategoryTree cs l)) \<and>
   map node_key (node_children (buildCategoryTree cs l)) =
     map node_key (node_children (foldl (add_category l) empty_root cs)) \<and>
   concat (map label_paths (node_children (buildCategoryTree cs l))) =
     concat (map label_paths (node_children (foldl (add_category l) empty_root cs)))"
proof (intro conjI)
  let ?fold = "\<lambda>sec. if is_branch sec then fold_branch sec else sec"
  let ?root = "foldl (add_category l) empty_root cs"
  have kids: "node_children (buildCategoryTree cs l) = map ?fold (node_children ?root)"
    by (simp add: buildCategoryTree_def Let_def node_children_def)
  have key: "node_key (?fold n) = node_key n" for n
    by (cases n) (simp_all add: is_branch_def)
  show "map node_key (node_children (buildCategoryTree cs l)) = map node_key (node_children ?root)"
    unfolding kids by (simp only: map_map comp_def key)
  show "concat (map label_paths (node_children (buildCategoryTree cs l))) =
     concat (map label_paths (node_children ?root))"
    unfolding kids map_map
    by (rule arg_cong [where f = concat], rule map_cong) (simp_all add: label_paths_fold)
  have "list_all no_single (node_children (?fold n))" for n
    by (cases n) (use fold_no_single [of n] in \<open>simp_all add: is_branch_def node_children_def\<close>)
  then show "list_all (\<lambda>sec. list_all no_single (node_children sec)) (node_children (buildCategoryTree cs l))"
    unfolding kids by (simp only: list.pred_map comp_def list.pred_True)
qed

subsection \<open>The open path\<close>

lemma openPath_step:
  "openPath cur (key # keys) = n # ns \<Longrightarrow>
     is_branch n \<and> node_key n = key \<and> n \<in> set (node_children cur) \<and> ns = openPath n keys"
  by (auto split: option.splits dest: find_Some_D)

text \<open>Each branch of the path is a child of the one before it.\<close>

fun chained :: "TreeNode \<Rightarrow> TreeNode list \<Rightarrow> bool" where
  "chained cur [] = True"
| "chained cur (n # ns) = (is_branch n \<and> n \<in> set (node_children cur) \<and> chained n ns)"

text \<open>The open path survives a reloaded taxonomy as far as it still exists: the branches opened are
  a way down from the root, each a branch of the one before, their keys are a prefix of the remembered
  keys, and opening those keys again opens the same branches.\<close>

theorem openPath_prefix:
  "chained tree (openPath tree keys) \<and>
   prefix (map node_key (openPath tree keys)) keys \<and>
   openPath tree (map node_key (openPath tree keys)) = openPath tree keys"
proof (induction keys arbitrary: tree)
  case (Cons key keys)
  show ?case
  proof (cases "find (\<lambda>c. is_branch c \<and> node_key c = key) (node_children tree)")
    case (Some n)
    then have "is_branch n" "node_key n = key" "n \<in> set (node_children tree)" by (auto dest: find_Some_D)
    with Some Cons.IH [of n] show ?thesis by simp
  qed simp
qed simp

subsection \<open>Keys that collide\<close>

text \<open>A key joins the steps with a slash, and a step that comes from the wire's own path may hold one:
  \<open>A/B > C\<close> and \<open>A > B/C\<close> share the key \<open>/A/B/C\<close>. The second category is then filed under the first
  one's section, and its own section stays empty.\<close>

definition slash_categories :: "Category list" where
  "slash_categories =
     [\<lparr>ct_id = ''1'', ct_code = ''X1'', ct_label = ''x'', ct_path = ''A/B > C > x''\<rparr>,
      \<lparr>ct_id = ''2'', ct_code = ''Y1'', ct_label = ''y'', ct_path = ''A > B/C > y''\<rparr>]"

lemma tree_key_collision:
  "map (\<lambda>sec. (node_label sec, map leaf_code (leavesOf sec)))
     (node_children (buildCategoryTree slash_categories En)) =
   [(''A/B'', [''X1'', ''Y1'']), (''A'', [])]"
  by code_simp

end
