(* ===== verification/Review_Screen.thy ===== *)
theory Review_Screen
  imports Category_Tree
begin

section \<open>The review screen: ReviewScreen.tsx\<close>

text \<open>
  \<open>src/web/src/app/ReviewScreen.tsx\<close> as a state machine. The state is what the component keeps with
  \<open>useState\<close>, the data its two queries hold, the counterparty its reset effect ran for last, and
  the calls of \<open>decide\<close> that are still waiting for the backend. An event is a key, a click, typing in the
  filter, an answer of the backend, a reload of a query or a change of locale; after every event the
  component renders and the reset effect runs. What the code computes while it renders (the group,
  the tree, the options) are functions of the state.
\<close>

record review_screen =
  sc_locale :: Locale
  sc_groups :: "ReviewGroup list option"
  sc_categories :: "Category list option"
  sc_index :: nat
  sc_selected :: "string option"
  sc_query :: string
  sc_openKeys :: "string list"
  sc_showAllSides :: bool
  sc_decideError :: "string option"
  sc_effectKey :: "string option"
  sc_pending :: "(string \<times> ReviewDecision \<times> Locale) list"

subsection \<open>What a render computes\<close>

definition sc_list :: "review_screen \<Rightarrow> ReviewGroup list" where
  "sc_list st = (case sc_groups st of Some gs \<Rightarrow> gs | None \<Rightarrow> [])"

definition sc_group :: "review_screen \<Rightarrow> ReviewGroup option" where
  "sc_group st = js_at (sc_list st) (min (sc_index st) (length (sc_list st) - 1))"

definition sc_groupKey :: "review_screen \<Rightarrow> string option" where
  "sc_groupKey st = map_option gr_counterpartyKey (sc_group st)"

text \<open>\<open>/^-?0*$/\<close>.\<close>

definition zero_units :: "string \<Rightarrow> bool" where
  "zero_units u = list_all (\<lambda>c. c = CHR ''0'') (if js_startsWith u ''-'' then tl u else u)"

definition sc_groupSide :: "review_screen \<Rightarrow> Side option" where
  "sc_groupSide st =
     (let units = (case sc_group st of Some g \<Rightarrow> minorUnits (gr_total g) | None \<Rightarrow> ''0'') in
      if zero_units units then None
      else if js_startsWith units ''-'' then Some Expense else Some Income)"

definition sc_side :: "review_screen \<Rightarrow> Side option" where
  "sc_side st = (if sc_showAllSides st then None else sc_groupSide st)"

definition sc_offered :: "review_screen \<Rightarrow> Category list" where
  "sc_offered st =
     filter (\<lambda>c. let s = sideOf (ct_code c) in sc_side st = None \<or> s = Both \<or> Some s = sc_side st)
       (case sc_categories st of Some cs \<Rightarrow> cs | None \<Rightarrow> [])"

definition sc_tree :: "review_screen \<Rightarrow> TreeNode" where
  "sc_tree st = buildCategoryTree (sc_offered st) (sc_locale st)"

definition sc_allLeaves :: "review_screen \<Rightarrow> TreeNode list" where
  "sc_allLeaves st = leavesOf (sc_tree st)"

definition sc_trail :: "review_screen \<Rightarrow> TreeNode list" where
  "sc_trail st = openPath (sc_tree st) (sc_openKeys st)"

definition sc_searching :: "review_screen \<Rightarrow> bool" where
  "sc_searching st \<longleftrightarrow> js_trim (sc_query st) \<noteq> []"

definition sc_options :: "review_screen \<Rightarrow> TreeNode list" where
  "sc_options st =
     (let needle = js_toLowerCase (js_trim (sc_query st)) in
      if needle \<noteq> []
      then filter (\<lambda>n. js_includes (js_toLowerCase (js_join '' '' (leaf_trail n @ [leaf_name n]))) needle)
        (sc_allLeaves st)
      else node_children (case sc_trail st of [] \<Rightarrow> sc_tree st | t \<Rightarrow> last t))"

text \<open>\<open>selected\<close> in a condition: a string that is not empty.\<close>

definition sc_armed :: "review_screen \<Rightarrow> string option" where
  "sc_armed st = (case sc_selected st of Some c \<Rightarrow> if c \<noteq> [] then Some c else None | None \<Rightarrow> None)"

definition sc_selectedLeaf :: "review_screen \<Rightarrow> TreeNode option" where
  "sc_selectedLeaf st =
     (case sc_armed st of Some c \<Rightarrow> find (\<lambda>n. leaf_code n = c) (sc_allLeaves st) | None \<Rightarrow> None)"

text \<open>The position in the header: \<open>index + 1\<close> of \<open>list.length\<close>.\<close>

definition sc_position :: "review_screen \<Rightarrow> nat \<times> nat" where
  "sc_position st = (sc_index st + 1, length (sc_list st))"

subsection \<open>The handlers\<close>

definition choose_node :: "TreeNode \<Rightarrow> review_screen \<Rightarrow> review_screen" where
  "choose_node n st =
     (if is_branch n then st\<lparr>sc_openKeys := map node_key (sc_trail st) @ [node_key n]\<rparr>
      else st\<lparr>sc_selected := Some (leaf_code n)\<rparr>)"

text \<open>\<open>decide\<close> up to its first \<open>await\<close>, and what follows it.\<close>

definition decide :: "ReviewDecision \<Rightarrow> review_screen \<Rightarrow> review_screen" where
  "decide d st =
     (case sc_group st of
        None \<Rightarrow> st
      | Some g \<Rightarrow> st\<lparr>sc_decideError := None,
          sc_pending := sc_pending st @ [(gr_counterpartyKey g, d, sc_locale st)]\<rparr>)"

definition decide_error :: "js_error \<Rightarrow> Locale \<Rightarrow> string option" where
  "decide_error err l =
     (case err of ResolveGroupError code \<Rightarrow> authErrorMessage (Some code) l | _ \<Rightarrow> i18n_t ''error.unknown'' l)"

definition decide_settled :: "nat \<Rightarrow> unit js \<Rightarrow> review_screen \<Rightarrow> review_screen" where
  "decide_settled i res st =
     (case js_at (sc_pending st) i of
        None \<Rightarrow> st
      | Some (key, d, l) \<Rightarrow>
          let st' = st\<lparr>sc_pending := take i (sc_pending st) @ drop (Suc i) (sc_pending st)\<rparr>
          in case res of
               Inl err \<Rightarrow> st'\<lparr>sc_decideError := decide_error err l\<rparr>
             | Inr _ \<Rightarrow> st'\<lparr>sc_selected := None, sc_index := 0\<rparr>)"

definition toggle_sides :: "review_screen \<Rightarrow> review_screen" where
  "toggle_sides st =
     (let st' = (if sc_showAllSides st then st\<lparr>sc_selected := None\<rparr> else st)
      in st'\<lparr>sc_showAllSides := \<not> sc_showAllSides st, sc_openKeys := []\<rparr>)"

definition digit_keys :: "string list" where
  "digit_keys = [''1'', ''2'', ''3'', ''4'', ''5'', ''6'', ''7'', ''8'', ''9'']"

text \<open>\<open>Number(e.key) - 1\<close>.\<close>

definition digit_index :: "string \<Rightarrow> nat" where
  "digit_index key = of_char (hd key) - 49"

text \<open>\<open>onKey\<close>: the new state, and whether the default was prevented. \<open>modified\<close> is one of the meta,
  control and alt keys, \<open>typing\<close> that the focus is in an input.\<close>

definition onKey :: "string \<Rightarrow> bool \<Rightarrow> bool \<Rightarrow> review_screen \<Rightarrow> review_screen \<times> bool" where
  "onKey key modified typing st =
     (if modified then (st, False)
      else if key \<in> set digit_keys then
        (case js_at (sc_options st) (digit_index key) of
           Some n \<Rightarrow> (choose_node n st, True)
         | None \<Rightarrow> (st, False))
      else if typing \<and> key \<noteq> ''Enter'' then (st, False)
      else if key = ''Enter'' then
        ((case sc_armed st of Some c \<Rightarrow> decide (Classify c) st | None \<Rightarrow> st), True)
      else if key = ''t'' \<or> key = ''T'' then (decide InternalTransfer st, True)
      else if key = ''n'' \<or> key = ''N'' then (decide NotInPnl st, True)
      else if key = ''ArrowDown'' then
        (st\<lparr>sc_index := min (sc_index st + 1) (length (sc_list st) - 1)\<rparr>, True)
      else if key = ''ArrowUp'' then (st\<lparr>sc_index := sc_index st - 1\<rparr>, True)
      else if key = ''Backspace'' then (st\<lparr>sc_openKeys := js_slice (sc_openKeys st) 0 (- 1)\<rparr>, True)
      else if key = ''Escape'' then (st\<lparr>sc_selected := None, sc_openKeys := []\<rparr>, True)
      else (st, False))"

datatype review_event =
    KeyDown string bool bool
  | Typed string
  | ClickOption nat
  | ClickCrumb nat
  | ClickSides
  | ClickApprove
  | ClickTransfer
  | ClickNotPnl
  | Settled nat "unit js"
  | GroupsLoaded "ReviewGroup list"
  | CategoriesLoaded "Category list"
  | LocaleChanged Locale

text \<open>The last crumb is text, the others are buttons; the side button is there when the group has a side.\<close>

fun handle_event :: "review_event \<Rightarrow> review_screen \<Rightarrow> review_screen" where
  "handle_event (KeyDown key modified typing) st = fst (onKey key modified typing st)"
| "handle_event (Typed s) st = st\<lparr>sc_query := s\<rparr>"
| "handle_event (ClickOption i) st =
     (case js_at (sc_options st) i of Some n \<Rightarrow> choose_node n st | None \<Rightarrow> st)"
| "handle_event (ClickCrumb i) st =
     (if \<not> sc_searching st \<and> i < length (sc_trail st)
      then st\<lparr>sc_openKeys := map node_key (take i (sc_trail st))\<rparr> else st)"
| "handle_event ClickSides st = (if sc_groupSide st \<noteq> None then toggle_sides st else st)"
| "handle_event ClickApprove st = (case sc_armed st of Some c \<Rightarrow> decide (Classify c) st | None \<Rightarrow> st)"
| "handle_event ClickTransfer st = decide InternalTransfer st"
| "handle_event ClickNotPnl st = decide NotInPnl st"
| "handle_event (Settled i res) st = decide_settled i res st"
| "handle_event (GroupsLoaded gs) st = st\<lparr>sc_groups := Some gs\<rparr>"
| "handle_event (CategoriesLoaded cs) st = st\<lparr>sc_categories := Some cs\<rparr>"
| "handle_event (LocaleChanged l) st = st\<lparr>sc_locale := l\<rparr>"

text \<open>The effect on \<open>[group?.counterpartyKey]\<close>.\<close>

definition reset_effect :: "review_screen \<Rightarrow> review_screen" where
  "reset_effect st =
     (if sc_groupKey st = sc_effectKey st then st
      else st\<lparr>sc_decideError := None, sc_query := [], sc_selected := None, sc_openKeys := [],
        sc_showAllSides := False, sc_effectKey := sc_groupKey st\<rparr>)"

definition review_step :: "review_screen \<Rightarrow> review_event \<Rightarrow> review_screen" where
  "review_step st e = reset_effect (handle_event e st)"

definition review_init :: "Locale \<Rightarrow> review_screen" where
  "review_init l =
     \<lparr>sc_locale = l, sc_groups = None, sc_categories = None, sc_index = 0, sc_selected = None,
      sc_query = [], sc_openKeys = [], sc_showAllSides = False, sc_decideError = None,
      sc_effectKey = None, sc_pending = []\<rparr>"

definition review_run :: "review_event list \<Rightarrow> review_screen \<Rightarrow> review_screen" where
  "review_run es st = foldl review_step st es"

subsection \<open>Properties of one key\<close>

text \<open>While the filter has the focus the only live shortcuts are the digits and Enter, and with a
  modifier key none is: every other key is left to the browser, changes nothing on the screen and is not
  prevented. A digit without an option of that number is left to the browser too.\<close>

theorem onKey_inert:
  "(if modified \<or> (typing \<and> key \<notin> set digit_keys \<and> key \<noteq> ''Enter'') \<or>
       (key \<in> set digit_keys \<and> js_at (sc_options st) (digit_index key) = None)
    then onKey key modified typing st = (st, False)
    else key \<notin> set (digit_keys @ [''Enter'', ''t'', ''T'', ''n'', ''N'', ''ArrowDown'', ''ArrowUp'',
        ''Backspace'', ''Escape'']) \<or> snd (onKey key modified typing st))"
  by (auto simp: onKey_def split: option.split)

subsection \<open>Decisions\<close>

lemma choose_node_pending [simp]: "sc_pending (choose_node n st) = sc_pending st"
  by (simp add: choose_node_def)

lemma toggle_sides_pending [simp]: "sc_pending (toggle_sides st) = sc_pending st"
  by (simp add: toggle_sides_def Let_def)

lemma reset_effect_pending [simp]: "sc_pending (reset_effect st) = sc_pending st"
  by (simp add: reset_effect_def)

text \<open>A decision about the group on screen, with the category that is chosen when it classifies.\<close>

definition about_screen :: "review_screen \<Rightarrow> string \<times> ReviewDecision \<times> Locale \<Rightarrow> bool" where
  "about_screen st p =
     (case p of (key, d, l) \<Rightarrow>
        Some key = sc_groupKey st \<and>
        (case d of Classify c \<Rightarrow> sc_selected st = Some c \<and> c \<noteq> [] | _ \<Rightarrow> True))"

lemma decide_pending:
  "\<exists>ps. sc_pending (decide d st) = sc_pending st @ ps \<and> length ps \<le> 1 \<and>
     list_all (\<lambda>(key, d', l). Some key = sc_groupKey st \<and> d' = d) ps"
  by (auto simp: decide_def sc_groupKey_def split: option.split)

lemma armed_selected: "sc_armed st = Some c \<longleftrightarrow> sc_selected st = Some c \<and> c \<noteq> []"
  by (auto simp: sc_armed_def split: option.splits)

lemma decide_about:
  assumes "case d of Classify c \<Rightarrow> sc_armed st = Some c | _ \<Rightarrow> True"
  shows "\<exists>ps. sc_pending (decide d st) = sc_pending st @ ps \<and> length ps \<le> 1 \<and> list_all (about_screen st) ps"
  using decide_pending [of d st] assms
  by (fastforce simp: about_screen_def armed_selected list_all_iff split: ReviewDecision.splits)

lemma onKey_cases:
  "fst (onKey key modified typing st) = st \<or>
   (\<exists>n. js_at (sc_options st) (digit_index key) = Some n \<and> fst (onKey key modified typing st) = choose_node n st) \<or>
   (\<exists>d. (case d of Classify c \<Rightarrow> sc_armed st = Some c | _ \<Rightarrow> True) \<and> fst (onKey key modified typing st) = decide d st) \<or>
   (\<exists>i. fst (onKey key modified typing st) = st\<lparr>sc_index := i\<rparr>) \<or>
   fst (onKey key modified typing st) = st\<lparr>sc_openKeys := js_slice (sc_openKeys st) 0 (- 1)\<rparr> \<or>
   fst (onKey key modified typing st) = st\<lparr>sc_selected := None, sc_openKeys := []\<rparr>"
proof -
  define P where "P r = (fst r = st \<or>
   (\<exists>n. js_at (sc_options st) (digit_index key) = Some n \<and> fst r = choose_node n st) \<or>
   (\<exists>d. (case d of Classify c \<Rightarrow> sc_armed st = Some c | _ \<Rightarrow> True) \<and> fst r = decide d st) \<or>
   (\<exists>i. fst r = st\<lparr>sc_index := i\<rparr>) \<or>
   fst r = st\<lparr>sc_openKeys := js_slice (sc_openKeys st) 0 (- 1)\<rparr> \<or>
   fst r = st\<lparr>sc_selected := None, sc_openKeys := []\<rparr>)" for r :: "review_screen \<times> bool"
  have unchanged: "P (st, b)" and moved: "P (st\<lparr>sc_index := i\<rparr>, b)"
    and upward: "P (st\<lparr>sc_openKeys := js_slice (sc_openKeys st) 0 (- 1)\<rparr>, b)"
    and esc: "P (st\<lparr>sc_selected := None, sc_openKeys := []\<rparr>, b)"
    and digit: "P (case js_at (sc_options st) (digit_index key) of Some n \<Rightarrow> (choose_node n st, True)
      | None \<Rightarrow> (st, False))" for b i
    unfolding P_def fst_conv by (blast, blast, blast, blast, simp split: option.split)
  have decides: "P (decide d st, b)" if "case d of Classify c \<Rightarrow> sc_armed st = Some c | _ \<Rightarrow> True" for d b
    unfolding P_def by (rule disjI2, rule disjI2, rule disjI1, rule exI [of _ d]) (simp add: that)
  have other: "P (decide InternalTransfer st, b)" "P (decide NotInPnl st, b)" for b
    by (rule decides, simp)+
  have enter: "P ((case sc_armed st of Some c \<Rightarrow> decide (Classify c) st | None \<Rightarrow> st), b)" for b
    by (cases "sc_armed st") (simp_all add: unchanged decides)
  have branch: "P x \<Longrightarrow> P y \<Longrightarrow> P (if c then x else y)" for c x y by simp
  have "P (onKey key modified typing st)"
    unfolding onKey_def
    by (intro branch unchanged moved upward esc digit other enter)
  then show ?thesis unfolding P_def .
qed

lemma handle_event_pending:
  "\<exists>ps qs. sc_pending (handle_event e st) = qs @ ps \<and> length ps \<le> 1 \<and> list_all (about_screen st) ps \<and>
     (qs = sc_pending st \<or> (\<exists>i. qs = take i (sc_pending st) @ drop (Suc i) (sc_pending st)))"
proof -
  have same: ?thesis if "sc_pending (handle_event e st) = sc_pending st"
    by (rule exI [of _ "[]"], rule exI [of _ "sc_pending st"]) (simp add: that)
  have dec: ?thesis if "handle_event e st = decide d st" "case d of Classify c \<Rightarrow> sc_armed st = Some c | _ \<Rightarrow> True" for d
    using decide_about [OF that(2)] that(1) by auto
  show ?thesis
  proof (cases e)
    case (KeyDown key modified typing)
    show ?thesis
      using onKey_cases [of key modified typing st] same dec KeyDown by auto
  next
    case (Settled i res)
    then show ?thesis
      by (cases "js_at (sc_pending st) i")
        (force simp: decide_settled_def Let_def split: sum.split prod.split)+
  next
    case ClickApprove
    then show ?thesis using dec same by (cases "sc_armed st") auto
  qed (use dec same in \<open>auto split: option.splits\<close>)
qed

text \<open>C14. Whatever happens on the screen and in whatever order answers arrive, one event sends at most
  one decision, and a decision that is sent is about the counterparty on screen at that moment and, when
  it classifies, carries the category chosen at that moment; a decision already sent is never sent again.\<close>

theorem decision_for_screen:
  "\<exists>ps qs. sc_pending (review_step st e) = qs @ ps \<and> length ps \<le> 1 \<and> list_all (about_screen st) ps \<and>
     (qs = sc_pending st \<or> (\<exists>i. qs = take i (sc_pending st) @ drop (Suc i) (sc_pending st)))"
  using handle_event_pending [of e st] by (simp add: review_step_def)

subsection \<open>Choices belong to one group\<close>

text \<open>The effect has run for the group on screen.\<close>

definition settled_effect :: "review_screen \<Rightarrow> bool" where
  "settled_effect st \<longleftrightarrow> sc_effectKey st = sc_groupKey st"

lemma sc_groupKey_cong:
  "sc_groups st = sc_groups st' \<Longrightarrow> sc_index st = sc_index st' \<Longrightarrow> sc_groupKey st = sc_groupKey st'"
  by (simp add: sc_groupKey_def sc_group_def sc_list_def)

lemma settled_reset: "settled_effect (reset_effect st)"
proof (cases "sc_groupKey st = sc_effectKey st")
  case False
  then have "sc_groupKey (reset_effect st) = sc_groupKey st"
    by (intro sc_groupKey_cong) (simp_all add: reset_effect_def)
  with False show ?thesis by (simp add: settled_effect_def reset_effect_def)
qed (simp add: settled_effect_def reset_effect_def)

lemma settled_run: "settled_effect st \<Longrightarrow> settled_effect (review_run es st)"
  by (induction es arbitrary: st) (simp_all add: review_run_def review_step_def settled_reset)

lemma effectKey_ops [simp]:
  "sc_effectKey (choose_node n st) = sc_effectKey st"
  "sc_effectKey (decide d st) = sc_effectKey st"
  "sc_effectKey (toggle_sides st) = sc_effectKey st"
  by (simp_all add: choose_node_def decide_def toggle_sides_def Let_def split: option.split)

lemma effectKey_settled [simp]: "sc_effectKey (decide_settled i res st) = sc_effectKey st"
  by (simp add: decide_settled_def Let_def split: option.split sum.split prod.split)

lemma handle_event_effectKey [simp]: "sc_effectKey (handle_event e st) = sc_effectKey st"
proof (cases e)
  case (KeyDown key m ty)
  then show ?thesis using onKey_cases [of key m ty st] by auto
qed (simp_all split: option.split)

text \<open>What a person chose for a group.\<close>

definition no_choices :: "review_screen \<Rightarrow> bool" where
  "no_choices st \<longleftrightarrow> sc_selected st = None \<and> sc_query st = [] \<and> sc_openKeys st = [] \<and>
     \<not> sc_showAllSides st \<and> sc_decideError st = None"

text \<open>No choice is carried from one counterparty to the next: in every run of the screen from its
  start, an event that brings another group on screen, by arrow, by a settled decision or by a reload,
  leaves it with no selected category, an empty filter, a closed tree, its own side and no error.\<close>

theorem group_change_resets:
  "(let st = review_run es (review_init l); st' = review_step st e in
    sc_groupKey st' = sc_groupKey st \<or> no_choices st')"
proof -
  define st where "st = review_run es (review_init l)"
  have "settled_effect (review_init l)"
    by (simp add: settled_effect_def review_init_def sc_groupKey_def sc_group_def sc_list_def)
  then have st: "sc_effectKey st = sc_groupKey st"
    unfolding st_def settled_effect_def [symmetric] by (rule settled_run)
  show ?thesis
  proof (cases "sc_groupKey (handle_event e st) = sc_effectKey (handle_event e st)")
    case True
    then have "sc_groupKey (review_step st e) = sc_groupKey st"
      by (simp add: review_step_def reset_effect_def st)
    then show ?thesis by (simp add: st_def Let_def)
  next
    case False
    then have "no_choices (review_step st e)"
      by (simp add: no_choices_def review_step_def reset_effect_def)
    then show ?thesis by (simp add: st_def Let_def)
  qed
qed

subsection \<open>What is armed is on screen\<close>

lemma child_leaves: "n \<in> set (node_children b) \<Longrightarrow> set (leavesOf n) \<subseteq> set (leavesOf b)"
  by (cases b) (auto simp: node_children_def)

lemma openPath_leaves: "x \<in> set (openPath t ks) \<Longrightarrow> set (leavesOf x) \<subseteq> set (leavesOf t)"
proof (induction ks arbitrary: t)
  case (Cons k ks)
  then obtain n where n: "n \<in> set (node_children t)" "x = n \<or> x \<in> set (openPath n ks)"
    by (cases "find (\<lambda>c. is_branch c \<and> node_key c = k) (node_children t)") (auto dest: find_Some_D)
  with Cons.IH [of n] child_leaves [OF n(1)] show ?case by blast
qed simp

lemma option_leaf:
  assumes "n \<in> set (sc_options st)" "\<not> is_branch n"
  shows "leaf_code n \<in> ct_code ` set (sc_offered st)"
proof -
  have leaf: "leavesOf n = [n]" using assms(2) by (cases n) (simp_all add: is_branch_def)
  have "n \<in> set (leavesOf (sc_tree st))"
  proof (cases "js_toLowerCase (js_trim (sc_query st)) = []")
    case False
    then show ?thesis using assms(1) by (simp add: sc_options_def Let_def sc_allLeaves_def)
  next
    case True
    let ?b = "case sc_trail st of [] \<Rightarrow> sc_tree st | t \<Rightarrow> last t"
    have "n \<in> set (node_children ?b)" using True assms(1) by (simp add: sc_options_def Let_def)
    then have "n \<in> set (leavesOf ?b)" using child_leaves leaf by fastforce
    moreover have "set (leavesOf ?b) \<subseteq> set (leavesOf (sc_tree st))"
    proof (cases "sc_trail st")
      case (Cons x xs)
      then have "last (sc_trail st) \<in> set (openPath (sc_tree st) (sc_openKeys st))"
        by (metis last_in_set list.distinct(1) sc_trail_def)
      with Cons show ?thesis using openPath_leaves by simp
    qed simp
    ultimately show ?thesis by blast
  qed
  then have "leaf_code n \<in> leaf_code ` set (leavesOf (sc_tree st))" by blast
  then show ?thesis by (simp only: sc_tree_def leaf_codes_build)
qed

lemma offered_cong:
  assumes "sc_group st' = sc_group st" "sc_categories st' = sc_categories st"
    and "sc_showAllSides st \<longrightarrow> sc_showAllSides st'"
  shows "set (sc_offered st) \<subseteq> set (sc_offered st')"
proof -
  have "sc_groupSide st' = sc_groupSide st" by (simp add: sc_groupSide_def assms(1))
  with assms show ?thesis by (auto simp: sc_offered_def sc_side_def Let_def)
qed

text \<open>The choice that is armed, if any, is a category of the side on offer.\<close>

definition armed_ok :: "review_screen \<Rightarrow> bool" where
  "armed_ok st \<longleftrightarrow> (case sc_selected st of None \<Rightarrow> True | Some c \<Rightarrow> c \<in> ct_code ` set (sc_offered st))"

definition user_event :: "review_event \<Rightarrow> bool" where
  "user_event e = (case e of GroupsLoaded _ \<Rightarrow> False | CategoriesLoaded _ \<Rightarrow> False | _ \<Rightarrow> True)"

lemma selected_after:
  assumes "armed_ok st" "user_event e" "sc_selected (handle_event e st) = Some c"
  shows "c \<in> ct_code ` set (sc_offered st) \<and> (sc_showAllSides st \<longrightarrow> sc_showAllSides (handle_event e st))"
proof -
  have old: ?thesis if "sc_selected (handle_event e st) = sc_selected st"
    "sc_showAllSides st \<longrightarrow> sc_showAllSides (handle_event e st)"
    using that assms(1,3) unfolding armed_ok_def by (metis option.simps(5))
  have pick: ?thesis if "handle_event e st = choose_node n st" "js_at (sc_options st) i = Some n" for n i
  proof (cases "is_branch n")
    case True
    with that(1) show ?thesis by (intro old) (simp_all add: choose_node_def)
  next
    case False
    with that assms(3) option_leaf [OF js_at_mem [OF that(2)] False] show ?thesis
      by (simp add: choose_node_def)
  qed
  have dec: ?thesis if "handle_event e st = decide d st" for d
    using that by (intro old) (simp_all add: decide_def split: option.split)
  show ?thesis
  proof (cases e)
    case (KeyDown key m ty)
    with onKey_cases [of key m ty st] pick dec old assms(3) show ?thesis by auto
  next
    case (ClickOption i)
    then show ?thesis using pick old by (cases "js_at (sc_options st) i") simp_all
  next
    case (Settled i res)
    then show ?thesis using old assms(3)
      by (cases "js_at (sc_pending st) i"; cases res)
        (auto simp: decide_settled_def Let_def split: prod.splits)
  next
    case ClickApprove
    then show ?thesis using dec old by (cases "sc_armed st") simp_all
  next
    case ClickSides
    then show ?thesis using old assms(3)
      by (cases "sc_groupSide st = None"; cases "sc_showAllSides st") (simp_all add: toggle_sides_def)
  qed (use dec old assms(2) in \<open>simp_all add: user_event_def\<close>)
qed

lemma data_after:
  assumes "user_event e"
  shows "sc_groups (handle_event e st) = sc_groups st \<and> sc_categories (handle_event e st) = sc_categories st"
proof (cases e)
  case (KeyDown key m ty)
  then show ?thesis using onKey_cases [of key m ty st]
    by (auto simp: choose_node_def decide_def split: option.split)
qed (use assms in \<open>auto simp: user_event_def choose_node_def decide_def toggle_sides_def decide_settled_def
    Let_def split: option.split sum.split prod.split\<close>)

lemma distinct_groups:
  assumes "distinct (map gr_counterpartyKey (sc_list st))" "sc_groups st' = sc_groups st"
    and "sc_groupKey st' = sc_groupKey st"
  shows "sc_group st' = sc_group st"
proof -
  have l: "sc_list st' = sc_list st" using assms(2) by (simp add: sc_list_def)
  show ?thesis
    using assms(1,3) unfolding sc_groupKey_def sc_group_def l
    by (auto simp: js_at_def distinct_map inj_on_def split: if_splits)
qed

definition screen_inv :: "review_screen \<Rightarrow> bool" where
  "screen_inv st \<longleftrightarrow> settled_effect st \<and> armed_ok st \<and> distinct (map gr_counterpartyKey (sc_list st))"

lemma reset_data [simp]:
  "sc_groups (reset_effect st) = sc_groups st" "sc_categories (reset_effect st) = sc_categories st"
  by (simp_all add: reset_effect_def)

lemma screen_inv_step:
  assumes inv: "screen_inv st" and e: "user_event e"
  shows "screen_inv (review_step st e)"
proof -
  let ?st = "handle_event e st"
  have d: "distinct (map gr_counterpartyKey (sc_list (review_step st e)))"
    using inv data_after [OF e, of st] by (simp add: screen_inv_def sc_list_def review_step_def)
  have "armed_ok (review_step st e)"
  proof (cases "sc_groupKey ?st = sc_effectKey ?st")
    case False
    then show ?thesis by (simp add: review_step_def reset_effect_def armed_ok_def)
  next
    case True
    with inv have key: "sc_groupKey ?st = sc_groupKey st"
      by (simp add: screen_inv_def settled_effect_def)
    have same: "sc_group ?st = sc_group st"
      using inv data_after [OF e, of st] key by (intro distinct_groups) (simp_all add: screen_inv_def)
    have "review_step st e = ?st" using True by (simp add: review_step_def reset_effect_def)
    moreover have "armed_ok ?st"
    proof (cases "sc_selected ?st")
      case (Some c)
      then have "c \<in> ct_code ` set (sc_offered st)" "sc_showAllSides st \<longrightarrow> sc_showAllSides ?st"
        using selected_after [OF _ e Some] inv by (auto simp: screen_inv_def)
      with offered_cong [OF same _ this(2)] data_after [OF e, of st] Some show ?thesis
        by (auto simp: armed_ok_def)
    qed (simp add: armed_ok_def)
    ultimately show ?thesis by simp
  qed
  with d show ?thesis by (simp add: screen_inv_def review_step_def settled_reset)
qed

lemma screen_inv_run: "screen_inv st \<Longrightarrow> list_all user_event es \<Longrightarrow> screen_inv (review_run es st)"
  by (induction es arbitrary: st) (simp_all add: review_run_def screen_inv_step)

text \<open>C13. A category that is armed behind Enter can be seen: from a screen with no choice yet and with one
  row for each counterparty, as long as the lists are not reloaded, however keys, clicks, typing, answers
  and changes of language follow each other, the selected category is a leaf of the tree on offer for
  the side that is shown, so it is what the line under the filter names.\<close>

theorem armed_choice_visible:
  assumes "settled_effect st" and "sc_selected st = None"
    and "distinct (map gr_counterpartyKey (sc_list st))"
    and "list_all user_event es"
  shows "case sc_armed (review_run es st) of
      None \<Rightarrow> True
    | Some c \<Rightarrow> \<exists>n. sc_selectedLeaf (review_run es st) = Some n \<and> leaf_code n = c"
proof -
  have "screen_inv st" using assms(1-3) by (simp add: screen_inv_def armed_ok_def)
  then have ok: "armed_ok (review_run es st)"
    using screen_inv_run [OF _ assms(4)] by (simp add: screen_inv_def)
  show ?thesis
  proof (cases "sc_armed (review_run es st)")
    case (Some c)
    with ok have "c \<in> leaf_code ` set (sc_allLeaves (review_run es st))"
      by (simp add: armed_selected armed_ok_def sc_allLeaves_def sc_tree_def leaf_codes_build)
    then obtain n where "find (\<lambda>n. leaf_code n = c) (sc_allLeaves (review_run es st)) = Some n"
      by (metis (mono_tags, lifting) find_None_iff image_iff option.exhaust)
    with Some find_Some_D [OF this] show ?thesis by (simp add: sc_selectedLeaf_def)
  qed simp
qed

definition demo_group :: "string \<Rightarrow> string \<Rightarrow> ReviewGroup" where
  "demo_group key amount =
     \<lparr>gr_counterpartyKey = key, gr_counterpartyLabel = key, gr_rowCount = 1,
      gr_total = \<lparr>minorUnits = amount, currencyCode = ''BYN''\<rparr>, gr_firstSeen = [], gr_lastSeen = []\<rparr>"

definition demo_categories :: "Category list" where
  "demo_categories =
     [\<lparr>ct_id = ''1'', ct_code = ''Q1'', ct_label = ''q'', ct_path = []\<rparr>,
      \<lparr>ct_id = ''2'', ct_code = ''02z'', ct_label = ''cost'', ct_path = []\<rparr>,
      \<lparr>ct_id = ''3'', ct_code = ''01z'', ct_label = ''sales'', ct_path = []\<rparr>]"

definition demo_screen :: review_screen where
  "demo_screen = review_run [GroupsLoaded [demo_group ''a'' ''-5'', demo_group ''b'' ''7'', demo_group ''c'' ''0''],
     CategoriesLoaded demo_categories] (review_init En)"

lemma demo_screen_facts:
  "settled_effect demo_screen" "sc_selected demo_screen = None"
  "distinct (map gr_counterpartyKey (sc_list demo_screen))"
  by code_simp+

lemma demo_screen_choice: "sc_armed (review_run [KeyDown ''2'' False False] demo_screen) = Some ''02z''"
  by code_simp

theorem armed_choice_visible_witness:
  "\<exists>n. sc_selectedLeaf (review_run [KeyDown ''2'' False False] demo_screen) = Some n \<and> leaf_code n = ''02z''"
  using armed_choice_visible [OF demo_screen_facts, of "[KeyDown ''2'' False False]"] demo_screen_choice
  by (simp add: user_event_def)

text \<open>An outflow is never offered an income category and an inflow never an expense, unless the
  reviewer asked for both sides; a category of an unknown section is always on offer; and with both
  sides on, or with a group that nets to zero, everything is.\<close>

theorem offered_side:
  "list_all (\<lambda>n. case sc_side st of None \<Rightarrow> True
     | Some s \<Rightarrow> sideOf (leaf_code n) = s \<or> sideOf (leaf_code n) = Both) (sc_allLeaves st) \<and>
   list_all (\<lambda>c. (sc_side st \<noteq> None \<and> sideOf (ct_code c) \<noteq> Both \<and> sc_side st \<noteq> Some (sideOf (ct_code c))) \<or>
     list_ex (\<lambda>n. leaf_code n = ct_code c) (sc_allLeaves st))
     (case sc_categories st of Some cs \<Rightarrow> cs | None \<Rightarrow> [])"
proof
  have codes: "leaf_code ` set (sc_allLeaves st) = ct_code ` set (sc_offered st)"
    by (simp add: sc_allLeaves_def sc_tree_def leaf_codes_build)
  show "list_all (\<lambda>n. case sc_side st of None \<Rightarrow> True
     | Some s \<Rightarrow> sideOf (leaf_code n) = s \<or> sideOf (leaf_code n) = Both) (sc_allLeaves st)"
    unfolding list_all_iff
  proof
    fix n assume "n \<in> set (sc_allLeaves st)"
    then have "leaf_code n \<in> ct_code ` set (sc_offered st)" using codes by blast
    then show "case sc_side st of None \<Rightarrow> True
     | Some s \<Rightarrow> sideOf (leaf_code n) = s \<or> sideOf (leaf_code n) = Both"
      by (auto simp: sc_offered_def Let_def split: option.split)
  qed
  have "c \<in> set (sc_offered st) \<Longrightarrow> list_ex (\<lambda>n. leaf_code n = ct_code c) (sc_allLeaves st)" for c
    using codes by (metis (mono_tags, lifting) image_iff list_ex_iff)
  then show "list_all (\<lambda>c. (sc_side st \<noteq> None \<and> sideOf (ct_code c) \<noteq> Both \<and> sc_side st \<noteq> Some (sideOf (ct_code c))) \<or>
     list_ex (\<lambda>n. leaf_code n = ct_code c) (sc_allLeaves st))
     (case sc_categories st of Some cs \<Rightarrow> cs | None \<Rightarrow> [])"
    by (cases "sc_categories st"; cases "sc_side st") (auto simp: list_all_iff sc_offered_def Let_def)
qed

subsection \<open>What reloads and late answers do\<close>

text \<open>A reload that flips the sign of the group on screen hides the side of the category that is chosen,
  and the choice stays armed: nothing on screen names it, and Enter sends it.\<close>

lemma reload_leaves_hidden_choice_armed:
  "let st = review_run [KeyDown ''2'' False False, GroupsLoaded [demo_group ''a'' ''5'']] demo_screen in
   sc_armed st = Some ''02z'' \<and> sc_selectedLeaf st = None \<and>
   sc_pending (review_step st (KeyDown ''Enter'' False False)) = [(''a'', Classify ''02z'', En)]"
  by code_simp

text \<open>The refusal of a decision is shown under whatever group is on screen when it arrives.\<close>

lemma late_refusal_under_other_group:
  "let st = review_run [KeyDown ''t'' False False, KeyDown ''ArrowDown'' False False,
       Settled 0 (Inl (Error []))] demo_screen in
   sc_groupKey st = Some ''b'' \<and> sc_decideError st \<noteq> None"
  by code_simp

text \<open>The header counts with the index that was not clamped, and the arrow up walks it back unseen.\<close>

lemma position_past_the_end:
  "let st = review_run [KeyDown ''ArrowDown'' False False, KeyDown ''ArrowDown'' False False,
       GroupsLoaded [demo_group ''a'' ''-5'']] demo_screen in
   sc_position st = (3, 1) \<and> sc_groupKey (review_step st (KeyDown ''ArrowUp'' False False)) = sc_groupKey st"
  by code_simp

end
