(* ===== verification/Review_Live.thy ===== *)
theory Review_Live
  imports Review_Screen
begin

section \<open>Every category can be reached in the picker\<close>

text \<open>
  The tree of \<open>categoryTree.ts\<close> and the clicks of \<open>ReviewScreen.tsx\<close> together: the keys of the branches tell
  siblings apart, also after folding, so opening them one by one chained to every leaf.
\<close>

subsection \<open>Keys of the finished tree\<close>

lemma mset_subset_concat:
  "(\<And>x. x \<in> set xs \<Longrightarrow> mset (f x) \<subseteq># mset (g x)) \<Longrightarrow> mset (concat (map f xs)) \<subseteq># mset (concat (map g xs))"
  by (induction xs) (auto intro!: subset_mset.add_mono)

lemma distinct_of_subset: "mset xs \<subseteq># mset ys \<Longrightarrow> distinct ys \<Longrightarrow> distinct xs"
proof -
  assume "mset xs \<subseteq># mset ys" and d: "distinct ys"
  then obtain zs where "mset ys = mset (xs @ zs)" by (metis ex_mset mset_append subset_mset.le_iff_add)
  from mset_eq_imp_distinct_iff [OF this] d show "distinct xs" by simp
qed

lemma keys_unchain: "mset (branch_keys (unchain lb n)) \<subseteq># mset (branch_keys n)"
proof (induction lb n rule: unchain.induct)
  case (1 lb k l only)
  then show ?case by (auto intro: subset_mset.order_trans)
qed (auto simp: relabel_def)

lemma keys_fold: "mset (branch_keys (fold_branch t)) \<subseteq># mset (branch_keys t)"
proof (induction t rule: fold_branch.induct)
  case (2 k lb cs)
  have "mset (concat (map (\<lambda>c. branch_keys (fold_branch (unchain (node_label c) c))) cs)) \<subseteq># mset (concat (map branch_keys cs))"
    by (rule mset_subset_concat) (metis 2 keys_unchain subset_mset.order_trans)
  then show ?case by (simp add: comp_def)
qed simp

lemma keys_grown: "keys_ok t \<Longrightarrow> [] \<in> set (branch_keys t) \<Longrightarrow> keys_ok (foldl (add_category l) t cs)"
proof (induction cs arbitrary: t)
  case (Cons c cs)
  with add_category_keeps [OF Cons.prems, of l c] show ?case by (auto intro!: Cons.IH)
qed simp

lemma keys_build: "keys_ok (buildCategoryTree cs l)"
proof -
  let ?root = "foldl (add_category l) empty_root cs"
  have ok: "keys_ok ?root" by (rule keys_grown) (simp_all add: empty_root_def keys_ok_def)
  show ?thesis
  proof (cases ?root)
    case (TreeLeaf k c nm lb tr)
    then show ?thesis by (simp add: buildCategoryTree_def Let_def keys_ok_def node_children_def)
  next
    case (TreeBranch k lb ns)
    have "mset (concat (map (\<lambda>s. branch_keys (if is_branch s then fold_branch s else s)) ns)) \<subseteq># mset (concat (map branch_keys ns))"
      by (rule mset_subset_concat) (simp add: keys_fold)
    then have "mset (branch_keys (buildCategoryTree cs l)) \<subseteq># mset (branch_keys ?root)"
      using TreeBranch by (simp add: buildCategoryTree_def Let_def node_children_def comp_def)
    then show ?thesis using ok unfolding keys_ok_def by (blast intro: distinct_of_subset)
  qed
qed

subsection \<open>A path to every leaf\<close>

lemma find_branch:
  assumes "distinct (concat (map branch_keys cs))" and "c \<in> set cs" and "is_branch c"
  shows "find (\<lambda>x. is_branch x \<and> node_key x = node_key c) cs = Some c"
  using assms
proof (induction cs)
  case (Cons x xs)
  have head: "node_key y \<in> set (branch_keys y)" if "is_branch y" for y
    using that by (cases y) (simp_all add: is_branch_def)
  show ?case
  proof (cases "x = c")
    case False
    with Cons.prems have "c \<in> set xs" by simp
    moreover have "set (branch_keys x) \<inter> (\<Union>y \<in> set xs. set (branch_keys y)) = {}" using Cons.prems(1) by simp
    ultimately have "\<not> (is_branch x \<and> node_key x = node_key c)"
      using head [of x] head [OF Cons.prems(3)] by (metis UN_I disjoint_iff)
    then have skip: "find (\<lambda>y. is_branch y \<and> node_key y = node_key c) (x # xs) = find (\<lambda>y. is_branch y \<and> node_key y = node_key c) xs" by auto
    show ?thesis unfolding skip using Cons \<open>c \<in> set xs\<close> by simp
  qed (use Cons.prems in simp)
qed simp

lemma path_to_leaf:
  assumes "n \<in> set (leavesOf t)" and "is_branch t"
  shows "\<exists>p. chained t p \<and> n \<in> set (node_children (last (t # p))) \<and> \<not> is_branch n"
  using assms
proof (induction t rule: leavesOf.induct)
  case (2 k lb cs)
  from 2(2) obtain c where c: "c \<in> set cs" "n \<in> set (leavesOf c)" by auto
  show ?case
  proof (cases "is_branch c")
    case True
    with 2(1) c obtain p where "chained c p" "n \<in> set (node_children (last (c # p)))" "\<not> is_branch n" by blast
    then show ?thesis using c True by (intro exI [of _ "c # p"]) (simp add: node_children_def)
  next
    case False
    then have "n = c" using c(2) by (cases c) (simp_all add: is_branch_def)
    then show ?thesis using c False by (intro exI [of _ "[]"]) (simp add: node_children_def)
  qed
qed (simp add: is_branch_def)

lemma openPath_chained:
  assumes "keys_ok t" and "chained t p"
  shows "openPath t (map node_key p) = p"
  using assms
proof (induction p arbitrary: t)
  case (Cons n p)
  then have n: "n \<in> set (node_children t)" "is_branch n" "chained n p" by simp_all
  then obtain k lb cs where t: "t = TreeBranch k lb cs" by (cases t) (simp_all add: node_children_def)
  with Cons.prems n have d: "distinct (concat (map branch_keys cs))" and mem: "n \<in> set cs"
    by (simp_all add: keys_ok_def node_children_def)
  then have "keys_ok n" unfolding keys_ok_def by (auto simp: distinct_concat_iff)
  with Cons.IH n(3) find_branch [OF d mem n(2)] t show ?case by (simp add: node_children_def)
qed simp

subsection \<open>Clicking along the path\<close>

lemma sc_tree_same [simp]:
  "sc_offered (st\<lparr>sc_openKeys := ks\<rparr>) = sc_offered st" "sc_tree (st\<lparr>sc_openKeys := ks\<rparr>) = sc_tree st"
  "sc_groupKey (st\<lparr>sc_openKeys := ks\<rparr>) = sc_groupKey st"
  "sc_groupKey (st\<lparr>sc_selected := c\<rparr>) = sc_groupKey st"
  by (simp_all add: sc_offered_def sc_tree_def sc_side_def sc_groupSide_def sc_group_def sc_list_def sc_groupKey_def)

text \<open>A screen where nothing is typed and no reset is due, with the branches \<open>p\<close> open.\<close>

definition browsing :: "TreeNode list \<Rightarrow> review_screen \<Rightarrow> bool" where
  "browsing p st \<longleftrightarrow> js_trim (sc_query st) = [] \<and> settled_effect st \<and> chained (sc_tree st) p \<and>
     sc_openKeys st = map node_key p"

lemma browsing_options:
  assumes "browsing p st"
  shows "sc_options st = node_children (last (sc_tree st # p))" and "sc_trail st = p"
proof -
  show "sc_trail st = p"
    using assms openPath_chained [OF keys_build, of "sc_offered st" "sc_locale st" p]
    by (simp add: browsing_def sc_trail_def sc_tree_def)
  then show "sc_options st = node_children (last (sc_tree st # p))"
    using assms by (cases p) (simp_all add: browsing_def sc_options_def)
qed

lemma click_child:
  assumes "browsing p st" and "n \<in> set (node_children (last (sc_tree st # p)))"
  shows "\<exists>i. review_step st (ClickOption i) = choose_node n st"
proof -
  obtain i where i: "i < length (sc_options st)" "sc_options st ! i = n"
    using assms browsing_options(1) [OF assms(1)] by (metis in_set_conv_nth)
  have "sc_groupKey (choose_node n st) = sc_groupKey st" by (simp add: choose_node_def)
  then have "reset_effect (choose_node n st) = choose_node n st"
    using assms(1) by (simp add: reset_effect_def browsing_def settled_effect_def)
  with i show ?thesis by (intro exI [of _ i]) (simp add: review_step_def js_at_def)
qed

lemma chained_append: "chained t (p @ [n]) \<longleftrightarrow> chained t p \<and> is_branch n \<and> n \<in> set (node_children (last (t # p)))"
  by (induction p arbitrary: t) auto

lemma click_branch:
  assumes "browsing p st" and "chained (sc_tree st) (p @ [n])"
  shows "\<exists>i. review_step st (ClickOption i) = st\<lparr>sc_openKeys := map node_key (p @ [n])\<rparr> \<and>
    browsing (p @ [n]) (st\<lparr>sc_openKeys := map node_key (p @ [n])\<rparr>)"
  using assms click_child [OF assms(1), of n] browsing_options(2) [OF assms(1)]
  by (auto simp: chained_append choose_node_def browsing_def settled_effect_def)

lemma click_path:
  assumes "browsing [] st" and "chained (sc_tree st) p"
  shows "\<exists>clicks. review_run (map ClickOption clicks) st = st\<lparr>sc_openKeys := map node_key p\<rparr> \<and>
    browsing p (st\<lparr>sc_openKeys := map node_key p\<rparr>)"
  using assms(2)
proof (induction p rule: rev_induct)
  case Nil
  have "st\<lparr>sc_openKeys := []\<rparr> = st" using assms(1) by (simp add: browsing_def)
  then show ?case using assms(1) by (intro exI [of _ "[]"]) (simp add: review_run_def)
next
  case (snoc n p)
  then obtain clicks where run: "review_run (map ClickOption clicks) st = st\<lparr>sc_openKeys := map node_key p\<rparr>"
    and b: "browsing p (st\<lparr>sc_openKeys := map node_key p\<rparr>)" by (auto simp: chained_append)
  from click_branch [OF b, of n] snoc.prems obtain i where
    "review_step (st\<lparr>sc_openKeys := map node_key p\<rparr>) (ClickOption i) = st\<lparr>sc_openKeys := map node_key (p @ [n])\<rparr>"
    "browsing (p @ [n]) (st\<lparr>sc_openKeys := map node_key (p @ [n])\<rparr>)" by auto
  with run show ?case by (intro exI [of _ "clicks @ [i]"]) (simp add: review_run_def)
qed

lemma leaf_of_category:
  assumes "c \<in> set (sc_offered st)"
  shows "\<exists>n \<in> set (leavesOf (sc_tree st)). leaf_code n = ct_code c"
  proof -
  have "ct_code c \<in> leaf_code ` set (leavesOf (sc_tree st))"
    unfolding sc_tree_def leaf_codes_build using assms by (rule imageI)
  then show ?thesis by auto
qed

lemma tree_is_branch: "is_branch (sc_tree st)"
  by (simp add: sc_tree_def buildCategoryTree_def Let_def is_branch_def)

lemma category_clickable:
  assumes "browsing [] st" and "c \<in> set (sc_offered st)"
  shows "\<exists>clicks. sc_selected (review_run (map ClickOption clicks) st) = Some (ct_code c)"
proof -
  obtain n where n: "n \<in> set (leavesOf (sc_tree st))" "leaf_code n = ct_code c" using leaf_of_category [OF assms(2)] by blast
  from path_to_leaf [OF n(1) tree_is_branch] obtain p where p: "chained (sc_tree st) p"
    "n \<in> set (node_children (last (sc_tree st # p)))" "\<not> is_branch n" by blast
  from click_path [OF assms(1) p(1)] obtain clicks where
    run: "review_run (map ClickOption clicks) st = st\<lparr>sc_openKeys := map node_key p\<rparr>"
    and b: "browsing p (st\<lparr>sc_openKeys := map node_key p\<rparr>)" by blast
  from click_child [OF b, of n] p(2) obtain i where
    "review_step (st\<lparr>sc_openKeys := map node_key p\<rparr>) (ClickOption i) = choose_node n (st\<lparr>sc_openKeys := map node_key p\<rparr>)"
    by auto
  then have "sc_selected (review_run (map ClickOption (clicks @ [i])) st) = Some (ct_code c)"
    using run p(3) n(2) by (simp add: review_run_def choose_node_def)
  then show ?thesis by blast
qed

text \<open>C9. No category is out of reach: whatever has happened on the review screen before, after clearing the
  filter and pressing Escape every category on offer for the group on screen can be chosen by clicking
  options, one after the other.\<close>

theorem every_category_clickable:
  "let st = review_run (es @ [Typed [], KeyDown ''Escape'' False False]) (review_init l)
   in list_all (\<lambda>c. \<exists>clicks. sc_selected (review_run (map ClickOption clicks) st) = Some (ct_code c)) (sc_offered st)"
proof -
  define st0 where "st0 = review_run es (review_init l)"
  have s0: "settled_effect st0"
    unfolding st0_def by (rule settled_run) (simp add: settled_effect_def review_init_def sc_groupKey_def sc_group_def sc_list_def)
  define st where "st = review_run (es @ [Typed [], KeyDown ''Escape'' False False]) (review_init l)"
  have "st = st0\<lparr>sc_query := [], sc_selected := None, sc_openKeys := []\<rparr>"
    using s0 by (simp add: st_def st0_def review_run_def review_step_def onKey_def digit_keys_def reset_effect_def
        settled_effect_def sc_groupKey_def sc_group_def sc_list_def)
  moreover have "settled_effect st" unfolding st_def by (rule settled_run)
    (simp add: settled_effect_def review_init_def sc_groupKey_def sc_group_def sc_list_def)
  ultimately have "browsing [] st" by (simp add: browsing_def js_trim_def)
  then show ?thesis by (simp add: st_def [symmetric] list_all_iff category_clickable)
qed

end
