(* ===== verification/Shell.thy ===== *)
theory Shell
  imports Report_View Batch_Reports Review_Data
begin

section \<open>The application shell: AppLayout, Rail, TopBar, PeriodPicker\<close>

text \<open>
  \<open>src/web/src/app/AppLayout.tsx\<close>: the gate that decides what a browser sees and sets the session, the
  range of the header, and what a pick of a month does; \<open>Rail.tsx\<close>, \<open>TopBar.tsx\<close> and the two fields of
  \<open>PeriodPicker.tsx\<close> as renders. The route is the one fact the shell reads of the router: the search of
  the report, when the report is the active route.
\<close>

subsection \<open>The gate of AppLayout.tsx\<close>

datatype gate =
    ShowLoading
  | ShowUnauthenticated
  | ShowError string
  | ShowFirstRun
  | ShowShell PUser POrganisation "PEntity option"

definition appLayout_gate :: "'s env \<Rightarrow> PGetCurrentUserResponse query \<Rightarrow> gate" where
  "appLayout_gate E q =
     (case q of
        query.Pending \<Rightarrow> ShowLoading
      | Failed e \<Rightarrow> if connectCode E e = Unauthenticated then ShowUnauthenticated else ShowError (connectMessage E e)
      | Loaded r \<Rightarrow>
          (case gcurq_user r of
             None \<Rightarrow> ShowUnauthenticated
           | Some u \<Rightarrow>
               (case gcurq_organisations r of
                  [] \<Rightarrow> ShowFirstRun
                | org # _ \<Rightarrow> ShowShell u org (js_at (org_entities org) 0))))"

definition session_of :: "POrganisation \<Rightarrow> PEntity option \<Rightarrow> Session" where
  "session_of org ent =
     \<lparr>orgId = org_id org, entityId = (case ent of Some e \<Rightarrow> ent_id e | None \<Rightarrow> []), baseCurrency = org_baseCurrency org\<rparr>"

text \<open>One render: the session is set before anything below is rendered, and in no other branch.\<close>

definition appLayout_render :: "'s env \<Rightarrow> PGetCurrentUserResponse query \<Rightarrow> ('s, gate) io" where
  "appLayout_render E q =
     (case appLayout_gate E q of
        ShowShell u org ent \<Rightarrow>
          io_bind (setSession (session_of org ent)) (\<lambda>_. io_return (ShowShell u org ent))
      | g \<Rightarrow> io_return g)"

text \<open>\<open>a || b\<close> of strings.\<close>

definition js_or :: "string \<Rightarrow> string \<Rightarrow> string" where
  "js_or a b = (if a \<noteq> [] then a else b)"

definition account_slot :: "PUser \<Rightarrow> Locale \<Rightarrow> html" where
  "account_slot u l =
     El ''div'' []
       [El ''span'' [] [Txt (js_or (js_or (usr_email u) (usr_name u)) (usr_id u))],
        El ''button'' [] [msg ''signedIn.signOut'' l]]"

subsection \<open>Rail.tsx\<close>

definition Count :: "int \<Rightarrow> Locale \<Rightarrow> html list" where
  "Count v l =
     (if v \<le> 0 then []
      else [El ''span'' [(''aria-label'', show_int v @ '' '' @ shown (i18n_t ''nav.awaitingReview'' l))]
        [Txt (show_int v)]])"

definition Item :: "string \<Rightarrow> string \<Rightarrow> int option \<Rightarrow> Locale \<Rightarrow> html" where
  "Item to label count l =
     LinkTo to [] [] []
       ([El ''span'' [] [], El ''span'' [] [Txt label]] @ (case count of None \<Rightarrow> [] | Some v \<Rightarrow> Count v l))"

definition Rail :: "Locale \<Rightarrow> int \<Rightarrow> html option \<Rightarrow> html" where
  "Rail l awaitingReview account =
     El ''nav'' [(''aria-label'', shown (i18n_t ''nav.primary'' l))]
       ([El ''div'' [] [El ''span'' [] [msg ''app.title'' l]],
         El ''div'' []
           [Item ''/app/home'' (shown (i18n_t ''nav.home'' l)) None l,
            Item ''/app/imports'' (shown (i18n_t ''nav.imports'' l)) None l,
            Item ''/app/review'' (shown (i18n_t ''nav.review'' l)) (Some awaitingReview) l,
            Item ''/app/reports/pnl'' (shown (i18n_t ''nav.reports'' l)) None l]] @
        (case account of Some a \<Rightarrow> [El ''div'' [] [a]] | None \<Rightarrow> []))"

subsection \<open>PeriodPicker.tsx and TopBar.tsx\<close>

text \<open>The calendar of a field is \<open>react-datepicker\<close>; its properties are the chosen month and the bounds.
  \<open>None\<close> is a date the platform cannot read.\<close>

definition month_attr :: "string \<Rightarrow> (nat \<times> nat) option \<Rightarrow> (string \<times> string) list" where
  "month_attr name d = [(name, case d of Some m \<Rightarrow> fromLocalMonth m | None \<Rightarrow> ''Invalid Date'')]"

definition MonthField :: "string \<Rightarrow> string \<Rightarrow> string option \<Rightarrow> string option \<Rightarrow> Locale \<Rightarrow> html" where
  "MonthField labelKey v minMonth maxMonth l =
     (let bound = (\<lambda>name m. case m of Some s \<Rightarrow> if s \<noteq> [] then month_attr name (toLocalMonth s) else [] | None \<Rightarrow> [])
      in El ''label'' []
        [msg labelKey l,
         El ''DatePicker'' (month_attr ''selected'' (toLocalMonth v) @ bound ''minDate'' minMonth @ bound ''maxDate'' maxMonth @
           (if l = Ru then [(''locale'', ''ru'')] else [])) []])"

definition PeriodPicker :: "string \<times> string \<Rightarrow> Locale \<Rightarrow> html" where
  "PeriodPicker r l =
     El ''div'' []
       [MonthField ''report.period.from'' (fst r) None (Some (snd r)) l,
        MonthField ''report.period.to'' (snd r) (Some (fst r)) None l]"

definition TopBar_Field :: "string \<Rightarrow> string \<Rightarrow> html" where
  "TopBar_Field label v = El ''div'' [] [El ''span'' [] [Txt label], El ''span'' [] [Txt v]]"

definition Divider :: html where
  "Divider = El ''span'' [(''aria-hidden'', ''true'')] []"

definition Choice :: "string \<Rightarrow> string list \<Rightarrow> string \<Rightarrow> html" where
  "Choice label vs now =
     El ''div'' [] (El ''span'' [] [Txt label] #
       map (\<lambda>v. El ''button'' [(''aria-pressed'', if v = now then ''true'' else ''false'')] [Txt v]) vs)"

definition TopBar :: "string \<Rightarrow> string \<Rightarrow> string \<times> string \<Rightarrow> Locale \<Rightarrow> ThemeChoice \<Rightarrow> html" where
  "TopBar organisation ent r l th =
     El ''header'' []
       [TopBar_Field (shown (i18n_t ''topbar.organisation'' l)) organisation, Divider,
        TopBar_Field (shown (i18n_t ''topbar.entity'' l)) ent, Divider,
        PeriodPicker r l,
        El ''div'' []
          [Choice (shown (i18n_t ''topbar.language'' l)) (map Locale_text [En, Ru]) (Locale_text l), Divider,
           Choice (shown (i18n_t ''topbar.theme'' l)) (map ThemeChoice_text [Light, Dark, System]) (ThemeChoice_text th)]]"

subsection \<open>The shell as a whole\<close>

record shell =
  sh_page :: page
  sh_report :: "search option"

text \<open>\<open>range\<close>: the report's own search while the report is open, the remembered range elsewhere.\<close>

definition shell_range :: "shell \<Rightarrow> string \<times> string" where
  "shell_range st =
     (case sh_report st of Some s \<Rightarrow> (se_from s, se_to s) | None \<Rightarrow> getPeriodRange (sh_page st))"

definition AppLayout ::
    "'s env \<Rightarrow> PGetCurrentUserResponse query \<Rightarrow> ReviewSummary query \<Rightarrow> shell \<Rightarrow> html \<Rightarrow> (Locale \<Rightarrow> html) \<Rightarrow>
     html \<Rightarrow> html" where
  "AppLayout E q review st unauthenticated firstRun children =
     (let l = pg_locale (sh_page st) in
      case appLayout_gate E q of
        ShowLoading \<Rightarrow> El ''div'' [] [Loading [CHR 0xE2, CHR 0x80, CHR 0xA6] 2]
      | ShowUnauthenticated \<Rightarrow> unauthenticated
      | ShowError m \<Rightarrow> El ''div'' [] [ErrorState m None]
      | ShowFirstRun \<Rightarrow> firstRun l
      | ShowShell u org ent \<Rightarrow>
          El ''div'' []
            [El ''a'' [(''href'', ''#main-content'')] [msg ''a11y.skipToContent'' l],
             Rail l (case review of Loaded s \<Rightarrow> rs_groups s | _ \<Rightarrow> 0) (Some (account_slot u l)),
             El ''div'' []
               [TopBar (org_name org) (case ent of Some e \<Rightarrow> ent_name e | None \<Rightarrow> []) (shell_range st) l
                  (pg_theme (sh_page st)),
                El ''main'' [(''id'', ''main-content'')] [children]]])"

text \<open>Navigation to the report goes through \<open>validateSearch\<close>.\<close>

definition search_query :: "(string \<times> string) list \<Rightarrow> string \<Rightarrow> js_value option" where
  "search_query kvs k = map_option JsString (map_of kvs k)"

definition open_report :: "(string \<Rightarrow> js_value option) \<Rightarrow> shell \<Rightarrow> shell" where
  "open_report q st = st\<lparr>sh_report := Some (validateSearch (sh_page st) q)\<rparr>"

definition onPeriodChange :: "string \<times> string \<Rightarrow> shell \<Rightarrow> shell" where
  "onPeriodChange r st =
     (let st' = st\<lparr>sh_page := setPeriodRange r (sh_page st)\<rparr>
      in case sh_report st of
           None \<Rightarrow> st'
         | Some s \<Rightarrow> open_report (search_query
             [(''from'', fst r), (''to'', snd r), (''view'', ReportView_text (se_view s))]) st')"

text \<open>What a person can do to the shell. A link to the report carries a search or none; the tabs of the
  report keep its range; any other link leaves the report.\<close>

datatype shell_event =
    PickMonth month_field "(nat \<times> nat) option"
  | PickLanguage Locale
  | PickTheme ThemeChoice
  | OpenReport "string \<Rightarrow> js_value option"
  | SwitchTab ReportView
  | OpenElsewhere

fun shell_step :: "shell \<Rightarrow> shell_event \<Rightarrow> shell" where
  "shell_step st (PickMonth f date) =
     (case date of
        None \<Rightarrow> st
      | Some d \<Rightarrow> onPeriodChange (pick_month f (Some d) (shell_range st)) st)"
| "shell_step st (PickLanguage l) = st\<lparr>sh_page := setLocale l (sh_page st)\<rparr>"
| "shell_step st (PickTheme th) = st\<lparr>sh_page := setTheme th (sh_page st)\<rparr>"
| "shell_step st (OpenReport q) = open_report q st"
| "shell_step st (SwitchTab v) =
     (case sh_report st of
        None \<Rightarrow> st
      | Some s \<Rightarrow> open_report (search_query (search_params (s\<lparr>se_view := v\<rparr>))) st)"
| "shell_step st OpenElsewhere = st\<lparr>sh_report := None\<rparr>"

definition shell_run :: "shell_event list \<Rightarrow> shell \<Rightarrow> shell" where
  "shell_run es st = foldl shell_step st es"

subsection \<open>Properties\<close>

lemma page_storage [simp]: "pg_range (storage_write k v p) = pg_range p" "pg_theme (storage_write k v p) = pg_theme p"
  "pg_locale (storage_write k v p) = pg_locale p"
  by (simp_all add: storage_write_def)

lemma range_kept [simp]:
  "getPeriodRange (setTheme th p) = getPeriodRange p" "getPeriodRange (setLocale l p) = getPeriodRange p"
  "getPeriodRange (setPeriodRange r p) = r"
  by (simp_all add: getPeriodRange_def setTheme_def setLocale_def setPeriodRange_def Let_def emit_preferences_def
      apply_preferences_def)

lemma search_query_simps [simp]:
  "search_query [] k = None"
  "search_query ((k', v) # kvs) k = (if k' = k then Some (JsString v) else search_query kvs k)"
  by (simp_all add: search_query_def)

lemma view_of_text: "map_of VIEWS (ReportView_text v) = Some v"
  by (cases v) (simp_all add: VIEWS_def ReportView_text_def)

lemma pick_period_same: "pick_period (Some (JsString a)) a = a"
  by (simp add: pick_period_def)

lemma onPeriodChange_facts:
  "getPeriodRange (sh_page (onPeriodChange r st)) = r"
  "sh_report (onPeriodChange r st) =
     map_option (\<lambda>s. \<lparr>se_from = fst r, se_to = snd r, se_view = se_view s\<rparr>) (sh_report st)"
  "shell_range (onPeriodChange r st) = r"
  by (simp_all add: onPeriodChange_def open_report_def validateSearch_def Let_def pick_period_same view_of_text
      shell_range_def split: option.split)

definition picks_no_month :: "shell_event \<Rightarrow> bool" where
  "picks_no_month e = (case e of PickMonth f d \<Rightarrow> d = None | _ \<Rightarrow> True)"

lemma step_keeps_range:
  "picks_no_month e \<Longrightarrow> getPeriodRange (sh_page (shell_step st e)) = getPeriodRange (sh_page st)"
  by (cases e) (auto simp: picks_no_month_def open_report_def split: option.split)

lemma run_keeps_range:
  "list_all picks_no_month es \<Longrightarrow> getPeriodRange (sh_page (shell_run es st)) = getPeriodRange (sh_page st)"
  by (induction es arbitrary: st) (simp_all add: shell_run_def step_keeps_range)

text \<open>Only a signed-in person with an organisation opens the application: one render sends nothing, shows
  the shell exactly for such an answer, and then the session is that of the first organisation and its
  first entity; in every other case, waiting, failed, signed out or first run, the session stays as it was.\<close>

theorem appLayout_session:
  "case appLayout_render E q w of (r, w') \<Rightarrow>
     r = Inr (appLayout_gate E q) \<and> sent w' = sent w \<and> server w' = server w \<and>
     current w' =
       (case q of
          Loaded res \<Rightarrow>
            if gcurq_user res \<noteq> None \<and> gcurq_organisations res \<noteq> []
            then (let org = hd (gcurq_organisations res)
                  in Some \<lparr>orgId = org_id org,
                       entityId = (if org_entities org = [] then [] else ent_id (hd (org_entities org))),
                       baseCurrency = org_baseCurrency org\<rparr>)
            else current w
        | _ \<Rightarrow> current w)"
proof (cases q)
  case (Loaded res)
  show ?thesis
  proof (cases "gcurq_user res")
    case (Some u)
    then show ?thesis using Loaded
      by (cases "gcurq_organisations res")
        (auto simp: appLayout_render_def appLayout_gate_def io_bind_def io_return_def setSession_def session_of_def
          js_at_def hd_conv_nth split: list.split)
  qed (simp add: Loaded appLayout_render_def appLayout_gate_def io_return_def)
qed (simp_all add: appLayout_render_def appLayout_gate_def io_return_def)

text \<open>The range of the header is one: a month picked anywhere changes the range that is shown, the range
  that is remembered and, when the report is open, the range in its address, to the same value, and leaves the
  tab of the report alone; and however long a person then goes about without picking another month, the
  rail's own link to the report opens it on that range.\<close>

theorem picked_range_stays:
  "let r = pick_month f (Some d) (shell_range st);
       st' = shell_step st (PickMonth f (Some d))
   in shell_range st' = r \<and> getPeriodRange (sh_page st') = r \<and>
      map_option se_view (sh_report st') = map_option se_view (sh_report st) \<and>
      (if list_all picks_no_month es
       then sh_report (shell_step (shell_run es st') (OpenReport (\<lambda>_. None))) =
         Some \<lparr>se_from = fst r, se_to = snd r, se_view = TableView\<rparr>
       else True)"
  by (simp add: Let_def onPeriodChange_facts run_keeps_range open_report_def validateSearch_def pick_period_def
      option.map_comp comp_def)

text \<open>The rail has four destinations, in pipeline order after home, and one count: it shows the number of
  groups that wait for review when there are any, and no number at all when there is none.\<close>

theorem rail_badge:
  "links (Rail l n None) = map (\<lambda>to. (to, [], [])) [''/app/home'', ''/app/imports'', ''/app/review'', ''/app/reports/pnl''] \<and>
   texts (Rail l n None) =
     [shown (i18n_t ''app.title'' l), shown (i18n_t ''nav.home'' l), shown (i18n_t ''nav.imports'' l),
      shown (i18n_t ''nav.review'' l)] @ (if 0 < n then [show_int n] else []) @ [shown (i18n_t ''nav.reports'' l)]"
  by (simp add: Rail_def Item_def Count_def msg_def)

end
