(* ===== verification/Shell_Spec.thy ===== *)
theory Shell_Spec
  imports Shell
begin

section \<open>What the shell promises: one range, one language, one theme\<close>

text \<open>
  The abstract machine a person has in mind, without storage, document, address or router: the range on
  screen, the range that is remembered, the language, the theme, and the tab of the report if it is open.
  The shell of \<open>AppLayout.tsx\<close>, \<open>TopBar.tsx\<close>, \<open>router.tsx\<close> and the two preference modules implements it.
\<close>

record spec =
  sp_shown :: "string \<times> string"
  sp_remembered :: "string \<times> string"
  sp_language :: Locale
  sp_theme :: ThemeChoice
  sp_tab :: "ReportView option"

fun spec_step :: "spec \<Rightarrow> shell_event \<Rightarrow> spec" where
  "spec_step a (PickMonth f date) =
     (case date of
        None \<Rightarrow> a
      | Some d \<Rightarrow> let r = pick_month f (Some d) (sp_shown a) in a\<lparr>sp_shown := r, sp_remembered := r\<rparr>)"
| "spec_step a (PickLanguage l) = a\<lparr>sp_language := l\<rparr>"
| "spec_step a (PickTheme th) = a\<lparr>sp_theme := th\<rparr>"
| "spec_step a (OpenReport q) =
     a\<lparr>sp_shown := (pick_period (q ''from'') (fst (sp_remembered a)), pick_period (q ''to'') (snd (sp_remembered a))),
       sp_tab := Some (case q ''view'' of Some (JsString s) \<Rightarrow> if s = ''charts'' then ChartsView else TableView | _ \<Rightarrow> TableView)\<rparr>"
| "spec_step a (SwitchTab v) = (if sp_tab a = None then a else a\<lparr>sp_tab := Some v\<rparr>)"
| "spec_step a OpenElsewhere = a\<lparr>sp_shown := sp_remembered a, sp_tab := None\<rparr>"

definition shell_abs :: "shell \<Rightarrow> spec" where
  "shell_abs st =
     \<lparr>sp_shown = shell_range st, sp_remembered = getPeriodRange (sh_page st), sp_language = pg_locale (sh_page st),
      sp_theme = pg_theme (sh_page st), sp_tab = map_option se_view (sh_report st)\<rparr>"

text \<open>On the report an end of the range that is no period is the remembered one.\<close>

definition shell_ok :: "shell \<Rightarrow> bool" where
  "shell_ok st =
     (case sh_report st of
        None \<Rightarrow> True
      | Some s \<Rightarrow>
          (PERIOD_test (se_from s) \<or> se_from s = fst (getPeriodRange (sh_page st))) \<and>
          (PERIOD_test (se_to s) \<or> se_to s = snd (getPeriodRange (sh_page st))))"

lemma pick_period_ok: "PERIOD_test (pick_period v d) \<or> pick_period v d = d"
  by (auto simp: pick_period_def split: option.split js_value.split)

lemma pick_period_kept: "PERIOD_test a \<or> a = d \<Longrightarrow> pick_period (Some (JsString a)) d = a"
  by (auto simp: pick_period_def)

lemma open_report_ok: "shell_ok (open_report q st)"
  using pick_period_ok by (auto simp: shell_ok_def open_report_def validateSearch_def Let_def)

lemma shell_step_ok:
  assumes "shell_ok st" shows "shell_ok (shell_step st ev)"
proof (cases ev)
  case (PickMonth f date)
  then show ?thesis using assms
    by (auto simp: shell_ok_def onPeriodChange_facts split: option.splits)
next
  case (SwitchTab v)
  then show ?thesis using assms open_report_ok by (auto split: option.split)
qed (use assms open_report_ok in \<open>auto simp: shell_ok_def split: option.splits\<close>)

lemma page_choices [simp]:
  "pg_locale (setTheme th p) = pg_locale p" "pg_theme (setLocale l p) = pg_theme p"
  "pg_locale (setLocale l p) = l" "pg_theme (setTheme th p) = th"
  "pg_locale (setPeriodRange r p) = pg_locale p" "pg_theme (setPeriodRange r p) = pg_theme p"
  by (simp_all add: setTheme_def setLocale_def setPeriodRange_def Let_def emit_preferences_def apply_preferences_def
      storage_write_def)

lemma onPeriodChange_page: "sh_page (onPeriodChange r st) = setPeriodRange r (sh_page st)"
  by (simp add: onPeriodChange_def open_report_def Let_def split: option.split)

lemma shell_step_abs:
  assumes "shell_ok st" shows "shell_abs (shell_step st ev) = spec_step (shell_abs st) ev"
proof (cases ev)
  case (PickMonth f date)
  then show ?thesis
    by (cases date) (simp_all add: shell_abs_def onPeriodChange_facts onPeriodChange_page Let_def option.map_comp comp_def)
next
  case (OpenReport q)
  then show ?thesis
    by (auto simp: shell_abs_def open_report_def validateSearch_def Let_def shell_range_def VIEWS_def
        split: option.split js_value.split)
next
  case (SwitchTab v)
  then show ?thesis using assms
    by (auto simp: shell_abs_def shell_ok_def open_report_def validateSearch_def Let_def shell_range_def search_params_def
        pick_period_kept view_of_text split: option.split)
qed (auto simp: shell_abs_def shell_range_def split: option.split)

text \<open>C10. The shell is its specification: from any page off the report, whatever its storage allows and however a
  person then picks months, languages and themes, opens reports by any link, switches tabs and leaves, what is
  shown, what is remembered and which tab is open are those of the abstract machine, which has neither storage
  nor addresses.\<close>

theorem shell_refines:
  "shell_abs (shell_run es \<lparr>sh_page = p, sh_report = None\<rparr>) =
     foldl spec_step (shell_abs \<lparr>sh_page = p, sh_report = None\<rparr>) es"
proof -
  have "shell_ok (shell_run es st) \<and> shell_abs (shell_run es st) = foldl spec_step (shell_abs st) es" if "shell_ok st" for st
    using that
  proof (induction es arbitrary: st)
    case (Cons e es)
    from Cons.IH [OF shell_step_ok [OF Cons.prems, of e]] show ?case
      by (simp add: shell_run_def shell_step_abs [OF Cons.prems])
  qed (simp add: shell_run_def)
  then show ?thesis by (simp add: shell_ok_def)
qed

end
