(* ===== verification/Home_View.thy ===== *)
theory Home_View
  imports Shell
begin

section \<open>First run and home: FirstRunScreen, HomeScreen, AccountCard\<close>

text \<open>
  \<open>src/web/src/app/FirstRunScreen.tsx\<close> as a state machine over its form and its mutation,
  \<open>HomeScreen.tsx\<close> and \<open>AccountCard.tsx\<close> as renders of their queries.
\<close>

subsection \<open>FirstRunScreen.tsx\<close>

record market =
  mk_country :: string
  mk_baseCurrency :: string
  mk_labelKey :: string

definition MARKETS :: "market list" where
  "MARKETS =
     [\<lparr>mk_country = ''BY'', mk_baseCurrency = ''BYN'', mk_labelKey = ''firstRun.market.by''\<rparr>,
      \<lparr>mk_country = ''KZ'', mk_baseCurrency = ''KZT'', mk_labelKey = ''firstRun.market.kz''\<rparr>,
      \<lparr>mk_country = ''PL'', mk_baseCurrency = ''PLN'', mk_labelKey = ''firstRun.market.pl''\<rparr>]"

text \<open>The form, the mutation (pending, and the error of the last one that ended), the requests made so far
  and how often the current user was asked for again.\<close>

record first_run =
  fr_name :: string
  fr_entityName :: string
  fr_market :: market
  fr_pending :: bool
  fr_error :: "js_error option"
  fr_requests :: "CreateOrganisationInput list"
  fr_refreshes :: nat

definition first_run_init :: first_run where
  "first_run_init =
     \<lparr>fr_name = [], fr_entityName = [], fr_market = hd MARKETS, fr_pending = False, fr_error = None,
      fr_requests = [], fr_refreshes = 0\<rparr>"

text \<open>\<open>mutation.mutate()\<close>: the mutation is pending, its last error is gone, and \<open>createOrganisation\<close> is
  called with the form as it is.\<close>

definition first_run_mutate :: "first_run \<Rightarrow> first_run" where
  "first_run_mutate st =
     st\<lparr>fr_pending := True, fr_error := None,
        fr_requests := fr_requests st @
          [\<lparr>coi_name = fr_name st, coi_country = mk_country (fr_market st),
            coi_baseCurrency = mk_baseCurrency (fr_market st), coi_entityName = fr_entityName st\<rparr>]\<rparr>"

definition onSubmit :: "first_run \<Rightarrow> first_run" where
  "onSubmit st =
     (if js_trim (fr_name st) = [] \<or> js_trim (fr_entityName st) = [] \<or> fr_pending st then st
      else first_run_mutate st)"

definition onMarket :: "string \<Rightarrow> first_run \<Rightarrow> first_run" where
  "onMarket v st =
     (case find (\<lambda>m. mk_country m = v) MARKETS of Some next \<Rightarrow> st\<lparr>fr_market := next\<rparr> | None \<Rightarrow> st)"

definition mutation_settled :: "'a js \<Rightarrow> first_run \<Rightarrow> first_run" where
  "mutation_settled res st =
     (if \<not> fr_pending st then st
      else case res of
        Inl e \<Rightarrow> st\<lparr>fr_pending := False, fr_error := Some e\<rparr>
      | Inr _ \<Rightarrow> st\<lparr>fr_pending := False, fr_refreshes := fr_refreshes st + 1\<rparr>)"

datatype first_run_event =
    TypeName string | TypeEntityName string | ChooseMarket string | Submit | MutationEnded "unit js"

fun first_run_step :: "first_run \<Rightarrow> first_run_event \<Rightarrow> first_run" where
  "first_run_step st (TypeName v) = st\<lparr>fr_name := v\<rparr>"
| "first_run_step st (TypeEntityName v) = st\<lparr>fr_entityName := v\<rparr>"
| "first_run_step st (ChooseMarket v) = onMarket v st"
| "first_run_step st Submit = onSubmit st"
| "first_run_step st (MutationEnded res) = mutation_settled res st"

inductive first_run_reach :: "first_run \<Rightarrow> nat \<Rightarrow> bool" where
  start: "first_run_reach first_run_init 0"
| step: "first_run_reach st n \<Longrightarrow>
    first_run_reach (first_run_step st ev) (case ev of MutationEnded _ \<Rightarrow> if fr_pending st then n + 1 else n | _ \<Rightarrow> n)"

definition firstRun_error :: "js_error option \<Rightarrow> Locale \<Rightarrow> string option" where
  "firstRun_error err l =
     (case err of
        None \<Rightarrow> None
      | Some (CreateOrganisationError code) \<Rightarrow> authErrorMessage (Some code) l
      | Some _ \<Rightarrow> i18n_t ''error.unknown'' l)"

definition FirstRun_Field :: "string \<Rightarrow> Locale \<Rightarrow> html \<Rightarrow> html" where
  "FirstRun_Field labelKey l child = El ''label'' [] [El ''span'' [] [msg labelKey l], child]"

definition FirstRunScreen :: "first_run \<Rightarrow> Locale \<Rightarrow> html" where
  "FirstRunScreen st l =
     El ''div'' []
       [El ''div'' [] [El ''h1'' [] [msg ''firstRun.heading'' l], El ''p'' [] [msg ''firstRun.blurb'' l]],
        El ''form'' []
          ([FirstRun_Field ''firstRun.name'' l (El ''input'' [(''value'', fr_name st)] []),
            FirstRun_Field ''firstRun.entityName'' l (El ''input'' [(''value'', fr_entityName st)] []),
            FirstRun_Field ''firstRun.market'' l (El ''select'' [(''value'', mk_country (fr_market st))]
              (map (\<lambda>m. El ''option'' [(''value'', mk_country m)] [msg (mk_labelKey m) l]) MARKETS))] @
           (case firstRun_error (fr_error st) l of
              Some m \<Rightarrow> if m \<noteq> [] then [ErrorState m None] else []
            | None \<Rightarrow> []) @
           [El ''button'' (if fr_pending st then [(''disabled'', [])] else [])
              [msg (if fr_pending st then ''firstRun.submitting'' else ''firstRun.submit'') l]])]"

subsection \<open>HomeScreen.tsx and AccountCard.tsx\<close>

definition query_data :: "'a query \<Rightarrow> 'a option" where
  "query_data q = (case q of Loaded x \<Rightarrow> Some x | _ \<Rightarrow> None)"

definition Card :: "string \<Rightarrow> string \<Rightarrow> Locale \<Rightarrow> html list \<Rightarrow> html" where
  "Card to titleKey l children = LinkTo to [] [] [] (El ''h2'' [] [msg titleKey l] # children)"

definition ImportsCard :: "Batch list query \<Rightarrow> Locale \<Rightarrow> html" where
  "ImportsCard q l =
     (let data = query_data q;
          latest = Option.bind data (\<lambda>bs. js_at bs 0)
      in Card ''/app/imports'' ''nav.imports'' l
        ([El ''p'' [] [Txt (case data of Some bs \<Rightarrow> show_nat (length bs) | None \<Rightarrow> NO_DATA)],
          El ''p'' [] [msg ''home.imports.count'' l]] @
         (case latest of
            Some b \<Rightarrow> [El ''div'' [] [El ''span'' [] [msg ''home.imports.latest'' l],
              El ''span'' [] [Txt (fileName b)], BatchStateChip (state b) l]]
          | None \<Rightarrow> [])))"

definition ReviewCard :: "ReviewSummary query \<Rightarrow> Locale \<Rightarrow> html js" where
  "ReviewCard q l =
     (let data = query_data q in
      ebind (case data of Some s \<Rightarrow> fmt (rs_amount s) l | None \<Rightarrow> Inr NO_DATA) (\<lambda>amount.
      Inr (Card ''/app/review'' ''nav.review'' l
        ([El ''p'' [] [Txt (case data of Some s \<Rightarrow> show_int (rs_groups s) | None \<Rightarrow> NO_DATA)],
          El ''p'' [] [msg ''home.review.awaiting'' l]] @
         (case data of Some s \<Rightarrow> if rs_groups s > 0 then [El ''p'' [] [Txt amount]] else [] | None \<Rightarrow> [])))))"

text \<open>The currency is the report's, the units its net result's.\<close>

definition ReportsCard :: "intl \<Rightarrow> int \<Rightarrow> Report query \<Rightarrow> Locale \<Rightarrow> html js" where
  "ReportsCard N now q l =
     (let range = defaultRange now;
          data = query_data q
      in ebind (case data of
           Some r \<Rightarrow>
             (case exponentOf (rp_currencyCode r) of
                Some e \<Rightarrow> formatMinorUnits (minorUnits (rp_netTotal r)) e l
              | None \<Rightarrow> Inr NO_DATA)
         | None \<Rightarrow> Inr NO_DATA) (\<lambda>net.
         Inr (Card ''/app/reports/pnl'' ''nav.reports'' l
           [El ''p'' [] [Txt net], El ''p'' [] [msg ''home.reports.net'' l],
            El ''p'' [] [Txt (formatPeriodRange N (fst range) (snd range) l)]])))"

definition ReportsCard_query :: "'s env \<Rightarrow> int \<Rightarrow> ('s, Report) io" where
  "ReportsCard_query E now = (let range = defaultRange now in getReport E (fst range) (snd range))"

definition AccountCard :: "PGetCurrentUserResponse query \<Rightarrow> Locale \<Rightarrow> html" where
  "AccountCard q l =
     (let user = Option.bind (query_data q) gcurq_user;
          email = (case user of Some u \<Rightarrow> usr_email u | None \<Rightarrow> []);
          name = (case user of Some u \<Rightarrow> usr_name u | None \<Rightarrow> [])
      in El ''section'' []
        [El ''h2'' [] [msg ''home.account.title'' l], El ''p'' [] [Txt (js_or (js_or email name) NO_DATA)],
         El ''button'' [] [msg ''signedIn.signOut'' l]])"

definition HomeScreen ::
    "intl \<Rightarrow> int \<Rightarrow> Batch list query \<Rightarrow> ReviewSummary query \<Rightarrow> Report query \<Rightarrow>
     PGetCurrentUserResponse query \<Rightarrow> Locale \<Rightarrow> html js" where
  "HomeScreen N now batches review report user l =
     ebind (ReviewCard review l) (\<lambda>reviewCard.
     ebind (ReportsCard N now report l) (\<lambda>reportsCard.
     Inr (El ''div'' []
       [El ''h1'' [] [msg ''home.title'' l],
        El ''div'' [] [ImportsCard batches l, reviewCard, reportsCard],
        El ''div'' [] [AccountCard user l]])))"

subsection \<open>Properties\<close>

definition request_ok :: "CreateOrganisationInput \<Rightarrow> bool" where
  "request_ok r \<longleftrightarrow> js_trim (coi_name r) \<noteq> [] \<and> js_trim (coi_entityName r) \<noteq> [] \<and>
     (coi_country r, coi_baseCurrency r) \<in> set [(''BY'', ''BYN''), (''KZ'', ''KZT''), (''PL'', ''PLN'')]"

lemma markets_pairs:
  "set (map (\<lambda>m. (mk_country m, mk_baseCurrency m)) MARKETS) = set [(''BY'', ''BYN''), (''KZ'', ''KZT''), (''PL'', ''PLN'')]"
  by (simp add: MARKETS_def)

definition first_run_inv :: "first_run \<Rightarrow> nat \<Rightarrow> bool" where
  "first_run_inv st n \<longleftrightarrow> fr_market st \<in> set MARKETS \<and> list_all request_ok (fr_requests st) \<and>
     length (fr_requests st) = n + (if fr_pending st then 1 else 0)"

lemma mutate_inv:
  assumes "first_run_inv st n" and "\<not> fr_pending st" and "js_trim (fr_name st) \<noteq> []" "js_trim (fr_entityName st) \<noteq> []"
  shows "first_run_inv (first_run_mutate st) n"
proof -
  have "(mk_country (fr_market st), mk_baseCurrency (fr_market st)) \<in> set [(''BY'', ''BYN''), (''KZ'', ''KZT''), (''PL'', ''PLN'')]"
    using assms(1) unfolding markets_pairs [symmetric] by (auto simp: first_run_inv_def)
  with assms show ?thesis by (simp add: first_run_inv_def first_run_mutate_def request_ok_def)
qed

lemma onSubmit_inv: "first_run_inv st n \<Longrightarrow> first_run_inv (onSubmit st) n"
  using mutate_inv by (auto simp: onSubmit_def)

lemma onMarket_inv: "first_run_inv st n \<Longrightarrow> first_run_inv (onMarket v st) n"
  by (auto simp: onMarket_def first_run_inv_def find_Some_iff split: option.split)

lemma settled_inv:
  "first_run_inv st n \<Longrightarrow> first_run_inv (mutation_settled res st) (if fr_pending st then n + 1 else n)"
  by (auto simp: mutation_settled_def first_run_inv_def split: sum.split)

lemma reach_inv: "first_run_reach st n \<Longrightarrow> first_run_inv st n"
proof (induction rule: first_run_reach.induct)
  case start
  then show ?case by (simp add: first_run_inv_def first_run_init_def MARKETS_def)
next
  case (step st n ev)
  then show ?case
    by (cases ev) (simp_all add: onSubmit_inv onMarket_inv settled_inv, simp_all add: first_run_inv_def)
qed

text \<open>However a person types, chooses, submits and waits, every organisation the first-run form asks for has
  a name and an entity name that are more than blanks, and one of the three pilot pairs of country and
  currency; and there is never more than one request that has not ended.\<close>

theorem first_run_requests:
  assumes "first_run_reach st n"
  shows "list_all request_ok (fr_requests st) \<and> n \<le> length (fr_requests st) \<and> length (fr_requests st) \<le> n + 1 \<and>
    (if fr_pending st then length (fr_requests st) = n + 1 else length (fr_requests st) = n)"
  using reach_inv [OF assms] by (simp add: first_run_inv_def)

definition demo_first_run :: first_run where
  "demo_first_run =
     first_run_step (first_run_step (first_run_step (first_run_step first_run_init (TypeName ''Acme'')) (TypeEntityName ''Acme LLC''))
       (ChooseMarket ''PL'')) Submit"

lemma first_run_requests_witness:
  "list_all request_ok (fr_requests demo_first_run) \<and> fr_requests demo_first_run \<noteq> []"
proof -
  have "first_run_reach demo_first_run 0"
    using first_run_reach.step [OF first_run_reach.step [OF first_run_reach.step [OF first_run_reach.step
      [OF first_run_reach.start, of "TypeName ''Acme''"], of "TypeEntityName ''Acme LLC''"], of "ChooseMarket ''PL''"], of Submit]
    by (simp only: demo_first_run_def first_run_event.case)
  moreover have "fr_requests demo_first_run \<noteq> []" by code_simp
  ultimately show ?thesis using first_run_requests [of demo_first_run 0] by simp
qed

text \<open>A failed creation is always told in words: whatever the server answers, the error that reaches the form
  has a message of the catalogue in the reader's language, never a bare code and never nothing.\<close>

theorem first_run_error_told:
  "case fst (createOrganisation E input w) of
     Inr _ \<Rightarrow> True
   | Inl e \<Rightarrow> \<exists>k. k \<in> set message_keys \<and> firstRun_error (Some e) l = i18n_t k l \<and> i18n_t k l \<noteq> None"
proof (cases "fst (createOrganisation E input w)")
  case (Inl e)
  then obtain err where "e = CreateOrganisationError (coded E err)"
    by (auto simp: createOrganisation_def io_catch_def io_bind_def io_return_def io_throw_def split: prod.splits sum.splits)
  moreover have "coded E err \<noteq> []" by (simp add: coded_def Let_def)
  ultimately show ?thesis
    using Inl error_unknown_key i18n_t_None_iff [of _ l]
    by (auto simp: firstRun_error_def authErrorMessage_def Let_def)
qed simp

lemma links_chip: "links (BatchStateChip s l) = []"
  by (simp add: BatchStateChip_def Chip_def Icon_def split: prod.split)

text \<open>Home leads to the three stages of the pipeline in their order and nowhere else, and its account card
  names nobody before the answer is there.\<close>

theorem HomeScreen_links:
  "(case HomeScreen N now batches review report user l of
      Inl e \<Rightarrow> (\<exists>s. review = Loaded s) \<or> (\<exists>r. report = Loaded r)
    | Inr h \<Rightarrow> links h = [(''/app/imports'', [], []), (''/app/review'', [], []), (''/app/reports/pnl'', [], [])]) \<and>
   texts (AccountCard query.Pending l) = [shown (i18n_t ''home.account.title'' l), NO_DATA, shown (i18n_t ''signedIn.signOut'' l)]"
proof -
  have review: "\<exists>s. review = Loaded s" if "ReviewCard review l = Inl e" for e
    using that by (cases review) (simp_all add: ReviewCard_def query_data_def)
  have report: "\<exists>r. report = Loaded r" if "ReportsCard N now report l = Inl e" for e
    using that by (cases report) (simp_all add: ReportsCard_def query_data_def Let_def)
  have imports_links: "links (ImportsCard batches l) = [(''/app/imports'', [], [])]"
    by (cases "Option.bind (query_data batches) (\<lambda>bs. js_at bs 0)")
      (simp_all add: ImportsCard_def Let_def Card_def msg_def links_chip)
  have review_links: "links h = [(''/app/review'', [], [])]" if "ReviewCard review l = Inr h" for h
    using that by (auto simp: ReviewCard_def Let_def Card_def msg_def ebind_Inr_iff split: option.splits if_splits)
  have report_links: "links h = [(''/app/reports/pnl'', [], [])]" if "ReportsCard N now report l = Inr h" for h
    using that by (auto simp: ReportsCard_def Let_def Card_def msg_def ebind_Inr_iff)
  have account: "links (AccountCard user l) = []" by (simp add: AccountCard_def Let_def msg_def)
  have "texts (AccountCard query.Pending l) = [shown (i18n_t ''home.account.title'' l), NO_DATA, shown (i18n_t ''signedIn.signOut'' l)]"
    by (simp add: AccountCard_def Let_def msg_def query_data_def js_or_def)
  moreover have "case HomeScreen N now batches review report user l of
      Inl e \<Rightarrow> (\<exists>s. review = Loaded s) \<or> (\<exists>r. report = Loaded r)
    | Inr h \<Rightarrow> links h = [(''/app/imports'', [], []), (''/app/review'', [], []), (''/app/reports/pnl'', [], [])]"
    using review report
    by (cases "ReviewCard review l"; cases "ReportsCard N now report l")
      (auto simp: HomeScreen_def msg_def imports_links review_links report_links account)
  ultimately show ?thesis by blast
qed

text \<open>The home card's figure and the report its link opens can be of different months: the card asks for the
  current year to date, the link carries no range and opens the remembered one.\<close>

lemma card_and_report_differ:
  assumes "getPeriodRange p = (''2025-01'', ''2025-12'')"
  shows "validateSearch p (\<lambda>_. None) = \<lparr>se_from = ''2025-01'', se_to = ''2025-12'', se_view = TableView\<rparr>
    \<and> defaultRange 1788220800000 = (''2026-01'', ''2026-09'')"
proof -
  have "defaultRange 1788220800000 = (''2026-01'', ''2026-09'')" by code_simp
  then show ?thesis using assms by (simp add: validateSearch_def Let_def pick_period_def)
qed

end
