(* ===== verification/Chart_Data.thy ===== *)
theory Chart_Data
  imports Report_View "HOL-Library.Multiset"
begin

section \<open>The data of the six charts\<close>

text \<open>
  The pure parts of \<open>src/web/src/app/charts\<close>: \<open>support.ts\<close> (folding a tail into one slot) and, for each
  chart, the rows it draws and its table prints, as functions of the report. A plotted value is
  \<open>Number(BigInt(units)) / 10 ** exp\<close>, here the exact quotient, a rational; the double it is in the
  browser equals it up to rounding. A figure that is not an integer throws, so the rows are in \<open>js\<close>.
\<close>

subsection \<open>support.ts\<close>

record 'a sliced =
  sl_label :: string
  sl_value :: rat
  sl_item :: 'a

record 'a folded =
  fo_kept :: "'a sliced list"
  fo_other :: "(string \<times> rat) option"

text \<open>\<open>sort((a, b) => b.value - a.value)\<close> is stable.\<close>

definition by_value :: "'a sliced list \<Rightarrow> 'a sliced list" where
  "by_value items = sort_key (\<lambda>s. - sl_value s) items"

definition foldTopN :: "'a sliced list \<Rightarrow> nat \<Rightarrow> string \<Rightarrow> 'a folded" where
  "foldTopN items limit otherLabel =
     (let sorted = by_value items in
      if length sorted \<le> limit then \<lparr>fo_kept = sorted, fo_other = None\<rparr>
      else let kept = take limit sorted; tail = drop limit sorted
           in \<lparr>fo_kept = kept, fo_other = Some (otherLabel, foldl (\<lambda>sum s. sum + sl_value s) 0 tail)\<rparr>)"

definition axisNumberFormatter :: "(Locale \<Rightarrow> rat \<Rightarrow> string) \<Rightarrow> Locale \<Rightarrow> rat \<Rightarrow> string" where
  "axisNumberFormatter decimal l v = decimal l v"

text \<open>The environment: no window, no \<open>matchMedia\<close>, one that throws, or its answer.\<close>

datatype motion_query = NoWindow | NoMatchMedia | MatchMediaThrows | Matches bool

definition reducedMotion :: "motion_query \<Rightarrow> bool" where
  "reducedMotion m = (case m of Matches b \<Rightarrow> b | _ \<Rightarrow> True)"

definition chartsAnimate :: "motion_query \<Rightarrow> bool" where
  "chartsAnimate m = (\<not> reducedMotion m)"

subsection \<open>Shared by the charts\<close>

fun efilter :: "('a \<Rightarrow> bool js) \<Rightarrow> 'a list \<Rightarrow> 'a list js" where
  "efilter f [] = Inr []"
| "efilter f (x # xs) = ebind (f x) (\<lambda>b. ebind (efilter f xs) (\<lambda>ys. Inr (if b then x # ys else ys)))"

definition to_major :: "nat \<Rightarrow> string \<Rightarrow> rat js" where
  "to_major e u = ebind (js_BigInt u) (\<lambda>i. Inr (of_int i / 10 ^ e))"

text \<open>\<open>line.computed\<close> rows are results of others; \<open>01\<close> is net sales.\<close>

definition cost_sections :: "Report \<Rightarrow> ReportLine list" where
  "cost_sections r = filter (\<lambda>x. \<not> ln_computed x \<and> ln_categoryId x \<noteq> ''01'') (rp_lines r)"

definition positive_sections :: "Report \<Rightarrow> ReportLine list js" where
  "positive_sections r =
     efilter (\<lambda>x. ebind (js_BigInt (minorUnits (ln_total x))) (\<lambda>i. Inr (i > 0))) (cost_sections r)"

definition revenue_line :: "Report \<Rightarrow> ReportLine option" where
  "revenue_line r = find (\<lambda>x. ln_categoryId x = ''01'') (rp_lines r)"

subsection \<open>MoneyFlowChart.tsx\<close>

definition expenseLinesFor :: "Report \<Rightarrow> nat \<Rightarrow> Locale \<Rightarrow> unit sliced list js" where
  "expenseLinesFor r e l =
     ebind (positive_sections r) (emap (\<lambda>x.
       ebind (to_major e (minorUnits (ln_total x))) (\<lambda>v.
       Inr \<lparr>sl_label = lineName (ln_categoryId x) (ln_label x) l, sl_value = v, sl_item = ()\<rparr>)))"

definition MAX_EXPENSE_SLOTS :: nat where "MAX_EXPENSE_SLOTS = 8"

definition SERIES_SLOTS :: "string list" where
  "SERIES_SLOTS = map (\<lambda>i. ''--vk-series-'' @ show_nat i) [1, 2, 3, 4, 5, 6, 7, 8]"

record flow_link =
  fl_source :: string
  fl_target :: string
  fl_value :: rat

text \<open>A node is its name and the token of its colour.\<close>

record flow =
  fw_nodes :: "(string \<times> string) list"
  fw_links :: "flow_link list"

definition expense_nodes :: "unit sliced list \<Rightarrow> string \<Rightarrow> (string \<times> rat) list" where
  "expense_nodes items otherLabel =
     (let f = foldTopN items MAX_EXPENSE_SLOTS otherLabel
      in map (\<lambda>s. (sl_label s, sl_value s)) (fo_kept f) @ (case fo_other f of Some x \<Rightarrow> [x] | None \<Rightarrow> []))"

definition flow_of :: "string \<Rightarrow> rat \<Rightarrow> (string \<times> rat) list \<Rightarrow> Locale \<Rightarrow> flow" where
  "flow_of revenueName totalIn nodes l =
     (let totalInLabel = shown (i18n_t ''chart.moneyflow.totalIn'' l);
          netLabel = shown (i18n_t ''chart.netresult.series'' l);
          totalOut = foldl (\<lambda>s n. s + snd n) 0 nodes;
          remainder = totalIn - totalOut
      in \<lparr>fw_nodes =
            [(revenueName, ''--vk-text''), (totalInLabel, ''--vk-text'')] @
            map (\<lambda>(i, n). (fst n, SERIES_SLOTS ! (i mod length SERIES_SLOTS))) (enumerate 0 nodes) @
            (if remainder > 0 then [(netLabel, ''--vk-text'')] else []),
          fw_links =
            [\<lparr>fl_source = revenueName, fl_target = totalInLabel, fl_value = totalIn\<rparr>] @
            map (\<lambda>n. \<lparr>fl_source = totalInLabel, fl_target = fst n, fl_value = snd n\<rparr>) nodes @
            (if remainder > 0 then [\<lparr>fl_source = totalInLabel, fl_target = netLabel, fl_value = remainder\<rparr>] else [])\<rparr>)"

definition money_flow_graph :: "Report \<Rightarrow> Locale \<Rightarrow> flow option js" where
  "money_flow_graph r l =
     (case exponentOf (rp_currencyCode r) of
        None \<Rightarrow> Inr None
      | Some e \<Rightarrow>
          (case revenue_line r of
             None \<Rightarrow> Inr None
           | Some revenue \<Rightarrow>
               ebind (js_BigInt (minorUnits (ln_total revenue))) (\<lambda>i.
               if i \<le> 0 then Inr None
               else ebind (expenseLinesFor r e l) (\<lambda>items.
                 Inr (Some (flow_of (lineName (ln_categoryId revenue) (ln_label revenue) l) (of_int i / 10 ^ e)
                   (expense_nodes items (shown (i18n_t ''chart.moneyflow.other'' l))) l))))))"

definition zeroRevenue :: "Report \<Rightarrow> bool js" where
  "zeroRevenue r =
     (case revenue_line r of
        None \<Rightarrow> Inr False
      | Some x \<Rightarrow> ebind (js_BigInt (minorUnits (ln_total x))) (\<lambda>i. Inr (i \<le> 0)))"

definition money_flow_rows :: "Report \<Rightarrow> Locale \<Rightarrow> (string \<times> string) list js" where
  "money_flow_rows r l =
     (case exponentOf (rp_currencyCode r) of
        None \<Rightarrow> Inr []
      | Some e \<Rightarrow> emap (\<lambda>x. ebind (formatMinorUnits (minorUnits (ln_total x)) e l) (\<lambda>text.
          Inr (lineName (ln_categoryId x) (ln_label x) l, text))) (rp_lines r))"

subsection \<open>CashFlowChart.tsx\<close>

record CashRow =
  cr_period :: string
  cr_moneyIn :: rat
  cr_moneyOut :: rat
  cr_inText :: string
  cr_outText :: string
  cr_netText :: string

definition major_or_zero :: "nat option \<Rightarrow> string \<Rightarrow> rat js" where
  "major_or_zero places u = (case places of None \<Rightarrow> Inr 0 | Some e \<Rightarrow> to_major e u)"

definition text_or :: "string \<Rightarrow> nat option \<Rightarrow> string \<Rightarrow> Locale \<Rightarrow> string js" where
  "text_or d places u l = (case places of None \<Rightarrow> Inr d | Some e \<Rightarrow> formatMinorUnits u e l)"

definition cash_chart_rows :: "intl \<Rightarrow> Report \<Rightarrow> Locale \<Rightarrow> CashRow list js" where
  "cash_chart_rows N r l =
     (let places = exponentOf (rp_currencyCode r) in
      emap (\<lambda>c.
        ebind (major_or_zero places (minorUnits (cp_moneyIn c))) (\<lambda>moneyIn.
        ebind (major_or_zero places (minorUnits (cp_moneyOut c))) (\<lambda>moneyOut.
        ebind (text_or NO_DATA places (minorUnits (cp_moneyIn c)) l) (\<lambda>inText.
        ebind (text_or NO_DATA places (minorUnits (cp_moneyOut c)) l) (\<lambda>outText.
        ebind (text_or NO_DATA places (minorUnits (cp_net c)) l) (\<lambda>netText.
        Inr \<lparr>cr_period = formatPeriodShort N (cp_period c) l, cr_moneyIn = moneyIn, cr_moneyOut = \<bar>moneyOut\<bar>,
             cr_inText = inText, cr_outText = outText, cr_netText = netText\<rparr>)))))) (rp_cash r))"

subsection \<open>NetResultChart.tsx\<close>

record NetRow =
  nr_period :: string
  nr_profit :: rat
  nr_loss :: rat
  nr_text :: string

text \<open>\<open>xs[i]!.minorUnits\<close> throws past the end.\<close>

definition at_or_throw :: "'a list \<Rightarrow> nat \<Rightarrow> 'a js" where
  "at_or_throw xs i = (case js_at xs i of None \<Rightarrow> Inl TypeError | Some x \<Rightarrow> Inr x)"

definition netResultRows :: "intl \<Rightarrow> Report \<Rightarrow> Locale \<Rightarrow> NetRow list js" where
  "netResultRows N r l =
     (let places = exponentOf (rp_currencyCode r) in
      emap (\<lambda>(i, period).
        ebind (case places of None \<Rightarrow> Inr 0
          | Some e \<Rightarrow> ebind (at_or_throw (rp_netByPeriod r) i) (\<lambda>m. to_major e (minorUnits m))) (\<lambda>major.
        ebind (case places of None \<Rightarrow> Inr []
          | Some e \<Rightarrow> ebind (at_or_throw (rp_netByPeriod r) i) (\<lambda>m. formatMinorUnits (minorUnits m) e l)) (\<lambda>text.
        Inr \<lparr>nr_period = formatPeriodShort N period l, nr_profit = (if major > 0 then major else 0),
             nr_loss = (if major < 0 then - major else 0), nr_text = text\<rparr>)))
        (enumerate 0 (rp_periods r)))"

subsection \<open>RevenueExpenseChart.tsx\<close>

record RevenueExpenseRow =
  re_period :: string
  re_revenue :: rat
  re_expenses :: rat
  re_revenueText :: string
  re_expensesText :: string

definition drop_minus :: "string \<Rightarrow> string" where
  "drop_minus s = (if js_startsWith s ''-'' then tl s else s)"

definition revenue_expense_rows :: "Report \<Rightarrow> Locale \<Rightarrow> RevenueExpenseRow list js" where
  "revenue_expense_rows r l =
     (let places = exponentOf (rp_currencyCode r);
          revenueLine = revenue_line r
      in emap (\<lambda>(i, period).
        let revenueMinor = (case Option.bind revenueLine (\<lambda>x. js_at (ln_values x) i) of
              Some m \<Rightarrow> minorUnits m | None \<Rightarrow> ''0'')
        in ebind (at_or_throw (rp_expensesByPeriod r) i) (\<lambda>m.
           let expenseMinor = drop_minus (minorUnits m)
           in ebind (major_or_zero places revenueMinor) (\<lambda>revenue.
              ebind (major_or_zero places expenseMinor) (\<lambda>expenses.
              ebind (text_or [] places revenueMinor l) (\<lambda>revenueText.
              ebind (text_or [] places expenseMinor l) (\<lambda>expensesText.
              Inr \<lparr>re_period = period, re_revenue = revenue, re_expenses = expenses,
                   re_revenueText = revenueText, re_expensesText = expensesText\<rparr>))))))
        (enumerate 0 (rp_periods r)))"

subsection \<open>ExpenseCategoriesChart.tsx\<close>

definition MAX_SLOTS :: nat where "MAX_SLOTS = 8"

record expense_bar =
  eb_name :: string
  eb_value :: rat
  eb_text :: string

definition expense_slices :: "Report \<Rightarrow> Locale \<Rightarrow> string sliced list js" where
  "expense_slices r l =
     ebind (positive_sections r) (emap (\<lambda>x.
       ebind (js_BigInt (minorUnits (ln_total x))) (\<lambda>minor.
       Inr \<lparr>sl_label = lineName (ln_categoryId x) (ln_label x) l,
            sl_value = (case exponentOf (rp_currencyCode r) of None \<Rightarrow> 0 | Some e \<Rightarrow> of_int minor / 10 ^ e),
            sl_item = ln_categoryId x\<rparr>)))"

definition expense_named :: "string sliced list \<Rightarrow> string sliced list" where
  "expense_named items =
     (let f = foldTopN items MAX_SLOTS NO_DATA
      in case fo_other f of
           Some (label, v) \<Rightarrow> fo_kept f @ [\<lparr>sl_label = label, sl_value = v, sl_item = ''other''\<rparr>]
         | None \<Rightarrow> fo_kept f)"

definition expense_bars :: "Report \<Rightarrow> Locale \<Rightarrow> expense_bar list js" where
  "expense_bars r l =
     ebind (expense_slices r l) (\<lambda>items.
     emap (\<lambda>x.
       ebind (case exponentOf (rp_currencyCode r) of
           None \<Rightarrow> Inr NO_DATA
         | Some e \<Rightarrow> formatMinorUnits (show_int (round_half_up (sl_value x * 10 ^ e))) e l) (\<lambda>text.
       Inr \<lparr>eb_name = sl_label x, eb_value = sl_value x, eb_text = text\<rparr>)) (expense_named items))"

text \<open>The bars from bottom to top.\<close>

definition expense_sorted :: "expense_bar list \<Rightarrow> expense_bar list" where
  "expense_sorted bars = sort_key eb_value bars"

subsection \<open>CategoryTrendChart.tsx\<close>

definition MAX_FACETS :: nat where "MAX_FACETS = 8"

record facet =
  fc_categoryId :: string
  fc_label :: string
  fc_totalAbs :: int
  fc_rows :: "(string \<times> rat) list"
  fc_texts :: "string list"

definition facet_of :: "Report \<Rightarrow> Locale \<Rightarrow> ReportLine \<Rightarrow> facet js" where
  "facet_of r l x =
     (let places = exponentOf (rp_currencyCode r) in
      ebind (case places of None \<Rightarrow> Inr 0 | Some e \<Rightarrow> ebind (js_BigInt (minorUnits (ln_total x))) (\<lambda>i. Inr \<bar>i\<bar>)) (\<lambda>totalAbs.
      ebind (emap (\<lambda>(i, period).
          ebind (case (js_at (ln_values x) i, places) of
              (Some m, Some e) \<Rightarrow> to_major e (minorUnits m)
            | _ \<Rightarrow> Inr 0) (\<lambda>v. Inr (period, v))) (enumerate 0 (rp_periods r))) (\<lambda>rows.
      ebind (emap (\<lambda>v. text_or NO_DATA places (minorUnits v) l) (ln_values x)) (\<lambda>texts.
      Inr \<lparr>fc_categoryId = ln_categoryId x, fc_label = lineName (ln_categoryId x) (ln_label x) l,
           fc_totalAbs = totalAbs, fc_rows = rows, fc_texts = texts\<rparr>))))"

definition facets :: "Report \<Rightarrow> Locale \<Rightarrow> facet list js" where
  "facets r l =
     ebind (emap (facet_of r l) (cost_sections r)) (\<lambda>fs.
     Inr (take MAX_FACETS (sort_key (\<lambda>f. - fc_totalAbs f) (filter (\<lambda>f. list_ex (\<lambda>x. snd x \<noteq> 0) (fc_rows f)) fs))))"

text \<open>The de-emphasised line of a facet.\<close>

definition facet_avg :: "facet \<Rightarrow> rat" where
  "facet_avg f =
     foldl (\<lambda>s x. s + snd x) 0 (fc_rows f) / (if fc_rows f = [] then 1 else of_nat (length (fc_rows f)))"

subsection \<open>Facts of the shared steps\<close>

lemma foldl_sum: "foldl (\<lambda>s x. s + f x) (z :: 'b :: monoid_add) xs = z + sum_list (map f xs)"
  by (induction xs arbitrary: z) (simp_all add: add.assoc)

lemma by_value_facts: "mset (by_value items) = mset items" "length (by_value items) = length items"
  "sorted_wrt (\<lambda>a b. sl_value b \<le> sl_value a) (by_value items)"
proof -
  have "sorted (map (\<lambda>s. - sl_value s) (by_value items))" by (simp add: by_value_def)
  then show "sorted_wrt (\<lambda>a b. sl_value b \<le> sl_value a) (by_value items)" by (simp add: sorted_map)
qed (simp_all add: by_value_def)

lemma foldTopN_facts:
  fixes items :: "'a sliced list"
  obtains tail where "by_value items = fo_kept (foldTopN items n lab) @ tail"
    and "length (fo_kept (foldTopN items n lab)) = min (length items) n"
    and "fo_other (foldTopN items n lab) = (if tail = [] then None else Some (lab, sum_list (map sl_value tail)))"
proof (cases "length items \<le> n")
  case True
  then show ?thesis by (intro that [of "[]"]) (simp_all add: foldTopN_def Let_def by_value_facts)
next
  case False
  then have "drop n (by_value items) \<noteq> []" by (simp add: by_value_facts)
  with False show ?thesis
    by (intro that [of "drop n (by_value items)"]) (simp_all add: foldTopN_def Let_def by_value_facts foldl_sum)
qed

lemma foldTopN_sum:
  "sum_list (map sl_value (fo_kept (foldTopN items n lab))) +
     (case fo_other (foldTopN items n lab) of None \<Rightarrow> 0 | Some x \<Rightarrow> snd x) = sum_list (map sl_value items)"
proof -
  obtain tail where t: "by_value items = fo_kept (foldTopN items n lab) @ tail"
    "fo_other (foldTopN items n lab) = (if tail = [] then None else Some (lab, sum_list (map sl_value tail)))"
    by (rule foldTopN_facts)
  have "sum_list (map sl_value items) = sum_list (map sl_value (by_value items))"
    by (metis by_value_facts(1) mset_map sum_mset_sum_list)
  then show ?thesis using t by simp
qed

lemma efilter_Inr:
  "efilter f xs = Inr ys \<Longrightarrow> ys = filter (\<lambda>x. f x = Inr True) xs \<and> (\<forall>x \<in> set xs. \<exists>b. f x = Inr b)"
  by (induction xs arbitrary: ys) (auto simp: ebind_Inr_iff)

lemma BigInt_units: "js_BigInt (minorUnits m) = Inr i \<Longrightarrow> units m = i"
  by (simp add: js_BigInt_cases units_def split: if_splits)

lemma positive_sections_Inr:
  assumes "positive_sections r = Inr xs"
  shows "xs = filter (\<lambda>x. 0 < units (ln_total x)) (cost_sections r)"
    and "\<And>x. x \<in> set (cost_sections r) \<Longrightarrow> js_BigInt (minorUnits (ln_total x)) = Inr (units (ln_total x))"
proof -
  note facts = efilter_Inr [OF assms [unfolded positive_sections_def]]
  show ok: "js_BigInt (minorUnits (ln_total x)) = Inr (units (ln_total x))" if "x \<in> set (cost_sections r)" for x
    using facts that BigInt_units by (fastforce simp: ebind_Inr_iff)
  then show "xs = filter (\<lambda>x. 0 < units (ln_total x)) (cost_sections r)"
    using facts by (auto intro!: filter_cong)
qed

definition total_costs :: "Report \<Rightarrow> int" where
  "total_costs r = (\<Sum>x \<leftarrow> cost_sections r. max 0 (units (ln_total x)))"

lemma sum_positive:
  "(\<Sum>x \<leftarrow> filter (\<lambda>x. 0 < f x) xs. (of_int (f x) :: rat) / c) = of_int (\<Sum>x \<leftarrow> xs. max 0 (f x)) / c"
  by (induction xs) (auto simp: add_divide_distrib max_def)

lemma emap_values:
  assumes "emap f xs = Inr ys" and "\<And>x y. x \<in> set xs \<Longrightarrow> f x = Inr y \<Longrightarrow> g y = h x"
  shows "map g ys = map h xs"
  using assms by (induction xs arbitrary: ys) (auto simp: ebind_Inr_iff)

lemma expenseLinesFor_Inr:
  assumes "expenseLinesFor r e l = Inr items"
  shows "map sl_value items = map (\<lambda>x. of_int (units (ln_total x)) / 10 ^ e) (filter (\<lambda>x. 0 < units (ln_total x)) (cost_sections r))"
    and "list_all (\<lambda>s. 0 < sl_value s) items"
    and "sum_list (map sl_value items) = of_int (total_costs r) / 10 ^ e"
proof -
  from assms obtain xs where xs: "positive_sections r = Inr xs"
    and items: "emap (\<lambda>x. ebind (to_major e (minorUnits (ln_total x))) (\<lambda>v.
       Inr \<lparr>sl_label = lineName (ln_categoryId x) (ln_label x) l, sl_value = v, sl_item = ()\<rparr>)) xs = Inr items"
    by (auto simp: expenseLinesFor_def ebind_Inr_iff)
  show vals: "map sl_value items = map (\<lambda>x. of_int (units (ln_total x)) / 10 ^ e) (filter (\<lambda>x. 0 < units (ln_total x)) (cost_sections r))"
    unfolding positive_sections_Inr(1) [OF xs, symmetric]
    by (rule emap_values [OF items]) (auto simp: to_major_def ebind_Inr_iff dest!: BigInt_units)
  have "list_all (\<lambda>v. 0 < v) (map sl_value items)" unfolding vals by (simp add: list_all_iff)
  then show "list_all (\<lambda>s. 0 < sl_value s) items" by (simp add: list_all_iff)
  show "sum_list (map sl_value items) = of_int (total_costs r) / 10 ^ e"
    unfolding vals total_costs_def by (rule sum_positive)
qed

lemma emap_Inl_mem: "emap f xs = Inl err \<Longrightarrow> \<exists>x \<in> set xs. f x = Inl err"
  by (induction xs) (auto simp: ebind_Inl_iff)

lemma efilter_Inl_mem: "efilter f xs = Inl err \<Longrightarrow> \<exists>x \<in> set xs. f x = Inl err"
  by (induction xs) (auto simp: ebind_Inl_iff)

lemma BigInt_Inl: "js_BigInt u = Inl err \<Longrightarrow> err = SyntaxError"
  by (simp add: js_BigInt_cases split: if_splits)

lemma to_major_Inl: "to_major e u = Inl err \<Longrightarrow> err = SyntaxError"
  by (auto simp: to_major_def ebind_Inl_iff dest: BigInt_Inl)

lemma expenseLinesFor_Inl: "expenseLinesFor r e l = Inl err \<Longrightarrow> err = SyntaxError"
  by (auto simp: expenseLinesFor_def positive_sections_def ebind_Inl_iff
      dest!: emap_Inl_mem efilter_Inl_mem BigInt_Inl to_major_Inl)

lemma expense_nodes_facts:
  assumes "list_all (\<lambda>s. 0 < sl_value s) items"
  shows "sum_list (map snd (expense_nodes items lab)) = sum_list (map sl_value items)"
    and "list_all (\<lambda>n. 0 < snd n) (expense_nodes items lab)" and "length (expense_nodes items lab) \<le> 9"
proof -
  let ?f = "foldTopN items MAX_EXPENSE_SLOTS lab"
  obtain tail where t: "by_value items = fo_kept ?f @ tail" "length (fo_kept ?f) = min (length items) MAX_EXPENSE_SLOTS"
    "fo_other ?f = (if tail = [] then None else Some (lab, sum_list (map sl_value tail)))"
    by (rule foldTopN_facts)
  have "set (fo_kept ?f @ tail) = set items" unfolding t(1) [symmetric] by (metis by_value_facts(1) set_mset_mset)
  then have pos: "\<And>s. s \<in> set (fo_kept ?f) \<union> set tail \<Longrightarrow> 0 < sl_value s" using assms by (auto simp: list_all_iff)
  have "0 < sum_list (map sl_value tail)" if "tail \<noteq> []"
  proof (cases tail)
    case (Cons s ss)
    then have "0 \<le> sum_list (map sl_value ss)" using pos by (intro sum_list_nonneg) (auto intro: less_imp_le)
    then show ?thesis using Cons pos [of s] by simp
  qed (use that in simp)
  then show "list_all (\<lambda>n. 0 < snd n) (expense_nodes items lab)"
    using pos by (auto simp: expense_nodes_def Let_def t(3) list_all_iff)
  show "length (expense_nodes items lab) \<le> 9"
    using t(2) by (auto simp: expense_nodes_def Let_def MAX_EXPENSE_SLOTS_def split: option.split)
  show "sum_list (map snd (expense_nodes items lab)) = sum_list (map sl_value items)"
    using foldTopN_sum [of items MAX_EXPENSE_SLOTS lab]
    by (auto simp: expense_nodes_def Let_def comp_def split: option.splits)
qed

subsection \<open>Properties\<close>

text \<open>Folding a tail into one slot drops nothing: what is kept and what is folded are together exactly the
  items, the kept ones are the largest, in falling order and never more than the limit, and the last slot,
  there exactly when something was folded, carries the sum of the rest.\<close>

theorem foldTopN_partition:
  "\<exists>tail. mset items = mset (fo_kept (foldTopN items n lab)) + mset tail \<and>
     sorted_wrt (\<lambda>a b. sl_value b \<le> sl_value a) (fo_kept (foldTopN items n lab) @ tail) \<and>
     length (fo_kept (foldTopN items n lab)) = min (length items) n \<and>
     fo_other (foldTopN items n lab) = (if tail = [] then None else Some (lab, sum_list (map sl_value tail)))"
proof -
  obtain tail where t: "by_value items = fo_kept (foldTopN items n lab) @ tail"
    "length (fo_kept (foldTopN items n lab)) = min (length items) n"
    "fo_other (foldTopN items n lab) = (if tail = [] then None else Some (lab, sum_list (map sl_value tail)))"
    by (rule foldTopN_facts)
  then show ?thesis using by_value_facts [of items] by (intro exI [of _ tail]) (metis mset_append)
qed


text \<open>The cash chart draws what its table prints: a row for every month, both bars never negative and the
  sizes of the month's figures, the texts those figures with their signs; and for figures as the report
  has them, money out not positive and the net the sum of the two, the difference of the bars is exactly
  the net that the table prints.\<close>

theorem cash_chart_bars:
  "case cash_chart_rows N r l of
     Inl err \<Rightarrow> True
   | Inr rows \<Rightarrow>
       map cr_period rows = map (\<lambda>c. formatPeriodShort N (cp_period c) l) (rp_cash r) \<and>
       list_all2 (\<lambda>c row.
         0 \<le> cr_moneyOut row \<and>
         (case exponentOf (rp_currencyCode r) of
            None \<Rightarrow> cr_moneyIn row = 0 \<and> cr_moneyOut row = 0 \<and> cr_netText row = NO_DATA
          | Some e \<Rightarrow>
              cr_moneyIn row = of_int (units (cp_moneyIn c)) / 10 ^ e \<and>
              cr_moneyOut row = of_int \<bar>units (cp_moneyOut c)\<bar> / 10 ^ e \<and>
              formatMinorUnits (minorUnits (cp_moneyOut c)) e l = Inr (cr_outText row) \<and>
              formatMinorUnits (minorUnits (cp_net c)) e l = Inr (cr_netText row) \<and>
              (if units (cp_moneyOut c) \<le> 0 \<and> units (cp_net c) = units (cp_moneyIn c) + units (cp_moneyOut c)
               then cr_moneyIn row - cr_moneyOut row = of_int (units (cp_net c)) / 10 ^ e else True)))
         (rp_cash r) rows"
proof (cases "cash_chart_rows N r l")
  case (Inr rows)
  note run = Inr [unfolded cash_chart_rows_def Let_def]
  have "map cr_period rows = map (\<lambda>c. formatPeriodShort N (cp_period c) l) (rp_cash r)"
    by (rule emap_values [OF run]) (auto simp: ebind_Inr_iff)
  then show ?thesis unfolding Inr sum.case
    by (intro conjI, assumption, intro list_all2_mono [OF run [unfolded emap_Inr_all2]])
      (cases "exponentOf (rp_currencyCode r)";
        auto simp: ebind_Inr_iff major_or_zero_def to_major_def text_or_def add_divide_distrib divide_le_0_iff dest!: BigInt_units)
qed simp

text \<open>The net result is split without loss: in every month the profit bar and the loss bar are not negative,
  at most one of them is there, and profit less loss is the month's net result exactly.\<close>

theorem net_rows_split:
  "case netResultRows N r l of
     Inl err \<Rightarrow> True
   | Inr rows \<Rightarrow> list_all2 (\<lambda>(i, period) row.
       nr_period row = formatPeriodShort N period l \<and> 0 \<le> nr_profit row \<and> 0 \<le> nr_loss row \<and>
       (nr_profit row = 0 \<or> nr_loss row = 0) \<and>
       (case exponentOf (rp_currencyCode r) of
          None \<Rightarrow> nr_profit row - nr_loss row = 0 \<and> nr_text row = []
        | Some e \<Rightarrow> i < length (rp_netByPeriod r) \<and>
            nr_profit row - nr_loss row = of_int (units (rp_netByPeriod r ! i)) / 10 ^ e \<and>
            formatMinorUnits (minorUnits (rp_netByPeriod r ! i)) e l = Inr (nr_text row)))
       (enumerate 0 (rp_periods r)) rows"
proof (cases "netResultRows N r l")
  case (Inr rows)
  note run = Inr [unfolded netResultRows_def Let_def]
  show ?thesis unfolding Inr sum.case
    by (intro list_all2_mono [OF run [unfolded emap_Inr_all2]])
      (cases "exponentOf (rp_currencyCode r)";
        auto simp: ebind_Inr_iff at_or_throw_def js_at_def to_major_def dest!: BigInt_units split: option.splits if_splits)
qed simp

lemma expense_slices_Inr:
  assumes "expense_slices r l = Inr items" and "exponentOf (rp_currencyCode r) = Some e"
  shows "list_all (\<lambda>s. \<exists>n > 0. sl_value s = of_int n / 10 ^ e) items"
    and "sum_list (map sl_value items) = of_int (total_costs r) / 10 ^ e"
proof -
  from assms obtain xs where xs: "positive_sections r = Inr xs"
    and items: "emap (\<lambda>x. ebind (js_BigInt (minorUnits (ln_total x))) (\<lambda>minor.
       Inr \<lparr>sl_label = lineName (ln_categoryId x) (ln_label x) l, sl_value = of_int minor / 10 ^ e,
            sl_item = ln_categoryId x\<rparr>)) xs = Inr items"
    by (auto simp: expense_slices_def ebind_Inr_iff)
  have vals: "map sl_value items = map (\<lambda>x. of_int (units (ln_total x)) / 10 ^ e) (filter (\<lambda>x. 0 < units (ln_total x)) (cost_sections r))"
    unfolding positive_sections_Inr(1) [OF xs, symmetric]
    by (rule emap_values [OF items]) (auto simp: ebind_Inr_iff dest!: BigInt_units)
  then have "set (map sl_value items) = (\<lambda>x. of_int (units (ln_total x)) / 10 ^ e) ` {x \<in> set (cost_sections r). 0 < units (ln_total x)}"
    by (metis set_map set_filter)
  then show "list_all (\<lambda>s. \<exists>n > 0. sl_value s = of_int n / 10 ^ e) items"
    unfolding list_all_iff by (metis (mono_tags, lifting) image_iff list.set_map mem_Collect_eq)
  show "sum_list (map sl_value items) = of_int (total_costs r) / 10 ^ e"
    unfolding vals total_costs_def by (rule sum_positive)
qed

lemma sum_of_units:
  assumes "list_all (\<lambda>s. \<exists>n > 0. sl_value s = of_int n / 10 ^ e) xs" and "xs \<noteq> []"
  shows "\<exists>n > 0. sum_list (map sl_value xs) = of_int n / (10 :: rat) ^ e"
  using assms
proof (induction xs)
  case (Cons s xs)
  from Cons.prems obtain n where n: "0 < n" "sl_value s = of_int n / 10 ^ e" by auto
  show ?case
  proof (cases "xs = []")
    case True
    then show ?thesis using n by auto
  next
    case False
    with Cons obtain m where "0 < m" "sum_list (map sl_value xs) = of_int m / 10 ^ e" by auto
    with n have "0 < n + m" "sum_list (map sl_value (s # xs)) = of_int (n + m) / 10 ^ e"
      by (simp_all add: add_divide_distrib)
    then show ?thesis by blast
  qed
qed simp

lemma expense_named_facts:
  assumes "list_all (\<lambda>s. \<exists>n > 0. sl_value s = of_int n / 10 ^ e) items"
  shows "sum_list (map sl_value (expense_named items)) = sum_list (map sl_value items)"
    and "list_all (\<lambda>s. \<exists>n > 0. sl_value s = of_int n / (10 :: rat) ^ e) (expense_named items)"
    and "length (expense_named items) \<le> 9"
proof -
  let ?f = "foldTopN items MAX_SLOTS NO_DATA"
  obtain tail where t: "by_value items = fo_kept ?f @ tail" "length (fo_kept ?f) = min (length items) MAX_SLOTS"
    "fo_other ?f = (if tail = [] then None else Some (NO_DATA, sum_list (map sl_value tail)))"
    by (rule foldTopN_facts)
  have "set (fo_kept ?f @ tail) = set items" unfolding t(1) [symmetric] by (metis by_value_facts(1) set_mset_mset)
  then have ok: "list_all (\<lambda>s. \<exists>n > 0. sl_value s = of_int n / 10 ^ e) (fo_kept ?f @ tail)"
    using assms by (simp add: list_all_iff)
  then show "list_all (\<lambda>s. \<exists>n > 0. sl_value s = of_int n / 10 ^ e) (expense_named items)"
    using sum_of_units [of e tail] by (auto simp: expense_named_def Let_def t(3))
  show "length (expense_named items) \<le> 9"
    using t(2) by (auto simp: expense_named_def Let_def MAX_SLOTS_def split: option.split)
  show "sum_list (map sl_value (expense_named items)) = sum_list (map sl_value items)"
    using foldTopN_sum [of items MAX_SLOTS NO_DATA] by (auto simp: expense_named_def Let_def split: option.splits)
qed

lemma round_units: "round_half_up (of_int n / 10 ^ e * 10 ^ e) = n"
proof -
  have "\<lfloor>of_int n + 1 / 2 :: rat\<rfloor> = n" by (rule floor_unique) simp_all
  then show ?thesis by (simp add: round_half_up_def)
qed

text \<open>The expense bars are the costs, exactly: at most eight sections and a rest, each a positive whole
  number of minor units that its text spells out to the last digit, and together all of the range's cost
  sections that did cost something.\<close>

theorem expense_bars_exact:
  "case (expense_bars r l, exponentOf (rp_currencyCode r)) of
     (Inr bars, Some e) \<Rightarrow>
       length bars \<le> 9 \<and>
       sum_list (map eb_value bars) = of_int (total_costs r) / 10 ^ e \<and>
       list_all (\<lambda>b. \<exists>n > 0. eb_value b = of_int n / 10 ^ e \<and> formatMinorUnits (show_int n) e l = Inr (eb_text b)) bars
   | _ \<Rightarrow> True"
proof (cases "expense_bars r l"; cases "exponentOf (rp_currencyCode r)")
  fix bars e
  assume bars: "expense_bars r l = Inr bars" and e: "exponentOf (rp_currencyCode r) = Some e"
  then obtain items where items: "expense_slices r l = Inr items"
    and run: "emap (\<lambda>x. ebind (formatMinorUnits (show_int (round_half_up (sl_value x * 10 ^ e))) e l) (\<lambda>text.
       Inr \<lparr>eb_name = sl_label x, eb_value = sl_value x, eb_text = text\<rparr>)) (expense_named items) = Inr bars"
    by (auto simp: expense_bars_def ebind_Inr_iff)
  note slices = expense_slices_Inr [OF items e]
  note named = expense_named_facts [OF slices(1)]
  have vals: "map eb_value bars = map sl_value (expense_named items)"
    by (rule emap_values [OF run]) (auto simp: ebind_Inr_iff)
  have "length bars = length (expense_named items)" using vals by (metis length_map)
  moreover have "list_all (\<lambda>b. \<exists>n > 0. eb_value b = of_int n / 10 ^ e \<and> formatMinorUnits (show_int n) e l = Inr (eb_text b)) bars"
  proof -
    have "list_all2 (\<lambda>x b. ebind (formatMinorUnits (show_int (round_half_up (sl_value x * 10 ^ e))) e l) (\<lambda>text.
       Inr \<lparr>eb_name = sl_label x, eb_value = sl_value x, eb_text = text\<rparr>) = Inr b) (expense_named items) bars"
      using run by (simp only: emap_Inr_all2)
    then have bar: "\<exists>x \<in> set (expense_named items). eb_value b = sl_value x \<and>
        formatMinorUnits (show_int (round_half_up (sl_value x * 10 ^ e))) e l = Inr (eb_text b)" if "b \<in> set bars" for b
      using that by (induction rule: list_all2_induct) (auto simp: ebind_Inr_iff)
    show ?thesis unfolding list_all_iff
    proof
      fix b assume "b \<in> set bars"
      then obtain x where x: "x \<in> set (expense_named items)" "eb_value b = sl_value x"
        "formatMinorUnits (show_int (round_half_up (sl_value x * 10 ^ e))) e l = Inr (eb_text b)"
        using bar by blast
      from named(2) x(1) obtain n where n: "0 < n" "sl_value x = of_int n / 10 ^ e" by (auto simp: list_all_iff)
      show "\<exists>n > 0. eb_value b = of_int n / 10 ^ e \<and> formatMinorUnits (show_int n) e l = Inr (eb_text b)"
        using n x(2,3) by (intro exI [of _ n]) (simp only: round_units simp_thms)
    qed
  qed
  ultimately show ?thesis using bars e named(1,3) slices(2) vals by simp
qed simp_all

text \<open>The trend facets are the cost sections with a shape: at most eight, ranked by the size of their
  totals, each with one point for every month of the report and at least one that is not zero.\<close>

theorem facets_ranked:
  "case facets r l of
     Inl err \<Rightarrow> True
   | Inr fs \<Rightarrow> length fs \<le> 8 \<and> sorted_wrt (\<lambda>a b. fc_totalAbs b \<le> fc_totalAbs a) fs \<and>
       list_all (\<lambda>f. map fst (fc_rows f) = rp_periods r \<and> list_ex (\<lambda>x. snd x \<noteq> 0) (fc_rows f) \<and>
         fc_categoryId f \<in> set (map ln_categoryId (cost_sections r))) fs"
proof (cases "facets r l")
  case (Inr out)
  then obtain fs where fs: "emap (facet_of r l) (cost_sections r) = Inr fs"
    and out: "out = take MAX_FACETS (sort_key (\<lambda>f. - fc_totalAbs f) (filter (\<lambda>f. list_ex (\<lambda>x. snd x \<noteq> 0) (fc_rows f)) fs))"
    by (auto simp: facets_def ebind_Inr_iff)
  have facet: "map fst (fc_rows f) = rp_periods r \<and> fc_categoryId f = ln_categoryId x" if "facet_of r l x = Inr f" for x f
  proof -
    from that obtain rows where rows: "fc_rows f = rows" "fc_categoryId f = ln_categoryId x"
      "emap (\<lambda>(i, period). ebind (case (js_at (ln_values x) i, exponentOf (rp_currencyCode r)) of
              (Some m, Some e) \<Rightarrow> to_major e (minorUnits m)
            | _ \<Rightarrow> Inr 0) (\<lambda>v. Inr (period, v))) (enumerate 0 (rp_periods r)) = Inr rows"
      by (auto simp: facet_of_def Let_def ebind_Inr_iff)
    have "map fst rows = map snd (enumerate 0 (rp_periods r))"
      by (rule emap_values [OF rows(3)]) (auto simp: ebind_Inr_iff)
    with rows show ?thesis by simp
  qed
  have "set out \<subseteq> {f \<in> set fs. list_ex (\<lambda>x. snd x \<noteq> 0) (fc_rows f)}"
    unfolding out using set_take_subset by fastforce
  moreover have "\<exists>x \<in> set (cost_sections r). facet_of r l x = Inr f" if "f \<in> set fs" for f
    using fs [unfolded emap_Inr_all2] that by (induction rule: list_all2_induct) auto
  ultimately have "list_all (\<lambda>f. map fst (fc_rows f) = rp_periods r \<and> list_ex (\<lambda>x. snd x \<noteq> 0) (fc_rows f) \<and>
         fc_categoryId f \<in> set (map ln_categoryId (cost_sections r))) out"
    unfolding list_all_iff using facet by (metis (no_types, lifting) imageI list.set_map mem_Collect_eq subsetD)
  moreover have "sorted_wrt (\<lambda>a b. fc_totalAbs b \<le> fc_totalAbs a) out"
  proof -
    have "sorted (map (\<lambda>f. - fc_totalAbs f) out)" unfolding out by (simp add: take_map [symmetric] sorted_wrt_take)
    then show ?thesis by (simp add: sorted_map)
  qed
  moreover have "length out \<le> 8" unfolding out by (simp add: MAX_FACETS_def)
  ultimately show ?thesis using Inr by simp
qed simp

subsection \<open>Where the charts and their comments part\<close>

text \<open>A report with a credit: net sales 0.10, operating expenses 0.04, and a currency gain of 0.01
  under the financial result, which the wire prints as a negative cost.\<close>

definition credit_report :: Report where
  "credit_report =
     (let m = (\<lambda>u. \<lparr>minorUnits = u, currencyCode = ''PLN''\<rparr>);
          line = (\<lambda>c comp u. \<lparr>ln_categoryId = c, ln_label = c, ln_computed = comp, ln_values = [m u], ln_total = m u,
            ln_percentOfRevenue = None\<rparr>)
      in \<lparr>rp_currencyCode = ''PLN'', rp_periods = [''2026-05''], rp_basis = Cash,
          rp_lines = [line ''01'' False ''10'', line ''04'' False ''4'', line ''06'' False ''-1'', line ''95'' True ''7''],
          rp_buckets = [], rp_netByPeriod = [m ''7''], rp_netTotal = m ''7'', rp_revenueTotal = m ''10'',
          rp_expensesTotal = m ''-1'', rp_expensesByPeriod = [m ''-1''], rp_cash = [],
          rp_reconciliation = \<lparr>rcn_opening = ZERO, rcn_moneyIn = ZERO, rcn_moneyOut = ZERO, rcn_transfers = ZERO, rcn_closing = ZERO\<rparr>,
          rp_provenance = \<lparr>taxonomyVersion = [], rulesetVersion = [], engineVersion = []\<rparr>, rp_unreviewedAmount = m ''0''\<rparr>)"

text \<open>The link called net result is what the positive costs leave of the net sales, here 0.06; the net
  result of the headline is 0.07.\<close>

lemma sankey_net_is_not_headline:
  "units (ln_total (the (revenue_line credit_report))) - total_costs credit_report = 6 \<and>
   units (rp_netTotal credit_report) = 7"
proof -
  have "parse_bigint ''10'' = Some 10" "parse_bigint ''4'' = Some 4" "parse_bigint ''-1'' = Some (- 1)"
    "parse_bigint ''7'' = Some 7" by code_simp+
  then show ?thesis
    by (simp add: credit_report_def Let_def revenue_line_def total_costs_def cost_sections_def units_def)
qed

text \<open>A month whose costs net to a credit is drawn, and printed, as an expense of that size.\<close>

lemma credit_drawn_as_expense:
  "rp_expensesByPeriod credit_report = [\<lparr>minorUnits = ''-1'', currencyCode = ''PLN''\<rparr>] \<and>
   map_sum id (map (\<lambda>row. (re_expenses row, re_expensesText row))) (revenue_expense_rows credit_report En) =
     Inr [(1 / 100, ''0.01'')]"
proof -
  have parse: "js_BigInt ''10'' = Inr 10" "js_BigInt ''1'' = Inr 1" "exponentOf ''PLN'' = Some 2"
    "formatMinorUnits ''10'' 2 En = Inr ''0.10''" "formatMinorUnits ''1'' 2 En = Inr ''0.01''" by code_simp+
  show ?thesis
    by (simp add: revenue_expense_rows_def credit_report_def Let_def revenue_line_def js_at_def at_or_throw_def
      drop_minus_def js_startsWith_def major_or_zero_def to_major_def text_or_def parse)
qed

end
