(* ===== verification/Chart_View.thy ===== *)
theory Chart_View
  imports Chart_Data
begin

section \<open>The chart cards on screen\<close>

text \<open>
  \<open>ChartShell.tsx\<close> (the switch between a chart and its table), \<open>ChartTable.tsx\<close>, \<open>ChartLegend.tsx\<close>, and
  what each of the six charts of \<open>src/web/src/app/charts\<close> puts into the shell. A drawing of the vendored
  chart library is an element with its series; the points it gets are the rows of \<open>Chart_Data\<close>.
\<close>

subsection \<open>ChartTable.tsx and ChartLegend.tsx\<close>

definition CategoryTable :: "(string \<times> string) list \<Rightarrow> Locale \<Rightarrow> html" where
  "CategoryTable rows l =
     El ''table'' []
       [El ''thead'' [] [El ''tr'' []
          [El ''th'' [(''scope'', ''col'')] [msg ''report.category'' l], El ''th'' [(''scope'', ''col'')] [msg ''report.total'' l]]],
        El ''tbody'' [] (map (\<lambda>(label, text). El ''tr'' []
          [El ''th'' [(''scope'', ''row'')] [Txt label], El ''td'' [] [Txt text]]) rows)]"

definition PeriodTable :: "intl \<Rightarrow> string list \<Rightarrow> (string \<times> string list) list \<Rightarrow> Locale \<Rightarrow> html" where
  "PeriodTable N periods series l =
     El ''div'' [] [El ''table'' []
       [El ''thead'' [] [El ''tr'' []
          (El ''th'' [(''scope'', ''col'')] [msg ''report.category'' l] #
           map (\<lambda>p. El ''th'' [(''scope'', ''col'')] [Txt (formatPeriodShort N p l)]) periods)],
        El ''tbody'' [] (map (\<lambda>(label, vs). El ''tr'' []
          (El ''th'' [(''scope'', ''row'')] [Txt label] # map (\<lambda>v. El ''td'' [] [Txt v]) vs)) series)]]"

definition ChartLegend :: "(string \<times> string) list \<Rightarrow> html" where
  "ChartLegend items =
     El ''div'' [(''data-chart-legend'', [])]
       (map (\<lambda>(color, label). El ''span'' []
          [El ''span'' [(''aria-hidden'', ''true''), (''backgroundColor'', color)] [], Txt label]) items)"

subsection \<open>ChartShell.tsx\<close>

text \<open>\<open>drawable\<close>, the initial \<open>asTable\<close>, the toggle, and the render.\<close>

definition drawable :: "bool \<Rightarrow> bool \<Rightarrow> bool" where
  "drawable canRender hasData \<longleftrightarrow> canRender \<and> hasData"

definition asTable_init :: "bool \<Rightarrow> bool \<Rightarrow> bool" where
  "asTable_init canRender hasData = (\<not> drawable canRender hasData)"

definition toggle_view :: "bool \<Rightarrow> bool" where
  "toggle_view v = (\<not> v)"

record chart_card =
  cc_titleKey :: string
  cc_noteKey :: "string option"
  cc_unavailableKey :: "string option"
  cc_hasData :: bool
  cc_chart :: html
  cc_table :: html

definition ChartShell :: "bool \<Rightarrow> bool \<Rightarrow> chart_card \<Rightarrow> Locale \<Rightarrow> html" where
  "ChartShell canRender asTable c l =
     (let dr = drawable canRender (cc_hasData c) in
      El ''section'' []
        ([El ''div'' []
            ([El ''h2'' [] [msg (cc_titleKey c) l]] @
             (if dr then [El ''button'' [] [msg (if asTable then ''chart.view.chart'' else ''chart.view.table'') l]] else []))] @
         (case cc_noteKey c of Some k \<Rightarrow> [El ''p'' [(''note'', [])] [msg k l]] | None \<Rightarrow> []) @
         (case cc_unavailableKey c of
            Some k \<Rightarrow> if \<not> cc_hasData c then [El ''p'' [(''unavailable'', [])] [msg k l]] else []
          | None \<Rightarrow> []) @
         [El ''div'' [] [if asTable \<or> \<not> dr then cc_table c else cc_chart c]]))"

subsection \<open>The drawings\<close>

definition Bar :: "string \<Rightarrow> string \<Rightarrow> html" where
  "Bar dataKey fill = El ''Bar'' [(''dataKey'', dataKey), (''fill'', fill)] []"

definition Line :: "string \<Rightarrow> string \<Rightarrow> html" where
  "Line dataKey stroke = El ''Line'' [(''dataKey'', dataKey), (''stroke'', stroke)] []"

definition MoneyFlowChart :: "Report \<Rightarrow> Locale \<Rightarrow> chart_card js" where
  "MoneyFlowChart r l =
     ebind (money_flow_graph r l) (\<lambda>graph.
     ebind (zeroRevenue r) (\<lambda>zero.
     ebind (money_flow_rows r l) (\<lambda>rows.
     Inr \<lparr>cc_titleKey = ''chart.moneyflow.title'', cc_noteKey = Some ''chart.moneyflow.note'',
          cc_unavailableKey = (if zero then Some ''chart.moneyflow.unavailable'' else None),
          cc_hasData = (graph \<noteq> None), cc_chart = El ''div'' [(''ref'', ''echarts'')] [],
          cc_table = (if rows \<noteq> [] then CategoryTable rows l else El ''p'' [] [Txt NO_DATA])\<rparr>)))"

definition CashFlowChart :: "intl \<Rightarrow> Report \<Rightarrow> Locale \<Rightarrow> chart_card js" where
  "CashFlowChart N r l =
     (let inLabel = shown (i18n_t ''recon.in'' l);
          outLabel = shown (i18n_t ''recon.out'' l);
          netLabel = shown (i18n_t ''chart.cashflow.net'' l)
      in ebind (cash_chart_rows N r l) (\<lambda>rows.
         Inr \<lparr>cc_titleKey = ''chart.cashflow.title'', cc_noteKey = Some ''chart.cashflow.note'', cc_unavailableKey = None,
              cc_hasData = list_ex (\<lambda>x. cr_moneyIn x \<noteq> 0 \<or> cr_moneyOut x \<noteq> 0) rows,
              cc_chart = El ''div'' []
                [ChartLegend [(''var(--chart-1)'', inLabel), (''var(--chart-2)'', outLabel)],
                 El ''BarChart'' [(''xDataKey'', ''period'')]
                   [Bar ''moneyIn'' ''var(--chart-1)'', Bar ''moneyOut'' ''var(--chart-2)'']],
              cc_table = PeriodTable N (rp_periods r)
                [(inLabel, map cr_inText rows), (outLabel, map cr_outText rows), (netLabel, map cr_netText rows)] l\<rparr>))"

text \<open>The tooltip of a column: the first row with its label.\<close>

definition cash_tooltip :: "CashRow list \<Rightarrow> string \<Rightarrow> string list" where
  "cash_tooltip rows point =
     (case find (\<lambda>x. cr_period x = point) rows of
        Some x \<Rightarrow> [cr_inText x, cr_outText x, cr_netText x] | None \<Rightarrow> [[], [], []])"

definition ExpenseCategoriesChart :: "Report \<Rightarrow> Locale \<Rightarrow> chart_card js" where
  "ExpenseCategoriesChart r l =
     ebind (expense_bars r l) (\<lambda>bars.
     Inr \<lparr>cc_titleKey = ''chart.expenses.title'', cc_noteKey = Some ''chart.expenses.note'', cc_unavailableKey = None,
          cc_hasData = (bars \<noteq> []),
          cc_chart = El ''BarChart'' [(''xDataKey'', ''name''), (''orientation'', ''horizontal'')] [Bar ''value'' ''var(--chart-1)''],
          cc_table = CategoryTable (map (\<lambda>b. (eb_name b, eb_text b)) bars) l\<rparr>)"

definition NetResultChart :: "intl \<Rightarrow> Report \<Rightarrow> Locale \<Rightarrow> chart_card js" where
  "NetResultChart N r l =
     (let profitLabel = shown (i18n_t ''chart.netresult.profit'' l);
          lossLabel = shown (i18n_t ''chart.netresult.loss'' l)
      in ebind (netResultRows N r l) (\<lambda>rows.
         Inr \<lparr>cc_titleKey = ''chart.netresult.title'', cc_noteKey = Some ''chart.netresult.note'', cc_unavailableKey = None,
              cc_hasData = list_ex (\<lambda>x. nr_profit x \<noteq> 0 \<or> nr_loss x \<noteq> 0) rows,
              cc_chart = El ''div'' []
                [ChartLegend [(''var(--chart-diverge-positive)'', profitLabel), (''var(--chart-diverge-negative)'', lossLabel)],
                 El ''BarChart'' [(''xDataKey'', ''period''), (''stacked'', [])]
                   [Bar ''profit'' ''var(--chart-diverge-positive)'', Bar ''loss'' ''var(--chart-diverge-negative)'']],
              cc_table = PeriodTable N (rp_periods r)
                [(shown (i18n_t ''chart.netresult.series'' l), map nr_text rows)] l\<rparr>))"

definition RevenueExpenseChart :: "intl \<Rightarrow> Report \<Rightarrow> Locale \<Rightarrow> chart_card js" where
  "RevenueExpenseChart N r l =
     (let revenueLabel = shown (i18n_t ''chart.revenueExpense.revenue'' l);
          expensesLabel = shown (i18n_t ''chart.revenueExpense.expenses'' l)
      in ebind (revenue_expense_rows r l) (\<lambda>rows.
         Inr \<lparr>cc_titleKey = ''chart.revenueExpense.title'', cc_noteKey = Some ''chart.revenueExpense.note'',
              cc_unavailableKey = None,
              cc_hasData = list_ex (\<lambda>x. re_revenue x \<noteq> 0 \<or> re_expenses x \<noteq> 0) rows,
              cc_chart = El ''div'' []
                [ChartLegend [(''var(--chart-1)'', revenueLabel), (''var(--chart-2)'', expensesLabel)],
                 El ''LineChart'' [(''xDataKey'', ''period'')]
                   [Line ''revenue'' ''var(--chart-1)'', Line ''expenses'' ''var(--chart-2)''],
                 El ''div'' [] (map (\<lambda>x. El ''span'' [] [Txt (formatPeriodShort N (re_period x) l)]) rows)],
              cc_table = PeriodTable N (rp_periods r)
                [(revenueLabel, map re_revenueText rows), (expensesLabel, map re_expensesText rows)] l\<rparr>))"

definition Facet :: "facet \<Rightarrow> html" where
  "Facet f =
     El ''div'' []
       [El ''p'' [(''title'', fc_label f)] [Txt (fc_label f)],
        El ''LineChart'' [(''xDataKey'', ''period'')] [Line ''value'' ''var(--chart-1)'', Line ''avg'' ''var(--vk-chart-deemph)'']]"

definition CategoryTrendChart :: "intl \<Rightarrow> Report \<Rightarrow> Locale \<Rightarrow> chart_card js" where
  "CategoryTrendChart N r l =
     ebind (facets r l) (\<lambda>fs.
     Inr \<lparr>cc_titleKey = ''chart.trend.title'', cc_noteKey = Some ''chart.trend.note'', cc_unavailableKey = None,
          cc_hasData = (fs \<noteq> []), cc_chart = El ''div'' [] (map Facet fs),
          cc_table = PeriodTable N (rp_periods r) (map (\<lambda>f. (fc_label f, fc_texts f)) fs) l\<rparr>)"

text \<open>The charts tab, in the order of the screen.\<close>

definition charts_tab :: "intl \<Rightarrow> Report \<Rightarrow> Locale \<Rightarrow> chart_card list js" where
  "charts_tab N r l =
     emap id [MoneyFlowChart r l, CashFlowChart N r l, ExpenseCategoriesChart r l, NetResultChart N r l,
       RevenueExpenseChart N r l, CategoryTrendChart N r l]"

subsection \<open>Properties\<close>

text \<open>The figures of a card are always reachable: whether or not the browser can draw, whatever there is to
  draw and however often the view was switched, the card shows its chart or its table; it offers the switch
  exactly when it can draw, one more press then shows the other of the two, and a card that cannot draw
  shows the table.\<close>

theorem chart_card_reachable:
  "let view = (\<lambda>n. last (kids (ChartShell canRender ((toggle_view ^^ n) (asTable_init canRender (cc_hasData c))) c l)));
       wrap = (\<lambda>h. El ''div'' [] [h])
   in (if canRender \<and> cc_hasData c
       then view n = wrap (if even n then cc_chart c else cc_table c) \<and>
         view (n + 1) = wrap (if even n then cc_table c else cc_chart c)
       else view n = wrap (cc_table c))"
proof -
  have toggled: "(toggle_view ^^ n) v = (if even n then v else \<not> v)" for n v
    by (induction n) (auto simp: toggle_view_def)
  have last: "last (kids (ChartShell canRender asTable c l)) =
      El ''div'' [] [if asTable \<or> \<not> drawable canRender (cc_hasData c) then cc_table c else cc_chart c]" for asTable
    by (simp add: ChartShell_def Let_def kids_def)
  show ?thesis
    by (simp add: Let_def last toggled asTable_init_def drawable_def)
qed

text \<open>A column is looked up by its label, and the label is the month without its year: over more than twelve
  months the tooltip of the later month shows the figures of the earlier one.\<close>

lemma tooltip_of_other_year:
  assumes "month_short N l (2025, 0) = month_short N l (2026, 0)"
    and "cr_period a = formatPeriodShort N ''2025-01'' l" and "cr_period b = formatPeriodShort N ''2026-01'' l"
  shows "cash_tooltip (a # rows @ [b]) (cr_period b) = [cr_inText a, cr_outText a, cr_netText a]"
proof -
  have "parse_period ''2025-01'' = Some (2025, 0)" "parse_period ''2026-01'' = Some (2026, 0)" by code_simp+
  with assms have "cr_period a = cr_period b" by (simp add: formatPeriodShort_def)
  then show ?thesis by (simp add: cash_tooltip_def)
qed

end
