(* ===== verification/Client.thy ===== *)
theory Client
  imports Home_View Chart_View Imports_View Review_Screen
begin

section \<open>The client as a whole\<close>

text \<open>
  The parts together: renders of the application gate, which set the session, signing out, and every call
  the screens make into the data modules, in any order. A call that has ended is one step; the screens'
  calls share nothing but the session and the server.
\<close>

datatype client_op =
    RenderApp "PGetCurrentUserResponse query"
  | DoSignOut
  | DoCreateOrganisation CreateOrganisationInput
  | DoListBatches
  | DoUploadBatch File SourceKind
  | DoGetBatch string
  | DoListBatchTransactions string
  | DoGetReport Period Period
  | DoGetDrilldown string Period Period Period
  | DoListReviewGroups
  | DoListGroupTransactions string
  | DoReviewSummary
  | DoListCategories
  | DoDecideGroup string ReviewDecision

fun client_step :: "'s env \<Rightarrow> client_op \<Rightarrow> 's world \<Rightarrow> 's world" where
  "client_step E (RenderApp q) w = snd (appLayout_render E q w)"
| "client_step E DoSignOut w = snd (signOut E w)"
| "client_step E (DoCreateOrganisation input) w = snd (createOrganisation E input w)"
| "client_step E DoListBatches w = snd (listBatches E w)"
| "client_step E (DoUploadBatch f k) w = snd (uploadBatch E f k w)"
| "client_step E (DoGetBatch bid) w = snd (getBatch E bid w)"
| "client_step E (DoListBatchTransactions bid) w = snd (listBatchTransactions E bid w)"
| "client_step E (DoGetReport a b) w = snd (getReport E a b w)"
| "client_step E (DoGetDrilldown cat p a b) w = snd (getDrilldown E cat p a b w)"
| "client_step E DoListReviewGroups w = snd (listReviewGroups E w)"
| "client_step E (DoListGroupTransactions key) w = snd (listGroupTransactions E key w)"
| "client_step E DoReviewSummary w = snd (reviewSummary E w)"
| "client_step E DoListCategories w = snd (listCategories E w)"
| "client_step E (DoDecideGroup key d) w = snd (decideGroup E key d w)"

definition client_run :: "'s env \<Rightarrow> client_op list \<Rightarrow> 's world \<Rightarrow> 's world" where
  "client_run E ops w = foldl (\<lambda>w op. client_step E op w) w ops"

text \<open>What was sent, each call with the session its step began in.\<close>

fun client_log :: "'s env \<Rightarrow> client_op list \<Rightarrow> 's world \<Rightarrow> (Session option \<times> call) list" where
  "client_log E [] w = []"
| "client_log E (op # ops) w =
     (let w' = client_step E op w
      in map (Pair (current w)) (drop (length (sent w)) (sent w')) @ client_log E ops w')"

text \<open>A call that names a tenant names that of the session.\<close>

definition own_call :: "Session option \<Rightarrow> call \<Rightarrow> bool" where
  "own_call s c \<longleftrightarrow> call_org c = None \<or> call_org c = map_option orgId s"

definition op_session :: "'s env \<Rightarrow> client_op \<Rightarrow> Session option" where
  "op_session E op =
     (case op of
        RenderApp q \<Rightarrow> (case appLayout_gate E q of ShowShell u org ent \<Rightarrow> Some (session_of org ent) | _ \<Rightarrow> None)
      | _ \<Rightarrow> None)"

lemma tenant_step:
  assumes "tenant_call m"
  shows "current (snd (m w)) = current w \<and> (\<exists>cs. sent (snd (m w)) = sent w @ cs \<and> list_all (own_call (current w)) cs)"
proof (cases "current w")
  case None
  then show ?thesis using tenant_call.without_session [OF assms None] by simp
next
  case (Some s)
  obtain cs where "sent (snd (m w)) = sent w @ cs" "list_all (\<lambda>c. call_org c = Some (orgId s)) cs"
    using tenant_call.with_session [OF assms Some] by blast
  then show ?thesis using Some tenant_call.keeps_session [OF assms, of w]
    by (auto simp: own_call_def list_all_iff)
qed

lemma calls_only_requireSession_own:
  assumes "calls_under (\<lambda>c. c = Some s) P (f s)"
  shows "calls_under (\<lambda>c. c = Some s) P (io_bind requireSession f)"
  using assms by (simp add: calls_under_def requireSession_bind)

lemma own_getBatch: "calls_under (\<lambda>c. c = Some s) (own_call (Some s)) (getBatch E bid)"
proof -
  have "own_calls s (getBatch E bid)" by (rule tenant_call_own [OF tenant_getBatch])
  then show ?thesis unfolding calls_under_def by (fastforce simp: own_call_def list_all_iff)
qed

lemma upload_step_calls:
  "current (snd (uploadBatch E f k w)) = current w \<and>
   (\<exists>cs. sent (snd (uploadBatch E f k w)) = sent w @ cs \<and> list_all (own_call (current w)) cs)"
proof (cases "current w")
  case None
  then show ?thesis by (simp add: uploadBatch_def requireSession_bind)
next
  case (Some s)
  have "calls_under (\<lambda>c. c = Some s) (own_call (Some s)) (uploadBatch E f k)"
    unfolding uploadBatch_def
  proof (rule calls_only_requireSession_own)
    show "calls_under (\<lambda>c. c = Some s) (own_call (Some s)) (io_bind (createImportBatch E
        \<lparr>ci_orgId = orgId s, ci_entityId = entityId s, ci_sourceKind = k, ci_fileName = file_name f,
         ci_declaredBytes = file_size f,
         ci_declaredType = (if file_type f \<noteq> [] then file_type f else ''application/octet-stream'')\<rparr>)
       (\<lambda>reserved. io_bind (putUpload E reserved f) (\<lambda>_.
         io_bind (confirmImportUpload E (orgId s) (ru_batchId reserved)) (\<lambda>_.
         io_bind (getBatch E (ru_batchId reserved)) (\<lambda>found.
         case found of
           None \<Rightarrow> io_throw (Error ''uploadBatch: batch vanished immediately after confirming its upload'')
         | Some d \<Rightarrow> io_return d)))))"
      by (intro calls_only_intros own_getBatch) (simp_all add: own_call_def)
  qed
  then show ?thesis using Some by (simp add: calls_under_def)
qed

lemma create_step_calls:
  "current (snd (createOrganisation E input w)) = current w \<and>
   (\<exists>cs. sent (snd (createOrganisation E input w)) = sent w @ cs \<and> list_all (own_call (current w)) cs)"
proof -
  have "calls_under (\<lambda>_. True) (own_call (current w)) (createOrganisation E input)"
    unfolding createOrganisation_def by (intro calls_only_intros) (simp add: own_call_def)
  then show ?thesis by (simp add: calls_under_def)
qed

lemma signOut_step:
  "current (snd (signOut E w)) = None \<and>
   (\<exists>cs. sent (snd (signOut E w)) = sent w @ cs \<and> list_all (own_call (current w)) cs)"
  by (auto simp: signOut_def io_bind_def clearSession_def rpc_def own_call_def split: prod.splits sum.splits)

lemma render_step:
  "sent (snd (appLayout_render E q w)) = sent w \<and>
   current (snd (appLayout_render E q w)) =
     (case appLayout_gate E q of ShowShell u org ent \<Rightarrow> Some (session_of org ent) | _ \<Rightarrow> current w)"
  by (simp add: appLayout_render_def io_return_def io_bind_def setSession_def split: gate.split)

lemmas data_steps =
  tenant_step [OF tenant_listBatches]
  tenant_step [OF tenant_getBatch]
  tenant_step [OF tenant_listBatchTransactions]
  tenant_step [OF tenant_getReport]
  tenant_step [OF tenant_getDrilldown]
  tenant_step [OF tenant_listReviewGroups]
  tenant_step [OF tenant_listGroupTransactions]
  tenant_step [OF tenant_reviewSummary]
  tenant_step [OF tenant_listCategories]
  tenant_step [OF tenant_decideGroup]

lemma client_step_calls:
  "\<exists>cs. sent (client_step E op w) = sent w @ cs \<and> list_all (own_call (current w)) cs"
  by (cases op) (simp_all add: data_steps upload_step_calls create_step_calls signOut_step render_step)

lemma client_step_session:
  "current (client_step E op w) \<in> {None, current w, op_session E op}"
  by (cases op) (simp_all add: data_steps upload_step_calls create_step_calls signOut_step render_step op_session_def
    split: gate.split)

text \<open>C2. However a person goes about the client, one tenant's data is asked for under that tenant's name only:
  over any sequence of renders, sign-outs, creations of organisations and calls of the screens, everything sent
  is in the log, every call that names a tenant names the organisation of the session it was made in, and no
  session but the first organisation of an answered current-user query, or the one the run began with, is
  ever used; so a browser that never signed in, or has signed out, asks for no tenant's data.\<close>

theorem client_tenant_isolation:
  "sent (client_run E ops w) = sent w @ map snd (client_log E ops w) \<and>
   list_all (\<lambda>(s, c). own_call s c \<and> s \<in> {None, current w} \<union> set (map (op_session E) ops)) (client_log E ops w)"
proof (induction ops arbitrary: w)
  case (Cons op ops)
  let ?w = "client_step E op w"
  obtain cs where cs: "sent ?w = sent w @ cs" "list_all (own_call (current w)) cs"
    using client_step_calls by blast
  have log: "client_log E (op # ops) w = map (Pair (current w)) cs @ client_log E ops ?w"
    using cs(1) by (simp add: Let_def)
  have "sent (client_run E (op # ops) w) = sent ?w @ map snd (client_log E ops ?w)"
    using Cons.IH by (simp add: client_run_def)
  moreover have "list_all (\<lambda>(s, c). own_call s c \<and> s \<in> {None, current w} \<union> set (map (op_session E) (op # ops))) (client_log E ops ?w)"
    using conjunct2 [OF Cons.IH, of ?w] client_step_session [of E op w] by (auto simp: list_all_iff)
  ultimately show ?case unfolding log using cs by (auto simp: list_all_iff comp_def)
qed (simp add: client_run_def)

end
