(* ===== verification/Review_View.thy ===== *)
theory Review_View
  imports Review_Screen Report_View
begin

section \<open>The review screen as it is rendered: ReviewScreen.tsx\<close>

text \<open>
  The markup of \<open>src/web/src/app/ReviewScreen.tsx\<close> and \<open>src/web/src/ui/Kbd.tsx\<close> over the state of the theory
  Review_Screen: the legend, the breadcrumb, the options with their digits, the refusal, the three
  decisions and the group's rows. What a press of each button does is \<open>handle_event\<close> of that theory;
  here the properties say that what is printed and what it does agree.
\<close>

definition Kbd :: "html list \<Rightarrow> html" where
  "Kbd cs = El ''kbd'' [] cs"

definition key_return :: string where "key_return = [CHR 0xE2, CHR 0x86, CHR 0xB5]"
definition key_up :: string where "key_up = [CHR 0xE2, CHR 0x86, CHR 0x91]"
definition key_down :: string where "key_down = [CHR 0xE2, CHR 0x86, CHR 0x93]"
definition key_erase :: string where "key_erase = [CHR 0xE2, CHR 0x8C, CHR 0xAB]"
definition chevron :: string where "chevron = [CHR 0xE2, CHR 0x80, CHR 0xBA]"
definition nbsp :: string where "nbsp = [CHR 0xC2, CHR 0xA0]"

definition Legend_items :: "(html \<times> string) list" where
  "Legend_items =
     [(Kbd [Txt ''1''], ''review.key.digit''), (Kbd [Txt key_return], ''review.key.enter''),
      (Kbd [Txt ''T''], ''review.key.transfer''), (Kbd [Txt ''N''], ''review.key.notPnl''),
      (El ''span'' [] [Kbd [Txt key_up], Kbd [Txt key_down]], ''review.key.move''),
      (Kbd [Txt key_erase], ''review.key.back''), (Kbd [Txt ''Esc''], ''review.key.clear'')]"

definition Legend :: "Locale \<Rightarrow> html" where
  "Legend l =
     El ''div'' [] (El ''span'' [] [msg ''review.legend'' l] #
       map (\<lambda>(cap, key). El ''span'' [] [cap, msg key l]) Legend_items)"

text \<open>\<open>trail.map((name) => name + SEPARATOR).join("")\<close>.\<close>

definition trail_text :: "string list \<Rightarrow> string" where
  "trail_text names = concat (map (\<lambda>n. n @ SEPARATOR) names)"

definition selected_line :: "review_screen \<Rightarrow> html" where
  "selected_line st =
     El ''span'' [] (case sc_selectedLeaf st of
        Some n \<Rightarrow> [msg ''review.selected'' (sc_locale st), Txt '': '', Txt (trail_text (leaf_trail n)),
          El ''span'' [] [Txt (leaf_name n)]]
      | None \<Rightarrow> [Txt nbsp])"

definition filter_field :: "review_screen \<Rightarrow> html" where
  "filter_field st =
     (let hint = shown (i18n_t ''review.search.placeholder'' (sc_locale st)) in
      El ''input'' [(''type'', ''text''), (''value'', sc_query st), (''placeholder'', hint), (''aria-label'', hint)] [])"

text \<open>The crumbs: the root and the branches opened, the last one text, the others buttons.\<close>

definition crumbs :: "review_screen \<Rightarrow> string list" where
  "crumbs st = shown (i18n_t ''review.tree.root'' (sc_locale st)) # map node_label (sc_trail st)"

definition crumb :: "nat \<Rightarrow> nat \<Rightarrow> string \<Rightarrow> html" where
  "crumb n i label =
     El ''span'' [] ((if i > 0 then [El ''span'' [] [Txt chevron]] else []) @
       [if i + 1 = n then El ''span'' [(''aria-current'', ''location'')] [Txt label]
        else El ''button'' [(''type'', ''button'')] [Txt label]])"

definition crumb_nav :: "review_screen \<Rightarrow> html list" where
  "crumb_nav st =
     (if sc_searching st then []
      else [El ''nav'' [(''aria-label'', shown (i18n_t ''review.tree.root'' (sc_locale st)))]
        (map (\<lambda>(i, label). crumb (length (crumbs st)) i label) (enumerate 0 (crumbs st)))])"

definition side_line :: "review_screen \<Rightarrow> html list" where
  "side_line st =
     (case sc_groupSide st of
        None \<Rightarrow> []
      | Some s \<Rightarrow>
          [El ''p'' [] ((if sc_showAllSides st then []
               else [msg (if s = Expense then ''review.side.expense'' else ''review.side.income'') (sc_locale st)]) @
             [El ''button'' [(''type'', ''button'')]
               [msg (if sc_showAllSides st then ''review.side.showMatching'' else ''review.side.showAll'')
                 (sc_locale st)]])])"

definition option_pressed :: "review_screen \<Rightarrow> TreeNode \<Rightarrow> bool" where
  "option_pressed st n \<longleftrightarrow> \<not> is_branch n \<and> sc_selected st = Some (leaf_code n)"

definition option_text :: "review_screen \<Rightarrow> TreeNode \<Rightarrow> html list" where
  "option_text st n =
     (if sc_searching st \<and> \<not> is_branch n
      then [El ''span'' [] [Txt (trail_text (leaf_trail n))], Txt (leaf_name n)]
      else [Txt (node_label n)])"

definition option_item :: "review_screen \<Rightarrow> nat \<Rightarrow> TreeNode \<Rightarrow> html" where
  "option_item st i n =
     El ''li'' []
       [El ''button''
         ((''type'', ''button'') #
           (if is_branch n then [] else [(''aria-pressed'', if option_pressed st n then ''true'' else ''false'')]))
         ((if i < 9 then [Kbd [Txt (show_nat (i + 1))]] else []) @
          option_text st n @
          (if is_branch n then [El ''span'' [(''aria-hidden'', ''true'')] [Txt chevron]] else []))]"

definition option_items :: "review_screen \<Rightarrow> html list" where
  "option_items st =
     (if sc_options st = [] then [El ''li'' [] [msg ''review.search.empty'' (sc_locale st)]]
      else map (\<lambda>(i, n). option_item st i n) (enumerate 0 (sc_options st)))"

definition refusal :: "review_screen \<Rightarrow> html list" where
  "refusal st =
     (case sc_decideError st of
        Some e \<Rightarrow> if e \<noteq> [] then [El ''p'' [(''role'', ''alert'')] [Txt e]] else []
      | None \<Rightarrow> [])"

definition decide_buttons :: "review_screen \<Rightarrow> html" where
  "decide_buttons st =
     El ''div'' []
       [El ''button'' ((''type'', ''button'') # (if sc_armed st = None then [(''disabled'', '''')] else []))
          [msg ''review.action.approve'' (sc_locale st)],
        El ''button'' [(''type'', ''button'')] [msg ''review.action.transfer'' (sc_locale st)],
        El ''button'' [(''type'', ''button'')] [msg ''review.action.notPnl'' (sc_locale st)]]"

definition transaction_row :: "ReviewTransaction \<Rightarrow> Locale \<Rightarrow> html js" where
  "transaction_row x l =
     ebind (fmt (rt_amount x) l) (\<lambda>text. Inr (El ''div'' []
       [El ''span'' [] [Txt (rt_bookedOn x)], El ''span'' [] [Txt (rt_description x)], El ''span'' [] [Txt text]]))"

text \<open>The windowed rows are those \<open>window\<close> picks, as in the batch screen.\<close>

definition transaction_rows :: "(nat \<Rightarrow> nat list) \<Rightarrow> ReviewTransaction list \<Rightarrow> Locale \<Rightarrow> html list js" where
  "transaction_rows window rows l =
     emap (\<lambda>i. transaction_row (rows ! i) l) (filter (\<lambda>i. i < length rows) (window (length rows)))"

definition picker :: "review_screen \<Rightarrow> html" where
  "picker st =
     El ''section'' []
       ([El ''div'' [] [filter_field st, selected_line st]] @ crumb_nav st @ side_line st @
        [El ''ol'' [] (option_items st)] @ refusal st @ [decide_buttons st])"

text \<open>\<open>err\<close> is \<open>groups.error\<close>, which a failed reload sets beside the data; \<open>rows\<close> the transactions query.\<close>

definition ReviewScreen ::
    "(js_error \<Rightarrow> string) \<Rightarrow> (nat \<Rightarrow> nat list) \<Rightarrow> js_error option \<Rightarrow> review_screen \<Rightarrow>
     ReviewTransaction list option \<Rightarrow> html js" where
  "ReviewScreen error_text window err st rows =
     (let l = sc_locale st in
      if sc_groups st = None \<and> err = None then Inr (Loading (shown (i18n_t ''review.title'' l)) 5)
      else case err of
        Some e \<Rightarrow> Inr (ErrorState (error_text e) None)
      | None \<Rightarrow>
        (case sc_group st of
           None \<Rightarrow> Inr (EmptyState (shown (i18n_t ''empty.review.title'' l)) (shown (i18n_t ''empty.review.detail'' l)) None)
         | Some g \<Rightarrow>
             ebind (fmt (gr_total g) l) (\<lambda>total.
             ebind (transaction_rows window (case rows of Some xs \<Rightarrow> xs | None \<Rightarrow> []) l) (\<lambda>trs.
             Inr (El ''div'' []
               [El ''header'' [] [El ''h1'' [] [msg ''review.title'' l],
                  El ''span'' [] [Txt (show_nat (fst (sc_position st))), Txt '' '', msg ''review.groupOf'' l, Txt '' '',
                    Txt (show_nat (snd (sc_position st)))]],
                El ''p'' [] [msg ''review.blurb'' l],
                Legend l,
                El ''div'' [] [El ''h2'' [] [Txt (gr_counterpartyLabel g)], El ''span'' [] [Txt total]],
                picker st,
                El ''section'' [] [El ''h3'' [] [msg ''review.transactions'' l], El ''div'' [] [El ''div'' [] trs]]])))))"

subsection \<open>The digits address what is on screen\<close>

lemma no_kbd_text [simp]: "tagged tag (Txt s) = []" "tagged tag (msg key l) = []"
  by (simp_all add: msg_def)

lemma option_text_kbd: "concat (map (tagged ''kbd'') (option_text st n)) = []"
  by (simp add: option_text_def)

lemma option_item_kbd:
  "map texts (tagged ''kbd'' (option_item st i n)) = (if i < 9 then [[show_nat (i + 1)]] else [])"
  using option_text_kbd [of st n] by (simp add: option_item_def Kbd_def)

lemma digit_keys_indexed:
  "list_all (\<lambda>i. [digit_char (i + 1)] \<in> set digit_keys \<and> digit_index [digit_char (i + 1)] = i) [0, 1, 2, 3, 4, 5, 6, 7, 8]"
  by code_simp

lemma digit_of_position:
  assumes "i < 9"
  shows "show_nat (i + 1) \<in> set digit_keys \<and> digit_index (show_nat (i + 1)) = i"
proof -
  have "show_nat (i + 1) = [digit_char (i + 1)]" using assms by (subst show_nat.simps) simp
  moreover
  from assms have "i \<in> set [0, 1, 2, 3, 4, 5, 6, 7, 8]" by simp arith
  then have "[digit_char (i + 1)] \<in> set digit_keys \<and> digit_index [digit_char (i + 1)] = i"
    using digit_keys_indexed unfolding list_all_iff by (rule bspec [rotated])
  ultimately show ?thesis by simp
qed


subsection \<open>What is armed and what was refused\<close>

definition attrs :: "html \<Rightarrow> (string \<times> string) list" where
  "attrs h = (case h of Txt _ \<Rightarrow> [] | El _ as _ \<Rightarrow> as | LinkTo _ _ _ as _ \<Rightarrow> as)"

text \<open>The alerts of a screen: every element announced as one, whatever its tag.\<close>

fun alert_elements :: "html \<Rightarrow> html list" where
  "alert_elements (Txt s) = []"
| "alert_elements (El t as cs) = (if (''role'', ''alert'') \<in> set as then [El t as cs] else []) @ concat (map alert_elements cs)"
| "alert_elements (LinkTo to ps se as cs) =
     (if (''role'', ''alert'') \<in> set as then [LinkTo to ps se as cs] else []) @ concat (map alert_elements cs)"

definition disabled :: "html \<Rightarrow> bool" where
  "disabled h \<longleftrightarrow> ''disabled'' \<in> set (map fst (attrs h))"

lemma disabled_El [simp]: "disabled (El t as cs) \<longleftrightarrow> ''disabled'' \<in> set (map fst as)"
  by (simp add: disabled_def attrs_def)

lemma no_alert_text [simp]: "alert_elements (msg key l) = []"
  by (simp add: msg_def)

lemma concat_Nil: "(\<And>x. x \<in> set xs \<Longrightarrow> f x = []) \<Longrightarrow> concat (map f xs) = []"
  by (simp add: concat_eq_Nil_conv)

text \<open>The parts of the picker that hold neither a disabled button nor an alert.\<close>

lemma option_items_plain:
  "list_all (Not \<circ> disabled) (concat (map (tagged ''button'') (option_items st)))"
  "concat (map alert_elements (option_items st)) = []"
  by (auto simp: option_items_def option_item_def option_text_def Kbd_def list_all_iff enumerate_eq_zip
      split: if_splits dest!: set_zip_rightD intro!: concat_Nil)

lemma crumb_nav_plain:
  "list_all (Not \<circ> disabled) (concat (map (tagged ''button'') (crumb_nav st)))"
  "concat (map alert_elements (crumb_nav st)) = []"
  by (auto simp: crumb_nav_def crumb_def list_all_iff enumerate_eq_zip split: if_splits intro!: concat_Nil)

lemma side_line_plain:
  "list_all (Not \<circ> disabled) (concat (map (tagged ''button'') (side_line st)))"
  "concat (map alert_elements (side_line st)) = []"
  by (auto simp: side_line_def split: option.split)

lemma head_plain:
  "tagged ''button'' (filter_field st) = []" "alert_elements (filter_field st) = []"
  "tagged ''button'' (selected_line st) = []" "alert_elements (selected_line st) = []"
  "tagged ''button'' (Legend l) = []" "alert_elements (Legend l) = []"
  by (auto simp: filter_field_def Let_def selected_line_def Legend_def Legend_items_def Kbd_def split: option.split)

lemma rows_plain:
  assumes "transaction_rows window xs l = Inr trs"
  shows "concat (map (tagged ''button'') trs) = []" "concat (map alert_elements trs) = []"
proof -
  have row: "tagged ''button'' h = [] \<and> alert_elements h = []" if "transaction_row x l = Inr h" for x h
    using that by (auto simp: transaction_row_def ebind_Inr_iff)
  note plain = emap_concat [OF assms [unfolded transaction_rows_def], of _ "\<lambda>_. []"]
  show "concat (map (tagged ''button'') trs) = []" using plain [of "tagged ''button''"] row by simp
  show "concat (map alert_elements trs) = []" using plain [of alert_elements] row by simp
qed

text \<open>The buttons of the picker: the crumbs, the sides and the options, none of them disabled, then the three
  decisions.\<close>

definition choice_buttons :: "review_screen \<Rightarrow> html list" where
  "choice_buttons st = concat (map (tagged ''button'') (crumb_nav st @ side_line st @ option_items st))"

lemma choice_buttons_enabled: "list_all (Not \<circ> disabled) (choice_buttons st)"
  using option_items_plain(1) crumb_nav_plain(1) side_line_plain(1) by (simp add: choice_buttons_def)

lemma refusal_plain: "concat (map (tagged ''button'') (refusal st)) = []"
  by (auto simp: refusal_def split: option.split)

lemma picker_buttons: "tagged ''button'' (picker st) = choice_buttons st @ kids (decide_buttons st)"
  by (simp add: picker_def head_plain refusal_plain choice_buttons_def decide_buttons_def kids_def
      del: concat_eq_Nil_conv)

lemma picker_alert: "alert_elements (picker st) = refusal st"
  using option_items_plain crumb_nav_plain side_line_plain
  by (simp add: picker_def head_plain decide_buttons_def refusal_def del: concat_eq_Nil_conv split: option.split)

lemma ReviewScreen_parts:
  assumes "ReviewScreen error_text window None st rows = Inr h" and "sc_group st = Some g"
  shows "tagged ''button'' h = choice_buttons st @ kids (decide_buttons st)" and "alert_elements h = refusal st"
proof -
  have "sc_groups st \<noteq> None" using assms(2) by (cases "sc_groups st") (simp_all add: sc_group_def sc_list_def)
  with assms obtain total trs where
    trs: "transaction_rows window (case rows of Some xs \<Rightarrow> xs | None \<Rightarrow> []) (sc_locale st) = Inr trs"
    and h: "h = El ''div'' []
       [El ''header'' [] [El ''h1'' [] [msg ''review.title'' (sc_locale st)],
          El ''span'' [] [Txt (show_nat (fst (sc_position st))), Txt '' '', msg ''review.groupOf'' (sc_locale st),
            Txt '' '', Txt (show_nat (snd (sc_position st)))]],
        El ''p'' [] [msg ''review.blurb'' (sc_locale st)], Legend (sc_locale st),
        El ''div'' [] [El ''h2'' [] [Txt (gr_counterpartyLabel g)], El ''span'' [] [Txt total]], picker st,
        El ''section'' [] [El ''h3'' [] [msg ''review.transactions'' (sc_locale st)], El ''div'' [] [El ''div'' [] trs]]]"
    by (auto simp: ReviewScreen_def Let_def ebind_Inr_iff)
  show "tagged ''button'' h = choice_buttons st @ kids (decide_buttons st)"
    using rows_plain(1) [OF trs] by (simp add: h head_plain picker_buttons del: concat_eq_Nil_conv)
  show "alert_elements h = refusal st"
    using rows_plain(2) [OF trs] by (simp add: h head_plain picker_alert del: concat_eq_Nil_conv)
qed

text \<open>C19. The screen does not hide what it will or will not do: whenever a group is on screen, the refusal of the
  last decision - and nothing else on the screen - is an alert; the last three buttons are approve, internal
  transfer and not in the profit and loss, in this order, and no other button is ever disabled; Approve is
  disabled exactly when pressing it would send nothing, and then Enter sends nothing either; the other two are
  never disabled and one press - of the button, or of T or N outside the filter - sends that decision for the
  group on screen.\<close>

theorem ReviewScreen_actions:
  "case ReviewScreen error_text window None st rows of
     Inl e \<Rightarrow> True
   | Inr h \<Rightarrow> (case sc_group st of
       None \<Rightarrow> tagged ''button'' h = []
     | Some g \<Rightarrow>
         let buttons = tagged ''button'' h; choices = take (length buttons - 3) buttons;
           decisions = drop (length buttons - 3) buttons;
           say = (\<lambda>key. [shown (i18n_t key (sc_locale st))]);
           sends = (\<lambda>st' d. sc_pending st' = sc_pending st @ [(gr_counterpartyKey g, d, sc_locale st)])
         in map texts (alert_elements h) =
              (case sc_decideError st of Some e \<Rightarrow> if e = [] then [] else [[e]] | None \<Rightarrow> []) \<and>
            list_all (Not \<circ> disabled) choices \<and>
            map texts decisions =
              [say ''review.action.approve'', say ''review.action.transfer'', say ''review.action.notPnl''] \<and>
            map disabled decisions = [sc_pending (handle_event ClickApprove st) = sc_pending st, False, False] \<and>
            sc_pending (handle_event ClickApprove st) = sc_pending (fst (onKey ''Enter'' False typing st)) \<and>
            (case sc_armed st of Some c \<Rightarrow> sends (handle_event ClickApprove st) (Classify c)
             | None \<Rightarrow> handle_event ClickApprove st = st) \<and>
            sends (handle_event ClickTransfer st) InternalTransfer \<and>
            fst (onKey ''t'' False False st) = handle_event ClickTransfer st \<and>
            sends (handle_event ClickNotPnl st) NotInPnl \<and>
            fst (onKey ''n'' False False st) = handle_event ClickNotPnl st)"
proof (cases "ReviewScreen error_text window None st rows")
  case (Inr h)
  show ?thesis
  proof (cases "sc_group st")
    case None
    with Inr show ?thesis
      by (auto simp: ReviewScreen_def Let_def Loading_def Skeleton_def EmptyState_def comp_def split: if_splits)
  next
    case (Some g)
    note parts = ReviewScreen_parts [OF Inr Some]
    have sends: "sc_pending (decide d st) = sc_pending st @ [(gr_counterpartyKey g, d, sc_locale st)]" for d
      by (simp add: decide_def Some)
    have keys: "fst (onKey ''Enter'' False typing st) = (case sc_armed st of Some c \<Rightarrow> decide (Classify c) st | None \<Rightarrow> st)"
      "fst (onKey ''t'' False False st) = decide InternalTransfer st" "fst (onKey ''n'' False False st) = decide NotInPnl st"
      by (simp_all add: onKey_def digit_keys_def)
    have three: "length (kids (decide_buttons st)) = 3" by (simp add: decide_buttons_def kids_def)
    have refused: "map texts (alert_elements h) = (case sc_decideError st of Some e \<Rightarrow> if e = [] then [] else [[e]] | None \<Rightarrow> [])"
      by (simp add: parts(2) refusal_def split: option.split)
    show ?thesis
      using choice_buttons_enabled [of st]
      by (cases "sc_armed st")
        (simp_all add: Inr Some Let_def refused parts(1) three sends keys, simp_all add: decide_buttons_def kids_def msg_def)
  qed
qed simp

end
