(* ===== verification/Site_View.thy ===== *)
theory Site_View
  imports Report_View
begin

section \<open>The public pages: site\<close>

text \<open>
  \<open>src/web/src/site\<close>: the sample report of the landing page (\<open>sample.ts\<close>), the landing page itself, the
  sign-in page in its public frame and the page for an unknown address, as renders. An entrance animation
  moves what is rendered and is left out. The sample is built by the code that is modelled here, so its
  figures are computed, not copied.
\<close>

subsection \<open>sample.ts\<close>

definition SAMPLE_CURRENCY :: string where "SAMPLE_CURRENCY = ''EUR''"

definition SAMPLE_PERIODS :: "string list" where
  "SAMPLE_PERIODS = [''2026-03'', ''2026-04'', ''2026-05'', ''2026-06'', ''2026-07'', ''2026-08'']"

definition sample_money :: "string \<Rightarrow> Money" where
  "sample_money u = \<lparr>minorUnits = u, currencyCode = SAMPLE_CURRENCY\<rparr>"

definition RAW :: "(string \<times> string list) list" where
  "RAW =
     [(''01'', [''7060000'', ''7100000'', ''6710000'', ''7290000'', ''7220000'', ''7580000'']),
      (''02'', [''-2440000'', ''-2340000'', ''-2240000'', ''-2550000'', ''-2390000'', ''-2560000'']),
      (''03'', [''-336000'', ''-325000'', ''-299000'', ''-347000'', ''-329000'', ''-355000'']),
      (''04'', [''-2601240'', ''-2691860'', ''-2684025'', ''-2770580'', ''-2725535'', ''-2846090'']),
      (''05'', [''-42000'', ''-38000'', ''-40000'', ''-41000'', ''-39000'', ''-43000''])]"

text \<open>\<open>RAW[code]!\<close>; every code asked for is there.\<close>

definition raw :: "string \<Rightarrow> string list" where
  "raw code = (case map_of RAW code of Some vs \<Rightarrow> vs | None \<Rightarrow> [])"

definition sample_line :: "string \<Rightarrow> string \<Rightarrow> bool \<Rightarrow> string list \<Rightarrow> ReportLine js" where
  "sample_line code label computed vs =
     ebind (sumMinorUnits vs) (\<lambda>total. Inr
       \<lparr>ln_categoryId = code, ln_label = label, ln_computed = computed, ln_values = map sample_money vs,
        ln_total = sample_money total, ln_percentOfRevenue = None\<rparr>)"

definition perPeriod :: "(nat \<Rightarrow> string js) \<Rightarrow> string list js" where
  "perPeriod f = emap f [0..<length SAMPLE_PERIODS]"

definition sample_minus :: "Money \<Rightarrow> Money \<Rightarrow> string js" where
  "sample_minus a b =
     ebind (js_BigInt (minorUnits a)) (\<lambda>x. ebind (js_BigInt (minorUnits b)) (\<lambda>y. Inr (show_int (x - y))))"

definition SAMPLE_REPORT :: "Report js" where
  "SAMPLE_REPORT =
     ebind (sample_line ''01'' ''NET SALES'' False (raw ''01'')) (\<lambda>netSales.
     ebind (sample_line ''02'' ''CS'' False (raw ''02'')) (\<lambda>cs.
     ebind (perPeriod (\<lambda>i. sumMinorUnits [raw ''01'' ! i, raw ''02'' ! i])) (\<lambda>gmValues.
     ebind (sample_line ''91'' ''GM'' True gmValues) (\<lambda>gm.
     ebind (sample_line ''03'' ''OCS'' False (raw ''03'')) (\<lambda>ocs.
     ebind (perPeriod (\<lambda>i. sumMinorUnits [gmValues ! i, raw ''03'' ! i])) (\<lambda>nmValues.
     ebind (sample_line ''92'' ''NM'' True nmValues) (\<lambda>nm.
     ebind (sample_line ''04'' ''OPEX'' False (raw ''04'')) (\<lambda>opex.
     ebind (sample_line ''05'' ''OIE'' False (raw ''05'')) (\<lambda>oie.
     ebind (perPeriod (\<lambda>i. sumMinorUnits [nmValues ! i, raw ''04'' ! i, raw ''05'' ! i])) (\<lambda>cmValues.
     ebind (sample_line ''93'' ''CM'' True cmValues) (\<lambda>cm.
     ebind (sample_line ''94'' ''IBT'' True cmValues) (\<lambda>ibt.
     ebind (sample_line ''95'' ''NI'' True cmValues) (\<lambda>ni.
     ebind (sample_minus (ln_total netSales) (ln_total cm)) (\<lambda>expenses.
     ebind (perPeriod (\<lambda>i. sample_minus (ln_values netSales ! i) (ln_values cm ! i))) (\<lambda>expensesByPeriod.
     Inr
      \<lparr>rp_currencyCode = SAMPLE_CURRENCY, rp_periods = SAMPLE_PERIODS, rp_basis = Cash,
       rp_lines = [netSales, cs, gm, ocs, nm, opex, oie, cm, ibt, ni], rp_buckets = [],
       rp_netByPeriod = ln_values ni, rp_netTotal = ln_total ni, rp_revenueTotal = ln_total netSales,
       rp_expensesTotal = sample_money expenses, rp_expensesByPeriod = map sample_money expensesByPeriod,
       rp_cash = map (\<lambda>period. \<lparr>cp_period = period, cp_moneyIn = sample_money ''0'',
         cp_moneyOut = sample_money ''0'', cp_net = sample_money ''0''\<rparr>) SAMPLE_PERIODS,
       rp_reconciliation = \<lparr>rcn_opening = sample_money ''15230000'', rcn_moneyIn = sample_money ''0'',
         rcn_moneyOut = sample_money ''0'', rcn_transfers = sample_money ''0'', rcn_closing = sample_money ''15230000''\<rparr>,
       rp_provenance = \<lparr>taxonomyVersion = ''v3'', rulesetVersion = ''v11'', engineVersion = ''0.4.2''\<rparr>,
       rp_unreviewedAmount = sample_money ''0''\<rparr>)))))))))))))))"

subsection \<open>LandingPage.tsx\<close>

definition anchor :: "string \<Rightarrow> html list \<Rightarrow> html" where
  "anchor href cs = El ''a'' [(''href'', href)] cs"

definition Nav :: "Locale \<Rightarrow> html" where
  "Nav l =
     El ''header'' []
       [El ''span'' [] [msg ''app.title'' l],
        El ''nav'' []
          [anchor ''#how'' [msg ''landing.nav.how'' l], anchor ''#product'' [msg ''landing.nav.product'' l],
           anchor ''/signin'' [msg ''landing.cta'' l]]]"

definition Cta :: "string \<Rightarrow> html list \<Rightarrow> html" where
  "Cta href cs = anchor href cs"

definition Hero :: "Locale \<Rightarrow> html" where
  "Hero l =
     El ''section'' []
       [El ''div'' [(''aria-hidden'', ''true'')] [], El ''div'' [] [],
        El ''div'' []
          [El ''h1'' [] [msg ''landing.promise'' l], El ''p'' [] [msg ''landing.sub'' l],
           El ''div'' [] [Cta ''/signin'' [msg ''landing.cta'' l], Cta ''#product'' [msg ''landing.cta.secondary'' l]]]]"

definition BentoCard :: "html list \<Rightarrow> html" where
  "BentoCard cs = El ''div'' [] cs"

definition StepCard :: "nat \<Rightarrow> string \<Rightarrow> string \<Rightarrow> Locale \<Rightarrow> html" where
  "StepCard n titleKey bodyKey l =
     BentoCard
       [El ''span'' [] [Txt (js_padStart (show_nat n) 2 CHR ''0'')], El ''h3'' [] [msg titleKey l],
        El ''p'' [] [msg bodyKey l]]"

definition Interest :: "Locale \<Rightarrow> html" where
  "Interest l =
     El ''section'' [(''id'', ''how'')]
       [El ''div'' []
         ([BentoCard [El ''h2'' [] [msg ''landing.problem.title'' l], El ''p'' [] [msg ''landing.problem.body'' l]],
           BentoCard [El ''span'' [] [Txt (''01'' @ [CHR 0xE2, CHR 0x80, CHR 0x93] @ ''03'')],
             El ''p'' [] [msg ''landing.how.title'' l]]] @
          map (\<lambda>n. StepCard n (''landing.how.'' @ show_nat n @ ''.title'') (''landing.how.'' @ show_nat n @ ''.body'') l)
            [1, 2, 3])]"

definition Marquee :: "Locale \<Rightarrow> html" where
  "Marquee l =
     (let ws = map (\<lambda>k. shown (i18n_t k l))
            [''nav.imports'', ''nav.review'', ''nav.reports'', ''report.basis.cash'', ''report.basis.accrual'']
      in El ''div'' [(''aria-hidden'', ''true'')] [El ''div'' [] (map (\<lambda>w. El ''span'' [] [Txt w]) (ws @ ws))])"

definition Desire :: "intl \<Rightarrow> Locale \<Rightarrow> html list js" where
  "Desire N l =
     ebind SAMPLE_REPORT (\<lambda>r.
     ebind (PnlTable N r l (hd (rp_periods r)) (last (rp_periods r)) False) (\<lambda>tbl.
     Inr [Marquee l,
       El ''section'' [(''id'', ''product'')]
         [El ''h2'' [] [msg ''landing.product.title'' l], El ''p'' [] [msg ''landing.product.body'' l],
          El ''div'' [] [El ''div'' [] [tbl]]]]))"

definition Action :: "Locale \<Rightarrow> html" where
  "Action l =
     El ''section'' []
       [El ''div'' [] [El ''h2'' [] [msg ''landing.close.title'' l],
          El ''div'' [] [Cta ''/signin'' [msg ''landing.cta'' l]]],
        El ''footer'' [] [El ''p'' [] [msg ''landing.rights'' l]]]"

definition LandingPage :: "intl \<Rightarrow> Locale \<Rightarrow> html js" where
  "LandingPage N l =
     ebind (Desire N l) (\<lambda>desire. Inr (El ''div'' []
       [anchor ''#main-content'' [msg ''a11y.skipToContent'' l], Nav l,
        El ''main'' [(''id'', ''main-content'')] ([Hero l, Interest l] @ desire @ [Action l])]))"

subsection \<open>PublicLayout.tsx, SignIn.tsx, SignInPage.tsx, NotFound.tsx\<close>

definition PublicLayout :: "Locale \<Rightarrow> html list \<Rightarrow> html" where
  "PublicLayout l cs =
     El ''div'' []
       [anchor ''#main-content'' [msg ''a11y.skipToContent'' l],
        El ''header'' [] [El ''span'' [] [msg ''app.title'' l]],
        El ''main'' [(''id'', ''main-content'')] cs,
        El ''footer'' [] [El ''p'' [] [msg ''app.tagline'' l]]]"

text \<open>\<open>t\<close> and \<open>authErrorMessage\<close> are called without a locale, so they take the browser's.\<close>

definition SignIn :: "Locale \<Rightarrow> string option \<Rightarrow> html" where
  "SignIn browser authError =
     El ''section'' []
       ([El ''h2'' [] [msg ''signIn.heading'' browser], El ''p'' [] [msg ''signIn.blurb'' browser]] @
        (case authErrorMessage authError browser of
           Some m \<Rightarrow> if m \<noteq> [] then [El ''p'' [(''role'', ''alert'')] [Txt m]] else []
         | None \<Rightarrow> []) @
        [anchor ''/auth/google/start'' [msg ''signIn.google'' browser]])"

text \<open>\<open>query\<close> is \<open>URLSearchParams.get\<close> of the address.\<close>

definition authErrorFromLocation :: "(string \<Rightarrow> string option) \<Rightarrow> string option" where
  "authErrorFromLocation query = query ''auth_error''"

definition SignInPage :: "Locale \<Rightarrow> Locale \<Rightarrow> (string \<Rightarrow> string option) \<Rightarrow> html" where
  "SignInPage chosen browser query =
     PublicLayout chosen [El ''div'' [] [SignIn browser (authErrorFromLocation query)]]"

definition NotFound :: "Locale \<Rightarrow> html" where
  "NotFound l =
     El ''div'' [] [El ''div'' []
       [El ''p'' [] [msg ''notFound.title'' l], El ''p'' [] [msg ''notFound.detail'' l],
        anchor ''/'' [msg ''notFound.cta'' l]]]"

subsection \<open>The figures of the sample\<close>

lemma digit_chars:
  "digit_char 0 = CHR ''0''" "digit_char 1 = CHR ''1''" "digit_char (Suc 0) = CHR ''1''" "digit_char 2 = CHR ''2''"
  "digit_char 3 = CHR ''3''" "digit_char 4 = CHR ''4''" "digit_char 5 = CHR ''5''" "digit_char 6 = CHR ''6''"
  "digit_char 7 = CHR ''7''" "digit_char 8 = CHR ''8''" "digit_char 9 = CHR ''9''"
  by code_simp+

lemmas spell = show_int_def show_nat.simps digit_chars

definition sales :: "int list" where "sales = [7060000, 7100000, 6710000, 7290000, 7220000, 7580000]"
definition services :: "int list" where "services = [-2440000, -2340000, -2240000, -2550000, -2390000, -2560000]"
definition other_services :: "int list" where "other_services = [-336000, -325000, -299000, -347000, -329000, -355000]"
definition opex :: "int list" where "opex = [-2601240, -2691860, -2684025, -2770580, -2725535, -2846090]"
definition other_income :: "int list" where "other_income = [-42000, -38000, -40000, -41000, -39000, -43000]"

lemma raw_spelled:
  "raw ''01'' = map show_int sales" "raw ''02'' = map show_int services" "raw ''03'' = map show_int other_services"
  "raw ''04'' = map show_int opex" "raw ''05'' = map show_int other_income"
  by (simp_all add: raw_def RAW_def sales_def services_def other_services_def opex_def other_income_def spell)

lemma sum_spelled: "sumMinorUnits (map show_int is) = Inr (show_int (sum_list is))"
  by (simp add: sumMinorUnits_def efold_BigInt list_all_iff comp_def)

definition added :: "int list list \<Rightarrow> int list" where
  "added cols = map (\<lambda>i. \<Sum>c \<leftarrow> cols. c ! i) [0..<6]"

lemma perPeriod_sums:
  assumes "list_all (\<lambda>c. length c = 6) cols"
  shows "perPeriod (\<lambda>i. sumMinorUnits (map (\<lambda>c. map show_int c ! i) cols)) = Inr (map show_int (added cols))"
proof -
  have "sumMinorUnits (map (\<lambda>c. map show_int c ! i) cols) = Inr (show_int (\<Sum>c \<leftarrow> cols. c ! i))" if "i < 6" for i
  proof -
    have "map (\<lambda>c. map show_int c ! i) cols = map show_int (map (\<lambda>c. c ! i) cols)"
      using assms that by (auto simp: list_all_iff)
    then show ?thesis by (simp only: sum_spelled)
  qed
  moreover have len: "length SAMPLE_PERIODS = 6" by (simp add: SAMPLE_PERIODS_def)
  ultimately show ?thesis
    unfolding perPeriod_def len emap_Inr_all2 added_def by (simp add: list_all2_conv_all_nth del: upt_rec_numeral)
qed

definition margin :: "int list" where "margin = added [sales, services]"
definition net_margin :: "int list" where "net_margin = added [margin, other_services]"
definition contribution :: "int list" where "contribution = added [net_margin, opex, other_income]"

lemma six: "length sales = 6" "length services = 6" "length other_services = 6" "length opex = 6"
  "length other_income = 6" "length margin = 6" "length net_margin = 6" "length contribution = 6"
  by (simp_all add: sales_def services_def other_services_def opex_def other_income_def margin_def net_margin_def
      contribution_def added_def del: upt_rec_numeral)

lemma chain:
  "perPeriod (\<lambda>i. sumMinorUnits [raw ''01'' ! i, raw ''02'' ! i]) = Inr (map show_int margin)"
  "perPeriod (\<lambda>i. sumMinorUnits [map show_int margin ! i, raw ''03'' ! i]) = Inr (map show_int net_margin)"
  "perPeriod (\<lambda>i. sumMinorUnits [map show_int net_margin ! i, raw ''04'' ! i, raw ''05'' ! i]) =
     Inr (map show_int contribution)"
  using perPeriod_sums [of "[sales, services]"] perPeriod_sums [of "[margin, other_services]"]
    perPeriod_sums [of "[net_margin, opex, other_income]"]
  by (simp_all add: six raw_spelled margin_def [symmetric] net_margin_def [symmetric] contribution_def [symmetric])

definition shown_line :: "string \<Rightarrow> string \<Rightarrow> bool \<Rightarrow> int list \<Rightarrow> ReportLine" where
  "shown_line code label computed is =
     \<lparr>ln_categoryId = code, ln_label = label, ln_computed = computed,
      ln_values = map (\<lambda>i. sample_money (show_int i)) is, ln_total = sample_money (show_int (sum_list is)),
      ln_percentOfRevenue = None\<rparr>"

lemma sample_line_spelled: "sample_line code label computed (map show_int is) = Inr (shown_line code label computed is)"
  by (simp add: sample_line_def sum_spelled shown_line_def comp_def)

lemma sample_minus_spelled:
  "sample_minus (sample_money (show_int a)) (sample_money (show_int b)) = Inr (show_int (a - b))"
  by (simp add: sample_minus_def sample_money_def js_BigInt_def)

definition sample_lines :: "ReportLine list" where
  "sample_lines =
     [shown_line ''01'' ''NET SALES'' False sales, shown_line ''02'' ''CS'' False services,
      shown_line ''91'' ''GM'' True margin, shown_line ''03'' ''OCS'' False other_services,
      shown_line ''92'' ''NM'' True net_margin, shown_line ''04'' ''OPEX'' False opex,
      shown_line ''05'' ''OIE'' False other_income, shown_line ''93'' ''CM'' True contribution,
      shown_line ''94'' ''IBT'' True contribution, shown_line ''95'' ''NI'' True contribution]"

definition sample_report :: Report where
  "sample_report =
     \<lparr>rp_currencyCode = SAMPLE_CURRENCY, rp_periods = SAMPLE_PERIODS, rp_basis = Cash,
      rp_lines = sample_lines, rp_buckets = [],
      rp_netByPeriod = map (\<lambda>i. sample_money (show_int i)) contribution,
      rp_netTotal = sample_money (show_int (sum_list contribution)),
      rp_revenueTotal = sample_money (show_int (sum_list sales)),
      rp_expensesTotal = sample_money (show_int (sum_list sales - sum_list contribution)),
      rp_expensesByPeriod = map (\<lambda>i. sample_money (show_int (sales ! i - contribution ! i))) [0..<6],
      rp_cash = map (\<lambda>period. \<lparr>cp_period = period, cp_moneyIn = sample_money ''0'',
        cp_moneyOut = sample_money ''0'', cp_net = sample_money ''0''\<rparr>) SAMPLE_PERIODS,
      rp_reconciliation = \<lparr>rcn_opening = sample_money ''15230000'', rcn_moneyIn = sample_money ''0'',
        rcn_moneyOut = sample_money ''0'', rcn_transfers = sample_money ''0'', rcn_closing = sample_money ''15230000''\<rparr>,
      rp_provenance = \<lparr>taxonomyVersion = ''v3'', rulesetVersion = ''v11'', engineVersion = ''0.4.2''\<rparr>,
      rp_unreviewedAmount = sample_money ''0''\<rparr>"

lemma sample_expenses:
  "perPeriod (\<lambda>i. sample_minus (ln_values (shown_line c l b sales) ! i) (ln_values (shown_line c' l' b' contribution) ! i)) =
     Inr (map (\<lambda>i. show_int (sales ! i - contribution ! i)) [0..<6])"
proof -
  have len: "length SAMPLE_PERIODS = 6" by (simp add: SAMPLE_PERIODS_def)
  show ?thesis
    unfolding perPeriod_def len emap_Inr_all2
    by (simp add: list_all2_conv_all_nth shown_line_def six sample_minus_spelled del: upt_rec_numeral)
qed

lemma SAMPLE_REPORT_spelled: "SAMPLE_REPORT = Inr sample_report"
proof -
  have total: "ln_total (shown_line c l b is) = sample_money (show_int (sum_list is))"
    and vals: "ln_values (shown_line c l b is) = map (\<lambda>i. sample_money (show_int i)) is" for c l b "is"
    by (simp_all add: shown_line_def)
  show ?thesis
    unfolding SAMPLE_REPORT_def sample_report_def sample_lines_def
    by (simp add: chain [unfolded raw_spelled] raw_spelled sample_line_spelled sample_expenses total sample_minus_spelled comp_def
        del: upt_rec_numeral) (simp add: vals)
qed

text \<open>The answer of the report service with the sample's lines and no statement behind it.\<close>

definition sample_wire_line :: "ReportLine \<Rightarrow> PReportLine" where
  "sample_wire_line x =
     \<lparr>rl_code = ln_categoryId x, rl_label = ln_label x, rl_formula = [], rl_computed = ln_computed x,
      rl_byPeriod = map (\<lambda>m. \<lparr>rf_amount = Some m, rf_percentOfRevenue = None\<rparr>) (ln_values x),
      rl_total = Some \<lparr>rf_amount = Some (ln_total x), rf_percentOfRevenue = None\<rparr>\<rparr>"

definition sample_strip :: PReconciliationLine where
  "sample_strip =
     \<lparr>rec_period = ''2026-03'', rec_opening = Some (sample_money ''15230000''), rec_in = None, rec_out = None,
      rec_transfers = None, rec_transferRowCount = 0, rec_closing = None, rec_balances = True, rec_derived = True\<rparr>"

definition sample_versions :: PReportVersions where
  "sample_versions = \<lparr>rv_taxonomy = [''v3''], rv_ruleset = [''v11''], rv_engine = [''0.4.2''], rv_normalize = []\<rparr>"

lemma report_money_Some: "report_money (Some m) = m"
  by (simp add: report_money_def)

lemma wire_shown_line: "lineFromProto (sample_wire_line (shown_line c l b is)) = shown_line c l b is"
  by (simp add: lineFromProto_def sample_wire_line_def figureMoney_def report_money_Some shown_line_def comp_def)

lemma wire_sample_lines: "map (lineFromProto \<circ> sample_wire_line) sample_lines = sample_lines"
  by (simp add: sample_lines_def wire_shown_line)

lemma opening_spelled: "show_int 15230000 = ''15230000''" and zero_spelled: "show_int 0 = ''0''"
  by (simp_all add: spell)

lemma opening_parsed: "parse_bigint ''15230000'' = Some 15230000"
  by (subst opening_spelled [symmetric]) simp

lemma sample_strip_aggregated:
  "aggregateReconciliation [sample_strip] = Inr (rp_reconciliation sample_report)"
  by (simp add: aggregateReconciliation_def sample_strip_def sum_pick_def big_or_zero_def js_BigInt_def Let_def
      sample_report_def sample_money_def opening_parsed opening_spelled zero_spelled)

lemma sample_strip_cash: "cashByPeriod SAMPLE_PERIODS [sample_strip] SAMPLE_CURRENCY = Inr (rp_cash sample_report)"
  by (simp add: cashByPeriod_def sample_strip_def big_or_zero_def js_BigInt_def Let_def SAMPLE_PERIODS_def
      sample_report_def sample_money_def zero_spelled js_map_get_def)

lemma sample_lookup:
  "js_map_get (map (\<lambda>l. (ln_categoryId l, l)) sample_lines) NET_SALES = Some (shown_line ''01'' ''NET SALES'' False sales)"
  "js_map_get (map (\<lambda>l. (ln_categoryId l, l)) sample_lines) CM = Some (shown_line ''93'' ''CM'' True contribution)"
  "js_map_get (map (\<lambda>l. (ln_categoryId l, l)) sample_lines) NI = Some (shown_line ''95'' ''NI'' True contribution)"
  by (simp_all add: sample_lines_def js_map_get_def NET_SALES_def CM_def NI_def shown_line_def)

lemma sample_subtraction:
  "subMinorUnits (show_int a) (show_int b) = Inr (show_int (a - b))"
  by (simp add: subMinorUnits_def js_BigInt_def)

lemma shown_value:
  "i < length is \<Longrightarrow> value_at (Some (shown_line c l b is)) i = show_int (is ! i)"
  by (simp add: value_at_def shown_line_def js_at_def sample_money_def)

lemma sample_expenses_derived:
  "emap (\<lambda>i. ebind (subMinorUnits (value_at (Some (shown_line c l b sales)) i) (value_at (Some (shown_line c' l' b' contribution)) i))
     (\<lambda>u. Inr \<lparr>minorUnits = u, currencyCode = SAMPLE_CURRENCY\<rparr>)) [0..<6] = Inr (rp_expensesByPeriod sample_report)"
  unfolding emap_Inr_all2
  by (simp add: list_all2_conv_all_nth shown_value six sample_subtraction sample_report_def sample_money_def
      del: upt_rec_numeral)

lemma sample_from_wire:
  "reportFromProto Cash SAMPLE_PERIODS (map sample_wire_line sample_lines) [] [sample_strip] (Some sample_versions) =
     Inr sample_report"
proof -
  have len: "length SAMPLE_PERIODS = 6" by (simp add: SAMPLE_PERIODS_def)
  have "ln_total (shown_line c l b is) = sample_money (show_int (sum_list is))"
    and "ln_values (shown_line c l b is) = map (\<lambda>i. sample_money (show_int i)) is" for c l b "is"
    by (simp_all add: shown_line_def)
  moreover have "currencyCode (sample_money u) = SAMPLE_CURRENCY" "minorUnits (sample_money u) = u" for u
    by (simp_all add: sample_money_def)
  moreover have "SAMPLE_CURRENCY \<noteq> []" by (simp add: SAMPLE_CURRENCY_def)
  ultimately show ?thesis
    unfolding reportFromProto_def
    by (simp add: Let_def wire_sample_lines sample_lookup total_of_def sample_subtraction len sample_expenses_derived
        sample_strip_cash sample_strip_aggregated del: upt_rec_numeral)
      (simp add: sample_report_def provenanceFromProto_def sample_versions_def sample_money_def)
qed

text \<open>The sample of the landing page adds up as the product's own reports do: every total is the sum of
  its months, every computed line is the sum the chain says in every month, and the sample is exactly what
  the report module derives from the same lines when no statement stands behind them - revenue, expenses,
  net result and strip included.\<close>

theorem sample_adds_up:
  "case SAMPLE_REPORT of Inl e \<Rightarrow> False | Inr r \<Rightarrow>
     (let u = (\<lambda>c i. the (parse_bigint (value_at (find (\<lambda>x. ln_categoryId x = c) (rp_lines r)) i))) in
      list_all (\<lambda>x. units (ln_total x) = (\<Sum>m \<leftarrow> ln_values x. units m)) (rp_lines r) \<and>
      list_all (\<lambda>i. u ''91'' i = u ''01'' i + u ''02'' i \<and> u ''92'' i = u ''91'' i + u ''03'' i \<and>
        u ''93'' i = u ''92'' i + u ''04'' i + u ''05'' i \<and> u ''95'' i = u ''93'' i) [0..<length (rp_periods r)] \<and>
      reportFromProto (rp_basis r) (rp_periods r) (map sample_wire_line (rp_lines r)) [] [sample_strip]
        (Some sample_versions) = SAMPLE_REPORT)"
proof -
  have totals: "list_all (\<lambda>x. units (ln_total x) = (\<Sum>m \<leftarrow> ln_values x. units m)) sample_lines"
    by (simp add: sample_lines_def shown_line_def sample_money_def comp_def)
  have find: "find (\<lambda>x. ln_categoryId x = ''01'') sample_lines = Some (shown_line ''01'' ''NET SALES'' False sales)"
    "find (\<lambda>x. ln_categoryId x = ''02'') sample_lines = Some (shown_line ''02'' ''CS'' False services)"
    "find (\<lambda>x. ln_categoryId x = ''91'') sample_lines = Some (shown_line ''91'' ''GM'' True margin)"
    "find (\<lambda>x. ln_categoryId x = ''03'') sample_lines = Some (shown_line ''03'' ''OCS'' False other_services)"
    "find (\<lambda>x. ln_categoryId x = ''92'') sample_lines = Some (shown_line ''92'' ''NM'' True net_margin)"
    "find (\<lambda>x. ln_categoryId x = ''04'') sample_lines = Some (shown_line ''04'' ''OPEX'' False opex)"
    "find (\<lambda>x. ln_categoryId x = ''05'') sample_lines = Some (shown_line ''05'' ''OIE'' False other_income)"
    "find (\<lambda>x. ln_categoryId x = ''93'') sample_lines = Some (shown_line ''93'' ''CM'' True contribution)"
    "find (\<lambda>x. ln_categoryId x = ''95'') sample_lines = Some (shown_line ''95'' ''NI'' True contribution)"
    by (simp_all add: sample_lines_def shown_line_def)
  have sums: "margin ! i = sales ! i + services ! i" "net_margin ! i = margin ! i + other_services ! i"
    "contribution ! i = net_margin ! i + opex ! i + other_income ! i" if "i < 6" for i
    using that by (simp_all add: margin_def [unfolded added_def] net_margin_def [unfolded added_def]
        contribution_def [unfolded added_def] del: upt_rec_numeral)
  have rows: "rp_lines sample_report = sample_lines" "rp_periods sample_report = SAMPLE_PERIODS"
    "rp_basis sample_report = Cash"
    by (simp_all add: sample_report_def)
  have len: "length SAMPLE_PERIODS = 6" by (simp add: SAMPLE_PERIODS_def)
  show ?thesis
    by (simp add: SAMPLE_REPORT_spelled Let_def rows totals sample_from_wire len del: upt_rec_numeral)
      (auto simp: list_all_iff find shown_value six sums)
qed

subsection \<open>The landing page opens, and leads where it says\<close>

lemma emap_succeeds:
  assumes "\<And>x. x \<in> set xs \<Longrightarrow> \<exists>y. f x = Inr y"
  shows "\<exists>ys. emap f xs = Inr ys"
proof (cases "emap f xs")
  case (Inl e)
  from emap_Inl_D [OF this] obtain x where "x \<in> set xs" and "f x = Inl e" by (elim bexE)
  moreover from assms [OF \<open>x \<in> set xs\<close>] obtain y where "f x = Inr y" by (elim exE)
  ultimately show ?thesis by simp
qed simp

lemma fmt_sample: "\<exists>t. fmt (sample_money (show_int i)) l = Inr t"
proof -
  have "exponentOf SAMPLE_CURRENCY = Some 2" by code_simp
  then show ?thesis by (simp add: fmt_def sample_money_def formatMinorUnits_figure)
qed

lemma shown_figures: "\<exists>hs. figures r (map (\<lambda>i. sample_money (show_int i)) is) c l a b linked = Inr hs"
  unfolding figures_def
proof (rule emap_succeeds)
  fix x assume "x \<in> set (enumerate 0 (map (\<lambda>i. sample_money (show_int i)) is))"
  then have "snd x = sample_money (show_int (is ! fst x))" by (auto simp: in_set_enumerate_eq)
  then obtain k i where "x = (k, sample_money (show_int i))" by (metis prod.collapse)
  then show "\<exists>y. (\<lambda>(i, v). Figure v c (period_at r i) l a b linked) x = Inr y"
    using fmt_sample [of i l] by (auto simp: Figure_def)
qed

lemma shown_row: "\<exists>h. Row N (shown_line c lb k is) r l a b linked = Inr h"
  using shown_figures [of r "is" c l a b linked] fmt_sample [of "sum_list is" l]
  by (auto simp: Row_def shown_line_def Let_def)

lemma sample_table: "\<exists>h. PnlTable N sample_report l a b linked = Inr h"
proof -
  have "\<exists>rows. emap (\<lambda>x. Row N x sample_report l a b linked) sample_lines = Inr rows"
    by (rule emap_succeeds) (auto simp: sample_lines_def intro: shown_row)
  then show ?thesis by (auto simp: PnlTable_def sample_report_def)
qed

text \<open>The fixed links of a page, and the elements they can jump to.\<close>

fun hrefs :: "html \<Rightarrow> string list" where
  "hrefs (Txt s) = []"
| "hrefs (El t as cs) = (if t = ''a'' then map snd (filter (\<lambda>(k, v). k = ''href'') as) else []) @ concat (map hrefs cs)"
| "hrefs (LinkTo to ps se as cs) = concat (map hrefs cs)"

fun ids :: "html \<Rightarrow> string list" where
  "ids (Txt s) = []"
| "ids (El t as cs) = map snd (filter (\<lambda>(k, v). k = ''id'') as) @ concat (map ids cs)"
| "ids (LinkTo to ps se as cs) = concat (map ids cs)"

lemma msg_hrefs [simp]: "hrefs (msg k l) = []" "ids (msg k l) = []" "links (msg k l) = []"
  by (simp_all add: msg_def)

lemma figures_hrefs: "figures r vs c l a b linked = Inr hs \<Longrightarrow> concat (map hrefs hs) = []"
  unfolding figures_def by (drule emap_concat [of _ _ _ hrefs "\<lambda>_. []"]) (auto simp: Figure_def ebind_Inr_iff split: if_splits)

lemma Row_hrefs: "Row N x r l a b linked = Inr h \<Longrightarrow> hrefs h = []"
  by (auto simp: Row_def Let_def ebind_Inr_iff dest: figures_hrefs)

lemma BucketRow_hrefs: "BucketRow k r l a b linked = Inr h \<Longrightarrow> hrefs h = []"
  by (auto simp: BucketRow_def ebind_Inr_iff dest: figures_hrefs)

lemma table_hrefs:
  assumes "PnlTable N r l a b linked = Inr h"
  shows "hrefs h = []"
proof -
  from assms obtain rows buckets where rows: "emap (\<lambda>x. Row N x r l a b linked) (rp_lines r) = Inr rows"
    and buckets: "emap (\<lambda>k. BucketRow k r l a b linked) (rp_buckets r) = Inr buckets"
    and h: "h = El ''div'' [] [El ''table'' [] ([PnlHead N r l, El ''tbody'' [] rows] @
        (if rp_buckets r \<noteq> [] then [El ''tbody'' [] buckets] else []))]"
    by (auto simp: PnlTable_def ebind_Inr_iff)
  have "hrefs (PnlHead N r l) = []" by (simp add: PnlHead_def comp_def concat_eq_Nil_conv)
  then show ?thesis
    using emap_concat [OF rows, of hrefs "\<lambda>_. []"] emap_concat [OF buckets, of hrefs "\<lambda>_. []"] Row_hrefs BucketRow_hrefs
    by (auto simp: h)
qed

lemma unlinked_table: "PnlTable N r l a b False = Inr h \<Longrightarrow> links h = []"
proof -
  assume tbl: "PnlTable N r l a b False = Inr h"
  then obtain rows buckets where rows: "emap (\<lambda>x. Row N x r l a b False) (rp_lines r) = Inr rows"
    and buckets: "emap (\<lambda>k. BucketRow k r l a b False) (rp_buckets r) = Inr buckets"
    and "links h = concat (map links rows) @ concat (map links buckets)"
    by (rule PnlTable_parts)
  then show ?thesis
    using emap_concat [OF rows, of links "\<lambda>_. []"] emap_concat [OF buckets, of links "\<lambda>_. []"] Row_facts BucketRow_facts
    by fastforce
qed

text \<open>A link of a public page: into the page itself, or to the sign-in page.\<close>

definition leads_somewhere :: "html \<Rightarrow> string \<Rightarrow> bool" where
  "leads_somewhere h x \<longleftrightarrow> x = ''/signin'' \<or> (js_startsWith x ''#'' \<and> tl x \<in> set (ids h))"

text \<open>The landing page always opens, in both languages: its sample never throws, no figure of the shown
  report is a link into the application, and each of its links leads to the sign-in page or to an element
  that is on the page.\<close>

theorem LandingPage_opens:
  "case LandingPage N l of
     Inl e \<Rightarrow> False
   | Inr h \<Rightarrow> links h = [] \<and> length (hrefs h) = 7 \<and> list_all (leads_somewhere h) (hrefs h)"
proof -
  obtain tbl where tbl: "PnlTable N sample_report l (hd SAMPLE_PERIODS) (last SAMPLE_PERIODS) False = Inr tbl"
    using sample_table by blast
  have rows: "rp_periods sample_report = SAMPLE_PERIODS" by (simp add: sample_report_def)
  have quiet: "links (Marquee l) = []" "hrefs (Marquee l) = []"
    by (simp_all add: Marquee_def Let_def)
  note parts = Nav_def Hero_def Interest_def Action_def Cta_def anchor_def BentoCard_def StepCard_def
  show ?thesis
    using table_hrefs [OF tbl] unlinked_table [OF tbl]
    by (simp add: LandingPage_def Desire_def SAMPLE_REPORT_spelled rows tbl quiet parts leads_somewhere_def js_startsWith_def)
qed

subsection \<open>The sign-in page\<close>

fun alerts :: "html \<Rightarrow> string list" where
  "alerts (Txt s) = []"
| "alerts (El t as cs) = (if map_of as ''role'' = Some ''alert'' then concat (map texts cs) else concat (map alerts cs))"
| "alerts (LinkTo to ps se as cs) = concat (map alerts cs)"

text \<open>The sign-in page tells a refusal and always offers the way in: it has an alert exactly when the
  address carries a code, with the catalogue's message for the code; with or without one it has the
  link that starts signing in and, apart from the skip link, which lands on the page, no other.\<close>

theorem SignInPage_tells:
  "alerts (SignInPage chosen browser q) =
     (case authErrorMessage (q ''auth_error'') browser of Some m \<Rightarrow> if m = [] then [] else [m] | None \<Rightarrow> []) \<and>
   (authErrorMessage (q ''auth_error'') browser = None) = (q ''auth_error'' = None \<or> q ''auth_error'' = Some []) \<and>
   hrefs (SignInPage chosen browser q) = [''#main-content'', ''/auth/google/start''] \<and>
   ''main-content'' \<in> set (ids (SignInPage chosen browser q))"
proof -
  have quiet: "alerts (msg k l) = []" for k l by (simp add: msg_def)
  have "(authErrorMessage (q ''auth_error'') browser = None) = (q ''auth_error'' = None \<or> q ''auth_error'' = Some [])"
  proof (cases "q ''auth_error''")
    case (Some c)
    then show ?thesis using authErrorMessage_total [of c browser] by (cases "c = []") auto
  qed simp
  moreover have "alerts (SignInPage chosen browser q) =
     (case authErrorMessage (q ''auth_error'') browser of Some m \<Rightarrow> if m = [] then [] else [m] | None \<Rightarrow> [])"
    and "hrefs (SignInPage chosen browser q) = [''#main-content'', ''/auth/google/start'']"
    and "''main-content'' \<in> set (ids (SignInPage chosen browser q))"
    by (cases "authErrorMessage (q ''auth_error'') browser";
        simp add: SignInPage_def PublicLayout_def SignIn_def authErrorFromLocation_def anchor_def quiet)+
  ultimately show ?thesis by blast
qed

text \<open>The frame speaks the chosen language and the form the browser's: a reader who chose Russian in an
  English browser meets both on one page.\<close>

lemma sign_in_two_languages:
  "shown (i18n_t ''app.tagline'' Ru) \<in> set (texts (SignInPage Ru En q)) \<and>
   shown (i18n_t ''signIn.heading'' En) \<in> set (texts (SignInPage Ru En q)) \<and>
   alerts (SignInPage Ru En (\<lambda>_. Some c)) = alerts (SignInPage En En (\<lambda>_. Some c))"
  by (simp add: SignInPage_def PublicLayout_def SignIn_def msg_def anchor_def)

end
