(* ===== verification/Routes.thy ===== *)
theory Routes
  imports Home_View Imports_View Site_View
begin

section \<open>The route table: router.tsx\<close>

text \<open>
  \<open>src/web/src/router.tsx\<close>: the tree \<open>makeRouter\<close> hands to the router library, with the component or the
  redirect of each route. An address is the list of its segments; a segment that begins with a dollar
  matches any one segment. Which route the library picks among several that match is its own affair:
  here no address matches two.
\<close>

datatype route_target = Shows string | Redirects redirect | Nothing

datatype route = Route (route_path: string) (route_target: route_target) (route_children: "route list")

definition indexRoute :: route where "indexRoute = Route ''/'' (Shows ''LandingPage'') []"
definition signInRoute :: route where "signInRoute = Route ''/signin'' (Shows ''SignInPage'') []"
definition homeRoute :: route where "homeRoute = Route ''home'' (Shows ''HomeScreen'') []"
definition appIndexRoute :: route where "appIndexRoute = Route ''/'' (Redirects appIndex_beforeLoad) []"
definition importsRoute :: route where "importsRoute = Route ''imports'' (Shows ''ImportsScreen'') []"
definition batchRoute :: route where "batchRoute = Route ''imports/$batchId'' (Shows ''BatchScreen'') []"
definition reviewRoute :: route where "reviewRoute = Route ''review'' (Shows ''ReviewScreen'') []"

definition reportsRoute :: "page \<Rightarrow> route" where
  "reportsRoute p = Route ''reports'' (Redirects (reports_beforeLoad p)) []"

definition drilldownRoute :: route where
  "drilldownRoute = Route ''cell/$categoryId/$period'' (Shows ''DrilldownPanel'') []"

definition pnlRoute :: route where
  "pnlRoute = Route ''reports/pnl'' (Shows ''ReportScreen'') [drilldownRoute]"

definition appRoute :: "page \<Rightarrow> route" where
  "appRoute p = Route ''/app'' (Shows ''App'')
     [appIndexRoute, homeRoute, importsRoute, batchRoute, reviewRoute, reportsRoute p, pnlRoute]"

definition devOnlyRoutes :: "bool \<Rightarrow> route list" where
  "devOnlyRoutes dev = (if \<not> dev then [] else [Route ''/tokens'' (Shows ''TokenSheet'') []])"

definition makeRouter :: "bool \<Rightarrow> page \<Rightarrow> route" where
  "makeRouter dev p = Route [] Nothing ([indexRoute, signInRoute, appRoute p] @ devOnlyRoutes dev)"

subsection \<open>Addresses\<close>

definition path_segments :: "string \<Rightarrow> string list" where
  "path_segments path = filter (\<lambda>s. s \<noteq> []) (js_split CHR ''/'' path)"

definition dynamic :: "string \<Rightarrow> bool" where
  "dynamic s \<longleftrightarrow> js_startsWith s ''$''"

text \<open>Where an address can end: at a route that has no child with an empty path.\<close>

fun addresses :: "string list \<Rightarrow> route \<Rightarrow> (string list \<times> route_target) list" where
  "addresses pre (Route path target children) =
     (let here = pre @ path_segments path in
      (if list_ex (\<lambda>c. path_segments (route_path c) = []) children then [] else [(here, target)]) @
      concat (map (addresses here) children))"

definition matches :: "string list \<Rightarrow> string list \<Rightarrow> bool" where
  "matches pat path \<longleftrightarrow> list_all2 (\<lambda>p s. dynamic p \<or> p = s) pat path"

definition overlap :: "string list \<Rightarrow> string list \<Rightarrow> bool" where
  "overlap p q \<longleftrightarrow> length p = length q \<and> list_all (\<lambda>(a, b). dynamic a \<or> dynamic b \<or> a = b) (zip p q)"

text \<open>The table in full.\<close>

lemma table:
  "addresses [] (makeRouter dev p) =
     [([], Shows ''LandingPage''), ([''signin''], Shows ''SignInPage''), ([''app''], Redirects appIndex_beforeLoad),
      ([''app'', ''home''], Shows ''HomeScreen''), ([''app'', ''imports''], Shows ''ImportsScreen''),
      ([''app'', ''imports'', ''$batchId''], Shows ''BatchScreen''), ([''app'', ''review''], Shows ''ReviewScreen''),
      ([''app'', ''reports''], Redirects (reports_beforeLoad p)), ([''app'', ''reports'', ''pnl''], Shows ''ReportScreen''),
      ([''app'', ''reports'', ''pnl'', ''cell'', ''$categoryId'', ''$period''], Shows ''DrilldownPanel'')] @
     (if dev then [([''tokens''], Shows ''TokenSheet'')] else [])"
proof -
  have segs: "path_segments ''/'' = []" "path_segments [] = []" "path_segments ''/signin'' = [''signin'']"
    "path_segments ''home'' = [''home'']" "path_segments ''imports'' = [''imports'']"
    "path_segments ''imports/$batchId'' = [''imports'', ''$batchId'']" "path_segments ''review'' = [''review'']"
    "path_segments ''reports'' = [''reports'']" "path_segments ''reports/pnl'' = [''reports'', ''pnl'']"
    "path_segments ''cell/$categoryId/$period'' = [''cell'', ''$categoryId'', ''$period'']"
    "path_segments ''/app'' = [''app'']" "path_segments ''/tokens'' = [''tokens'']"
    by code_simp+
  show ?thesis
    by (simp add: makeRouter_def devOnlyRoutes_def appRoute_def pnlRoute_def drilldownRoute_def reportsRoute_def
        reviewRoute_def batchRoute_def importsRoute_def appIndexRoute_def homeRoute_def signInRoute_def
        indexRoute_def segs Let_def)
qed

lemma patterns:
  "map fst (addresses [] (makeRouter dev p)) =
     [[], [''signin''], [''app''], [''app'', ''home''], [''app'', ''imports''], [''app'', ''imports'', ''$batchId''],
      [''app'', ''review''], [''app'', ''reports''], [''app'', ''reports'', ''pnl''],
      [''app'', ''reports'', ''pnl'', ''cell'', ''$categoryId'', ''$period'']] @
     (if dev then [[''tokens'']] else [])"
  by (simp add: table)

fun apart :: "string list list \<Rightarrow> bool" where
  "apart [] = True"
| "apart (p # ps) = (list_all (\<lambda>q. \<not> overlap p q) ps \<and> apart ps)"

lemma matches_overlap:
  assumes "matches p path" "matches q path"
  shows "overlap p q"
proof -
  have "length p = length path" "length q = length path"
    using assms by (simp_all add: matches_def list_all2_lengthD)
  moreover have "dynamic (p ! i) \<or> dynamic (q ! i) \<or> p ! i = q ! i" if "i < length path" for i
    using assms that unfolding matches_def list_all2_conv_all_nth by metis
  ultimately show ?thesis by (auto simp: overlap_def list_all_iff set_zip)
qed

lemma apart_matches: "apart (map fst xs) \<Longrightarrow> length (filter (\<lambda>x. matches (fst x) path) xs) \<le> 1"
proof (induction xs)
  case (Cons x xs)
  show ?case
  proof (cases "matches (fst x) path")
    case True
    then have "filter (\<lambda>y. matches (fst y) path) xs = []"
      using Cons.prems by (auto simp: filter_empty_conv list_all_iff dest: matches_overlap [of "fst x" path])
    then show ?thesis by simp
  qed (use Cons in simp)
qed simp

lemma patterns_apart: "apart (map fst (addresses [] (makeRouter dev p)))"
  unfolding patterns by (cases dev) (simp_all add: overlap_def dynamic_def js_startsWith_def)

definition redirect_to :: "redirect \<Rightarrow> string" where
  "redirect_to r = (case r of ToHome \<Rightarrow> ''/app/home'' | ToPnl _ \<Rightarrow> ''/app/reports/pnl'')"

text \<open>What is shown at the end of a link or a redirect, and the parameters its path takes.\<close>

definition shown_at :: "bool \<Rightarrow> page \<Rightarrow> string \<Rightarrow> string option" where
  "shown_at dev p to =
     (case map_of (addresses [] (makeRouter dev p)) (path_segments to) of Some (Shows c) \<Rightarrow> Some c | _ \<Rightarrow> None)"

definition path_params :: "string \<Rightarrow> string list" where
  "path_params to = map tl (filter dynamic (path_segments to))"

text \<open>C20. The routes are unambiguous and go somewhere: no address matches two of them, none is under the
  paths that belong to the backend, each shows a screen or redirects to one that shows a screen, and the
  token sheet is among them in development only.\<close>

theorem routes_sound:
  "length (filter (\<lambda>x. matches (fst x) path) (addresses [] (makeRouter dev p))) \<le> 1 \<and>
   list_all (\<lambda>(pat, target). take 1 pat \<noteq> [''rpc''] \<and> take 1 pat \<noteq> [''auth''] \<and>
     (case target of
        Shows c \<Rightarrow> if c = ''TokenSheet'' then dev else True
      | Redirects r \<Rightarrow> shown_at dev p (redirect_to r) = Some (if r = ToHome then ''HomeScreen'' else ''ReportScreen'')
      | Nothing \<Rightarrow> False)) (addresses [] (makeRouter dev p))"
proof
  show "length (filter (\<lambda>x. matches (fst x) path) (addresses [] (makeRouter dev p))) \<le> 1"
    by (rule apart_matches) (rule patterns_apart)
  have "path_segments ''/app/home'' = [''app'', ''home'']" "path_segments ''/app/reports/pnl'' = [''app'', ''reports'', ''pnl'']"
    by code_simp+
  then have "shown_at dev p ''/app/home'' = Some ''HomeScreen''" "shown_at dev p ''/app/reports/pnl'' = Some ''ReportScreen''"
    by (simp_all add: shown_at_def table)
  then show "list_all (\<lambda>(pat, target). take 1 pat \<noteq> [''rpc''] \<and> take 1 pat \<noteq> [''auth''] \<and>
     (case target of
        Shows c \<Rightarrow> if c = ''TokenSheet'' then dev else True
      | Redirects r \<Rightarrow> shown_at dev p (redirect_to r) = Some (if r = ToHome then ''HomeScreen'' else ''ReportScreen'')
      | Nothing \<Rightarrow> False)) (addresses [] (makeRouter dev p))"
    by (simp add: table redirect_to_def appIndex_beforeLoad_def reports_beforeLoad_def)
qed

subsection \<open>No link of the application is dead\<close>

definition link_ok :: "bool \<Rightarrow> page \<Rightarrow> string \<times> (string \<times> string) list \<times> (string \<times> string) list \<Rightarrow> bool" where
  "link_ok dev p x \<longleftrightarrow> (case x of (to, ps, se) \<Rightarrow> shown_at dev p to \<noteq> None \<and> map fst ps = path_params to)"

definition links_ok :: "bool \<Rightarrow> page \<Rightarrow> html \<Rightarrow> bool" where
  "links_ok dev p h \<longleftrightarrow> list_all (link_ok dev p) (links h)"

lemma links_ok_simps [simp]:
  "links_ok dev p (Txt s)" "links_ok dev p (msg k l)"
  "links_ok dev p (El t as cs) \<longleftrightarrow> list_all (links_ok dev p) cs"
  "links_ok dev p (LinkTo to ps se as cs) \<longleftrightarrow> link_ok dev p (to, ps, se) \<and> list_all (links_ok dev p) cs"
  by (auto simp: links_ok_def msg_def list_all_iff)

lemma list_all_if [simp]: "list_all P (if b then xs else ys) = (if b then list_all P xs else list_all P ys)"
  by simp

lemma list_all_map [simp]: "list_all P (map f xs) = list_all (\<lambda>x. P (f x)) xs"
  by (simp add: list.pred_map comp_def)

lemma list_all_always [simp]: "list_all (\<lambda>x. True) xs"
  by (simp add: list_all_iff)

lemma link_targets:
  "link_ok dev p (''/app/home'', [], se)" "link_ok dev p (''/app/imports'', [], se)"
  "link_ok dev p (''/app/review'', [], se)" "link_ok dev p (''/app/reports/pnl'', [], se)"
  "link_ok dev p (''/app/imports/$batchId'', [(''batchId'', b)], se)"
  "link_ok dev p (CELL_ROUTE, [(''categoryId'', c), (''period'', d)], se)"
proof -
  have segs: "path_segments ''/app/home'' = [''app'', ''home'']" "path_segments ''/app/imports'' = [''app'', ''imports'']"
    "path_segments ''/app/review'' = [''app'', ''review'']"
    "path_segments ''/app/reports/pnl'' = [''app'', ''reports'', ''pnl'']"
    "path_segments ''/app/imports/$batchId'' = [''app'', ''imports'', ''$batchId'']"
    "path_segments CELL_ROUTE = [''app'', ''reports'', ''pnl'', ''cell'', ''$categoryId'', ''$period'']"
    by code_simp+
  show "link_ok dev p (''/app/home'', [], se)" "link_ok dev p (''/app/imports'', [], se)"
    "link_ok dev p (''/app/review'', [], se)" "link_ok dev p (''/app/reports/pnl'', [], se)"
    "link_ok dev p (''/app/imports/$batchId'', [(''batchId'', b)], se)"
    "link_ok dev p (CELL_ROUTE, [(''categoryId'', c), (''period'', d)], se)"
    by (simp_all add: link_ok_def shown_at_def table segs path_params_def dynamic_def js_startsWith_def)
qed

lemma feedback_ok [simp]:
  "links_ok dev p (Loading label n)" "links_ok dev p (ErrorState m r)" "links_ok dev p (EmptyState t b None)"
  "links_ok dev p (Chip tone shape label)" "links_ok dev p (BatchStateChip st l)"
  by (auto simp: Loading_def Skeleton_def ErrorState_def EmptyState_def Chip_def Icon_def BatchStateChip_def
      split: option.split prod.split)

lemma emap_all:
  assumes "emap f xs = Inr ys" and "\<And>x y. f x = Inr y \<Longrightarrow> P y"
  shows "list_all P ys"
  using assms(1) by (induction xs arbitrary: ys) (auto simp: ebind_Inr_iff assms(2))

lemma Rail_ok: "links_ok dev p a \<Longrightarrow> links_ok dev p (Rail l n (Some a))"
  by (simp add: Rail_def Item_def Count_def link_targets)

lemma Upload_ok: "links_ok dev p (Upload st l)"
  by (simp add: Upload_def Let_def)

lemma ImportsScreen_ok: "links_ok dev p (ImportsScreen error_text q up l)"
  by (cases q) (simp_all add: ImportsScreen_def Upload_ok ImportsRow_def link_targets)

lemma figures_ok: "figures r vs c l a b k = Inr hs \<Longrightarrow> list_all (links_ok dev p) hs"
  unfolding figures_def by (erule emap_all) (auto simp: Figure_def ebind_Inr_iff link_targets split: if_splits)

lemma PnlTable_ok:
  assumes "PnlTable N r l a b k = Inr h"
  shows "links_ok dev p h"
proof -
  from assms obtain rows buckets where rows: "emap (\<lambda>x. Row N x r l a b k) (rp_lines r) = Inr rows"
    and buckets: "emap (\<lambda>x. BucketRow x r l a b k) (rp_buckets r) = Inr buckets"
    and h: "h = El ''div'' [] [El ''table'' [] ([PnlHead N r l, El ''tbody'' [] rows] @
        (if rp_buckets r \<noteq> [] then [El ''tbody'' [] buckets] else []))]"
    by (auto simp: PnlTable_def ebind_Inr_iff)
  have "list_all (links_ok dev p) rows"
    by (rule emap_all [OF rows]) (auto simp: Row_def Let_def ebind_Inr_iff dest: figures_ok)
  moreover have "list_all (links_ok dev p) buckets"
    by (rule emap_all [OF buckets]) (auto simp: BucketRow_def ebind_Inr_iff dest: figures_ok)
  ultimately show ?thesis by (simp add: h PnlHead_def)
qed

lemma strip_ok: "ReconciliationStrip x l = Inr h \<Longrightarrow> links_ok dev p h"
  by (auto simp: ReconciliationStrip_def ReconCell_def ebind_Inr_iff)

lemma StatTiles_ok: "StatTiles r l = Inr h \<Longrightarrow> links_ok dev p h"
  by (auto simp: StatTiles_def Tile_def ebind_Inr_iff)

lemma ReportScreen_ok:
  assumes "ReportScreen N error_text q s l = Inr h"
  shows "links_ok dev p h"
proof -
  have body: "list_all (links_ok dev p) hs" if "report_body N r s l = Inr hs" for r hs
    using that by (auto simp: report_body_def ebind_Inr_iff ViewTabs_def link_targets
        split: if_splits dest!: StatTiles_ok [of _ _ _ dev p] strip_ok [of _ _ _ dev p] PnlTable_ok [of _ _ _ _ _ _ _ dev p])
  show ?thesis
    using assms by (cases q) (auto simp: ReportScreen_def ebind_Inr_iff body)
qed

lemma DrilldownPanel_ok:
  assumes "DrilldownPanel N error_text cat period s q l = Inr h"
  shows "links_ok dev p h"
proof -
  have rows: "list_all (links_ok dev p) hs" if "emap (\<lambda>x. DrillRow x l) xs = Inr hs" for xs hs
    using that by (rule emap_all) (auto simp: DrillRow_def ebind_Inr_iff)
  show ?thesis
    using assms rows by (cases q) (auto simp: DrilldownPanel_def Let_def ebind_Inr_iff link_targets Operands_list_def
        split: if_splits)
qed

lemma HomeScreen_ok:
  assumes "HomeScreen N now batches review report user l = Inr h"
  shows "links_ok dev p h"
  using HomeScreen_links [where N = N and now = now and batches = batches and review = review and report = report
      and user = user and l = l] assms
  by (simp add: links_ok_def link_targets)

text \<open>C21. No link is dead: every link the rail, the home cards, the list of imports, the report - its tabs and
  each of its figures - and the drill-down render is an address of the route table that ends at a screen,
  with exactly the parameters that address takes.\<close>

theorem no_dead_links:
  "list_all (link_ok dev p) (links (Rail l n (Some (account_slot u l)))) \<and>
   list_all (link_ok dev p) (links (ImportsScreen error_text batches up l)) \<and>
   (case HomeScreen N now batches review report user l of Inl e \<Rightarrow> True | Inr h \<Rightarrow> list_all (link_ok dev p) (links h)) \<and>
   (case ReportScreen N error_text report s l of Inl e \<Rightarrow> True | Inr h \<Rightarrow> list_all (link_ok dev p) (links h)) \<and>
   (case DrilldownPanel N error_text cat period s drill l of
      Inl e \<Rightarrow> True | Inr h \<Rightarrow> list_all (link_ok dev p) (links h)) \<and>
   list_all (\<lambda>to. shown_at dev p to \<noteq> None) (hrefs (NotFound l))"
proof -
  have "links_ok dev p (account_slot u l)" by (simp add: account_slot_def)
  moreover have "path_segments ''/'' = []" by code_simp
  then have "list_all (\<lambda>to. shown_at dev p to \<noteq> None) (hrefs (NotFound l))"
    by (simp add: NotFound_def anchor_def shown_at_def table)
  ultimately show ?thesis
    using Rail_ok ImportsScreen_ok HomeScreen_ok ReportScreen_ok DrilldownPanel_ok
    unfolding links_ok_def by (auto split: sum.split)
qed

end
