(* ===== verification/Chart_Phase.thy ===== *)
theory Chart_Phase
  imports Js_Prelude
begin

section \<open>The life of a chart: chart-phase.ts, use-chart-phase-orchestrator.ts\<close>

text \<open>
  \<open>src/web/src/components/charts/chart-phase.ts\<close> and \<open>use-chart-phase-orchestrator.ts\<close>: how a chart goes from its
  loading skeleton to its data and back through animated phases, each ended by a callback of an animation or
  by a timer. The state is what the hook keeps with \<open>useState\<close> and \<open>useRef\<close>, its timer, and the dependencies its
  effects ran with last. A commit runs the effects whose dependencies changed, in the order of the code, each
  reading the properties and the phase of the render (and \<open>phaseRef\<close>, which holds that phase) and queueing its
  updates; commits follow each other until nothing changes.
\<close>

datatype ChartStatus = StatusLoading | StatusReady

datatype ChartPhase =
    PhLoading | PhExiting | PhGridTweenReady | PhRevealing | PhReady | PhExitingReady | PhGridTweenLoading
  | PhRevealingLoading

definition resolveRestingChartPhase :: "ChartStatus \<Rightarrow> ChartPhase" where
  "resolveRestingChartPhase s = (if s = StatusLoading then PhLoading else PhReady)"

definition isChartInteractionPhase :: "ChartPhase \<Rightarrow> bool" where
  "isChartInteractionPhase ph \<longleftrightarrow> ph = PhReady"

text \<open>The phase predicates of \<open>y-domain-utils.ts\<close>.\<close>

definition isLoadingChromePhase :: "ChartPhase \<Rightarrow> bool" where
  "isLoadingChromePhase ph \<longleftrightarrow> ph = PhLoading \<or> ph = PhRevealingLoading"

definition isLoadingGridChromePhase :: "ChartPhase \<Rightarrow> bool" where
  "isLoadingGridChromePhase ph \<longleftrightarrow> ph = PhLoading \<or> ph = PhExiting \<or> ph = PhGridTweenLoading"

definition isYDomainTweenPhase :: "ChartPhase \<Rightarrow> bool" where
  "isYDomainTweenPhase ph \<longleftrightarrow> ph = PhGridTweenLoading \<or> ph = PhGridTweenReady"

definition isReferenceAreaVisiblePhase :: "ChartPhase \<Rightarrow> bool" where
  "isReferenceAreaVisiblePhase ph \<longleftrightarrow> ph = PhReady \<or> ph = PhRevealing \<or> ph = PhGridTweenReady"

definition resolveAnimatedYDestinationDomains :: "ChartPhase \<Rightarrow> 'm \<Rightarrow> 'm \<Rightarrow> 'm" where
  "resolveAnimatedYDestinationDomains ph skeletonByAxis targetByAxis =
     (if ph = PhLoading \<or> ph = PhExiting \<or> ph = PhGridTweenLoading then skeletonByAxis else targetByAxis)"

subsection \<open>The hook\<close>

record 'd orchestrator_options =
  op_chartStatus :: ChartStatus
  op_targetData :: 'd
  op_skeletonData :: 'd
  op_animationDuration :: rat
  op_yDomainTweenDuration :: rat
  op_revealSignature :: string
  op_skipEnterReveal :: bool

record 'd orchestrator =
  oc_chartPhase :: ChartPhase
  oc_plotData :: 'd
  oc_revealEpoch :: nat
  oc_concealEpoch :: nat
  oc_isLoaded :: bool
  oc_prevStatus :: ChartStatus
  oc_timer :: bool
  oc_deps2 :: "(rat \<times> ChartStatus \<times> string \<times> bool) option"
  oc_deps3 :: "(ChartPhase \<times> ChartStatus \<times> 'd \<times> 'd) option"
  oc_deps4 :: "(rat \<times> ChartPhase) option"

definition orchestrator_init :: "'d orchestrator_options \<Rightarrow> 'd orchestrator" where
  "orchestrator_init p =
     \<lparr>oc_chartPhase = resolveRestingChartPhase (op_chartStatus p),
      oc_plotData = (if op_chartStatus p = StatusLoading then op_skeletonData p else op_targetData p),
      oc_revealEpoch = 0, oc_concealEpoch = 0, oc_isLoaded = (op_chartStatus p = StatusReady),
      oc_prevStatus = op_chartStatus p, oc_timer = False,
      oc_deps2 = None, oc_deps3 = None, oc_deps4 = None\<rparr>"

text \<open>The effects: \<open>c\<close> is the state of the render, \<open>st\<close> the state with the updates queued so far. The first
  does nothing unless the status changed, which is one of its dependencies.\<close>

definition status_effect :: "'d orchestrator_options \<Rightarrow> 'd orchestrator \<Rightarrow> 'd orchestrator" where
  "status_effect p st =
     (if oc_prevStatus st = op_chartStatus p then st
      else let st' = st\<lparr>oc_prevStatus := op_chartStatus p, oc_isLoaded := False\<rparr> in
        if op_chartStatus p = StatusReady then
          (if op_animationDuration p \<le> 0 then
             (if op_yDomainTweenDuration p \<le> 0
              then st'\<lparr>oc_plotData := op_targetData p, oc_chartPhase := PhRevealing\<rparr>
              else st'\<lparr>oc_chartPhase := PhGridTweenReady\<rparr>)
           else st'\<lparr>oc_chartPhase := PhExiting\<rparr>)
        else
          (if op_animationDuration p \<le> 0 then
             (if op_yDomainTweenDuration p \<le> 0
              then st'\<lparr>oc_plotData := op_skeletonData p, oc_chartPhase := PhLoading\<rparr>
              else st'\<lparr>oc_chartPhase := PhGridTweenLoading\<rparr>)
           else st'\<lparr>oc_concealEpoch := oc_concealEpoch st' + 1, oc_chartPhase := PhExitingReady\<rparr>))"

definition reveal_deps :: "'d orchestrator_options \<Rightarrow> rat \<times> ChartStatus \<times> string \<times> bool" where
  "reveal_deps p = (op_animationDuration p, op_chartStatus p, op_revealSignature p, op_skipEnterReveal p)"

definition reveal_effect :: "'d orchestrator_options \<Rightarrow> 'd orchestrator \<Rightarrow> 'd orchestrator \<Rightarrow> 'd orchestrator" where
  "reveal_effect p c st =
     (if oc_deps2 c = Some (reveal_deps p) then st
      else let st' = st\<lparr>oc_deps2 := Some (reveal_deps p)\<rparr> in
        if op_skipEnterReveal p \<or> op_chartStatus p \<noteq> StatusReady \<or> oc_chartPhase c \<noteq> PhReady then st'
        else st'\<lparr>oc_chartPhase := PhRevealing, oc_isLoaded := False\<rparr>)"

definition plot_deps :: "'d orchestrator_options \<Rightarrow> 'd orchestrator \<Rightarrow> ChartPhase \<times> ChartStatus \<times> 'd \<times> 'd" where
  "plot_deps p c = (oc_chartPhase c, op_chartStatus p, op_skeletonData p, op_targetData p)"

definition plot_effect :: "'d orchestrator_options \<Rightarrow> 'd orchestrator \<Rightarrow> 'd orchestrator \<Rightarrow> 'd orchestrator" where
  "plot_effect p c st =
     (if oc_deps3 c = Some (plot_deps p c) then st
      else let st' = st\<lparr>oc_deps3 := Some (plot_deps p c)\<rparr> in
        (case oc_chartPhase c of
           PhLoading \<Rightarrow> if op_chartStatus p = StatusLoading then st'\<lparr>oc_plotData := op_skeletonData p\<rparr> else st'
         | PhExiting \<Rightarrow> st'\<lparr>oc_plotData := op_skeletonData p\<rparr>
         | PhRevealingLoading \<Rightarrow> st'
         | _ \<Rightarrow> st'\<lparr>oc_plotData := op_targetData p\<rparr>))"

text \<open>The last effect clears its timer before it runs again.\<close>

definition timer_effect :: "'d orchestrator_options \<Rightarrow> 'd orchestrator \<Rightarrow> 'd orchestrator \<Rightarrow> 'd orchestrator" where
  "timer_effect p c st =
     (if oc_deps4 c = Some (op_animationDuration p, oc_chartPhase c) then st
      else let st' = st\<lparr>oc_deps4 := Some (op_animationDuration p, oc_chartPhase c), oc_timer := False\<rparr> in
        if oc_chartPhase c \<noteq> PhRevealing then st'
        else let st'' = st'\<lparr>oc_revealEpoch := oc_revealEpoch st' + 1\<rparr> in
          if op_animationDuration p \<le> 0 then st''\<lparr>oc_chartPhase := PhReady, oc_isLoaded := True\<rparr>
          else st''\<lparr>oc_timer := True\<rparr>)"

definition commit :: "'d orchestrator_options \<Rightarrow> 'd orchestrator \<Rightarrow> 'd orchestrator" where
  "commit p c = timer_effect p c (plot_effect p c (reveal_effect p c (status_effect p c)))"

text \<open>Four commits are enough (\<open>commits_settle\<close> below).\<close>

definition settle :: "'d orchestrator_options \<Rightarrow> 'd orchestrator \<Rightarrow> 'd orchestrator" where
  "settle p st = commit p (commit p (commit p (commit p st)))"

subsection \<open>What ends a phase\<close>

definition notifyLoadingPulseComplete :: "'d orchestrator \<Rightarrow> 'd orchestrator" where
  "notifyLoadingPulseComplete st =
     (if oc_chartPhase st \<noteq> PhExiting then st else st\<lparr>oc_chartPhase := PhGridTweenReady\<rparr>)"

definition notifyRevealConcealComplete :: "'d orchestrator \<Rightarrow> 'd orchestrator" where
  "notifyRevealConcealComplete st =
     (if oc_chartPhase st \<noteq> PhExitingReady then st else st\<lparr>oc_chartPhase := PhGridTweenLoading\<rparr>)"

definition notifyYDomainTweenComplete :: "'d orchestrator \<Rightarrow> 'd orchestrator" where
  "notifyYDomainTweenComplete st =
     (if oc_chartPhase st = PhGridTweenLoading then st\<lparr>oc_chartPhase := PhLoading\<rparr>
      else if oc_chartPhase st = PhGridTweenReady then st\<lparr>oc_chartPhase := PhRevealing\<rparr>
      else st)"

definition timer_fires :: "'d orchestrator \<Rightarrow> 'd orchestrator" where
  "timer_fires st =
     (if oc_timer st then st\<lparr>oc_timer := False, oc_chartPhase := PhReady, oc_isLoaded := True\<rparr> else st)"

datatype 'd chart_event =
    OptionsChanged "'d orchestrator_options"
  | PulseComplete
  | ConcealComplete
  | TweenComplete
  | TimerFires

text \<open>The options in force and the hook.\<close>

fun chart_step :: "'d orchestrator_options \<times> 'd orchestrator \<Rightarrow> 'd chart_event \<Rightarrow>
    'd orchestrator_options \<times> 'd orchestrator" where
  "chart_step (p, st) (OptionsChanged p') = (p', settle p' st)"
| "chart_step (p, st) PulseComplete = (p, settle p (notifyLoadingPulseComplete st))"
| "chart_step (p, st) ConcealComplete = (p, settle p (notifyRevealConcealComplete st))"
| "chart_step (p, st) TweenComplete = (p, settle p (notifyYDomainTweenComplete st))"
| "chart_step (p, st) TimerFires = (p, settle p (timer_fires st))"

text \<open>The states a mounted chart can be in, as long as the length of its animation stays the same.\<close>

inductive chart_reach :: "'d orchestrator_options \<Rightarrow> 'd orchestrator \<Rightarrow> bool" where
  mounted: "chart_reach p (settle p (orchestrator_init p))"
| stepped: "chart_reach p st \<Longrightarrow> chart_step (p, st) e = (p', st') \<Longrightarrow>
    op_animationDuration p' = op_animationDuration p \<Longrightarrow> chart_reach p' st'"

subsection \<open>The commits come to an end\<close>

definition quiet :: "'d orchestrator_options \<Rightarrow> 'd orchestrator \<Rightarrow> bool" where
  "quiet p c \<longleftrightarrow> oc_prevStatus c = op_chartStatus p \<and> oc_deps2 c = Some (reveal_deps p)"

definition rested :: "'d orchestrator_options \<Rightarrow> 'd orchestrator \<Rightarrow> bool" where
  "rested p c \<longleftrightarrow> quiet p c \<and> oc_deps3 c = Some (plot_deps p c) \<and>
     oc_deps4 c = Some (op_animationDuration p, oc_chartPhase c)"

lemma plot_effect_keeps [simp]:
  "oc_prevStatus (plot_effect p c st) = oc_prevStatus st" "oc_deps2 (plot_effect p c st) = oc_deps2 st"
  "oc_deps4 (plot_effect p c st) = oc_deps4 st" "oc_chartPhase (plot_effect p c st) = oc_chartPhase st"
  "oc_isLoaded (plot_effect p c st) = oc_isLoaded st" "oc_timer (plot_effect p c st) = oc_timer st"
  by (simp_all add: plot_effect_def Let_def split: ChartPhase.split)

lemma timer_effect_keeps [simp]:
  "oc_prevStatus (timer_effect p c st) = oc_prevStatus st" "oc_deps2 (timer_effect p c st) = oc_deps2 st"
  "oc_deps3 (timer_effect p c st) = oc_deps3 st" "oc_plotData (timer_effect p c st) = oc_plotData st"
  by (simp_all add: timer_effect_def Let_def)

lemma status_effect_quiet: "oc_prevStatus c = op_chartStatus p \<Longrightarrow> status_effect p c = c"
  by (simp add: status_effect_def)

lemma status_effect_facts:
  "oc_prevStatus (status_effect p c) = op_chartStatus p" "oc_deps2 (status_effect p c) = oc_deps2 c"
  "oc_deps3 (status_effect p c) = oc_deps3 c" "oc_deps4 (status_effect p c) = oc_deps4 c"
  "oc_timer (status_effect p c) = oc_timer c"
  by (simp_all add: status_effect_def Let_def)

lemma reveal_effect_facts:
  "oc_prevStatus (reveal_effect p c st) = oc_prevStatus st"
  "oc_deps2 (reveal_effect p c (status_effect p c)) = Some (reveal_deps p)"
  "oc_deps3 (reveal_effect p c st) = oc_deps3 st" "oc_deps4 (reveal_effect p c st) = oc_deps4 st"
  "oc_timer (reveal_effect p c st) = oc_timer st" "oc_plotData (reveal_effect p c st) = oc_plotData st"
  by (simp_all add: reveal_effect_def Let_def status_effect_facts)

lemma commit_quiet: "quiet p (commit p c)"
  by (simp add: quiet_def commit_def reveal_effect_facts status_effect_facts)

lemma commit_of_quiet: "quiet p c \<Longrightarrow> commit p c = timer_effect p c (plot_effect p c c)"
  by (simp add: quiet_def commit_def status_effect_quiet reveal_effect_def)

lemma commit_of_rested: "rested p c \<Longrightarrow> commit p c = c"
  by (simp add: rested_def commit_of_quiet plot_effect_def timer_effect_def)

lemma commit_rests:
  assumes "quiet p c"
  shows "oc_chartPhase (commit p c) = oc_chartPhase c \<Longrightarrow> rested p (commit p c)"
    and "oc_chartPhase (commit p c) \<noteq> oc_chartPhase c \<Longrightarrow>
      oc_chartPhase c = PhRevealing \<and> oc_chartPhase (commit p c) = PhReady"
proof -
  have d3: "oc_deps3 (commit p c) = Some (plot_deps p c)"
    using assms by (simp add: commit_of_quiet plot_effect_def Let_def split: ChartPhase.split)
  have d4: "oc_deps4 (commit p c) = Some (op_animationDuration p, oc_chartPhase c)"
    using assms by (simp add: commit_of_quiet timer_effect_def Let_def)
  show "rested p (commit p c)" if "oc_chartPhase (commit p c) = oc_chartPhase c"
    using commit_quiet [of p c] d3 d4 that by (simp add: rested_def plot_deps_def)
  show "oc_chartPhase c = PhRevealing \<and> oc_chartPhase (commit p c) = PhReady"
    if "oc_chartPhase (commit p c) \<noteq> oc_chartPhase c"
    using that assms by (simp add: commit_of_quiet timer_effect_def Let_def split: if_splits)
qed

lemma three_commits: "rested p (commit p (commit p (commit p st)))"
proof -
  let ?c = "commit p st"
  show ?thesis
  proof (cases "oc_chartPhase (commit p ?c) = oc_chartPhase ?c")
    case True
    from commit_rests(1) [OF commit_quiet True] show ?thesis by (simp add: commit_of_rested)
  next
    case False
    from commit_rests(2) [OF commit_quiet False] have "oc_chartPhase (commit p ?c) = PhReady" by simp
    then have "oc_chartPhase (commit p (commit p ?c)) = oc_chartPhase (commit p ?c)"
      using commit_rests(2) [OF commit_quiet, of p ?c] by force
    then show ?thesis by (rule commit_rests(1) [OF commit_quiet])
  qed
qed

lemma settle_rested: "rested p (settle p st)"
  by (simp add: settle_def commit_of_rested three_commits)

text \<open>C22. The hook cannot render for ever: from any state and with any options, whatever the effects queue,
  three commits reach a state that a further commit leaves as it is, so that running the commits until
  nothing changes ends, and ends in \<open>settle\<close>.\<close>

theorem commits_settle:
  "commit p (settle p st) = settle p st \<and> settle p st = (commit p ^^ 3) st \<and> settle p (settle p st) = settle p st"
proof -
  have "(commit p ^^ 3) st = commit p (commit p (commit p st))" by (simp add: numeral_3_eq_3)
  then show ?thesis using three_commits [of p st] by (simp add: settle_def commit_of_rested)
qed

subsection \<open>What holds between events\<close>

definition on_side :: "ChartStatus \<Rightarrow> ChartPhase \<Rightarrow> bool" where
  "on_side s ph \<longleftrightarrow>
     (if s = StatusReady then ph \<in> {PhExiting, PhGridTweenReady, PhRevealing, PhReady}
      else ph \<in> {PhLoading, PhExitingReady, PhGridTweenLoading})"

text \<open>What the data on screen is once the effects have run for a phase.\<close>

definition plot_of :: "ChartPhase \<Rightarrow> 'd \<Rightarrow> 'd \<Rightarrow> 'd" where
  "plot_of ph skeleton target = (if ph = PhLoading \<or> ph = PhExiting then skeleton else target)"

definition plots :: "'d orchestrator \<Rightarrow> bool" where
  "plots st \<longleftrightarrow> (case oc_deps3 st of
      Some (ph, s, sk, tg) \<Rightarrow> ph = PhRevealingLoading \<or> ph = PhLoading \<and> s = StatusReady \<or> oc_plotData st = plot_of ph sk tg
    | None \<Rightarrow> True)"

definition timed :: "'d orchestrator_options \<Rightarrow> 'd orchestrator \<Rightarrow> bool" where
  "timed p st \<longleftrightarrow>
     (oc_timer st \<longrightarrow> oc_deps4 st = Some (op_animationDuration p, PhRevealing) \<and> 0 < op_animationDuration p) \<and>
     (oc_deps4 st = Some (op_animationDuration p, PhRevealing) \<and> oc_chartPhase st = PhRevealing \<longrightarrow>
        oc_timer st \<and> 0 < op_animationDuration p) \<and>
     (case oc_deps4 st of Some (d, ph) \<Rightarrow> d = op_animationDuration p | None \<Rightarrow> True) \<and>
     (oc_prevStatus st \<noteq> op_chartStatus p \<longrightarrow> oc_deps4 st = Some (op_animationDuration p, oc_chartPhase st) \<and> oc_deps3 st \<noteq> Some (plot_deps p st))"

definition sound :: "'d orchestrator_options \<Rightarrow> 'd orchestrator \<Rightarrow> bool" where
  "sound p st \<longleftrightarrow> on_side (oc_prevStatus st) (oc_chartPhase st) \<and> (oc_isLoaded st \<longleftrightarrow> oc_chartPhase st = PhReady) \<and>
     plots st \<and> timed p st"

lemma not_loading [simp]: "s \<noteq> StatusLoading \<longleftrightarrow> s = StatusReady"
  by (cases s) simp_all

lemma plots_effect: "plots c \<Longrightarrow> oc_deps3 st = oc_deps3 c \<Longrightarrow>
    oc_deps3 c = Some (plot_deps p c) \<longrightarrow> oc_plotData st = oc_plotData c \<Longrightarrow> plots (plot_effect p c st)"
  by (cases "oc_chartPhase c")
    (auto simp: plots_def plot_effect_def plot_deps_def plot_of_def Let_def split: ChartPhase.splits)

lemma plots_cong: "oc_deps3 st' = oc_deps3 st \<Longrightarrow> oc_plotData st' = oc_plotData st \<Longrightarrow> plots st' = plots st"
  by (cases "oc_deps3 st") (simp_all add: plots_def)

lemma commit_plots:
  assumes "plots c" and "oc_prevStatus c \<noteq> op_chartStatus p \<longrightarrow> oc_deps3 c \<noteq> Some (plot_deps p c)"
  shows "plots (commit p c)"
proof -
  have "oc_plotData (status_effect p c) = oc_plotData c" if "oc_prevStatus c = op_chartStatus p"
    using that by (simp add: status_effect_quiet)
  then have "plots (plot_effect p c (reveal_effect p c (status_effect p c)))"
    using assms by (intro plots_effect) (auto simp: reveal_effect_facts status_effect_facts)
  then show ?thesis unfolding commit_def by (subst plots_cong [of _ "plot_effect p c (reveal_effect p c (status_effect p c))"]) simp_all
qed

lemma sound_commit_same:
  assumes "sound p c" and "oc_prevStatus c = op_chartStatus p"
  shows "sound p (commit p c)"
proof -
  have "commit p c = timer_effect p c (plot_effect p c (reveal_effect p c c))"
    using assms(2) by (simp add: commit_def status_effect_quiet)
  moreover have "plots (commit p c)" using assms by (intro commit_plots) (simp_all add: sound_def)
  moreover have "oc_chartPhase (reveal_effect p c c) = oc_chartPhase c \<and> oc_isLoaded (reveal_effect p c c) = oc_isLoaded c \<or>
     oc_chartPhase c = PhReady \<and> op_chartStatus p = StatusReady \<and>
     oc_chartPhase (reveal_effect p c c) = PhRevealing \<and> \<not> oc_isLoaded (reveal_effect p c c)"
    by (auto simp: reveal_effect_def Let_def)
  ultimately show ?thesis
    using assms by (auto simp: sound_def timer_effect_def reveal_effect_facts Let_def timed_def on_side_def split: if_splits)
qed

lemma sound_commit_changed:
  assumes "sound p c" and "oc_prevStatus c \<noteq> op_chartStatus p"
  shows "sound p (commit p c)"
proof -
  have d4: "oc_deps4 c = Some (op_animationDuration p, oc_chartPhase c)" and d3: "oc_deps3 c \<noteq> Some (plot_deps p c)"
    using assms by (simp_all add: sound_def timed_def)
  have "commit p c = plot_effect p c (reveal_effect p c (status_effect p c))"
    using d4 by (simp add: commit_def timer_effect_def)
  moreover have "plots (commit p c)" using assms d3 by (intro commit_plots) (simp_all add: sound_def)
  moreover have "reveal_effect p c (status_effect p c) = (status_effect p c)\<lparr>oc_deps2 := Some (reveal_deps p)\<rparr>"
    using assms by (cases "op_chartStatus p"; cases "oc_prevStatus c"; cases "oc_deps2 c = Some (reveal_deps p)")
      (auto simp: reveal_effect_def Let_def sound_def on_side_def status_effect_facts)
  moreover have "on_side (op_chartStatus p) (oc_chartPhase (status_effect p c)) \<and> \<not> oc_isLoaded (status_effect p c) \<and>
     oc_chartPhase (status_effect p c) \<noteq> PhReady \<and>
     (oc_chartPhase (status_effect p c) = PhRevealing \<longrightarrow> oc_chartPhase c \<noteq> PhRevealing)"
    using assms by (cases "op_chartStatus p"; cases "oc_prevStatus c")
      (auto simp: status_effect_def Let_def on_side_def sound_def)
  ultimately show ?thesis
    using assms d4 by (auto simp: sound_def reveal_effect_facts status_effect_facts timed_def)
qed

lemma sound_settle: "sound p st \<Longrightarrow> sound p (settle p st)"
proof -
  have "sound p c \<Longrightarrow> sound p (commit p c)" for c
    using sound_commit_same sound_commit_changed by blast
  then show "sound p st \<Longrightarrow> sound p (settle p st)" by (simp add: settle_def)
qed

definition resting :: "'d orchestrator_options \<Rightarrow> 'd orchestrator \<Rightarrow> bool" where
  "resting p st \<longleftrightarrow> sound p st \<and> rested p st"

lemma resting_settle: "sound p st \<Longrightarrow> resting p (settle p st)"
  by (simp add: resting_def sound_settle settle_rested)

lemma sound_init: "sound p (orchestrator_init p)"
  by (cases "op_chartStatus p")
    (simp_all add: sound_def orchestrator_init_def on_side_def resolveRestingChartPhase_def plots_def timed_def)

lemma sound_options:
  "resting p st \<Longrightarrow> op_animationDuration p' = op_animationDuration p \<Longrightarrow> sound p' st"
  by (auto simp: resting_def rested_def quiet_def sound_def timed_def plot_deps_def)

lemma sound_notify:
  assumes "resting p st"
  shows "sound p (notifyLoadingPulseComplete st)" "sound p (notifyRevealConcealComplete st)"
    "sound p (notifyYDomainTweenComplete st)" "sound p (timer_fires st)"
proof -
  have d: "oc_prevStatus st = op_chartStatus p" "oc_deps4 st = Some (op_animationDuration p, oc_chartPhase st)"
    "oc_deps3 st = Some (plot_deps p st)" "sound p st"
    using assms by (simp_all add: resting_def rested_def quiet_def)
  have keep: "plots (st\<lparr>oc_chartPhase := ph\<rparr>)"
    "plots (st\<lparr>oc_timer := False, oc_chartPhase := ph, oc_isLoaded := True\<rparr>)" for ph
  proof -
    have "plots (st\<lparr>oc_chartPhase := ph\<rparr>) = plots st"
      "plots (st\<lparr>oc_timer := False, oc_chartPhase := ph, oc_isLoaded := True\<rparr>) = plots st"
      by (rule plots_cong; simp)+
    then show "plots (st\<lparr>oc_chartPhase := ph\<rparr>)"
      "plots (st\<lparr>oc_timer := False, oc_chartPhase := ph, oc_isLoaded := True\<rparr>)"
      using d(4) by (simp_all add: sound_def)
  qed
  show "sound p (notifyLoadingPulseComplete st)" "sound p (notifyRevealConcealComplete st)"
    "sound p (notifyYDomainTweenComplete st)" "sound p (timer_fires st)"
    using d keep by (auto simp: sound_def timed_def on_side_def notifyLoadingPulseComplete_def
        notifyRevealConcealComplete_def notifyYDomainTweenComplete_def timer_fires_def split: if_splits)
qed

lemma resting_step:
  assumes "resting p st" and "chart_step (p, st) e = (p', st')" and "op_animationDuration p' = op_animationDuration p"
  shows "resting p' st'"
proof (cases e)
  case (OptionsChanged q)
  with assms show ?thesis by (auto intro!: resting_settle sound_options)
qed (use assms sound_notify in \<open>auto intro!: resting_settle\<close>)

lemma reach_resting: "chart_reach p st \<Longrightarrow> resting p st"
  by (induction rule: chart_reach.induct) (auto intro: resting_settle sound_init resting_step)

lemma resting_phase:
  assumes "resting p st"
  shows "on_side (op_chartStatus p) (oc_chartPhase st)"
    and "oc_isLoaded st = (oc_chartPhase st = PhReady)"
    and "oc_timer st = (oc_chartPhase st = PhRevealing)"
    and "oc_plotData st = plot_of (oc_chartPhase st) (op_skeletonData p) (op_targetData p)"
proof -
  have d: "oc_prevStatus st = op_chartStatus p" "oc_deps4 st = Some (op_animationDuration p, oc_chartPhase st)"
    "oc_deps3 st = Some (plot_deps p st)" "sound p st"
    using assms by (simp_all add: resting_def rested_def quiet_def)
  then show "on_side (op_chartStatus p) (oc_chartPhase st)" "oc_isLoaded st = (oc_chartPhase st = PhReady)"
    "oc_timer st = (oc_chartPhase st = PhRevealing)"
    by (auto simp: sound_def timed_def)
  then show "oc_plotData st = plot_of (oc_chartPhase st) (op_skeletonData p) (op_targetData p)"
    using d by (auto simp: sound_def plots_def plot_deps_def on_side_def split: if_splits)
qed

text \<open>C23. What a chart shows is never at odds with its status: in every state it can be in while the length of its
  animation stays the same, however reloads, new data, replays and ends of animations follow each other, the phase is one on the side of the status,
  it can be used with the pointer exactly when it is loaded, the timer runs exactly while it is being
  revealed, and the skeleton is drawn exactly while it loads or leaves, the data in every other phase.\<close>

theorem chart_phase_invariant:
  assumes "chart_reach p st"
  shows "(if op_chartStatus p = StatusReady
      then oc_chartPhase st \<in> {PhExiting, PhGridTweenReady, PhRevealing, PhReady}
      else oc_chartPhase st \<in> {PhLoading, PhExitingReady, PhGridTweenLoading}) \<and>
    isChartInteractionPhase (oc_chartPhase st) = oc_isLoaded st \<and>
    oc_timer st = (oc_chartPhase st = PhRevealing) \<and>
    oc_plotData st =
      (if oc_chartPhase st = PhLoading \<or> oc_chartPhase st = PhExiting then op_skeletonData p else op_targetData p)"
  using resting_phase [OF reach_resting [OF assms]]
  by (simp add: on_side_def isChartInteractionPhase_def plot_of_def)

subsection \<open>A chart comes to rest\<close>

lemma commit_same_phase:
  assumes "quiet p st" "oc_chartPhase st \<noteq> PhRevealing"
  shows "oc_chartPhase (commit p st) = oc_chartPhase st"
  using commit_rests(2) [OF assms(1)] assms(2) by blast

lemma settle_same_phase:
  assumes "quiet p st" "oc_chartPhase st \<noteq> PhRevealing"
  shows "oc_chartPhase (settle p st) = oc_chartPhase st"
proof -
  note next_commit = commit_same_phase [OF commit_quiet]
  have "oc_chartPhase (commit p st) = oc_chartPhase st" by (rule commit_same_phase [OF assms])
  with next_commit [of p st] next_commit [of p "commit p st"] next_commit [of p "commit p (commit p st)"] assms(2)
  show ?thesis by (simp add: settle_def)
qed

lemma revealing_goes_on:
  assumes "quiet p st" "oc_chartPhase st = PhRevealing"
  shows "oc_chartPhase (settle p st) \<in> {PhRevealing, PhReady}"
proof -
  have "oc_chartPhase c \<in> {PhRevealing, PhReady} \<Longrightarrow> oc_chartPhase (commit p c) \<in> {PhRevealing, PhReady}"
    if "quiet p c" for c
    using commit_rests(2) [OF that] by fastforce
  then show ?thesis using assms commit_quiet unfolding settle_def by blast
qed

lemma quiet_notify:
  assumes "resting p st"
  shows "quiet p (notifyLoadingPulseComplete st)" "quiet p (notifyRevealConcealComplete st)"
    "quiet p (notifyYDomainTweenComplete st)" "quiet p (timer_fires st)"
  using assms by (simp_all add: resting_def rested_def quiet_def notifyLoadingPulseComplete_def reveal_deps_def
      notifyRevealConcealComplete_def notifyYDomainTweenComplete_def timer_fires_def)

lemma idle: "resting p st \<Longrightarrow> settle p st = st"
  by (simp add: resting_def settle_def commit_of_rested)

lemma resting_events:
  assumes "resting p st"
  shows "resting p (settle p (notifyLoadingPulseComplete st))" "resting p (settle p (notifyRevealConcealComplete st))"
    "resting p (settle p (notifyYDomainTweenComplete st))" "resting p (settle p (timer_fires st))"
  by (rule resting_settle, rule sound_notify [OF assms])+

lemma pulse_phase:
  "resting p st \<Longrightarrow> oc_chartPhase (settle p (notifyLoadingPulseComplete st)) =
     (if oc_chartPhase st = PhExiting then PhGridTweenReady else oc_chartPhase st)"
  using settle_same_phase [OF quiet_notify(1), of p st] idle [of p st] by (auto simp: notifyLoadingPulseComplete_def)

lemma conceal_phase:
  "resting p st \<Longrightarrow> oc_chartPhase (settle p (notifyRevealConcealComplete st)) =
     (if oc_chartPhase st = PhExitingReady then PhGridTweenLoading else oc_chartPhase st)"
  using settle_same_phase [OF quiet_notify(2), of p st] idle [of p st] by (auto simp: notifyRevealConcealComplete_def)

lemma tween_phase:
  assumes "resting p st"
  shows "if oc_chartPhase st = PhGridTweenReady
    then oc_chartPhase (settle p (notifyYDomainTweenComplete st)) \<in> {PhRevealing, PhReady}
    else oc_chartPhase (settle p (notifyYDomainTweenComplete st)) =
      (if oc_chartPhase st = PhGridTweenLoading then PhLoading else oc_chartPhase st)"
proof (cases "oc_chartPhase st = PhGridTweenReady")
  case True
  then show ?thesis
    using revealing_goes_on [OF quiet_notify(3) [OF assms]] by (simp add: notifyYDomainTweenComplete_def)
next
  case False
  then show ?thesis
    using settle_same_phase [OF quiet_notify(3) [OF assms]] idle [OF assms] by (auto simp: notifyYDomainTweenComplete_def)
qed

lemma timer_phase:
  "resting p st \<Longrightarrow> oc_chartPhase (settle p (timer_fires st)) =
     (if oc_chartPhase st = PhRevealing then PhReady else oc_chartPhase st)"
  using settle_same_phase [OF quiet_notify(4), of p st] idle [of p st] resting_phase(3) [of p st] by (auto simp: timer_fires_def)

text \<open>C24. A chart cannot get stuck between two looks: in every state it can be in, once the animations that
  may still be running have ended - the pulse, the concealment, the tween of the grid and the timer of the
  reveal, each at most once and in this order - the chart rests in the phase of its status: ready, loaded
  and drawn over its data, or loading over its skeleton.\<close>

theorem chart_comes_to_rest:
  assumes "chart_reach p st"
  shows "case foldl chart_step (p, st) [PulseComplete, ConcealComplete, TweenComplete, TimerFires] of (p', st') \<Rightarrow>
    p' = p \<and> oc_chartPhase st' = resolveRestingChartPhase (op_chartStatus p) \<and>
    oc_isLoaded st' = (op_chartStatus p = StatusReady) \<and>
    oc_plotData st' = (if op_chartStatus p = StatusReady then op_targetData p else op_skeletonData p)"
proof -
  define s1 where "s1 = settle p (notifyLoadingPulseComplete st)"
  define s2 where "s2 = settle p (notifyRevealConcealComplete s1)"
  define s3 where "s3 = settle p (notifyYDomainTweenComplete s2)"
  define s4 where "s4 = settle p (timer_fires s3)"
  have r: "resting p st" by (rule reach_resting [OF assms])
  have r1: "resting p s1" unfolding s1_def by (rule resting_events(1) [OF r])
  have r2: "resting p s2" unfolding s2_def by (rule resting_events(2) [OF r1])
  have r3: "resting p s3" unfolding s3_def by (rule resting_events(3) [OF r2])
  have r4: "resting p s4" unfolding s4_def by (rule resting_events(4) [OF r3])
  have "oc_chartPhase s4 = resolveRestingChartPhase (op_chartStatus p)"
    using resting_phase(1) [OF r] pulse_phase [OF r] conceal_phase [OF r1] tween_phase [OF r2] timer_phase [OF r3]
    unfolding s1_def [symmetric] s2_def [symmetric] s3_def [symmetric] s4_def [symmetric]
    by (auto simp: on_side_def resolveRestingChartPhase_def split: if_splits)
  then show ?thesis
    using resting_phase(2) [OF r4] resting_phase(4) [OF r4]
    by (cases "op_chartStatus p")
      (simp_all add: s1_def [symmetric] s2_def [symmetric] s3_def [symmetric] s4_def [symmetric]
        resolveRestingChartPhase_def plot_of_def)
qed

subsection \<open>A chart that reloads\<close>

definition demo_options :: "ChartStatus \<Rightarrow> rat \<Rightarrow> string orchestrator_options" where
  "demo_options s d =
     \<lparr>op_chartStatus = s, op_targetData = ''data'', op_skeletonData = ''skeleton'', op_animationDuration = d,
      op_yDomainTweenDuration = 500, op_revealSignature = [], op_skipEnterReveal = False\<rparr>"

lemma demo_options_simps [simp]:
  "op_chartStatus (demo_options s d) = s" "op_animationDuration (demo_options s d) = d"
  "op_targetData (demo_options s d) = ''data''" "op_skeletonData (demo_options s d) = ''skeleton''"
  by (simp_all add: demo_options_def)

definition demo_exiting :: "string orchestrator" where
  "demo_exiting =
     settle (demo_options StatusReady 1100) (settle (demo_options StatusLoading 1100)
       (orchestrator_init (demo_options StatusLoading 1100)))"

lemma demo_reload: "chart_reach (demo_options StatusReady 1100) demo_exiting"
proof (rule chart_reach.stepped [OF chart_reach.mounted])
  show "chart_step (demo_options StatusLoading 1100, settle (demo_options StatusLoading 1100)
      (orchestrator_init (demo_options StatusLoading 1100))) (OptionsChanged (demo_options StatusReady 1100)) =
    (demo_options StatusReady 1100, demo_exiting)"
    by (simp add: demo_exiting_def)
qed simp

lemma demo_exiting_phase: "oc_chartPhase demo_exiting = PhExiting"
  by code_simp

theorem chart_phase_invariant_witness:
  "\<not> oc_isLoaded demo_exiting \<and> \<not> oc_timer demo_exiting \<and> oc_plotData demo_exiting = ''skeleton''"
  using chart_phase_invariant [OF demo_reload] by (simp add: demo_exiting_phase isChartInteractionPhase_def)

theorem chart_comes_to_rest_witness:
  "oc_chartPhase (snd (foldl chart_step (demo_options StatusReady 1100, demo_exiting)
      [PulseComplete, ConcealComplete, TweenComplete, TimerFires])) = PhReady"
  using chart_comes_to_rest [OF demo_reload] by (simp add: case_prod_beta resolveRestingChartPhase_def)

text \<open>When the animation is switched off in the very render that starts to load again, while the data is being
  revealed, the last effect answers for the old phase after the first has left it: the chart ends ready and
  loaded over its data though its status is loading.\<close>

lemma reload_lost:
  "let st = settle (demo_options StatusReady 1100) (orchestrator_init (demo_options StatusReady 1100));
       st' = settle (demo_options StatusLoading 0) st
   in oc_chartPhase st = PhRevealing \<and> oc_chartPhase st' = PhReady \<and> oc_isLoaded st' \<and> oc_plotData st' = ''data''"
  by code_simp

end
