(* ===== verification/Chart_Pointer.thy ===== *)
theory Chart_Pointer
  imports Js_Prelude
begin

section \<open>The pointer over a chart: use-scheduled-tooltip.ts, use-chart-interaction.ts\<close>

text \<open>
  \<open>src/web/src/components/charts/use-scheduled-tooltip.ts\<close> (a tooltip is shown one animation frame after it is
  asked for, and not again for the same key), \<open>use-chart-interaction.ts\<close> (hovering, dragging and touching a
  time series) and the axis ids of \<open>y-axis-scales.ts\<close>. What the hooks get from the scales (visx), the bisector (d3)
  and the chart is the record \<open>chart_env\<close>; a pointer event carries the position \<open>getChartX\<close> reads from it,
  \<^const>\<open>None\<close> where it reads none. Pixels are rationals: they are compared and rounded here, never added. Times
  are milliseconds.
\<close>

subsection \<open>Axis ids\<close>

datatype axis_id = AxisName string | AxisNumber int

definition DEFAULT_Y_AXIS_ID :: string where "DEFAULT_Y_AXIS_ID = ''left''"

definition normalizeYAxisId :: "axis_id option \<Rightarrow> string" where
  "normalizeYAxisId i =
     (case i of
        None \<Rightarrow> DEFAULT_Y_AXIS_ID
      | Some (AxisName s) \<Rightarrow> if s = [] then DEFAULT_Y_AXIS_ID else s
      | Some (AxisNumber n) \<Rightarrow> show_int n)"

record LineConfig =
  lc_dataKey :: string
  lc_stroke :: string
  lc_strokeWidth :: rat
  lc_yAxisId :: "axis_id option"

subsection \<open>use-scheduled-tooltip.ts\<close>

record 'r TooltipData =
  td_point :: 'r
  td_index :: nat
  td_x :: rat
  td_yPositions :: "(string \<times> rat) list"
  td_xPositions :: "(string \<times> rat) list option"

text \<open>\<open>Math.round\<close>: the nearest integer, ties upwards.\<close>

definition math_round :: "rat \<Rightarrow> int" where
  "math_round x = \<lfloor>x + 1 / 2\<rfloor>"

definition defaultDedupeKey :: "'r TooltipData \<Rightarrow> string" where
  "defaultDedupeKey td = show_nat (td_index td) @ '':'' @ show_int (math_round (td_x td))"

record 'r scheduled =
  tp_tooltipData :: "'r TooltipData option"
  tp_lastKey :: "string option"
  tp_pending :: "'r TooltipData option"
  tp_pendingKey :: "string option"
  tp_raf :: bool

definition scheduled_init :: "'r scheduled" where
  "scheduled_init =
     \<lparr>tp_tooltipData = None, tp_lastKey = None, tp_pending = None, tp_pendingKey = None, tp_raf = False\<rparr>"

definition commitTooltip :: "'r TooltipData \<Rightarrow> string \<Rightarrow> 'r scheduled \<Rightarrow> 'r scheduled" where
  "commitTooltip td key st =
     (if Some key = tp_lastKey st then st else st\<lparr>tp_lastKey := Some key, tp_tooltipData := Some td\<rparr>)"

definition scheduleTooltip :: "'r TooltipData \<Rightarrow> string option \<Rightarrow> 'r scheduled \<Rightarrow> 'r scheduled" where
  "scheduleTooltip td dedupeKey st =
     (let key = (case dedupeKey of Some k \<Rightarrow> k | None \<Rightarrow> defaultDedupeKey td);
          st' = st\<lparr>tp_pending := Some td, tp_pendingKey := Some key\<rparr>
      in if Some key = tp_lastKey st' then st'
         else if tp_raf st' then st'
         else st'\<lparr>tp_raf := True\<rparr>)"

text \<open>The callback of the animation frame.\<close>

definition frame :: "'r scheduled \<Rightarrow> 'r scheduled" where
  "frame st =
     (if \<not> tp_raf st then st
      else let st' = st\<lparr>tp_raf := False\<rparr> in
        (case (tp_pending st', tp_pendingKey st') of
           (Some td, Some key) \<Rightarrow> if key \<noteq> [] then commitTooltip td key st' else st'
         | _ \<Rightarrow> st'))"

definition clearTooltip :: "'r scheduled \<Rightarrow> 'r scheduled" where
  "clearTooltip st =
     st\<lparr>tp_raf := False, tp_pending := None, tp_pendingKey := None, tp_lastKey := None, tp_tooltipData := None\<rparr>"

definition resetTooltipDedupe :: "'r scheduled \<Rightarrow> 'r scheduled" where
  "resetTooltipDedupe st = st\<lparr>tp_lastKey := None\<rparr>"

subsection \<open>use-chart-interaction.ts\<close>

record 'r chart_env =
  ce_invert :: "rat \<Rightarrow> int"
  ce_xScale :: "int \<Rightarrow> rat option"
  ce_yScales :: "string \<Rightarrow> (rat \<Rightarrow> rat option) option"
  ce_yScale :: "rat \<Rightarrow> rat option"
  ce_data :: "'r list"
  ce_lines :: "LineConfig list"
  ce_time :: "'r \<Rightarrow> int"
  ce_number :: "'r \<Rightarrow> string \<Rightarrow> rat option"
  ce_bisect :: "'r list \<Rightarrow> int \<Rightarrow> nat \<Rightarrow> nat"
  ce_canInteract :: bool

text \<open>\<open>data[index - 1]\<close> and \<open>data[index]\<close>, and which of them is nearer.\<close>

definition nearest_index :: "'r chart_env \<Rightarrow> rat \<Rightarrow> nat option" where
  "nearest_index E pixelX =
     (let x0 = ce_invert E pixelX;
          index = ce_bisect E (ce_data E) x0 1
      in case (if index = 0 then None else js_at (ce_data E) (index - 1)) of
           None \<Rightarrow> None
         | Some d0 \<Rightarrow>
             (case js_at (ce_data E) index of
                Some d1 \<Rightarrow>
                  if x0 - ce_time E d0 > ce_time E d1 - x0 then Some index else Some (index - 1)
              | None \<Rightarrow> Some (index - 1)))"

definition y_positions :: "'r chart_env \<Rightarrow> 'r \<Rightarrow> (string \<times> rat) list" where
  "y_positions E d =
     concat (map (\<lambda>line.
       (case ce_number E d (lc_dataKey line) of
          Some v \<Rightarrow>
            let axisScale = (case ce_yScales E (normalizeYAxisId (lc_yAxisId line)) of Some s \<Rightarrow> s | None \<Rightarrow> ce_yScale E)
            in [(lc_dataKey line, case axisScale v of Some y \<Rightarrow> y | None \<Rightarrow> 0)]
        | None \<Rightarrow> [])) (ce_lines E))"

definition resolveTooltipFromX :: "'r chart_env \<Rightarrow> rat \<Rightarrow> 'r TooltipData option" where
  "resolveTooltipFromX E pixelX =
     (case nearest_index E pixelX of
        None \<Rightarrow> None
      | Some i \<Rightarrow>
          let d = ce_data E ! i
          in Some \<lparr>td_point = d, td_index = i,
               td_x = (case ce_xScale E (ce_time E d) of Some x \<Rightarrow> x | None \<Rightarrow> 0),
               td_yPositions = y_positions E d, td_xPositions = None\<rparr>)"

definition resolveIndexFromX :: "'r chart_env \<Rightarrow> rat \<Rightarrow> nat" where
  "resolveIndexFromX E pixelX = (case nearest_index E pixelX of None \<Rightarrow> 0 | Some i \<Rightarrow> i)"

record ChartSelection =
  cs_startX :: rat
  cs_endX :: rat
  cs_startIndex :: nat
  cs_endIndex :: nat
  cs_active :: bool

record 'r interaction =
  in_tip :: "'r scheduled"
  in_selection :: "ChartSelection option"
  in_isDragging :: bool
  in_dragStartX :: rat
  in_lastHoveredX :: "rat option"

definition interaction_init :: "'r interaction" where
  "interaction_init =
     \<lparr>in_tip = scheduled_init, in_selection = None, in_isDragging = False, in_dragStartX = 0, in_lastHoveredX = None\<rparr>"

definition select_between :: "'r chart_env \<Rightarrow> rat \<Rightarrow> rat \<Rightarrow> 'r interaction \<Rightarrow> 'r interaction" where
  "select_between E a b st =
     (let startX = min a b; endX = max a b
      in st\<lparr>in_selection := Some
           \<lparr>cs_startX = startX, cs_endX = endX, cs_startIndex = resolveIndexFromX E startX,
            cs_endIndex = resolveIndexFromX E endX, cs_active = True\<rparr>\<rparr>)"

definition hover_at :: "'r chart_env \<Rightarrow> rat \<Rightarrow> 'r interaction \<Rightarrow> 'r interaction" where
  "hover_at E x st =
     (let st' = st\<lparr>in_lastHoveredX := Some x\<rparr>
      in case resolveTooltipFromX E x of
           Some td \<Rightarrow> st'\<lparr>in_tip := scheduleTooltip td None (in_tip st')\<rparr>
         | None \<Rightarrow> st')"

definition clear_tip :: "'r interaction \<Rightarrow> 'r interaction" where
  "clear_tip st = st\<lparr>in_tip := clearTooltip (in_tip st)\<rparr>"

definition handleMouseMove :: "'r chart_env \<Rightarrow> rat option \<Rightarrow> 'r interaction \<Rightarrow> 'r interaction" where
  "handleMouseMove E chartX st =
     (case chartX of
        None \<Rightarrow> st
      | Some x \<Rightarrow> if in_isDragging st then select_between E (in_dragStartX st) x st else hover_at E x st)"

definition handleMouseLeave :: "'r interaction \<Rightarrow> 'r interaction" where
  "handleMouseLeave st =
     (clear_tip (st\<lparr>in_lastHoveredX := None\<rparr>))\<lparr>in_isDragging := False, in_selection := None\<rparr>"

definition handleMouseDown :: "rat option \<Rightarrow> 'r interaction \<Rightarrow> 'r interaction" where
  "handleMouseDown chartX st =
     (case chartX of
        None \<Rightarrow> st
      | Some x \<Rightarrow> (clear_tip (st\<lparr>in_isDragging := True, in_dragStartX := x\<rparr>))\<lparr>in_selection := None\<rparr>)"

definition handleMouseUp :: "'r interaction \<Rightarrow> 'r interaction" where
  "handleMouseUp st = st\<lparr>in_isDragging := False, in_selection := None\<rparr>"

text \<open>The positions of the touches; only one or two of them do anything.\<close>

definition two_touches :: "'r chart_env \<Rightarrow> rat option \<Rightarrow> rat option \<Rightarrow> 'r interaction \<Rightarrow> 'r interaction" where
  "two_touches E x0 x1 st =
     (case (x0, x1) of (Some a, Some b) \<Rightarrow> select_between E a b st | _ \<Rightarrow> st)"

definition handleTouchStart :: "'r chart_env \<Rightarrow> rat option list \<Rightarrow> 'r interaction \<Rightarrow> 'r interaction" where
  "handleTouchStart E touches st =
     (case touches of
        [x] \<Rightarrow> (case x of None \<Rightarrow> st | Some x \<Rightarrow> hover_at E x st)
      | [x0, x1] \<Rightarrow> two_touches E x0 x1 (clear_tip (st\<lparr>in_tip := resetTooltipDedupe (in_tip st)\<rparr>))
      | _ \<Rightarrow> st)"

definition handleTouchMove :: "'r chart_env \<Rightarrow> rat option list \<Rightarrow> 'r interaction \<Rightarrow> 'r interaction" where
  "handleTouchMove E touches st =
     (case touches of
        [x] \<Rightarrow> (case x of None \<Rightarrow> st | Some x \<Rightarrow> hover_at E x st)
      | [x0, x1] \<Rightarrow> two_touches E x0 x1 st
      | _ \<Rightarrow> st)"

definition handleTouchEnd :: "'r interaction \<Rightarrow> 'r interaction" where
  "handleTouchEnd st = (clear_tip st)\<lparr>in_selection := None\<rparr>"

text \<open>The effect that anchors the tooltip again when the scale or the data changed.\<close>

definition reanchor :: "'r chart_env \<Rightarrow> 'r interaction \<Rightarrow> 'r interaction" where
  "reanchor E st =
     (if \<not> ce_canInteract E then st
      else case in_lastHoveredX st of
        None \<Rightarrow> st
      | Some x \<Rightarrow>
          (case resolveTooltipFromX E x of
             Some td \<Rightarrow> st\<lparr>in_tip := scheduleTooltip td
               (Some (show_nat (td_index td) @ '':'' @ show_int (math_round (td_x td)))) (in_tip st)\<rparr>
           | None \<Rightarrow> clear_tip st))"

datatype 'r pointer_event =
    MouseMove "rat option"
  | MouseLeave
  | MouseDown "rat option"
  | MouseUp
  | TouchStart "rat option list"
  | TouchMove "rat option list"
  | TouchEnd
  | Frame
  | Changed "'r chart_env"

text \<open>The environment in force and the state; the handlers are there only while the chart can be used.\<close>

fun pointer_step :: "'r chart_env \<times> 'r interaction \<Rightarrow> 'r pointer_event \<Rightarrow> 'r chart_env \<times> 'r interaction" where
  "pointer_step (E, st) Frame = (E, st\<lparr>in_tip := frame (in_tip st)\<rparr>)"
| "pointer_step (E, st) (Changed E') = (E', reanchor E' st)"
| "pointer_step (E, st) e =
     (E, if \<not> ce_canInteract E then st
         else case e of
           MouseMove x \<Rightarrow> handleMouseMove E x st
         | MouseLeave \<Rightarrow> handleMouseLeave st
         | MouseDown x \<Rightarrow> handleMouseDown x st
         | MouseUp \<Rightarrow> handleMouseUp st
         | TouchStart xs \<Rightarrow> handleTouchStart E xs st
         | TouchMove xs \<Rightarrow> handleTouchMove E xs st
         | TouchEnd \<Rightarrow> handleTouchEnd st
         | _ \<Rightarrow> st)"

definition pointer_run :: "'r chart_env \<Rightarrow> 'r pointer_event list \<Rightarrow> 'r chart_env \<times> 'r interaction" where
  "pointer_run E es = foldl pointer_step (E, interaction_init) es"

subsection \<open>The tooltip is the one asked for last\<close>

definition tip_ok :: "'r scheduled \<Rightarrow> bool" where
  "tip_ok st \<longleftrightarrow>
     tp_lastKey st = map_option defaultDedupeKey (tp_tooltipData st) \<and>
     tp_pendingKey st = map_option defaultDedupeKey (tp_pending st) \<and>
     (tp_pending st = None \<longrightarrow> tp_tooltipData st = None \<and> \<not> tp_raf st) \<and>
     (\<not> tp_raf st \<longrightarrow> tp_pendingKey st = tp_lastKey st)"

lemma key_nonempty [simp]: "defaultDedupeKey td \<noteq> []"
  by (simp add: defaultDedupeKey_def)

lemma tip_ok_clear [simp]: "tip_ok (clearTooltip st)"
  by (simp add: tip_ok_def clearTooltip_def)

lemma tip_ok_schedule: "tip_ok st \<Longrightarrow> tip_ok (scheduleTooltip td None st)"
  by (auto simp: tip_ok_def scheduleTooltip_def Let_def)

lemma reanchor_eq:
  "reanchor E st =
     (if \<not> ce_canInteract E then st
      else case in_lastHoveredX st of
        None \<Rightarrow> st
      | Some x \<Rightarrow>
          (case resolveTooltipFromX E x of
             Some td \<Rightarrow> st\<lparr>in_tip := scheduleTooltip td None (in_tip st)\<rparr>
           | None \<Rightarrow> clear_tip st))"
  by (simp add: reanchor_def scheduleTooltip_def defaultDedupeKey_def cong: option.case_cong)

lemma tip_ok_frame:
  assumes "tip_ok st"
  shows "tip_ok (frame st)" "\<not> tp_raf (frame st)" "tp_pending (frame st) = tp_pending st"
    "map_option defaultDedupeKey (tp_tooltipData (frame st)) = map_option defaultDedupeKey (tp_pending st)"
proof -
  have "tip_ok (frame st) \<and> \<not> tp_raf (frame st) \<and> tp_pending (frame st) = tp_pending st"
    using assms by (cases "tp_pending st") (auto simp: tip_ok_def frame_def commitTooltip_def Let_def)
  then show "tip_ok (frame st)" "\<not> tp_raf (frame st)" "tp_pending (frame st) = tp_pending st" by blast+
  then show "map_option defaultDedupeKey (tp_tooltipData (frame st)) = map_option defaultDedupeKey (tp_pending st)"
    unfolding tip_ok_def by metis
qed

lemma tip_ok_hover: "tip_ok (in_tip st) \<Longrightarrow> tip_ok (in_tip (hover_at E x st))"
  by (simp add: hover_at_def Let_def tip_ok_schedule split: option.split)

lemma tip_select [simp]: "in_tip (select_between E a b st) = in_tip st" "in_tip (two_touches E c d st) = in_tip st"
  by (simp_all add: select_between_def Let_def two_touches_def split: option.split)

lemma tip_ok_reanchor: "tip_ok (in_tip st) \<Longrightarrow> tip_ok (in_tip (reanchor E st))"
  by (simp add: reanchor_eq clear_tip_def tip_ok_schedule split: option.split)

lemma tip_ok_step: "tip_ok (in_tip st) \<Longrightarrow> tip_ok (in_tip (snd (pointer_step (E, st) e)))"
  by (cases e)
    (auto simp: tip_ok_frame tip_ok_reanchor tip_ok_hover handleMouseMove_def handleMouseLeave_def handleMouseDown_def
      handleMouseUp_def handleTouchStart_def handleTouchMove_def handleTouchEnd_def clear_tip_def
      split: option.split list.split)

lemma tip_ok_run: "tip_ok (in_tip (snd (pointer_run E es)))"
proof -
  have "tip_ok (in_tip (snd x)) \<Longrightarrow> tip_ok (in_tip (snd (foldl pointer_step x es)))" for x
  proof (induction es arbitrary: x)
    case (Cons e es)
    then show ?case using tip_ok_step [of "snd x" "fst x" e] by simp
  qed simp
  moreover have "tip_ok (in_tip (interaction_init :: 'a interaction))"
    by (simp add: interaction_init_def scheduled_init_def tip_ok_def)
  ultimately show ?thesis unfolding pointer_run_def by simp
qed

text \<open>The tooltip catches up within one frame: however the pointer moves, drags, touches and leaves and
  however the data changes meanwhile, after the next animation frame the tooltip on screen is for the same
  point and pixel as the one asked for last - none exactly when none was asked for since it was cleared - and
  no second frame is waiting; a hover over a point asks for that point.\<close>

theorem tooltip_catches_up:
  "case pointer_run E es of (E', st) \<Rightarrow>
     (let shown_after = (\<lambda>st. tp_tooltipData (in_tip (snd (pointer_step (E', st) Frame)))) in
      map_option defaultDedupeKey (shown_after st) = map_option defaultDedupeKey (tp_pending (in_tip st)) \<and>
      \<not> tp_raf (in_tip (snd (pointer_step (E', st) Frame))) \<and>
      (if ce_canInteract E' \<and> \<not> in_isDragging st \<and> resolveTooltipFromX E' x \<noteq> None
       then map_option defaultDedupeKey (shown_after (snd (pointer_step (E', st) (MouseMove (Some x))))) =
         map_option defaultDedupeKey (resolveTooltipFromX E' x)
       else True))"
proof -
  obtain E' st where run: "pointer_run E es = (E', st)" by fastforce
  with tip_ok_run [of E es] have ok: "tip_ok (in_tip st)" by simp
  have pending: "tp_pending (in_tip (hover_at E' x st)) = resolveTooltipFromX E' x" if "resolveTooltipFromX E' x \<noteq> None"
    using that by (auto simp: hover_at_def scheduleTooltip_def Let_def)
  show ?thesis
    using tip_ok_frame [OF ok] tip_ok_frame(4) [OF tip_ok_hover [OF ok, of E' x]] pending
    by (simp add: run Let_def handleMouseMove_def)
qed

subsection \<open>The hovered point\<close>

text \<open>What \<open>bisector(...).left\<close> answers, over rows in the order of their times.\<close>

definition bisects :: "'r chart_env \<Rightarrow> int \<Rightarrow> bool" where
  "bisects E x0 \<longleftrightarrow>
     (let i = ce_bisect E (ce_data E) x0 1; ts = map (ce_time E) (ce_data E)
      in 1 \<le> i \<and> i \<le> max 1 (length ts) \<and> list_all (\<lambda>t. t < x0) (drop 1 (take i ts)) \<and> list_all (\<lambda>t. x0 \<le> t) (drop i ts))"

text \<open>C25. The hover names the nearest point: over rows in the order of their times, and with a bisector that
  does what it documents, every position over a chart with data is answered, with a row no other is nearer
  to in time.\<close>

theorem hovered_point_nearest:
  assumes "sorted (map (ce_time E) (ce_data E))" and "ce_data E \<noteq> []" and "bisects E (ce_invert E x)"
  shows "\<exists>td. resolveTooltipFromX E x = Some td \<and> td_index td < length (ce_data E) \<and>
    td_point td = ce_data E ! td_index td \<and>
    list_all (\<lambda>d. \<bar>ce_time E (td_point td) - ce_invert E x\<bar> \<le> \<bar>ce_time E d - ce_invert E x\<bar>) (ce_data E)"
proof -
  define x0 where "x0 = ce_invert E x"
  define i where "i = ce_bisect E (ce_data E) x0 1"
  define t where "t = (\<lambda>k. ce_time E (ce_data E ! k))"
  let ?n = "length (ce_data E)"
  have law: "1 \<le> i" "i \<le> max 1 (length (map (ce_time E) (ce_data E)))"
    "list_all (\<lambda>t. t < x0) (drop 1 (take i (map (ce_time E) (ce_data E))))"
    "list_all (\<lambda>t. x0 \<le> t) (drop i (map (ce_time E) (ce_data E)))"
    using assms(3) unfolding bisects_def Let_def i_def x0_def by blast+
  have i: "1 \<le> i" "i \<le> ?n"
    using assms(2) law(1,2) by (cases "ce_data E"; simp)+
  have le: "t j \<le> t k" if "j \<le> k" "k < ?n" for j k
    using sorted_nth_mono [OF assms(1), of j k] that by (simp add: t_def)
  have before: "t k < x0" if "1 \<le> k" "k < i" for k
  proof -
    have "map (ce_time E) (ce_data E) ! k \<in> set (drop 1 (take i (map (ce_time E) (ce_data E))))"
      using that i by (auto simp: in_set_conv_nth intro!: exI [of _ "k - 1"])
    then show ?thesis
      using law(3) that i by (auto simp: list_all_iff t_def)
  qed
  have after: "x0 \<le> t k" if "i \<le> k" "k < ?n" for k
  proof -
    have "map (ce_time E) (ce_data E) ! k \<in> set (drop i (map (ce_time E) (ce_data E)))"
      using that by (auto simp: in_set_conv_nth intro!: exI [of _ "k - i"])
    then show ?thesis
      using law(4) that by (auto simp: list_all_iff t_def)
  qed
  define m where "m = (if i < ?n \<and> x0 - t (i - 1) > t i - x0 then i else i - 1)"
  have m: "m < ?n" using i by (auto simp: m_def)
  have found: "nearest_index E x = Some m"
  proof -
    have idx: "ce_bisect E (ce_data E) x0 (Suc 0) = i" by (simp add: i_def)
    show ?thesis
      using i assms(2) by (cases "i < ?n") (simp_all add: nearest_index_def Let_def idx x0_def [symmetric] js_at_def t_def m_def)
  qed
  have near: "\<bar>t m - x0\<bar> \<le> \<bar>t k - x0\<bar>" if k: "k < ?n" for k
  proof (cases "k < i")
    case True
    then have k1: "t k \<le> t (i - 1)" using i by (intro le) auto
    show ?thesis
    proof (cases "i = 1")
      case True
      with \<open>k < i\<close> have "k = 0" by simp
      then show ?thesis using after [of 1] le [of 0 1] True by (auto simp: m_def)
    next
      case False
      then have "t (i - 1) < x0" using i by (intro before) auto
      with k1 after [of i] show ?thesis by (auto simp: m_def)
    qed
  next
    case False
    then have k1: "t i \<le> t k" "x0 \<le> t i" using k after [of i] by (auto intro: le)
    show ?thesis
    proof (cases "t (i - 1) \<le> x0")
      case True
      with k1 False k show ?thesis by (auto simp: m_def)
    next
      case False
      moreover have "t (i - 1) \<le> t i" using \<open>\<not> k < i\<close> k by (intro le) auto
      ultimately show ?thesis using k1 by (auto simp: m_def)
    qed
  qed
  show ?thesis
    using found m near by (auto simp: resolveTooltipFromX_def Let_def t_def x0_def list_all_iff in_set_conv_nth)
qed

text \<open>Two months of one series, a pixel a millisecond, and the bisector spelled out.\<close>

definition demo_chart :: "rat \<Rightarrow> (int \<times> rat) chart_env" where
  "demo_chart v =
     \<lparr>ce_invert = (\<lambda>x. \<lfloor>x\<rfloor>), ce_xScale = (\<lambda>t. Some (of_int t)), ce_yScales = (\<lambda>_. None), ce_yScale = Some,
      ce_data = [(0, 5), (10, v)], ce_lines = [\<lparr>lc_dataKey = ''revenue'', lc_stroke = [], lc_strokeWidth = 2, lc_yAxisId = None\<rparr>], ce_time = fst,
      ce_number = (\<lambda>d _. Some (snd d)),
      ce_bisect = (\<lambda>xs x lo. lo + length (takeWhile (\<lambda>d. fst d < x) (drop lo xs))), ce_canInteract = True\<rparr>"

theorem hovered_point_nearest_witness:
  "\<exists>td. resolveTooltipFromX (demo_chart 7) 8 = Some td \<and>
     \<bar>fst (td_point td) - 8\<bar> \<le> \<bar>fst (0 :: int, 5 :: rat) - 8\<bar>"
  using hovered_point_nearest [of "demo_chart 7" 8] by (auto simp: demo_chart_def bisects_def Let_def)

subsection \<open>What the pointer leaves behind\<close>

definition gone :: "'r interaction \<Rightarrow> bool" where
  "gone st \<longleftrightarrow> in_lastHoveredX st = None \<and> in_selection st = None \<and> \<not> in_isDragging st \<and>
     tp_tooltipData (in_tip st) = None \<and> \<not> tp_raf (in_tip st)"

definition no_pointer :: "'r pointer_event \<Rightarrow> bool" where
  "no_pointer e = (case e of Frame \<Rightarrow> True | Changed _ \<Rightarrow> True | _ \<Rightarrow> False)"

lemma gone_step: "gone st \<Longrightarrow> no_pointer e \<Longrightarrow> gone (snd (pointer_step (E, st) e))"
  by (cases e) (auto simp: gone_def no_pointer_def reanchor_def frame_def)

lemma gone_run: "gone (snd x) \<Longrightarrow> list_all no_pointer es \<Longrightarrow> gone (snd (foldl pointer_step x es))"
proof (induction es arbitrary: x)
  case (Cons e es)
  then show ?case using gone_step [of "snd x" e "fst x"] by simp
qed simp

text \<open>When the mouse leaves a chart nothing of it stays: neither tooltip nor selection nor a drag nor a
  waiting frame, and none of them comes back, however often the data or the scales change, until a pointer
  returns. And a selection, whenever there is one, runs from left to right and is active.\<close>

theorem mouse_leaves_nothing:
  "(case pointer_run E es of (E', st) \<Rightarrow>
      if ce_canInteract E' \<and> list_all no_pointer later
      then gone (snd (foldl pointer_step (E', st) (MouseLeave # later))) else True) \<and>
   (case in_selection (snd (pointer_run E es)) of
      None \<Rightarrow> True | Some s \<Rightarrow> cs_startX s \<le> cs_endX s \<and> cs_active s)"
proof -
  define ordered :: "'a interaction \<Rightarrow> bool" where
    "ordered st = (case in_selection st of None \<Rightarrow> True | Some s \<Rightarrow> cs_startX s \<le> cs_endX s \<and> cs_active s)" for st
  have step: "ordered (snd (pointer_step (E, st) e))" if "ordered st" for E st e
    using that by (cases e)
      (auto simp: ordered_def handleMouseMove_def handleMouseLeave_def handleMouseDown_def handleMouseUp_def
        handleTouchStart_def handleTouchMove_def handleTouchEnd_def clear_tip_def hover_at_def Let_def
        select_between_def two_touches_def reanchor_def split: option.split list.split)
  have "ordered (snd x) \<Longrightarrow> ordered (snd (foldl pointer_step x es))" for x
  proof (induction es arbitrary: x)
    case (Cons e es)
    then show ?case using step [of "snd x" "fst x" e] by simp
  qed simp
  moreover have "ordered interaction_init" by (simp add: ordered_def interaction_init_def)
  ultimately have "ordered (snd (pointer_run E es))" unfolding pointer_run_def by simp
  moreover have "gone (handleMouseLeave st)" for st :: "'a interaction"
    by (simp add: gone_def handleMouseLeave_def clear_tip_def clearTooltip_def)
  ultimately show ?thesis by (auto simp: ordered_def gone_run split: prod.split)
qed

text \<open>A touch that ends leaves its position behind: the next change of the data brings its tooltip back over a
  chart nobody touches.\<close>

lemma tooltip_after_touch_end:
  "let E = demo_chart 7; st = snd (pointer_run E [TouchStart [Some 8], Frame, TouchEnd]);
       st' = snd (pointer_run E [TouchStart [Some 8], Frame, TouchEnd, Changed (demo_chart 9), Frame])
   in tp_tooltipData (in_tip st) = None \<and> tp_tooltipData (in_tip st') \<noteq> None"
  by code_simp

text \<open>New figures at the same point and pixel do not reach an open tooltip: its key is the same, so the old
  point stays on screen until the pointer moves to another.\<close>

lemma stale_tooltip:
  "let st = snd (pointer_run (demo_chart 7) [MouseMove (Some 8), Frame, Changed (demo_chart 9), Frame])
   in map_option td_point (tp_tooltipData (in_tip st)) = Some (10, 7)"
  by code_simp

end
