(* ===== verification/Chart_Config.thy ===== *)
theory Chart_Config
  imports Chart_Pointer "HOL-Library.Multiset"
begin

section \<open>What a chart is made of: its children, its axes, its labels\<close>

text \<open>
  The parts of \<open>src/web/src/components/charts\<close> that read a chart from its children: how the children are walked
  and unwrapped (\<open>chart-child-passthrough.ts\<close>), which of them are series (\<open>bar-chart.tsx\<close>, \<open>line-chart.tsx\<close>), on
  which layer each is drawn (\<open>bar-chart.tsx\<close>, \<open>time-series-chart-shell.tsx\<close>, \<open>chart-defs.ts\<close>), how the series share
  the axes (\<open>y-axis-scales.ts\<close>) and which of the labels of a band axis are printed (\<open>bar-x-axis.tsx\<close>,
  \<open>bar-y-axis.tsx\<close>).
\<close>

subsection \<open>Children\<close>

text \<open>The type of an element: the name the code reads from it - empty for a plain tag - and its static marks.\<close>

record component_type =
  ty_name :: string
  ty_isChartMarkers :: bool
  ty_isPostOverlay :: bool
  ty_isBarDepthLayer :: bool
  ty_clipPassthrough :: bool

record chart_props =
  pr_dataKey :: "string option"
  pr_stroke :: "string option"
  pr_strokeWidth :: "rat option"
  pr_fill :: "string option"
  pr_yAxisId :: "axis_id option"
  pr_y1 :: "rat option"
  pr_y2 :: "rat option"
  pr_axisLabelColor :: "string option"

text \<open>A node is nothing (a string, a number, null), an array, a fragment or an element with its children.\<close>

datatype chart_node =
    Inert
  | Many "chart_node list"
  | Frag chart_node
  | Elem component_type chart_props chart_node

text \<open>\<open>Children.forEach\<close>: arrays are walked, fragments and elements are visited.\<close>

fun children_of :: "chart_node \<Rightarrow> chart_node list" where
  "children_of (Many ns) = concat (map children_of ns)"
| "children_of n = [n]"

definition isValidElement :: "chart_node \<Rightarrow> bool" where
  "isValidElement n = (case n of Frag _ \<Rightarrow> True | Elem _ _ _ \<Rightarrow> True | _ \<Rightarrow> False)"

text \<open>\<open>forEachChartChild\<close>: the elements it calls back with, fragments flattened.\<close>

fun forEachChartChild :: "chart_node \<Rightarrow> chart_node list" where
  "forEachChartChild Inert = []"
| "forEachChartChild (Many ns) = concat (map forEachChartChild ns)"
| "forEachChartChild (Frag n) = forEachChartChild n"
| "forEachChartChild (Elem ty pr n) = [Elem ty pr n]"

fun resolveChartChildElement :: "chart_node \<Rightarrow> chart_node" where
  "resolveChartChildElement (Elem ty pr n) =
     (if ty_clipPassthrough ty \<and> isValidElement n then resolveChartChildElement n else Elem ty pr n)"
| "resolveChartChildElement n = n"

definition node_name :: "chart_node \<Rightarrow> string" where
  "node_name n = (case n of Elem ty _ _ \<Rightarrow> ty_name ty | _ \<Rightarrow> [])"

definition isChartClipPassthrough :: "chart_node \<Rightarrow> bool" where
  "isChartClipPassthrough n = (case n of Elem ty _ _ \<Rightarrow> ty_clipPassthrough ty | _ \<Rightarrow> False)"

definition CLIP_EXCLUDED_COMPONENT_NAMES :: "string list" where
  "CLIP_EXCLUDED_COMPONENT_NAMES =
     [''Background'', ''Grid'', ''XAxis'', ''YAxis'', ''BarXAxis'', ''BarYAxis'', ''LiveXAxis'', ''LiveYAxis'']"

definition UNDERLAY_COMPONENT_NAMES :: "string list" where
  "UNDERLAY_COMPONENT_NAMES = [''ReferenceArea'', ''BarColumnTrack'']"

definition isPostOverlayComponent :: "chart_node \<Rightarrow> bool" where
  "isPostOverlayComponent n \<longleftrightarrow>
     (case n of Elem ty _ _ \<Rightarrow> ty_isChartMarkers ty \<or> ty_isPostOverlay ty | _ \<Rightarrow> False) \<or>
     node_name n = ''ChartMarkers'' \<or> node_name n = ''MarkerGroup'' \<or> node_name n = ''ChartBrush''"

definition isUnderlayComponent :: "chart_node \<Rightarrow> bool" where
  "isUnderlayComponent n \<longleftrightarrow> node_name n \<in> set UNDERLAY_COMPONENT_NAMES"

definition isClipExcludedComponent :: "chart_node \<Rightarrow> bool" where
  "isClipExcludedComponent n \<longleftrightarrow> node_name n \<in> set CLIP_EXCLUDED_COMPONENT_NAMES"

definition VISX_PATTERN_COMPONENT_NAMES :: "string list" where
  "VISX_PATTERN_COMPONENT_NAMES = [''Lines'', ''Circles'', ''Waves'', ''Hexagons'', ''Path'', ''Pattern'']"

definition isPatternDefComponent :: "chart_node \<Rightarrow> bool" where
  "isPatternDefComponent n \<longleftrightarrow>
     js_includes (node_name n) ''Pattern'' \<or> node_name n \<in> set VISX_PATTERN_COMPONENT_NAMES"

definition isGradientDefComponent :: "chart_node \<Rightarrow> bool" where
  "isGradientDefComponent n \<longleftrightarrow>
     js_includes (node_name n) ''Gradient'' \<or> node_name n = ''LinearGradient'' \<or> node_name n = ''RadialGradient''"

subsection \<open>Series\<close>

text \<open>The first of two texts that is not empty, \<open>a || b\<close>.\<close>

definition js_first :: "string option \<Rightarrow> string \<Rightarrow> string" where
  "js_first a b = (case a of Some s \<Rightarrow> if s = [] then b else s | None \<Rightarrow> b)"

definition has_dataKey :: "chart_props \<Rightarrow> bool" where
  "has_dataKey pr \<longleftrightarrow> (case pr_dataKey pr of Some k \<Rightarrow> k \<noteq> [] | None \<Rightarrow> False)"

definition bar_config :: "chart_node \<Rightarrow> LineConfig list" where
  "bar_config n =
     (case n of
        Elem ty pr _ \<Rightarrow>
          if ty_isBarDepthLayer ty then []
          else if (ty_name ty = ''Bar'' \<or> ty_name ty = ''BarSquares'' \<or> has_dataKey pr) \<and> has_dataKey pr
          then [\<lparr>lc_dataKey = the (pr_dataKey pr),
            lc_stroke = js_first (pr_stroke pr) (js_first (pr_fill pr) ''var(--chart-line-primary)''),
            lc_strokeWidth = 0, lc_yAxisId = pr_yAxisId pr\<rparr>]
          else []
      | _ \<Rightarrow> [])"

definition extractBarConfigs :: "chart_node \<Rightarrow> LineConfig list" where
  "extractBarConfigs children = concat (map bar_config (forEachChartChild children))"

definition LINE_DOMAIN_EXCLUDED_NAMES :: "string list" where
  "LINE_DOMAIN_EXCLUDED_NAMES =
     [''ProfitLossLine'', ''LineSeriesTerminalMarker'', ''Area'', ''SeriesBar'', ''Scatter'', ''Candlestick'', ''Bar'',
      ''PatternArea'']"

definition registersLineDomain :: "component_type \<Rightarrow> chart_props \<Rightarrow> bool" where
  "registersLineDomain ty pr \<longleftrightarrow>
     has_dataKey pr \<and> (ty_name ty = ''Line'' \<or> ty_name ty \<notin> set LINE_DOMAIN_EXCLUDED_NAMES)"

fun extractLineConfigs :: "chart_node \<Rightarrow> LineConfig list" where
  "extractLineConfigs Inert = []"
| "extractLineConfigs (Many ns) = concat (map extractLineConfigs ns)"
| "extractLineConfigs (Frag n) = extractLineConfigs n"
| "extractLineConfigs (Elem ty pr n) =
     (if registersLineDomain ty pr
      then [\<lparr>lc_dataKey = the (pr_dataKey pr), lc_stroke = js_first (pr_stroke pr) ''var(--chart-line-primary)'',
        lc_strokeWidth = (case pr_strokeWidth pr of Some w \<Rightarrow> if w = 0 then 5 / 2 else w | None \<Rightarrow> 5 / 2), lc_yAxisId = pr_yAxisId pr\<rparr>]
      else extractLineConfigs n)"

record ReferenceAreaConfig =
  ra_yAxisId :: string
  ra_y1 :: "rat option"
  ra_y2 :: "rat option"
  ra_axisLabelColor :: "string option"

fun extractReferenceAreaConfigs :: "chart_node \<Rightarrow> ReferenceAreaConfig list" where
  "extractReferenceAreaConfigs Inert = []"
| "extractReferenceAreaConfigs (Many ns) = concat (map extractReferenceAreaConfigs ns)"
| "extractReferenceAreaConfigs (Frag n) = extractReferenceAreaConfigs n"
| "extractReferenceAreaConfigs (Elem ty pr n) =
     (if ty_name ty = ''ReferenceArea''
      then [\<lparr>ra_yAxisId = normalizeYAxisId (pr_yAxisId pr), ra_y1 = pr_y1 pr, ra_y2 = pr_y2 pr,
        ra_axisLabelColor = pr_axisLabelColor pr\<rparr>]
      else extractReferenceAreaConfigs n)"

subsection \<open>Layers\<close>

record layers =
  ly_defs :: "chart_node list"
  ly_clipExcluded :: "chart_node list"
  ly_underlay :: "chart_node list"
  ly_preOverlay :: "chart_node list"
  ly_postOverlay :: "chart_node list"

definition no_layers :: layers where
  "no_layers = \<lparr>ly_defs = [], ly_clipExcluded = [], ly_underlay = [], ly_preOverlay = [], ly_postOverlay = []\<rparr>"

text \<open>One turn of the loop of \<open>bar-chart.tsx\<close> and of \<open>time-series-chart-shell.tsx\<close>.\<close>

definition push_bar_child :: "layers \<Rightarrow> chart_node \<Rightarrow> layers" where
  "push_bar_child ly child =
     (let resolved = resolveChartChildElement child in
      if isGradientDefComponent child then ly\<lparr>ly_defs := ly_defs ly @ [child]\<rparr>
      else if isPatternDefComponent child then ly\<lparr>ly_preOverlay := ly_preOverlay ly @ [child]\<rparr>
      else if isPostOverlayComponent resolved then ly\<lparr>ly_postOverlay := ly_postOverlay ly @ [resolved]\<rparr>
      else if isClipExcludedComponent resolved
      then ly\<lparr>ly_clipExcluded := ly_clipExcluded ly @ [if isChartClipPassthrough child then resolved else child]\<rparr>
      else if isUnderlayComponent resolved then ly\<lparr>ly_underlay := ly_underlay ly @ [resolved]\<rparr>
      else ly\<lparr>ly_preOverlay := ly_preOverlay ly @ [child]\<rparr>)"

definition bar_layers :: "chart_node \<Rightarrow> layers" where
  "bar_layers children = foldl push_bar_child no_layers (forEachChartChild children)"

definition push_series_child :: "layers \<Rightarrow> chart_node \<Rightarrow> layers" where
  "push_series_child ly child =
     (if \<not> isValidElement child then ly
      else let resolved = resolveChartChildElement child in
        if isGradientDefComponent resolved then ly\<lparr>ly_defs := ly_defs ly @ [resolved]\<rparr>
        else if isPatternDefComponent resolved then ly\<lparr>ly_preOverlay := ly_preOverlay ly @ [resolved]\<rparr>
        else if isPostOverlayComponent resolved then ly\<lparr>ly_postOverlay := ly_postOverlay ly @ [resolved]\<rparr>
        else if isClipExcludedComponent resolved then ly\<lparr>ly_clipExcluded := ly_clipExcluded ly @ [resolved]\<rparr>
        else if isUnderlayComponent resolved then ly\<lparr>ly_underlay := ly_underlay ly @ [resolved]\<rparr>
        else ly\<lparr>ly_preOverlay := ly_preOverlay ly @ [resolved]\<rparr>)"

definition series_layers :: "chart_node \<Rightarrow> layers" where
  "series_layers children = foldl push_series_child no_layers (children_of children)"

subsection \<open>Axes\<close>

text \<open>The groups of a \<open>Map\<close>, in the order of first use.\<close>

fun add_to_group :: "string \<Rightarrow> 'a \<Rightarrow> (string \<times> 'a list) list \<Rightarrow> (string \<times> 'a list) list" where
  "add_to_group k x [] = [(k, [x])]"
| "add_to_group k x ((k', xs) # gs) = (if k' = k then (k', xs @ [x]) # gs else (k', xs) # add_to_group k x gs)"

definition groupLinesByYAxisId :: "LineConfig list \<Rightarrow> (string \<times> LineConfig list) list" where
  "groupLinesByYAxisId ls = foldl (\<lambda>gs line. add_to_group (normalizeYAxisId (lc_yAxisId line)) line gs) [] ls"

text \<open>A record of domains or scales by axis; \<open>nice\<close> and the scale itself are visx.\<close>

definition computeYDomainsByAxis ::
    "('d \<Rightarrow> 'd) \<Rightarrow> 'd \<Rightarrow> LineConfig list \<Rightarrow> (string list \<Rightarrow> 'd) \<Rightarrow> (string \<times> 'd) list" where
  "computeYDomainsByAxis nice hundred ls resolveDomain =
     (let domains = map (\<lambda>(axisId, axisLines). (axisId, nice (resolveDomain (map lc_dataKey axisLines))))
            (groupLinesByYAxisId ls)
      in if map_of domains DEFAULT_Y_AXIS_ID = None then domains @ [(DEFAULT_Y_AXIS_ID, nice hundred)] else domains)"

definition buildYScalesFromDomains ::
    "('d \<Rightarrow> 's) \<Rightarrow> 'd \<Rightarrow> LineConfig list \<Rightarrow> (string \<times> 'd) list \<Rightarrow> (string \<times> 's) list" where
  "buildYScalesFromDomains scale hundred ls domainsByAxis =
     (let domain = (\<lambda>axisId. case map_of domainsByAxis axisId of
            Some d \<Rightarrow> d
          | None \<Rightarrow> (case map_of domainsByAxis DEFAULT_Y_AXIS_ID of Some d \<Rightarrow> d | None \<Rightarrow> hundred));
          scales = map (\<lambda>(axisId, _). (axisId, scale (domain axisId))) (groupLinesByYAxisId ls)
      in if map_of scales DEFAULT_Y_AXIS_ID = None then scales @ [(DEFAULT_Y_AXIS_ID, scale (domain DEFAULT_Y_AXIS_ID))]
         else scales)"

definition getPrimaryYScale :: "(string \<times> 's) list \<Rightarrow> 's \<Rightarrow> 's" where
  "getPrimaryYScale yScales fallback =
     (case map_of yScales DEFAULT_Y_AXIS_ID of
        Some s \<Rightarrow> s
      | None \<Rightarrow> (case yScales of [] \<Rightarrow> fallback | (_, s) # _ \<Rightarrow> s))"

subsection \<open>Labels of a band axis\<close>

text \<open>\<open>labelsToShow\<close> of both axes; \<open>Math.ceil\<close> of the quotient of two lengths.\<close>

definition labelsToShow :: "bool \<Rightarrow> nat \<Rightarrow> 'a list \<Rightarrow> 'a list" where
  "labelsToShow showAllLabels maxLabels allLabels =
     (if showAllLabels \<or> length allLabels \<le> maxLabels then allLabels
      else let step = (length allLabels + maxLabels - 1) div maxLabels
           in map snd (filter (\<lambda>(i, _). i mod step = 0) (enumerate 0 allLabels)))"

subsection \<open>Every child is drawn once\<close>

lemma resolve_idem [simp]: "resolveChartChildElement (resolveChartChildElement n) = resolveChartChildElement n"
  by (induction n rule: resolveChartChildElement.induct) auto

definition all_layers :: "layers \<Rightarrow> chart_node multiset" where
  "all_layers ly = mset (map resolveChartChildElement
     (ly_defs ly @ ly_clipExcluded ly @ ly_underlay ly @ ly_preOverlay ly @ ly_postOverlay ly))"

lemma all_no_layers [simp]: "all_layers no_layers = {#}"
  by (simp add: all_layers_def no_layers_def)

lemma push_bar_child_adds: "all_layers (push_bar_child ly c) = all_layers ly + {#resolveChartChildElement c#}"
  by (simp add: all_layers_def push_bar_child_def Let_def)

lemma push_series_child_adds:
  "all_layers (push_series_child ly c) = all_layers ly + (if isValidElement c then {#resolveChartChildElement c#} else {#})"
  by (simp add: all_layers_def push_series_child_def Let_def)

lemma foldl_adds:
  assumes "\<And>ly c. all_layers (f ly c) = all_layers ly + mset (map resolveChartChildElement (g c))"
  shows "all_layers (foldl f ly cs) = all_layers ly + mset (map resolveChartChildElement (concat (map g cs)))"
  by (induction cs arbitrary: ly) (simp_all add: assms)

text \<open>No child of a chart is lost and none is drawn twice: the five layers of a bar chart hold together
  exactly the elements its children come to, fragments opened, and those of a line chart exactly the
  elements among its children, each once.\<close>

theorem layers_hold_children:
  "all_layers (bar_layers children) = mset (map resolveChartChildElement (forEachChartChild children)) \<and>
   all_layers (series_layers children) =
     mset (map resolveChartChildElement (filter isValidElement (children_of children)))"
proof
  show "all_layers (bar_layers children) = mset (map resolveChartChildElement (forEachChartChild children))"
    using foldl_adds [of push_bar_child "\<lambda>c. [c]" no_layers] by (simp add: bar_layers_def push_bar_child_adds)
  have "concat (map (\<lambda>c. if isValidElement c then [c] else []) cs) = filter isValidElement cs" for cs
    by (induction cs) simp_all
  then show "all_layers (series_layers children) =
     mset (map resolveChartChildElement (filter isValidElement (children_of children)))"
    using foldl_adds [of push_series_child "\<lambda>c. if isValidElement c then [c] else []" no_layers]
    by (simp add: series_layers_def push_series_child_adds)
qed

text \<open>A grid inside a fragment: a bar chart keeps it outside the clip of the reveal, a line chart draws the
  whole fragment inside it.\<close>

definition demo_grid :: chart_node where
  "demo_grid = Elem \<lparr>ty_name = ''Grid'', ty_isChartMarkers = False, ty_isPostOverlay = False, ty_isBarDepthLayer = False,
     ty_clipPassthrough = False\<rparr> \<lparr>pr_dataKey = None, pr_stroke = None, pr_strokeWidth = None, pr_fill = None, pr_yAxisId = None, pr_y1 = None,
     pr_y2 = None, pr_axisLabelColor = None\<rparr> Inert"

lemma fragment_is_clipped:
  "ly_clipExcluded (bar_layers (Frag demo_grid)) = [demo_grid] \<and>
   ly_clipExcluded (series_layers (Frag demo_grid)) = [] \<and> ly_preOverlay (series_layers (Frag demo_grid)) = [Frag demo_grid]"
  by code_simp

subsection \<open>Every series has a scale\<close>

lemma add_to_group_keys:
  "map fst (add_to_group k x gs) = (if k \<in> set (map fst gs) then map fst gs else map fst gs @ [k])"
  by (induction gs rule: add_to_group.induct) auto

lemma add_to_group_of:
  "map_of (add_to_group k x gs) j =
     (if j = k then Some ((case map_of gs k of Some xs \<Rightarrow> xs | None \<Rightarrow> []) @ [x]) else map_of gs j)"
  by (induction k x gs rule: add_to_group.induct) auto

definition axis_of :: "LineConfig \<Rightarrow> string" where
  "axis_of line = normalizeYAxisId (lc_yAxisId line)"

lemma groups_grown:
  assumes "distinct (map fst gs)" and "\<And>k. (case map_of gs k of Some xs \<Rightarrow> xs | None \<Rightarrow> []) = filter (\<lambda>l. axis_of l = k) seen"
    and "\<And>k xs. map_of gs k = Some xs \<Longrightarrow> xs \<noteq> []"
  shows "distinct (map fst (foldl (\<lambda>gs line. add_to_group (axis_of line) line gs) gs ls)) \<and>
    (\<forall>k. (case map_of (foldl (\<lambda>gs line. add_to_group (axis_of line) line gs) gs ls) k of Some xs \<Rightarrow> xs | None \<Rightarrow> []) =
      filter (\<lambda>l. axis_of l = k) (seen @ ls)) \<and>
    (\<forall>k xs. map_of (foldl (\<lambda>gs line. add_to_group (axis_of line) line gs) gs ls) k = Some xs \<longrightarrow> xs \<noteq> [])"
  using assms
proof (induction ls arbitrary: gs seen)
  case (Cons l ls)
  let ?gs = "add_to_group (axis_of l) l gs"
  have "distinct (map fst ?gs)" using Cons.prems(1) by (simp add: add_to_group_keys)
  moreover have "(case map_of ?gs k of Some xs \<Rightarrow> xs | None \<Rightarrow> []) = filter (\<lambda>l. axis_of l = k) (seen @ [l])" for k
    using Cons.prems(2) [of k] by (simp add: add_to_group_of)
  moreover have "map_of ?gs k = Some xs \<Longrightarrow> xs \<noteq> []" for k xs
    using Cons.prems(3) [of k xs] by (auto simp: add_to_group_of split: if_splits)
  ultimately show ?case using Cons.IH [of ?gs "seen @ [l]"] by simp
qed simp

lemma groups_exact:
  "distinct (map fst (groupLinesByYAxisId ls))"
  "map_of (groupLinesByYAxisId ls) k =
    (if filter (\<lambda>l. axis_of l = k) ls = [] then None else Some (filter (\<lambda>l. axis_of l = k) ls))"
proof -
  note grown = groups_grown [of "[]" "[]" ls, folded groupLinesByYAxisId_def [unfolded axis_of_def [symmetric]]]
  show "distinct (map fst (groupLinesByYAxisId ls))" using grown by (simp add: groupLinesByYAxisId_def axis_of_def)
  have "(case map_of (groupLinesByYAxisId ls) k of Some xs \<Rightarrow> xs | None \<Rightarrow> []) = filter (\<lambda>l. axis_of l = k) ls"
    and "\<And>xs. map_of (groupLinesByYAxisId ls) k = Some xs \<Longrightarrow> xs \<noteq> []"
    using grown by (simp_all add: groupLinesByYAxisId_def axis_of_def)
  then show "map_of (groupLinesByYAxisId ls) k =
    (if filter (\<lambda>l. axis_of l = k) ls = [] then None else Some (filter (\<lambda>l. axis_of l = k) ls))"
    by (auto split: option.splits)
qed

lemma map_of_map_snd: "map_of (map (\<lambda>(a, b). (a, f a b)) xs) k = map_option (f k) (map_of xs k)"
  by (induction xs) auto

lemma default_added: "map_of (if map_of ps k = None then ps @ [(k, v)] else ps) k \<noteq> None"
  by (auto simp: map_add_def split: option.split)

text \<open>Every series finds its scale: the lines of a chart are grouped by axis with no line lost and none
  moved, every axis in use gets one scale made of the domain computed from exactly the keys drawn on it, and
  the primary scale is that of the left axis, which is there even when no series uses it.\<close>

theorem every_series_has_scale:
  "let groups = groupLinesByYAxisId ls;
       domains = computeYDomainsByAxis nice hundred ls resolveDomain;
       scales = buildYScalesFromDomains scale hundred ls domains
   in distinct (map fst groups) \<and>
      list_all (\<lambda>line. map_of groups (axis_of line) = Some (filter (\<lambda>l. axis_of l = axis_of line) ls) \<and>
        map_of scales (axis_of line) =
          Some (scale (nice (resolveDomain (map lc_dataKey (filter (\<lambda>l. axis_of l = axis_of line) ls)))))) ls \<and>
      map_of scales DEFAULT_Y_AXIS_ID = Some (getPrimaryYScale scales fallback)"
proof -
  let ?groups = "groupLinesByYAxisId ls" and ?domains = "computeYDomainsByAxis nice hundred ls resolveDomain"
  let ?scales = "buildYScalesFromDomains scale hundred ls ?domains"
  have grouped: "map_of ?groups (axis_of line) = Some (filter (\<lambda>l. axis_of l = axis_of line) ls)" if "line \<in> set ls" for line
    using that by (auto simp: groups_exact(2) filter_empty_conv)
  have domain: "map_of ?domains (axis_of line) = Some (nice (resolveDomain (map lc_dataKey (filter (\<lambda>l. axis_of l = axis_of line) ls))))"
    if "line \<in> set ls" for line
    using grouped [OF that] by (simp add: computeYDomainsByAxis_def Let_def map_of_map_snd map_add_def split: option.split)
  have scaled: "map_of ?scales (axis_of line) =
      Some (scale (nice (resolveDomain (map lc_dataKey (filter (\<lambda>l. axis_of l = axis_of line) ls)))))"
    if "line \<in> set ls" for line
    using grouped [OF that] domain [OF that]
    by (simp add: buildYScalesFromDomains_def Let_def map_of_map_snd map_add_def split: option.split)
  have "map_of ?scales DEFAULT_Y_AXIS_ID \<noteq> None"
    unfolding buildYScalesFromDomains_def Let_def by (rule default_added)
  then show ?thesis
    using grouped scaled groups_exact(1) [of ls]
    by (auto simp: Let_def list_all_iff getPrimaryYScale_def split: option.split)
qed

subsection \<open>Labels that fit\<close>

lemma every_nth_step:
  assumes "0 < (s::nat)"
  shows "(n + 1 + s - 1) div s = (if n mod s = 0 then (n + s - 1) div s + 1 else (n + s - 1) div s)"
proof -
  have n: "n = n div s * s + n mod s" and r: "n mod s < s" using assms by simp_all
  have later: "(q * s + r + s - 1) div s = (if r = 0 then q else q + 1)" if "r < s" for q r
    using that assms by (auto intro!: div_nat_eqI simp: algebra_simps)
  have "(n + 1 + s - 1) div s = n div s + 1" using assms by simp
  moreover have "(n + s - 1) div s = (if n mod s = 0 then n div s else n div s + 1)"
    using later [OF r, of "n div s"] n by simp
  ultimately show ?thesis by simp
qed

lemma every_nth:
  assumes "0 < s"
  shows "map snd (filter (\<lambda>(i, _). i mod s = 0) (enumerate 0 xs)) = map (\<lambda>k. xs ! (k * s)) [0..<(length xs + s - 1) div s]"
proof (induction xs rule: rev_induct)
  case Nil
  then show ?case using assms by simp
next
  case (snoc x xs)
  let ?c = "(length xs + s - 1) div s"
  have below: "k * s < length xs" if "k < ?c" for k
  proof -
    have "Suc k * s \<le> length xs + s - 1" using that assms by (meson Suc_leI less_eq_div_iff_mult_less_eq)
    then show ?thesis using assms by simp
  qed
  have same: "map (\<lambda>k. (xs @ [x]) ! (k * s)) [0..<?c] = map (\<lambda>k. xs ! (k * s)) [0..<?c]"
    using below by (simp add: nth_append)
  have here: "?c * s = length xs" if whole: "length xs mod s = 0"
  proof -
    obtain q where "length xs = s * q" using whole by auto
    moreover have "(s * q + s - 1) div s = q" using assms by (intro div_nat_eqI) simp_all
    ultimately show ?thesis by simp
  qed
  show ?case
    using snoc.IH every_nth_step [OF assms, of "length xs"] same here
    by (auto simp: enumerate_append_eq)
qed

text \<open>An axis never draws more labels than its limit, which is then spent evenly: with room for all of
  them every label is drawn, and otherwise every one whose place is a multiple of one step is, the first
  always among them, and no two that are drawn stand closer than that step.\<close>

theorem labels_thinned:
  "let shown = labelsToShow showAll (Suc limit) labels;
       step = (length labels + limit) div Suc limit
   in (if showAll \<or> length labels \<le> Suc limit then shown = labels
       else length shown \<le> Suc limit \<and> shown = map (\<lambda>k. labels ! (k * step)) [0..<length shown] \<and>
            1 < step \<and> shown \<noteq> [] \<and> hd shown = hd labels)"
proof (cases "showAll \<or> length labels \<le> Suc limit")
  case True
  then show ?thesis by (simp add: labelsToShow_def Let_def)
next
  case False
  let ?n = "length labels" and ?step = "(length labels + limit) div Suc limit"
  let ?c = "(?n + ?step - 1) div ?step"
  have two: "1 < ?step"
  proof -
    have "2 * Suc limit \<le> ?n + limit" using False by simp
    then have "2 \<le> ?step" by (metis div_le_mono div_mult_self_is_m zero_less_Suc)
    then show ?thesis by simp
  qed
  have shown: "labelsToShow showAll (Suc limit) labels = map (\<lambda>k. labels ! (k * ?step)) [0..<?c]"
    using False every_nth [of ?step labels] two by (simp add: labelsToShow_def Let_def)
  have enough: "?n \<le> ?step * Suc limit"
  proof -
    have "?n + limit < (?step + 1) * Suc limit" by (metis div_less_iff_less_mult lessI less_add_one zero_less_Suc)
    then show ?thesis by simp
  qed
  have "?n + ?step - 1 < Suc (Suc limit) * ?step"
    using enough two by (simp add: mult.commute)
  then have "?c < Suc (Suc limit)" by (simp add: div_less_iff_less_mult two [THEN less_trans [OF zero_less_one]])
  then have most: "?c \<le> Suc limit" by simp
  have "?step \<le> ?n + ?step - 1" using False by (simp del: One_nat_def) linarith
  then have pos: "0 < ?c" using two by (metis div_greater_zero_iff less_trans zero_less_one)
  have some: "[0..<?c] \<noteq> []" unfolding upt_eq_Nil_conv using pos by linarith
  have first: "hd (map (\<lambda>k. labels ! (k * ?step)) [0..<?c]) = labels ! 0"
    unfolding hd_map [OF some] hd_upt [OF pos] by simp
  have "labels \<noteq> []" using False by auto
  then have "hd labels = labels ! 0" by (rule hd_conv_nth)
  then show ?thesis
    unfolding Let_def shown if_not_P [OF False] using most two first some by (simp only: length_map length_upt map_is_Nil_conv) simp
qed

end
