(* ===== verification/Bar_Chart.thy ===== *)
theory Bar_Chart
  imports Chart_Config Chart_Data
begin

section \<open>Bars: bar-chart.tsx, bar.tsx, bar-squares-layout.ts\<close>

text \<open>
  \<open>src/web/src/components/charts/bar-chart.tsx\<close> (the scales of a bar chart, its stacks, and which row the pointer
  is over), \<open>bar.tsx\<close> (the rectangle of every bar), \<open>bar-depth-geometry.ts\<close>, \<open>bar-squares-layout.ts\<close> and
  \<open>buildYScalesForLines\<close> of \<open>y-axis-scales.ts\<close>, over the band scale and the linear scale of visx, which are
  arguments. Pixels and figures are rationals. What d3 documents of the two scales is \<open>band_law\<close> and
  \<open>linear_law\<close>, hypotheses of the theorems that need them.
\<close>

subsection \<open>The chart\<close>

text \<open>A row is read through its figures (\<open>typeof value === "number"\<close>) and its category. \<open>scaleBand\<close> takes the end of
  its range and its domain and gives positions, the width of a band and its step; \<open>scaleLinear\<close> takes its range
  and its domain.\<close>

record 'r bar_env =
  be_data :: "'r list"
  be_number :: "'r \<Rightarrow> string \<Rightarrow> rat option"
  be_category :: "'r \<Rightarrow> string"
  be_lines :: "LineConfig list"
  be_innerWidth :: rat
  be_innerHeight :: rat
  be_horizontal :: bool
  be_stacked :: bool
  be_stackGap :: rat
  be_barWidth :: "rat option"
  be_squareSnap :: "(rat \<times> bool) option"
  be_scaleBand :: "rat \<Rightarrow> string list \<Rightarrow> (string \<Rightarrow> rat option) \<times> rat \<times> rat"
  be_scaleLinear :: "rat \<times> rat \<Rightarrow> rat \<times> rat \<Rightarrow> rat \<Rightarrow> rat"

definition be_extent :: "'r bar_env \<Rightarrow> rat" where
  "be_extent E = (if be_horizontal E then be_innerHeight E else be_innerWidth E)"

definition categoryScale :: "'r bar_env \<Rightarrow> (string \<Rightarrow> rat option) \<times> rat \<times> rat" where
  "categoryScale E = be_scaleBand E (be_extent E) (map (be_category E) (be_data E))"

definition bandPos :: "'r bar_env \<Rightarrow> 'r \<Rightarrow> rat" where
  "bandPos E d = (case fst (categoryScale E) (be_category E d) of Some x \<Rightarrow> x | None \<Rightarrow> 0)"

definition bandWidth :: "'r bar_env \<Rightarrow> rat" where
  "bandWidth E = (case be_barWidth E of Some w \<Rightarrow> w | None \<Rightarrow> fst (snd (categoryScale E)))"

definition columnWidth :: "'r bar_env \<Rightarrow> rat" where
  "columnWidth E = (if be_data E = [] then 0 else be_extent E / of_nat (length (be_data E)))"

subsection \<open>The scale of the figures\<close>

definition greatest :: "rat list \<Rightarrow> rat" where
  "greatest vs = foldl (\<lambda>m v. if v > m then v else m) 0 vs"

definition or_hundred :: "rat \<Rightarrow> rat" where
  "or_hundred m = (if m = 0 then 100 else m)"

definition numbers_of :: "'r bar_env \<Rightarrow> string list \<Rightarrow> 'r \<Rightarrow> rat list" where
  "numbers_of E keys d = concat (map (\<lambda>k. case be_number E d k of Some v \<Rightarrow> [v] | None \<Rightarrow> []) keys)"

definition maxValue :: "'r bar_env \<Rightarrow> rat" where
  "maxValue E =
     (let keys = map lc_dataKey (be_lines E) in
      or_hundred (greatest (if be_stacked E then map (\<lambda>d. sum_list (numbers_of E keys d)) (be_data E)
        else concat (map (\<lambda>k. concat (map (numbers_of E [k]) (be_data E))) keys))))"

definition valueScale :: "'r bar_env \<Rightarrow> rat \<Rightarrow> rat" where
  "valueScale E =
     be_scaleLinear E (if be_horizontal E then (0, be_innerWidth E) else (be_innerHeight E, 0)) (0, maxValue E * (11 / 10))"

definition buildYScalesForLines ::
    "('d \<Rightarrow> 's) \<Rightarrow> 'd \<Rightarrow> LineConfig list \<Rightarrow> (string list \<Rightarrow> 'd) \<Rightarrow> (string \<times> 's) list" where
  "buildYScalesForLines scale hundred ls resolveDomain =
     (let scales = map (\<lambda>(axisId, axisLines). (axisId, scale (resolveDomain (map lc_dataKey axisLines))))
            (groupLinesByYAxisId ls)
      in if map_of scales DEFAULT_Y_AXIS_ID = None then scales @ [(DEFAULT_Y_AXIS_ID, scale hundred)] else scales)"

definition bar_domain :: "'r bar_env \<Rightarrow> string list \<Rightarrow> rat \<times> rat" where
  "bar_domain E keys = (0, or_hundred (greatest (concat (map (numbers_of E keys) (be_data E)))) * (11 / 10))"

definition bar_yScales :: "'r bar_env \<Rightarrow> (string \<times> (rat \<Rightarrow> rat)) list" where
  "bar_yScales E =
     (if be_horizontal E then [(DEFAULT_Y_AXIS_ID, valueScale E)]
      else buildYScalesForLines (be_scaleLinear E (be_innerHeight E, 0)) (0, 100) (be_lines E) (bar_domain E))"

definition bar_yScale :: "'r bar_env \<Rightarrow> rat \<Rightarrow> rat" where
  "bar_yScale E = (if be_horizontal E then valueScale E else getPrimaryYScale (bar_yScales E) (valueScale E))"

definition useYScale :: "'r bar_env \<Rightarrow> axis_id option \<Rightarrow> rat \<Rightarrow> rat" where
  "useYScale E i = (case map_of (bar_yScales E) (normalizeYAxisId i) of Some s \<Rightarrow> s | None \<Rightarrow> bar_yScale E)"

subsection \<open>Stacks\<close>

text \<open>\<open>pointOffsets\<close> of a row, in the order they are set; the last one set for a key is the one read.\<close>

fun pointOffsets :: "'r bar_env \<Rightarrow> 'r \<Rightarrow> rat \<Rightarrow> LineConfig list \<Rightarrow> (string \<times> rat) list" where
  "pointOffsets E d c [] = []"
| "pointOffsets E d c (line # ls) =
     (lc_dataKey line, c) #
     pointOffsets E d (case be_number E d (lc_dataKey line) of Some v \<Rightarrow> c + v | None \<Rightarrow> c) ls"

definition stackOffset :: "'r bar_env \<Rightarrow> 'r \<Rightarrow> string \<Rightarrow> rat" where
  "stackOffset E d key = (case map_of (rev (pointOffsets E d 0 (be_lines E))) key of Some c \<Rightarrow> c | None \<Rightarrow> 0)"

subsection \<open>Squares and depth\<close>

record square_column =
  sq_count :: nat
  sq_positions :: "rat list"
  sq_columnHeight :: rat
  sq_size :: rat
  sq_gap :: rat

definition computeSquareColumn :: "rat \<Rightarrow> rat \<Rightarrow> rat \<Rightarrow> bool \<Rightarrow> square_column" where
  "computeSquareColumn barLengthPx squareSize gap fit =
     (if barLengthPx \<le> 0 \<or> squareSize \<le> 0
      then \<lparr>sq_count = 0, sq_positions = [], sq_columnHeight = 0, sq_size = squareSize, sq_gap = gap\<rparr>
      else if fit then
        let n = nat (max 1 \<lfloor>(barLengthPx + gap) / (squareSize + gap)\<rfloor>);
            effectiveGap = (if n > 1 then max 0 ((barLengthPx - of_nat n * squareSize) / (of_nat n - 1)) else 0);
            step = squareSize + effectiveGap
        in \<lparr>sq_count = n, sq_positions = map (\<lambda>i. barLengthPx - squareSize - of_nat i * step) [0..<n],
            sq_columnHeight = barLengthPx, sq_size = squareSize, sq_gap = effectiveGap\<rparr>
      else
        let step = squareSize + gap;
            n = nat (max 1 (math_round (barLengthPx / step)));
            columnHeight = of_nat n * squareSize + max 0 (of_nat n - 1) * gap
        in \<lparr>sq_count = n, sq_positions = map (\<lambda>i. columnHeight - squareSize - of_nat i * step) [0..<n],
            sq_columnHeight = columnHeight, sq_size = squareSize, sq_gap = gap\<rparr>)"

definition topSquareCenterY :: "rat \<Rightarrow> rat \<Rightarrow> rat \<Rightarrow> rat \<Rightarrow> bool \<Rightarrow> rat" where
  "topSquareCenterY baselineY barLengthPx squareSize gap fit =
     (let c = computeSquareColumn barLengthPx squareSize gap fit
      in if sq_count c = 0 then baselineY else baselineY - sq_columnHeight c + sq_size c / 2)"

definition BAR_DEPTH_MAX_PX :: rat where "BAR_DEPTH_MAX_PX = 7"
definition BAR_DEPTH_PERSPECTIVE_RATIO :: rat where "BAR_DEPTH_PERSPECTIVE_RATIO = 45 / 100"

definition barDepthMaxDepth :: "rat \<Rightarrow> rat \<Rightarrow> rat" where
  "barDepthMaxDepth stepWidth w =
     (let gap = max 0 (stepWidth - w) in min (min (w * (22 / 100)) (max 0 (gap - 1))) BAR_DEPTH_MAX_PX)"

definition barDepthAndRise :: "rat \<Rightarrow> rat \<Rightarrow> rat \<Rightarrow> rat \<times> rat" where
  "barDepthAndRise absOffset naturalHeight maxDepth =
     (let offset = min 1 (max 0 absOffset);
          depth = offset * min maxDepth (max 0 naturalHeight)
      in (depth, depth * BAR_DEPTH_PERSPECTIVE_RATIO))"

definition barDepthPerspectiveRise :: "'r bar_env \<Rightarrow> 'r \<Rightarrow> rat \<Rightarrow> rat \<Rightarrow> rat" where
  "barDepthPerspectiveRise E d topY baselineY =
     (let centerX = be_innerWidth E / 2 in
      if centerX \<le> 0 then 0
      else let cx = bandPos E d + bandWidth E / 2 in
        snd (barDepthAndRise (min 1 \<bar>(cx - centerX) / centerX\<bar>) \<bar>baselineY - topY\<bar>
          (barDepthMaxDepth (snd (snd (categoryScale E))) (bandWidth E))))"

subsection \<open>A bar\<close>

record bar_props =
  bp_dataKey :: string
  bp_yAxisId :: "axis_id option"
  bp_stackGap :: rat
  bp_groupGap :: rat
  bp_perspective :: bool
  bp_minBarHeight :: rat

fun index_where :: "('a \<Rightarrow> bool) \<Rightarrow> 'a list \<Rightarrow> nat option" where
  "index_where P [] = None"
| "index_where P (x # xs) = (if P x then Some 0 else map_option Suc (index_where P xs))"

definition seriesIndex :: "'r bar_env \<Rightarrow> bar_props \<Rightarrow> nat" where
  "seriesIndex E b = (case index_where (\<lambda>l. lc_dataKey l = bp_dataKey b) (be_lines E) of Some i \<Rightarrow> i | None \<Rightarrow> 0)"

definition bar_valueScale :: "'r bar_env \<Rightarrow> bar_props \<Rightarrow> rat \<Rightarrow> rat" where
  "bar_valueScale E b =
     (if be_horizontal E then bar_yScale E
      else useYScale E (case bp_yAxisId b of
        Some i \<Rightarrow> Some i
      | None \<Rightarrow> (case js_at (be_lines E) (seriesIndex E b) of Some l \<Rightarrow> lc_yAxisId l | None \<Rightarrow> None)))"

definition barWidth :: "'r bar_env \<Rightarrow> bar_props \<Rightarrow> rat" where
  "barWidth E b =
     (let n = length (be_lines E) in
      if bandWidth E = 0 \<or> n = 0 then 0
      else if be_stacked E then bandWidth E
      else (bandWidth E - (if n > 1 then bp_groupGap b else 0) * (of_nat n - 1)) / of_nat n)"

text \<open>Where a bar starts on the axis of the categories.\<close>

definition bar_start :: "'r bar_env \<Rightarrow> bar_props \<Rightarrow> 'r \<Rightarrow> rat" where
  "bar_start E b d =
     (if be_stacked E then bandPos E d
      else bandPos E d + of_nat (seriesIndex E b) * (barWidth E b + (if length (be_lines E) > 1 then bp_groupGap b else 0)))"

definition isLastSeries :: "'r bar_env \<Rightarrow> bar_props \<Rightarrow> bool" where
  "isLastSeries E b \<longleftrightarrow> Suc (seriesIndex E b) = length (be_lines E)"

record bar_rect =
  br_x :: rat
  br_y :: rat
  br_width :: rat
  br_height :: rat

definition horizontal_bar :: "'r bar_env \<Rightarrow> bar_props \<Rightarrow> 'r \<Rightarrow> rat \<Rightarrow> bar_rect" where
  "horizontal_bar E b d v =
     (let scale = bar_valueScale E b; valuePos = scale v;
          (x, w) = (if be_stacked E
            then let x = scale (stackOffset E d (bp_dataKey b)); w = valuePos - x
                 in (x + of_nat (seriesIndex E b) * bp_stackGap b,
                     if \<not> isLastSeries E b \<and> bp_stackGap b > 0 then max 0 (w - bp_stackGap b) else w)
            else (0, valuePos))
      in \<lparr>br_x = x, br_y = bar_start E b d, br_width = w, br_height = barWidth E b\<rparr>)"

definition vertical_bar :: "'r bar_env \<Rightarrow> bar_props \<Rightarrow> 'r \<Rightarrow> rat \<Rightarrow> bar_rect" where
  "vertical_bar E b d v =
     (let scale = bar_valueScale E b; valuePos = scale v; h = be_innerHeight E - valuePos;
          (y, h) = (if be_stacked E
            then (scale (stackOffset E d (bp_dataKey b)) - h - of_nat (seriesIndex E b) * bp_stackGap b,
                  if \<not> isLastSeries E b \<and> bp_stackGap b > 0 then max 0 (h - bp_stackGap b) else h)
            else (valuePos, h));
          floored = (\<not> be_stacked E \<and> bp_minBarHeight b > 0 \<and> v \<ge> 0 \<and> h < bp_minBarHeight b);
          (y, h) = (if floored then (scale 0 - bp_minBarHeight b, bp_minBarHeight b) else (y, h));
          trim = (if bp_perspective b \<and> v > 0 \<and> \<not> floored \<and> (\<not> be_stacked E \<or> isLastSeries E b)
            then min (barDepthPerspectiveRise E d y (scale 0)) (max 0 (h - 1)) else 0)
      in \<lparr>br_x = bar_start E b d, br_y = y + trim, br_width = barWidth E b, br_height = h - trim\<rparr>)"

definition bar_rect_of :: "'r bar_env \<Rightarrow> bar_props \<Rightarrow> 'r \<Rightarrow> bar_rect option" where
  "bar_rect_of E b d =
     (case be_number E d (bp_dataKey b) of
        None \<Rightarrow> None
      | Some v \<Rightarrow> Some (if be_horizontal E then horizontal_bar E b d v else vertical_bar E b d v))"

subsection \<open>The pointer\<close>

definition groupGap :: "'r bar_env \<Rightarrow> rat" where
  "groupGap E = (if length (be_lines E) > 1 then 4 else 0)"

definition individualBarSize :: "'r bar_env \<Rightarrow> rat" where
  "individualBarSize E =
     (let n = length (be_lines E) in
      if n > 0 then (bandWidth E - groupGap E * (of_nat n - 1)) / of_nat n else bandWidth E)"

definition clampedIndex :: "'r bar_env \<Rightarrow> rat \<Rightarrow> nat" where
  "clampedIndex E pos = nat (max 0 (min (int (length (be_data E)) - 1) \<lfloor>pos / columnWidth E\<rfloor>))"

text \<open>The running totals of a row, with the series that have a figure counted.\<close>

fun cumulated :: "'r bar_env \<Rightarrow> 'r \<Rightarrow> rat \<Rightarrow> nat \<Rightarrow> LineConfig list \<Rightarrow> (LineConfig \<times> rat \<times> nat) list" where
  "cumulated E d c k [] = []"
| "cumulated E d c k (line # ls) =
     (case be_number E d (lc_dataKey line) of
        Some v \<Rightarrow> (line, c + v, k) # cumulated E d (c + v) (Suc k) ls
      | None \<Rightarrow> cumulated E d c k ls)"

definition grouped :: "'r bar_env \<Rightarrow> 'r \<Rightarrow> (nat \<times> LineConfig \<times> rat) list" where
  "grouped E d = concat (map (\<lambda>(i, line). case be_number E d (lc_dataKey line) of
     Some v \<Rightarrow> [(i, line, v)] | None \<Rightarrow> []) (enumerate 0 (be_lines E)))"

definition bar_center :: "'r bar_env \<Rightarrow> 'r \<Rightarrow> nat \<Rightarrow> rat" where
  "bar_center E d i = bandPos E d + of_nat i * (individualBarSize E + groupGap E) + individualBarSize E / 2"

definition bar_xPositions :: "'r bar_env \<Rightarrow> 'r \<Rightarrow> (string \<times> rat) list" where
  "bar_xPositions E d =
     (if be_horizontal E then
        if be_stacked E
        then map (\<lambda>(line, c, _). (lc_dataKey line, useYScale E (lc_yAxisId line) c)) (cumulated E d 0 0 (be_lines E))
        else map (\<lambda>(_, line, v). (lc_dataKey line, useYScale E (lc_yAxisId line) v)) (grouped E d)
      else if be_stacked E then []
      else map (\<lambda>(i, line, _). (lc_dataKey line, bar_center E d i)) (grouped E d))"

definition bar_yPositions :: "'r bar_env \<Rightarrow> 'r \<Rightarrow> (string \<times> rat) list" where
  "bar_yPositions E d =
     (if be_horizontal E then
        if be_stacked E
        then map (\<lambda>(line, _, _). (lc_dataKey line, bandPos E d + bandWidth E / 2)) (cumulated E d 0 0 (be_lines E))
        else map (\<lambda>(i, line, _). (lc_dataKey line, bar_center E d i)) (grouped E d)
      else if be_stacked E
      then map (\<lambda>(line, c, k). (lc_dataKey line, useYScale E (lc_yAxisId line) c - of_nat k * be_stackGap E))
             (cumulated E d 0 0 (be_lines E))
      else map (\<lambda>(i, line, v). (lc_dataKey line,
             let scale = useYScale E (lc_yAxisId line) in
             case be_squareSnap E of
               Some (gap, fit) \<Rightarrow> if v > 0
                 then topSquareCenterY (scale 0) (scale 0 - scale v) (individualBarSize E) gap fit else scale v
             | None \<Rightarrow> scale v)) (grouped E d))"

definition bar_tooltip :: "'r bar_env \<Rightarrow> rat \<Rightarrow> 'r TooltipData option" where
  "bar_tooltip E pos =
     (case js_at (be_data E) (clampedIndex E pos) of
        None \<Rightarrow> None
      | Some d \<Rightarrow>
          let xs = bar_xPositions E d in
          Some \<lparr>td_point = d, td_index = clampedIndex E pos,
            td_x = (if be_horizontal E then foldl max 0 (map snd xs) else bandPos E d + bandWidth E / 2),
            td_yPositions = bar_yPositions E d, td_xPositions = (if xs = [] then None else Some xs)\<rparr>)"

definition bar_handleMouseMove :: "'r bar_env \<Rightarrow> rat option \<Rightarrow> 'r scheduled \<Rightarrow> 'r scheduled" where
  "bar_handleMouseMove E pos st =
     (case pos of
        None \<Rightarrow> st
      | Some p \<Rightarrow> (case bar_tooltip E p of Some td \<Rightarrow> scheduleTooltip td None st | None \<Rightarrow> st))"

subsection \<open>What the scales promise\<close>

text \<open>d3: a band scale keeps the first of equal values, divides its range into steps with the padding at both ends
  and between the bands, and a linear scale from zero made nice ends at or after the end asked for.\<close>

definition first_uses :: "'a list \<Rightarrow> 'a list" where
  "first_uses xs = rev (remdups (rev xs))"

definition band_law :: "rat \<Rightarrow> (rat \<Rightarrow> string list \<Rightarrow> (string \<Rightarrow> rat option) \<times> rat \<times> rat) \<Rightarrow> bool" where
  "band_law p f \<longleftrightarrow> (\<forall>R ds. ds \<noteq> [] \<longrightarrow>
     (let u = first_uses ds; step = R / (of_nat (length u) + p) in
      snd (f R ds) = (step * (1 - p), step) \<and>
      (\<forall>i < length u. fst (f R ds) (u ! i) = Some (step * (of_nat i + p)))))"

definition linear_law :: "(rat \<times> rat \<Rightarrow> rat \<times> rat \<Rightarrow> rat \<Rightarrow> rat) \<Rightarrow> bool" where
  "linear_law f \<longleftrightarrow> (\<forall>r0 r1 D. 0 < D \<longrightarrow> (\<exists>D'. D \<le> D' \<and> (\<forall>v. f (r0, r1) (0, D) v = r0 + v / D' * (r1 - r0))))"

lemma first_uses_distinct [simp]: "distinct xs \<Longrightarrow> first_uses xs = xs"
  by (simp add: first_uses_def distinct_remdups_id)

subsection \<open>The pointer is over the bar it names\<close>

lemma band_of_row:
  assumes "band_law p (be_scaleBand E)" and "distinct (map (be_category E) (be_data E))" and "i < length (be_data E)"
  shows "bandPos E (be_data E ! i) = be_extent E / (of_nat (length (be_data E)) + p) * (of_nat i + p)"
    and "be_barWidth E = None \<Longrightarrow> bandWidth E = be_extent E / (of_nat (length (be_data E)) + p) * (1 - p)"
proof -
  let ?ds = "map (be_category E) (be_data E)"
  have ds: "?ds \<noteq> []" "first_uses ?ds = ?ds" using assms(2,3) by auto
  have law: "snd (categoryScale E) = (be_extent E / (of_nat (length ?ds) + p) * (1 - p), be_extent E / (of_nat (length ?ds) + p))"
    "\<forall>i < length ?ds. fst (categoryScale E) (?ds ! i) = Some (be_extent E / (of_nat (length ?ds) + p) * (of_nat i + p))"
    using assms(1) [unfolded band_law_def Let_def, rule_format, OF ds(1), of "be_extent E"]
    unfolding ds(2) categoryScale_def by blast+
  show "bandPos E (be_data E ! i) = be_extent E / (of_nat (length (be_data E)) + p) * (of_nat i + p)"
    using law(2) assms(3) by (simp add: bandPos_def)
  show "be_barWidth E = None \<Longrightarrow> bandWidth E = be_extent E / (of_nat (length (be_data E)) + p) * (1 - p)"
    using law(1) by (simp add: bandWidth_def)
qed

lemma bar_in_band:
  assumes "0 < barWidth E b" and "0 \<le> bp_groupGap b" and "seriesIndex E b < length (be_lines E)"
  shows "bandPos E d \<le> bar_start E b d" and "bar_start E b d + barWidth E b \<le> bandPos E d + bandWidth E"
proof -
  let ?n = "rat_of_nat (length (be_lines E))" and ?k = "rat_of_nat (seriesIndex E b)"
  define g where "g = (if length (be_lines E) > 1 then bp_groupGap b else 0)"
  have g: "0 \<le> g" using assms(2) by (simp add: g_def)
  have k: "?k + 1 \<le> ?n" and n: "0 < ?n" using assms(3) by linarith+
  show "bandPos E d \<le> bar_start E b d"
    using assms(1) g by (simp add: bar_start_def g_def)
  show "bar_start E b d + barWidth E b \<le> bandPos E d + bandWidth E"
  proof (cases "be_stacked E")
    case True
    then show ?thesis using assms(1) by (auto simp: bar_start_def barWidth_def Let_def split: if_splits)
  next
    case False
    then have w: "?n * barWidth E b + g * (?n - 1) = bandWidth E"
      using assms(1) n by (auto simp: barWidth_def Let_def g_def split: if_splits)
    have "(?k + 1) * (barWidth E b + g) \<le> ?n * (barWidth E b + g)"
      using k assms(1) g by (intro mult_right_mono) simp_all
    then have "?k * (barWidth E b + g) + barWidth E b \<le> bandWidth E"
      using w by (simp add: algebra_simps)
    then show ?thesis using False by (simp add: bar_start_def g_def)
  qed
qed

lemma column_of_band:
  fixes p R pos :: rat
  assumes "0 \<le> p" "0 < R" "i < n"
    and "R / (of_nat n + p) * (of_nat i + p) \<le> pos" "pos < R / (of_nat n + p) * (of_nat i + 1)"
  shows "\<lfloor>pos / (R / of_nat n)\<rfloor> = int i"
proof (rule floor_unique)
  let ?n = "rat_of_nat n" and ?i = "rat_of_nat i"
  have n: "0 < ?n" "?i \<le> ?n" "0 < ?n + p" "?i + 1 \<le> ?n" using assms(1,3) by (simp_all add: add_pos_nonneg)
  have "?i * p \<le> ?n * p" using n(2) assms(1) by (rule mult_right_mono)
  then have "?i * (?n + p) \<le> ?n * (?i + p)" by (simp add: algebra_simps)
  then have "?i \<le> ?n * (?i + p) / (?n + p)" using n(3) by (simp add: pos_le_divide_eq)
  also have "\<dots> \<le> ?n * pos / R"
  proof -
    have "?n * (R / (?n + p) * (?i + p)) \<le> ?n * pos" using assms(4) n(1) by (intro mult_left_mono) simp_all
    then have "?n * (?i + p) / (?n + p) * R \<le> ?n * pos" by (simp add: field_simps)
    then show ?thesis using assms(2) by (simp add: pos_le_divide_eq)
  qed
  finally show "rat_of_int (int i) \<le> pos / (R / ?n)" by (simp add: mult.commute)
  have "pos * (?n + p) < R * (?i + 1)" using assms(5) n(3) by (simp add: pos_less_divide_eq)
  moreover have "0 \<le> pos * p"
  proof -
    have "0 \<le> R / (?n + p) * (?i + p)" using assms(1,2) n(3) by simp
    then show ?thesis using assms(1,4) by simp
  qed
  ultimately have "pos * ?n < (?i + 1) * R" by (simp add: algebra_simps)
  then show "pos / (R / ?n) < rat_of_int (int i) + 1" using assms(2) n(1) by (simp add: pos_divide_less_eq)
qed

text \<open>The space a bar takes on the axis of the categories.\<close>

definition covers :: "'r bar_env \<Rightarrow> bar_rect \<Rightarrow> rat \<Rightarrow> bool" where
  "covers E r pos \<longleftrightarrow>
     (if be_horizontal E then br_y r \<le> pos \<and> pos < br_y r + br_height r else br_x r \<le> pos \<and> pos < br_x r + br_width r)"

lemma covers_bar:
  assumes "bar_rect_of E b d = Some r"
  shows "covers E r pos \<longleftrightarrow> bar_start E b d \<le> pos \<and> pos < bar_start E b d + barWidth E b"
  using assms by (auto simp: bar_rect_of_def covers_def horizontal_bar_def vertical_bar_def Let_def split_beta split: option.splits)

text \<open>A bar is what the pointer says it is: over the band scale d3 documents and categories that differ,
  every position over a drawn bar - grouped or stacked, standing or lying - gives the tooltip of that bar's own
  row, although the columns of the pointer are not the bands of the bars.\<close>

lemma hovered_bar_is_named:
  assumes "band_law p (be_scaleBand E)" and "0 \<le> p" and "be_barWidth E = None" and "0 < be_extent E"
    and "distinct (map (be_category E) (be_data E))" and "i < length (be_data E)"
    and "bar_rect_of E b (be_data E ! i) = Some r" and "0 \<le> bp_groupGap b"
    and "seriesIndex E b < length (be_lines E)" and "covers E r pos"
  shows "map_option (\<lambda>td. (td_index td, td_point td)) (bar_tooltip E pos) = Some (i, be_data E ! i)"
proof -
  let ?d = "be_data E ! i" and ?n = "length (be_data E)"
  have on: "bar_start E b ?d \<le> pos" "pos < bar_start E b ?d + barWidth E b"
    using covers_bar [OF assms(7)] assms(10) by simp_all
  then have w: "0 < barWidth E b" by simp
  note band = band_of_row [OF assms(1,5,6)]
  have "be_extent E / (of_nat ?n + p) * (of_nat i + p) \<le> pos"
    using bar_in_band(1) [OF w assms(8,9), of ?d] on(1) band(1) by simp
  moreover have "pos < be_extent E / (of_nat ?n + p) * (of_nat i + 1)"
    using bar_in_band(2) [OF w assms(8,9), of ?d] on(2) band(1) band(2) [OF assms(3)]
    by (simp add: add_divide_distrib [symmetric] diff_divide_distrib [symmetric] algebra_simps)
  ultimately have "\<lfloor>pos / columnWidth E\<rfloor> = int i"
    using column_of_band [OF assms(2,4,6)] assms(6) by (auto simp: columnWidth_def)
  then have "clampedIndex E pos = i" using assms(6) by (simp add: clampedIndex_def)
  then show ?thesis using assms(6) by (simp add: bar_tooltip_def js_at_def Let_def)
qed

subsection \<open>Bars are drawn to scale and inside the plot\<close>

lemma greatest_ge:
  "m \<le> foldl (\<lambda>m v. if v > m then v else m) m vs"
  "v \<in> set vs \<Longrightarrow> v \<le> foldl (\<lambda>m v. if v > m then v else m) m (vs :: rat list)"
proof -
  show ge: "m \<le> foldl (\<lambda>m v. if v > m then v else m) m vs" for m and vs :: "rat list"
    by (induction vs arbitrary: m) (auto intro: order_trans [OF less_imp_le])
  show "v \<in> set vs \<Longrightarrow> v \<le> foldl (\<lambda>m v. if v > m then v else m) m vs"
    by (induction vs arbitrary: m) (auto intro: order_trans [OF _ ge])
qed

lemma or_hundred_greatest:
  "0 < or_hundred (greatest vs)" "v \<in> set vs \<Longrightarrow> v \<le> or_hundred (greatest vs)"
  using greatest_ge(1) [of 0 vs] greatest_ge(2) [of v vs 0]
  by (auto simp: or_hundred_def greatest_def)

lemma number_in: "k \<in> set keys \<Longrightarrow> be_number E d k = Some v \<Longrightarrow> v \<in> set (numbers_of E keys d)"
  by (force simp: numbers_of_def)

text \<open>A scale made by the law is a factor \<open>k\<close>, of the pixels per unit, and keeps the domain it was asked for.\<close>

lemma linear_factor:
  assumes "linear_law f" and "0 < D" and "0 < R"
  obtains k where "0 < k" and "\<And>v. f (R, 0) (0, D) v = R - k * v" and "\<And>v. v \<le> D \<Longrightarrow> k * v \<le> R"
proof -
  obtain D' where D': "D \<le> D'" "\<And>v. f (R, 0) (0, D) v = R + v / D' * (0 - R)"
    using assms(1,2) unfolding linear_law_def by blast
  have "0 < D'" using D'(1) assms(2) by simp
  moreover have "R / D' * v \<le> R" if "v \<le> D" for v
  proof -
    have "R * v \<le> R * D'" using that D'(1) assms(3) by (intro mult_left_mono) simp_all
    then show ?thesis using \<open>0 < D'\<close> by (simp add: pos_divide_le_eq)
  qed
  ultimately show ?thesis using that [of "R / D'"] D'(2) assms(3) by (simp add: mult.commute)
qed

lemma linear_factor_across:
  assumes "linear_law f" and "0 < D" and "0 < R"
  obtains k where "0 < k" and "\<And>v. f (0, R) (0, D) v = k * v" and "\<And>v. v \<le> D \<Longrightarrow> k * v \<le> R"
proof -
  obtain D' where D': "D \<le> D'" "\<And>v. f (0, R) (0, D) v = 0 + v / D' * (R - 0)"
    using assms(1,2) unfolding linear_law_def by blast
  have "0 < D'" using D'(1) assms(2) by simp
  moreover have "R / D' * v \<le> R" if "v \<le> D" for v
  proof -
    have "R * v \<le> R * D'" using that D'(1) assms(3) by (intro mult_left_mono) simp_all
    then show ?thesis using \<open>0 < D'\<close> by (simp add: pos_divide_le_eq)
  qed
  ultimately show ?thesis using that [of "R / D'"] D'(2) assms(3) by (simp add: mult.commute)
qed

definition on_axis :: "'r bar_env \<Rightarrow> string \<Rightarrow> string list" where
  "on_axis E a = map lc_dataKey (filter (\<lambda>l. axis_of l = a) (be_lines E))"

lemma useYScale_line:
  assumes "\<not> be_horizontal E" and "line \<in> set (be_lines E)"
  shows "useYScale E (lc_yAxisId line) = be_scaleLinear E (be_innerHeight E, 0) (bar_domain E (on_axis E (axis_of line)))"
proof -
  have "map_of (groupLinesByYAxisId (be_lines E)) (axis_of line) = Some (filter (\<lambda>l. axis_of l = axis_of line) (be_lines E))"
    using assms(2) by (auto simp: groups_exact(2) filter_empty_conv)
  then have "map_of (bar_yScales E) (axis_of line) =
      Some (be_scaleLinear E (be_innerHeight E, 0) (bar_domain E (on_axis E (axis_of line))))"
    using assms(1) by (simp add: bar_yScales_def buildYScalesForLines_def Let_def map_of_map_snd map_add_def on_axis_def
        split: option.split)
  then show ?thesis by (simp add: useYScale_def axis_of_def)
qed

text \<open>The bar of a series with nothing but the defaults, as every chart of the application has it.\<close>

definition default_bar :: "LineConfig \<Rightarrow> bar_props" where
  "default_bar line = \<lparr>bp_dataKey = lc_dataKey line, bp_yAxisId = lc_yAxisId line, bp_stackGap = 0, bp_groupGap = 4,
     bp_perspective = False, bp_minBarHeight = 0\<rparr>"

lemma default_bar_simps [simp]:
  "bp_dataKey (default_bar line) = lc_dataKey line" "bp_yAxisId (default_bar line) = lc_yAxisId line"
  "bp_stackGap (default_bar line) = 0" "bp_groupGap (default_bar line) = 4"
  "\<not> bp_perspective (default_bar line)" "bp_minBarHeight (default_bar line) = 0"
  by (simp_all add: default_bar_def)

lemma index_where_distinct:
  assumes "distinct (map f xs)" and "i < length xs"
  shows "index_where (\<lambda>x. f x = f (xs ! i)) xs = Some i"
  using assms
proof (induction xs arbitrary: i)
  case (Cons x xs)
  show ?case
  proof (cases i)
    case (Suc j)
    then have "f x \<noteq> f (xs ! j)" using Cons.prems by (metis distinct.simps(2) image_eqI length_Cons list.set_map list.simps(9) not_less_eq nth_mem)
    then show ?thesis using Cons Suc by simp
  qed simp
qed simp

lemma default_bar_scale:
  assumes "distinct (map lc_dataKey (be_lines E))" and "i < length (be_lines E)" and "\<not> be_horizontal E"
  shows "seriesIndex E (default_bar (be_lines E ! i)) = i"
    and "bar_valueScale E (default_bar (be_lines E ! i)) = useYScale E (lc_yAxisId (be_lines E ! i))"
proof -
  show idx: "seriesIndex E (default_bar (be_lines E ! i)) = i"
    using index_where_distinct [OF assms(1,2)] by (simp add: seriesIndex_def)
  show "bar_valueScale E (default_bar (be_lines E ! i)) = useYScale E (lc_yAxisId (be_lines E ! i))"
    using assms(2,3) idx by (simp add: bar_valueScale_def js_at_def split: option.split)
qed

lemma vertical_bar_grouped:
  assumes "\<not> be_stacked E" and "bp_perspective b = False" and "bp_minBarHeight b = 0"
  shows "br_y (vertical_bar E b d v) = bar_valueScale E b v"
    and "br_height (vertical_bar E b d v) = be_innerHeight E - bar_valueScale E b v"
  using assms by (simp_all add: vertical_bar_def Let_def)

text \<open>The rectangle of a series in a row.\<close>

definition drawn :: "'r bar_env \<Rightarrow> nat \<Rightarrow> 'r \<Rightarrow> bar_rect" where
  "drawn E i row = the (bar_rect_of E (default_bar (be_lines E ! i)) row)"

lemma horizontal_scale: "be_horizontal E \<Longrightarrow> useYScale E i = valueScale E" "be_horizontal E \<Longrightarrow> bar_valueScale E b = valueScale E"
  by (simp_all add: useYScale_def bar_yScales_def bar_yScale_def bar_valueScale_def split: option.split)

lemma grouped_bar:
  assumes "\<not> be_stacked E" and "\<not> be_horizontal E" and "distinct (map lc_dataKey (be_lines E))" and "i < length (be_lines E)"
    and "be_number E d (lc_dataKey (be_lines E ! i)) = Some v"
    and "\<And>v. useYScale E (lc_yAxisId (be_lines E ! i)) v = be_innerHeight E - k * v"
  shows "br_height (drawn E i d) = k * v" and "br_y (drawn E i d) + br_height (drawn E i d) = be_innerHeight E"
proof -
  have "drawn E i d = vertical_bar E (default_bar (be_lines E ! i)) d v"
    using assms(2,5) by (simp add: drawn_def bar_rect_of_def)
  then show "br_height (drawn E i d) = k * v" "br_y (drawn E i d) + br_height (drawn E i d) = be_innerHeight E"
    using vertical_bar_grouped [OF assms(1), of "default_bar (be_lines E ! i)" d v] default_bar_scale(2) [OF assms(3,4,2)]
    by (simp_all add: assms(6))
qed

lemma lying_bar:
  assumes "\<not> be_stacked E" and "be_horizontal E" and "be_number E d (lc_dataKey (be_lines E ! i)) = Some v"
  shows "br_x (drawn E i d) = 0" and "br_width (drawn E i d) = valueScale E v"
  using assms by (simp_all add: drawn_def bar_rect_of_def horizontal_bar_def Let_def horizontal_scale)

text \<open>One factor for an axis, with the figures of the axis inside the plot.\<close>

lemma axis_factor:
  assumes "linear_law (be_scaleLinear E)" and "0 < be_innerHeight E" and "\<not> be_horizontal E"
  obtains k where "0 < k"
    and "\<And>line v. line \<in> set (be_lines E) \<Longrightarrow> axis_of line = a \<Longrightarrow> useYScale E (lc_yAxisId line) v = be_innerHeight E - k * v"
    and "\<And>d line v. d \<in> set (be_data E) \<Longrightarrow> line \<in> set (be_lines E) \<Longrightarrow> axis_of line = a \<Longrightarrow>
      be_number E d (lc_dataKey line) = Some v \<Longrightarrow> k * v \<le> be_innerHeight E"
proof -
  let ?m = "or_hundred (greatest (concat (map (numbers_of E (on_axis E a)) (be_data E))))"
  have m: "0 < ?m" by (rule or_hundred_greatest(1))
  then have D: "0 < ?m * (11 / 10)" by simp
  obtain k where k: "0 < k" "\<And>v. be_scaleLinear E (be_innerHeight E, 0) (0, ?m * (11 / 10)) v = be_innerHeight E - k * v"
    "\<And>v. v \<le> ?m * (11 / 10) \<Longrightarrow> k * v \<le> be_innerHeight E"
    using linear_factor [OF assms(1) D assms(2)] by metis
  show ?thesis
  proof (rule that [OF k(1)])
    fix line v
    assume "line \<in> set (be_lines E)" "axis_of line = a"
    then show "useYScale E (lc_yAxisId line) v = be_innerHeight E - k * v"
      using useYScale_line [OF assms(3)] k(2) by (simp add: bar_domain_def)
  next
    fix d line v
    assume row: "d \<in> set (be_data E)" "line \<in> set (be_lines E)" "axis_of line = a" "be_number E d (lc_dataKey line) = Some v"
    then have "lc_dataKey line \<in> set (on_axis E a)" by (auto simp: on_axis_def)
    then have "v \<in> set (concat (map (numbers_of E (on_axis E a)) (be_data E)))" using number_in [OF _ row(4)] row(1) by auto
    then have "v \<le> ?m" by (rule or_hundred_greatest(2))
    then show "k * v \<le> be_innerHeight E" using m by (intro k(3)) linarith
  qed
qed

lemma across_factor:
  assumes "linear_law (be_scaleLinear E)" and "0 < be_innerWidth E" and "be_horizontal E" and "\<not> be_stacked E"
  obtains k where "0 < k" and "\<And>v. valueScale E v = k * v"
    and "\<And>d line v. d \<in> set (be_data E) \<Longrightarrow> line \<in> set (be_lines E) \<Longrightarrow>
      be_number E d (lc_dataKey line) = Some v \<Longrightarrow> k * v \<le> be_innerWidth E"
proof -
  let ?vs = "concat (map (\<lambda>k. concat (map (numbers_of E [k]) (be_data E))) (map lc_dataKey (be_lines E)))"
  have m: "0 < or_hundred (greatest ?vs)" by (rule or_hundred_greatest(1))
  then have D: "0 < maxValue E * (11 / 10)" using assms(4) by (simp add: maxValue_def Let_def)
  obtain k where k: "0 < k" "\<And>v. be_scaleLinear E (0, be_innerWidth E) (0, maxValue E * (11 / 10)) v = k * v"
    "\<And>v. v \<le> maxValue E * (11 / 10) \<Longrightarrow> k * v \<le> be_innerWidth E"
    using linear_factor_across [OF assms(1) D assms(2)] by metis
  show ?thesis
  proof (rule that [OF k(1)])
    show "valueScale E v = k * v" for v using k(2) assms(3) by (simp add: valueScale_def)
  next
    fix d line v
    assume row: "d \<in> set (be_data E)" "line \<in> set (be_lines E)" "be_number E d (lc_dataKey line) = Some v"
    have "v \<in> set (numbers_of E [lc_dataKey line] d)" using row(3) by (simp add: numbers_of_def)
    then have "v \<in> set ?vs" using row(1,2) by auto
    then have "v \<le> or_hundred (greatest ?vs)" by (rule or_hundred_greatest(2))
    then have "v \<le> maxValue E" using assms(4) by (simp add: maxValue_def Let_def)
    moreover have "0 < maxValue E" using D by simp
    ultimately show "k * v \<le> be_innerWidth E" by (intro k(3)) linarith
  qed
qed

text \<open>A grouped bar chart does not distort: over the linear scale d3 documents, all bars of one axis stand on
  the same base line and are as tall as one factor, the same for every row and series of that axis, times
  their figure; no bar of a figure that is not negative leaves the plot.\<close>

theorem bars_to_scale:
  assumes "linear_law (be_scaleLinear E)" and "0 < be_innerHeight E" and "\<not> be_horizontal E" and "\<not> be_stacked E"
    and "distinct (map lc_dataKey (be_lines E))"
  shows "\<exists>k > 0. list_all (\<lambda>d. list_all (\<lambda>line.
      case be_number E d (lc_dataKey line) of
        None \<Rightarrow> bar_rect_of E (default_bar line) d = None
      | Some v \<Rightarrow> (case bar_rect_of E (default_bar line) d of
          None \<Rightarrow> False
        | Some r \<Rightarrow> br_height r = k * v \<and> br_y r + br_height r = be_innerHeight E \<and> (if 0 \<le> v then 0 \<le> br_y r else True)))
    (filter (\<lambda>l. axis_of l = a) (be_lines E))) (be_data E)"
proof -
  obtain k where k: "0 < k"
    "\<And>line v. line \<in> set (be_lines E) \<Longrightarrow> axis_of line = a \<Longrightarrow> useYScale E (lc_yAxisId line) v = be_innerHeight E - k * v"
    "\<And>d line v. d \<in> set (be_data E) \<Longrightarrow> line \<in> set (be_lines E) \<Longrightarrow> axis_of line = a \<Longrightarrow>
      be_number E d (lc_dataKey line) = Some v \<Longrightarrow> k * v \<le> be_innerHeight E"
    using axis_factor [OF assms(1,2,3), of a] by blast
  have bar: "br_height r = k * v \<and> br_y r = be_innerHeight E - k * v \<and> k * v \<le> be_innerHeight E"
    if "d \<in> set (be_data E)" "line \<in> set (be_lines E)" "axis_of line = a" "be_number E d (lc_dataKey line) = Some v"
      "r = vertical_bar E (default_bar line) d v" for d line v r
  proof -
    obtain i where i: "i < length (be_lines E)" "line = be_lines E ! i" using \<open>line \<in> _\<close> by (metis in_set_conv_nth)
    have "bar_valueScale E (default_bar line) v = be_innerHeight E - k * v"
      using default_bar_scale(2) [OF assms(5) i(1) assms(3)] k(2) [OF that(2,3)] i(2) by simp
    then show ?thesis
      using k(3) [OF that(1-4)] vertical_bar_grouped [OF assms(4), of "default_bar line" d v] that(5) by simp
  qed
  show ?thesis
  proof (intro exI [of _ k] conjI k(1))
    show "list_all (\<lambda>d. list_all (\<lambda>line.
      case be_number E d (lc_dataKey line) of
        None \<Rightarrow> bar_rect_of E (default_bar line) d = None
      | Some v \<Rightarrow> (case bar_rect_of E (default_bar line) d of
          None \<Rightarrow> False
        | Some r \<Rightarrow> br_height r = k * v \<and> br_y r + br_height r = be_innerHeight E \<and> (if 0 \<le> v then 0 \<le> br_y r else True)))
    (filter (\<lambda>l. axis_of l = a) (be_lines E))) (be_data E)"
      unfolding list_all_iff
    proof (intro ballI)
      fix d line
      assume row: "d \<in> set (be_data E)" and "line \<in> set (filter (\<lambda>l. axis_of l = a) (be_lines E))"
      then have line: "line \<in> set (be_lines E)" "axis_of line = a" by simp_all
      show "case be_number E d (lc_dataKey line) of
          None \<Rightarrow> bar_rect_of E (default_bar line) d = None
        | Some v \<Rightarrow> (case bar_rect_of E (default_bar line) d of
            None \<Rightarrow> False
          | Some r \<Rightarrow> br_height r = k * v \<and> br_y r + br_height r = be_innerHeight E \<and> (if 0 \<le> v then 0 \<le> br_y r else True))"
        using bar [OF row line _ refl] assms(3)
        by (cases "be_number E d (lc_dataKey line)") (simp_all add: bar_rect_of_def)
    qed
  qed
qed

subsection \<open>The dots of the tooltip are on the bars\<close>

definition row_figure :: "'r bar_env \<Rightarrow> 'r \<Rightarrow> LineConfig \<Rightarrow> rat" where
  "row_figure E d line = (case be_number E d (lc_dataKey line) of Some v \<Rightarrow> v | None \<Rightarrow> 0)"

lemma grouped_at:
  assumes "distinct (map lc_dataKey ls)" and "i < length ls" and "num (ls ! i) = Some v"
  shows "map_of (map (\<lambda>(j, line, v). (lc_dataKey line, g j line v))
      (concat (map (\<lambda>(j, line). case num line of Some v \<Rightarrow> [(j, line, v)] | None \<Rightarrow> []) (enumerate n ls))))
    (lc_dataKey (ls ! i)) = Some (g (n + i) (ls ! i) v)"
  using assms
proof (induction ls arbitrary: n i)
  case (Cons l ls)
  show ?case
  proof (cases i)
    case (Suc j)
    then have "lc_dataKey l \<noteq> lc_dataKey (ls ! j)" using Cons.prems(1,2) by auto
    then show ?thesis using Cons.IH [of j "Suc n"] Cons.prems Suc by (simp split: option.split)
  qed (use Cons.prems in simp)
qed simp

lemma cumulated_at:
  assumes "distinct (map lc_dataKey ls)" and "i < length ls" and "be_number E d (lc_dataKey (ls ! i)) = Some v"
  shows "\<exists>k'. map_of (map (\<lambda>(line, c, k). (lc_dataKey line, g line c k)) (cumulated E d c k ls)) (lc_dataKey (ls ! i)) =
    Some (g (ls ! i) (c + sum_list (map (row_figure E d) (take i ls)) + v) k')"
  using assms
proof (induction ls arbitrary: c k i)
  case (Cons l ls)
  show ?case
  proof (cases i)
    case (Suc j)
    have ne: "lc_dataKey l \<noteq> lc_dataKey (ls ! j)" using Cons.prems(1,2) Suc by auto
    show ?thesis
    proof (cases "be_number E d (lc_dataKey l)")
      case None
      then show ?thesis using Cons.IH [of j c k] Cons.prems Suc by (simp add: row_figure_def)
    next
      case (Some u)
      then show ?thesis using Cons.IH [of j "c + u" "Suc k"] Cons.prems Suc ne by (simp add: row_figure_def add.assoc)
    qed
  qed (use Cons.prems in auto)
qed simp

lemma pointOffsets_keys: "map fst (pointOffsets E d c ls) = map lc_dataKey ls"
  by (induction ls arbitrary: c) simp_all

lemma pointOffsets_at:
  assumes "i < length ls"
  shows "(lc_dataKey (ls ! i), c + sum_list (map (row_figure E d) (take i ls))) \<in> set (pointOffsets E d c ls)"
  using assms
proof (induction ls arbitrary: c i)
  case (Cons l ls)
  have step: "(case be_number E d (lc_dataKey l) of Some v \<Rightarrow> c + v | None \<Rightarrow> c) = c + row_figure E d l"
    by (simp add: row_figure_def split: option.split)
  show ?case
  proof (cases i)
    case (Suc j)
    then show ?thesis using Cons.IH [of j "c + row_figure E d l"] Cons.prems by (simp add: step add.assoc)
  qed simp
qed simp

lemma stackOffset_at:
  assumes "distinct (map lc_dataKey (be_lines E))" and "i < length (be_lines E)"
  shows "stackOffset E d (lc_dataKey (be_lines E ! i)) = sum_list (map (row_figure E d) (take i (be_lines E)))"
proof -
  have "distinct (map fst (rev (pointOffsets E d 0 (be_lines E))))"
    using assms(1) by (simp add: pointOffsets_keys rev_map [symmetric])
  then have "map_of (rev (pointOffsets E d 0 (be_lines E))) (lc_dataKey (be_lines E ! i)) =
      Some (sum_list (map (row_figure E d) (take i (be_lines E))))"
    using pointOffsets_at [OF assms(2), of 0 E d] by (simp add: map_of_eq_Some_iff)
  then show ?thesis by (simp add: stackOffset_def)
qed

lemma stacked_bar:
  assumes "be_stacked E" and "\<not> be_horizontal E" and "distinct (map lc_dataKey (be_lines E))" and "i < length (be_lines E)"
    and "be_number E d (lc_dataKey (be_lines E ! i)) = Some v"
    and "\<And>v. useYScale E (lc_yAxisId (be_lines E ! i)) v = be_innerHeight E - k * v"
  shows "br_height (drawn E i d) = k * v"
    and "br_y (drawn E i d) + br_height (drawn E i d) =
      be_innerHeight E - k * sum_list (map (row_figure E d) (take i (be_lines E)))"
proof -
  have "drawn E i d = vertical_bar E (default_bar (be_lines E ! i)) d v"
    using assms(2,5) by (simp add: drawn_def bar_rect_of_def)
  then show "br_height (drawn E i d) = k * v"
    "br_y (drawn E i d) + br_height (drawn E i d) =
      be_innerHeight E - k * sum_list (map (row_figure E d) (take i (be_lines E)))"
    using assms(1) default_bar_scale(2) [OF assms(3,4,2)] stackOffset_at [OF assms(3,4), of d]
    by (simp_all add: vertical_bar_def Let_def assms(6))
qed

lemma grouped_center:
  assumes "distinct (map lc_dataKey (be_lines E))" and "i < length (be_lines E)" and "bandWidth E \<noteq> 0" and "\<not> be_stacked E"
  shows "bar_start E (default_bar (be_lines E ! i)) d + barWidth E (default_bar (be_lines E ! i)) / 2 = bar_center E d i"
proof -
  have "seriesIndex E (default_bar (be_lines E ! i)) = i"
    using index_where_distinct [OF assms(1,2)] by (simp add: seriesIndex_def)
  moreover have "be_lines E \<noteq> []" using assms(2) by auto
  ultimately show ?thesis
    using assms(3,4) by (simp add: bar_start_def bar_center_def barWidth_def individualBarSize_def groupGap_def Let_def)
qed

text \<open>The tooltip points at what is drawn: the pointer handler works out the places of its dots on its own,
  and for every series of a row they are on the bar that series draws - at the end of the bar and in the middle
  of its width, in a grouped chart standing or lying and in a standing stack, where each bar starts at the sum
  of the bars below it.\<close>

lemma dots_meet_bars:
  assumes "linear_law (be_scaleLinear E)" and "0 < be_innerHeight E" and "distinct (map lc_dataKey (be_lines E))"
    and "i < length (be_lines E)" and "line = be_lines E ! i" and "be_number E d (lc_dataKey line) = Some v"
    and "be_squareSnap E = None" and "be_stackGap E = 0" and "bandWidth E \<noteq> 0" and "\<not> (be_horizontal E \<and> be_stacked E)"
    and "bar_rect_of E (default_bar line) d = Some r"
  shows "map_of (bar_yPositions E d) (lc_dataKey line) = Some (if be_horizontal E then br_y r + br_height r / 2 else br_y r) \<and>
    (if be_stacked E then br_x r + br_width r / 2 = bandPos E d + bandWidth E / 2
     else map_of (bar_xPositions E d) (lc_dataKey line) =
       Some (if be_horizontal E then br_x r + br_width r else br_x r + br_width r / 2))"
proof (cases "be_stacked E")
  case False
  note at = grouped_at [OF assms(3,4), of "\<lambda>l. be_number E d (lc_dataKey l)" v _ 0, folded grouped_def]
  note center = grouped_center [OF assms(3,4,9) False, of d]
  show ?thesis
  proof (cases "be_horizontal E")
    case True
    then have "r = horizontal_bar E (default_bar line) d v" using assms(6,11) by (simp add: bar_rect_of_def)
    then have "br_x r = 0" "br_width r = valueScale E v" "br_y r + br_height r / 2 = bar_center E d i"
      using True False center assms(5) by (simp_all add: horizontal_bar_def Let_def horizontal_scale)
    then show ?thesis
      using True False assms(5,6) at [of "\<lambda>i l v. bar_center E d i"] at [of "\<lambda>i l v. useYScale E (lc_yAxisId l) v"]
      by (simp add: bar_yPositions_def bar_xPositions_def horizontal_scale)
  next
    case vertical: False
    then have r: "r = vertical_bar E (default_bar line) d v" using assms(6,11) by (simp add: bar_rect_of_def)
    then have "br_y r = useYScale E (lc_yAxisId line) v"
      using vertical_bar_grouped(1) [OF False, of "default_bar line"] default_bar_scale(2) [OF assms(3,4) vertical] assms(5) by simp
    moreover have "br_x r + br_width r / 2 = bar_center E d i"
      using r center assms(5) by (simp add: vertical_bar_def Let_def split_beta)
    ultimately show ?thesis
      using vertical False assms(5,6,7) at [of "\<lambda>i l v. bar_center E d i"] at [of "\<lambda>i l v. useYScale E (lc_yAxisId l) v"]
      by (simp add: bar_yPositions_def bar_xPositions_def Let_def)
  qed
next
  case True
  then have vertical: "\<not> be_horizontal E" using assms(10) by simp
  then have r: "r = vertical_bar E (default_bar line) d v" using assms(6,11) by (simp add: bar_rect_of_def)
  have line: "line \<in> set (be_lines E)" using assms(4,5) by simp
  obtain k where factor: "0 < k"
    "\<And>l v. l \<in> set (be_lines E) \<Longrightarrow> axis_of l = axis_of line \<Longrightarrow> useYScale E (lc_yAxisId l) v = be_innerHeight E - k * v"
    "\<And>d l v. d \<in> set (be_data E) \<Longrightarrow> l \<in> set (be_lines E) \<Longrightarrow> axis_of l = axis_of line \<Longrightarrow>
      be_number E d (lc_dataKey l) = Some v \<Longrightarrow> k * v \<le> be_innerHeight E"
    using axis_factor [OF assms(1,2) vertical, of "axis_of line"] by blast
  note k = factor(2) [OF line refl]
  let ?below = "sum_list (map (row_figure E d) (take i (be_lines E)))"
  have "br_y r = useYScale E (lc_yAxisId line) ?below - (be_innerHeight E - useYScale E (lc_yAxisId line) v)"
    using r True default_bar_scale(2) [OF assms(3,4) vertical] stackOffset_at [OF assms(3,4), of d] assms(5)
    by (simp add: vertical_bar_def Let_def)
  then have "br_y r = useYScale E (lc_yAxisId line) (?below + v)" by (simp add: k algebra_simps)
  moreover have "map_of (bar_yPositions E d) (lc_dataKey line) = Some (useYScale E (lc_yAxisId line) (?below + v))"
    using cumulated_at [OF assms(3,4) assms(6) [unfolded assms(5)], of "\<lambda>l c k. useYScale E (lc_yAxisId l) c" 0 0]
      True vertical assms(5,8) by (simp add: bar_yPositions_def)
  moreover have "br_x r + br_width r / 2 = bandPos E d + bandWidth E / 2"
  proof -
    have "be_lines E \<noteq> []" using assms(4) by auto
    then show ?thesis using r True assms(9) by (simp add: vertical_bar_def Let_def split_beta bar_start_def barWidth_def)
  qed
  ultimately show ?thesis using True vertical by simp
qed

subsection \<open>Squares\<close>

text \<open>Squares that fit fill their bar: the first stands on its foot, neighbours are at least the gap apart and never
  overlap, and from two squares on the last one ends exactly at the top.\<close>

lemma squares_fill_bar:
  assumes "0 < w" and "0 \<le> gap" and "0 < len"
  shows "case computeSquareColumn len w gap True of c \<Rightarrow>
    length (sq_positions c) = sq_count c \<and> sq_positions c ! 0 = len - w \<and>
    (if 1 < sq_count c
     then gap \<le> sq_gap c \<and> sq_positions c ! (sq_count c - 1) = 0 \<and>
       (\<forall>i < sq_count c - 1. sq_positions c ! i = sq_positions c ! Suc i + w + sq_gap c)
     else True)"
proof -
  define n where "n = nat (max 1 \<lfloor>(len + gap) / (w + gap)\<rfloor>)"
  define g where "g = (if n > 1 then max 0 ((len - of_nat n * w) / (of_nat n - 1)) else 0)"
  have c: "computeSquareColumn len w gap True =
     \<lparr>sq_count = n, sq_positions = map (\<lambda>i. len - w - of_nat i * (w + g)) [0..<n], sq_columnHeight = len,
      sq_size = w, sq_gap = g\<rparr>"
    using assms by (simp add: computeSquareColumn_def Let_def n_def g_def)
  have n: "0 < n" by (simp add: n_def)
  have top: "gap \<le> g" "(of_nat n - 1) * (w + g) = len - w" if many: "1 < n"
  proof -
    have "int n = \<lfloor>(len + gap) / (w + gap)\<rfloor>" using many by (simp add: n_def)
    then have "rat_of_int (int n) \<le> (len + gap) / (w + gap)" by (simp add: le_floor_iff)
    then have room: "rat_of_nat n * (w + gap) \<le> len + gap" using assms(1,2) by (simp add: pos_le_divide_eq)
    have m: "0 < rat_of_nat n - 1" using many by simp
    have "gap * (rat_of_nat n - 1) \<le> len - rat_of_nat n * w" using room by (simp add: algebra_simps)
    then have le: "gap \<le> (len - rat_of_nat n * w) / (rat_of_nat n - 1)" using m by (simp add: pos_le_divide_eq)
    then have g: "g = (len - rat_of_nat n * w) / (rat_of_nat n - 1)" using many assms(2) by (simp add: g_def)
    show "gap \<le> g" using le g by simp
    have "(rat_of_nat n - 1) * g = len - rat_of_nat n * w" using g m by simp
    then show "(of_nat n - 1) * (w + g) = len - w" by (simp add: algebra_simps)
  qed
  have "rat_of_nat (n - 1) = of_nat n - 1" using n by (simp add: of_nat_diff)
  then show ?thesis
    using n top by (auto simp: c algebra_simps)
qed

subsection \<open>Scales that keep the laws, and a chart of two months\<close>

definition demo_band :: "rat \<Rightarrow> rat \<Rightarrow> string list \<Rightarrow> (string \<Rightarrow> rat option) \<times> rat \<times> rat" where
  "demo_band p R ds =
     (let u = first_uses ds; step = R / (of_nat (length u) + p)
      in (\<lambda>s. map_option (\<lambda>i. step * (of_nat i + p)) (index_where (\<lambda>x. x = s) u), step * (1 - p), step))"

definition demo_linear :: "rat \<times> rat \<Rightarrow> rat \<times> rat \<Rightarrow> rat \<Rightarrow> rat" where
  "demo_linear r d v = fst r + (v - fst d) / (snd d - fst d) * (snd r - fst r)"

lemma demo_band_law: "band_law p (demo_band p)"
proof -
  have "index_where (\<lambda>x. x = first_uses ds ! i) (first_uses ds) = Some i" if "i < length (first_uses ds)" for i and ds :: "string list"
    using index_where_distinct [of "\<lambda>x. x" "first_uses ds", OF _ that] by (simp add: first_uses_def)
  then show ?thesis by (simp add: band_law_def demo_band_def Let_def)
qed

lemma demo_linear_law: "linear_law demo_linear"
  unfolding linear_law_def demo_linear_def by auto

definition demo_line :: "string \<Rightarrow> LineConfig" where
  "demo_line key = \<lparr>lc_dataKey = key, lc_stroke = [], lc_strokeWidth = 0, lc_yAxisId = None\<rparr>"

definition demo_bars :: "bool \<Rightarrow> bool \<Rightarrow> (string \<times> rat \<times> rat) bar_env" where
  "demo_bars horizontal stacked =
     \<lparr>be_data = [(''Jan'', 10, 4), (''Feb'', 2, 8)],
      be_number = (\<lambda>d key. if key = ''in'' then Some (fst (snd d)) else if key = ''out'' then Some (snd (snd d)) else None),
      be_category = fst, be_lines = [demo_line ''in'', demo_line ''out''], be_innerWidth = 220, be_innerHeight = 110,
      be_horizontal = horizontal, be_stacked = stacked, be_stackGap = 0, be_barWidth = None, be_squareSnap = None,
      be_scaleBand = demo_band (1 / 5), be_scaleLinear = demo_linear\<rparr>"

lemma demo_bars_simps [simp]:
  "be_scaleBand (demo_bars h s) = demo_band (1 / 5)" "be_scaleLinear (demo_bars h s) = demo_linear"
  "be_horizontal (demo_bars h s) = h" "be_stacked (demo_bars h s) = s" "be_barWidth (demo_bars h s) = None"
  "be_squareSnap (demo_bars h s) = None" "be_stackGap (demo_bars h s) = 0" "be_innerHeight (demo_bars h s) = 110"
  "be_lines (demo_bars h s) = [demo_line ''in'', demo_line ''out'']"
  "be_data (demo_bars h s) = [(''Jan'', 10, 4), (''Feb'', 2, 8)]"
  by (simp_all add: demo_bars_def)

text \<open>Two defects of stacks. A standing stack is drawn over the axis of the greatest single figure, so it leaves
  the plot, although \<open>maxValue\<close> is worked out "considering stacking"; in a lying stack a bar ends at its own
  figure instead of at the sum, so the second bar of January has a negative width, and not the place of its
  dot.\<close>

lemma stack_leaves_plot:
  "map_option br_y (bar_rect_of (demo_bars False True) (default_bar (demo_line ''out'')) (''Jan'', 10, 4)) = Some (- 30) \<and>
   maxValue (demo_bars False True) = 14"
  by code_simp

lemma lying_stack_runs_backwards:
  "map_option br_width (bar_rect_of (demo_bars True True) (default_bar (demo_line ''out'')) (''Jan'', 10, 4)) = Some (- (600 / 7)) \<and>
   map_of (bar_xPositions (demo_bars True True) (''Jan'', 10, 4)) ''out'' = Some 200"
  by code_simp

text \<open>The chart of two months meets the hypotheses of the other theorems.\<close>

theorem bars_to_scale_witness:
  "\<exists>k > 0. list_all (\<lambda>d. list_all (\<lambda>line.
      case be_number (demo_bars False False) d (lc_dataKey line) of
        None \<Rightarrow> bar_rect_of (demo_bars False False) (default_bar line) d = None
      | Some v \<Rightarrow> (case bar_rect_of (demo_bars False False) (default_bar line) d of
          None \<Rightarrow> False
        | Some r \<Rightarrow> br_height r = k * v \<and> br_y r + br_height r = 110 \<and> (if 0 \<le> v then 0 \<le> br_y r else True)))
    (filter (\<lambda>l. axis_of l = ''left'') [demo_line ''in'', demo_line ''out''])) [(''Jan'', 10, 4), (''Feb'', 2, 8)]"
  using bars_to_scale [of "demo_bars False False" "''left''"] demo_linear_law unfolding demo_bars_simps
  by (simp add: demo_line_def)

end
