(* ===== verification/Chart_Bars.thy ===== *)
theory Chart_Bars
  imports Bar_Chart
begin

section \<open>The bars of the application's charts\<close>

text \<open>
  What \<open>NetResultChart.tsx\<close>, \<open>CashFlowChart.tsx\<close> and \<open>ExpenseCategoriesChart.tsx\<close> of \<open>src/web/src/app/charts\<close> ask the
  chart library to draw: their rows, their children and their orientation put together with \<open>bar-chart.tsx\<close> and
  \<open>bar.tsx\<close>, down to the rectangles.
\<close>

subsection \<open>The charts\<close>

definition chart_child :: "string \<Rightarrow> string option \<Rightarrow> string option \<Rightarrow> chart_node" where
  "chart_child name key fill = Elem
     \<lparr>ty_name = name, ty_isChartMarkers = False, ty_isPostOverlay = False, ty_isBarDepthLayer = False,
      ty_clipPassthrough = False\<rparr>
     \<lparr>pr_dataKey = key, pr_stroke = None, pr_strokeWidth = None, pr_fill = fill, pr_yAxisId = None, pr_y1 = None,
      pr_y2 = None, pr_axisLabelColor = None\<rparr> Inert"

definition net_children :: chart_node where
  "net_children = Many
     [chart_child ''Grid'' None None, chart_child ''BarXAxis'' None None,
      chart_child ''Bar'' (Some ''profit'') (Some ''var(--chart-diverge-positive)''),
      chart_child ''Bar'' (Some ''loss'') (Some ''var(--chart-diverge-negative)''),
      chart_child ''ChartTooltip'' None None]"

definition cash_children :: chart_node where
  "cash_children = Many
     [chart_child ''Grid'' None None, chart_child ''BarXAxis'' None None,
      chart_child ''Bar'' (Some ''moneyIn'') (Some ''var(--chart-1)''),
      chart_child ''Bar'' (Some ''moneyOut'') (Some ''var(--chart-2)''),
      chart_child ''ChartTooltip'' None None]"

definition expense_children :: chart_node where
  "expense_children = Many
     [chart_child ''Grid'' None None, chart_child ''BarYAxis'' None None,
      chart_child ''Bar'' (Some ''value'') (Some ''var(--chart-1)''), chart_child ''ChartTooltip'' None None]"

type_synonym band_scale = "rat \<Rightarrow> string list \<Rightarrow> (string \<Rightarrow> rat option) \<times> rat \<times> rat"
type_synonym linear_scale = "rat \<times> rat \<Rightarrow> rat \<times> rat \<Rightarrow> rat \<Rightarrow> rat"

text \<open>The chart with the defaults of \<open>BarChart\<close>; the size is what \<open>ParentSize\<close> measured, less the margins.\<close>

definition app_chart ::
    "band_scale \<Rightarrow> linear_scale \<Rightarrow> rat \<times> rat \<Rightarrow> bool \<Rightarrow> bool \<Rightarrow> ('r \<Rightarrow> string) \<Rightarrow> (string \<times> ('r \<Rightarrow> rat)) list \<Rightarrow> chart_node \<Rightarrow> 'r list \<Rightarrow> 'r bar_env" where
  "app_chart sb sl sz horizontal stacked category numbers children rows =
     \<lparr>be_data = rows, be_number = (\<lambda>row key. map_option (\<lambda>f. f row) (map_of numbers key)), be_category = category,
      be_lines = extractBarConfigs children, be_innerWidth = fst sz, be_innerHeight = snd sz,
      be_horizontal = horizontal, be_stacked = stacked, be_stackGap = 0, be_barWidth = None, be_squareSnap = None,
      be_scaleBand = sb, be_scaleLinear = sl\<rparr>"

definition net_bars :: "band_scale \<Rightarrow> linear_scale \<Rightarrow> rat \<times> rat \<Rightarrow> NetRow list \<Rightarrow> NetRow bar_env" where
  "net_bars sb sl sz rows =
     app_chart sb sl sz False True nr_period [(''profit'', nr_profit), (''loss'', nr_loss)] net_children rows"

definition cash_bars :: "band_scale \<Rightarrow> linear_scale \<Rightarrow> rat \<times> rat \<Rightarrow> CashRow list \<Rightarrow> CashRow bar_env" where
  "cash_bars sb sl sz rows =
     app_chart sb sl sz False False cr_period [(''moneyIn'', cr_moneyIn), (''moneyOut'', cr_moneyOut)] cash_children rows"

definition lying_expense_bars :: "band_scale \<Rightarrow> linear_scale \<Rightarrow> rat \<times> rat \<Rightarrow> expense_bar list \<Rightarrow> expense_bar bar_env" where
  "lying_expense_bars sb sl sz rows =
     app_chart sb sl sz True False eb_name [(''value'', eb_value)] expense_children rows"

subsection \<open>What each chart hands to the library\<close>

lemma net_lines: "be_lines (net_bars sb sl sz rows) =
   [\<lparr>lc_dataKey = ''profit'', lc_stroke = ''var(--chart-diverge-positive)'', lc_strokeWidth = 0, lc_yAxisId = None\<rparr>,
    \<lparr>lc_dataKey = ''loss'', lc_stroke = ''var(--chart-diverge-negative)'', lc_strokeWidth = 0, lc_yAxisId = None\<rparr>]"
proof -
  have "extractBarConfigs net_children =
   [\<lparr>lc_dataKey = ''profit'', lc_stroke = ''var(--chart-diverge-positive)'', lc_strokeWidth = 0, lc_yAxisId = None\<rparr>,
    \<lparr>lc_dataKey = ''loss'', lc_stroke = ''var(--chart-diverge-negative)'', lc_strokeWidth = 0, lc_yAxisId = None\<rparr>]"
    by code_simp
  then show ?thesis by (simp add: net_bars_def app_chart_def)
qed

lemma cash_lines: "be_lines (cash_bars sb sl sz rows) =
   [\<lparr>lc_dataKey = ''moneyIn'', lc_stroke = ''var(--chart-1)'', lc_strokeWidth = 0, lc_yAxisId = None\<rparr>,
    \<lparr>lc_dataKey = ''moneyOut'', lc_stroke = ''var(--chart-2)'', lc_strokeWidth = 0, lc_yAxisId = None\<rparr>]"
proof -
  have "extractBarConfigs cash_children =
   [\<lparr>lc_dataKey = ''moneyIn'', lc_stroke = ''var(--chart-1)'', lc_strokeWidth = 0, lc_yAxisId = None\<rparr>,
    \<lparr>lc_dataKey = ''moneyOut'', lc_stroke = ''var(--chart-2)'', lc_strokeWidth = 0, lc_yAxisId = None\<rparr>]"
    by code_simp
  then show ?thesis by (simp add: cash_bars_def app_chart_def)
qed

lemma expense_lines: "be_lines (lying_expense_bars sb sl sz rows) =
   [\<lparr>lc_dataKey = ''value'', lc_stroke = ''var(--chart-1)'', lc_strokeWidth = 0, lc_yAxisId = None\<rparr>]"
proof -
  have "extractBarConfigs expense_children =
   [\<lparr>lc_dataKey = ''value'', lc_stroke = ''var(--chart-1)'', lc_strokeWidth = 0, lc_yAxisId = None\<rparr>]"
    by code_simp
  then show ?thesis by (simp add: lying_expense_bars_def app_chart_def)
qed

subsection \<open>Where the columns stand\<close>

text \<open>The bars that an element tree draws for a row: every \<open>Bar\<close> with its properties and its fill, the defaults of
  \<open>bar.tsx\<close> where it gives none.\<close>

definition painted_bar :: "chart_node \<Rightarrow> (bar_props \<times> string) list" where
  "painted_bar n =
     (case n of
        Elem ty pr _ \<Rightarrow>
          if ty_name ty = ''Bar'' \<and> has_dataKey pr
          then [(\<lparr>bp_dataKey = the (pr_dataKey pr), bp_yAxisId = pr_yAxisId pr, bp_stackGap = 0, bp_groupGap = 4,
              bp_perspective = False, bp_minBarHeight = 0\<rparr>,
            case pr_fill pr of Some c \<Rightarrow> c | None \<Rightarrow> ''var(--chart-line-primary)'')]
          else []
      | _ \<Rightarrow> [])"

definition painted :: "chart_node \<Rightarrow> 'r bar_env \<Rightarrow> 'r \<Rightarrow> (string \<times> bar_rect) list" where
  "painted children E row =
     concat (map (\<lambda>(b, fill). case bar_rect_of E b row of Some r \<Rightarrow> [(fill, r)] | None \<Rightarrow> [])
       (concat (map painted_bar (forEachChartChild children))))"

lemma net_elements:
  "map snd (concat (map painted_bar (forEachChartChild net_children))) = [''var(--chart-diverge-positive)'', ''var(--chart-diverge-negative)'']"
  "map fst (concat (map painted_bar (forEachChartChild net_children))) = map default_bar (extractBarConfigs net_children)"
  by code_simp+

lemma cash_elements:
  "map snd (concat (map painted_bar (forEachChartChild cash_children))) = [''var(--chart-1)'', ''var(--chart-2)'']"
  "map fst (concat (map painted_bar (forEachChartChild cash_children))) = map default_bar (extractBarConfigs cash_children)"
  by code_simp+

lemma expense_elements:
  "map snd (concat (map painted_bar (forEachChartChild expense_children))) = [''var(--chart-1)'']"
  "map fst (concat (map painted_bar (forEachChartChild expense_children))) = map default_bar (extractBarConfigs expense_children)"
  by code_simp+

text \<open>A tree whose bars are those of the chart's lines paints each line's rectangle in its fill.\<close>

lemma painted_lines:
  assumes "map fst (concat (map painted_bar (forEachChartChild children))) = map default_bar (be_lines E)"
    and "\<And>line. line \<in> set (be_lines E) \<Longrightarrow> be_number E row (lc_dataKey line) \<noteq> None"
    and "map snd (concat (map painted_bar (forEachChartChild children))) = fills"
  shows "painted children E row = zip fills (map (\<lambda>i. drawn E i row) [0..<length (be_lines E)])"
proof -
  have all: "concat (map painted_bar (forEachChartChild children)) = zip (map default_bar (be_lines E)) fills"
    using assms(1,3) by (metis zip_map_fst_snd)
  have drawn: "bar_rect_of E (default_bar line) row = Some (the (bar_rect_of E (default_bar line) row))"
    if "line \<in> set (be_lines E)" for line
    using assms(2) [OF that] by (auto simp: bar_rect_of_def)
  have paint: "concat (map (\<lambda>(b, fill). case bar_rect_of E b row of Some r \<Rightarrow> [(fill, r)] | None \<Rightarrow> [])
      (zip (map default_bar ls) fills)) = zip fills (map (\<lambda>line. the (bar_rect_of E (default_bar line) row)) ls)"
    if "set ls \<subseteq> set (be_lines E)" for ls fills
    using that
  proof (induction ls arbitrary: fills)
    case (Cons line ls)
    then show ?case using drawn [of line] by (cases fills) (auto split: option.split)
  qed simp
  have "map (\<lambda>line. the (bar_rect_of E (default_bar line) row)) (be_lines E) =
      map (\<lambda>i. drawn E i row) [0..<length (be_lines E)]"
    by (rule nth_equalityI) (simp_all add: drawn_def)
  with paint [OF subset_refl] show ?thesis unfolding painted_def all by simp
qed

lemma drawn_across:
  assumes "be_number E row (lc_dataKey (be_lines E ! i)) \<noteq> None"
  shows "\<not> be_horizontal E \<Longrightarrow> br_x (drawn E i row) = bar_start E (default_bar (be_lines E ! i)) row"
    and "\<not> be_horizontal E \<Longrightarrow> br_width (drawn E i row) = barWidth E (default_bar (be_lines E ! i))"
    and "be_horizontal E \<Longrightarrow> br_y (drawn E i row) = bar_start E (default_bar (be_lines E ! i)) row"
    and "be_horizontal E \<Longrightarrow> br_height (drawn E i row) = barWidth E (default_bar (be_lines E ! i))"
  using assms
  by (auto simp: drawn_def bar_rect_of_def vertical_bar_def horizontal_bar_def Let_def split_beta split: option.splits)

lemma first_uses_nth:
  assumes "x \<in> set xs"
  obtains i where "i < length (first_uses xs)" and "first_uses xs ! i = x"
proof -
  have "x \<in> set (first_uses xs)" using assms by (simp add: first_uses_def)
  then show thesis using that by (metis in_set_conv_nth)
qed

text \<open>The band of every row is inside the plot, and the bands of different categories follow each other.\<close>

lemma band_inside:
  assumes "band_law p (be_scaleBand E)" and "0 \<le> p" and "p < 1" and "be_barWidth E = None" and "0 < be_extent E"
    and "row \<in> set (be_data E)"
  shows "0 \<le> bandPos E row" and "0 < bandWidth E" and "bandPos E row + bandWidth E \<le> be_extent E"
proof -
  let ?ds = "map (be_category E) (be_data E)"
  define u where "u = first_uses ?ds"
  define step where "step = be_extent E / (of_nat (length u) + p)"
  have ds: "?ds \<noteq> []" using assms(6) by auto
  have law: "snd (categoryScale E) = (step * (1 - p), step)"
    "\<forall>i < length u. fst (categoryScale E) (u ! i) = Some (step * (of_nat i + p))"
    using assms(1) [unfolded band_law_def Let_def, rule_format, OF ds, of "be_extent E"]
    unfolding categoryScale_def u_def [symmetric] step_def [symmetric] by blast+
  have "be_category E row \<in> set ?ds" using assms(6) by simp
  then obtain i where i: "i < length u" "u ! i = be_category E row" unfolding u_def by (rule first_uses_nth)
  have pos: "bandPos E row = step * (of_nat i + p)" using law(2) i by (auto simp: bandPos_def)
  have width: "bandWidth E = step * (1 - p)" using law(1) assms(4) by (simp add: bandWidth_def)
  have n: "0 < rat_of_nat (length u)" "rat_of_nat i + 1 \<le> rat_of_nat (length u)" using i(1) by linarith+
  then have step: "0 < step" using assms(2,5) by (simp add: step_def)
  show "0 \<le> bandPos E row" using step assms(2) by (simp add: pos)
  show "0 < bandWidth E" using step assms(3) by (simp add: width)
  have "bandPos E row + bandWidth E = step * (of_nat i + 1)" by (simp add: pos width algebra_simps)
  also have "\<dots> \<le> step * (of_nat (length u) + p)" using step n assms(2) by (intro mult_left_mono) simp_all
  also have "\<dots> = be_extent E"
  proof -
    have "rat_of_nat (length u) + p \<noteq> 0" using n(1) assms(2) by linarith
    then show ?thesis by (simp add: step_def)
  qed
  finally show "bandPos E row + bandWidth E \<le> be_extent E" .
qed

lemma bands_in_order:
  assumes "band_law p (be_scaleBand E)" and "0 \<le> p" and "p < 1" and "be_barWidth E = None" and "0 < be_extent E"
    and "distinct (map (be_category E) (be_data E))"
  shows "sorted_wrt (\<lambda>a b. bandPos E a + bandWidth E \<le> bandPos E b) (be_data E)"
  unfolding sorted_wrt_iff_nth_less
proof (intro allI impI)
  fix i j assume ij: "i < j" "j < length (be_data E)"
  let ?step = "be_extent E / (of_nat (length (be_data E)) + p)"
  have "0 \<le> ?step" using assms(2,5) by simp
  moreover have "rat_of_nat i + 1 \<le> of_nat j" using ij(1) by linarith
  ultimately have "?step * (of_nat i + 1) \<le> ?step * (of_nat j + p)" using assms(2) by (intro mult_left_mono) linarith+
  moreover have "?step * (of_nat i + p) + ?step * (1 - p) = ?step * (of_nat i + 1)" by (simp only: distrib_left [symmetric]) simp
  ultimately show "bandPos E (be_data E ! i) + bandWidth E \<le> bandPos E (be_data E ! j)"
    using band_of_row(1) [OF assms(1,6), of i] band_of_row(1) [OF assms(1,6) ij(2)] band_of_row(2) [OF assms(1,6) ij(2) assms(4)] ij
    by simp
qed

lemma stacked_across:
  assumes "be_stacked E" and "\<not> be_horizontal E" and "be_lines E \<noteq> []"
    and "be_number E row (lc_dataKey (be_lines E ! i)) \<noteq> None"
  shows "br_x (drawn E i row) = bandPos E row" and "br_width (drawn E i row) = bandWidth E"
  using assms drawn_across(1,2) [OF assms(4,2)] by (simp_all add: bar_start_def barWidth_def Let_def)

lemma grouped_across:
  assumes "\<not> be_stacked E" and "\<not> be_horizontal E" and "distinct (map lc_dataKey (be_lines E))" and "length (be_lines E) = 2"
    and "i < 2" and "be_number E row (lc_dataKey (be_lines E ! i)) \<noteq> None" and "bandWidth E \<noteq> 0"
  shows "br_width (drawn E i row) = (bandWidth E - 4) / 2"
    and "br_x (drawn E i row) = bandPos E row + of_nat i * ((bandWidth E - 4) / 2 + 4)"
  using drawn_across(1,2) [OF assms(6,2)] default_bar_scale(1) [OF assms(3) _ assms(2), of i] assms
  by (simp_all add: bar_start_def barWidth_def Let_def)

lemma lying_across:
  assumes "\<not> be_stacked E" and "be_horizontal E" and "length (be_lines E) = 1"
    and "be_number E row (lc_dataKey (be_lines E ! 0)) \<noteq> None" and "bandWidth E \<noteq> 0"
  shows "br_height (drawn E 0 row) = bandWidth E" and "br_y (drawn E 0 row) = bandPos E row"
proof -
  have "seriesIndex E (default_bar (be_lines E ! 0)) = 0"
    using assms(3) by (cases "be_lines E") (simp_all add: seriesIndex_def)
  then show "br_height (drawn E 0 row) = bandWidth E" "br_y (drawn E 0 row) = bandPos E row"
    using drawn_across(3,4) [OF assms(4,2)] assms by (simp_all add: bar_start_def barWidth_def Let_def)
qed

subsection \<open>Net result\<close>

text \<open>The column of a month: both bars in their colours, in one place, the one of the other sign without a height.\<close>

definition net_month :: "rat \<times> rat \<Rightarrow> NetRow bar_env \<Rightarrow> rat \<Rightarrow> rat \<Rightarrow> NetRow \<Rightarrow> bool" where
  "net_month sz E k result row \<longleftrightarrow>
     (let profit = drawn E 0 row; loss = drawn E 1 row in
        painted net_children E row =
          [(''var(--chart-diverge-positive)'', profit), (''var(--chart-diverge-negative)'', loss)] \<and>
        br_height profit = k * max 0 (result) \<and> br_height loss = k * max 0 (- result) \<and>
        br_y profit + br_height profit = snd sz \<and> 0 \<le> br_y profit \<and> 0 \<le> br_y loss \<and>
        (if result < 0 then br_y loss + br_height loss = snd sz else br_height loss = 0) \<and>
        br_x loss = br_x profit \<and> br_width loss = br_width profit \<and>
        0 \<le> br_x profit \<and> 0 < br_width profit \<and> br_x profit + br_width profit \<le> fst sz)"

text \<open>The month's net result in the unit of the axis.\<close>

definition net_major :: "Report \<Rightarrow> nat \<Rightarrow> rat" where
  "net_major r i =
     (case exponentOf (rp_currencyCode r) of None \<Rightarrow> 0 | Some e \<Rightarrow> of_int (units (rp_netByPeriod r ! i)) / 10 ^ e)"

lemma net_row_result:
  assumes "netResultRows N r l = Inr rows" and "i < length rows"
  shows "nr_profit (rows ! i) = max 0 (net_major r i)" and "nr_loss (rows ! i) = max 0 (- net_major r i)"
    and "length rows = length (rp_periods r)"
proof -
  note split = net_rows_split [where N = N and r = r and l = l, unfolded assms(1) sum.case]
  show "length rows = length (rp_periods r)" using split by (auto dest!: list_all2_lengthD)
  from list_all2_nthD2 [OF split assms(2)]
  have sgn: "0 \<le> nr_profit (rows ! i)" "0 \<le> nr_loss (rows ! i)" "nr_profit (rows ! i) = 0 \<or> nr_loss (rows ! i) = 0"
    by (auto simp: split_beta)
  from list_all2_nthD2 [OF split assms(2)] \<open>length rows = _\<close> assms(2)
  have diff: "nr_profit (rows ! i) - nr_loss (rows ! i) = net_major r i"
    by (auto simp: split_beta net_major_def nth_enumerate_eq split: option.splits)
  show "nr_profit (rows ! i) = max 0 (net_major r i)" "nr_loss (rows ! i) = max 0 (- net_major r i)"
    using sgn diff by (auto simp: max_def)
qed

text \<open>C26. The chart of the net result shows the net result: although it stacks profit on loss over an axis that is
  made for single figures, it has one column for every month of the report, standing on the base line and inside
  the plot in both directions, whose height is one factor, the same for all months, times the month's net result
  without its sign: the bar in the profit's colour has it where the month gained and the bar in the loss's colour
  where it lost, and the other one has no height. The columns follow each other in the order of the months without
  overlapping, as long as no two of the labels, the months without their years, are the same.\<close>

theorem net_result_to_scale:
  assumes "linear_law sl" and "band_law p sb" and "0 \<le> p" and "p < 1" and "0 < fst sz" and "0 < snd sz"
  shows "case netResultRows N r l of
      Inl e \<Rightarrow> True
    | Inr rows \<Rightarrow>
        (\<exists>k > 0. list_all2 (\<lambda>i. net_month sz (net_bars sb sl sz rows) k (net_major r i))
          [0..<length (rp_periods r)] rows) \<and>
        (if distinct (map nr_period rows)
         then sorted_wrt (\<lambda>a b. br_x a + br_width a \<le> br_x b) (map (drawn (net_bars sb sl sz rows) 0) rows)
         else True)"
proof (cases "netResultRows N r l")
  case (Inr rows)
  define E where "E = net_bars sb sl sz rows"
  have E: "be_scaleLinear E = sl" "be_innerHeight E = snd sz" "\<not> be_horizontal E" "be_stacked E" "be_data E = rows"
    "be_number E = (\<lambda>row key. map_option (\<lambda>f. f row) (map_of [(''profit'', nr_profit), (''loss'', nr_loss)] key))"
    "be_scaleBand E = sb" "be_extent E = fst sz" "be_barWidth E = None" "be_category E = nr_period"
    by (simp_all add: E_def net_bars_def app_chart_def be_extent_def)
  note lines = net_lines [of sb sl sz rows, folded E_def]
  have axis: "axis_of line = ''left''" if "line \<in> set (be_lines E)" for line
    using that by (auto simp: lines axis_of_def normalizeYAxisId_def DEFAULT_Y_AXIS_ID_def)
  have law: "linear_law (be_scaleLinear E)" "0 < be_innerHeight E" "band_law p (be_scaleBand E)" "0 < be_extent E"
    using assms E by simp_all
  obtain k where k: "0 < k"
    "\<And>line v. line \<in> set (be_lines E) \<Longrightarrow> axis_of line = ''left'' \<Longrightarrow> useYScale E (lc_yAxisId line) v = snd sz - k * v"
    "\<And>d line v. d \<in> set rows \<Longrightarrow> line \<in> set (be_lines E) \<Longrightarrow> axis_of line = ''left'' \<Longrightarrow>
      be_number E d (lc_dataKey line) = Some v \<Longrightarrow> k * v \<le> snd sz"
    using axis_factor [OF law(1,2) E(3), of "''left''", unfolded E(2,5)] by blast
  have line: "be_lines E ! i \<in> set (be_lines E)" if "i < 2" for i using that by (intro nth_mem) (simp add: lines)
  have keys: "distinct (map lc_dataKey (be_lines E))" by (simp add: lines)
  have scale: "useYScale E (lc_yAxisId (be_lines E ! i)) v = be_innerHeight E - k * v" if "i < 2" for i v
    using k(2) [OF line [OF that] axis [OF line [OF that]]] E(2) by simp
  have keyed: "be_number E row (lc_dataKey (be_lines E ! 0)) = Some (nr_profit row)"
    "be_number E row (lc_dataKey (be_lines E ! 1)) = Some (nr_loss row)" for row
    unfolding E(6) lines by simp_all
  have below: "sum_list (map (row_figure E row) (take 0 (be_lines E))) = 0"
    "sum_list (map (row_figure E row) (take 1 (be_lines E))) = nr_profit row" for row
    unfolding lines by (simp_all add: row_figure_def E(6))
  have two: "0 < length (be_lines E)" "1 < length (be_lines E)" by (simp_all add: lines)
  have bars: "br_height (drawn E 0 row) = k * nr_profit row" "br_height (drawn E 1 row) = k * nr_loss row"
    "br_y (drawn E 0 row) + br_height (drawn E 0 row) = snd sz"
    "br_y (drawn E 1 row) + br_height (drawn E 1 row) = snd sz - k * nr_profit row" for row
    using stacked_bar [OF E(4,3) keys two(1) keyed(1) scale, of row] stacked_bar [OF E(4,3) keys two(2) keyed(2) scale, of row]
    unfolding below E(2) by simp_all
  have fits: "k * nr_profit row \<le> snd sz" "k * nr_loss row \<le> snd sz" if "row \<in> set rows" for row
    using k(3) [OF that line axis [OF line] keyed(1)] k(3) [OF that line axis [OF line] keyed(2)] by simp_all
  have across: "br_x (drawn E 0 row) = bandPos E row" "br_x (drawn E 1 row) = bandPos E row"
    "br_width (drawn E 0 row) = bandWidth E" "br_width (drawn E 1 row) = bandWidth E" for row
    using stacked_across [OF E(4,3), of row 0] stacked_across [OF E(4,3), of row 1] keyed [of row] by (simp_all add: lines)
  have paint: "painted net_children E row =
      [(''var(--chart-diverge-positive)'', drawn E 0 row), (''var(--chart-diverge-negative)'', drawn E 1 row)]" for row
  proof -
    have "map fst (concat (map painted_bar (forEachChartChild net_children))) = map default_bar (be_lines E)"
      unfolding net_elements(2) by (simp add: E_def net_bars_def app_chart_def)
    moreover have "be_number E row (lc_dataKey line) \<noteq> None" if "line \<in> set (be_lines E)" for line
      using that by (auto simp: lines E(6))
    ultimately show ?thesis by (subst painted_lines [OF _ _ net_elements(1)]) (simp_all add: lines)
  qed
  have month: "net_month sz E k (net_major r i) (rows ! i)" if i: "i < length rows" for i
  proof -
    have row: "rows ! i \<in> set (be_data E)" using i E(5) by simp
    note band = band_inside [OF law(3) assms(3,4) E(9) law(4) row, unfolded E(8)]
    note fits = fits [OF row [unfolded E(5)]]
    note result = net_row_result(1,2) [OF Inr i]
    show ?thesis
      using bars [of "rows ! i"] fits band paint [of "rows ! i"] unfolding net_month_def Let_def across result
      by (auto simp: max_def)
  qed
  have "length [0..<length (rp_periods r)] = length rows"
    using net_rows_split [where N = N and r = r and l = l, unfolded Inr sum.case] by (auto dest!: list_all2_lengthD)
  then have columns: "list_all2 (\<lambda>i. net_month sz E k (net_major r i)) [0..<length (rp_periods r)] rows"
    using month by (intro list_all2_all_nthI) simp_all
  have "sorted_wrt (\<lambda>a b. br_x a + br_width a \<le> br_x b) (map (drawn E 0) rows)" if "distinct (map nr_period rows)"
    using bands_in_order [OF law(3) assms(3,4) E(9) law(4)] that
    by (simp add: E(5,10) sorted_wrt_map across)
  then show ?thesis unfolding Inr sum.case E_def [symmetric]
    by (intro conjI exI [of _ k] k(1) columns) simp
qed simp

subsection \<open>Cash flow and expenses\<close>

text \<open>The two columns of a month, in their colours, side by side with the gap of four pixels, as far as the band has
  room for a gap.\<close>

definition cash_month :: "rat \<times> rat \<Rightarrow> CashRow bar_env \<Rightarrow> rat \<Rightarrow> CashRow \<Rightarrow> bool" where
  "cash_month sz E k row \<longleftrightarrow>
     (let moneyIn = drawn E 0 row; moneyOut = drawn E 1 row in
        painted cash_children E row = [(''var(--chart-1)'', moneyIn), (''var(--chart-2)'', moneyOut)] \<and>
        br_height moneyIn = k * cr_moneyIn row \<and> br_y moneyIn + br_height moneyIn = snd sz \<and> 0 \<le> br_y moneyIn \<and>
        br_height moneyOut = k * cr_moneyOut row \<and> br_y moneyOut + br_height moneyOut = snd sz \<and> 0 \<le> br_y moneyOut \<and>
        0 \<le> br_height moneyOut \<and> (if 0 \<le> cr_moneyIn row then 0 \<le> br_height moneyIn else True) \<and>
        (if 4 < bandWidth E
         then 0 \<le> br_x moneyIn \<and> 0 < br_width moneyIn \<and> br_x moneyOut = br_x moneyIn + br_width moneyIn + 4 \<and>
           br_width moneyOut = br_width moneyIn \<and> br_x moneyOut + br_width moneyOut \<le> fst sz
         else True))"

text \<open>The bar of an expense.\<close>

definition expense_line :: "rat \<times> rat \<Rightarrow> expense_bar bar_env \<Rightarrow> rat \<Rightarrow> expense_bar \<Rightarrow> bool" where
  "expense_line sz E k b \<longleftrightarrow>
     (let bar = drawn E 0 b in
        painted expense_children E b = [(''var(--chart-1)'', bar)] \<and>
        br_x bar = 0 \<and> br_width bar = k * eb_value b \<and> br_width bar \<le> fst sz \<and>
        0 \<le> br_y bar \<and> 0 < br_height bar \<and> br_y bar + br_height bar \<le> snd sz)"

lemma cash_to_scale:
  assumes "linear_law sl" and "band_law p sb" and "0 \<le> p" and "p < 1" and "0 < fst sz" and "0 < snd sz"
    and "E = cash_bars sb sl sz rows" and nonneg: "list_all (\<lambda>row. 0 \<le> cr_moneyOut row) rows"
  shows "\<exists>k > 0. list_all (cash_month sz E k) rows"
    and "4 < bandWidth E \<Longrightarrow> distinct (map cr_period rows) \<Longrightarrow>
      sorted_wrt (\<lambda>a b. br_x (drawn E 1 a) + br_width (drawn E 1 a) \<le> br_x (drawn E 0 b)) rows"
proof -
  have E: "be_scaleLinear E = sl" "be_innerHeight E = snd sz" "\<not> be_horizontal E" "\<not> be_stacked E" "be_data E = rows"
    "be_number E = (\<lambda>row key. map_option (\<lambda>f. f row) (map_of [(''moneyIn'', cr_moneyIn), (''moneyOut'', cr_moneyOut)] key))"
    "be_scaleBand E = sb" "be_extent E = fst sz" "be_barWidth E = None" "be_category E = cr_period"
    by (simp_all add: assms(7) cash_bars_def app_chart_def be_extent_def)
  note lines = cash_lines [of sb sl sz rows, folded assms(7)]
  have law: "linear_law (be_scaleLinear E)" "0 < be_innerHeight E" "band_law p (be_scaleBand E)" "0 < be_extent E"
    using assms E by simp_all
  have axis: "axis_of line = ''left''" if "line \<in> set (be_lines E)" for line
    using that by (auto simp: lines axis_of_def normalizeYAxisId_def DEFAULT_Y_AXIS_ID_def)
  obtain k where k: "0 < k"
    "\<And>line v. line \<in> set (be_lines E) \<Longrightarrow> axis_of line = ''left'' \<Longrightarrow> useYScale E (lc_yAxisId line) v = snd sz - k * v"
    "\<And>d line v. d \<in> set rows \<Longrightarrow> line \<in> set (be_lines E) \<Longrightarrow> axis_of line = ''left'' \<Longrightarrow>
      be_number E d (lc_dataKey line) = Some v \<Longrightarrow> k * v \<le> snd sz"
    using axis_factor [OF law(1,2) E(3), of "''left''", unfolded E(2,5)] by blast
  have line: "be_lines E ! i \<in> set (be_lines E)" if "i < 2" for i using that by (intro nth_mem) (simp add: lines)
  have keys: "distinct (map lc_dataKey (be_lines E))" by (simp add: lines)
  have two: "0 < length (be_lines E)" "1 < length (be_lines E)" "length (be_lines E) = 2" by (simp_all add: lines)
  have scale: "useYScale E (lc_yAxisId (be_lines E ! i)) v = be_innerHeight E - k * v" if "i < 2" for i v
    using k(2) [OF line [OF that] axis [OF line [OF that]]] E(2) by simp
  have keyed: "be_number E row (lc_dataKey (be_lines E ! 0)) = Some (cr_moneyIn row)"
    "be_number E row (lc_dataKey (be_lines E ! 1)) = Some (cr_moneyOut row)" for row
    unfolding E(6) lines by simp_all
  have bars: "br_height (drawn E 0 row) = k * cr_moneyIn row" "br_height (drawn E 1 row) = k * cr_moneyOut row"
    "br_y (drawn E 0 row) + br_height (drawn E 0 row) = snd sz"
    "br_y (drawn E 1 row) + br_height (drawn E 1 row) = snd sz" for row
    using grouped_bar [OF E(4,3) keys two(1) keyed(1) scale, of row] grouped_bar [OF E(4,3) keys two(2) keyed(2) scale, of row]
    unfolding E(2) by simp_all
  have fits: "k * cr_moneyIn row \<le> snd sz" "k * cr_moneyOut row \<le> snd sz" if "row \<in> set rows" for row
    using k(3) [OF that line axis [OF line] keyed(1)] k(3) [OF that line axis [OF line] keyed(2)] by simp_all
  have across: "br_width (drawn E 0 row) = (bandWidth E - 4) / 2" "br_width (drawn E 1 row) = (bandWidth E - 4) / 2"
    "br_x (drawn E 0 row) = bandPos E row" "br_x (drawn E 1 row) = bandPos E row + ((bandWidth E - 4) / 2 + 4)"
    if "4 < bandWidth E" for row
    using grouped_across [OF E(4,3) keys two(3), of 0 row] grouped_across [OF E(4,3) keys two(3), of 1 row] keyed [of row] that
    by simp_all
  have paint: "painted cash_children E row = [(''var(--chart-1)'', drawn E 0 row), (''var(--chart-2)'', drawn E 1 row)]" for row
  proof -
    have "map fst (concat (map painted_bar (forEachChartChild cash_children))) = map default_bar (be_lines E)"
      unfolding cash_elements(2) by (simp add: assms(7) cash_bars_def app_chart_def)
    moreover have "be_number E row (lc_dataKey line) \<noteq> None" if "line \<in> set (be_lines E)" for line
      using that by (auto simp: lines E(6))
    ultimately show ?thesis by (subst painted_lines [OF _ _ cash_elements(1)]) (simp_all add: lines)
  qed
  have "cash_month sz E k row" if row: "row \<in> set rows" for row
  proof -
    have "0 \<le> cr_moneyOut row" using nonneg row by (simp add: list_all_iff)
    with k(1) have heights: "0 \<le> k * cr_moneyOut row" "0 \<le> cr_moneyIn row \<Longrightarrow> 0 \<le> k * cr_moneyIn row" by simp_all
    have "row \<in> set (be_data E)" using row E(5) by simp
    note band = band_inside [OF law(3) assms(3,4) E(9) law(4) this, unfolded E(8)]
    show ?thesis
    proof (cases "4 < bandWidth E")
      case True
      note places = across [OF True, of row]
      show ?thesis
        unfolding cash_month_def Let_def places paint using True bars [of row] fits [OF row] band heights by (simp add: field_simps)
    qed (use bars [of row] fits [OF row] heights in \<open>simp add: cash_month_def paint\<close>)
  qed
  then show "\<exists>k > 0. list_all (cash_month sz E k) rows" unfolding list_all_iff by (intro exI [of _ k] conjI k(1) ballI)
  assume wide: "4 < bandWidth E" and "distinct (map cr_period rows)"
  then have "sorted_wrt (\<lambda>a b. bandPos E a + bandWidth E \<le> bandPos E b) rows"
    using bands_in_order [OF law(3) assms(3,4) E(9) law(4)] by (simp add: E(5,10))
  moreover have "br_x (drawn E 1 row) + br_width (drawn E 1 row) = bandPos E row + bandWidth E" for row
    unfolding across [OF wide] by (simp add: field_simps)
  ultimately show "sorted_wrt (\<lambda>a b. br_x (drawn E 1 a) + br_width (drawn E 1 a) \<le> br_x (drawn E 0 b)) rows"
    by (simp add: across(3) [OF wide])
qed

lemma expenses_to_scale:
  assumes "linear_law sl" and "band_law p sb" and "0 \<le> p" and "p < 1" and "0 < fst sz" and "0 < snd sz"
    and "E = lying_expense_bars sb sl sz bars"
  shows "\<exists>k > 0. list_all (expense_line sz E k) bars"
    and "distinct (map eb_name bars) \<Longrightarrow>
      sorted_wrt (\<lambda>a b. br_y a + br_height a \<le> br_y b) (map (drawn E 0) bars)"
proof -
  have E: "be_scaleLinear E = sl" "be_innerWidth E = fst sz" "be_horizontal E" "\<not> be_stacked E" "be_data E = bars"
    "be_number E = (\<lambda>row key. map_option (\<lambda>f. f row) (map_of [(''value'', eb_value)] key))"
    "be_scaleBand E = sb" "be_extent E = snd sz" "be_barWidth E = None" "be_category E = eb_name"
    by (simp_all add: assms(7) lying_expense_bars_def app_chart_def be_extent_def)
  note lines = expense_lines [of sb sl sz bars, folded assms(7)]
  have law: "linear_law (be_scaleLinear E)" "0 < be_innerWidth E" "band_law p (be_scaleBand E)" "0 < be_extent E"
    using assms E by simp_all
  have keyed: "be_number E b (lc_dataKey (be_lines E ! 0)) = Some (eb_value b)" for b unfolding E(6) lines by simp
  have line: "be_lines E ! 0 \<in> set (be_lines E)" and one: "length (be_lines E) = 1" by (simp_all add: lines)
  obtain k where k: "0 < k" "\<And>v. valueScale E v = k * v"
    "\<And>d line v. d \<in> set bars \<Longrightarrow> line \<in> set (be_lines E) \<Longrightarrow> be_number E d (lc_dataKey line) = Some v \<Longrightarrow> k * v \<le> fst sz"
    using across_factor [OF law(1,2) E(3,4), unfolded E(2,5)] by blast
  have across: "br_height (drawn E 0 b) = bandWidth E" "br_y (drawn E 0 b) = bandPos E b" if "bandWidth E \<noteq> 0" for b
    using lying_across [OF E(4,3) one _ that] keyed [of b] by simp_all
  have paint: "painted expense_children E b = [(''var(--chart-1)'', drawn E 0 b)]" for b
  proof -
    have "map fst (concat (map painted_bar (forEachChartChild expense_children))) = map default_bar (be_lines E)"
      unfolding expense_elements(2) by (simp add: assms(7) lying_expense_bars_def app_chart_def)
    moreover have "be_number E b (lc_dataKey line) \<noteq> None" if "line \<in> set (be_lines E)" for line
      using that by (auto simp: lines E(6))
    ultimately show ?thesis by (subst painted_lines [OF _ _ expense_elements(1)]) (simp_all add: lines)
  qed
  have "expense_line sz E k b" if b: "b \<in> set bars" for b
  proof -
    have "b \<in> set (be_data E)" using b E(5) by simp
    note band = band_inside [OF law(3) assms(3,4) E(9) law(4) this, unfolded E(8)]
    have wide: "bandWidth E \<noteq> 0" using band(2) by simp
    show ?thesis
      unfolding expense_line_def Let_def across [OF wide] paint
      using lying_bar [OF E(4,3) keyed, of b] k(2) k(3) [OF b line keyed] band by simp
  qed
  then show "\<exists>k > 0. list_all (expense_line sz E k) bars" unfolding list_all_iff by (intro exI [of _ k] conjI k(1) ballI)
  assume "distinct (map eb_name bars)"
  then have order: "sorted_wrt (\<lambda>a b. bandPos E a + bandWidth E \<le> bandPos E b) bars"
    using bands_in_order [OF law(3) assms(3,4) E(9) law(4)] by (simp add: E(5,10))
  show "sorted_wrt (\<lambda>a b. br_y a + br_height a \<le> br_y b) (map (drawn E 0) bars)"
  proof (cases bars)
    case (Cons b bs)
    then have "b \<in> set (be_data E)" by (simp add: E(5))
    from band_inside(2) [OF law(3) assms(3,4) E(9) law(4) this] have "bandWidth E \<noteq> 0" by simp
    with order show ?thesis by (simp add: sorted_wrt_map across)
  qed simp
qed

text \<open>C27. The other bar charts are to scale as well. In the cash-flow chart money in and money out of every month stand
  on one base line in their colours, as tall as one factor times their figures and inside the plot (money in as far
  as it is not negative); once a band is wider than the gap of four pixels they stand side by side inside the plot, and
  the pairs follow each other in the order of the months as long as no two labels are the same. In the chart of the
  expenses every bar starts at the left edge, is as long as one factor times its expense, and lies inside the plot in
  both directions; bars of different names do not overlap.\<close>

theorem cash_and_expenses_to_scale:
  assumes "linear_law sl" and "band_law p sb" and "0 \<le> p" and "p < 1" and "0 < fst sz" and "0 < snd sz"
  shows "(case cash_chart_rows N r l of
      Inl e \<Rightarrow> True
    | Inr rows \<Rightarrow>
        let E = cash_bars sb sl sz rows in
        (\<exists>k > 0. list_all (cash_month sz E k) rows) \<and>
        (if 4 < bandWidth E \<and> distinct (map cr_period rows)
         then sorted_wrt (\<lambda>a b. br_x (drawn E 1 a) + br_width (drawn E 1 a) \<le> br_x (drawn E 0 b)) rows else True)) \<and>
    (case expense_bars r l of
      Inl e \<Rightarrow> True
    | Inr bars \<Rightarrow>
        let sorted = expense_sorted bars; E = lying_expense_bars sb sl sz sorted in
        (\<exists>k > 0. list_all (expense_line sz E k) sorted) \<and>
        (if exponentOf (rp_currencyCode r) = None then True else list_all (\<lambda>b. 0 < br_width (drawn E 0 b)) sorted) \<and>
        (if distinct (map eb_name sorted)
         then sorted_wrt (\<lambda>a b. br_y a + br_height a \<le> br_y b) (map (drawn E 0) sorted) else True))"
proof
  show "case cash_chart_rows N r l of
      Inl e \<Rightarrow> True
    | Inr rows \<Rightarrow>
        let E = cash_bars sb sl sz rows in
        (\<exists>k > 0. list_all (cash_month sz E k) rows) \<and>
        (if 4 < bandWidth E \<and> distinct (map cr_period rows)
         then sorted_wrt (\<lambda>a b. br_x (drawn E 1 a) + br_width (drawn E 1 a) \<le> br_x (drawn E 0 b)) rows else True)"
  proof (cases "cash_chart_rows N r l")
    case (Inr rows)
    have "list_all2 (\<lambda>c row. 0 \<le> cr_moneyOut row) (rp_cash r) rows"
      using cash_chart_bars [where N = N and r = r and l = l, unfolded Inr sum.case, THEN conjunct2]
      by (rule list_all2_mono) simp
    then have "list_all (\<lambda>row. 0 \<le> cr_moneyOut row) rows" by (auto simp: list_all2_conv_all_nth list_all_length)
    from cash_to_scale [OF assms refl this] show ?thesis unfolding Inr sum.case Let_def by auto
  qed simp
  show "case expense_bars r l of
      Inl e \<Rightarrow> True
    | Inr bars \<Rightarrow>
        let sorted = expense_sorted bars; E = lying_expense_bars sb sl sz sorted in
        (\<exists>k > 0. list_all (expense_line sz E k) sorted) \<and>
        (if exponentOf (rp_currencyCode r) = None then True else list_all (\<lambda>b. 0 < br_width (drawn E 0 b)) sorted) \<and>
        (if distinct (map eb_name sorted)
         then sorted_wrt (\<lambda>a b. br_y a + br_height a \<le> br_y b) (map (drawn E 0) sorted) else True)"
  proof (cases "expense_bars r l")
    case (Inr bars)
    define sorted where "sorted = expense_sorted bars"
    define E where "E = lying_expense_bars sb sl sz sorted"
    note scale = expenses_to_scale [OF assms E_def]
    obtain k where k: "0 < k" "list_all (expense_line sz E k) sorted" using scale(1) by blast
    have "0 < br_width (drawn E 0 b)" if "b \<in> set sorted" "exponentOf (rp_currencyCode r) = Some e" for b e
    proof -
      have "list_all (\<lambda>b. \<exists>n > 0. eb_value b = of_int n / 10 ^ e \<and> formatMinorUnits (show_int n) e l = Inr (eb_text b)) bars"
        using expense_bars_exact [of r l] Inr that(2) by simp
      then have "0 < eb_value b" using that(1) by (auto simp: list_all_iff sorted_def expense_sorted_def)
      then show ?thesis using k that(1) by (auto simp: list_all_iff expense_line_def Let_def)
    qed
    then have "exponentOf (rp_currencyCode r) \<noteq> None \<Longrightarrow> list_all (\<lambda>b. 0 < br_width (drawn E 0 b)) sorted"
      by (auto simp: list_all_iff)
    with scale show ?thesis
      unfolding Inr sum.case Let_def sorted_def [symmetric] E_def [symmetric] by auto
  qed simp
qed

subsection \<open>Witnesses, and two Januaries\<close>

theorem net_result_to_scale_witness:
  "\<forall>N r l. case netResultRows N r l of
      Inl e \<Rightarrow> True
    | Inr rows \<Rightarrow> (\<exists>k > 0. list_all2 (\<lambda>i. net_month (220, 110) (net_bars (demo_band (1 / 5)) demo_linear (220, 110) rows) k (net_major r i))
        [0..<length (rp_periods r)] rows)"
proof (intro allI)
  fix N r l
  have sz: "0 \<le> (1 / 5 :: rat)" "(1 / 5 :: rat) < 1" "0 < fst (220 :: rat, 110 :: rat)" "0 < snd (220 :: rat, 110 :: rat)" by simp_all
  show "case netResultRows N r l of
      Inl e \<Rightarrow> True
    | Inr rows \<Rightarrow> (\<exists>k > 0. list_all2 (\<lambda>i. net_month (220, 110) (net_bars (demo_band (1 / 5)) demo_linear (220, 110) rows) k (net_major r i))
        [0..<length (rp_periods r)] rows)"
    using net_result_to_scale [OF demo_linear_law demo_band_law sz, where N = N and r = r and l = l]
    by (cases "netResultRows N r l") auto
qed

theorem cash_and_expenses_to_scale_witness:
  "\<forall>r l. case expense_bars r l of
      Inl e \<Rightarrow> True
    | Inr bars \<Rightarrow> (\<exists>k > 0. list_all (expense_line (220, 110)
        (lying_expense_bars (demo_band (1 / 5)) demo_linear (220, 110) (expense_sorted bars)) k) (expense_sorted bars))"
proof (intro allI)
  fix r l
  have sz: "0 \<le> (1 / 5 :: rat)" "(1 / 5 :: rat) < 1" "0 < fst (220 :: rat, 110 :: rat)" "0 < snd (220 :: rat, 110 :: rat)" by simp_all
  show "case expense_bars r l of
      Inl e \<Rightarrow> True
    | Inr bars \<Rightarrow> (\<exists>k > 0. list_all (expense_line (220, 110)
        (lying_expense_bars (demo_band (1 / 5)) demo_linear (220, 110) (expense_sorted bars)) k) (expense_sorted bars))"
    using cash_and_expenses_to_scale [OF demo_linear_law demo_band_law sz, where r = r and l = l, THEN conjunct2]
    by (cases "expense_bars r l") (auto simp: Let_def)
qed

text \<open>The band of a row is found by its label, the month without its year: over more than twelve months the columns
  of two years are drawn on top of each other.\<close>

lemma years_share_a_band:
  assumes "month_short N l (2025, 0) = month_short N l (2026, 0)"
    and "cr_period a = formatPeriodShort N ''2025-01'' l" and "cr_period b = formatPeriodShort N ''2026-01'' l"
  shows "br_x (drawn (cash_bars sb sl sz rows) i a) = br_x (drawn (cash_bars sb sl sz rows) i b)"
proof -
  have "parse_period ''2025-01'' = Some (2025, 0)" "parse_period ''2026-01'' = Some (2026, 0)" by code_simp+
  with assms have "cr_period a = cr_period b" by (simp add: formatPeriodShort_def)
  then have same: "bandPos (cash_bars sb sl sz rows) a = bandPos (cash_bars sb sl sz rows) b"
    by (simp add: bandPos_def cash_bars_def app_chart_def)
  have start: "br_x (drawn E i d) = bar_start E (default_bar (be_lines E ! i)) d"
    if "\<not> be_horizontal E" "be_number E d (lc_dataKey (be_lines E ! i)) \<noteq> None" for E :: "CashRow bar_env" and d
    using that by (auto simp: drawn_def bar_rect_of_def vertical_bar_def Let_def split_beta split: option.splits)
  show ?thesis
  proof (cases "be_number (cash_bars sb sl sz rows) a (lc_dataKey (be_lines (cash_bars sb sl sz rows) ! i))")
    case None
    then have "be_number (cash_bars sb sl sz rows) b (lc_dataKey (be_lines (cash_bars sb sl sz rows) ! i)) = None"
      by (simp add: cash_bars_def app_chart_def)
    with None show ?thesis by (simp add: drawn_def bar_rect_of_def)
  next
    case (Some v)
    then have b: "be_number (cash_bars sb sl sz rows) b (lc_dataKey (be_lines (cash_bars sb sl sz rows) ! i)) \<noteq> None"
      by (simp add: cash_bars_def app_chart_def split: if_splits)
    have a: "be_number (cash_bars sb sl sz rows) a (lc_dataKey (be_lines (cash_bars sb sl sz rows) ! i)) \<noteq> None"
      using Some by simp
    have upright: "\<not> be_horizontal (cash_bars sb sl sz rows)" by (simp add: cash_bars_def app_chart_def)
    show ?thesis unfolding start [OF upright a] start [OF upright b] bar_start_def same ..
  qed
qed

end
