(* ===== verification/Bar_Drawing.thy ===== *)
theory Bar_Drawing
  imports Bar_Chart Chart_Phase
begin

section \<open>A bar chart on the screen: bar-chart.tsx, bar.tsx, bar-x-axis.tsx, bar-y-axis.tsx\<close>

text \<open>
  What \<open>src/web/src/components/charts/bar-chart.tsx\<close> and its children show over time: when the chart can be used
  (its reveal and the timer that ends it), the element each bar is drawn with - growing, faded in or at rest, dimmed
  beside the row under the pointer - and the labels of \<open>bar-x-axis.tsx\<close> and \<open>bar-y-axis.tsx\<close>.
\<close>

subsection \<open>The reveal\<close>

text \<open>The dependencies of the effect: the length of the animation, the signature and the status. A timer is what is
  left of it to run, \<^const>\<open>None\<close> when none is set.\<close>

type_synonym reveal_deps_of_bars = "rat \<times> string \<times> ChartStatus"

record bar_life =
  bl_deps :: reveal_deps_of_bars
  bl_revealEpoch :: nat
  bl_isLoaded :: bool
  bl_timer :: "rat option"

definition start_reveal :: "reveal_deps_of_bars \<Rightarrow> nat \<Rightarrow> bar_life \<Rightarrow> bar_life" where
  "start_reveal deps rows st =
     (let (animationDuration, _, status) = deps;
          staggerMs = (if rows > 1 then animationDuration * (4 / 10) else 0)
      in st\<lparr>bl_deps := deps, bl_revealEpoch := bl_revealEpoch st + 1, bl_isLoaded := False,
           bl_timer := (if status = StatusLoading then None else Some (animationDuration + staggerMs))\<rparr>)"

definition bar_life_init :: "reveal_deps_of_bars \<Rightarrow> nat \<Rightarrow> bar_life" where
  "bar_life_init deps rows =
     start_reveal deps rows \<lparr>bl_deps = deps, bl_revealEpoch = 0, bl_isLoaded = False, bl_timer = None\<rparr>"

datatype bar_event = RenderBars reveal_deps_of_bars nat | RevealOver

fun bar_life_step :: "bar_life \<Rightarrow> bar_event \<Rightarrow> bar_life" where
  "bar_life_step st (RenderBars deps rows) = (if deps = bl_deps st then st else start_reveal deps rows st)"
| "bar_life_step st RevealOver =
     (if bl_timer st = None then st else st\<lparr>bl_isLoaded := True, bl_timer := None\<rparr>)"

text \<open>What the group over the plot listens with.\<close>

definition canInteract :: "bar_life \<Rightarrow> bool" where
  "canInteract st = bl_isLoaded st"

definition on_mouse_move :: "'r bar_env \<Rightarrow> bar_life \<Rightarrow> rat option \<Rightarrow> 'r scheduled \<Rightarrow> 'r scheduled" where
  "on_mouse_move E life pos st = (if canInteract life then bar_handleMouseMove E pos st else st)"

definition on_mouse_leave :: "bar_life \<Rightarrow> 'r scheduled \<Rightarrow> 'r scheduled" where
  "on_mouse_leave life st = (if canInteract life then clearTooltip st else st)"

subsection \<open>The element of a bar\<close>

datatype BarLineCap = CapRound | CapButt | CapRadius rat
datatype BarAnimationType = Grow | Fade

record bar_look =
  lk_lineCap :: BarLineCap
  lk_animate :: bool
  lk_animationType :: BarAnimationType
  lk_fadedOpacity :: rat

definition cornerRadius :: "'r bar_env \<Rightarrow> bar_props \<Rightarrow> bar_look \<Rightarrow> rat" where
  "cornerRadius E b look =
     (if bp_perspective b then 0
      else case lk_lineCap look of
        CapRadius r \<Rightarrow> r
      | CapRound \<Rightarrow> (if barWidth E b \<noteq> 0 then min (barWidth E b / 2) 8 else 0)
      | CapButt \<Rightarrow> 0)"

definition applyRounding :: "'r bar_env \<Rightarrow> bar_props \<Rightarrow> bool" where
  "applyRounding E b \<longleftrightarrow> \<not> be_stacked E \<or> bp_stackGap b > 0 \<or> isLastSeries E b"

definition isFaded :: "nat option \<Rightarrow> nat option \<Rightarrow> nat \<Rightarrow> nat \<Rightarrow> bool" where
  "isFaded hoveredBarIndex legendHoveredIndex series i \<longleftrightarrow>
     (hoveredBarIndex \<noteq> None \<and> hoveredBarIndex \<noteq> Some i) \<or> (legendHoveredIndex \<noteq> None \<and> legendHoveredIndex \<noteq> Some series)"

text \<open>The rectangle an element starts with and the one it comes to; equal where only its opacity moves.\<close>

record bar_element =
  el_key :: string
  el_initial :: bar_rect
  el_target :: bar_rect
  el_opacity :: rat
  el_radius :: rat

definition AnimatedBar :: "'r bar_env \<Rightarrow> BarAnimationType \<Rightarrow> bar_rect \<Rightarrow> bar_rect \<times> bar_rect" where
  "AnimatedBar E kind r =
     (case kind of
        Fade \<Rightarrow> (r, r)
      | Grow \<Rightarrow> if be_horizontal E then (r\<lparr>br_width := 0, br_x := 0\<rparr>, r\<lparr>br_x := 0\<rparr>)
          else (r\<lparr>br_height := 0, br_y := be_innerHeight E\<rparr>, r))"

definition BarInner_row ::
    "'r bar_env \<Rightarrow> bar_props \<Rightarrow> bar_look \<Rightarrow> bool \<Rightarrow> nat option \<Rightarrow> nat option \<Rightarrow> nat \<Rightarrow> 'r \<Rightarrow> bar_element option" where
  "BarInner_row E b look isLoaded hovered legend i d =
     (case bar_rect_of E b d of
        None \<Rightarrow> None
      | Some r \<Rightarrow>
          let (r0, r1) = (if lk_animate look \<and> \<not> isLoaded then AnimatedBar E (lk_animationType look) r else (r, r))
          in Some \<lparr>el_key = ''bar-'' @ bp_dataKey b @ ''-'' @ be_category E d, el_initial = r0, el_target = r1,
               el_opacity = (if isFaded hovered legend (seriesIndex E b) i then lk_fadedOpacity look else 1),
               el_radius = (if applyRounding E b then cornerRadius E b look else 0)\<rparr>)"

definition Bar_elements :: "'r bar_env \<Rightarrow> bar_props \<Rightarrow> bar_look \<Rightarrow> bool \<Rightarrow> nat option \<Rightarrow> nat option \<Rightarrow> bar_element option list" where
  "Bar_elements E b look isLoaded hovered legend =
     (if bandWidth E = 0 then []
      else map (\<lambda>(i, d). BarInner_row E b look isLoaded hovered legend i d) (enumerate 0 (be_data E)))"

definition hoveredBarIndex :: "'r TooltipData option \<Rightarrow> nat option" where
  "hoveredBarIndex tooltip = map_option td_index tooltip"

subsection \<open>The axes\<close>

text \<open>A label of the axis below: its text, its middle and its opacity.\<close>

definition bar_x_labels :: "'r bar_env \<Rightarrow> rat \<Rightarrow> bool \<Rightarrow> nat \<Rightarrow> (string \<times> rat) list" where
  "bar_x_labels E marginLeft showAllLabels maxLabels =
     (if bandWidth E = 0 then []
      else labelsToShow showAllLabels maxLabels
        (map (\<lambda>d. (be_category E d, bandPos E d + bandWidth E / 2 + marginLeft)) (be_data E)))"

definition BarXAxisLabel_opacity :: "rat \<Rightarrow> rat option \<Rightarrow> rat \<Rightarrow> rat" where
  "BarXAxisLabel_opacity x crosshairX tickerHalfWidth =
     (case crosshairX of
        None \<Rightarrow> 1
      | Some c \<Rightarrow>
          let distance = \<bar>x - c\<bar> in
          if distance < tickerHalfWidth then 0
          else if distance < tickerHalfWidth + 20 then (distance - tickerHalfWidth) / 20
          else 1)"

definition BarXAxis ::
    "'r bar_env \<Rightarrow> rat \<Rightarrow> bool \<Rightarrow> nat \<Rightarrow> rat \<Rightarrow> 'r TooltipData option \<Rightarrow> (string \<times> rat \<times> rat) list" where
  "BarXAxis E marginLeft showAllLabels maxLabels tickerHalfWidth tooltip =
     (let crosshairX = map_option (\<lambda>td. td_x td + marginLeft) tooltip in
      map (\<lambda>(label, x). (label, x, BarXAxisLabel_opacity x crosshairX tickerHalfWidth))
        (bar_x_labels E marginLeft showAllLabels maxLabels))"

record bar_y_label =
  yl_label :: string
  yl_y :: rat
  yl_bandHeight :: rat
  yl_index :: nat

definition bar_y_labels :: "'r bar_env \<Rightarrow> rat \<Rightarrow> bool \<Rightarrow> nat \<Rightarrow> bar_y_label list" where
  "bar_y_labels E marginTop showAllLabels maxLabels =
     (if bandWidth E = 0 then []
      else labelsToShow showAllLabels maxLabels
        (map (\<lambda>(i, d). \<lparr>yl_label = be_category E d, yl_y = bandPos E d + marginTop, yl_bandHeight = bandWidth E, yl_index = i\<rparr>)
          (enumerate 0 (be_data E))))"

text \<open>A label of the axis at the side, with whether it is of the hovered bar.\<close>

definition BarYAxis :: "'r bar_env \<Rightarrow> rat \<Rightarrow> bool \<Rightarrow> nat \<Rightarrow> nat option \<Rightarrow> (bar_y_label \<times> bool) list" where
  "BarYAxis E marginTop showAllLabels maxLabels hovered =
     map (\<lambda>l. (l, hovered = Some (yl_index l))) (bar_y_labels E marginTop showAllLabels maxLabels)"

subsection \<open>A chart that loads cannot be used\<close>

definition bar_life_ok :: "bar_life \<Rightarrow> bool" where
  "bar_life_ok st \<longleftrightarrow>
     (if snd (snd (bl_deps st)) = StatusLoading then \<not> bl_isLoaded st \<and> bl_timer st = None
      else bl_isLoaded st \<longleftrightarrow> bl_timer st = None) \<and> 0 < bl_revealEpoch st"

lemma start_reveal_ok: "bar_life_ok (start_reveal deps rows st)"
  by (cases deps) (auto simp: bar_life_ok_def start_reveal_def Let_def)

lemma bar_life_ok_step: "bar_life_ok st \<Longrightarrow> bar_life_ok (bar_life_step st e)"
proof (cases e)
  case (RenderBars deps rows)
  then show "bar_life_ok st \<Longrightarrow> bar_life_ok (bar_life_step st e)" by (simp add: start_reveal_ok)
next
  case RevealOver
  then show "bar_life_ok st \<Longrightarrow> bar_life_ok (bar_life_step st e)" by (auto simp: bar_life_ok_def split: if_splits)
qed

lemma bar_life_ok_run: "bar_life_ok st \<Longrightarrow> bar_life_ok (foldl bar_life_step st es)"
  by (induction es arbitrary: st) (auto intro: bar_life_ok_step)

definition last_deps :: "reveal_deps_of_bars \<Rightarrow> bar_event list \<Rightarrow> reveal_deps_of_bars" where
  "last_deps deps es = foldl (\<lambda>d e. case e of RenderBars d' rows \<Rightarrow> d' | RevealOver \<Rightarrow> d) deps es"

lemma bl_deps_run: "bl_deps (foldl bar_life_step st es) = last_deps (bl_deps st) es"
proof (induction es arbitrary: st)
  case (Cons e es)
  have "bl_deps (bar_life_step st e) = last_deps (bl_deps st) [e]"
    by (cases e) (auto simp: last_deps_def start_reveal_def Let_def split: prod.split)
  then show ?case using Cons.IH by (simp add: last_deps_def)
qed (simp add: last_deps_def)

text \<open>C30. A bar chart answers the pointer only when its bars are there: after any sequence of renders and timers, a
  chart whose status is loading neither can be used nor has a reveal running, whatever was running before; a
  ready one can be used exactly when its reveal is over, and while one runs its end makes it usable; and as long
  as it cannot be used, moving and leaving change no tooltip.\<close>

theorem bars_usable_when_revealed:
  "let st = foldl bar_life_step (bar_life_init deps rows) es; status = snd (snd (last_deps deps es)) in
   (if status = StatusLoading then \<not> canInteract st \<and> bl_timer st = None
    else (canInteract st \<longleftrightarrow> bl_timer st = None) \<and> canInteract (bar_life_step st RevealOver)) \<and>
   (if canInteract st then True else on_mouse_move E st pos tip = tip \<and> on_mouse_leave st tip = tip)"
proof -
  let ?st = "foldl bar_life_step (bar_life_init deps rows) es"
  have "bl_deps (bar_life_init deps rows) = deps"
    by (simp add: bar_life_init_def start_reveal_def Let_def split: prod.split)
  then have "bl_deps ?st = last_deps deps es" by (simp add: bl_deps_run)
  moreover have "bar_life_ok ?st" by (intro bar_life_ok_run) (simp add: bar_life_init_def start_reveal_ok)
  ultimately show ?thesis
    by (auto simp: bar_life_ok_def canInteract_def on_mouse_move_def on_mouse_leave_def Let_def)
qed

subsection \<open>A bar grows to where it stays\<close>

text \<open>The entrance of a bar ends where the bar stays: apart from lying stacks, the rectangle an element comes to
  while the chart reveals is the one it is drawn with at rest, in the same place of the list and with the same
  radius; a growing bar starts with no length, at the base line, over the same part of its band.\<close>

theorem bars_grow_in_place:
  assumes "\<not> (be_horizontal E \<and> be_stacked E)"
  shows "map (map_option (\<lambda>e. (el_key e, el_target e, el_radius e))) (Bar_elements E b look False hovered legend) =
     map (map_option (\<lambda>e. (el_key e, el_target e, el_radius e))) (Bar_elements E b look True hovered legend) \<and>
   list_all (\<lambda>x. case x of None \<Rightarrow> True | Some e \<Rightarrow>
     (if lk_animate look \<and> lk_animationType look = Grow then
        (if be_horizontal E
         then br_x (el_initial e) = 0 \<and> br_width (el_initial e) = 0 \<and> br_y (el_initial e) = br_y (el_target e) \<and>
           br_height (el_initial e) = br_height (el_target e)
         else br_y (el_initial e) = be_innerHeight E \<and> br_height (el_initial e) = 0 \<and> br_x (el_initial e) = br_x (el_target e) \<and>
           br_width (el_initial e) = br_width (el_target e))
      else el_initial e = el_target e)) (Bar_elements E b look False hovered legend)"
proof -
  have row: "map_option (\<lambda>e. (el_key e, el_target e, el_radius e)) (BarInner_row E b look False hovered legend i d) =
     map_option (\<lambda>e. (el_key e, el_target e, el_radius e)) (BarInner_row E b look True hovered legend i d)" for i d
    using assms by (auto simp: BarInner_row_def AnimatedBar_def bar_rect_of_def horizontal_bar_def Let_def
        split: option.split BarAnimationType.split)
  have start: "case BarInner_row E b look False hovered legend i d of None \<Rightarrow> True | Some e \<Rightarrow>
     (if lk_animate look \<and> lk_animationType look = Grow then
        (if be_horizontal E
         then br_x (el_initial e) = 0 \<and> br_width (el_initial e) = 0 \<and> br_y (el_initial e) = br_y (el_target e) \<and>
           br_height (el_initial e) = br_height (el_target e)
         else br_y (el_initial e) = be_innerHeight E \<and> br_height (el_initial e) = 0 \<and> br_x (el_initial e) = br_x (el_target e) \<and>
           br_width (el_initial e) = br_width (el_target e))
      else el_initial e = el_target e)" for i d
    by (auto simp: BarInner_row_def AnimatedBar_def Let_def split: option.split BarAnimationType.split)
  show ?thesis
  proof (cases "bandWidth E = 0")
    case False
    then have "Bar_elements E b look isLoaded hovered legend =
        map (\<lambda>x. BarInner_row E b look isLoaded hovered legend (fst x) (snd x)) (enumerate 0 (be_data E))" for isLoaded
      by (simp add: Bar_elements_def split_beta)
    then show ?thesis by (simp only: map_map comp_def row list.pred_map) (simp only: list_all_iff start simp_thms ball_triv)
  qed (simp add: Bar_elements_def)
qed

text \<open>A lying stack grows every bar from the left edge and jumps to its place when the reveal is over.\<close>

lemma lying_stack_jumps:
  "let look = \<lparr>lk_lineCap = CapRound, lk_animate = True, lk_animationType = Grow, lk_fadedOpacity = 3 / 10\<rparr>;
       place = (\<lambda>isLoaded. map_option (\<lambda>e. br_x (el_target e)) (BarInner_row (demo_bars True True) (default_bar (demo_line ''out'')) look isLoaded None None 0
         (''Jan'', 10, 4)))
   in place False = Some 0 \<and> place True = Some (1000 / 7)"
  by code_simp

subsection \<open>Labels and bars\<close>

lemma labelsToShow_subset: "set (labelsToShow showAll maxLabels labels) \<subseteq> set labels"
proof -
  have "set (map snd (filter P (enumerate 0 labels))) \<subseteq> set (map snd (enumerate 0 labels))" for P
    unfolding set_map by (rule image_mono) (rule filter_is_subset)
  then show ?thesis by (simp only: labelsToShow_def Let_def map_snd_enumerate subset_refl split: if_split) simp
qed

lemma band_middle:
  assumes "distinct (map lc_dataKey (be_lines E))" and "be_lines E \<noteq> []" and "bandWidth E \<noteq> 0"
  shows "bar_start E (default_bar (hd (be_lines E))) d = bandPos E d"
    and "bar_start E (default_bar (last (be_lines E))) d + barWidth E (default_bar (last (be_lines E))) = bandPos E d + bandWidth E"
proof -
  let ?n = "length (be_lines E)"
  have n: "0 < ?n" using assms(2) by simp
  have first: "hd (be_lines E) = be_lines E ! 0" and "last": "last (be_lines E) = be_lines E ! (?n - 1)"
    using assms(2) by (simp_all add: hd_conv_nth last_conv_nth)
  have k: "seriesIndex E (default_bar (be_lines E ! i)) = i" if "i < ?n" for i
    using index_where_distinct [OF assms(1) that] by (simp add: seriesIndex_def)
  show "bar_start E (default_bar (hd (be_lines E))) d = bandPos E d"
    using k [OF n] by (simp add: bar_start_def first)
  have one: "Suc 0 \<le> ?n" using n by (rule Suc_leI)
  then have "rat_of_nat (?n - 1) = of_nat ?n - 1" by (simp only: of_nat_diff One_nat_def of_nat_Suc of_nat_0 add_0)
  then show "bar_start E (default_bar (last (be_lines E))) d + barWidth E (default_bar (last (be_lines E))) = bandPos E d + bandWidth E"
    using k [of "?n - 1"] n assms(2,3)
    using le_eq_less_or_eq [THEN iffD1, OF one]
    by (auto simp: bar_start_def "last" barWidth_def Let_def field_simps)
qed

text \<open>A label stands under its bars: in a chart whose series have different keys, every label an axis prints is
  the category of a row, and its middle is half way between the left edge of the row's first bar and the right
  edge of its last one; a label at the side spans exactly the bars of its row, and carries the row's index.\<close>

theorem labels_stand_at_bars:
  assumes "distinct (map lc_dataKey (be_lines E))" and "be_lines E \<noteq> []"
    and "first = default_bar (hd (be_lines E))" and "final = default_bar (last (be_lines E))"
  shows "list_all (\<lambda>(label, x). list_ex (\<lambda>d. be_category E d = label \<and>
       x - marginLeft = (bar_start E first d + (bar_start E final d + barWidth E final)) / 2) (be_data E))
     (bar_x_labels E marginLeft showAll maxLabels) \<and>
   list_all (\<lambda>l. yl_index l < length (be_data E) \<and>
       (let d = be_data E ! yl_index l in be_category E d = yl_label l \<and> yl_y l - marginTop = bar_start E first d \<and>
         yl_y l - marginTop + yl_bandHeight l = bar_start E final d + barWidth E final))
     (bar_y_labels E marginTop showAll maxLabels)"
proof (cases "bandWidth E = 0")
  case True
  then show ?thesis by (simp add: bar_x_labels_def bar_y_labels_def)
next
  case False
  note middle = band_middle [OF assms(1,2) False, folded assms(3,4)]
  have "list_ex (\<lambda>d. be_category E d = label \<and>
       x - marginLeft = (bar_start E first d + (bar_start E final d + barWidth E final)) / 2) (be_data E)"
    if "(label, x) \<in> set (bar_x_labels E marginLeft showAll maxLabels)" for label x
  proof -
    note among = subsetD [OF labelsToShow_subset that [unfolded bar_x_labels_def if_not_P [OF False]]]
    obtain d where "d \<in> set (be_data E)" "label = be_category E d" "x = bandPos E d + bandWidth E / 2 + marginLeft"
      using among by auto
    then show ?thesis unfolding middle list_ex_iff by (auto simp: field_simps)
  qed
  moreover have "yl_index l < length (be_data E) \<and>
       (let d = be_data E ! yl_index l in be_category E d = yl_label l \<and> yl_y l - marginTop = bar_start E first d \<and>
         yl_y l - marginTop + yl_bandHeight l = bar_start E final d + barWidth E final)"
    if "l \<in> set (bar_y_labels E marginTop showAll maxLabels)" for l
  proof -
    note among = subsetD [OF labelsToShow_subset that [unfolded bar_y_labels_def if_not_P [OF False]]]
    obtain i where "i < length (be_data E)"
      "l = \<lparr>yl_label = be_category E (be_data E ! i), yl_y = bandPos E (be_data E ! i) + marginTop, yl_bandHeight = bandWidth E, yl_index = i\<rparr>"
      using among by (auto simp: in_set_enumerate_eq)
    then show ?thesis unfolding Let_def middle by simp
  qed
  ultimately show ?thesis by (auto simp: list_all_iff)
qed

subsection \<open>The pointer over time\<close>

text \<open>What happens to the tooltip of a chart between two renders with other rows: the pointer moves - to a place in
  the plot, or somewhere without one - or leaves, and frames are painted, each while the chart can or cannot be used.\<close>

datatype bar_pointer = PointerMoves "rat option" | PointerLeaves | FramePaints

definition bar_pointer_step :: "'r bar_env \<Rightarrow> 'r scheduled \<Rightarrow> bar_life \<times> bar_pointer \<Rightarrow> 'r scheduled" where
  "bar_pointer_step E st e =
     (case snd e of
        PointerMoves pos \<Rightarrow> on_mouse_move E (fst e) pos st
      | PointerLeaves \<Rightarrow> on_mouse_leave (fst e) st
      | FramePaints \<Rightarrow> frame st)"

lemma show_nat_inj: "show_nat m = show_nat n \<Longrightarrow> m = n"
  by (metis option.inject radix_digits_show_nat)

lemma dedupe_key_index:
  assumes "defaultDedupeKey a = defaultDedupeKey b"
  shows "td_index a = td_index b"
proof -
  have "takeWhile is_digit (defaultDedupeKey td) = show_nat (td_index td)" for td :: "'r TooltipData"
  proof -
    have "\<not> is_digit CHR '':''" by (simp add: is_digit_def)
    then show ?thesis by (simp add: defaultDedupeKey_def takeWhile_append2 show_nat_digits)
  qed
  with assms have "show_nat (td_index a) = show_nat (td_index b)" by metis
  then show ?thesis by (rule show_nat_inj)
qed

lemma bar_tooltip_index: "bar_tooltip E pos = Some td \<Longrightarrow> td_index td = clampedIndex E pos"
  by (auto simp: bar_tooltip_def Let_def split: option.splits)

lemma bar_tooltip_same_key:
  assumes "bar_tooltip E pos = Some a" and "bar_tooltip E pos' = Some b" and "defaultDedupeKey a = defaultDedupeKey b"
  shows "a = b"
proof -
  have "clampedIndex E pos = clampedIndex E pos'"
    using dedupe_key_index [OF assms(3)] assms(1,2) by (simp add: bar_tooltip_index)
  then have "bar_tooltip E pos = bar_tooltip E pos'" by (simp only: bar_tooltip_def)
  with assms(1,2) show ?thesis by simp
qed

text \<open>What the scheduler holds are tooltips of this chart under their own keys, and the last key is that of the
  tooltip on screen.\<close>

definition bar_tip_ok :: "'r bar_env \<Rightarrow> 'r scheduled \<Rightarrow> bool" where
  "bar_tip_ok E st \<longleftrightarrow>
     (case tp_pending st of
        None \<Rightarrow> tp_pendingKey st = None
      | Some td \<Rightarrow> tp_pendingKey st = Some (defaultDedupeKey td) \<and> (\<exists>pos. bar_tooltip E pos = Some td)) \<and>
     (case tp_tooltipData st of
        None \<Rightarrow> tp_lastKey st = None
      | Some td \<Rightarrow> tp_lastKey st = Some (defaultDedupeKey td) \<and> (\<exists>pos. bar_tooltip E pos = Some td))"

lemma bar_tip_ok_step: "bar_tip_ok E st \<Longrightarrow> bar_tip_ok E (bar_pointer_step E st e)"
proof (cases "snd e")
  case (PointerMoves pos)
  then show "bar_tip_ok E st \<Longrightarrow> bar_tip_ok E (bar_pointer_step E st e)"
    by (auto simp: bar_tip_ok_def bar_pointer_step_def on_mouse_move_def bar_handleMouseMove_def scheduleTooltip_def Let_def
        split: option.splits)
next
  case PointerLeaves
  then show "bar_tip_ok E st \<Longrightarrow> bar_tip_ok E (bar_pointer_step E st e)"
    by (auto simp: bar_tip_ok_def bar_pointer_step_def on_mouse_leave_def clearTooltip_def)
next
  case FramePaints
  then show "bar_tip_ok E st \<Longrightarrow> bar_tip_ok E (bar_pointer_step E st e)"
    by (auto simp: bar_tip_ok_def bar_pointer_step_def frame_def commitTooltip_def Let_def split: option.splits)
qed

lemma bar_tip_ok_run: "bar_tip_ok E (foldl (bar_pointer_step E) scheduled_init es)"
proof -
  have "bar_tip_ok E st \<Longrightarrow> bar_tip_ok E (foldl (bar_pointer_step E) st es)" for st
    by (induction es arbitrary: st) (auto intro: bar_tip_ok_step)
  then show ?thesis by (simp add: bar_tip_ok_def scheduled_init_def)
qed

lemma tip_after_move:
  assumes "bar_tip_ok E st" and "canInteract life" and "bar_tooltip E pos = Some td"
  shows "tp_tooltipData (frame (on_mouse_move E life (Some pos) st)) = Some td"
proof -
  have same: "tp_tooltipData st = Some td" if "tp_lastKey st = Some (defaultDedupeKey td)"
    using assms(1,3) that bar_tooltip_same_key [of E _ _ pos td]
    by (auto simp: bar_tip_ok_def split: option.splits)
  let ?key = "defaultDedupeKey td" and ?st = "st\<lparr>tp_pending := Some td, tp_pendingKey := Some (defaultDedupeKey td)\<rparr>"
  have key: "?key \<noteq> []" by (simp add: defaultDedupeKey_def)
  have "on_mouse_move E life (Some pos) st =
      (if tp_lastKey st = Some ?key \<or> tp_raf st then ?st else ?st\<lparr>tp_raf := True\<rparr>)"
    using assms(2,3) by (simp add: on_mouse_move_def bar_handleMouseMove_def scheduleTooltip_def Let_def)
  moreover have "tp_tooltipData (frame (?st\<lparr>tp_raf := True\<rparr>)) = Some td"
    using same key by (simp add: frame_def commitTooltip_def Let_def)
  moreover have "?st = ?st\<lparr>tp_raf := True\<rparr>" if "tp_raf st" using that by (cases st) simp
  moreover have "tp_tooltipData (frame ?st) = Some td" if "tp_lastKey st = Some ?key"
    using same [OF that] key that by (simp add: frame_def commitTooltip_def Let_def)
  ultimately show ?thesis by (metis (no_types, lifting))
qed

subsection \<open>The row under the pointer\<close>

text \<open>C28. The row under the pointer is the one in focus, everywhere: in a chart that can be used and whose rows have
  different labels, after any moves, leavings and frames since its rows and size last changed, a move over the bar
  of a row and the frame after it bring up that row's tooltip, whatever was shown or pending before; then the bars of
  that row keep their full colour and those of every other row are dimmed; under the bars a label is gone exactly
  within the half width of the tooltip's pill around the middle of that row - its own label is there - and has its
  full colour exactly from twenty pixels beyond it; and at the side the row's label, and no other, is lit.\<close>

theorem hovered_row_in_focus:
  assumes "band_law p (be_scaleBand E)" and "0 \<le> p" and "be_barWidth E = None" and "0 < be_extent E"
    and "distinct (map (be_category E) (be_data E))" and "i < length (be_data E)"
    and "bar_rect_of E b (be_data E ! i) = Some r" and "0 \<le> bp_groupGap b"
    and "seriesIndex E b < length (be_lines E)" and "covers E r pos" and "canInteract life" and "0 < tickerHalfWidth"
    and "tip = tp_tooltipData (frame (on_mouse_move E life (Some pos) (foldl (bar_pointer_step E) scheduled_init es)))"
    and "middle = bandPos E (be_data E ! i) + bandWidth E / 2 + marginLeft"
  shows "map_option td_point tip = Some (be_data E ! i) \<and> hoveredBarIndex tip = Some i \<and>
    list_all (\<lambda>(j, x). case x of None \<Rightarrow> True | Some e \<Rightarrow> el_opacity e = (if j = i then 1 else lk_fadedOpacity look))
      (enumerate 0 (Bar_elements E b' look True (hoveredBarIndex tip) None)) \<and>
    (if be_horizontal E then True else list_all (\<lambda>(label, x, opacity).
        (if label = be_category E (be_data E ! i) then x = middle else True) \<and>
        (opacity = 0 \<longleftrightarrow> \<bar>x - middle\<bar> \<le> tickerHalfWidth) \<and>
        (opacity = 1 \<longleftrightarrow> tickerHalfWidth + 20 \<le> \<bar>x - middle\<bar>) \<and> 0 \<le> opacity \<and> opacity \<le> 1)
      (BarXAxis E marginLeft showAll maxLabels tickerHalfWidth tip)) \<and>
    list_all (\<lambda>(l, lit). lit \<longleftrightarrow> yl_index l = i) (BarYAxis E marginTop showAll maxLabels (hoveredBarIndex tip))"
proof -
  have named: "map_option (\<lambda>td. (td_index td, td_point td)) (bar_tooltip E pos) = Some (i, be_data E ! i)"
    by (rule hovered_bar_is_named [OF assms(1-10)])
  then obtain td where td: "bar_tooltip E pos = Some td" "td_index td = i" "td_point td = be_data E ! i" by auto
  have tip: "tip = Some td"
    unfolding assms(13) by (rule tip_after_move [OF bar_tip_ok_run assms(11) td(1)])
  have bars: "list_all (\<lambda>(j, x). case x of None \<Rightarrow> True | Some e \<Rightarrow> el_opacity e = (if j = i then 1 else lk_fadedOpacity look))
      (enumerate 0 (Bar_elements E b' look True (hoveredBarIndex tip) None))"
    using td(2) by (auto simp: list_all_iff Bar_elements_def tip hoveredBarIndex_def BarInner_row_def isFaded_def Let_def in_set_enumerate_eq
      nth_enumerate_eq split: option.splits)
  have below: "list_all (\<lambda>(label, x, opacity).
        (if label = be_category E (be_data E ! i) then x = middle else True) \<and>
        (opacity = 0 \<longleftrightarrow> \<bar>x - middle\<bar> \<le> tickerHalfWidth) \<and>
        (opacity = 1 \<longleftrightarrow> tickerHalfWidth + 20 \<le> \<bar>x - middle\<bar>) \<and> 0 \<le> opacity \<and> opacity \<le> 1)
      (BarXAxis E marginLeft showAll maxLabels tickerHalfWidth tip)" if standing: "\<not> be_horizontal E"
  proof -
    have x: "td_x td + marginLeft = middle"
      using td standing by (auto simp: bar_tooltip_def assms(14) Let_def split: option.splits)
    have at: "x = middle"
      if among: "(be_category E (be_data E ! i), x) \<in> set (bar_x_labels E marginLeft showAll maxLabels)" for x
    proof -
      have "bandWidth E \<noteq> 0" using among by (auto simp: bar_x_labels_def)
      note row = subsetD [OF labelsToShow_subset among [unfolded bar_x_labels_def if_not_P [OF this]]]
      obtain d where "be_category E d = be_category E (be_data E ! i)" "x = bandPos E d + bandWidth E / 2 + marginLeft"
        using row by auto
      then show ?thesis by (simp add: bandPos_def assms(14))
    qed
    define fade where "fade = (\<lambda>x. BarXAxisLabel_opacity x (Some middle) tickerHalfWidth)"
    have fades: "(fade x = 0 \<longleftrightarrow> \<bar>x - middle\<bar> \<le> tickerHalfWidth) \<and> (fade x = 1 \<longleftrightarrow> tickerHalfWidth + 20 \<le> \<bar>x - middle\<bar>) \<and>
        0 \<le> fade x \<and> fade x \<le> 1" for x
      unfolding fade_def BarXAxisLabel_opacity_def Let_def option.case by (auto simp: field_simps)
    have "BarXAxis E marginLeft showAll maxLabels tickerHalfWidth tip =
        map (\<lambda>(label, x). (label, x, fade x)) (bar_x_labels E marginLeft showAll maxLabels)"
      by (simp add: BarXAxis_def tip x fade_def Let_def)
    then show ?thesis using at fades by (auto simp: list_all_iff)
  qed
  have side: "list_all (\<lambda>(l, lit). lit \<longleftrightarrow> yl_index l = i) (BarYAxis E marginTop showAll maxLabels (hoveredBarIndex tip))"
    using td(2) by (auto simp: list_all_iff BarYAxis_def tip hoveredBarIndex_def)
  show ?thesis using tip td(2,3) bars below side by (simp add: hoveredBarIndex_def)
qed

subsection \<open>A chart of two months\<close>

definition demo_look :: bar_look where
  "demo_look = \<lparr>lk_lineCap = CapRound, lk_animate = True, lk_animationType = Grow, lk_fadedOpacity = 3 / 10\<rparr>"

definition demo_revealed :: bar_life where
  "demo_revealed = bar_life_step (bar_life_init (500, [], StatusReady) 2) RevealOver"

theorem bars_grow_in_place_witness:
  "map (map_option (\<lambda>e. (el_key e, el_target e, el_radius e))) (Bar_elements (demo_bars False True) (default_bar (demo_line ''out'')) demo_look False None None) =
   map (map_option (\<lambda>e. (el_key e, el_target e, el_radius e))) (Bar_elements (demo_bars False True) (default_bar (demo_line ''out'')) demo_look True None None)"
  using bars_grow_in_place [of "demo_bars False True" "default_bar (demo_line ''out'')" demo_look None None] by simp

theorem labels_stand_at_bars_witness:
  "list_all (\<lambda>(label, x). list_ex (\<lambda>d. be_category (demo_bars False False) d = label \<and>
       x - 40 = (bar_start (demo_bars False False) (default_bar (demo_line ''in'')) d +
         (bar_start (demo_bars False False) (default_bar (demo_line ''out'')) d +
          barWidth (demo_bars False False) (default_bar (demo_line ''out'')))) / 2) (be_data (demo_bars False False)))
     (bar_x_labels (demo_bars False False) 40 False 12)"
proof -
  let ?E = "demo_bars False False"
  have lines: "distinct (map lc_dataKey (be_lines ?E))" "be_lines ?E \<noteq> []"
    "default_bar (demo_line ''in'') = default_bar (hd (be_lines ?E))" "default_bar (demo_line ''out'') = default_bar (last (be_lines ?E))"
    by (simp_all add: demo_line_def)
  show ?thesis by (rule labels_stand_at_bars [OF lines, THEN conjunct1])
qed

text \<open>The second bar of February, after the first of January: the pointer at 50, then at 170.\<close>

theorem hovered_row_in_focus_witness:
  "hoveredBarIndex (tp_tooltipData (frame (on_mouse_move (demo_bars False False) demo_revealed (Some 170)
     (foldl (bar_pointer_step (demo_bars False False)) scheduled_init
       [(demo_revealed, PointerMoves (Some 50)), (demo_revealed, FramePaints)])))) = Some 1"
proof -
  let ?E = "demo_bars False False" and ?r = "\<lparr>br_x = 162, br_y = 30, br_width = 38, br_height = 80\<rparr>"
  let ?es = "[(demo_revealed, PointerMoves (Some 50)), (demo_revealed, FramePaints)]"
  have "bar_rect_of ?E (default_bar (demo_line ''out'')) (be_data ?E ! 1) = Some ?r" by code_simp
  moreover have "covers ?E ?r 170" by code_simp
  moreover have "distinct (map (be_category ?E) (be_data ?E))" by code_simp
  moreover have "0 < be_extent ?E" "seriesIndex ?E (default_bar (demo_line ''out'')) < length (be_lines ?E)" by code_simp+
  moreover have "canInteract demo_revealed" by code_simp
  ultimately show ?thesis
    using hovered_row_in_focus [of "1 / 5" ?E 1 "default_bar (demo_line ''out'')" ?r 170 demo_revealed 50
      "tp_tooltipData (frame (on_mouse_move ?E demo_revealed (Some 170) (foldl (bar_pointer_step ?E) scheduled_init ?es)))"
      ?es _ 40 demo_look "default_bar (demo_line ''in'')" True 12] demo_band_law by simp
qed

end
