(* ===== verification/Tooltip_View.thy ===== *)
theory Tooltip_View
  imports Chart_Bars Bar_Drawing Chart_View
begin

section \<open>What the pointer brings up: the tooltip directory of the chart library\<close>

text \<open>
  \<open>src/web/src/components/charts/tooltip\<close>: \<open>chart-tooltip.tsx\<close> (the crosshair, the dots, the panel and the pill of a
  chart under the pointer), \<open>tooltip-box.tsx\<close> (where the panel stands), \<open>tooltip-content.tsx\<close> (its rows),
  \<open>date-ticker.tsx\<close> (the pill), \<open>tooltip-dot.tsx\<close>, \<open>tooltip-indicator.tsx\<close>, and \<open>indicator-fade.ts\<close> and
  \<open>chart-config-context.tsx\<close> beside it. A spring is its target: where it comes to rest. The size the browser
  measured is an argument.
\<close>

subsection \<open>chart-config-context.tsx, indicator-fade.ts\<close>

record SpringConfig =
  sp_stiffness :: rat
  sp_damping :: rat

definition tooltipSpring :: SpringConfig where "tooltipSpring = \<lparr>sp_stiffness = 300, sp_damping = 30\<rparr>"
definition tooltipBoxSpring :: SpringConfig where "tooltipBoxSpring = \<lparr>sp_stiffness = 100, sp_damping = 20\<rparr>"

text \<open>Whether the panel follows with a spring, and with which.\<close>

definition resolveTooltipBoxMotion :: "rat option \<Rightarrow> bool \<times> SpringConfig" where
  "resolveTooltipBoxMotion damping =
     (if damping = Some 0 then (False, tooltipBoxSpring)
      else
        let effectiveDamping = (case damping of Some d \<Rightarrow> d | None \<Rightarrow> sp_damping tooltipBoxSpring);
            stiffness = sp_stiffness tooltipBoxSpring;
            stiffness =
              (if effectiveDamping < sp_damping tooltipBoxSpring
               then stiffness + (sp_damping tooltipBoxSpring - effectiveDamping) / sp_damping tooltipBoxSpring * 400
               else if effectiveDamping > sp_damping tooltipBoxSpring
               then stiffness - (effectiveDamping - sp_damping tooltipBoxSpring) / (100 - sp_damping tooltipBoxSpring) * 85
               else stiffness)
        in (True, \<lparr>sp_stiffness = max 12 (of_int (math_round stiffness)), sp_damping = effectiveDamping\<rparr>))"

datatype IndicatorFadeEdges = FadeBoth | FadeNone | FadeTop | FadeBottom

definition resolveVerticalFadeSides :: "IndicatorFadeEdges \<Rightarrow> bool \<times> bool" where
  "resolveVerticalFadeSides fade = (fade = FadeBoth \<or> fade = FadeTop, fade = FadeBoth \<or> fade = FadeBottom)"

text \<open>Offsets are per cent of the height.\<close>

definition indicatorFadeGradientStops :: "bool \<times> bool \<Rightarrow> rat \<Rightarrow> (rat \<times> rat) list" where
  "indicatorFadeGradientStops sides fadeLengthPercent =
     (let fade = min 40 (max 2 fadeLengthPercent); innerEnd = 100 - fade in
      if \<not> (fst sides \<or> snd sides) then [(0, 1)]
      else if fst sides \<and> snd sides then [(0, 0), (fade, 1), (50, 1), (innerEnd, 1), (100, 0)]
      else if fst sides then [(0, 0), (fade, 1), (100, 1)]
      else [(0, 1), (innerEnd, 1), (100, 0)])"

subsection \<open>tooltip-content.tsx\<close>

datatype tooltip_value = ValueText string | ValueNumber rat

record TooltipRow =
  tr_color :: string
  tr_label :: string
  tr_value :: tooltip_value

definition TooltipContent :: "(rat \<Rightarrow> string) \<Rightarrow> string option \<Rightarrow> TooltipRow list \<Rightarrow> html option \<Rightarrow> html" where
  "TooltipContent intFmt title rows children =
     El ''div'' [] [El ''div'' []
       ((case title of Some s \<Rightarrow> if s \<noteq> [] then [El ''div'' [] [Txt s]] else [] | None \<Rightarrow> []) @
        [El ''div'' [] (map (\<lambda>row. El ''div'' [(''key'', tr_label row @ ''-'' @ tr_color row)]
           [El ''div'' [] [El ''span'' [(''backgroundColor'', tr_color row)] [], El ''span'' [] [Txt (tr_label row)]],
            El ''span'' [] [Txt (case tr_value row of ValueNumber v \<Rightarrow> intFmt v | ValueText s \<Rightarrow> s)]]) rows)] @
        (case children of Some h \<Rightarrow> [El ''div'' [] [h]] | None \<Rightarrow> []))]"

subsection \<open>date-ticker.tsx\<close>

definition COMPACT_TICKER_THRESHOLD :: nat where "COMPACT_TICKER_THRESHOLD = 60"
definition TICKER_ITEM_HEIGHT :: int where "TICKER_ITEM_HEIGHT = 24"

definition compact_label :: "string list \<Rightarrow> nat \<Rightarrow> string" where
  "compact_label labels currentIndex =
     (case js_at labels currentIndex of Some s \<Rightarrow> s | None \<Rightarrow> (case js_at labels 0 of Some s \<Rightarrow> s | None \<Rightarrow> []))"

definition parsedLabel :: "string \<Rightarrow> string \<times> string" where
  "parsedLabel label =
     (let parts = js_split CHR '' '' label
      in (case js_at parts 0 of Some s \<Rightarrow> s | None \<Rightarrow> [], case js_at parts 1 of Some s \<Rightarrow> s | None \<Rightarrow> []))"

text \<open>A segment is a month and the index of its first label.\<close>

fun push_segment :: "(string \<times> nat) list \<Rightarrow> nat \<times> string \<Rightarrow> (string \<times> nat) list" where
  "push_segment segments (i, month) =
     (if segments = [] \<or> fst (last segments) \<noteq> month then segments @ [(month, i)] else segments)"

definition monthSegments :: "string list \<Rightarrow> (string \<times> nat) list" where
  "monthSegments labels = foldl push_segment [] (enumerate 0 (map (fst \<circ> parsedLabel) labels))"

definition currentMonthIndex :: "string list \<Rightarrow> nat \<Rightarrow> nat" where
  "currentMonthIndex labels currentIndex =
     (let segments = monthSegments labels in
      if currentIndex \<ge> length labels then 0
      else case filter (\<lambda>i. snd (segments ! i) \<le> currentIndex) (rev [0..<length segments]) of
        i # _ \<Rightarrow> i | [] \<Rightarrow> 0)"

record ticker =
  tk_prevMonthIndex :: int
  tk_dayY :: int
  tk_monthY :: int

definition ticker_init :: ticker where
  "ticker_init = \<lparr>tk_prevMonthIndex = -1, tk_dayY = 0, tk_monthY = 0\<rparr>"

definition DateTickerInner :: "string list \<Rightarrow> nat \<Rightarrow> ticker \<Rightarrow> ticker" where
  "DateTickerInner labels currentIndex st =
     (let month = int (currentMonthIndex labels currentIndex);
          st = st\<lparr>tk_dayY := - (int currentIndex * TICKER_ITEM_HEIGHT)\<rparr>
      in if tk_prevMonthIndex st = -1 \<or> tk_prevMonthIndex st \<noteq> month
         then st\<lparr>tk_monthY := - (month * TICKER_ITEM_HEIGHT), tk_prevMonthIndex := month\<rparr> else st)"

text \<open>What shows through the window of the pill, one item high: the month and the day the two stacks have come to.\<close>

definition item_at :: "'a list \<Rightarrow> int \<Rightarrow> 'a option" where
  "item_at items y = js_at items (nat ((- y) div TICKER_ITEM_HEIGHT))"

definition pill_shows :: "string list \<Rightarrow> ticker \<Rightarrow> string option \<times> string option" where
  "pill_shows labels st =
     (map_option fst (item_at (monthSegments labels) (tk_monthY st)), item_at (map (snd \<circ> parsedLabel) labels) (tk_dayY st))"

subsection \<open>tooltip-box.tsx\<close>

record box_props =
  bx_x :: rat
  bx_y :: rat
  bx_containerWidth :: rat
  bx_containerHeight :: rat
  bx_offset :: rat
  bx_left :: "rat option"
  bx_top :: "rat option"
  bx_flipped :: "bool option"
  bx_animate :: bool
  bx_entrance :: bool

record tooltip_box =
  tb_width :: rat
  tb_height :: rat
  tb_staticPosition :: "rat \<times> rat"
  tb_animatedLeft :: rat
  tb_animatedTop :: rat
  tb_deps :: "box_props option"

definition shouldFlipX :: "box_props \<Rightarrow> rat \<Rightarrow> bool" where
  "shouldFlipX p w \<longleftrightarrow> bx_x p + w + bx_offset p > bx_containerWidth p"

definition targetX :: "box_props \<Rightarrow> rat \<Rightarrow> rat" where
  "targetX p w = (if shouldFlipX p w then bx_x p - bx_offset p - w else bx_x p + bx_offset p)"

definition targetY :: "box_props \<Rightarrow> rat \<Rightarrow> rat" where
  "targetY p h = max (bx_offset p) (min (bx_y p - h / 2) (bx_containerHeight p - h - bx_offset p))"

text \<open>The panel when it comes up: the sizes assumed before it was measured.\<close>

definition box_init :: "box_props \<Rightarrow> tooltip_box" where
  "box_init p =
     \<lparr>tb_width = 180, tb_height = 80, tb_staticPosition = (bx_x p, bx_y p), tb_animatedLeft = targetX p 180,
      tb_animatedTop = targetY p 80, tb_deps = None\<rparr>"

definition move_box :: "box_props \<Rightarrow> tooltip_box \<Rightarrow> tooltip_box" where
  "move_box p st =
     st\<lparr>tb_animatedLeft := (if bx_left p = None then targetX p (tb_width st) else tb_animatedLeft st),
        tb_animatedTop := (if bx_top p = None then targetY p (tb_height st) else tb_animatedTop st)\<rparr>"

definition box_render :: "box_props \<Rightarrow> tooltip_box \<Rightarrow> tooltip_box" where
  "box_render p st = (if bx_animate p then move_box p st else st)"

text \<open>The layout effect, with the size the browser measured.\<close>

definition box_layout :: "box_props \<Rightarrow> rat \<times> rat \<Rightarrow> tooltip_box \<Rightarrow> tooltip_box" where
  "box_layout p measured st =
     (let st = st\<lparr>tb_width := (if fst measured > 0 then fst measured else tb_width st),
                 tb_height := (if snd measured > 0 then snd measured else tb_height st)\<rparr>
      in if \<not> bx_animate p then st\<lparr>tb_staticPosition := (targetX p (tb_width st), targetY p (tb_height st))\<rparr>
         else move_box p st)"

definition layout_deps :: "box_props \<Rightarrow> box_props" where
  "layout_deps p = p\<lparr>bx_flipped := None, bx_entrance := True\<rparr>"

definition box_commit :: "box_props \<Rightarrow> rat \<times> rat \<Rightarrow> tooltip_box \<Rightarrow> tooltip_box" where
  "box_commit p measured st =
     (let st = box_render p st in
      if tb_deps st = Some (layout_deps p) then st
      else (box_layout p measured st)\<lparr>tb_deps := Some (layout_deps p)\<rparr>)"

text \<open>Where the panel is drawn.\<close>

definition box_position :: "box_props \<Rightarrow> tooltip_box \<Rightarrow> rat \<times> rat" where
  "box_position p st =
     (if \<not> bx_entrance p \<or> \<not> bx_animate p then tb_staticPosition st
      else (case bx_left p of Some l \<Rightarrow> l | None \<Rightarrow> tb_animatedLeft st,
            case bx_top p of Some t \<Rightarrow> t | None \<Rightarrow> tb_animatedTop st))"

subsection \<open>chart-tooltip.tsx\<close>

text \<open>A color is given, or worked out from the point under the pointer.\<close>

record 'r tooltip_props =
  tt_showDatePill :: bool
  tt_showCrosshair :: bool
  tt_showDots :: bool
  tt_ring :: bool
  tt_dotSize :: rat
  tt_dotScale :: rat
  tt_indicatorColor :: "(string + ('r \<Rightarrow> string)) option"
  tt_content :: "('r \<Rightarrow> nat \<Rightarrow> html) option"
  tt_rows :: "('r \<Rightarrow> TooltipRow list) option"
  tt_dotColor :: "(string + ('r \<Rightarrow> LineConfig \<Rightarrow> string)) option"
  tt_children :: "html option"
  tt_springConfig :: "SpringConfig option"
  tt_matchCrosshair :: bool
  tt_damping :: "rat option"
  tt_boxSpringConfig :: "SpringConfig option"

text \<open>What \<open>useChart\<close> gives it: the chart, the tooltip, and for a band axis the category of a row.\<close>

record 'r tooltip_env =
  te_tooltipData :: "'r TooltipData option"
  te_width :: rat
  te_height :: rat
  te_marginLeft :: rat
  te_marginTop :: rat
  te_lines :: "LineConfig list"
  te_horizontal :: bool
  te_dateLabels :: "string list"
  te_barXAccessor :: "('r \<Rightarrow> string) option"
  te_weekday :: "'r \<Rightarrow> string"
  te_bandWidth :: "rat option"
  te_groupGap :: "rat option"
  te_value :: "'r \<Rightarrow> string \<Rightarrow> rat option"
  te_intFmt :: "rat \<Rightarrow> string"

definition discreteInteraction :: "'r tooltip_env \<Rightarrow> bool" where
  "discreteInteraction C \<longleftrightarrow> length (te_dateLabels C) > 60"

definition resolvedDotSize :: "'r tooltip_env \<Rightarrow> 'r tooltip_props \<Rightarrow> rat" where
  "resolvedDotSize C p =
     (let plain = tt_dotSize p * tt_dotScale p; n = length (te_lines C) in
      case te_bandWidth C of
        None \<Rightarrow> plain
      | Some w \<Rightarrow>
          if \<not> tt_ring p \<or> w = 0 \<or> n = 0 then plain
          else
            let gap = (case te_groupGap C of Some g \<Rightarrow> g | None \<Rightarrow> if n > 1 then 4 else 0);
                squareSize = (w - gap * (of_nat n - 1)) / of_nat n
            in squareSize / 2 * tt_dotScale p)"

definition boxMotion :: "'r tooltip_env \<Rightarrow> 'r tooltip_props \<Rightarrow> bool \<times> SpringConfig" where
  "boxMotion C p =
     (case tt_boxSpringConfig p of
        Some s \<Rightarrow> (\<not> discreteInteraction C, s)
      | None \<Rightarrow>
          if tt_matchCrosshair p
          then (\<not> discreteInteraction C, case tt_springConfig p of Some s \<Rightarrow> s | None \<Rightarrow> tooltipSpring)
          else resolveTooltipBoxMotion (tt_damping p))"

definition tooltip_x :: "'r tooltip_env \<Rightarrow> rat" where
  "tooltip_x C = (case te_tooltipData C of Some td \<Rightarrow> td_x td | None \<Rightarrow> 0)"

definition y_of :: "'r tooltip_env \<Rightarrow> string \<Rightarrow> rat" where
  "y_of C key = (case te_tooltipData C of
     Some td \<Rightarrow> (case map_of (rev (td_yPositions td)) key of Some y \<Rightarrow> y | None \<Rightarrow> 0) | None \<Rightarrow> 0)"

definition x_of :: "'r tooltip_env \<Rightarrow> string \<Rightarrow> rat" where
  "x_of C key = (case te_tooltipData C of
     Some td \<Rightarrow> (case td_xPositions td of
         Some xs \<Rightarrow> (case map_of (rev xs) key of Some x \<Rightarrow> x | None \<Rightarrow> tooltip_x C)
       | None \<Rightarrow> tooltip_x C)
   | None \<Rightarrow> tooltip_x C)"

definition firstLineY :: "'r tooltip_env \<Rightarrow> rat" where
  "firstLineY C = (case te_lines C of
     l # _ \<Rightarrow> if lc_dataKey l \<noteq> [] then y_of C (lc_dataKey l) else 0 | [] \<Rightarrow> 0)"

definition tooltipRows :: "'r tooltip_env \<Rightarrow> 'r tooltip_props \<Rightarrow> TooltipRow list" where
  "tooltipRows C p =
     (case te_tooltipData C of
        None \<Rightarrow> []
      | Some td \<Rightarrow> (case tt_rows p of
          Some f \<Rightarrow> f (td_point td)
        | None \<Rightarrow> map (\<lambda>line. \<lparr>tr_color = lc_stroke line, tr_label = lc_dataKey line,
            tr_value = ValueNumber (case te_value C (td_point td) (lc_dataKey line) of Some v \<Rightarrow> v | None \<Rightarrow> 0)\<rparr>) (te_lines C)))"

definition resolveDotColor :: "'r tooltip_env \<Rightarrow> 'r tooltip_props \<Rightarrow> LineConfig \<Rightarrow> nat \<Rightarrow> string" where
  "resolveDotColor C p line i =
     (let rest = (case (tt_dotColor p, te_tooltipData C) of
            (Some (Inr f), Some td) \<Rightarrow> f (td_point td) line
          | (Some (Inl s), _) \<Rightarrow> s
          | _ \<Rightarrow> lc_stroke line)
      in case js_at (tooltipRows C p) i of
           Some row \<Rightarrow> if tt_rows p \<noteq> None \<and> tr_color row \<noteq> [] then tr_color row else rest
         | None \<Rightarrow> rest)"

definition indicatorColor :: "'r tooltip_env \<Rightarrow> 'r tooltip_props \<Rightarrow> string" where
  "indicatorColor C p =
     (case (tt_indicatorColor p, te_tooltipData C) of
        (Some (Inl s), _) \<Rightarrow> s
      | (Some (Inr f), Some td) \<Rightarrow> f (td_point td)
      | _ \<Rightarrow> ''var(--chart-crosshair)'')"

definition tooltip_title :: "'r tooltip_env \<Rightarrow> string option" where
  "tooltip_title C =
     (case te_tooltipData C of
        None \<Rightarrow> None
      | Some td \<Rightarrow> (case te_barXAccessor C of Some f \<Rightarrow> Some (f (td_point td)) | None \<Rightarrow> Some (te_weekday C (td_point td))))"

record tooltip_dot =
  dt_key :: string
  dt_color :: string
  dt_x :: rat
  dt_y :: rat
  dt_size :: rat

definition tooltip_dots :: "'r tooltip_env \<Rightarrow> 'r tooltip_props \<Rightarrow> tooltip_dot list" where
  "tooltip_dots C p =
     (if tt_showDots p \<and> te_tooltipData C \<noteq> None \<and> \<not> te_horizontal C
      then map (\<lambda>(i, line). \<lparr>dt_key = lc_dataKey line, dt_color = resolveDotColor C p line i, dt_x = x_of C (lc_dataKey line),
             dt_y = y_of C (lc_dataKey line), dt_size = resolvedDotSize C p\<rparr>) (enumerate 0 (te_lines C))
      else [])"

definition tooltip_box_props :: "'r tooltip_env \<Rightarrow> 'r tooltip_props \<Rightarrow> box_props" where
  "tooltip_box_props C p =
     \<lparr>bx_x = tooltip_x C + te_marginLeft C, bx_y = (if te_horizontal C then firstLineY C + te_marginTop C else te_marginTop C),
      bx_containerWidth = te_width C, bx_containerHeight = te_height C, bx_offset = 16, bx_left = None,
      bx_top = (if te_horizontal C then None else Some (te_marginTop C)), bx_flipped = None,
      bx_animate = fst (boxMotion C p), bx_entrance = True\<rparr>"

definition panel_content :: "'r tooltip_env \<Rightarrow> 'r tooltip_props \<Rightarrow> html option" where
  "panel_content C p =
     (case (tt_content p, te_tooltipData C) of
        (Some f, Some td) \<Rightarrow> Some (f (td_point td) (td_index td))
      | (Some f, None) \<Rightarrow> None
      | (None, _) \<Rightarrow> Some (TooltipContent (te_intFmt C) (tooltip_title C) (tooltipRows C p) (tt_children p)))"

text \<open>The pill: whether it is there, its middle, and the index it turns to.\<close>

definition date_pill :: "'r tooltip_env \<Rightarrow> 'r tooltip_props \<Rightarrow> (rat \<times> nat) option" where
  "date_pill C p =
     (case te_tooltipData C of
        Some td \<Rightarrow> if tt_showDatePill p \<and> \<not> te_horizontal C \<and> te_dateLabels C \<noteq> []
          then Some (td_x td + te_marginLeft C, td_index td) else None
      | None \<Rightarrow> None)"

subsection \<open>tooltip-dot.tsx, tooltip-indicator.tsx\<close>

datatype dot_shape =
    DotCircle rat rat rat string string rat
  | RingRect rat rat rat rat string rat

definition ringCornerRadius :: "rat \<Rightarrow> rat \<Rightarrow> rat" where
  "ringCornerRadius halfExtent cornerRadiusFraction = halfExtent * 2 * max 0 (min (1 / 2) cornerRadiusFraction)"

text \<open>A circle has its middle, radius, fill, stroke and stroke width; a ring the corner and side of its square, its
  corner radius, stroke and stroke width.\<close>

definition TooltipDot :: "bool \<Rightarrow> rat option \<Rightarrow> rat option \<Rightarrow> tooltip_dot \<Rightarrow> dot_shape" where
  "TooltipDot ring cornerRadiusFraction strokeWidth d =
     (if ring
      then RingRect (dt_x d - dt_size d) (dt_y d - dt_size d) (dt_size d * 2)
        (ringCornerRadius (dt_size d) (case cornerRadiusFraction of Some f \<Rightarrow> f | None \<Rightarrow> 1 / 4)) (dt_color d)
        (case strokeWidth of Some w \<Rightarrow> w | None \<Rightarrow> 2)
      else DotCircle (dt_x d) (dt_y d) (dt_size d) (dt_color d) ''var(--chart-background)''
        (case strokeWidth of Some w \<Rightarrow> w | None \<Rightarrow> 2))"

datatype IndicatorWidth = WidthPixels rat | WidthLine | WidthThin | WidthMedium | WidthThick

fun resolveWidth :: "IndicatorWidth \<Rightarrow> rat" where
  "resolveWidth (WidthPixels w) = w"
| "resolveWidth WidthLine = 1"
| "resolveWidth WidthThin = 2"
| "resolveWidth WidthMedium = 4"
| "resolveWidth WidthThick = 8"

text \<open>The line at \<open>x\<close>, dashed, solid or fading: its color, left edge or middle, width, and the stops of the fade.\<close>

datatype indicator_shape =
    DashedLine string rat rat
  | SolidRect string rat rat
  | FadingRect string rat rat "(rat \<times> rat) list"

definition TooltipIndicator ::
    "rat \<Rightarrow> bool \<Rightarrow> IndicatorWidth \<Rightarrow> (rat \<times> rat) option \<Rightarrow> string \<Rightarrow> IndicatorFadeEdges \<Rightarrow> rat \<Rightarrow> string option \<Rightarrow> indicator_shape option" where
  "TooltipIndicator x visible width span_of color fadeEdges fadeLength strokeDasharray =
     (if \<not> visible then None
      else
        let pixelWidth = (case span_of of Some (columns, column) \<Rightarrow> columns * column | None \<Rightarrow> resolveWidth width);
            fadeSides = resolveVerticalFadeSides fadeEdges
        in if (case strokeDasharray of Some s \<Rightarrow> s \<noteq> [] | None \<Rightarrow> False) then Some (DashedLine color x (max 1 pixelWidth))
           else if \<not> (fst fadeSides \<or> snd fadeSides) then Some (SolidRect color (x - pixelWidth / 2) pixelWidth)
           else Some (FadingRect color (x - pixelWidth / 2) pixelWidth (indicatorFadeGradientStops fadeSides fadeLength)))"

definition tooltip_crosshair :: "'r tooltip_env \<Rightarrow> 'r tooltip_props \<Rightarrow> indicator_shape option" where
  "tooltip_crosshair C p =
     (if tt_showCrosshair p
      then TooltipIndicator (tooltip_x C) (te_tooltipData C \<noteq> None) WidthLine None (indicatorColor C p) FadeBoth 10 None
      else None)"

subsection \<open>The pill reads the label\<close>

definition segments_of :: "string list \<Rightarrow> (string \<times> nat) list" where
  "segments_of months = foldl push_segment [] (enumerate 0 months)"

lemma segments_snoc: "segments_of (months @ [m]) = push_segment (segments_of months) (length months, m)"
  by (simp add: segments_of_def enumerate_append_eq)

definition segment_at :: "string list \<Rightarrow> nat \<Rightarrow> nat \<Rightarrow> bool" where
  "segment_at months i k \<longleftrightarrow> (let S = segments_of months in
     k < length S \<and> snd (S ! k) \<le> i \<and> fst (S ! k) = months ! i \<and> (\<forall>k' < length S. k < k' \<longrightarrow> i < snd (S ! k')))"

lemma segments_inv:
  "(months \<noteq> [] \<longrightarrow> segments_of months \<noteq> [] \<and> fst (last (segments_of months)) = last months) \<and>
   (\<forall>s \<in> set (segments_of months). snd s < length months) \<and> (\<forall>i < length months. \<exists>k. segment_at months i k)"
proof (induction months rule: rev_induct)
  case (snoc m months)
  let ?S = "segments_of months" and ?n = "length months"
  note IH = snoc.IH
  show ?case
  proof (cases "?S = [] \<or> fst (last ?S) \<noteq> m")
    case True
    then have S: "segments_of (months @ [m]) = ?S @ [(m, ?n)]" by (simp add: segments_snoc)
    have "segment_at (months @ [m]) ?n (length ?S)" by (simp add: segment_at_def S nth_append)
    moreover have "segment_at (months @ [m]) i k" if "segment_at months i k" "i < ?n" for i k
      using that by (auto simp: segment_at_def S nth_append Let_def)
    moreover have "\<exists>k. segment_at months i k" if "i < ?n" for i using IH that by blast
    ultimately have "\<exists>k. segment_at (months @ [m]) i k" if "i < Suc ?n" for i
      using that by (metis less_antisym)
    then show ?thesis using IH by (auto simp: S intro: less_SucI)
  next
    case False
    then have S: "segments_of (months @ [m]) = ?S" and m: "?S \<noteq> []" "fst (last ?S) = m" by (simp_all add: segments_snoc)
    have "last ?S \<in> set ?S" using m(1) by simp
    then have "snd (last ?S) < ?n" using IH by blast
    then have "segment_at (months @ [m]) ?n (length ?S - 1)"
      using m by (auto simp: segment_at_def S last_conv_nth Let_def)
    moreover have "segment_at (months @ [m]) i k" if "segment_at months i k" "i < ?n" for i k
      using that by (auto simp: segment_at_def S nth_append Let_def)
    moreover have "\<exists>k. segment_at months i k" if "i < ?n" for i using IH that by blast
    ultimately have "\<exists>k. segment_at (months @ [m]) i k" if "i < Suc ?n" for i
      using that by (metis less_antisym)
    then show ?thesis using IH m by (auto simp: S intro: less_SucI)
  qed
qed (simp add: segments_of_def)

lemma last_index_where:
  assumes "k < n" and "P k" and "\<forall>k' < n. k < k' \<longrightarrow> \<not> P k'"
  shows "\<exists>rest. filter P (rev [0..<n]) = k # rest"
proof -
  have "[0..<n] = [0..<k] @ k # [Suc k..<n]"
    using assms(1) upt_add_eq_append [of 0 k "n - k"] upt_conv_Cons [of k n] by simp
  moreover have "filter P (rev [Suc k..<n]) = []" using assms(3) by (auto simp: filter_empty_conv)
  ultimately show ?thesis using assms(2) by simp
qed

lemma current_month:
  assumes "i < length labels"
  shows "map_option fst (js_at (monthSegments labels) (currentMonthIndex labels i)) = Some (fst (parsedLabel (labels ! i)))"
proof -
  let ?months = "map (fst \<circ> parsedLabel) labels"
  have S: "monthSegments labels = segments_of ?months" by (simp add: monthSegments_def segments_of_def)
  obtain k where k: "segment_at ?months i k" using segments_inv [of ?months] assms by auto
  then have "k < length (segments_of ?months)" "snd (segments_of ?months ! k) \<le> i"
    "\<forall>k' < length (segments_of ?months). k < k' \<longrightarrow> \<not> snd (segments_of ?months ! k') \<le> i"
    by (auto simp: segment_at_def Let_def)
  from last_index_where [where P = "\<lambda>k. snd (segments_of ?months ! k) \<le> i", OF this]
  obtain rest where "filter (\<lambda>k. snd (segments_of ?months ! k) \<le> i) (rev [0..<length (segments_of ?months)]) = k # rest"
    by blast
  then have "currentMonthIndex labels i = k" using assms by (simp add: currentMonthIndex_def S)
  then show ?thesis using k assms by (simp add: segment_at_def S js_at_def Let_def)
qed

definition ticker_ok :: "ticker \<Rightarrow> bool" where
  "ticker_ok st \<longleftrightarrow> tk_prevMonthIndex st = -1 \<or> tk_monthY st = - (tk_prevMonthIndex st * TICKER_ITEM_HEIGHT)"

lemma ticker_month:
  assumes "ticker_ok st"
  shows "ticker_ok (DateTickerInner labels i st)"
    and "tk_monthY (DateTickerInner labels i st) = - (int (currentMonthIndex labels i) * TICKER_ITEM_HEIGHT)"
    and "tk_dayY (DateTickerInner labels i st) = - (int i * TICKER_ITEM_HEIGHT)"
  using assms by (auto simp: ticker_ok_def DateTickerInner_def Let_def)

lemma ticker_run: "ticker_ok st \<Longrightarrow> ticker_ok (foldl (\<lambda>st (labels, i). DateTickerInner labels i st) st earlier)"
  by (induction earlier arbitrary: st) (auto simp: ticker_month(1))

lemma item_at_stack: "item_at items (- (int k * TICKER_ITEM_HEIGHT)) = js_at items k"
  by (simp add: item_at_def TICKER_ITEM_HEIGHT_def)

lemma split_join: "js_join [c] (js_split c s) = s"
proof (induction s)
  case (Cons x s)
  obtain q qs where q: "js_split c s = q # qs" by (cases "js_split c s") auto
  show ?case
  proof (cases "x = c")
    case True
    then show ?thesis using Cons q by (simp add: q)
  next
    case False
    then show ?thesis using Cons q by (cases qs) auto
  qed
qed simp

text \<open>The pill reads the label under the pointer: whatever labels and rows it was turned to before - its month
  stack moves only when the index of the month changes - the month and the day in its window are the first two
  words of the label of the row it is on, and a label of two words can be read off it whole.\<close>

theorem pill_reads_label:
  "let st = foldl (\<lambda>st (labels, i). DateTickerInner labels i st) ticker_init earlier; label = labels ! i in
   if i < length labels
   then (case pill_shows labels (DateTickerInner labels i st) of
       (Some month, Some day) \<Rightarrow> parsedLabel label = (month, day) \<and>
         (if length (js_split CHR '' '' label) = 2 then month @ '' '' @ day = label else True)
     | _ \<Rightarrow> False)
   else True"
proof (cases "i < length labels")
  case True
  let ?st = "foldl (\<lambda>st (labels, i). DateTickerInner labels i st) ticker_init earlier" and ?label = "labels ! i"
  have ok: "ticker_ok ?st" by (rule ticker_run) (simp add: ticker_ok_def ticker_init_def)
  have "pill_shows labels (DateTickerInner labels i ?st) = (Some (fst (parsedLabel ?label)), Some (snd (parsedLabel ?label)))"
    using current_month [OF True] True by (simp add: pill_shows_def ticker_month [OF ok] item_at_stack) (simp add: js_at_def)
  moreover have "fst (parsedLabel ?label) @ '' '' @ snd (parsedLabel ?label) = ?label" if "length (js_split CHR '' '' ?label) = 2"
  proof -
    obtain a b where "js_split CHR '' '' ?label = [a, b]"
      using \<open>length (js_split CHR '' '' ?label) = 2\<close> by (auto simp: length_Suc_conv numeral_2_eq_2)
    then show ?thesis using split_join [of "CHR '' ''" ?label] by (simp add: parsedLabel_def js_at_def)
  qed
  ultimately show ?thesis by (simp add: Let_def)
qed simp

subsection \<open>The panel stands clear of the pointer\<close>

text \<open>C31. The panel stands clear of what it tells about: when the tooltip of a chart - lines, standing or lying bars - has
  come to a new place, the panel, by the size the browser then measured, stands exactly sixteen pixels to the right
  of the crosshair if that fits into the chart and exactly sixteen to the left otherwise, so it is never over it; for
  a crosshair in the chart it is inside the chart from left to right exactly when one of the two sides has room
  for it and its offset. In a chart of lines or standing bars it hangs at the top margin; in one of lying bars, and
  where the panel follows without a spring, it is level with the first bar or the margin, moved as far as it takes
  to keep sixteen pixels from the top and, when it fits, from the bottom.\<close>

theorem panel_stands_clear:
  assumes "0 < w" and "0 < h" and "p = tooltip_box_props C q" and "tb_deps st \<noteq> Some (layout_deps p)"
    and "x = tooltip_x C + te_marginLeft C"
    and "y = (if te_horizontal C then firstLineY C + te_marginTop C else te_marginTop C)"
  shows "case box_position p (box_commit p (w, h) st) of (l, t) \<Rightarrow>
     (if x + 16 + w \<le> te_width C then l = x + 16 else l + w = x - 16) \<and>
     (if 0 \<le> x \<and> x \<le> te_width C
      then (0 \<le> l \<and> l + w \<le> te_width C) = (x + 16 + w \<le> te_width C \<or> w + 16 \<le> x) else True) \<and>
     (if te_horizontal C \<or> \<not> fst (boxMotion C q)
      then 16 \<le> t \<and> (if h + 32 \<le> te_height C then t + h + 16 \<le> te_height C else True) \<and>
        (if 16 \<le> y - h / 2 \<and> y + h / 2 + 16 \<le> te_height C then t = y - h / 2 else True)
      else t = te_marginTop C)"
proof -
  have p: "bx_x p = x" "bx_y p = y" "bx_containerWidth p = te_width C" "bx_containerHeight p = te_height C" "bx_offset p = 16"
    "bx_left p = None" "bx_top p = (if te_horizontal C then None else Some (te_marginTop C))"
    "bx_animate p = fst (boxMotion C q)" "bx_entrance p"
    by (simp_all add: assms(3,5,6) tooltip_box_props_def)
  have at: "box_position p (box_commit p (w, h) st) =
      (targetX p w, if te_horizontal C \<or> \<not> fst (boxMotion C q) then targetY p h else te_marginTop C)"
    using assms(1,2,4) by (simp add: box_commit_def box_render_def box_layout_def move_box_def box_position_def Let_def p)
  have x: "targetX p w = (if x + 16 + w \<le> te_width C then x + 16 else x - 16 - w)"
    by (auto simp: targetX_def shouldFlipX_def p)
  have y: "targetY p h = max 16 (min (y - h / 2) (te_height C - h - 16))"
    by (simp add: targetY_def p)
  have half: "y - h / 2 \<le> te_height C - h - 16 \<longleftrightarrow> y + h / 2 + 16 \<le> te_height C" by (simp add: field_simps)
  show ?thesis
    unfolding at prod.case x y using assms(1,2) half by (auto simp: max_def min_def)
qed

text \<open>Two ways around the placement: without a spring the panel is placed by its height although its top was given, and
  without an entrance it stays where it first came up.\<close>

lemma still_panel_ignores_top:
  assumes "bx_top p = Some t" and "\<not> bx_animate p" and "0 < w" and "0 < h" and "tb_deps st \<noteq> Some (layout_deps p)"
  shows "snd (box_position p (box_commit p (w, h) st)) = targetY p h"
  using assms by (simp add: box_commit_def box_render_def box_layout_def box_position_def Let_def)

lemma panel_without_entrance_stays:
  assumes "\<not> bx_entrance p" and "bx_animate p"
  shows "box_position p (box_commit p measured st) = tb_staticPosition st"
  using assms by (simp add: box_commit_def box_render_def box_layout_def move_box_def box_position_def Let_def)

text \<open>A ring that is given no stroke width has that of a dot.\<close>

lemma ring_has_stroke_of_dot: "TooltipDot True f None d =
   RingRect (dt_x d - dt_size d) (dt_y d - dt_size d) (dt_size d * 2)
     (ringCornerRadius (dt_size d) (case f of Some f \<Rightarrow> f | None \<Rightarrow> 1 / 4)) (dt_color d) 2"
  by (simp add: TooltipDot_def)

subsection \<open>The tooltip of a bar chart\<close>

text \<open>The context \<open>bar-chart.tsx\<close> gives its tooltip.\<close>

definition bar_tooltip_env ::
    "'r bar_env \<Rightarrow> (rat \<Rightarrow> string) \<Rightarrow> ('r \<Rightarrow> string) \<Rightarrow> rat \<Rightarrow> rat \<Rightarrow> rat \<Rightarrow> rat \<Rightarrow> 'r TooltipData option \<Rightarrow> 'r tooltip_env" where
  "bar_tooltip_env E intFmt weekday w h mleft mtop tip =
     \<lparr>te_tooltipData = tip, te_width = w, te_height = h, te_marginLeft = mleft, te_marginTop = mtop, te_lines = be_lines E,
      te_horizontal = be_horizontal E, te_dateLabels = map (be_category E) (be_data E), te_barXAccessor = Some (be_category E),
      te_weekday = weekday, te_bandWidth = Some (bandWidth E), te_groupGap = None, te_value = be_number E, te_intFmt = intFmt\<rparr>"

text \<open>A tooltip that gives its rows and leaves the rest as it is.\<close>

definition tooltip_with :: "('r \<Rightarrow> TooltipRow list) \<Rightarrow> 'r tooltip_props" where
  "tooltip_with rows =
     \<lparr>tt_showDatePill = True, tt_showCrosshair = True, tt_showDots = True, tt_ring = False, tt_dotSize = 5, tt_dotScale = 1,
      tt_indicatorColor = None, tt_content = None, tt_rows = Some rows, tt_dotColor = None, tt_children = None,
      tt_springConfig = None, tt_matchCrosshair = False, tt_damping = None, tt_boxSpringConfig = None\<rparr>"

lemma grouped_keys: "map (\<lambda>x. lc_dataKey (fst (snd x))) (grouped E d) = filter (\<lambda>k. be_number E d k \<noteq> None) (map lc_dataKey (be_lines E))"
proof -
  have "map (\<lambda>x. lc_dataKey (fst (snd x))) (concat (map (\<lambda>(i, line). case be_number E d (lc_dataKey line) of
     Some v \<Rightarrow> [(i, line, v)] | None \<Rightarrow> []) (enumerate n ls))) = filter (\<lambda>k. be_number E d k \<noteq> None) (map lc_dataKey ls)" for n ls
    by (induction ls arbitrary: n) (auto split: option.split)
  then show ?thesis by (simp add: grouped_def)
qed

lemma cumulated_keys: "map (\<lambda>x. lc_dataKey (fst x)) (cumulated E d c k ls) = filter (\<lambda>k. be_number E d k \<noteq> None) (map lc_dataKey ls)"
  by (induction E d c k ls rule: cumulated.induct) (auto split: option.split)

lemma positions_once:
  assumes "distinct (map lc_dataKey (be_lines E))"
  shows "distinct (map fst (bar_yPositions E d))" and "distinct (map fst (bar_xPositions E d))"
proof -
  have keys: "distinct (filter (\<lambda>k. be_number E d k \<noteq> None) (map lc_dataKey (be_lines E)))" using assms by simp
  show "distinct (map fst (bar_yPositions E d))" "distinct (map fst (bar_xPositions E d))"
    using keys [folded grouped_keys] keys [folded cumulated_keys [of E d 0 0]]
    by (simp_all add: bar_yPositions_def bar_xPositions_def prod.case_eq_if comp_def)
qed

lemma map_of_reversed: "distinct (map fst xs) \<Longrightarrow> map_of (rev xs) = map_of xs"
proof (rule ext)
  fix k
  assume once: "distinct (map fst xs)"
  then have "distinct (map fst (rev xs))" by (simp add: rev_map [symmetric])
  then have "map_of (rev xs) k = Some v \<longleftrightarrow> map_of xs k = Some v" for v using once by simp
  then show "map_of (rev xs) k = map_of xs k" by (metis option.exhaust)
qed

text \<open>C29. Every dot is on its bar: in a standing bar chart, grouped or stacked, whose series have different keys, the
  tooltip draws one dot for every series, in the order of the series, and where the row under the pointer has a
  figure it is at the top of that series' bar of the row, in the middle of its width.\<close>

theorem dots_on_bars:
  assumes "linear_law (be_scaleLinear E)" and "0 < be_innerHeight E" and "distinct (map lc_dataKey (be_lines E))"
    and "\<not> be_horizontal E" and "be_squareSnap E = None" and "be_stackGap E = 0" and "bandWidth E \<noteq> 0"
    and "bar_tooltip E pos = Some td" and "C = bar_tooltip_env E intFmt weekday w h mleft mtop (Some td)" and "tt_showDots p"
  shows "map dt_key (tooltip_dots C p) = map lc_dataKey (be_lines E) \<and>
    list_all (\<lambda>(dot, line). case bar_rect_of E (default_bar line) (td_point td) of
        None \<Rightarrow> True
      | Some r \<Rightarrow> dt_x dot = br_x r + br_width r / 2 \<and> dt_y dot = br_y r) (zip (tooltip_dots C p) (be_lines E))"
proof
  let ?d = "td_point td"
  have C: "te_tooltipData C = Some td" "te_lines C = be_lines E" "\<not> te_horizontal C"
    using assms(4,9) by (simp_all add: bar_tooltip_env_def)
  show "map dt_key (tooltip_dots C p) = map lc_dataKey (be_lines E)"
  proof -
    have "map dt_key (tooltip_dots C p) = map (lc_dataKey \<circ> snd) (enumerate 0 (be_lines E))"
      using C assms(10) by (simp add: tooltip_dots_def split_beta)
    then show ?thesis by (simp only: map_map [symmetric] map_snd_enumerate)
  qed
  have td: "td_x td = bandPos E ?d + bandWidth E / 2" "td_yPositions td = bar_yPositions E ?d"
    "td_xPositions td = (if bar_xPositions E ?d = [] then None else Some (bar_xPositions E ?d))"
    using assms(4,8) by (auto simp: bar_tooltip_def Let_def split: option.splits)
  note once = map_of_reversed [OF positions_once(1) [OF assms(3)]] map_of_reversed [OF positions_once(2) [OF assms(3)]]
  have dot: "x_of C (lc_dataKey line) = br_x r + br_width r / 2 \<and> y_of C (lc_dataKey line) = br_y r"
    if i: "i < length (be_lines E)" and line: "line = be_lines E ! i" and r: "bar_rect_of E (default_bar line) ?d = Some r" for i line r
  proof -
    obtain v where v: "be_number E ?d (lc_dataKey line) = Some v" using r by (auto simp: bar_rect_of_def split: option.splits)
    have standing: "\<not> (be_horizontal E \<and> be_stacked E)" using assms(4) by simp
    note meet = dots_meet_bars [OF assms(1-3) i line v assms(5-7) standing r]
    have "y_of C (lc_dataKey line) = br_y r"
      using meet assms(4) by (simp add: y_of_def C td once)
    moreover have "x_of C (lc_dataKey line) = br_x r + br_width r / 2"
    proof (cases "be_stacked E")
      case True
      then have "bar_xPositions E ?d = []" using assms(4) by (simp add: bar_xPositions_def)
      then show ?thesis using meet True by (simp add: x_of_def tooltip_x_def C td)
    next
      case False
      then show ?thesis using meet assms(4) by (auto simp: x_of_def C td once)
    qed
    ultimately show ?thesis by simp
  qed
  have "case bar_rect_of E (default_bar line) ?d of None \<Rightarrow> True
      | Some r \<Rightarrow> dt_x d = br_x r + br_width r / 2 \<and> dt_y d = br_y r" if pair: "(d, line) \<in> set (zip (tooltip_dots C p) (be_lines E))" for d line
  proof -
    obtain i where i: "i < length (be_lines E)" "line = be_lines E ! i" "d = tooltip_dots C p ! i"
      using pair by (auto simp: set_zip)
    then have "dt_x d = x_of C (lc_dataKey line)" "dt_y d = y_of C (lc_dataKey line)"
      using C assms(10) by (simp_all add: tooltip_dots_def nth_enumerate_eq)
    then show ?thesis using dot [OF i(1,2)] by (simp split: option.split)
  qed
  then show "list_all (\<lambda>(dot, line). case bar_rect_of E (default_bar line) (td_point td) of
        None \<Rightarrow> True
      | Some r \<Rightarrow> dt_x dot = br_x r + br_width r / 2 \<and> dt_y dot = br_y r) (zip (tooltip_dots C p) (be_lines E))"
    by (auto simp: list_all_iff)
qed

subsection \<open>The tooltips of the application's bar charts\<close>

text \<open>The rows the charts of \<open>src/web/src/app/charts\<close> give; the labels are the messages of the legend.\<close>

definition cash_tooltip_rows :: "string \<Rightarrow> string \<Rightarrow> string \<Rightarrow> CashRow list \<Rightarrow> CashRow \<Rightarrow> TooltipRow list" where
  "cash_tooltip_rows inLabel outLabel netLabel rows point =
     map (\<lambda>(color, label, text). \<lparr>tr_color = color, tr_label = label, tr_value = ValueText text\<rparr>)
       (zip [''var(--chart-1)'', ''var(--chart-2)'', ''transparent''] (zip [inLabel, outLabel, netLabel] (cash_tooltip rows (cr_period point))))"

definition net_tooltip_rows :: "string \<Rightarrow> string \<Rightarrow> NetRow list \<Rightarrow> NetRow \<Rightarrow> TooltipRow list" where
  "net_tooltip_rows profitLabel lossLabel rows point =
     (let row = find (\<lambda>r. nr_period r = nr_period point) rows;
          lost = (case row of Some r \<Rightarrow> nr_loss r \<noteq> 0 | None \<Rightarrow> False)
      in [\<lparr>tr_color = (if lost then ''var(--chart-diverge-negative)'' else ''var(--chart-diverge-positive)''),
           tr_label = (if lost then lossLabel else profitLabel),
           tr_value = ValueText (case row of Some r \<Rightarrow> nr_text r | None \<Rightarrow> [])\<rparr>])"

definition expense_tooltip_rows :: "expense_bar list \<Rightarrow> expense_bar \<Rightarrow> TooltipRow list" where
  "expense_tooltip_rows rows point =
     [\<lparr>tr_color = ''var(--chart-1)'', tr_label = eb_name point,
       tr_value = ValueText (case find (\<lambda>r. eb_name r = eb_name point) rows of Some r \<Rightarrow> eb_text r | None \<Rightarrow> [])\<rparr>]"

lemma find_by_label: "distinct (map f xs) \<Longrightarrow> x \<in> set xs \<Longrightarrow> find (\<lambda>y. f y = f x) xs = Some x"
proof (induction xs)
  case (Cons a xs)
  then show ?case by (cases "a = x") (auto simp: image_iff)
qed simp

lemma tooltip_row: "bar_tooltip E pos = Some td \<Longrightarrow> td_point td \<in> set (be_data E)"
  by (auto simp: bar_tooltip_def js_at_def Let_def split: option.splits if_splits)

text \<open>The tooltip of the cash-flow chart tells what is under the pointer: over months whose labels differ, it is
  titled with the month of its row and prints that month's money in, money out and net, the first two in the
  colors of their bars, which are also the colors of the two dots.\<close>

theorem cash_tooltip_tells_column:
  assumes "distinct (map cr_period rows)" and "E = cash_bars sb sl sz rows" and "bar_tooltip E pos = Some td"
    and "C = bar_tooltip_env E intFmt weekday w h mleft mtop (Some td)" and "p = tooltip_with (cash_tooltip_rows il ol nl rows)"
  shows "td_point td \<in> set rows \<and> tooltip_title C = Some (cr_period (td_point td)) \<and>
    tooltipRows C p =
      [\<lparr>tr_color = ''var(--chart-1)'', tr_label = il, tr_value = ValueText (cr_inText (td_point td))\<rparr>,
       \<lparr>tr_color = ''var(--chart-2)'', tr_label = ol, tr_value = ValueText (cr_outText (td_point td))\<rparr>,
       \<lparr>tr_color = ''transparent'', tr_label = nl, tr_value = ValueText (cr_netText (td_point td))\<rparr>] \<and>
    map dt_color (tooltip_dots C p) = map lc_stroke (be_lines E) \<and>
    map lc_stroke (be_lines E) = map tr_color (take 2 (tooltipRows C p))"
proof -
  have E: "be_data E = rows" "be_category E = cr_period" "\<not> be_horizontal E"
    by (simp_all add: assms(2) cash_bars_def app_chart_def)
  note lines = cash_lines [of sb sl sz rows, folded assms(2)]
  have point: "td_point td \<in> set rows" using tooltip_row [OF assms(3)] E(1) by simp
  have C: "te_tooltipData C = Some td" "te_lines C = be_lines E" "\<not> te_horizontal C" "te_barXAccessor C = Some cr_period"
    using E by (simp_all add: assms(4) bar_tooltip_env_def)
  have p: "tt_rows p = Some (cash_tooltip_rows il ol nl rows)" "tt_showDots p" by (simp_all add: assms(5) tooltip_with_def)
  have rows: "tooltipRows C p =
      [\<lparr>tr_color = ''var(--chart-1)'', tr_label = il, tr_value = ValueText (cr_inText (td_point td))\<rparr>,
       \<lparr>tr_color = ''var(--chart-2)'', tr_label = ol, tr_value = ValueText (cr_outText (td_point td))\<rparr>,
       \<lparr>tr_color = ''transparent'', tr_label = nl, tr_value = ValueText (cr_netText (td_point td))\<rparr>]"
    using find_by_label [OF assms(1) point] by (simp add: tooltipRows_def C p cash_tooltip_rows_def cash_tooltip_def)
  have "map dt_color (tooltip_dots C p) = map lc_stroke (be_lines E)"
    using C p by (simp add: tooltip_dots_def lines resolveDotColor_def rows js_at_def)
  then show ?thesis using point C rows by (simp add: tooltip_title_def lines)
qed

text \<open>The chart of the net result gives one row, so only its first dot takes a color from the rows. In a month with a
  profit the dot of the loss, which is drawn over the other, has the color of a loss at the top of a profit.\<close>

lemma profit_marked_as_loss:
  assumes "E = net_bars sb sl sz rows" and "bar_tooltip E pos = Some td" and "nr_loss (td_point td) = 0"
    and "C = bar_tooltip_env E intFmt weekday w h mleft mtop (Some td)" and "p = tooltip_with (net_tooltip_rows pl ll rows)"
  shows "map (\<lambda>d. (dt_key d, dt_x d, dt_y d)) (tooltip_dots C p) =
      map (\<lambda>key. (key, td_x td, dt_y (hd (tooltip_dots C p)))) [''profit'', ''loss''] \<and>
    dt_color (last (tooltip_dots C p)) = ''var(--chart-diverge-negative)''"
proof -
  have E: "\<not> be_horizontal E" "be_stacked E" "be_stackGap E = 0"
    "be_number E = (\<lambda>row key. map_option (\<lambda>f. f row) (map_of [(''profit'', nr_profit), (''loss'', nr_loss)] key))"
    by (simp_all add: assms(1) net_bars_def app_chart_def)
  note lines = net_lines [of sb sl sz rows, folded assms(1)]
  have C: "te_tooltipData C = Some td" "te_lines C = be_lines E" "\<not> te_horizontal C"
    using E by (simp_all add: assms(4) bar_tooltip_env_def)
  have p: "tt_rows p = Some (net_tooltip_rows pl ll rows)" "tt_showDots p" "tt_dotColor p = None"
    by (simp_all add: assms(5) tooltip_with_def)
  have td: "td_yPositions td = bar_yPositions E (td_point td)" "td_xPositions td = None"
    using assms(2) E by (auto simp: bar_tooltip_def bar_xPositions_def Let_def split: option.splits)
  have y: "y_of C ''profit'' = y_of C ''loss''"
    using E assms(3) by (simp add: y_of_def C td bar_yPositions_def lines)
  show ?thesis
    using C p by (simp add: tooltip_dots_def lines x_of_def tooltip_x_def td y resolveDotColor_def tooltipRows_def
      net_tooltip_rows_def js_at_def Let_def)
qed

subsection \<open>Witnesses\<close>

definition demo_td :: "(string \<times> rat \<times> rat) TooltipData" where
  "demo_td = \<lparr>td_point = (''Feb'', 2, 8), td_index = 1, td_x = 160, td_yPositions = [(''in'', 90), (''out'', 10)],
     td_xPositions = None\<rparr>"

text \<open>February of the chart of two months: the crosshair at 200, the panel 90 wide to its left, under the top margin.\<close>

theorem panel_stands_clear_witness:
  "let C = bar_tooltip_env (demo_bars False True) (\<lambda>_. []) fst 300 200 40 40 (Some demo_td); p = tooltip_box_props C (tooltip_with (\<lambda>_. []))
   in box_position p (box_commit p (90, 40) (box_init p)) = (94, 40)"
proof -
  let ?C = "bar_tooltip_env (demo_bars False True) (\<lambda>_. []) fst 300 200 40 40 (Some demo_td)"
    and ?q = "tooltip_with (\<lambda>_. []) :: (string \<times> rat \<times> rat) tooltip_props"
  have "tb_deps (box_init (tooltip_box_props ?C ?q)) \<noteq> Some (layout_deps (tooltip_box_props ?C ?q))" by (simp add: box_init_def)
  moreover have "tooltip_x ?C + te_marginLeft ?C = 200" "te_width ?C = 300" "te_marginTop ?C = 40" "\<not> te_horizontal ?C" "fst (boxMotion ?C ?q)"
    by (simp_all add: bar_tooltip_env_def tooltip_x_def demo_td_def boxMotion_def tooltip_with_def resolveTooltipBoxMotion_def Let_def)
  ultimately show ?thesis
    using panel_stands_clear [of 90 40 _ ?C ?q "box_init (tooltip_box_props ?C ?q)", OF _ _ refl _ refl refl]
    by (auto simp: split_beta Let_def prod_eq_iff)
qed

theorem dots_on_bars_witness:
  "let C = bar_tooltip_env (demo_bars False True) (\<lambda>_. []) fst 300 200 40 40 (Some demo_td); p = tooltip_with (\<lambda>_. []) in
   map dt_key (tooltip_dots C p) = [''in'', ''out''] \<and>
   list_all (\<lambda>(dot, line). case bar_rect_of (demo_bars False True) (default_bar line) (''Feb'', 2, 8) of
        None \<Rightarrow> True
      | Some r \<Rightarrow> dt_x dot = br_x r + br_width r / 2 \<and> dt_y dot = br_y r)
     (zip (tooltip_dots C p) [demo_line ''in'', demo_line ''out''])"
proof -
  let ?E = "demo_bars False True" and ?p = "tooltip_with (\<lambda>_. []) :: (string \<times> rat \<times> rat) tooltip_props"
  have td: "bar_tooltip ?E 170 = Some demo_td" "bandWidth ?E \<noteq> 0" by code_simp+
  have lines: "distinct (map lc_dataKey (be_lines ?E))" by (simp add: demo_line_def)
  have plain: "linear_law (be_scaleLinear ?E)" "0 < be_innerHeight ?E" "\<not> be_horizontal ?E" "be_squareSnap ?E = None" "be_stackGap ?E = 0"
    "tt_showDots ?p" by (simp_all add: demo_linear_law tooltip_with_def)
  show ?thesis
    using dots_on_bars [OF plain(1,2) lines plain(3-5) td(2,1) refl plain(6), of "\<lambda>_. []" fst 300 200 40 40]
    by (simp add: Let_def demo_line_def demo_td_def)
qed

definition demo_cash :: "CashRow list" where
  "demo_cash =
     [\<lparr>cr_period = ''Jan'', cr_moneyIn = 10, cr_moneyOut = 4, cr_inText = ''10'', cr_outText = ''4'', cr_netText = ''6''\<rparr>,
      \<lparr>cr_period = ''Feb'', cr_moneyIn = 2, cr_moneyOut = 8, cr_inText = ''2'', cr_outText = ''8'', cr_netText = ''-6''\<rparr>]"

theorem cash_tooltip_tells_column_witness:
  "map tr_value (tooltipRows (bar_tooltip_env (cash_bars (demo_band (1 / 5)) demo_linear (220, 110) demo_cash) (\<lambda>_. []) cr_period 300 200 40 40
      (bar_tooltip (cash_bars (demo_band (1 / 5)) demo_linear (220, 110) demo_cash) 170))
     (tooltip_with (cash_tooltip_rows ''in'' ''out'' ''net'' demo_cash))) = [ValueText ''2'', ValueText ''8'', ValueText ''-6'']"
proof -
  let ?E = "cash_bars (demo_band (1 / 5)) demo_linear (220, 110) demo_cash"
  have "distinct (map cr_period demo_cash)" by code_simp
  moreover have "map_option td_point (bar_tooltip ?E 170) = Some (demo_cash ! 1)" by code_simp
  then obtain td where "bar_tooltip ?E 170 = Some td" "td_point td = demo_cash ! 1" by auto
  ultimately show ?thesis
    using cash_tooltip_tells_column [of demo_cash ?E "demo_band (1 / 5)" demo_linear "(220, 110)" 170 td _ "\<lambda>_. []" cr_period 300 200 40 40,
      OF _ refl _ refl refl, of "''in''" "''out''" "''net''"] by (simp add: demo_cash_def)
qed

end
