(* ===== verification/X_Ticks.thy ===== *)
theory X_Ticks
  imports Chart_Pointer
begin

section \<open>The ticks of a time axis: x-axis.tsx\<close>

text \<open>
  \<open>src/web/src/components/charts/x-axis.tsx\<close>: which rows of the data get a label. The code tries every way to put
  about as many ticks as asked for on the rows, scores the gaps and keeps the best; then it drops repeated
  labels. Indices are naturals, pixels and scores rationals, times whole milliseconds. The number of ticks is two
  or more (for one, the code divides zero by zero).
\<close>

subsection \<open>Layouts\<close>

definition MAX_GAP_LAYOUTS :: nat where "MAX_GAP_LAYOUTS = 400"

definition tick_binomial :: "nat \<Rightarrow> nat \<Rightarrow> rat" where
  "tick_binomial n k =
     (if k > n then 0 else foldl (\<lambda>result i. result * of_nat (n - i) / (of_nat i + 1)) 1 [0..<k])"

text \<open>The ways to write a sum as so many positive gaps; never asked for no gaps.\<close>

fun composePositiveSum :: "nat \<Rightarrow> nat \<Rightarrow> nat list list" where
  "composePositiveSum s 0 = []"
| "composePositiveSum s (Suc 0) = (if s \<ge> 1 then [[s]] else [])"
| "composePositiveSum s (Suc (Suc p)) =
     concat (map (\<lambda>gap. map ((#) gap) (composePositiveSum (s - gap) (Suc p))) [1..<Suc (s - Suc p)])"

fun gap_positions :: "nat \<Rightarrow> nat list \<Rightarrow> nat list" where
  "gap_positions p [] = []"
| "gap_positions p (gap # gaps) = (p + gap) # gap_positions (p + gap) gaps"

definition gapsToIndices :: "nat list \<Rightarrow> nat list" where
  "gapsToIndices gaps = 0 # gap_positions 0 gaps"

definition raw_ticks :: "nat \<Rightarrow> nat \<Rightarrow> nat list" where
  "raw_ticks w tickCount = map (\<lambda>i. nat (math_round (of_nat i / (of_nat tickCount - 1) * of_nat w))) [0..<tickCount]"

definition indicesForTickCount :: "nat \<Rightarrow> nat \<Rightarrow> nat list" where
  "indicesForTickCount len tickCount =
     (let span = len - 1 in
      if span \<le> 0 then [0]
      else
        let indices = sort (remdups (raw_ticks span tickCount));
            indices = (if js_at indices 0 \<noteq> Some 0 then 0 # indices else indices);
            indices = (if last indices \<noteq> span then indices @ [span] else indices)
        in sort (remdups indices))"

definition allIndexLayouts :: "nat \<Rightarrow> nat \<Rightarrow> nat list list" where
  "allIndexLayouts len tickCount =
     (let span = len - 1; gapCount = tickCount - 1 in
      if span \<le> 0 then [[0]]
      else if gapCount \<le> 0 then [[0]]
      else if tick_binomial (span - 1) (gapCount - 1) > of_nat MAX_GAP_LAYOUTS
      then [indicesForTickCount len tickCount]
      else map gapsToIndices (composePositiveSum span gapCount))"

text \<open>The first index of every label is kept; \<open>None\<close> where there is no row.\<close>

fun dedupe_from :: "string list \<Rightarrow> (nat \<Rightarrow> string option) \<Rightarrow> nat list \<Rightarrow> nat list" where
  "dedupe_from seen label [] = []"
| "dedupe_from seen label (i # indices) =
     (case label i of
        None \<Rightarrow> dedupe_from seen label indices
      | Some s \<Rightarrow> if s \<in> set seen then dedupe_from seen label indices else i # dedupe_from (s # seen) label indices)"

definition dedupeIndicesByLabel :: "(nat \<Rightarrow> string option) \<Rightarrow> nat list \<Rightarrow> nat list" where
  "dedupeIndicesByLabel label indices = dedupe_from [] label indices"

subsection \<open>Scores\<close>

record TickLayoutScore =
  ts_score :: rat
  ts_symmetryPenalty :: rat
  ts_countDistance :: rat
  ts_edgePreference :: nat

fun neighbours :: "('a \<Rightarrow> 'a \<Rightarrow> 'b) \<Rightarrow> 'a list \<Rightarrow> 'b list" where
  "neighbours f (x # y # xs) = f x y # neighbours f (y # xs)"
| "neighbours f xs = []"

definition indexGaps :: "nat list \<Rightarrow> rat list" where
  "indexGaps indices = neighbours (\<lambda>previous current. of_nat current - of_nat previous) indices"

fun first_index :: "'a \<Rightarrow> 'a list \<Rightarrow> nat" where
  "first_index x [] = 0"
| "first_index x (y # ys) = (if y = x then 0 else Suc (first_index x ys))"

definition least_of :: "rat list \<Rightarrow> rat" where "least_of xs = foldl min (hd xs) (tl xs)"
definition most_of :: "rat list \<Rightarrow> rat" where "most_of xs = foldl max (hd xs) (tl xs)"

definition smallestGapEdgePreference :: "nat list \<Rightarrow> nat" where
  "smallestGapEdgePreference indices =
     (let gaps = indexGaps indices; smallestGapIndex = first_index (least_of gaps) gaps
      in if Suc smallestGapIndex = length gaps then 0 else if smallestGapIndex = 0 then 1 else 2)"

text \<open>\<open>None\<close> is the score of fewer than two ticks, infinite in every part.\<close>

definition scoreTickLayout :: "nat list \<Rightarrow> (nat \<Rightarrow> rat) \<Rightarrow> nat \<Rightarrow> TickLayoutScore option" where
  "scoreTickLayout indices resolveXPx targetCount =
     (if length indices < 2 then None
      else
        let pixelGaps = neighbours (\<lambda>previous current. resolveXPx current - resolveXPx previous) indices;
            minGap = least_of pixelGaps; maxGap = most_of pixelGaps;
            meanGap = sum_list pixelGaps / of_nat (length pixelGaps);
            spreadRatio = (if meanGap > 0 then (maxGap - minGap) / meanGap else maxGap - minGap);
            countDistance = \<bar>of_nat (length indices) - of_nat targetCount\<bar>;
            gaps = indexGaps indices;
            smallestGapIndex = first_index (least_of gaps) gaps;
            interiorPenalty = (if smallestGapIndex > 0 \<and> Suc smallestGapIndex < length gaps then 8 / 100 else 0);
            symmetryPenalty = sum_list (map2 (\<lambda>gap mirrored. \<bar>gap - mirrored\<bar>) gaps (rev gaps)) / of_nat (length gaps)
        in Some \<lparr>ts_score = spreadRatio + 1 / 10 * countDistance + interiorPenalty + symmetryPenalty * (2 / 100),
          ts_symmetryPenalty = symmetryPenalty, ts_countDistance = countDistance,
          ts_edgePreference = smallestGapEdgePreference indices\<rparr>)"

definition isBetterTickLayout :: "TickLayoutScore option \<Rightarrow> TickLayoutScore option \<Rightarrow> rat \<Rightarrow> rat \<Rightarrow> bool" where
  "isBetterTickLayout nxt best nextCountDistance bestCountDistance =
     (case (nxt, best) of
        (Some n, Some b) \<Rightarrow>
          if ts_score n < ts_score b - 1 / 10 ^ 6 then True
          else if \<bar>ts_score n - ts_score b\<bar> > 1 / 10 ^ 6 then False
          else if nextCountDistance < bestCountDistance then True
          else if nextCountDistance > bestCountDistance then False
          else if ts_symmetryPenalty n < ts_symmetryPenalty b - 1 / 10 ^ 6 then True
          else if ts_symmetryPenalty n > ts_symmetryPenalty b + 1 / 10 ^ 6 then False
          else ts_edgePreference n < ts_edgePreference b
      | (Some n, None) \<Rightarrow> True
      | _ \<Rightarrow> False)"

subsection \<open>The choice\<close>

definition count_distance :: "nat list \<Rightarrow> nat \<Rightarrow> rat" where
  "count_distance indices targetCount = \<bar>of_nat (length indices) - of_nat targetCount\<bar>"

type_synonym best_layout = "nat list \<times> TickLayoutScore option \<times> rat"

definition try_layout :: "(nat \<Rightarrow> string option) option \<Rightarrow> (nat \<Rightarrow> rat) \<Rightarrow> nat \<Rightarrow> best_layout \<Rightarrow> nat list \<Rightarrow> best_layout" where
  "try_layout label resolveXPx targetCount best rawIndices =
     (let indices = (case label of Some f \<Rightarrow> dedupeIndicesByLabel f rawIndices | None \<Rightarrow> rawIndices) in
      if length indices < 2 then best
      else
        let layoutScore = scoreTickLayout indices resolveXPx targetCount;
            countDistance = count_distance indices targetCount
        in if isBetterTickLayout layoutScore (fst (snd best)) countDistance (snd (snd best))
           then (indices, layoutScore, countDistance) else best)"

definition selectEvenlySpacedIndices :: "nat \<Rightarrow> nat \<Rightarrow> (nat \<Rightarrow> string option) option \<Rightarrow> (nat \<Rightarrow> rat) \<Rightarrow> nat list" where
  "selectEvenlySpacedIndices len targetCount label resolveXPx =
     (if len \<le> 0 then []
      else if len = 1 then [0]
      else if len \<le> targetCount then [0..<len]
      else
        let minCount = max 2 (targetCount - 1); maxCount = min len (targetCount + 1);
            bestIndices = indicesForTickCount len targetCount
        in fst (foldl (try_layout label resolveXPx targetCount)
          (bestIndices, scoreTickLayout bestIndices resolveXPx targetCount, count_distance bestIndices targetCount)
          (concat (map (allIndexLayouts len) [minCount..<Suc maxCount]))))"

subsection \<open>Ticks\<close>

text \<open>What the axis reads: the rows, their labels, the scale and its domain, the formatter of a date, whether a
  brush holds the domain.\<close>

record 'r axis_env =
  ax_data :: "'r list"
  ax_dateLabels :: "string list"
  ax_time :: "'r \<Rightarrow> int"
  ax_xScale :: "int \<Rightarrow> rat option"
  ax_domain :: "int option \<times> int option"
  ax_shortDate :: "int \<Rightarrow> string"
  ax_marginLeft :: rat
  ax_xDomain :: bool

record AxisTick =
  at_date :: int
  at_x :: rat
  at_label :: string

definition tick_at_date :: "'r axis_env \<Rightarrow> int \<Rightarrow> string \<Rightarrow> AxisTick" where
  "tick_at_date E date label =
     \<lparr>at_date = date, at_x = (case ax_xScale E date of Some x \<Rightarrow> x | None \<Rightarrow> 0) + ax_marginLeft E, at_label = label\<rparr>"

definition row_label :: "'r axis_env \<Rightarrow> nat \<Rightarrow> string option" where
  "row_label E i = (case js_at (ax_data E) i of
     None \<Rightarrow> None
   | Some point \<Rightarrow> Some (case js_at (ax_dateLabels E) i of Some s \<Rightarrow> s | None \<Rightarrow> ax_shortDate E (ax_time E point)))"

definition axis_resolveXPx :: "'r axis_env \<Rightarrow> nat \<Rightarrow> rat" where
  "axis_resolveXPx E i = (case js_at (ax_data E) i of
     None \<Rightarrow> of_nat i
   | Some point \<Rightarrow> (case ax_xScale E (ax_time E point) of Some x \<Rightarrow> x | None \<Rightarrow> 0))"

definition push_tick :: "'r axis_env \<Rightarrow> AxisTick list \<Rightarrow> int \<times> string \<Rightarrow> AxisTick list" where
  "push_tick E ticks dl =
     (if snd dl \<in> at_label ` set ticks then ticks else ticks @ [tick_at_date E (fst dl) (snd dl)])"

definition buildDataAlignedTicks :: "'r axis_env \<Rightarrow> nat \<Rightarrow> AxisTick list" where
  "buildDataAlignedTicks E targetTickCount =
     foldl (\<lambda>ticks i. case (js_at (ax_data E) i, row_label E i) of
         (Some point, Some label) \<Rightarrow> push_tick E ticks (ax_time E point, label)
       | _ \<Rightarrow> ticks)
       [] (selectEvenlySpacedIndices (length (ax_data E)) targetTickCount (Some (row_label E)) (axis_resolveXPx E))"

text \<open>\<open>new Date(ms)\<close> drops the fraction of a millisecond.\<close>

definition whole_ms :: "rat \<Rightarrow> int" where
  "whole_ms x = (if x < 0 then \<lceil>x\<rceil> else \<lfloor>x\<rfloor>)"

definition buildDomainTicks :: "'r axis_env \<Rightarrow> nat \<Rightarrow> AxisTick list" where
  "buildDomainTicks E numTicks =
     (case ax_domain E of
        (Some startTime, Some endTime) \<Rightarrow>
          let tickCount = max 2 numTicks in
          foldl (push_tick E) [] (map (\<lambda>i.
            let date = whole_ms (of_int startTime + of_nat i / (of_nat tickCount - 1) * of_int (endTime - startTime))
            in (date, ax_shortDate E date)) [0..<tickCount])
      | _ \<Rightarrow> [])"

definition domainExtendsPastData :: "'r axis_env \<Rightarrow> bool" where
  "domainExtendsPastData E =
     (case (snd (ax_domain E), ax_data E) of
        (Some domainEnd, d # ds) \<Rightarrow> domainEnd > ax_time E (last (d # ds))
      | _ \<Rightarrow> False)"

definition appendProjectionTailTicks :: "'r axis_env \<Rightarrow> AxisTick list \<Rightarrow> int \<Rightarrow> AxisTick list" where
  "appendProjectionTailTicks E ticks maxExtraTicks =
     (if ax_data E = [] \<or> maxExtraTicks \<le> 0 then ticks
      else case snd (ax_domain E) of
        None \<Rightarrow> ticks
      | Some endTime \<Rightarrow>
          let startTime = ax_time E (last (ax_data E)) in
          if endTime \<le> startTime then ticks
          else
            let extraCount = min maxExtraTicks 3;
                dates = map (\<lambda>i. whole_ms (of_int startTime + of_int i / of_int (extraCount + 1) * of_int (endTime - startTime)))
                  [1..extraCount] @ [endTime];
                all = foldl (push_tick E) ticks (map (\<lambda>date. (date, ax_shortDate E date)) dates)
            in if length all = length ticks then ticks else sort_key at_x all)"

definition axis_labelsToShow :: "'r axis_env \<Rightarrow> bool \<Rightarrow> nat \<Rightarrow> AxisTick list" where
  "axis_labelsToShow E domainMode numTicks =
     (if domainMode then buildDomainTicks E numTicks
      else if domainExtendsPastData E \<and> \<not> ax_xDomain E then buildDomainTicks E numTicks
      else let dataTicks = buildDataAlignedTicks E numTicks in
        if domainExtendsPastData E \<and> ax_xDomain E
        then appendProjectionTailTicks E dataTicks (max 1 (int numTicks - int (length dataTicks) + 1))
        else dataTicks)"

text \<open>The opacity of a label under the crosshair.\<close>

definition label_opacity :: "rat \<Rightarrow> string \<Rightarrow> rat option \<Rightarrow> string option \<Rightarrow> bool \<Rightarrow> rat \<Rightarrow> rat" where
  "label_opacity x label crosshairX hoveredLabel isHovering tickerHalfWidth =
     (case crosshairX of
        Some c \<Rightarrow>
          if isHovering then
            let distance = \<bar>x - c\<bar> in
            if distance < tickerHalfWidth then 0
            else if (case hoveredLabel of Some h \<Rightarrow> h \<noteq> [] \<and> label = h | None \<Rightarrow> False) then 0
            else if distance < tickerHalfWidth + 20 then (distance - tickerHalfWidth) / 20
            else 1
          else 1
      | None \<Rightarrow> 1)"

subsection \<open>Every layout is tried, and not too many\<close>

lemma positive_length: "0 \<notin> set gs \<Longrightarrow> length gs \<le> sum_list (gs :: nat list)"
  by (induction gs) (auto simp: Suc_le_eq add_strict_increasing)

lemma compositions:
  "set (composePositiveSum s (Suc p)) = {gs. length gs = Suc p \<and> sum_list gs = s \<and> 0 \<notin> set gs}"
proof (induction p arbitrary: s)
  case 0
  show ?case by (auto simp: length_Suc_conv)
next
  case (Suc p)
  have "gs \<in> set (composePositiveSum s (Suc (Suc p))) \<longleftrightarrow>
      (length gs = Suc (Suc p) \<and> sum_list gs = s \<and> 0 \<notin> set gs)" for gs
  proof
    assume "gs \<in> set (composePositiveSum s (Suc (Suc p)))"
    then obtain g tl where g: "1 \<le> g" "g \<le> s - Suc p" "gs = g # tl" "tl \<in> set (composePositiveSum (s - g) (Suc p))"
      by auto
    then have "length tl = Suc p" "sum_list tl = s - g" "0 \<notin> set tl" by (simp_all add: Suc.IH)
    then show "length gs = Suc (Suc p) \<and> sum_list gs = s \<and> 0 \<notin> set gs" using g by auto
  next
    assume gs: "length gs = Suc (Suc p) \<and> sum_list gs = s \<and> 0 \<notin> set gs"
    then obtain g tl where gtl: "gs = g # tl" by (cases gs) auto
    with gs have tl: "length tl = Suc p" "sum_list tl = s - g" "0 \<notin> set tl" "g \<le> s" "1 \<le> g" by auto
    then have "Suc p \<le> s - g" using positive_length [of tl] by simp
    then have "g \<in> set [1..<Suc (s - Suc p)]" using tl(4,5) by auto
    moreover have "tl \<in> set (composePositiveSum (s - g) (Suc p))" using tl by (simp add: Suc.IH)
    ultimately show "gs \<in> set (composePositiveSum s (Suc (Suc p)))"
      unfolding gtl composePositiveSum.simps by force
  qed
  then show ?case by blast
qed

lemma upper_sum: "(\<Sum>g = 1..n - p. (n - g) choose p) = n choose Suc p"
proof (cases n)
  case (Suc m)
  have "(\<Sum>g = 1..n - p. (n - g) choose p) = (\<Sum>j = p..m. j choose p)"
    using Suc by (intro sum.reindex_bij_witness [of _ "\<lambda>j. n - j" "\<lambda>g. n - g"]) auto
  also have "\<dots> = (\<Sum>j \<le> m. j choose p)"
    by (intro sum.mono_neutral_left) (auto simp: not_le binomial_eq_0)
  also have "\<dots> = n choose Suc p" by (simp add: Suc sum_choose_upper)
  finally show ?thesis .
qed simp

lemma compositions_counted: "length (composePositiveSum (Suc n) (Suc p)) = n choose p"
proof (induction p arbitrary: n)
  case (Suc p)
  have "length (composePositiveSum (Suc n - g) (Suc p)) = (n - g) choose p" if "g \<le> n - p" "1 \<le> g" for g
  proof -
    have "Suc n - g = Suc (n - g)" using that by simp
    then show ?thesis by (simp only: Suc.IH)
  qed
  then have each: "map (\<lambda>g. length (composePositiveSum (Suc n - g) (Suc p))) [1..<Suc (n - p)] =
      map (\<lambda>g. (n - g) choose p) [1..<Suc (n - p)]"
    by (intro map_cong refl) (simp del: upt_Suc)
  have "length (composePositiveSum (Suc n) (Suc (Suc p))) =
      sum_list (map (\<lambda>g. length (composePositiveSum (Suc n - g) (Suc p))) [1..<Suc (n - p)])"
    by (simp add: length_concat comp_def del: upt_Suc)
  also have "\<dots> = sum_list (map (\<lambda>g. (n - g) choose p) [1..<Suc (n - p)])" unfolding each ..
  also have "\<dots> = (\<Sum>g = 1..n - p. (n - g) choose p)"
    by (simp only: interv_sum_list_conv_sum_set_nat atLeastLessThanSuc_atLeastAtMost set_upt)
  finally show ?case unfolding upper_sum .
qed simp

lemma tick_binomial_exact: "tick_binomial n k = of_nat (n choose k)"
proof (cases "k \<le> n")
  case True
  have "foldl (\<lambda>result i. result * of_nat (n - i) / (of_nat i + 1)) 1 [0..<j] = rat_of_nat (n choose j)" if "j \<le> n" for j
    using that
  proof (induction j)
    case (Suc j)
    have "rat_of_nat (Suc j) * of_nat (n choose Suc j) = of_nat (n choose j) * of_nat (n - j)"
      using binomial_absorb_comp [of n j] Suc_times_binomial_eq [of "n - 1" j] Suc.prems
      by (metis Suc_le_D binomial_absorption diff_Suc_1 mult.commute of_nat_mult)
    then show ?case using Suc by (simp add: field_simps)
  qed simp
  then show ?thesis using True by (simp add: tick_binomial_def)
qed (simp add: tick_binomial_def binomial_eq_0)

text \<open>A layout of a span: strictly increasing places from the first row to the last.\<close>

definition layout_of :: "nat \<Rightarrow> nat list \<Rightarrow> bool" where
  "layout_of w is \<longleftrightarrow> is \<noteq> [] \<and> sorted_wrt (<) is \<and> hd is = 0 \<and> last is = w"

lemma gap_positions_sorted:
  "0 \<notin> set gs \<Longrightarrow> sorted_wrt (<) (p # gap_positions p gs)"
  "last (p # gap_positions p gs) = p + sum_list gs"
  "length (gap_positions p gs) = length gs"
proof -
  show "0 \<notin> set gs \<Longrightarrow> sorted_wrt (<) (p # gap_positions p gs)"
  proof (induction gs arbitrary: p)
    case (Cons g gs)
    then have "sorted_wrt (<) ((p + g) # gap_positions (p + g) gs)" and "p < p + g" by simp_all
    then show ?case by (auto intro: less_trans)
  qed simp
  show "last (p # gap_positions p gs) = p + sum_list gs"
    by (induction gs arbitrary: p) (simp_all add: add.assoc)
  show "length (gap_positions p gs) = length gs" by (induction gs arbitrary: p) simp_all
qed

lemma gap_positions_onto:
  assumes "sorted_wrt (<) (p # xs)"
  shows "\<exists>gs. gap_positions p gs = xs \<and> 0 \<notin> set gs"
  using assms
proof (induction xs arbitrary: p)
  case (Cons x xs)
  then obtain gs where "gap_positions x gs = xs" "0 \<notin> set gs" by fastforce
  moreover have "p < x" using Cons.prems by simp
  ultimately have "gap_positions p ((x - p) # gs) = x # xs \<and> 0 \<notin> set ((x - p) # gs)" by simp
  then show ?case by blast
qed (simp add: exI [of _ "[]"])

lemma layouts_of_gaps:
  "gapsToIndices ` {gs. length gs = Suc p \<and> sum_list gs = w \<and> 0 \<notin> set gs} =
   {is. layout_of w is \<and> length is = Suc (Suc p)}"
proof (intro equalityI subsetI)
  fix "is" assume "is \<in> gapsToIndices ` {gs. length gs = Suc p \<and> sum_list gs = w \<and> 0 \<notin> set gs}"
  then show "is \<in> {is. layout_of w is \<and> length is = Suc (Suc p)}"
    using gap_positions_sorted [where p = 0] by (auto simp: gapsToIndices_def layout_of_def simp del: last.simps)
next
  fix "is" assume "is \<in> {is. layout_of w is \<and> length is = Suc (Suc p)}"
  then obtain xs where xs: "is = 0 # xs" "sorted_wrt (<) (0 # xs)" "last (0 # xs) = w" "length xs = Suc p"
    by (cases "is") (auto simp: layout_of_def)
  then obtain gs where gs: "gap_positions 0 gs = xs" "0 \<notin> set gs" using gap_positions_onto by blast
  then have "sum_list gs = w" "length gs = Suc p"
    using gap_positions_sorted(2,3) [of 0 gs] xs(3,4) by simp_all
  then show "is \<in> gapsToIndices ` {gs. length gs = Suc p \<and> sum_list gs = w \<and> 0 \<notin> set gs}"
    using gs xs(1) by (auto simp: gapsToIndices_def image_iff)
qed

lemma distinct_headed:
  "distinct xs \<Longrightarrow> (\<And>g. distinct (F g)) \<Longrightarrow> distinct (concat (map (\<lambda>g. map ((#) g) (F g)) xs))"
  by (induction xs) (auto simp: distinct_map)

lemma compositions_distinct: "distinct (composePositiveSum s (Suc p))"
proof (induction p arbitrary: s)
  case (Suc p)
  then show ?case unfolding composePositiveSum.simps by (intro distinct_headed) simp_all
qed simp

lemma gap_positions_inj: "gap_positions p gs = gap_positions p hs \<Longrightarrow> gs = hs"
proof (induction gs arbitrary: p hs)
  case (Cons g gs)
  then obtain h hs' where hs: "hs = h # hs'" by (cases hs) auto
  with Cons.prems have "g = h" "gap_positions (p + g) gs = gap_positions (p + g) hs'" by auto
  then show ?case using Cons.IH hs by simp
next
  case Nil
  then show ?case by (cases hs) simp_all
qed

text \<open>The search for ticks is exhaustive and stays small: the number of layouts is predicted exactly by the
  binomial the code computes in fractions, never more than four hundred are tried, and as long as there are no
  more than that, they are all the ways to put so many ticks on the rows from the first to the last, each once.\<close>

theorem layouts_complete:
  "let ways = (n choose t) in
   length (allIndexLayouts (n + 2) (t + 2)) = (if MAX_GAP_LAYOUTS < ways then 1 else ways) \<and>
   (if MAX_GAP_LAYOUTS < ways then True
    else set (allIndexLayouts (n + 2) (t + 2)) = {is. layout_of (n + 1) is \<and> length is = t + 2} \<and>
      distinct (allIndexLayouts (n + 2) (t + 2)))"
proof -
  have few: "tick_binomial n t > of_nat MAX_GAP_LAYOUTS \<longleftrightarrow> MAX_GAP_LAYOUTS < (n choose t)"
    by (simp add: tick_binomial_exact)
  have "allIndexLayouts (n + 2) (t + 2) =
      (if MAX_GAP_LAYOUTS < (n choose t) then [indicesForTickCount (n + 2) (t + 2)]
       else map gapsToIndices (composePositiveSum (Suc n) (Suc t)))"
    using few by (simp add: allIndexLayouts_def Let_def)
  then show ?thesis
    using compositions_counted [of n t] layouts_of_gaps [of t "Suc n"] compositions_distinct [of "Suc n" t] gap_positions_inj [of 0]
    by (simp add: Let_def compositions distinct_map inj_on_def gapsToIndices_def)
qed

subsection \<open>The ticks that are printed\<close>

definition tick_places :: "nat \<Rightarrow> nat \<Rightarrow> nat list \<Rightarrow> bool" where
  "tick_places n most is \<longleftrightarrow> sorted_wrt (<) is \<and> (\<forall>i \<in> set is. i < n) \<and> length is \<le> most \<and> is \<noteq> [] \<and> hd is = 0"

lemma strict_sort_remdups: "sorted_wrt (<) (sort (remdups (xs :: nat list)))"
  by (simp add: strict_sorted_iff)

lemma hd_sort_zero:
  assumes "0 \<in> set (xs :: nat list)"
  shows "sort (remdups xs) \<noteq> [] \<and> hd (sort (remdups xs)) = 0"
proof (cases "sort (remdups xs)")
  case Nil
  then have "set (sort (remdups xs)) = {}" by simp
  then show ?thesis using assms by simp
next
  case (Cons y ys)
  have "set (y # ys) = set xs" unfolding Cons [symmetric] by simp
  then have "0 \<in> set (y # ys)" using assms by simp
  moreover have "\<forall>z \<in> set ys. y \<le> z" using Cons by (metis sorted_sort sorted_simps(2))
  ultimately have "y = 0" by auto
  then show ?thesis unfolding Cons by simp
qed

lemma last_sort_most:
  assumes "m \<in> set (xs :: nat list)" and "\<And>x. x \<in> set xs \<Longrightarrow> x \<le> m"
  shows "last (sort (remdups xs)) = m"
proof -
  have ne: "sort (remdups xs) \<noteq> []" using assms(1) by (metis empty_iff list.set(1) set_remdups set_sort)
  have "last (sort (remdups xs)) \<le> m" using last_in_set [OF ne] assms(2) by simp
  moreover have "m \<le> last (sort (remdups xs))"
  proof -
    have "m \<in> set (sort (remdups xs))" using assms(1) by simp
    then obtain i where "i < length (sort (remdups xs))" "m = sort (remdups xs) ! i" by (metis in_set_conv_nth)
    then show ?thesis
      unfolding last_conv_nth [OF ne] by (metis One_nat_def Suc_leI Suc_pred diff_less le_eq_less_or_eq length_greater_0_conv
        less_Suc_eq_le ne sorted_nth_mono sorted_sort zero_less_one)
  qed
  ultimately show ?thesis by simp
qed

lemma indicesForTickCount_places:
  "tick_places (n + 2) (t + 2) (indicesForTickCount (n + 2) (t + 2))"
proof -
  define raw where "raw = raw_ticks (n + 1) (t + 2)"
  note raw_map = raw_def [unfolded raw_ticks_def]
  have le: "x \<le> n + 1" if x: "x \<in> set raw" for x
  proof -
    obtain i where i: "i < t + 2" "x = nat (math_round (of_nat i / (of_nat (t + 2) - 1) * of_nat (n + 1)))"
      using x by (auto simp: raw_map simp del: upt_Suc)
    have "rat_of_nat i \<le> of_nat t + 1" using i(1) by (metis Suc_eq_plus1 add_2_eq_Suc' less_Suc_eq_le of_nat_Suc of_nat_le_iff add.commute)
    then have "rat_of_nat i / (of_nat (t + 2) - 1) \<le> 1" by (simp add: pos_divide_le_eq)
    then have "rat_of_nat i / (of_nat (t + 2) - 1) * of_nat (n + 1) \<le> 1 * of_nat (n + 1)" by (intro mult_right_mono) simp_all
    then have "rat_of_nat i / (of_nat (t + 2) - 1) * of_nat (n + 1) + 1 / 2 < of_int (int (n + 1)) + 1" by simp
    then have "math_round (of_nat i / (of_nat (t + 2) - 1) * of_nat (n + 1)) \<le> int (n + 1)"
      unfolding math_round_def by (simp only: floor_le_iff)
    then show ?thesis using i(2) by simp
  qed
  have "nat (math_round (of_nat 0 / (of_nat (t + 2) - 1) * of_nat (n + 1))) \<in> set raw"
    unfolding raw_map set_map set_upt by (rule imageI) simp
  then have zero: "0 \<in> set raw" by (simp add: math_round_def)
  have "nat (math_round (of_nat (t + 1) / (of_nat (t + 2) - 1) * of_nat (n + 1))) \<in> set raw"
    unfolding raw_map set_map set_upt by (rule imageI) simp
  moreover have "rat_of_nat (t + 1) / (of_nat (t + 2) - 1) = 1"
  proof -
    have "rat_of_nat (t + 2) - 1 = of_nat (t + 1)" "rat_of_nat (t + 1) \<noteq> 0" by (simp_all del: of_nat_add add: of_nat_add [symmetric] of_nat_diff [symmetric] add: algebra_simps)
    then show ?thesis by simp
  qed
  moreover have "math_round (rat_of_nat (n + 1)) = int (n + 1)" unfolding math_round_def by (rule floor_unique) simp_all
  ultimately have most: "n + 1 \<in> set raw" by (metis mult_1 nat_int)
  have "js_at (sort (remdups raw)) 0 = Some 0"
    using hd_sort_zero [OF zero] by (cases "sort (remdups raw)") (simp_all add: js_at_def)
  then have "indicesForTickCount (n + 2) (t + 2) = sort (remdups (sort (remdups raw)))"
    using last_sort_most [OF most le] by (simp add: indicesForTickCount_def Let_def raw_def)
  also have "\<dots> = sort (remdups raw)" by (simp add: distinct_remdups_id sorted_sort_id)
  finally have eq: "indicesForTickCount (n + 2) (t + 2) = sort (remdups raw)" .
  have "length (remdups raw) \<le> length raw" by (rule length_remdups_leq)
  then have "length (sort (remdups raw)) \<le> t + 2" by (simp add: raw_map)
  then show ?thesis
    unfolding tick_places_def eq using strict_sort_remdups [of raw] hd_sort_zero [OF zero] le by fastforce
qed

lemma layout_places:
  assumes "layout_of (n + 1) is" and "length is = m"
  shows "tick_places (n + 2) m is"
proof -
  have "i \<le> n + 1" if i: "i \<in> set is" for i
  proof -
    obtain k where k: "k < length is" "i = is ! k" using i by (metis in_set_conv_nth)
    have "sorted is" using assms(1) by (auto simp: layout_of_def strict_sorted_iff)
    then have "is ! k \<le> is ! (length is - 1)" using k(1) by (intro sorted_nth_mono) simp_all
    moreover have "is ! (length is - 1) = n + 1" using assms(1) by (metis layout_of_def last_conv_nth)
    ultimately show ?thesis using k by simp
  qed
  then show ?thesis using assms by (auto simp: tick_places_def layout_of_def less_Suc_eq_le)
qed

lemma allIndexLayouts_places:
  assumes "is \<in> set (allIndexLayouts (n + 2) (t + 2))"
  shows "tick_places (n + 2) (t + 2) is"
proof (cases "tick_binomial n t > of_nat MAX_GAP_LAYOUTS")
  case True
  then show ?thesis using assms indicesForTickCount_places [of n t] by (simp add: allIndexLayouts_def Let_def)
next
  case False
  then have "is \<in> gapsToIndices ` {gs. length gs = Suc t \<and> sum_list gs = Suc n \<and> 0 \<notin> set gs}"
    using assms by (simp add: allIndexLayouts_def Let_def compositions)
  then have "layout_of (Suc n) is" "length is = t + 2" unfolding layouts_of_gaps by simp_all
  then show ?thesis using layout_places [of n "is"] by simp
qed

lemma dedupe_subset: "set (dedupe_from seen label is) \<subseteq> set is"
  by (induction "is" arbitrary: seen) (auto split: option.split)

lemma dedupe_sorted: "sorted_wrt (<) is \<Longrightarrow> sorted_wrt (<) (dedupe_from seen label (is :: nat list))"
  using dedupe_subset by (induction "is" arbitrary: seen) (fastforce split: option.split)+

lemma dedupe_length: "length (dedupe_from seen label is) \<le> length is"
  by (induction "is" arbitrary: seen) (auto split: option.split intro: le_SucI)

lemma dedupe_labels:
  "list_all (\<lambda>i. label i \<noteq> None) (dedupe_from seen label is) \<and> distinct (map label (dedupe_from seen label is)) \<and>
   (\<forall>s \<in> set seen. Some s \<notin> set (map label (dedupe_from seen label is)))"
proof (induction "is" arbitrary: seen)
  case (Cons a "is")
  show ?case
  proof (cases "label a")
    case None
    then show ?thesis using Cons.IH [of seen] by simp
  next
    case (Some s)
    then show ?thesis using Cons.IH [of seen] Cons.IH [of "s # seen"] by auto
  qed
qed simp

lemma dedupe_seen: "set seen = set seen' \<Longrightarrow> dedupe_from seen label is = dedupe_from seen' label is"
proof (induction "is" arbitrary: seen seen')
  case (Cons a "is")
  show ?case
  proof (cases "label a")
    case None
    then show ?thesis using Cons.IH [OF Cons.prems] by simp
  next
    case (Some s)
    then show ?thesis using Cons.IH [OF Cons.prems] Cons.IH [of "s # seen" "s # seen'"] Cons.prems by simp
  qed
qed simp

lemma dedupe_places:
  assumes "tick_places n m is" and "label 0 \<noteq> None"
  shows "tick_places n m (dedupeIndicesByLabel label is)"
proof -
  obtain xs where xs: "is = 0 # xs" using assms(1) by (cases "is") (auto simp: tick_places_def)
  obtain s where s: "label 0 = Some s" using assms(2) by blast
  have "dedupeIndicesByLabel label is = 0 # dedupe_from [s] label xs" by (simp add: dedupeIndicesByLabel_def xs s)
  moreover have "length (dedupeIndicesByLabel label is) \<le> m"
    using dedupe_length [of "[]" label "is"] assms(1) by (simp add: dedupeIndicesByLabel_def tick_places_def)
  ultimately show ?thesis
    using assms(1) dedupe_sorted [of "is" "[]" label] dedupe_subset [of "[]" label "is"]
    by (auto simp: tick_places_def dedupeIndicesByLabel_def)
qed

lemma tick_places_more: "tick_places n m is \<Longrightarrow> m \<le> m' \<Longrightarrow> tick_places n m' is"
  by (simp add: tick_places_def)

lemma selected_places:
  assumes "case label of Some f \<Rightarrow> f 0 \<noteq> None | None \<Rightarrow> True"
  shows "tick_places (Suc n) (t + 3) (selectEvenlySpacedIndices (Suc n) (t + 2) label resolveXPx)"
proof -
  consider (one) "n = 0" | (all) "n \<noteq> 0" "Suc n \<le> t + 2" | (search) m where "n = Suc m" "t + 2 < m + 2"
    by (cases n; cases "Suc n \<le> t + 2") auto
  then show ?thesis
  proof cases
    case one
    then show ?thesis by (simp add: selectEvenlySpacedIndices_def tick_places_def)
  next
    case all
    then show ?thesis by (simp add: selectEvenlySpacedIndices_def tick_places_def hd_upt del: upt_Suc)
  next
    case search
    define try_one where "try_one = try_layout label resolveXPx (t + 2)"
    have step: "tick_places (m + 2) (t + 3) (fst (try_one best is))"
      if "tick_places (m + 2) (t + 3) (fst best)" "tick_places (m + 2) (t + 3) is" for best "is"
      using that dedupe_places [OF that(2)] assms
      by (auto simp: try_one_def try_layout_def Let_def split: option.splits)
    have fold: "tick_places (m + 2) (t + 3) (fst (foldl try_one best iss))"
      if "tick_places (m + 2) (t + 3) (fst best)" "\<forall>is \<in> set iss. tick_places (m + 2) (t + 3) is" for best iss
      using that by (induction iss arbitrary: best) (simp_all add: step [simplified])
    have candidates: "tick_places (m + 2) (t + 3) is"
      if among: "is \<in> set (concat (map (allIndexLayouts (m + 2)) [max 2 (t + 2 - 1)..<Suc (min (m + 2) (t + 2 + 1))]))" for "is"
    proof -
      obtain k where k: "is \<in> set (allIndexLayouts (m + 2) k)" "2 \<le> k" "k \<le> t + 3"
        using among by (auto simp del: upt_Suc)
      obtain j where j: "k = j + 2" using le_Suc_ex [OF k(2)] by (metis add.commute)
      have "tick_places (m + 2) k is" using allIndexLayouts_places [of "is" m j] k(1) unfolding j by simp
      then show ?thesis using k(3) by (rule tick_places_more)
    qed
    have first: "tick_places (m + 2) (t + 3) (indicesForTickCount (m + 2) (t + 2))"
      by (rule tick_places_more [OF indicesForTickCount_places]) simp
    have n: "Suc n = m + 2" using search by simp
    have "selectEvenlySpacedIndices (m + 2) (t + 2) label resolveXPx = fst (foldl try_one
        (indicesForTickCount (m + 2) (t + 2), scoreTickLayout (indicesForTickCount (m + 2) (t + 2)) resolveXPx (t + 2),
         count_distance (indicesForTickCount (m + 2) (t + 2)) (t + 2))
        (concat (map (allIndexLayouts (m + 2)) [max 2 (t + 2 - 1)..<Suc (min (m + 2) (t + 2 + 1))])))"
      using search(2) by (simp add: selectEvenlySpacedIndices_def Let_def try_one_def del: upt_Suc)
    then show ?thesis unfolding n using fold first candidates by simp
  qed
qed

text \<open>The ticks are those of the rows the search kept, each label once.\<close>

definition row_tick :: "'r axis_env \<Rightarrow> nat \<Rightarrow> AxisTick" where
  "row_tick E i = tick_at_date E (ax_time E (ax_data E ! i)) (the (row_label E i))"

lemma tick_at_date_label [simp]: "at_label (tick_at_date E date label) = label"
  by (simp add: tick_at_date_def)

lemma ticks_of_rows:
  "foldl (\<lambda>ticks i. case (js_at (ax_data E) i, row_label E i) of
      (Some point, Some label) \<Rightarrow> push_tick E ticks (ax_time E point, label) | _ \<Rightarrow> ticks) ticks is =
   ticks @ map (row_tick E) (dedupe_from (map at_label ticks) (row_label E) is)"
proof (induction "is" arbitrary: ticks)
  case (Cons i "is")
  show ?case
  proof (cases "i < length (ax_data E)")
    case True
    then obtain label where label: "row_label E i = Some label" "js_at (ax_data E) i = Some (ax_data E ! i)"
      by (auto simp: row_label_def js_at_def)
    have "dedupe_from (map at_label ticks @ [label]) (row_label E) is = dedupe_from (label # map at_label ticks) (row_label E) is"
      by (rule dedupe_seen) auto
    then show ?thesis
      using Cons.IH label by (simp add: push_tick_def row_tick_def)
  next
    case False
    then show ?thesis using Cons.IH by (simp add: row_label_def js_at_def)
  qed
qed simp

lemma row_labels_distinct: "distinct (map at_label (map (row_tick E) (dedupe_from seen (row_label E) is)))"
proof -
  define kept where "kept = dedupe_from seen (row_label E) is"
  have labels: "list_all (\<lambda>i. row_label E i \<noteq> None) kept" "distinct (map (row_label E) kept)"
    using dedupe_labels [of "row_label E" seen "is"] by (simp_all add: kept_def)
  have "map Some (map at_label (map (row_tick E) kept)) = map (row_label E) kept"
    using labels(1) by (auto simp: list_all_iff row_tick_def)
  then show ?thesis using labels(2) unfolding kept_def by (metis distinct_map)
qed

lemma distinct_map_sort: "distinct (map f (sort_key g xs)) = distinct (map f xs)"
  by (simp add: distinct_map)

text \<open>C32. The data-aligned ticks are honest: there are never more than one beyond the number asked for; each
  stands at the place of its own row, the rows are in order, the first row always has a tick, no label is
  printed twice, and with room for all rows every row with a label of its own has its tick.\<close>

theorem data_ticks_sound:
  "let ticks = buildDataAlignedTicks E (t + 2); n = length (ax_data E) in
   length ticks \<le> t + 3 \<and> distinct (map at_label ticks) \<and>
   (\<exists>is. sorted_wrt (<) is \<and> set is \<subseteq> {..<n} \<and> ticks = map (row_tick E) is \<and>
     (if n = 0 then is = [] else is \<noteq> [] \<and> hd is = 0) \<and>
     (if n \<le> t + 2 \<and> distinct (map (row_label E) [0..<n]) then is = [0..<n] else True))"
proof (cases "length (ax_data E)")
  case 0
  then show ?thesis by (simp add: Let_def buildDataAlignedTicks_def selectEvenlySpacedIndices_def)
next
  case (Suc m)
  define places where "places = selectEvenlySpacedIndices (Suc m) (t + 2) (Some (row_label E)) (axis_resolveXPx E)"
  define kept where "kept = dedupeIndicesByLabel (row_label E) places"
  have "row_label E 0 \<noteq> None" using Suc by (simp add: row_label_def js_at_def)
  then have kept: "tick_places (Suc m) (t + 3) kept"
    using dedupe_places selected_places [of "Some (row_label E)" m t] by (simp add: kept_def places_def)
  have ticks: "buildDataAlignedTicks E (t + 2) = map (row_tick E) kept"
    using ticks_of_rows [of E "[]" places] by (simp add: buildDataAlignedTicks_def Suc kept_def places_def dedupeIndicesByLabel_def)
  have "distinct (map at_label (map (row_tick E) kept))"
    using row_labels_distinct [of E "[]" places] by (simp add: kept_def dedupeIndicesByLabel_def)
  moreover have "kept = [0..<Suc m]" if room: "Suc m \<le> t + 2" "distinct (map (row_label E) [0..<Suc m])"
  proof -
    have "places = [0..<Suc m]" using room(1) by (simp add: places_def selectEvenlySpacedIndices_def)
    moreover have "dedupe_from seen (row_label E) is = is"
      if "distinct (map (row_label E) is)" "\<forall>i \<in> set is. row_label E i \<noteq> None \<and> the (row_label E i) \<notin> set seen" for seen "is"
      using that
    proof (induction "is" arbitrary: seen)
      case (Cons i "is")
      then obtain s where s: "row_label E i = Some s" "s \<notin> set seen" by auto
      moreover have "the (row_label E j) \<noteq> s" if j: "j \<in> set is" for j
      proof -
        have "row_label E j \<noteq> row_label E i" using Cons.prems(1) imageI [OF j, of "row_label E"] by (auto simp del: imageI)
        moreover have "row_label E j \<noteq> None" using Cons.prems(2) j by simp
        ultimately show ?thesis using s(1) by auto
      qed
      ultimately show ?case using Cons.IH [of "s # seen"] Cons.prems by simp
    qed simp
    moreover have "row_label E i \<noteq> None" if "i < Suc m" for i using that Suc by (simp add: row_label_def js_at_def)
    ultimately show ?thesis using room(2) by (simp add: kept_def dedupeIndicesByLabel_def del: upt_Suc)
  qed
  ultimately show ?thesis
    using kept unfolding Let_def Suc ticks tick_places_def by (auto intro!: exI [of _ kept])
qed

text \<open>Whatever the axis shows - ticks on rows, ticks over the domain, or rows with a tail for a projection -
  no label is printed twice.\<close>

theorem axis_labels_distinct: "distinct (map at_label (axis_labelsToShow E domainMode (t + 2)))"
proof -
  have push: "distinct (map at_label (push_tick E ticks dl))" if "distinct (map at_label ticks)" for ticks dl
    using that by (auto simp: push_tick_def)
  have pushes: "distinct (map at_label (foldl (push_tick E) ticks dls))" if "distinct (map at_label ticks)" for ticks dls
    using that by (induction dls arbitrary: ticks) (simp_all add: push)
  have domain: "distinct (map at_label (buildDomainTicks E k))" for k
    by (auto simp: buildDomainTicks_def Let_def intro!: pushes split: prod.split option.split)
  have rows: "distinct (map at_label (buildDataAlignedTicks E k))" for k
    unfolding buildDataAlignedTicks_def ticks_of_rows using row_labels_distinct by simp
  have tail: "distinct (map at_label (appendProjectionTailTicks E ticks k))" if "distinct (map at_label ticks)" for ticks k
  proof (cases "ax_data E = [] \<or> k \<le> 0 \<or> snd (ax_domain E) = None")
    case True
    then show ?thesis using that by (auto simp: appendProjectionTailTicks_def)
  next
    case False
    then obtain e where e: "snd (ax_domain E) = Some e" by blast
    define dls where "dls = map (\<lambda>date. (date, ax_shortDate E date))
      (map (\<lambda>i. whole_ms (of_int (ax_time E (last (ax_data E))) +
        of_int i / of_int (min k 3 + 1) * of_int (e - ax_time E (last (ax_data E))))) [1..min k 3] @ [e])"
    have "appendProjectionTailTicks E ticks k = (if e \<le> ax_time E (last (ax_data E)) then ticks
        else let all = foldl (push_tick E) ticks dls in if length all = length ticks then ticks else sort_key at_x all)"
      using False by (simp add: appendProjectionTailTicks_def e dls_def Let_def del: foldl_append map_append)
    then show ?thesis using that pushes [OF that, of dls] by (simp add: Let_def distinct_map_sort)
  qed
  show ?thesis unfolding axis_labelsToShow_def Let_def using domain rows tail by simp
qed

end
