(* ===== verification/Time_Series.thy ===== *)
theory Time_Series
  imports Chart_Config Chart_Phase
begin

section \<open>The line of a time series: time-series-chart-shell.tsx and what it calls\<close>

text \<open>
  What a line chart of \<open>src/web/src/components/charts\<close> draws: \<open>decimate-time-series.ts\<close> (fewer points for a narrow
  plot), \<open>filter-data-by-x-domain.ts\<close>, the domains and widths of \<open>time-series-chart-shell.tsx\<close>,
  \<open>series-path-utils.ts\<close> (the vertices of a line and their way to new places), \<open>highlight-segment-bounds.ts\<close> and
  \<open>y-axis-ticks.ts\<close>. Pixels and figures are rationals, times whole milliseconds. The scales of visx and \<open>nice\<close> are
  arguments; what d3 documents of them is \<open>nice_law\<close> and \<open>span_law\<close>, hypotheses of the theorems that need them.
\<close>

subsection \<open>decimate-time-series.ts\<close>

text \<open>The figure a point is judged by: the mean of its keyed figures, without keys its first figure, and its index
  when it has none. \<open>vals\<close> are the figures of a point in the order of its fields.\<close>

definition decimate_getY :: "('r \<Rightarrow> string \<Rightarrow> rat option) \<Rightarrow> ('r \<Rightarrow> rat list) \<Rightarrow> string list \<Rightarrow> 'r list \<Rightarrow> nat \<Rightarrow> rat" where
  "decimate_getY num vals keys data i =
     (let point = data ! i in
      if keys = [] then (case vals point of v # _ \<Rightarrow> v | [] \<Rightarrow> of_nat i)
      else let vs = concat (map (\<lambda>k. case num point k of Some v \<Rightarrow> [v] | None \<Rightarrow> []) keys)
        in if vs = [] then of_nat i else sum_list vs / of_nat (length vs))"

definition bucketSize :: "nat \<Rightarrow> nat \<Rightarrow> rat" where
  "bucketSize len maxPoints = (of_nat len - 2) / (of_nat maxPoints - 2)"

definition rangeStart :: "rat \<Rightarrow> nat \<Rightarrow> nat" where
  "rangeStart b i = nat \<lfloor>(of_nat i + 1) * b\<rfloor> + 1"

text \<open>The point after the bucket a triangle is made with: the mean of the next bucket, or the last point.\<close>

definition next_mean :: "(nat \<Rightarrow> rat) \<Rightarrow> nat \<Rightarrow> rat \<Rightarrow> nat \<Rightarrow> rat \<times> rat" where
  "next_mean getY len b i =
     (let nexts = [rangeStart b (i + 1)..<min (rangeStart b (i + 2)) len] in
      if nexts = [] then (of_nat len - 1, getY (len - 1))
      else (sum_list (map of_nat nexts) / of_nat (length nexts), sum_list (map getY nexts) / of_nat (length nexts)))"

definition triangle_area :: "(nat \<Rightarrow> rat) \<Rightarrow> nat \<Rightarrow> rat \<times> rat \<Rightarrow> nat \<Rightarrow> rat" where
  "triangle_area getY a avg j =
     \<bar>(of_nat a - fst avg) * (getY j - getY a) - (of_nat a - of_nat j) * (snd avg - getY a)\<bar> * (1 / 2)"

definition pick_index :: "(nat \<Rightarrow> rat) \<Rightarrow> nat \<Rightarrow> rat \<Rightarrow> nat \<Rightarrow> nat \<Rightarrow> nat" where
  "pick_index getY len b previousIndex i =
     (let avg = next_mean getY len b i in
      snd (foldl (\<lambda>(maxArea, maxIndex) j.
          let area = triangle_area getY previousIndex avg j in if area > maxArea then (area, j) else (maxArea, maxIndex))
        (- 1, rangeStart b i) [rangeStart b i..<min (rangeStart b (i + 1)) (len - 1)]))"

fun pick_indices :: "(nat \<Rightarrow> rat) \<Rightarrow> nat \<Rightarrow> rat \<Rightarrow> nat \<Rightarrow> nat list \<Rightarrow> nat list" where
  "pick_indices getY len b previousIndex [] = []"
| "pick_indices getY len b previousIndex (i # buckets) =
     (let maxIndex = pick_index getY len b previousIndex i in maxIndex # pick_indices getY len b maxIndex buckets)"

definition sampled_indices :: "(nat \<Rightarrow> rat) \<Rightarrow> nat \<Rightarrow> nat \<Rightarrow> nat list" where
  "sampled_indices getY len maxPoints =
     0 # pick_indices getY len (bucketSize len maxPoints) 0 [0..<maxPoints - 2] @ [len - 1]"

definition decimateTimeSeries ::
    "('r \<Rightarrow> string \<Rightarrow> rat option) \<Rightarrow> ('r \<Rightarrow> rat list) \<Rightarrow> 'r list \<Rightarrow> nat \<Rightarrow> string list \<Rightarrow> 'r list" where
  "decimateTimeSeries num vals data maxPoints keys =
     (if maxPoints \<ge> length data \<or> maxPoints < 3 then data
      else map ((!) data) (sampled_indices (decimate_getY num vals keys data) (length data) maxPoints))"

definition maxRenderPointsForWidth :: "rat \<Rightarrow> nat" where
  "maxRenderPointsForWidth innerWidth = nat (max 64 \<lceil>innerWidth * (3 / 2)\<rceil>)"

text \<open>Candles: a row is its four figures beside the rest of it; a missing one stays missing.\<close>

record ohlc =
  oh_open :: "rat option"
  oh_high :: "rat option"
  oh_low :: "rat option"
  oh_close :: "rat option"

definition bucket_extreme :: "(rat \<Rightarrow> rat \<Rightarrow> bool) \<Rightarrow> rat option list \<Rightarrow> rat option" where
  "bucket_extreme better vs = foldl (\<lambda>best v. case v of
      None \<Rightarrow> best
    | Some x \<Rightarrow> (case best of None \<Rightarrow> Some x | Some y \<Rightarrow> if better x y then Some x else best)) None vs"

definition candle_of :: "ohlc list \<Rightarrow> ohlc" where
  "candle_of bucket =
     \<lparr>oh_open = oh_open (hd bucket),
      oh_high = (case bucket_extreme (>) (map oh_high bucket) of Some h \<Rightarrow> Some h | None \<Rightarrow> oh_high (last bucket)),
      oh_low = (case bucket_extreme (<) (map oh_low bucket) of Some l \<Rightarrow> Some l | None \<Rightarrow> oh_low (last bucket)),
      oh_close = oh_close (last bucket)\<rparr>"

definition ohlc_bounds :: "nat \<Rightarrow> nat \<Rightarrow> nat \<Rightarrow> nat \<times> nat" where
  "ohlc_bounds len maxPoints i =
     (let b = of_nat len / of_nat maxPoints :: rat
      in (nat \<lfloor>of_nat i * b\<rfloor>, min len (nat \<lfloor>(of_nat i + 1) * b\<rfloor>)))"

definition decimateOhlcData :: "ohlc list \<Rightarrow> nat \<Rightarrow> ohlc list" where
  "decimateOhlcData data maxPoints =
     (if maxPoints \<ge> length data \<or> maxPoints < 2 then data
      else concat (map (\<lambda>i. case ohlc_bounds (length data) maxPoints i of (start, stop) \<Rightarrow>
        if start \<ge> stop then [] else [candle_of (take (stop - start) (drop start data))]) [0..<maxPoints]))"

subsection \<open>filter-data-by-x-domain.ts\<close>

definition filterDataByXDomain :: "('r \<Rightarrow> int) \<Rightarrow> 'r list \<Rightarrow> int \<times> int \<Rightarrow> 'r list" where
  "filterDataByXDomain time data xDomain =
     filter (\<lambda>d. min (fst xDomain) (snd xDomain) \<le> time d \<and> time d \<le> max (fst xDomain) (snd xDomain)) data"

definition resolveDataXExtent :: "('r \<Rightarrow> int) \<Rightarrow> 'r list \<Rightarrow> (int \<times> int) option" where
  "resolveDataXExtent time data =
     (case data of
        [] \<Rightarrow> None
      | d # ds \<Rightarrow> Some (foldl (\<lambda>m d. if time d < m then time d else m) (time d) ds,
                      foldl (\<lambda>m d. if time d > m then time d else m) (time d) ds))"

definition resolveBrushTrackXExtent :: "('r \<Rightarrow> int) \<Rightarrow> 'r list \<Rightarrow> int option \<Rightarrow> (int \<times> int) option" where
  "resolveBrushTrackXExtent time data xExtentMax =
     (case resolveDataXExtent time data of
        None \<Rightarrow> None
      | Some (t0, t1) \<Rightarrow> (case xExtentMax of
          Some t \<Rightarrow> if t \<le> t1 then Some (t0, t1) else Some (t0, t)
        | None \<Rightarrow> Some (t0, t1)))"

subsection \<open>time-series-chart-shell.tsx\<close>

definition series_numbers :: "('r \<Rightarrow> string \<Rightarrow> rat option) \<Rightarrow> 'r list \<Rightarrow> string list \<Rightarrow> rat list" where
  "series_numbers num data dataKeys =
     concat (map (\<lambda>d. concat (map (\<lambda>k. case num d k of Some v \<Rightarrow> [v] | None \<Rightarrow> []) dataKeys)) data)"

definition collectNumericExtents :: "('r \<Rightarrow> string \<Rightarrow> rat option) \<Rightarrow> 'r list \<Rightarrow> string list \<Rightarrow> rat \<times> rat" where
  "collectNumericExtents num data dataKeys =
     (case series_numbers num data dataKeys of
        [] \<Rightarrow> (0, 100)
      | v # vs \<Rightarrow> (foldl (\<lambda>m v. if v < m then v else m) v vs, foldl (\<lambda>m v. if v > m then v else m) v vs))"

definition resolveTimeSeriesYDomain :: "('r \<Rightarrow> string \<Rightarrow> rat option) \<Rightarrow> 'r list \<Rightarrow> string list \<Rightarrow> rat option \<Rightarrow> rat \<times> rat" where
  "resolveTimeSeriesYDomain num data dataKeys yScaleDomainMax =
     (if (case yScaleDomainMax of Some m \<Rightarrow> m > 0 | None \<Rightarrow> False) then (0, the yScaleDomainMax * (11 / 10))
      else let (minValue, maxValue) = collectNumericExtents num data dataKeys in
        if minValue \<ge> 0 then (0, if maxValue \<le> 0 then 100 else maxValue * (11 / 10))
        else let p = (maxValue - minValue) * (5 / 100); padding = (if p = 0 then 1 else p) in (minValue - padding, maxValue + padding))"

text \<open>The plotted rows, what a row holds, the brushed domain, the series, the scales.\<close>

record 'r series_env =
  se_plotData :: "'r list"
  se_number :: "'r \<Rightarrow> string \<Rightarrow> rat option"
  se_values :: "'r \<Rightarrow> rat list"
  se_time :: "'r \<Rightarrow> int"
  se_lines :: "LineConfig list"
  se_innerWidth :: rat
  se_innerHeight :: rat
  se_xDomain :: "(int \<times> int) option"
  se_xDomainSlotCount :: "nat option"
  se_yScaleDomainMax :: "rat option"
  se_scaleTime :: "rat \<times> rat \<Rightarrow> int \<times> int \<Rightarrow> int \<Rightarrow> rat"
  se_nice :: "rat \<times> rat \<Rightarrow> rat \<times> rat"
  se_scaleLinear :: "rat \<times> rat \<Rightarrow> rat \<times> rat \<Rightarrow> rat \<Rightarrow> rat"

definition resolveYDomain :: "'r series_env \<Rightarrow> 'r list \<Rightarrow> string list \<Rightarrow> rat \<times> rat" where
  "resolveYDomain E sourceData dataKeys =
     (let usesDefaultOnly = (map fst (groupLinesByYAxisId (se_lines E)) = [DEFAULT_Y_AXIS_ID])
      in resolveTimeSeriesYDomain (se_number E) sourceData dataKeys (if usesDefaultOnly then se_yScaleDomainMax E else None))"

definition visiblePlotData :: "'r series_env \<Rightarrow> 'r list" where
  "visiblePlotData E =
     (case se_xDomain E of None \<Rightarrow> se_plotData E | Some x \<Rightarrow> filterDataByXDomain (se_time E) (se_plotData E) x)"

definition x_domain :: "'r series_env \<Rightarrow> int \<times> int" where
  "x_domain E =
     (case se_xDomain E of
        Some x \<Rightarrow> x
      | None \<Rightarrow> (case resolveDataXExtent (se_time E) (se_plotData E) of Some x \<Rightarrow> x | None \<Rightarrow> (0, 0)))"

definition series_xScale :: "'r series_env \<Rightarrow> int \<Rightarrow> rat" where
  "series_xScale E = se_scaleTime E (0, se_innerWidth E) (x_domain E)"

definition renderData :: "'r series_env \<Rightarrow> 'r list" where
  "renderData E =
     decimateTimeSeries (se_number E) (se_values E) (se_plotData E) (maxRenderPointsForWidth (se_innerWidth E))
       (map lc_dataKey (se_lines E))"

definition series_columnWidth :: "'r series_env \<Rightarrow> rat" where
  "series_columnWidth E =
     (let slotCount = (case (se_xDomain E, se_xDomainSlotCount E) of (Some _, Some n) \<Rightarrow> n | _ \<Rightarrow> length (visiblePlotData E))
      in if slotCount < 2 then 0 else se_innerWidth E / (of_nat slotCount - 1))"

text \<open>The domains and scales of a chart without projections, once its axes have come to rest.\<close>

definition yDomainTargetByAxis :: "'r series_env \<Rightarrow> (string \<times> rat \<times> rat) list" where
  "yDomainTargetByAxis E =
     computeYDomainsByAxis (se_nice E) (0, 100) (se_lines E) (resolveYDomain E (visiblePlotData E))"

definition series_yScales :: "'r series_env \<Rightarrow> (string \<times> (rat \<Rightarrow> rat)) list" where
  "series_yScales E =
     buildYScalesFromDomains (se_scaleLinear E (se_innerHeight E, 0)) (0, 100) (se_lines E) (yDomainTargetByAxis E)"

definition series_yScale :: "'r series_env \<Rightarrow> axis_id option \<Rightarrow> rat \<Rightarrow> rat" where
  "series_yScale E i =
     (case map_of (series_yScales E) (normalizeYAxisId i) of
        Some s \<Rightarrow> s | None \<Rightarrow> getPrimaryYScale (series_yScales E) (se_scaleLinear E (se_innerHeight E, 0) (0, 100)))"

subsection \<open>series-path-utils.ts, line.tsx\<close>

record SeriesPathPoint =
  pp_x :: rat
  pp_y :: rat
  pp_key :: string

definition computeSeriesPathPoints ::
    "'r list \<Rightarrow> ('r \<Rightarrow> int) \<Rightarrow> (int \<Rightarrow> rat) \<Rightarrow> (rat \<Rightarrow> rat) \<Rightarrow> ('r \<Rightarrow> string \<Rightarrow> rat option) \<Rightarrow> string \<Rightarrow> SeriesPathPoint list" where
  "computeSeriesPathPoints data xAccessor xScale yScale num dataKey =
     map (\<lambda>datum. \<lparr>pp_x = xScale (xAccessor datum), pp_y = (case num datum dataKey of Some v \<Rightarrow> yScale v | None \<Rightarrow> 0),
       pp_key = show_int (xAccessor datum)\<rparr>) data"

definition towards :: "SeriesPathPoint \<Rightarrow> SeriesPathPoint \<Rightarrow> rat \<Rightarrow> SeriesPathPoint" where
  "towards anchor target progress =
     \<lparr>pp_x = pp_x anchor + (pp_x target - pp_x anchor) * progress, pp_y = pp_y anchor + (pp_y target - pp_y anchor) * progress,
      pp_key = pp_key target\<rparr>"

definition by_key :: "SeriesPathPoint list \<Rightarrow> string \<Rightarrow> SeriesPathPoint option" where
  "by_key from key = map_of (rev (map (\<lambda>p. (pp_key p, p)) from)) key"

text \<open>Where a vertex comes from: itself, its neighbour to the left, its neighbour to the right, the first vertex.\<close>

definition anchor_of :: "SeriesPathPoint list \<Rightarrow> SeriesPathPoint list \<Rightarrow> nat \<Rightarrow> SeriesPathPoint" where
  "anchor_of from goal i =
     (let target = goal ! i;
          previousSource = (if i > 0 then by_key from (pp_key (goal ! (i - 1))) else None);
          nextSource = (if i + 1 < length goal then by_key from (pp_key (goal ! (i + 1))) else None)
      in case by_key from (pp_key target) of
           Some source \<Rightarrow> source
         | None \<Rightarrow> (case previousSource of Some p \<Rightarrow> p
             | None \<Rightarrow> (case nextSource of Some p \<Rightarrow> p | None \<Rightarrow> (case from of p # _ \<Rightarrow> p | [] \<Rightarrow> target))))"

definition interpolateSeriesPathPoints :: "SeriesPathPoint list \<Rightarrow> SeriesPathPoint list \<Rightarrow> rat \<Rightarrow> SeriesPathPoint list" where
  "interpolateSeriesPathPoints from goal progress =
     (if progress \<ge> 1 then goal
      else if progress \<le> 0 then (if from \<noteq> [] then from else goal)
      else map (\<lambda>i. towards (anchor_of from goal i) (goal ! i) progress) [0..<length goal])"

text \<open>The vertices of a line of the chart.\<close>

definition line_points :: "'r series_env \<Rightarrow> LineConfig \<Rightarrow> SeriesPathPoint list" where
  "line_points E line =
     computeSeriesPathPoints (renderData E) (se_time E) (series_xScale E) (series_yScale E (lc_yAxisId line)) (se_number E) (lc_dataKey line)"

text \<open>Which of line and pulse is on the screen in a phase.\<close>

datatype LineLoadingPulseMode = PulseLoop | PulseExit | PulseEnter

fun resolveLineLoadingPulseMode :: "ChartPhase \<Rightarrow> LineLoadingPulseMode option" where
  "resolveLineLoadingPulseMode PhLoading = Some PulseLoop"
| "resolveLineLoadingPulseMode PhExiting = Some PulseExit"
| "resolveLineLoadingPulseMode PhRevealingLoading = Some PulseEnter"
| "resolveLineLoadingPulseMode _ = None"

definition pulseMode :: "bool option \<Rightarrow> LineLoadingPulseMode option \<Rightarrow> ChartPhase \<Rightarrow> LineLoadingPulseMode option" where
  "pulseMode loading loadingPulseMode ph =
     (if loading = Some False then None
      else case loadingPulseMode of
        Some m \<Rightarrow> Some m
      | None \<Rightarrow> if loading = Some True then Some PulseLoop else resolveLineLoadingPulseMode ph)"

definition showSeriesStroke :: "ChartPhase \<Rightarrow> bool" where
  "showSeriesStroke ph \<longleftrightarrow> ph = PhRevealing \<or> ph = PhReady \<or> ph = PhExitingReady"

definition resolveDashTailBounds :: "nat option \<Rightarrow> nat \<Rightarrow> bool" where
  "resolveDashTailBounds dashFromIndex dataLength =
     (case dashFromIndex of Some i \<Rightarrow> i + 1 < dataLength | None \<Rightarrow> False)"

definition visibleStroke :: "ChartPhase \<Rightarrow> nat option \<Rightarrow> nat \<Rightarrow> string \<Rightarrow> string" where
  "visibleStroke ph dashFromIndex dataLength lineStroke =
     (if showSeriesStroke ph \<and> \<not> resolveDashTailBounds dashFromIndex dataLength then lineStroke else ''transparent'')"

text \<open>The end of a pulse: a loop waits and starts over, anything else tells the chart.\<close>

datatype pulse_end = NextEpoch | TellChart

definition handleLoadingPulseComplete :: "LineLoadingPulseMode option \<Rightarrow> pulse_end" where
  "handleLoadingPulseComplete mode = (if mode = Some PulseLoop then NextEpoch else TellChart)"

subsection \<open>highlight-segment-bounds.ts, y-axis-ticks.ts, the ticks of grid.tsx\<close>

record SegmentBounds =
  sg_x :: rat
  sg_width :: rat
  sg_isActive :: bool

definition INACTIVE_SEGMENT :: SegmentBounds where
  "INACTIVE_SEGMENT = \<lparr>sg_x = 0, sg_width = 0, sg_isActive = False\<rparr>"

definition computeSegmentBounds :: "'r list \<Rightarrow> (int \<Rightarrow> rat) \<Rightarrow> ('r \<Rightarrow> int) \<Rightarrow> nat option \<Rightarrow> ChartSelection option \<Rightarrow> SegmentBounds" where
  "computeSegmentBounds data xScale xAccessor hovered selection =
     (if data = [] then INACTIVE_SEGMENT
      else case (case selection of Some s \<Rightarrow> if cs_active s then Some s else None | None \<Rightarrow> None) of
        Some s \<Rightarrow> \<lparr>sg_x = min (cs_startX s) (cs_endX s), sg_width = \<bar>cs_endX s - cs_startX s\<bar>, sg_isActive = True\<rparr>
      | None \<Rightarrow> (case hovered of
          None \<Rightarrow> INACTIVE_SEGMENT
        | Some idx \<Rightarrow> (case (js_at data (idx - 1), js_at data (min (length data - 1) (idx + 1))) of
            (Some startPoint, Some endPoint) \<Rightarrow>
              \<lparr>sg_x = xScale (xAccessor startPoint),
               sg_width = max 0 (xScale (xAccessor endPoint) - xScale (xAccessor startPoint)), sg_isActive = True\<rparr>
          | _ \<Rightarrow> INACTIVE_SEGMENT)))"

definition resolveYAxisTickCount :: "rat option \<Rightarrow> int" where
  "resolveYAxisTickCount numTicks =
     (case numTicks of
        None \<Rightarrow> 5
      | Some n \<Rightarrow> let rounded = math_round n in if rounded < 1 then 1 else if rounded > 10 then 10 else rounded)"

definition hideEdgeTicks :: "'a list \<Rightarrow> bool \<Rightarrow> 'a list" where
  "hideEdgeTicks ticks hideEdgeLines =
     (if \<not> hideEdgeLines \<or> length ticks \<le> 2 then ticks else butlast (tl ticks))"

text \<open>The values of the rows of a grid; \<^const>\<open>None\<close> leaves the choice to the scale.\<close>

definition resolveRowTickValues :: "bool \<Rightarrow> rat list option \<Rightarrow> rat list \<Rightarrow> rat list option" where
  "resolveRowTickValues hideHorizontalEdgeLines rowTickValues scaleTicks =
     (let ticks = (case rowTickValues of Some t \<Rightarrow> t | None \<Rightarrow> scaleTicks);
          filtered = hideEdgeTicks ticks hideHorizontalEdgeLines
      in if rowTickValues = None \<and> \<not> hideHorizontalEdgeLines then None
         else if filtered \<noteq> [] then Some filtered else None)"

subsection \<open>What is left of many points\<close>

lemma fold_pick:
  "snd (foldl (\<lambda>(best, k) j. let area = f j in if area > best then (area, j) else (best, k)) (m, k0) js) \<in> insert k0 (set js)"
proof (induction js arbitrary: m k0)
  case (Cons j js)
  show ?case using Cons.IH [of "f j" j] Cons.IH [of m k0] by (auto simp: Let_def)
qed simp

lemma pick_between:
  assumes "rangeStart b i < rangeStart b (i + 1)"
  shows "rangeStart b i \<le> pick_index getY len b prev i" and "pick_index getY len b prev i < rangeStart b (i + 1)"
    and "rangeStart b i \<le> len - 1 \<Longrightarrow> pick_index getY len b prev i \<le> len - 1"
proof -
  have "pick_index getY len b prev i \<in> insert (rangeStart b i) (set [rangeStart b i..<min (rangeStart b (i + 1)) (len - 1)])"
    unfolding pick_index_def Let_def by (rule fold_pick [unfolded Let_def])
  then show "rangeStart b i \<le> pick_index getY len b prev i" "pick_index getY len b prev i < rangeStart b (i + 1)"
    "rangeStart b i \<le> len - 1 \<Longrightarrow> pick_index getY len b prev i \<le> len - 1"
    using assms by auto
qed

lemma pick_indices_length [simp]: "length (pick_indices getY len b prev bs) = length bs"
  by (induction bs arbitrary: prev) (simp_all add: Let_def)

lemma pick_indices_nth:
  "k < length bs \<Longrightarrow> \<exists>prev'. pick_indices getY len b prev bs ! k = pick_index getY len b prev' (bs ! k)"
proof (induction bs arbitrary: prev k)
  case (Cons i bs)
  then show ?case by (cases k) (auto simp: Let_def)
qed simp

lemma bucket_start:
  assumes "3 \<le> m" and "m < len"
  shows "rangeStart (bucketSize len m) i < rangeStart (bucketSize len m) (i + 1)"
    and "rangeStart (bucketSize len m) (m - 3) = len - 1"
proof -
  let ?b = "bucketSize len m"
  have m: "2 < rat_of_nat m" and len: "rat_of_nat m < of_nat len" using assms by simp_all
  have b: "1 \<le> ?b" using m len by (simp add: bucketSize_def)
  have "(of_nat i + 1) * ?b + 1 \<le> (of_nat (i + 1) + 1) * ?b" using b by (simp add: algebra_simps)
  then have "\<lfloor>(of_nat i + 1) * ?b + 1\<rfloor> \<le> \<lfloor>(of_nat (i + 1) + 1) * ?b\<rfloor>" by (rule floor_mono)
  moreover have "0 \<le> \<lfloor>(of_nat i + 1) * ?b\<rfloor>" using b by simp
  ultimately show "rangeStart ?b i < rangeStart ?b (i + 1)" unfolding rangeStart_def by linarith
  have "(rat_of_nat (m - 3) + 1) * ?b = of_nat len - 2"
    using assms m by (simp add: bucketSize_def of_nat_diff)
  moreover have "\<lfloor>rat_of_nat len - 2\<rfloor> = int len - 2" by linarith
  ultimately show "rangeStart ?b (m - 3) = len - 1" using assms by (simp add: rangeStart_def)
qed

lemma bucket_start_mono:
  assumes "3 \<le> m" and "m < len" and "i < j"
  shows "rangeStart (bucketSize len m) (i + 1) \<le> rangeStart (bucketSize len m) j"
  using assms(3)
proof (induction j)
  case (Suc j)
  then show ?case using bucket_start(1) [OF assms(1,2), of j] by (cases "i = j") auto
qed simp

lemma sampled:
  assumes "3 \<le> m" and "m < len"
  shows "length (sampled_indices getY len m) = m"
    and "set (sampled_indices getY len m) \<subseteq> {..<len}"
    and "sorted_wrt (<) (butlast (sampled_indices getY len m))"
    and "sampled_indices getY len m ! (m - 2) = len - 1"
    and "k \<in> {1..m - 2} \<Longrightarrow> nat \<lfloor>bucketSize len m\<rfloor> < sampled_indices getY len m ! k"
proof -
  let ?b = "bucketSize len m" and ?picks = "pick_indices getY len (bucketSize len m) 0 [0..<m - 2]"
  show length: "length (sampled_indices getY len m) = m" using assms by (simp add: sampled_indices_def)
  have pick: "rangeStart ?b i \<le> ?picks ! i \<and> ?picks ! i < rangeStart ?b (i + 1) \<and> ?picks ! i \<le> len - 1" if i: "i < m - 2" for i
  proof -
    obtain prev where p: "?picks ! i = pick_index getY len ?b prev i"
      using pick_indices_nth [of i "[0..<m - 2]" getY len ?b 0] i by auto
    have "rangeStart ?b i \<le> len - 1"
    proof (cases "i = m - 3")
      case False
      then have "i < m - 3" using i by simp
      then show ?thesis
        using bucket_start_mono [OF assms, of i "m - 3"] bucket_start(1) [OF assms, of i] bucket_start(2) [OF assms] by simp
    qed (simp add: bucket_start(2) [OF assms])
    then show ?thesis using pick_between [OF bucket_start(1) [OF assms, of i], where getY = getY and len = len and prev = prev] p by simp
  qed
  have range: "x < len" if "x \<in> set ?picks" for x
  proof -
    obtain i where "i < m - 2" "x = ?picks ! i" using \<open>x \<in> set ?picks\<close> by (auto simp: in_set_conv_nth)
    then show ?thesis using pick [of i] assms(2) by linarith
  qed
  then show "set (sampled_indices getY len m) \<subseteq> {..<len}" using assms by (auto simp: sampled_indices_def)
  have "?picks ! i < ?picks ! j" if "i < j" "j < m - 2" for i j
    using pick [of i] pick [of j] bucket_start_mono [OF assms that(1)] that by linarith
  then have "sorted_wrt (<) ?picks" by (simp add: sorted_wrt_iff_nth_less)
  moreover have "0 < x" if "x \<in> set ?picks" for x
  proof -
    obtain i where "i < m - 2" "x = ?picks ! i" using \<open>x \<in> set ?picks\<close> by (auto simp: in_set_conv_nth)
    then show ?thesis using pick [of i] by (simp add: rangeStart_def)
  qed
  ultimately show "sorted_wrt (<) (butlast (sampled_indices getY len m))" by (simp add: sampled_indices_def butlast_append)
  have "m - 3 < m - 2" using assms by simp
  then have "?picks ! (m - 3) = len - 1" using pick [of "m - 3"] bucket_start(2) [OF assms] by simp
  moreover have "m - 2 = Suc (m - 3)" using assms by simp
  ultimately show "sampled_indices getY len m ! (m - 2) = len - 1"
    using assms by (simp add: sampled_indices_def nth_append)
  show "nat \<lfloor>?b\<rfloor> < sampled_indices getY len m ! k" if k: "k \<in> {1..m - 2}"
  proof -
    have "k - 1 < m - 2" "k \<noteq> 0" using k by auto
    moreover have "rangeStart ?b 0 \<le> rangeStart ?b (k - 1)"
    proof (cases "k = 1")
      case False
      then have "0 < k - 1" using k by auto
      then show ?thesis using bucket_start_mono [OF assms, of 0 "k - 1"] bucket_start(1) [OF assms, of 0] by simp
    qed simp
    ultimately show ?thesis
      using pick [of "k - 1"] by (cases k) (auto simp: sampled_indices_def nth_append rangeStart_def)
  qed
qed

text \<open>C33. Thinning out a long series keeps its shape's frame: a plot draws at least 64 points and three for every
  two pixels; a series with no more is drawn as it is; a longer one is drawn as exactly that many of its own
  points, the first and the last among them, in their order, none twice before the last.\<close>

theorem render_data_sound:
  "let data = se_plotData E; limit = maxRenderPointsForWidth (se_innerWidth E) in
   64 \<le> limit \<and> se_innerWidth E * (3 / 2) \<le> of_nat limit \<and>
   (if length data \<le> limit then renderData E = data
    else length (renderData E) = limit \<and>
      (\<exists>is. renderData E = map ((!) data) is \<and> set is \<subseteq> {..<length data} \<and> is ! 0 = 0 \<and> last is = length data - 1 \<and>
        sorted_wrt (<) (butlast is)))"
proof -
  define limit where "limit = maxRenderPointsForWidth (se_innerWidth E)"
  let ?data = "se_plotData E"
  have limit: "64 \<le> limit" "se_innerWidth E * (3 / 2) \<le> of_nat limit"
    unfolding limit_def maxRenderPointsForWidth_def by linarith+
  have "length (renderData E) = limit \<and>
      (\<exists>is. renderData E = map ((!) ?data) is \<and> set is \<subseteq> {..<length ?data} \<and> is ! 0 = 0 \<and> last is = length ?data - 1 \<and>
        sorted_wrt (<) (butlast is))" if long: "limit < length ?data"
  proof -
    define getY where "getY = decimate_getY (se_number E) (se_values E) (map lc_dataKey (se_lines E)) ?data"
    have three: "3 \<le> limit" using limit(1) by simp
    have "renderData E = map ((!) ?data) (sampled_indices getY (length ?data) limit)"
      using long three by (simp add: renderData_def decimateTimeSeries_def getY_def limit_def)
    then show ?thesis
      using sampled(1-3) [OF three long, of getY] by (auto intro!: exI [of _ "sampled_indices getY (length ?data) limit"]
        simp: sampled_indices_def)
  qed
  then show ?thesis
    using limit unfolding Let_def limit_def [symmetric]
    by (auto simp: renderData_def decimateTimeSeries_def limit_def)
qed

text \<open>Two defects of the buckets. They start one bucket late, so no point of the first bucket is ever drawn, whatever
  its figure, and the last bucket holds the last point alone, which is then drawn twice.\<close>

lemma first_bucket_never_sampled:
  assumes "3 \<le> m" and "m < len" and "0 < i" and "i \<le> nat \<lfloor>bucketSize len m\<rfloor>"
  shows "i \<notin> set (tl (butlast (sampled_indices getY len m)))"
proof
  assume "i \<in> set (tl (butlast (sampled_indices getY len m)))"
  then obtain k where k: "k < m - 2" "i = sampled_indices getY len m ! Suc k"
    using sampled(1) [OF assms(1,2), of getY] by (auto simp: in_set_conv_nth nth_tl nth_butlast numeral_2_eq_2)
  then show False using sampled(5) [OF assms(1,2), of "Suc k" getY] assms(4) by simp
qed

lemma last_point_twice:
  assumes "3 \<le> m" and "m < len"
  shows "drop (m - 2) (sampled_indices getY len m) = [len - 1, len - 1]"
proof -
  have "sampled_indices getY len m ! (m - 1) = len - 1"
    using assms by (simp add: sampled_indices_def nth_append nth_Cons' numeral_2_eq_2)
  moreover have "Suc (m - 2) = m - 1" "Suc (m - 1) = m" using assms by simp_all
  ultimately show ?thesis
    using sampled(1,4) [OF assms, of getY] assms
      Cons_nth_drop_Suc [of "m - 2" "sampled_indices getY len m"] Cons_nth_drop_Suc [of "m - 1" "sampled_indices getY len m"]
    by simp
qed

subsection \<open>The line stays in the plot\<close>

text \<open>d3: \<open>nice\<close> only widens a domain, and a scale is linear from its domain to its range.\<close>

definition nice_law :: "(rat \<times> rat \<Rightarrow> rat \<times> rat) \<Rightarrow> bool" where
  "nice_law nice \<longleftrightarrow> (\<forall>a b. a < b \<longrightarrow> fst (nice (a, b)) \<le> a \<and> b \<le> snd (nice (a, b)))"

definition span_law :: "(rat \<times> rat \<Rightarrow> rat \<times> rat \<Rightarrow> rat \<Rightarrow> rat) \<Rightarrow> bool" where
  "span_law f \<longleftrightarrow> (\<forall>r0 r1 a b v. a < b \<longrightarrow> f (r0, r1) (a, b) v = r0 + (v - a) / (b - a) * (r1 - r0))"

definition time_law :: "(rat \<times> rat \<Rightarrow> int \<times> int \<Rightarrow> int \<Rightarrow> rat) \<Rightarrow> bool" where
  "time_law f \<longleftrightarrow> (\<forall>r0 r1 a b t. a < b \<longrightarrow> f (r0, r1) (a, b) t = r0 + of_int (t - a) / of_int (b - a) * (r1 - r0))"

lemma part_of:
  fixes x y R :: rat
  assumes "0 \<le> x" "x \<le> y" "0 < y" "0 \<le> R"
  shows "0 \<le> x / y * R" and "x / y * R \<le> R"
proof -
  have "0 \<le> x / y" "x / y \<le> 1" using assms by (simp_all add: pos_divide_le_eq)
  then show "0 \<le> x / y * R" "x / y * R \<le> R"
    using mult_nonneg_nonneg [OF _ assms(4), of "x / y"] mult_right_mono [OF _ assms(4), of "x / y" 1] by simp_all
qed

lemma fold_extreme:
  fixes v :: "'a::linorder"
  shows "x \<in> insert v (set vs) \<Longrightarrow> foldl (\<lambda>m v. if v < m then v else m) v vs \<le> x"
    and "x \<in> insert v (set vs) \<Longrightarrow> x \<le> foldl (\<lambda>m v. if v > m then v else m) v vs"
proof -
  have low: "foldl (\<lambda>m v. if v < m then v else m) m vs \<le> m" for m and vs :: "'a list"
    by (induction vs arbitrary: m) (auto intro: order_trans less_imp_le)
  have high: "m \<le> foldl (\<lambda>m v. if v > m then v else m) m vs" for m and vs :: "'a list"
    by (induction vs arbitrary: m) (auto intro: order_trans [OF less_imp_le])
  show "x \<in> insert v (set vs) \<Longrightarrow> foldl (\<lambda>m v. if v < m then v else m) v vs \<le> x"
    by (induction vs arbitrary: v) (auto intro: low order_trans [OF low] order_trans [OF low less_imp_le])
  show "x \<in> insert v (set vs) \<Longrightarrow> x \<le> foldl (\<lambda>m v. if v > m then v else m) v vs"
    by (induction vs arbitrary: v) (auto intro: high order_trans [OF _ high] order_trans [OF less_imp_le high])
qed

lemma extent_bounds:
  assumes "resolveDataXExtent time data = Some (a, b)" and "d \<in> set data"
  shows "a \<le> time d" and "time d \<le> b"
proof -
  obtain e es where data: "data = e # es" using assms(2) by (cases data) auto
  have folds: "foldl (\<lambda>m d. if time d < m then time d else m) m ds = foldl (\<lambda>m t. if t < m then t else m) m (map time ds)"
    "foldl (\<lambda>m d. if time d > m then time d else m) m ds = foldl (\<lambda>m t. if t > m then t else m) m (map time ds)" for m ds
    by (induction ds arbitrary: m) simp_all
  have "time d \<in> insert (time e) (set (map time es))" using assms(2) by (auto simp: data)
  then show "a \<le> time d" "time d \<le> b"
    using assms(1) fold_extreme [of "time d" "time e" "map time es"] by (simp_all add: data resolveDataXExtent_def folds)
qed

lemma y_domain_holds:
  assumes "v \<in> set (series_numbers num data keys)"
  shows "fst (resolveTimeSeriesYDomain num data keys None) \<le> v" and "v \<le> snd (resolveTimeSeriesYDomain num data keys None)"
    and "fst (resolveTimeSeriesYDomain num data keys None) < snd (resolveTimeSeriesYDomain num data keys None)"
proof -
  obtain u us where us: "series_numbers num data keys = u # us" using assms by (cases "series_numbers num data keys") auto
  define lo hi where "lo = foldl (\<lambda>m v. if v < m then v else m) u us" and "hi = foldl (\<lambda>m v. if v > m then v else m) u us"
  have ext: "collectNumericExtents num data keys = (lo, hi)" by (simp add: collectNumericExtents_def us lo_def hi_def)
  have between: "lo \<le> x \<and> x \<le> hi" if "x \<in> set (u # us)" for x
    using that fold_extreme [of x u us] by (simp add: lo_def hi_def)
  have v: "lo \<le> v" "v \<le> hi" using between [of v] assms us by simp_all
  define p where "p = (hi - lo) * (5 / 100)"
  have p: "0 \<le> p" using v by (simp add: p_def)
  have dom: "resolveTimeSeriesYDomain num data keys None =
     (if 0 \<le> lo then (0, if hi \<le> 0 then 100 else hi * (11 / 10))
      else (lo - (if p = 0 then 1 else p), hi + (if p = 0 then 1 else p)))"
    by (simp add: resolveTimeSeriesYDomain_def ext p_def Let_def)
  show "fst (resolveTimeSeriesYDomain num data keys None) \<le> v" "v \<le> snd (resolveTimeSeriesYDomain num data keys None)"
    "fst (resolveTimeSeriesYDomain num data keys None) < snd (resolveTimeSeriesYDomain num data keys None)"
    using v p unfolding dom by (auto split: if_splits)
qed

text \<open>The scale of a line, from the domain of its axis.\<close>

lemma series_scale:
  assumes "line \<in> set (se_lines E)"
  shows "series_yScale E (lc_yAxisId line) = se_scaleLinear E (se_innerHeight E, 0)
    (se_nice E (resolveYDomain E (visiblePlotData E) (map lc_dataKey (filter (\<lambda>l. axis_of l = axis_of line) (se_lines E)))))"
  using every_series_has_scale [where ls = "se_lines E" and nice = "se_nice E" and hundred = "(0, 100)"
      and resolveDomain = "resolveYDomain E (visiblePlotData E)" and scale = "se_scaleLinear E (se_innerHeight E, 0)"] assms
  by (simp add: Let_def list_all_iff series_yScale_def series_yScales_def yDomainTargetByAxis_def axis_of_def)

definition in_plot :: "'r series_env \<Rightarrow> SeriesPathPoint \<Rightarrow> bool" where
  "in_plot E p \<longleftrightarrow> 0 \<le> pp_x p \<and> pp_x p \<le> se_innerWidth E \<and> 0 \<le> pp_y p \<and> pp_y p \<le> se_innerHeight E"

lemma line_scale:
  assumes "nice_law (se_nice E)" and "span_law (se_scaleLinear E)" and "line \<in> set (se_lines E)" and "se_yScaleDomainMax E = None"
    and "d \<in> set (visiblePlotData E)" and "se_number E d (lc_dataKey line) = Some v" and "0 < se_innerHeight E"
  obtains a b where "a < b" and "a \<le> v" and "v \<le> b"
    and "\<And>w. series_yScale E (lc_yAxisId line) w = se_innerHeight E - (w - a) / (b - a) * se_innerHeight E"
proof -
  let ?keys = "map lc_dataKey (filter (\<lambda>l. axis_of l = axis_of line) (se_lines E))"
  define raw where "raw = resolveTimeSeriesYDomain (se_number E) (visiblePlotData E) ?keys None"
  have "v \<in> set (series_numbers (se_number E) (visiblePlotData E) ?keys)"
    using assms(3,5,6) by (force simp: series_numbers_def)
  note holds = y_domain_holds [OF this, folded raw_def]
  have nice: "fst (se_nice E raw) \<le> fst raw" "snd raw \<le> snd (se_nice E raw)"
    using assms(1) holds(3) unfolding nice_law_def by (metis prod.collapse)+
  have "resolveYDomain E (visiblePlotData E) ?keys = raw" by (simp add: resolveYDomain_def raw_def assms(4))
  then have scale: "series_yScale E (lc_yAxisId line) = se_scaleLinear E (se_innerHeight E, 0) (se_nice E raw)"
    using series_scale [OF assms(3)] by simp
  define a b where "a = fst (se_nice E raw)" and "b = snd (se_nice E raw)"
  have ab: "a < b" "a \<le> v" "v \<le> b" using nice holds unfolding a_def b_def by linarith+
  have "series_yScale E (lc_yAxisId line) w = se_innerHeight E - (w - a) / (b - a) * se_innerHeight E" for w
  proof -
    have "se_scaleLinear E (se_innerHeight E, 0) (a, b) w = se_innerHeight E + (w - a) / (b - a) * (0 - se_innerHeight E)"
      using assms(2) ab(1) unfolding span_law_def by blast
    then show ?thesis unfolding scale by (simp add: a_def b_def)
  qed
  then show ?thesis using that ab by blast
qed

lemma renderData_subset: "set (renderData E) \<subseteq> set (se_plotData E)"
proof (cases "length (se_plotData E) \<le> maxRenderPointsForWidth (se_innerWidth E)")
  case False
  have "3 \<le> maxRenderPointsForWidth (se_innerWidth E)" unfolding maxRenderPointsForWidth_def by linarith
  then have "set (sampled_indices getY (length (se_plotData E)) (maxRenderPointsForWidth (se_innerWidth E))) \<subseteq> {..<length (se_plotData E)}" for getY
    using False sampled(2) [of "maxRenderPointsForWidth (se_innerWidth E)" "length (se_plotData E)"] by simp
  then show ?thesis by (auto simp: renderData_def decimateTimeSeries_def intro!: nth_mem)
qed (simp add: renderData_def decimateTimeSeries_def)

lemma vertices_in_plot:
  assumes "nice_law (se_nice E)" and "span_law (se_scaleLinear E)" and "time_law (se_scaleTime E)"
    and "se_xDomain E = None" and "se_yScaleDomainMax E = None" and "line \<in> set (se_lines E)"
    and "0 < se_innerHeight E" and "0 \<le> se_innerWidth E" and "fst (x_domain E) < snd (x_domain E)"
    and "\<forall>d \<in> set (se_plotData E). se_number E d (lc_dataKey line) \<noteq> None"
  shows "\<forall>p \<in> set (line_points E line). in_plot E p"
proof
  fix p assume "p \<in> set (line_points E line)"
  then obtain d where d: "d \<in> set (se_plotData E)" and p: "p = \<lparr>pp_x = series_xScale E (se_time E d),
      pp_y = (case se_number E d (lc_dataKey line) of Some v \<Rightarrow> series_yScale E (lc_yAxisId line) v | None \<Rightarrow> 0),
      pp_key = show_int (se_time E d)\<rparr>"
    using renderData_subset [of E] by (auto simp: line_points_def computeSeriesPathPoints_def)
  obtain t0 t1 where ext: "resolveDataXExtent (se_time E) (se_plotData E) = Some (t0, t1)"
    using d by (cases "se_plotData E") (auto simp: resolveDataXExtent_def)
  then have dom: "x_domain E = (t0, t1)" by (simp add: x_domain_def assms(4))
  then have t: "t0 < t1" "t0 \<le> se_time E d" "se_time E d \<le> t1" using assms(9) extent_bounds [OF ext d] by simp_all
  have "series_xScale E (se_time E d) = of_int (se_time E d - t0) / of_int (t1 - t0) * se_innerWidth E"
  proof -
    have "se_scaleTime E (0, se_innerWidth E) (t0, t1) (se_time E d) = 0 + of_int (se_time E d - t0) / of_int (t1 - t0) * (se_innerWidth E - 0)"
      using assms(3) t(1) unfolding time_law_def by blast
    then show ?thesis by (simp add: series_xScale_def dom)
  qed
  then have x: "0 \<le> pp_x p" "pp_x p \<le> se_innerWidth E"
    using part_of [of "of_int (se_time E d - t0)" "of_int (t1 - t0)" "se_innerWidth E"] t assms(8) by (simp_all add: p)
  obtain v where v: "se_number E d (lc_dataKey line) = Some v" using assms(10) d by blast
  have visible: "d \<in> set (visiblePlotData E)" using d by (simp add: visiblePlotData_def assms(4))
  obtain a b where ab: "a < b" "a \<le> v" "v \<le> b"
    "\<And>w. series_yScale E (lc_yAxisId line) w = se_innerHeight E - (w - a) / (b - a) * se_innerHeight E"
    using line_scale [OF assms(1,2,6,5) visible v assms(7)] by blast
  have "0 \<le> pp_y p" "pp_y p \<le> se_innerHeight E"
    using part_of [of "v - a" "b - a" "se_innerHeight E"] ab assms(7) by (simp_all add: p v)
  then show "in_plot E p" using x by (simp add: in_plot_def)
qed

lemma towards_in_plot:
  assumes "in_plot E p" and "in_plot E q" and "0 \<le> t" and "t \<le> 1"
  shows "in_plot E (towards p q t)"
proof -
  have "lo \<le> a + (c - a) * t \<and> a + (c - a) * t \<le> hi" if "lo \<le> a" "a \<le> hi" "lo \<le> c" "c \<le> hi" for lo hi a c :: rat
  proof -
    have mix: "a + (c - a) * t = a * (1 - t) + c * t" by (simp add: algebra_simps)
    have "lo * (1 - t) + lo * t \<le> a * (1 - t) + c * t" "a * (1 - t) + c * t \<le> hi * (1 - t) + hi * t"
      using that assms(3,4) by (intro add_mono mult_right_mono; simp)+
    then show ?thesis unfolding mix by (simp add: algebra_simps)
  qed
  note mixed = this
  show ?thesis using assms(1,2) mixed [of 0 "pp_x p" "se_innerWidth E" "pp_x q"] mixed [of 0 "pp_y p" "se_innerHeight E" "pp_y q"]
    by (simp add: in_plot_def towards_def)
qed

lemma by_key_in: "by_key from key = Some p \<Longrightarrow> p \<in> set from"
  unfolding by_key_def by (drule map_of_SomeD) auto

lemma anchor_in: "i < length goal \<Longrightarrow> anchor_of from goal i \<in> set from \<union> set goal"
  by (auto simp: anchor_of_def Let_def dest: by_key_in split: option.split list.split if_splits)

lemma interpolated_in_plot:
  assumes "\<forall>p \<in> set from. in_plot E p" and "\<forall>p \<in> set goal. in_plot E p"
  shows "\<forall>p \<in> set (interpolateSeriesPathPoints from goal t). in_plot E p"
proof (cases "0 < t \<and> t < 1")
  case True
  have "in_plot E (towards (anchor_of from goal i) (goal ! i) t)" if i: "i < length goal" for i
    using towards_in_plot [of E _ "goal ! i" t] anchor_in [OF i, of "from"] assms True i by fastforce
  then show ?thesis using True by (auto simp: interpolateSeriesPathPoints_def)
next
  case False
  then show ?thesis using assms by (auto simp: interpolateSeriesPathPoints_def)
qed

text \<open>A line stays in its plot, at rest and on its way: over the scales d3 documents, every vertex of a line whose
  rows all have figures lies inside the plot, whatever other series share its axis and however long the series
  is; at any moment of the way from an earlier line inside the plot so does every vertex; at its end the way is at
  the line; and a greater figure of the line is drawn higher.\<close>

theorem line_inside_plot:
  assumes "nice_law (se_nice E)" and "span_law (se_scaleLinear E)" and "time_law (se_scaleTime E)"
    and "se_xDomain E = None" and "se_yScaleDomainMax E = None" and "line \<in> set (se_lines E)"
    and "0 < se_innerHeight E" and "0 \<le> se_innerWidth E" and "fst (x_domain E) < snd (x_domain E)"
    and "\<forall>d \<in> set (se_plotData E). se_number E d (lc_dataKey line) \<noteq> None"
    and "\<forall>p \<in> set from. in_plot E p"
  shows "list_all (in_plot E) (interpolateSeriesPathPoints from (line_points E line) progress) \<and>
    interpolateSeriesPathPoints from (line_points E line) 1 = line_points E line \<and>
    (\<forall>v w. v < w \<longrightarrow> (if se_plotData E = [] then True
      else series_yScale E (lc_yAxisId line) w < series_yScale E (lc_yAxisId line) v))"
proof -
  note vertices = vertices_in_plot [OF assms(1-10)]
  have "series_yScale E (lc_yAxisId line) w < series_yScale E (lc_yAxisId line) v" if less: "v < w" and rows: "se_plotData E \<noteq> []" for v w
  proof -
    obtain d u where d: "d \<in> set (se_plotData E)" "se_number E d (lc_dataKey line) = Some u"
      using rows assms(10) by (metis list.set_sel(1) option.exhaust)
    then have visible: "d \<in> set (visiblePlotData E)" by (simp add: visiblePlotData_def assms(4))
    obtain a b where ab: "a < b" "a \<le> u" "u \<le> b"
      "\<And>w. series_yScale E (lc_yAxisId line) w = se_innerHeight E - (w - a) / (b - a) * se_innerHeight E"
      using line_scale [OF assms(1,2,6,5) visible d(2) assms(7)] by blast
    have "(v - a) / (b - a) < (w - a) / (b - a)" using less ab(1) by (simp add: divide_strict_right_mono)
    from mult_strict_right_mono [OF this assms(7)] show ?thesis unfolding ab(4) by simp
  qed
  then show ?thesis
    using interpolated_in_plot [OF assms(11) vertices, of progress] by (simp add: list_all_iff) (simp add: interpolateSeriesPathPoints_def)
qed

text \<open>A row without a figure is drawn all the same: its vertex is at the upper edge of the plot, above every figure.\<close>

lemma missing_figure_at_the_top:
  assumes "se_number E d (lc_dataKey line) = None" and "d \<in> set (renderData E)"
  shows "\<exists>p \<in> set (line_points E line). pp_x p = series_xScale E (se_time E d) \<and> pp_y p = 0"
  using assms by (force simp: line_points_def computeSeriesPathPoints_def)

subsection \<open>Highlight and phases\<close>

text \<open>The highlight holds the point under the pointer: over rows in the order of their times and a scale that keeps
  the order, the bright band of a hovered row reaches from the row before it to the row after it, ends at the
  first and the last row, and its own row lies inside; a dragged selection is lit as it was dragged, whatever is
  hovered; and a chart without rows, or without pointer and selection, lights nothing.\<close>

theorem highlight_holds_hover:
  assumes "sorted (map time data)" and "\<forall>a b. a \<le> b \<longrightarrow> xScale a \<le> xScale b" and "i < length data" and "cs_active sel"
  shows "(let s = computeSegmentBounds data xScale time (Some i) None; x = (\<lambda>j. xScale (time (data ! j))) in
     sg_isActive s \<and> sg_x s \<le> x i \<and> x i \<le> sg_x s + sg_width s \<and> sg_x s = x (i - 1) \<and>
     sg_x s + sg_width s = x (min (length data - 1) (i + 1))) \<and>
    computeSegmentBounds data xScale time (Some i) (Some sel) =
      \<lparr>sg_x = min (cs_startX sel) (cs_endX sel), sg_width = \<bar>cs_endX sel - cs_startX sel\<bar>, sg_isActive = True\<rparr> \<and>
    computeSegmentBounds data xScale time None None = INACTIVE_SEGMENT"
proof -
  have data: "data \<noteq> []" using assms(3) by auto
  have mono: "xScale (time (data ! j)) \<le> xScale (time (data ! k))" if "j \<le> k" "k < length data" for j k
    using assms(1,2) that sorted_nth_mono [of "map time data" j k] by simp
  have bounds: "i - 1 < length data" "min (length data - 1) (i + 1) < length data" "i \<le> min (length data - 1) (i + 1)"
    using assms(3) by auto
  have "xScale (time (data ! (i - 1))) \<le> xScale (time (data ! i))" using mono [of "i - 1" i] assms(3) by simp
  moreover have "xScale (time (data ! i)) \<le> xScale (time (data ! min (length data - 1) (i + 1)))"
    using mono [OF bounds(3,2)] .
  ultimately have "let s = computeSegmentBounds data xScale time (Some i) None; x = (\<lambda>j. xScale (time (data ! j))) in
     sg_isActive s \<and> sg_x s \<le> x i \<and> x i \<le> sg_x s + sg_width s \<and> sg_x s = x (i - 1) \<and>
     sg_x s + sg_width s = x (min (length data - 1) (i + 1))"
    using data bounds(1,2) by (simp add: computeSegmentBounds_def js_at_def Let_def)
  then show ?thesis using data assms(4) by (simp add: computeSegmentBounds_def)
qed

text \<open>Line and pulse are never on the screen together: a line that leaves the choice to the chart shows its stroke in
  the live phases, its pulse in the loading ones and neither while the axes move; and the pulses that tell the
  chart of their end are those of the two phases the chart waits in for it.\<close>

lemma stroke_or_pulse:
  "(if showSeriesStroke ph then pulseMode None None ph = None else True) \<and>
   (if isYDomainTweenPhase ph then \<not> showSeriesStroke ph \<and> pulseMode None None ph = None else True) \<and>
   (pulseMode None None ph \<noteq> None \<and> handleLoadingPulseComplete (pulseMode None None ph) = TellChart \<longleftrightarrow>
     ph = PhExiting \<or> ph = PhRevealingLoading)"
  by (cases ph) (simp_all add: showSeriesStroke_def pulseMode_def isYDomainTweenPhase_def handleLoadingPulseComplete_def)

lemma tick_count_bounds: "1 \<le> resolveYAxisTickCount n \<and> resolveYAxisTickCount n \<le> 10"
  by (simp add: resolveYAxisTickCount_def Let_def split: option.split)

subsection \<open>Scales that keep the laws\<close>

definition demo_span :: "rat \<times> rat \<Rightarrow> rat \<times> rat \<Rightarrow> rat \<Rightarrow> rat" where
  "demo_span r d v = fst r + (v - fst d) / (snd d - fst d) * (snd r - fst r)"

definition demo_time :: "rat \<times> rat \<Rightarrow> int \<times> int \<Rightarrow> int \<Rightarrow> rat" where
  "demo_time r d t = fst r + of_int (t - fst d) / of_int (snd d - fst d) * (snd r - fst r)"

lemma demo_span_law: "span_law demo_span" "time_law demo_time" "nice_law (\<lambda>d. d)"
  by (simp_all add: span_law_def demo_span_def time_law_def demo_time_def nice_law_def)

definition demo_series :: "(int \<times> rat) series_env" where
  "demo_series =
     \<lparr>se_plotData = [(0, 10), (5, 4), (10, 7)], se_number = (\<lambda>d _. Some (snd d)), se_values = (\<lambda>d. [snd d]), se_time = fst,
      se_lines = [\<lparr>lc_dataKey = ''v'', lc_stroke = [], lc_strokeWidth = 0, lc_yAxisId = None\<rparr>], se_innerWidth = 100,
      se_innerHeight = 110, se_xDomain = None, se_xDomainSlotCount = None, se_yScaleDomainMax = None, se_scaleTime = demo_time,
      se_nice = (\<lambda>d. d), se_scaleLinear = demo_span\<rparr>"

abbreviation demo_series_line :: LineConfig where
  "demo_series_line \<equiv> \<lparr>lc_dataKey = ''v'', lc_stroke = [], lc_strokeWidth = 0, lc_yAxisId = None\<rparr>"

lemma demo_parts:
  "nice_law (se_nice demo_series)" "span_law (se_scaleLinear demo_series)" "time_law (se_scaleTime demo_series)"
  "se_xDomain demo_series = None" "se_yScaleDomainMax demo_series = None" "demo_series_line \<in> set (se_lines demo_series)"
  "0 < se_innerHeight demo_series" "0 \<le> se_innerWidth demo_series"
  "\<forall>d \<in> set (se_plotData demo_series). se_number demo_series d (lc_dataKey demo_series_line) \<noteq> None"
  by (simp_all add: demo_series_def demo_span_law)

theorem line_inside_plot_witness:
  "list_all (in_plot demo_series) (interpolateSeriesPathPoints [] (line_points demo_series demo_series_line) 1)"
proof -
  have "x_domain demo_series = (0, 10)" by code_simp
  then have domain: "fst (x_domain demo_series) < snd (x_domain demo_series)" by simp
  have none: "\<forall>p \<in> set []. in_plot demo_series p" by simp
  show ?thesis by (rule line_inside_plot [OF demo_parts(1-8) domain demo_parts(9) none, THEN conjunct1])
qed

theorem highlight_holds_hover_witness:
  "let s = computeSegmentBounds [(0, 10), (5, 4), (10, 7 :: nat)] of_int fst (Some 1) None
   in sg_x s \<le> 5 \<and> 5 \<le> sg_x s + sg_width s"
  using highlight_holds_hover [of fst "[(0, 10), (5, 4), (10, 7 :: nat)]" of_int 1
      "\<lparr>cs_startX = 0, cs_endX = 1, cs_startIndex = 0, cs_endIndex = 1, cs_active = True\<rparr>"]
  by (simp add: Let_def)

end
