(* ===== verification/Line_Motion.thy ===== *)
theory Line_Motion
  imports Time_Series
begin

section \<open>A line on its way to new data: use-animated-series-path.ts\<close>

text \<open>
  \<open>src/web/src/components/charts/use-animated-series-path.ts\<close> as a machine over renders and the frames and the end of
  its animation. The state is what the hook keeps with \<open>useState\<close> and \<open>useRef\<close>, its running animation, and the
  dependencies its two effects ran with last. \<open>targetPoints\<close> is a memo of the rows, both scales, the accessor and the
  key, which are functions and objects: \<open>po_memo\<close> stands for the identity of that memo, and with it for theirs. The
  signature, a text in the code, is kept as what is printed into it; it is only compared.
\<close>

subsection \<open>The hook\<close>

type_synonym path_signature = "rat \<times> int \<times> int \<times> (int \<times> rat option) list"

definition seriesPathTransitionSignature ::
    "'r list \<Rightarrow> ('r \<Rightarrow> int) \<Rightarrow> ('r \<Rightarrow> string \<Rightarrow> rat option) \<Rightarrow> string \<Rightarrow> rat \<Rightarrow> int \<times> int \<Rightarrow> path_signature" where
  "seriesPathTransitionSignature rows xAccessor num dataKey innerWidth xDomain =
     (innerWidth, fst xDomain, snd xDomain, map (\<lambda>datum. (xAccessor datum, num datum dataKey)) rows)"

record path_options =
  po_enabled :: bool
  po_reducedMotion :: bool
  po_chartPhase :: ChartPhase
  po_durationMs :: rat
  po_signature :: path_signature
  po_memo :: nat
  po_targetPoints :: "SeriesPathPoint list"

text \<open>An animation holds the points it started from and the points of the render it was started in.\<close>

record path_tween =
  pt_from :: "SeriesPathPoint list"
  pt_goal :: "SeriesPathPoint list"

record path_state =
  pa_animatedPoints :: "SeriesPathPoint list option"
  pa_displayed :: "SeriesPathPoint list option"
  pa_animating :: bool
  pa_prevSignature :: path_signature
  pa_control :: "path_tween option"
  pa_deps1 :: "nat option"
  pa_deps2 :: "(path_signature \<times> ChartPhase \<times> rat \<times> bool \<times> bool \<times> nat) option"

definition path_init :: "path_options \<Rightarrow> path_state" where
  "path_init p =
     \<lparr>pa_animatedPoints = None, pa_displayed = None, pa_animating = False, pa_prevSignature = po_signature p,
      pa_control = None, pa_deps1 = None, pa_deps2 = None\<rparr>"

definition shouldAnimate :: "path_options \<Rightarrow> bool" where
  "shouldAnimate p \<longleftrightarrow> po_enabled p \<and> \<not> po_reducedMotion p \<and> po_chartPhase p = PhReady \<and> po_durationMs p > 0 \<and>
     po_targetPoints p \<noteq> []"

definition displayed_effect :: "path_options \<Rightarrow> path_state \<Rightarrow> path_state" where
  "displayed_effect p st =
     (if pa_deps1 st = Some (po_memo p) then st
      else let st' = st\<lparr>pa_deps1 := Some (po_memo p)\<rparr>
        in if pa_animating st' then st' else st'\<lparr>pa_displayed := Some (po_targetPoints p)\<rparr>)"

definition path_effect :: "path_options \<Rightarrow> path_state \<Rightarrow> path_state" where
  "path_effect p st =
     (if \<not> shouldAnimate p then
        st\<lparr>pa_animating := False, pa_animatedPoints := None, pa_displayed := Some (po_targetPoints p),
           pa_prevSignature := po_signature p\<rparr>
      else if pa_prevSignature st = po_signature p then st
      else
        let st' = st\<lparr>pa_prevSignature := po_signature p\<rparr>;
            fromPoints = (case pa_displayed st' of Some ps \<Rightarrow> ps | None \<Rightarrow> po_targetPoints p)
        in if fromPoints = [] then st'\<lparr>pa_displayed := Some (po_targetPoints p)\<rparr>
           else st'\<lparr>pa_animating := True, pa_control := Some \<lparr>pt_from = fromPoints, pt_goal = po_targetPoints p\<rparr>\<rparr>)"

text \<open>The effect that is left: its animation, when it started one, is stopped.\<close>

definition path_cleanup :: "path_state \<Rightarrow> path_state" where
  "path_cleanup st =
     (case pa_control st of None \<Rightarrow> st | Some _ \<Rightarrow> st\<lparr>pa_control := None, pa_animating := False\<rparr>)"

definition path_deps :: "path_options \<Rightarrow> path_signature \<times> ChartPhase \<times> rat \<times> bool \<times> bool \<times> nat" where
  "path_deps p = (po_signature p, po_chartPhase p, po_durationMs p, po_enabled p, po_reducedMotion p, po_memo p)"

text \<open>A commit: what is left is cleaned up before any effect runs, the effects run in their order.\<close>

definition path_commit :: "path_options \<Rightarrow> path_state \<Rightarrow> path_state" where
  "path_commit p st =
     (if pa_deps2 st = Some (path_deps p) then displayed_effect p st
      else path_effect p ((displayed_effect p (path_cleanup st))\<lparr>pa_deps2 := Some (path_deps p)\<rparr>))"

definition path_frame :: "rat \<Rightarrow> path_state \<Rightarrow> path_state" where
  "path_frame progress st =
     (case pa_control st of
        None \<Rightarrow> st
      | Some c \<Rightarrow> let next_points = interpolateSeriesPathPoints (pt_from c) (pt_goal c) progress
          in st\<lparr>pa_displayed := Some next_points, pa_animatedPoints := Some next_points\<rparr>)"

definition path_complete :: "path_state \<Rightarrow> path_state" where
  "path_complete st =
     (case pa_control st of
        None \<Rightarrow> st
      | Some c \<Rightarrow> st\<lparr>pa_animating := False, pa_displayed := Some (pt_goal c), pa_animatedPoints := None, pa_control := None\<rparr>)"

datatype path_event = PathRender path_options | PathFrame rat | PathComplete

fun path_step :: "path_options \<times> path_state \<Rightarrow> path_event \<Rightarrow> path_options \<times> path_state" where
  "path_step (p, st) (PathRender q) = (q, path_commit q st)"
| "path_step (p, st) (PathFrame progress) = (p, path_frame progress st)"
| "path_step (p, st) PathComplete = (p, path_complete st)"

definition path_mount :: "path_options \<Rightarrow> path_options \<times> path_state" where
  "path_mount p = (p, path_commit p (path_init p))"

text \<open>What is drawn: the hook's points, and the rows as they are while the hook is off (\<open>line.tsx\<close>).\<close>

definition activePoints :: "path_options \<times> path_state \<Rightarrow> SeriesPathPoint list" where
  "activePoints s = (case pa_animatedPoints (snd s) of Some ps \<Rightarrow> ps | None \<Rightarrow> po_targetPoints (fst s))"

definition drawn_points :: "path_options \<times> path_state \<Rightarrow> SeriesPathPoint list" where
  "drawn_points s =
     (if po_enabled (fst s) \<and> activePoints s \<noteq> [] then activePoints s else po_targetPoints (fst s))"

text \<open>The options a line of a chart gives the hook.\<close>

definition line_options :: "'r series_env \<Rightarrow> LineConfig \<Rightarrow> bool \<Rightarrow> bool \<Rightarrow> ChartPhase \<Rightarrow> rat \<Rightarrow> nat \<Rightarrow> path_options" where
  "line_options E line animate reducedMotion ph yDomainTweenDuration memo =
     \<lparr>po_enabled = (animate \<and> ph = PhReady), po_reducedMotion = reducedMotion, po_chartPhase = ph,
      po_durationMs = yDomainTweenDuration,
      po_signature = seriesPathTransitionSignature (renderData E) (se_time E) (se_number E) (lc_dataKey line) (se_innerWidth E) (x_domain E),
      po_memo = memo, po_targetPoints = line_points E line\<rparr>"

subsection \<open>A line comes to rest at its rows\<close>

text \<open>A render that does not get in the way of a running animation: it changes none of its dependencies, brings new
  rows, or turns the animation off. New rows are a new memo.\<close>

definition render_ok :: "path_options \<times> path_state \<Rightarrow> path_options \<Rightarrow> bool" where
  "render_ok s q \<longleftrightarrow>
     (po_signature q \<noteq> po_signature (fst s) \<longrightarrow> po_memo q \<noteq> po_memo (fst s)) \<and>
     (pa_control (snd s) = None \<or> path_deps q = path_deps (fst s) \<or> po_signature q \<noteq> po_signature (fst s) \<or> \<not> shouldAnimate q)"

fun undisturbed :: "path_options \<times> path_state \<Rightarrow> path_event list \<Rightarrow> bool" where
  "undisturbed s [] \<longleftrightarrow> True"
| "undisturbed s (e # es) \<longleftrightarrow> (case e of PathRender q \<Rightarrow> render_ok s q | _ \<Rightarrow> True) \<and> undisturbed (path_step s e) es"

text \<open>What every state keeps, disturbed or not, and what an undisturbed run keeps beside it.\<close>

definition path_inv :: "path_options \<times> path_state \<Rightarrow> bool" where
  "path_inv s \<longleftrightarrow>
     pa_prevSignature (snd s) = po_signature (fst s) \<and> pa_deps1 (snd s) = Some (po_memo (fst s)) \<and>
     pa_deps2 (snd s) = Some (path_deps (fst s)) \<and> (pa_animating (snd s) \<longleftrightarrow> pa_control (snd s) \<noteq> None)"

definition at_rest_shows_rows :: "path_options \<times> path_state \<Rightarrow> bool" where
  "at_rest_shows_rows s \<longleftrightarrow> (pa_control (snd s) = None \<longrightarrow> pa_animatedPoints (snd s) = None)"

lemmas path_defs = path_commit_def path_effect_def path_cleanup_def displayed_effect_def path_frame_def path_complete_def
  path_deps_def Let_def

lemma path_inv_mount: "path_inv (path_mount p)" "at_rest_shows_rows (path_mount p)"
  by (simp_all add: path_mount_def path_inv_def at_rest_shows_rows_def path_init_def path_defs)

lemma path_inv_step: "path_inv s \<Longrightarrow> path_inv (path_step s e)"
  by (cases s; cases e) (auto simp: path_inv_def path_defs split: option.splits)

lemma path_inv_run: "path_inv s \<Longrightarrow> path_inv (foldl path_step s events)"
  by (induction events arbitrary: s) (simp_all add: path_inv_step)

lemma new_rows_start:
  assumes "path_inv s" and "po_signature q \<noteq> po_signature (fst s)" and "po_memo q \<noteq> po_memo (fst s)" and "shouldAnimate q"
  shows "pa_control (snd (path_step s (PathRender q))) = Some \<lparr>pt_from = po_targetPoints q, pt_goal = po_targetPoints q\<rparr>"
  using assms by (cases s) (auto simp: path_inv_def path_defs shouldAnimate_def split: option.splits)

lemma path_render:
  assumes "path_inv (p, st)"
  shows "path_deps q = path_deps p \<Longrightarrow> path_commit q st = st"
    and "\<not> shouldAnimate q \<Longrightarrow> path_deps q \<noteq> path_deps p \<Longrightarrow> pa_animatedPoints (path_commit q st) = None"
    and "shouldAnimate q \<Longrightarrow> po_signature q = po_signature p \<Longrightarrow> path_deps q \<noteq> path_deps p \<Longrightarrow>
      pa_control (path_commit q st) = None \<and> pa_animatedPoints (path_commit q st) = pa_animatedPoints st"
proof -
  have st: "pa_deps1 st = Some (po_memo p)" "pa_deps2 st = Some (path_deps p)" "pa_prevSignature st = po_signature p"
    using assms by (simp_all add: path_inv_def)
  show "path_commit q st = st" if same: "path_deps q = path_deps p"
  proof -
    have "po_memo q = po_memo p" using same by (simp add: path_deps_def)
    then show ?thesis using st by (simp add: path_commit_def displayed_effect_def same)
  qed
  show "pa_animatedPoints (path_commit q st) = None" if "\<not> shouldAnimate q" "path_deps q \<noteq> path_deps p"
    using that st by (simp add: path_commit_def path_effect_def)
  show "pa_control (path_commit q st) = None \<and> pa_animatedPoints (path_commit q st) = pa_animatedPoints st"
    if "shouldAnimate q" "po_signature q = po_signature p" "path_deps q \<noteq> path_deps p"
    using that st by (simp add: path_commit_def path_effect_def displayed_effect_def path_cleanup_def Let_def split: option.split)
qed

lemma at_rest_step:
  assumes "path_inv s" and "at_rest_shows_rows s" and "case e of PathRender q \<Rightarrow> render_ok s q | _ \<Rightarrow> True"
  shows "at_rest_shows_rows (path_step s e)"
proof (cases e)
  case (PathRender q)
  then have ok: "render_ok s q" using assms(3) by simp
  show ?thesis
  proof (cases "shouldAnimate q \<and> po_signature q \<noteq> po_signature (fst s)")
    case True
    then show ?thesis
      using new_rows_start [OF assms(1)] ok by (simp add: PathRender at_rest_shows_rows_def render_ok_def)
  next
    case False
    obtain p st where s: "s = (p, st)" by (cases s)
    note render = path_render [OF assms(1) [unfolded s], of q]
    show ?thesis
    proof (cases "path_deps q = path_deps p")
      case True
      then show ?thesis using assms(2) render(1) by (auto simp: PathRender s at_rest_shows_rows_def)
    next
      case other: False
      then show ?thesis
        using assms(2) render(2,3) False ok by (cases "shouldAnimate q") (auto simp: PathRender s at_rest_shows_rows_def render_ok_def)
    qed
  qed
next
  case (PathFrame t)
  then show ?thesis using assms(2) by (cases s) (simp add: at_rest_shows_rows_def path_frame_def Let_def split: option.split)
next
  case PathComplete
  then show ?thesis using assms(2) by (cases s) (simp add: at_rest_shows_rows_def path_complete_def split: option.split)
qed

lemma at_rest_run:
  "path_inv s \<Longrightarrow> at_rest_shows_rows s \<Longrightarrow> undisturbed s events \<Longrightarrow> at_rest_shows_rows (foldl path_step s events)"
  by (induction events arbitrary: s) (simp_all add: path_inv_step at_rest_step)

text \<open>C34. A line comes to rest at its rows: in every run whose renders bring new rows, turn the animation off or leave it
  alone, the vertices on the screen are those of the present rows and scales whenever no animation runs, and
  they are as soon as a running one completes.\<close>

theorem line_rests_at_rows:
  assumes "undisturbed (path_mount p) events"
  shows "let s = foldl path_step (path_mount p) events in
    (if pa_control (snd s) = None then drawn_points s = po_targetPoints (fst s) else pa_animating (snd s)) \<and>
    drawn_points (path_step s PathComplete) = po_targetPoints (fst s)"
proof -
  define s where "s = foldl path_step (path_mount p) events"
  have inv: "path_inv s" "at_rest_shows_rows s"
    using at_rest_run [OF path_inv_mount assms] path_inv_run [OF path_inv_mount(1)] by (simp_all add: s_def)
  have "at_rest_shows_rows (path_step s PathComplete)" by (rule at_rest_step [OF inv]) simp
  moreover have "pa_control (snd (path_step s PathComplete)) = None" "fst (path_step s PathComplete) = fst s"
    by (cases s; simp add: path_complete_def split: option.split)+
  ultimately have "drawn_points (path_step s PathComplete) = po_targetPoints (fst s)"
    by (simp add: at_rest_shows_rows_def drawn_points_def activePoints_def)
  then show ?thesis
    using inv unfolding s_def [symmetric] Let_def
    by (auto simp: at_rest_shows_rows_def path_inv_def drawn_points_def activePoints_def)
qed

subsection \<open>Two defects\<close>

text \<open>The points on the screen are recorded one effect too early: when new rows arrive the first effect has already put
  the new points where the second one reads the old ones, so the animation goes from the new line to the new line
  and the line jumps. Rows of different times have different keys.\<close>

lemma still_way:
  assumes "distinct (map pp_key goal)"
  shows "interpolateSeriesPathPoints goal goal t = goal"
proof -
  have "by_key goal (pp_key (goal ! i)) = Some (goal ! i)" if "i < length goal" for i
    unfolding by_key_def using that assms
    by (intro map_of_is_SomeI) (auto simp: rev_map [symmetric] comp_def)
  then have "anchor_of goal goal i = goal ! i" if "i < length goal" for i
    using that by (simp add: anchor_of_def Let_def)
  moreover have "towards x x t = x" for x by (simp add: towards_def)
  ultimately have "map (\<lambda>i. towards (anchor_of goal goal i) (goal ! i) t) [0..<length goal] = map ((!) goal) [0..<length goal]"
    by (intro map_cong) simp_all
  then show ?thesis by (simp add: interpolateSeriesPathPoints_def map_nth)
qed

lemma line_jumps:
  assumes "path_inv s" and "po_signature q \<noteq> po_signature (fst s)" and "po_memo q \<noteq> po_memo (fst s)" and "shouldAnimate q"
    and "distinct (map pp_key (po_targetPoints q))"
  shows "drawn_points (path_step (path_step s (PathRender q)) (PathFrame t)) = po_targetPoints q"
proof -
  note started = new_rows_start [OF assms(1-4)]
  then show ?thesis
    using assms(4) still_way [OF assms(5), of t]
    by (cases s) (simp add: path_frame_def drawn_points_def activePoints_def shouldAnimate_def Let_def)
qed

text \<open>And the animation ends for good at the first render that moves a scale, as every frame of the axes does that move to
  new rows: the effect is cleaned up, and run again it finds its signature unchanged. What the last frame drew stays,
  whatever the scales do, until other rows come or the chart leaves its ready phase.\<close>

lemma line_freezes:
  assumes "pa_control (snd s) = None" and "pa_animatedPoints (snd s) = Some ps" and "pa_prevSignature (snd s) = sig"
    and "list_all (\<lambda>e. case e of PathRender q \<Rightarrow> shouldAnimate q \<and> po_signature q = sig | _ \<Rightarrow> True) events"
  shows "activePoints (foldl path_step s events) = ps"
  using assms
proof (induction events arbitrary: s)
  case (Cons e es)
  obtain p st where s: "s = (p, st)" by (cases s)
  have "pa_control (snd (path_step s e)) = None \<and> pa_animatedPoints (snd (path_step s e)) = Some ps \<and>
      pa_prevSignature (snd (path_step s e)) = sig"
    using Cons.prems by (cases e) (auto simp: s path_commit_def path_effect_def displayed_effect_def path_cleanup_def
      path_frame_def path_complete_def Let_def)
  with Cons show ?case by simp
qed (simp add: activePoints_def)

lemma moved_axis_leaves_line:
  assumes "path_inv s" and "po_signature q \<noteq> po_signature (fst s)" and "po_memo q \<noteq> po_memo (fst s)" and "shouldAnimate q"
    and "distinct (map pp_key (po_targetPoints q))"
    and "shouldAnimate q'" and "po_signature q' = po_signature q" and "po_memo q' \<noteq> po_memo q"
    and "list_all (\<lambda>e. case e of PathRender r \<Rightarrow> shouldAnimate r \<and> po_signature r = po_signature q | _ \<Rightarrow> True) events"
  shows "activePoints (foldl path_step s ([PathRender q, PathFrame t, PathRender q'] @ events)) = po_targetPoints q"
proof -
  define s1 s2 where "s1 = path_step s (PathRender q)" and "s2 = path_step s1 (PathFrame t)"
  have inv: "path_inv s1" "path_inv s2" unfolding s1_def s2_def by (intro path_inv_step assms(1))+
  have first: "fst s1 = q" by (cases s) (simp add: s1_def)
  have animated: "pa_animatedPoints (snd s2) = Some (po_targetPoints q)" "fst s2 = q"
    using new_rows_start [OF assms(1-4)] still_way [OF assms(5), of t] first unfolding s2_def s1_def [symmetric]
    by (cases s1; simp add: path_frame_def Let_def)+
  obtain st where s2: "s2 = (q, st)" using animated(2) by (cases s2) simp
  have "path_deps q' \<noteq> path_deps q" using assms(8) by (simp add: path_deps_def)
  note stopped = path_render(3) [OF inv(2) [unfolded s2] assms(6,7) this]
  have "pa_prevSignature (snd (path_step s2 (PathRender q'))) = po_signature q"
    using path_inv_step [OF inv(2), of "PathRender q'"] assms(7) by (simp add: s2 path_inv_def)
  then have "activePoints (foldl path_step (path_step s2 (PathRender q')) events) = po_targetPoints q"
    using stopped animated assms(9) by (intro line_freezes) (simp_all add: s2)
  then show ?thesis by (simp add: s1_def s2_def)
qed

subsection \<open>A line given vertices in its plot keeps to it\<close>

definition points_ok :: "'r series_env \<Rightarrow> SeriesPathPoint list \<Rightarrow> bool" where
  "points_ok E ps \<longleftrightarrow> (\<forall>p \<in> set ps. in_plot E p)"

definition path_in_plot :: "'r series_env \<Rightarrow> path_options \<times> path_state \<Rightarrow> bool" where
  "path_in_plot E s \<longleftrightarrow> points_ok E (po_targetPoints (fst s)) \<and>
     (case pa_animatedPoints (snd s) of Some ps \<Rightarrow> points_ok E ps | None \<Rightarrow> True) \<and>
     (case pa_displayed (snd s) of Some ps \<Rightarrow> points_ok E ps | None \<Rightarrow> True) \<and>
     (case pa_control (snd s) of Some c \<Rightarrow> points_ok E (pt_from c) \<and> points_ok E (pt_goal c) | None \<Rightarrow> True)"

lemma effects_in_plot:
  assumes "path_in_plot E (p, st)" and "points_ok E (po_targetPoints q)"
  shows "path_in_plot E (q, st)" "path_in_plot E (p, path_cleanup st)" "path_in_plot E (p, st\<lparr>pa_deps2 := d\<rparr>)"
    "path_in_plot E (q, displayed_effect q st)" "path_in_plot E (q, path_effect q st)"
  using assms by (simp_all add: path_in_plot_def path_cleanup_def displayed_effect_def path_effect_def Let_def split: option.splits)

lemma commit_in_plot:
  assumes "path_in_plot E (p, st)" and "points_ok E (po_targetPoints q)"
  shows "path_in_plot E (q, path_commit q st)"
  unfolding path_commit_def
  using effects_in_plot(4) [OF assms]
    effects_in_plot(5) [OF effects_in_plot(3) [OF effects_in_plot(4) [OF effects_in_plot(2) [OF assms] assms(2)] assms(2)] assms(2)]
  by simp

lemma step_in_plot:
  assumes "path_in_plot E s" and "case e of PathRender q \<Rightarrow> points_ok E (po_targetPoints q) | _ \<Rightarrow> True"
  shows "path_in_plot E (path_step s e)"
proof (cases e)
  case (PathRender q)
  then show ?thesis using assms commit_in_plot by (cases s) simp
next
  case (PathFrame t)
  have "points_ok E (interpolateSeriesPathPoints (pt_from c) (pt_goal c) t)" if "pa_control (snd s) = Some c" for c
    using assms(1) interpolated_in_plot [of "pt_from c" E "pt_goal c" t] that by (simp add: path_in_plot_def points_ok_def)
  then show ?thesis
    using assms(1) by (cases s) (simp add: PathFrame path_in_plot_def path_frame_def Let_def split: option.splits)
next
  case PathComplete
  then show ?thesis using assms(1) by (cases s) (simp add: path_in_plot_def path_complete_def split: option.splits)
qed

lemma mount_in_plot: "points_ok E (po_targetPoints p) \<Longrightarrow> path_in_plot E (path_mount p)"
  unfolding path_mount_def by (rule commit_in_plot) (simp_all add: path_in_plot_def path_init_def)

text \<open>A chart whose line is drawn inside it: the conditions of \<open>line_inside_plot\<close>, with the size of its plot.\<close>

definition line_fits :: "rat \<Rightarrow> rat \<Rightarrow> LineConfig \<Rightarrow> 'r series_env \<Rightarrow> bool" where
  "line_fits width height line E \<longleftrightarrow>
     nice_law (se_nice E) \<and> span_law (se_scaleLinear E) \<and> time_law (se_scaleTime E) \<and> se_xDomain E = None \<and>
     se_yScaleDomainMax E = None \<and> line \<in> set (se_lines E) \<and> fst (x_domain E) < snd (x_domain E) \<and>
     (\<forall>d \<in> set (se_plotData E). se_number E d (lc_dataKey line) \<noteq> None) \<and> se_innerWidth E = width \<and> se_innerHeight E = height"

subsection \<open>Runs of a small chart\<close>

definition demo_later :: "(int \<times> rat) series_env" where
  "demo_later = demo_series\<lparr>se_plotData := [(0, 2), (5, 30), (10, 7)]\<rparr>"

definition demo_render :: "(int \<times> rat) series_env \<Rightarrow> nat \<Rightarrow> path_options" where
  "demo_render E memo = line_options E demo_series_line True False PhReady 500 memo"

lemma demo_fits: "line_fits 100 110 demo_series_line demo_series" "line_fits 100 110 demo_series_line demo_later"
proof -
  have "x_domain demo_series = (0, 10)" "x_domain demo_later = (0, 10)" by code_simp+
  then show "line_fits 100 110 demo_series_line demo_series" "line_fits 100 110 demo_series_line demo_later"
    using demo_parts by (simp_all add: line_fits_def) (simp_all add: demo_later_def demo_series_def)
qed

theorem line_rests_at_rows_witness:
  "let s = foldl path_step (path_mount (demo_render demo_series 0))
      [PathRender (demo_render demo_later 1), PathFrame (1 / 2)]
   in drawn_points (path_step s PathComplete) = line_points demo_later demo_series_line"
proof -
  have run: "undisturbed (path_mount (demo_render demo_series 0)) [PathRender (demo_render demo_later 1), PathFrame (1 / 2)]"
    by (simp add: render_ok_def path_mount_def path_commit_def displayed_effect_def path_effect_def path_init_def path_cleanup_def
        demo_render_def line_options_def)
  have "fst (foldl path_step (path_mount (demo_render demo_series 0)) [PathRender (demo_render demo_later 1), PathFrame (1 / 2)])
      = demo_render demo_later 1" by (simp add: path_mount_def)
  then show ?thesis using line_rests_at_rows [OF run] by (simp only: Let_def demo_render_def line_options_def path_options.select_convs)
qed

end
