(* ===== verification/Axis_Motion.thy ===== *)
theory Axis_Motion
  imports Time_Series
begin

section \<open>Axes on their way to new domains: use-animated-y-domains.ts\<close>

text \<open>
  \<open>src/web/src/components/charts/use-animated-y-domains.ts\<close> and the comparisons of \<open>y-domain-utils.ts\<close>: the domains the
  vertical axes of a time series show while the chart changes its phase or its data. The state is what the hook keeps
  with \<open>useState\<close> and \<open>useRef\<close>, the animation each of its two effects may have running, the dependencies they ran
  with last, and how often \<open>onSettled\<close> was called. A record of domains is an association list; \<open>JSON.stringify\<close> of
  one is kept as the record, since it is only compared.
\<close>

subsection \<open>y-domain-utils.ts\<close>

type_synonym y_domain = "rat \<times> rat"
type_synonym y_domains = "(string \<times> y_domain) list"

definition Y_DOMAIN_TWEEN_SKIP_THRESHOLD :: rat where
  "Y_DOMAIN_TWEEN_SKIP_THRESHOLD = 2 / 100"

definition shouldTweenYDomain :: "y_domain \<Rightarrow> y_domain \<Rightarrow> bool" where
  "shouldTweenYDomain start goal \<longleftrightarrow>
     (let extent = max (max \<bar>snd goal - fst goal\<bar> \<bar>snd start - fst start\<bar>) 1;
          deltaMin = \<bar>fst goal - fst start\<bar> / extent;
          deltaMax = \<bar>snd goal - snd start\<bar> / extent
      in deltaMin \<ge> Y_DOMAIN_TWEEN_SKIP_THRESHOLD \<or> deltaMax \<ge> Y_DOMAIN_TWEEN_SKIP_THRESHOLD)"

definition domainsEqual :: "y_domains \<Rightarrow> y_domains \<Rightarrow> bool" where
  "domainsEqual left right \<longleftrightarrow>
     length left = length right \<and>
     list_all (\<lambda>axisId. case (map_of left axisId, map_of right axisId) of
       (Some a, Some b) \<Rightarrow> fst a = fst b \<and> snd a = snd b | _ \<Rightarrow> False) (map fst left)"

text \<open>Assignment to a key of a record: a known key keeps its place.\<close>

fun put_domain :: "string \<Rightarrow> y_domain \<Rightarrow> y_domains \<Rightarrow> y_domains" where
  "put_domain k d [] = [(k, d)]"
| "put_domain k d ((k', d') # ds) = (if k' = k then (k, d) # ds else (k', d') # put_domain k d ds)"

definition mergeYDomainRecords :: "y_domains list \<Rightarrow> y_domains" where
  "mergeYDomainRecords records =
     foldl (\<lambda>merged r. foldl (\<lambda>merged (axisId, domain). put_domain (normalizeYAxisId (Some (AxisName axisId))) domain merged) merged r)
       [] records"

subsection \<open>The hook\<close>

definition lerpDomain :: "y_domain \<Rightarrow> y_domain \<Rightarrow> rat \<Rightarrow> y_domain" where
  "lerpDomain start goal progress =
     (fst start + (fst goal - fst start) * progress, snd start + (snd goal - snd start) * progress)"

record y_options =
  yo_enabled :: bool
  yo_durationMs :: rat
  yo_reducedMotion :: bool
  yo_tweenOnTargetChange :: bool
  yo_chartPhase :: ChartPhase
  yo_skeletonByAxis :: y_domains
  yo_targetByAxis :: y_domains

record y_tween =
  yt_fromByAxis :: y_domains
  yt_destination :: y_domains

record y_state =
  ya_animated :: y_domains
  ya_prevPhase :: ChartPhase
  ya_prevTarget :: y_domains
  ya_phaseTween :: "y_tween option"
  ya_targetTween :: "y_tween option"
  ya_settled :: nat
  ya_deps1 :: "(ChartPhase \<times> rat \<times> bool \<times> bool) option"
  ya_deps2 :: "(ChartPhase \<times> rat \<times> bool \<times> bool \<times> y_domains \<times> bool) option"

definition destinationByAxis :: "y_options \<Rightarrow> y_domains" where
  "destinationByAxis p = resolveAnimatedYDestinationDomains (yo_chartPhase p) (yo_skeletonByAxis p) (yo_targetByAxis p)"

definition y_init :: "y_options \<Rightarrow> y_state" where
  "y_init p =
     \<lparr>ya_animated = destinationByAxis p, ya_prevPhase = yo_chartPhase p, ya_prevTarget = yo_targetByAxis p,
      ya_phaseTween = None, ya_targetTween = None, ya_settled = 0, ya_deps1 = None, ya_deps2 = None\<rparr>"

definition snapDomains :: "y_domains \<Rightarrow> y_state \<Rightarrow> y_state" where
  "snapDomains domains st = (if domainsEqual (ya_animated st) domains then st else st\<lparr>ya_animated := domains\<rparr>)"

definition onSettled :: "y_state \<Rightarrow> y_state" where
  "onSettled st = st\<lparr>ya_settled := ya_settled st + 1\<rparr>"

definition start_of :: "y_domains \<Rightarrow> string \<times> y_domain \<Rightarrow> y_domain" where
  "start_of fromSnapshot d = (case map_of fromSnapshot (fst d) of Some a \<Rightarrow> a | None \<Rightarrow> snd d)"

text \<open>The state after the call, and the animation when one was started.\<close>

definition tweenDomains :: "y_options \<Rightarrow> y_domains \<Rightarrow> y_state \<Rightarrow> y_state \<times> y_tween option" where
  "tweenDomains p destination st =
     (if domainsEqual (ya_animated st) destination then (onSettled st, None)
      else if \<not> yo_enabled p \<or> yo_reducedMotion p then (onSettled (snapDomains destination st), None)
      else if \<not> list_ex (\<lambda>d. shouldTweenYDomain (start_of (ya_animated st) d) (snd d)) destination
        then (onSettled (snapDomains destination st), None)
      else (st, Some \<lparr>yt_fromByAxis = map (\<lambda>d. (fst d, start_of (ya_animated st) d)) destination,
                      yt_destination = destination\<rparr>))"

definition tween_at :: "y_tween \<Rightarrow> rat \<Rightarrow> y_domains" where
  "tween_at c progress =
     map (\<lambda>d. (fst d, let start = start_of (yt_fromByAxis c) d
        in if shouldTweenYDomain start (snd d) then lerpDomain start (snd d) progress else snd d)) (yt_destination c)"

definition y_phase_effect :: "y_options \<Rightarrow> y_state \<Rightarrow> y_state" where
  "y_phase_effect p st =
     (let ph = yo_chartPhase p in
      if ya_prevPhase st = ph then st
      else let st' = st\<lparr>ya_prevPhase := ph\<rparr> in
        if ph = PhExiting then snapDomains (yo_skeletonByAxis p) st'
        else if ph = PhExitingReady then snapDomains (yo_targetByAxis p) st'
        else if ph = PhLoading then snapDomains (yo_skeletonByAxis p) st'
        else if ph = PhRevealing \<or> ph = PhReady then snapDomains (yo_targetByAxis p) st'
        else if \<not> isYDomainTweenPhase ph then st'
        else case tweenDomains p (destinationByAxis p) st' of (st'', c) \<Rightarrow> st''\<lparr>ya_phaseTween := c\<rparr>)"

definition y_target_effect :: "y_options \<Rightarrow> y_state \<Rightarrow> y_state" where
  "y_target_effect p st =
     (let ph = yo_chartPhase p; inLivePhase = (ph = PhReady \<or> ph = PhRevealing) in
      if \<not> inLivePhase then st\<lparr>ya_prevTarget := yo_targetByAxis p\<rparr>
      else if ya_prevTarget st = yo_targetByAxis p then st
      else let st' = st\<lparr>ya_prevTarget := yo_targetByAxis p\<rparr> in
        if yo_tweenOnTargetChange p \<and> ph = PhReady
        then case tweenDomains p (yo_targetByAxis p) st' of (st'', c) \<Rightarrow> st''\<lparr>ya_targetTween := c\<rparr>
        else snapDomains (yo_targetByAxis p) st')"

definition y_deps1 :: "y_options \<Rightarrow> ChartPhase \<times> rat \<times> bool \<times> bool" where
  "y_deps1 p = (yo_chartPhase p, yo_durationMs p, yo_enabled p, yo_reducedMotion p)"

definition y_deps2 :: "y_options \<Rightarrow> ChartPhase \<times> rat \<times> bool \<times> bool \<times> y_domains \<times> bool" where
  "y_deps2 p = (yo_chartPhase p, yo_durationMs p, yo_enabled p, yo_reducedMotion p, yo_targetByAxis p, yo_tweenOnTargetChange p)"

text \<open>A commit: every effect that runs again is cleaned up first, which stops its animation.\<close>

definition y_cleanup :: "y_options \<Rightarrow> y_state \<Rightarrow> y_state" where
  "y_cleanup p st =
     st\<lparr>ya_phaseTween := (if ya_deps1 st = Some (y_deps1 p) then ya_phaseTween st else None),
        ya_targetTween := (if ya_deps2 st = Some (y_deps2 p) then ya_targetTween st else None)\<rparr>"

definition y_commit :: "y_options \<Rightarrow> y_state \<Rightarrow> y_state" where
  "y_commit p st =
     (let first_runs = (ya_deps1 st \<noteq> Some (y_deps1 p)); second_runs = (ya_deps2 st \<noteq> Some (y_deps2 p));
          st1 = (y_cleanup p st)\<lparr>ya_deps1 := Some (y_deps1 p), ya_deps2 := Some (y_deps2 p)\<rparr>;
          st2 = (if first_runs then y_phase_effect p st1 else st1)
      in if second_runs then y_target_effect p st2 else st2)"

definition tween_done :: "y_tween \<Rightarrow> y_state \<Rightarrow> y_state" where
  "tween_done c st = onSettled (snapDomains (yt_destination c) st)"

datatype y_event = AxisRender y_options | PhaseFrame rat | PhaseDone | TargetFrame rat | TargetDone

fun y_step :: "y_options \<times> y_state \<Rightarrow> y_event \<Rightarrow> y_options \<times> y_state" where
  "y_step (p, st) (AxisRender q) = (q, y_commit q st)"
| "y_step (p, st) (PhaseFrame t) =
     (p, case ya_phaseTween st of Some c \<Rightarrow> st\<lparr>ya_animated := tween_at c t\<rparr> | None \<Rightarrow> st)"
| "y_step (p, st) PhaseDone =
     (p, case ya_phaseTween st of Some c \<Rightarrow> (tween_done c st)\<lparr>ya_phaseTween := None\<rparr> | None \<Rightarrow> st)"
| "y_step (p, st) (TargetFrame t) =
     (p, case ya_targetTween st of Some c \<Rightarrow> st\<lparr>ya_animated := tween_at c t\<rparr> | None \<Rightarrow> st)"
| "y_step (p, st) TargetDone =
     (p, case ya_targetTween st of Some c \<Rightarrow> (tween_done c st)\<lparr>ya_targetTween := None\<rparr> | None \<Rightarrow> st)"

definition y_mount :: "y_options \<Rightarrow> y_options \<times> y_state" where
  "y_mount p = (p, y_commit p (y_init p))"

subsection \<open>Comparing and mixing domains\<close>

text \<open>Domains scales can be made of: every axis once, every domain from a smaller to a greater figure.\<close>

definition proper :: "y_domains \<Rightarrow> bool" where
  "proper ds \<longleftrightarrow> distinct (map fst ds) \<and> list_all (\<lambda>d. fst (snd d) < snd (snd d)) ds"

lemma domainsEqual_agree:
  assumes "domainsEqual left right" and "distinct (map fst left)" and "distinct (map fst right)"
  shows "map_of left = map_of right"
proof -
  have same: "map_of left k = map_of right k" if "k \<in> fst ` set left" for k
    using assms(1) that unfolding domainsEqual_def list_all_iff
    by (force simp: prod_eq_iff split: option.splits)
  have "fst ` set left \<subseteq> fst ` set right"
  proof
    fix k assume k: "k \<in> fst ` set left"
    then have "map_of left k \<noteq> None" by (simp add: map_of_eq_None_iff)
    then show "k \<in> fst ` set right" using same [OF k] by (simp add: map_of_eq_None_iff)
  qed
  moreover have "card (fst ` set left) = card (fst ` set right)"
    using assms distinct_card [of "map fst left"] distinct_card [of "map fst right"] by (simp add: domainsEqual_def)
  ultimately have keys: "fst ` set left = fst ` set right" by (intro card_subset_eq) simp_all
  have "map_of left k = map_of right k" for k
  proof (cases "k \<in> fst ` set left")
    case False
    then have "map_of left k = None" "map_of right k = None" by (simp_all add: map_of_eq_None_iff keys)
    then show ?thesis by simp
  qed (rule same)
  then show ?thesis by (rule ext)
qed

lemma domainsEqual_refl: "distinct (map fst ds) \<Longrightarrow> domainsEqual ds ds"
  by (auto simp: domainsEqual_def list_all_iff map_of_eq_None_iff split: option.split)

lemma lerp_proper:
  assumes "fst a < snd a" and "fst b < snd b" and "0 \<le> t" and "t \<le> 1"
  shows "fst (lerpDomain a b t) < snd (lerpDomain a b t)"
proof (cases "t = 1")
  case False
  have mix: "x + (y - x) * t = x * (1 - t) + y * t" for x y :: rat by (simp add: algebra_simps)
  have "fst a * (1 - t) < snd a * (1 - t)" using assms False by (intro mult_strict_right_mono) simp_all
  moreover have "fst b * t \<le> snd b * t" using assms by (intro mult_right_mono) simp_all
  ultimately show ?thesis unfolding lerpDomain_def mix by simp
qed (use assms in \<open>simp add: lerpDomain_def\<close>)

lemma start_proper:
  assumes "proper ds" and "fst (snd d) < snd (snd d)"
  shows "fst (start_of ds d) < snd (start_of ds d)"
  using assms by (force simp: start_of_def proper_def list_all_iff dest: map_of_SomeD split: option.split)

lemma tween_proper:
  assumes "proper (yt_fromByAxis c)" and "proper (yt_destination c)" and "0 \<le> t" and "t \<le> 1"
  shows "proper (tween_at c t)"
  using assms start_proper [OF assms(1)] lerp_proper [OF _ _ assms(3,4)]
  by (auto simp: tween_at_def proper_def list_all_iff comp_def Let_def)

lemma from_proper:
  assumes "proper ds" and "proper destination"
  shows "proper (map (\<lambda>d. (fst d, start_of ds d)) destination)"
  using assms start_proper [OF assms(1)] by (auto simp: proper_def list_all_iff comp_def)

lemma snap_facts:
  assumes "proper (ya_animated st)" and "proper ds"
  shows "proper (ya_animated (snapDomains ds st))" and "map_of (ya_animated (snapDomains ds st)) = map_of ds"
  using assms domainsEqual_agree [of "ya_animated st" ds] by (simp_all add: snapDomains_def proper_def)

text \<open>What the steps leave alone.\<close>

definition rest_of :: "y_state \<Rightarrow> y_state" where
  "rest_of st = st\<lparr>ya_animated := [], ya_settled := 0\<rparr>"

lemma rest_fields:
  assumes "rest_of st = rest_of st'"
  shows "ya_prevPhase st = ya_prevPhase st'" "ya_prevTarget st = ya_prevTarget st'" "ya_phaseTween st = ya_phaseTween st'"
    "ya_targetTween st = ya_targetTween st'" "ya_deps1 st = ya_deps1 st'" "ya_deps2 st = ya_deps2 st'"
  using assms by (cases st; cases st'; simp add: rest_of_def)+

lemma rest_snap [simp]: "rest_of (snapDomains ds st) = rest_of st" "rest_of (onSettled st) = rest_of st"
  by (simp_all add: rest_of_def snapDomains_def onSettled_def)

lemma animated_settled [simp]: "ya_animated (onSettled st) = ya_animated st" "ya_settled (onSettled st) = Suc (ya_settled st)"
  by (simp_all add: onSettled_def)

lemma tween_facts:
  assumes "proper (ya_animated st)" and "proper ds" and "tweenDomains p ds st = (st', c)"
  shows "proper (ya_animated st')" and "rest_of st' = rest_of st"
    and "c = None \<Longrightarrow> map_of (ya_animated st') = map_of ds \<and> ya_settled st < ya_settled st'"
    and "c = Some c' \<Longrightarrow> yt_destination c' = ds \<and> proper (yt_fromByAxis c')"
proof -
  note snap = snap_facts [OF assms(1,2)]
  have distinct: "distinct (map fst (ya_animated st))" "distinct (map fst ds)" using assms(1,2) by (simp_all add: proper_def)
  have agree: "map_of (ya_animated st) = map_of ds" if "domainsEqual (ya_animated st) ds"
    using that distinct by (rule domainsEqual_agree)
  have snapped: "ya_settled (snapDomains ds st) = ya_settled st" by (simp add: snapDomains_def)
  show "proper (ya_animated st')" "rest_of st' = rest_of st"
    "c = None \<Longrightarrow> map_of (ya_animated st') = map_of ds \<and> ya_settled st < ya_settled st'"
    "c = Some c' \<Longrightarrow> yt_destination c' = ds \<and> proper (yt_fromByAxis c')"
    using assms snap agree snapped from_proper [OF assms(1,2)]
    by (auto simp: tweenDomains_def split: if_splits)
qed

subsection \<open>Axes follow their data\<close>

definition live_phase :: "ChartPhase \<Rightarrow> bool" where
  "live_phase ph \<longleftrightarrow> ph = PhReady \<or> ph = PhRevealing"

definition y_tween_ok :: "y_tween option \<Rightarrow> bool" where
  "y_tween_ok c \<longleftrightarrow> (case c of Some t \<Rightarrow> proper (yt_fromByAxis t) \<and> proper (yt_destination t) | None \<Rightarrow> True)"

definition proper_options :: "y_options \<Rightarrow> bool" where
  "proper_options p \<longleftrightarrow> proper (yo_skeletonByAxis p) \<and> proper (yo_targetByAxis p)"

definition y_inv :: "y_options \<times> y_state \<Rightarrow> bool" where
  "y_inv s \<longleftrightarrow> (case s of (p, st) \<Rightarrow>
     ya_prevPhase st = yo_chartPhase p \<and> ya_prevTarget st = yo_targetByAxis p \<and> ya_deps1 st = Some (y_deps1 p) \<and>
     ya_deps2 st = Some (y_deps2 p) \<and> proper (ya_animated st) \<and> proper_options p \<and> y_tween_ok (ya_phaseTween st) \<and>
     y_tween_ok (ya_targetTween st) \<and> (live_phase (yo_chartPhase p) \<longrightarrow> ya_phaseTween st = None) \<and>
     (case ya_targetTween st of
        Some c \<Rightarrow> yt_destination c = yo_targetByAxis p
      | None \<Rightarrow> live_phase (yo_chartPhase p) \<longrightarrow> map_of (ya_animated st) = map_of (yo_targetByAxis p)))"

lemma phase_effect_facts:
  assumes "proper (ya_animated st)" and "proper_options q" and "ya_prevPhase st \<noteq> yo_chartPhase q" and "ya_phaseTween st = None"
  defines "st' \<equiv> y_phase_effect q st"
  shows "proper (ya_animated st')" and "ya_prevPhase st' = yo_chartPhase q" and "ya_prevTarget st' = ya_prevTarget st"
    and "ya_targetTween st' = ya_targetTween st" and "ya_deps1 st' = ya_deps1 st" and "ya_deps2 st' = ya_deps2 st"
    and "y_tween_ok (ya_phaseTween st')"
    and "live_phase (yo_chartPhase q) \<Longrightarrow> map_of (ya_animated st') = map_of (yo_targetByAxis q) \<and> ya_phaseTween st' = None"
proof -
  let ?st = "st\<lparr>ya_prevPhase := yo_chartPhase q\<rparr>"
  have props: "proper (yo_skeletonByAxis q)" "proper (yo_targetByAxis q)" "proper (destinationByAxis q)" "proper (ya_animated ?st)"
    using assms(1,2) by (simp_all add: proper_options_def destinationByAxis_def resolveAnimatedYDestinationDomains_def)
  note snap = snap_facts [OF props(4)] rest_fields [OF rest_snap(1)]
  obtain st2 c where tween: "tweenDomains q (destinationByAxis q) ?st = (st2, c)" by (cases "tweenDomains q (destinationByAxis q) ?st")
  note facts = tween_facts [OF props(4,3) tween]
  note same = rest_fields [OF facts(2)]
  have ok: "y_tween_ok c" using facts(4) props(3) by (cases c) (simp_all add: y_tween_ok_def)
  have none: "y_tween_ok None" by (simp add: y_tween_ok_def)
  have split: "st' = (if yo_chartPhase q \<in> {PhExiting, PhLoading} then snapDomains (yo_skeletonByAxis q) ?st
      else if yo_chartPhase q \<in> {PhExitingReady, PhRevealing, PhReady} then snapDomains (yo_targetByAxis q) ?st
      else if isYDomainTweenPhase (yo_chartPhase q) then st2\<lparr>ya_phaseTween := c\<rparr> else ?st)"
    using assms(3) tween by (simp add: st'_def y_phase_effect_def Let_def)
  show "proper (ya_animated st')" unfolding split using snap props facts(1) by simp
  show "ya_prevPhase st' = yo_chartPhase q" "ya_prevTarget st' = ya_prevTarget st" "ya_targetTween st' = ya_targetTween st"
    "ya_deps1 st' = ya_deps1 st" "ya_deps2 st' = ya_deps2 st"
    unfolding split using snap same by simp_all
  show "y_tween_ok (ya_phaseTween st')" unfolding split using snap ok none assms(4) by simp
  show "map_of (ya_animated st') = map_of (yo_targetByAxis q) \<and> ya_phaseTween st' = None" if "live_phase (yo_chartPhase q)"
    using that snap props assms(4) unfolding split live_phase_def by auto
qed

lemma target_effect_facts:
  assumes "proper (ya_animated st)" and "proper_options q" and "ya_targetTween st = None"
    and "live_phase (yo_chartPhase q) \<Longrightarrow> ya_prevTarget st = yo_targetByAxis q \<Longrightarrow> map_of (ya_animated st) = map_of (yo_targetByAxis q)"
  defines "st' \<equiv> y_target_effect q st"
  shows "proper (ya_animated st')" and "ya_prevTarget st' = yo_targetByAxis q" and "ya_prevPhase st' = ya_prevPhase st"
    and "ya_phaseTween st' = ya_phaseTween st" and "ya_deps1 st' = ya_deps1 st" and "ya_deps2 st' = ya_deps2 st"
    and "y_tween_ok (ya_targetTween st')"
    and "case ya_targetTween st' of Some c \<Rightarrow> yt_destination c = yo_targetByAxis q
      | None \<Rightarrow> live_phase (yo_chartPhase q) \<longrightarrow> map_of (ya_animated st') = map_of (yo_targetByAxis q)"
proof -
  let ?st = "st\<lparr>ya_prevTarget := yo_targetByAxis q\<rparr>"
  have props: "proper (yo_targetByAxis q)" "proper (ya_animated ?st)" using assms(1,2) by (simp_all add: proper_options_def)
  note snap = snap_facts [OF props(2,1)] rest_fields [OF rest_snap(1)]
  obtain st2 c where tween: "tweenDomains q (yo_targetByAxis q) ?st = (st2, c)" by (cases "tweenDomains q (yo_targetByAxis q) ?st")
  note facts = tween_facts [OF props(2,1) tween]
  note same = rest_fields [OF facts(2)]
  have ok: "y_tween_ok c" using facts(4) props(1) by (cases c) (simp_all add: y_tween_ok_def)
  have none: "y_tween_ok None" by (simp add: y_tween_ok_def)
  have goal: "case c of Some c \<Rightarrow> yt_destination c = yo_targetByAxis q | None \<Rightarrow> map_of (ya_animated st2) = map_of (yo_targetByAxis q)"
    using facts(3,4) by (cases c) simp_all
  have split: "st' = (if \<not> live_phase (yo_chartPhase q) then ?st else if ya_prevTarget st = yo_targetByAxis q then st
      else if yo_tweenOnTargetChange q \<and> yo_chartPhase q = PhReady then st2\<lparr>ya_targetTween := c\<rparr>
      else snapDomains (yo_targetByAxis q) ?st)"
    using tween by (simp add: st'_def y_target_effect_def live_phase_def Let_def)
  show "proper (ya_animated st')" unfolding split using snap props assms(1) facts(1) by simp
  show "ya_prevTarget st' = yo_targetByAxis q" "ya_prevPhase st' = ya_prevPhase st"
    "ya_phaseTween st' = ya_phaseTween st" "ya_deps1 st' = ya_deps1 st" "ya_deps2 st' = ya_deps2 st"
    unfolding split using snap same by simp_all
  show "y_tween_ok (ya_targetTween st')" unfolding split using snap ok none assms(3) by simp
  show "case ya_targetTween st' of Some c \<Rightarrow> yt_destination c = yo_targetByAxis q
      | None \<Rightarrow> live_phase (yo_chartPhase q) \<longrightarrow> map_of (ya_animated st') = map_of (yo_targetByAxis q)"
    unfolding split using snap assms(3,4) goal by (simp split: option.splits)
qed

definition same_settings :: "y_options \<Rightarrow> y_options \<Rightarrow> bool" where
  "same_settings p q \<longleftrightarrow> yo_enabled q = yo_enabled p \<and> yo_durationMs q = yo_durationMs p \<and>
     yo_reducedMotion q = yo_reducedMotion p \<and> yo_tweenOnTargetChange q = yo_tweenOnTargetChange p"

lemma commit_keeps:
  assumes "y_inv (p, st)" and "same_settings p q" and "proper_options q"
  shows "y_inv (q, y_commit q st)"
proof -
  have inv: "ya_prevPhase st = yo_chartPhase p" "ya_prevTarget st = yo_targetByAxis p" "ya_deps1 st = Some (y_deps1 p)"
    "ya_deps2 st = Some (y_deps2 p)" "proper (ya_animated st)" "y_tween_ok (ya_phaseTween st)" "y_tween_ok (ya_targetTween st)"
    "live_phase (yo_chartPhase p) \<Longrightarrow> ya_phaseTween st = None"
    "case ya_targetTween st of Some c \<Rightarrow> yt_destination c = yo_targetByAxis p
      | None \<Rightarrow> live_phase (yo_chartPhase p) \<longrightarrow> map_of (ya_animated st) = map_of (yo_targetByAxis p)"
    using assms(1) by (simp_all add: y_inv_def)
  have deps: "y_deps1 q = y_deps1 p \<longleftrightarrow> yo_chartPhase q = yo_chartPhase p"
    "y_deps2 q = y_deps2 p \<longleftrightarrow> yo_chartPhase q = yo_chartPhase p \<and> yo_targetByAxis q = yo_targetByAxis p"
    using assms(2) by (auto simp: y_deps1_def y_deps2_def same_settings_def)
  define st1 where "st1 = (y_cleanup q st)\<lparr>ya_deps1 := Some (y_deps1 q), ya_deps2 := Some (y_deps2 q)\<rparr>"
  have st1: "proper (ya_animated st1)" "ya_prevPhase st1 = yo_chartPhase p" "ya_prevTarget st1 = yo_targetByAxis p"
    "ya_animated st1 = ya_animated st" "ya_deps1 st1 = Some (y_deps1 q)" "ya_deps2 st1 = Some (y_deps2 q)"
    "ya_phaseTween st1 = (if yo_chartPhase q = yo_chartPhase p then ya_phaseTween st else None)"
    "ya_targetTween st1 = (if y_deps2 q = y_deps2 p then ya_targetTween st else None)"
    using inv deps(1) by (auto simp: st1_def y_cleanup_def)
  show ?thesis
  proof (cases "yo_chartPhase q = yo_chartPhase p")
    case same: True
    show ?thesis
    proof (cases "yo_targetByAxis q = yo_targetByAxis p")
      case True
      then have "y_commit q st = st1" using same deps inv(3,4) by (simp add: y_commit_def st1_def Let_def)
      then show ?thesis using st1 inv same True deps assms(3) by (cases "ya_targetTween st") (simp_all add: y_inv_def)
    next
      case False
      then have commit: "y_commit q st = y_target_effect q st1" using same deps inv(3,4) by (simp add: y_commit_def st1_def Let_def)
      have "ya_targetTween st1 = None" using st1(8) deps False by simp
      note facts = target_effect_facts [OF st1(1) assms(3) this]
      have old: "ya_prevTarget st1 = yo_targetByAxis q \<Longrightarrow> map_of (ya_animated st1) = map_of (yo_targetByAxis q)"
        using False st1(3) by simp
      show ?thesis using facts [OF old] st1 inv same assms(3) by (simp add: commit y_inv_def)
    qed
  next
    case False
    then have changed: "y_deps1 q \<noteq> y_deps1 p" "y_deps2 q \<noteq> y_deps2 p" using deps by simp_all
    then have commit: "y_commit q st = y_target_effect q (y_phase_effect q st1)" using inv(3,4) by (simp add: y_commit_def st1_def Let_def)
    have none: "ya_phaseTween st1 = None" "ya_targetTween st1 = None" using st1(7,8) changed False by simp_all
    have "ya_prevPhase st1 \<noteq> yo_chartPhase q" using st1(2) False by simp
    note first = phase_effect_facts [OF st1(1) assms(3) this none(1)]
    have "ya_targetTween (y_phase_effect q st1) = None" using first(4) none(2) by simp
    note second = target_effect_facts [OF first(1) assms(3) this]
    show ?thesis
      using second first st1 assms(3) by (simp add: commit y_inv_def)
  qed
qed

definition axis_event_ok :: "y_options \<Rightarrow> y_event \<Rightarrow> bool" where
  "axis_event_ok p e \<longleftrightarrow> (case e of
     AxisRender q \<Rightarrow> same_settings p q \<and> proper_options q
   | PhaseFrame t \<Rightarrow> 0 \<le> t \<and> t \<le> 1
   | TargetFrame t \<Rightarrow> 0 \<le> t \<and> t \<le> 1
   | _ \<Rightarrow> True)"

lemma y_inv_step:
  assumes "y_inv s" and "axis_event_ok (fst s) e"
  shows "y_inv (y_step s e)"
proof -
  obtain p st where s: "s = (p, st)" by (cases s)
  have frame: "y_tween_ok (Some c) \<Longrightarrow> 0 \<le> t \<Longrightarrow> t \<le> 1 \<Longrightarrow> proper (tween_at c t)" for c t
    using tween_proper by (simp add: y_tween_ok_def)
  have snap: "proper (ya_animated (snapDomains (yt_destination c) st)) \<and> map_of (ya_animated (snapDomains (yt_destination c) st)) = map_of (yt_destination c)"
    if "y_tween_ok (Some c)" for c
    using snap_facts [of st "yt_destination c"] assms(1) that by (simp add: s y_inv_def y_tween_ok_def)
  note same = rest_fields [OF rest_snap(1)]
  show ?thesis
  proof (cases e)
    case (AxisRender q)
    then show ?thesis using commit_keeps assms by (simp add: s axis_event_ok_def)
  next
    case (PhaseFrame t)
    then show ?thesis
      using assms frame [of _ t] by (cases "ya_phaseTween st"; cases "ya_targetTween st") (simp_all add: s y_inv_def axis_event_ok_def)
  next
    case PhaseDone
    have none: "y_tween_ok None" by (simp add: y_tween_ok_def)
    show ?thesis
      using assms snap same rest_fields [OF rest_snap(2)] none
      by (cases "ya_phaseTween st"; cases "ya_targetTween st") (simp_all add: PhaseDone s y_inv_def tween_done_def)
  next
    case (TargetFrame t)
    then show ?thesis
      using assms frame [of _ t] by (cases "ya_targetTween st") (simp_all add: s y_inv_def axis_event_ok_def)
  next
    case TargetDone
    show ?thesis
    proof (cases "ya_targetTween st")
      case (Some c)
      have "y_tween_ok (Some c)" "yt_destination c = yo_targetByAxis p" using assms(1) Some by (simp_all add: s y_inv_def)
      with snap [of c] have snapped: "proper (ya_animated (snapDomains (yo_targetByAxis p) st))"
        "map_of (ya_animated (snapDomains (yo_targetByAxis p) st)) = map_of (yo_targetByAxis p)" by simp_all
      have none: "y_tween_ok None" by (simp add: y_tween_ok_def)
      show ?thesis
        using assms(1) snapped same rest_fields [OF rest_snap(2)] none Some \<open>yt_destination c = yo_targetByAxis p\<close>
        by (simp add: TargetDone s y_inv_def tween_done_def)
    qed (use assms(1) in \<open>simp add: TargetDone s\<close>)
  qed
qed

lemma same_settings_trans: "same_settings p q \<Longrightarrow> same_settings q r \<Longrightarrow> same_settings p r"
  by (simp add: same_settings_def)

lemma y_inv_run:
  assumes "y_inv s" and "same_settings p (fst s)" and "list_all (axis_event_ok p) events"
  shows "y_inv (foldl y_step s events)"
  using assms
proof (induction events arbitrary: s)
  case (Cons e es)
  have ok: "axis_event_ok (fst s) e"
    using Cons.prems(2,3) by (cases e) (simp_all add: axis_event_ok_def same_settings_def)
  have "same_settings p (fst (y_step s e))"
    using Cons.prems(2,3) by (cases s; cases e) (simp_all add: axis_event_ok_def)
  then show ?case using Cons y_inv_step [OF _ ok] by simp
qed simp

lemma y_inv_mount:
  assumes "proper_options p"
  shows "y_inv (y_mount p)"
proof -
  have "proper (destinationByAxis p)"
    using assms by (simp add: proper_options_def destinationByAxis_def resolveAnimatedYDestinationDomains_def)
  moreover have "live_phase (yo_chartPhase p) \<Longrightarrow> destinationByAxis p = yo_targetByAxis p"
    by (auto simp: live_phase_def destinationByAxis_def resolveAnimatedYDestinationDomains_def)
  ultimately show ?thesis
    using assms by (simp add: y_mount_def y_commit_def y_cleanup_def y_init_def y_phase_effect_def y_target_effect_def
      y_inv_def y_tween_ok_def Let_def)
qed

text \<open>C36. The axes follow their data: in every run with the same settings, over domains a scale can be made of, the domains
  shown are always ones a scale can be made of, half way through an animation too; and while the chart shows its
  data they are those of the data, or on their way there and those of the data once the animation completes.\<close>

theorem axes_follow_data:
  assumes "proper_options p" and "list_all (axis_event_ok p) events"
  shows "let s = foldl y_step (y_mount p) events; s' = y_step s TargetDone in
    proper (ya_animated (snd s)) \<and>
    (if live_phase (yo_chartPhase (fst s)) then
       (if ya_targetTween (snd s) = None then map_of (ya_animated (snd s)) = map_of (yo_targetByAxis (fst s)) else True) \<and>
       map_of (ya_animated (snd s')) = map_of (yo_targetByAxis (fst s))
     else True)"
proof -
  define s s' where "s = foldl y_step (y_mount p) events" and "s' = y_step s TargetDone"
  have "same_settings p (fst (y_mount p))" by (simp add: same_settings_def y_mount_def)
  then have inv: "y_inv s" unfolding s_def using y_inv_run [OF y_inv_mount [OF assms(1)] _ assms(2)] by simp
  then have inv': "y_inv s'" unfolding s'_def by (rule y_inv_step) (simp add: axis_event_ok_def)
  have "fst s' = fst s" "ya_targetTween (snd s') = None" unfolding s'_def by (cases s; simp split: option.split)+
  then show ?thesis
    using inv inv' unfolding s_def [symmetric] s'_def [symmetric] Let_def
    by (cases s; cases s'; cases "ya_targetTween (snd s)") (simp_all add: y_inv_def)
qed

text \<open>An animation of the axes the chart waits for tells it: entering a phase in which the axes move, either the chart is
  told at once, with the axes where they belong, or an animation runs that tells it at its end.\<close>

lemma tween_phase_settles:
  assumes "y_inv s" and "isYDomainTweenPhase (yo_chartPhase q)" and "yo_chartPhase q \<noteq> yo_chartPhase (fst s)" and "proper_options q"
    and "same_settings (fst s) q"
  defines "s' \<equiv> y_step s (AxisRender q)"
  shows "if ya_phaseTween (snd s') = None then ya_settled (snd s) < ya_settled (snd s') \<and> map_of (ya_animated (snd s')) = map_of (destinationByAxis q)
    else ya_settled (snd s') < ya_settled (snd (y_step s' PhaseDone)) \<and>
      map_of (ya_animated (snd (y_step s' PhaseDone))) = map_of (destinationByAxis q)"
proof -
  obtain p st where s: "s = (p, st)" by (cases s)
  have inv: "ya_prevPhase st = yo_chartPhase p" "ya_deps1 st = Some (y_deps1 p)" "ya_deps2 st = Some (y_deps2 p)" "proper (ya_animated st)"
    using assms(1) by (simp_all add: s y_inv_def)
  have changed: "y_deps1 q \<noteq> y_deps1 p" "y_deps2 q \<noteq> y_deps2 p" using assms(3) by (auto simp: s y_deps1_def y_deps2_def)
  define st1 where "st1 = (y_cleanup q st)\<lparr>ya_deps1 := Some (y_deps1 q), ya_deps2 := Some (y_deps2 q), ya_prevPhase := yo_chartPhase q\<rparr>"
  obtain st2 c where tween: "tweenDomains q (destinationByAxis q) st1 = (st2, c)" by (cases "tweenDomains q (destinationByAxis q) st1")
  have other: "yo_chartPhase q \<notin> {PhExiting, PhExitingReady, PhLoading, PhRevealing, PhReady}"
    using assms(2) by (auto simp: isYDomainTweenPhase_def)
  have run: "snd s' = st2\<lparr>ya_phaseTween := c, ya_prevTarget := yo_targetByAxis q\<rparr>"
    using changed inv assms(2,3) other tween
    by (simp add: s'_def s y_commit_def y_phase_effect_def y_target_effect_def st1_def [symmetric] y_cleanup_def Let_def) (simp add: st1_def y_cleanup_def)
  have props: "proper (ya_animated st1)" "proper (destinationByAxis q)" "ya_settled st1 = ya_settled st"
    using inv(4) assms(4) by (simp_all add: st1_def y_cleanup_def proper_options_def destinationByAxis_def resolveAnimatedYDestinationDomains_def)
  note facts = tween_facts [OF props(1,2) tween]
  show ?thesis
  proof (cases c)
    case None
    then show ?thesis using facts(3) props(3) by (simp add: run s)
  next
    case (Some c')
    have s': "s' = (q, snd s')" by (simp add: s'_def s)
    have "yt_destination c' = destinationByAxis q" using facts(4) Some by simp
    moreover have "ya_animated (snd s') = ya_animated st2" by (simp add: run)
    ultimately have "map_of (ya_animated (snapDomains (yt_destination c') (snd s'))) = map_of (destinationByAxis q)"
      using snap_facts(2) [of "snd s'" "destinationByAxis q"] facts(1) props(2) by simp
    moreover have "ya_settled (snapDomains ds (snd s')) = ya_settled (snd s')" for ds by (simp add: snapDomains_def)
    moreover have "ya_phaseTween (snd s') = Some c'" by (simp add: run Some)
    ultimately show ?thesis by (subst (1 2) s') (simp add: tween_done_def)
  qed
qed

text \<open>But only with the same settings. A change of the duration, of \<open>enabled\<close> or of the wish for less motion while the axes
  move cleans both effects up, and run again they find phase and target as they were: the axes stay half way, and in
  a phase that waits for them the chart is never told.\<close>

lemma stopped_for_good:
  assumes "y_inv (p, st)" and "yo_chartPhase q = yo_chartPhase p" and "yo_targetByAxis q = yo_targetByAxis p"
    and "y_deps1 q \<noteq> y_deps1 p"
  shows "ya_animated (y_commit q st) = ya_animated st" and "ya_settled (y_commit q st) = ya_settled st"
    and "ya_phaseTween (y_commit q st) = None" and "ya_targetTween (y_commit q st) = None"
proof -
  have "y_deps2 q \<noteq> y_deps2 p" using assms(4) by (auto simp: y_deps1_def y_deps2_def)
  then have "y_commit q st = y_target_effect q (y_phase_effect q ((y_cleanup q st)\<lparr>ya_deps1 := Some (y_deps1 q), ya_deps2 := Some (y_deps2 q)\<rparr>))"
    using assms by (simp add: y_inv_def y_commit_def Let_def)
  moreover have "ya_deps2 st \<noteq> Some (y_deps2 q)" "ya_deps1 st \<noteq> Some (y_deps1 q)"
    using \<open>y_deps2 q \<noteq> y_deps2 p\<close> assms(1,4) by (simp_all add: y_inv_def)
  ultimately show "ya_animated (y_commit q st) = ya_animated st" "ya_settled (y_commit q st) = ya_settled st"
    "ya_phaseTween (y_commit q st) = None" "ya_targetTween (y_commit q st) = None"
    using assms by (simp_all add: y_inv_def y_phase_effect_def y_target_effect_def y_cleanup_def Let_def)
qed

subsection \<open>The domains of a chart's own data\<close>

text \<open>The domains a time series gives the hook are ones a scale can be made of.\<close>

lemma groups_distinct: "distinct (map fst (groupLinesByYAxisId ls))"
proof -
  have keys: "map fst (add_to_group k x gs) = (if k \<in> set (map fst gs) then map fst gs else map fst gs @ [k])" for k and x :: LineConfig and gs
    by (induction gs) (auto simp: image_image split: if_splits)
  have "distinct (map fst gs) \<Longrightarrow> distinct (map fst (foldl (\<lambda>gs line. add_to_group (normalizeYAxisId (lc_yAxisId line)) line gs) gs ls))" for gs
    by (induction ls arbitrary: gs) (simp_all add: keys)
  then show ?thesis by (simp add: groupLinesByYAxisId_def)
qed

lemma raw_domain: "m = None \<Longrightarrow> fst (resolveTimeSeriesYDomain num data keys m) < snd (resolveTimeSeriesYDomain num data keys m)"
proof (cases "series_numbers num data keys")
  case Nil
  assume "m = None"
  with Nil show ?thesis by (simp add: resolveTimeSeriesYDomain_def collectNumericExtents_def)
next
  case (Cons v vs)
  assume "m = None"
  with y_domain_holds(3) [of v num data keys] Cons show ?thesis by simp
qed

lemma targets_proper:
  assumes "nice_law (se_nice E)" and "se_yScaleDomainMax E = None"
  shows "proper (yDomainTargetByAxis E)"
proof -
  have nice: "fst (se_nice E d) < snd (se_nice E d)" if "fst d < snd d" for d
    using assms(1) that unfolding nice_law_def by (metis order_le_less_trans order_less_le_trans prod.collapse)
  have raw: "fst (resolveYDomain E rows keys) < snd (resolveYDomain E rows keys)" for rows keys
    unfolding resolveYDomain_def assms(2) Let_def by (rule raw_domain) simp
  show ?thesis
    using groups_distinct [of "se_lines E"] nice [OF raw] nice [of "(0, 100)"]
    by (auto simp: yDomainTargetByAxis_def computeYDomainsByAxis_def proper_def Let_def list_all_iff comp_def case_prod_beta
        map_of_eq_None_iff image_image)
qed

text \<open>A chart gets new data while its axes stand.\<close>

definition demo_axes :: "ChartPhase \<Rightarrow> y_domains \<Rightarrow> y_options" where
  "demo_axes ph goal =
     \<lparr>yo_enabled = True, yo_durationMs = 500, yo_reducedMotion = False, yo_tweenOnTargetChange = True, yo_chartPhase = ph,
      yo_skeletonByAxis = [(''left'', 0, 100)], yo_targetByAxis = goal\<rparr>"

theorem axes_follow_data_witness:
  "let s = foldl y_step (y_mount (demo_axes PhReady [(''left'', 0, 10)]))
      [AxisRender (demo_axes PhReady [(''left'', 0, 30)]), TargetFrame (1 / 2)]
   in proper (ya_animated (snd s)) \<and> map_of (ya_animated (snd (y_step s TargetDone))) = map_of [(''left'', 0, 30)]"
proof -
  have ok: "proper_options (demo_axes PhReady [(''left'', 0, 10)])"
    "list_all (axis_event_ok (demo_axes PhReady [(''left'', 0, 10)])) [AxisRender (demo_axes PhReady [(''left'', 0, 30)]), TargetFrame (1 / 2)]"
    by (simp_all add: proper_options_def proper_def demo_axes_def axis_event_ok_def same_settings_def)
  have "fst (foldl y_step (y_mount (demo_axes PhReady [(''left'', 0, 10)]))
      [AxisRender (demo_axes PhReady [(''left'', 0, 30)]), TargetFrame (1 / 2)]) = demo_axes PhReady [(''left'', 0, 30)]"
    by (simp add: y_mount_def)
  then show ?thesis
    using axes_follow_data [OF ok] by (simp only: Let_def) (simp add: demo_axes_def live_phase_def)
qed

end
