(* ===== verification/Chart_Motion.thy ===== *)
theory Chart_Motion
  imports Line_Motion Axis_Motion
begin

section \<open>A line over axes that move: time-series-chart-shell.tsx with its two animations\<close>

text \<open>
  \<open>src/web/src/components/charts/time-series-chart-shell.tsx\<close> makes its vertical scales from the domains
  \<open>useAnimatedYDomains\<close> shows (\<open>yDomainsForScales\<close>), not from those of the data, and every line follows them with
  \<open>useAnimatedSeriesPath\<close>. Here the two machines of the theories Axis_Motion and Line_Motion run together: new rows, the
  frames and the end of the animation of the axes, each of which renders the line again, and those of the line.
\<close>

subsection \<open>The scales of the moment\<close>

definition moving_yScales :: "'r series_env \<Rightarrow> y_domains \<Rightarrow> (string \<times> (rat \<Rightarrow> rat)) list" where
  "moving_yScales E yDomainsForScales =
     buildYScalesFromDomains (se_scaleLinear E (se_innerHeight E, 0)) (0, 100) (se_lines E) yDomainsForScales"

definition moving_yScale :: "'r series_env \<Rightarrow> y_domains \<Rightarrow> axis_id option \<Rightarrow> rat \<Rightarrow> rat" where
  "moving_yScale E yDomainsForScales i =
     (case map_of (moving_yScales E yDomainsForScales) (normalizeYAxisId i) of
        Some s \<Rightarrow> s
      | None \<Rightarrow> getPrimaryYScale (moving_yScales E yDomainsForScales) (se_scaleLinear E (se_innerHeight E, 0) (0, 100)))"

text \<open>The vertices a line is given to draw.\<close>

definition moving_points :: "'r series_env \<Rightarrow> y_domains \<Rightarrow> LineConfig \<Rightarrow> SeriesPathPoint list" where
  "moving_points E yDomainsForScales line =
     computeSeriesPathPoints (renderData E) (se_time E) (series_xScale E)
       (moving_yScale E yDomainsForScales (lc_yAxisId line)) (se_number E) (lc_dataKey line)"

subsection \<open>The chart\<close>

record 'r chart_motion =
  cm_env :: "'r series_env"
  cm_axes :: "y_options \<times> y_state"
  cm_line :: "path_options \<times> path_state"

text \<open>What the chart gives its axes, and what a line of it gives its hook.\<close>

definition axis_options :: "y_options \<Rightarrow> 'r series_env \<Rightarrow> ChartPhase \<Rightarrow> y_options" where
  "axis_options base E ph = base\<lparr>yo_chartPhase := ph, yo_targetByAxis := yDomainTargetByAxis E\<rparr>"

definition moving_options :: "y_options \<Rightarrow> 'r series_env \<Rightarrow> y_domains \<Rightarrow> LineConfig \<Rightarrow> bool \<Rightarrow> nat \<Rightarrow> path_options" where
  "moving_options p E shown line animate memo =
     (line_options E line animate (yo_reducedMotion p) (yo_chartPhase p) (yo_durationMs p) memo)
       \<lparr>po_targetPoints := moving_points E shown line\<rparr>"

definition motion_mount :: "bool \<Rightarrow> LineConfig \<Rightarrow> y_options \<Rightarrow> 'r series_env \<Rightarrow> ChartPhase \<Rightarrow> nat \<Rightarrow> 'r chart_motion" where
  "motion_mount animate line base E ph memo =
     (let axes = y_mount (axis_options base E ph)
      in \<lparr>cm_env = E, cm_axes = axes,
          cm_line = path_mount (moving_options (fst axes) E (ya_animated (snd axes)) line animate memo)\<rparr>)"

text \<open>New rows are first rendered over the domains that are shown; the effects of the line, a child, run before those of
  the chart, and where these change the domains the line is rendered again. The numbers are the memos of the renders.\<close>

datatype 'r motion_event =
    NewRows "'r series_env" ChartPhase nat nat
  | AxisFrame rat nat
  | AxisDone nat
  | LineFrame rat
  | LineDone

definition line_again :: "bool \<Rightarrow> LineConfig \<Rightarrow> nat \<Rightarrow> 'r chart_motion \<Rightarrow> y_options \<times> y_state \<Rightarrow> 'r chart_motion" where
  "line_again animate line memo S axes =
     S\<lparr>cm_axes := axes,
       cm_line := path_step (cm_line S)
         (PathRender (moving_options (fst axes) (cm_env S) (ya_animated (snd axes)) line animate memo))\<rparr>"

fun motion_step :: "bool \<Rightarrow> LineConfig \<Rightarrow> 'r chart_motion \<Rightarrow> 'r motion_event \<Rightarrow> 'r chart_motion" where
  "motion_step animate line S (NewRows E ph memo memo') =
     (let q = axis_options (fst (cm_axes S)) E ph;
          shown = ya_animated (snd (cm_axes S));
          S1 = S\<lparr>cm_env := E, cm_line := path_step (cm_line S) (PathRender (moving_options q E shown line animate memo))\<rparr>;
          axes = y_step (cm_axes S) (AxisRender q)
      in if ya_animated (snd axes) = shown then S1\<lparr>cm_axes := axes\<rparr> else line_again animate line memo' S1 axes)"
| "motion_step animate line S (AxisFrame t memo) = line_again animate line memo S (y_step (cm_axes S) (TargetFrame t))"
| "motion_step animate line S (AxisDone memo) = line_again animate line memo S (y_step (cm_axes S) TargetDone)"
| "motion_step animate line S (LineFrame t) = S\<lparr>cm_line := path_step (cm_line S) (PathFrame t)\<rparr>"
| "motion_step animate line S LineDone = S\<lparr>cm_line := path_step (cm_line S) PathComplete\<rparr>"

text \<open>At rest the scales are those of the theory Time_Series.\<close>

lemma moving_at_rest: "moving_points E (yDomainTargetByAxis E) line = line_points E line"
proof -
  have "moving_yScales E (yDomainTargetByAxis E) = series_yScales E" by (simp add: moving_yScales_def series_yScales_def)
  then have "moving_yScale E (yDomainTargetByAxis E) i = series_yScale E i" for i
    by (simp add: moving_yScale_def series_yScale_def fun_eq_iff split: option.split)
  then show ?thesis by (simp add: moving_points_def line_points_def)
qed

subsection \<open>A vertex is inside the plot as far as its figure is inside the axis\<close>

definition within_domain :: "y_domain \<Rightarrow> rat \<Rightarrow> bool" where
  "within_domain d v \<longleftrightarrow> fst d \<le> v \<and> v \<le> snd d"

lemma moving_scale:
  assumes "line \<in> set (se_lines E)" and "map_of doms (axis_of line) = Some d"
  shows "moving_yScale E doms (lc_yAxisId line) = se_scaleLinear E (se_innerHeight E, 0) d"
proof -
  have "map_of (groupLinesByYAxisId (se_lines E)) (axis_of line) = Some (filter (\<lambda>l. axis_of l = axis_of line) (se_lines E))"
    using assms(1) by (auto simp: groups_exact(2) filter_empty_conv)
  then have "map_of (moving_yScales E doms) (axis_of line) = Some (se_scaleLinear E (se_innerHeight E, 0) d)"
    using assms(2) by (simp add: moving_yScales_def buildYScalesFromDomains_def Let_def map_of_map_snd map_add_def
        split: option.split)
  then show ?thesis by (simp add: moving_yScale_def axis_of_def)
qed

lemma scaled_within:
  assumes "span_law f" and "fst d < snd d" and "0 < (h :: rat)"
  shows "(0 \<le> f (h, 0) d v \<and> f (h, 0) d v \<le> h) = within_domain d v"
proof -
  have "f (h, 0) (fst d, snd d) v = h + (v - fst d) / (snd d - fst d) * (0 - h)"
    using assms(1,2) unfolding span_law_def by blast
  moreover have "h + q * (0 - h) = h * (1 - q)" for q by (simp add: algebra_simps)
  ultimately have y: "f (h, 0) d v = h * (1 - (v - fst d) / (snd d - fst d))" by (simp only: prod.collapse)
  have "(0 \<le> f (h, 0) d v) = ((v - fst d) / (snd d - fst d) \<le> 1)"
    unfolding y using assms(3) by (simp add: zero_le_mult_iff)
  moreover have "(f (h, 0) d v \<le> h) = (0 \<le> (v - fst d) / (snd d - fst d))"
  proof -
    have "(h * (1 - q) \<le> h) = (0 \<le> q)" for q using assms(3) by (simp add: right_diff_distrib zero_le_mult_iff)
    then show ?thesis unfolding y .
  qed
  ultimately show ?thesis
    using assms(2) by (auto simp: within_domain_def zero_le_divide_iff pos_divide_le_eq)
qed

text \<open>The figures of a line are all within the domain its axis has in a record.\<close>

definition holds_line :: "'r series_env \<Rightarrow> LineConfig \<Rightarrow> y_domains \<Rightarrow> bool" where
  "holds_line E line doms \<longleftrightarrow>
     (case map_of doms (axis_of line) of
        None \<Rightarrow> False
      | Some d \<Rightarrow> list_all (\<lambda>row. case se_number E row (lc_dataKey line) of Some v \<Rightarrow> within_domain d v | None \<Rightarrow> True) (se_plotData E))"

lemma moving_in_plot:
  assumes "line_fits width height line E" and "0 < height" and "0 \<le> width" and "proper doms" and "holds_line E line doms"
  shows "points_ok E (moving_points E doms line)"
  unfolding points_ok_def
proof
  fix p assume "p \<in> set (moving_points E doms line)"
  then obtain row where row: "row \<in> set (renderData E)" and p: "p = \<lparr>pp_x = series_xScale E (se_time E row),
      pp_y = (case se_number E row (lc_dataKey line) of Some v \<Rightarrow> moving_yScale E doms (lc_yAxisId line) v | None \<Rightarrow> 0),
      pp_key = show_int (se_time E row)\<rparr>"
    by (auto simp: moving_points_def computeSeriesPathPoints_def)
  have "\<forall>v \<in> set (line_points E line). in_plot E v"
    using assms(1-3) by (intro vertices_in_plot) (auto simp: line_fits_def)
  then have x: "0 \<le> pp_x p \<and> pp_x p \<le> se_innerWidth E"
    using row by (auto simp: p line_points_def computeSeriesPathPoints_def in_plot_def)
  have plotted: "row \<in> set (se_plotData E)" by (rule subsetD [OF renderData_subset row])
  then obtain v where v: "se_number E row (lc_dataKey line) = Some v" using assms(1) by (auto simp: line_fits_def)
  from assms(5) obtain d where d: "map_of doms (axis_of line) = Some d" "within_domain d v"
    using plotted v by (auto simp: holds_line_def list_all_iff split: option.splits)
  have "fst d < snd d" using assms(4) map_of_SomeD [OF d(1)] by (auto simp: proper_def list_all_iff)
  moreover have fits: "line \<in> set (se_lines E)" "span_law (se_scaleLinear E)" "se_innerHeight E = height"
    using assms(1) by (simp_all add: line_fits_def)
  ultimately have "0 \<le> pp_y p \<and> pp_y p \<le> se_innerHeight E"
    using scaled_within [of "se_scaleLinear E" d "se_innerHeight E" v] d(2) assms(2) moving_scale [OF fits(1) d(1)] by (simp add: p v)
  then show "in_plot E p" using x by (simp add: in_plot_def)
qed

lemma target_holds_line:
  assumes "line_fits width height line E"
  shows "holds_line E line (yDomainTargetByAxis E)"
proof -
  let ?keys = "map lc_dataKey (filter (\<lambda>l. axis_of l = axis_of line) (se_lines E))"
  define raw where "raw = resolveTimeSeriesYDomain (se_number E) (se_plotData E) ?keys None"
  have fits: "line \<in> set (se_lines E)" "nice_law (se_nice E)" "se_xDomain E = None" "se_yScaleDomainMax E = None"
    using assms by (simp_all add: line_fits_def)
  have "map_of (groupLinesByYAxisId (se_lines E)) (axis_of line) = Some (filter (\<lambda>l. axis_of l = axis_of line) (se_lines E))"
    using fits(1) by (auto simp: groups_exact(2) filter_empty_conv)
  then have dom: "map_of (yDomainTargetByAxis E) (axis_of line) = Some (se_nice E raw)"
    by (simp add: yDomainTargetByAxis_def computeYDomainsByAxis_def Let_def map_of_map_snd map_add_def raw_def resolveYDomain_def
        visiblePlotData_def fits split: option.split)
  have "within_domain (se_nice E raw) v" if "row \<in> set (se_plotData E)" "se_number E row (lc_dataKey line) = Some v" for row v
  proof -
    have "v \<in> set (series_numbers (se_number E) (se_plotData E) ?keys)"
      using that fits(1) by (force simp: series_numbers_def)
    note holds = y_domain_holds [OF this, folded raw_def]
    have "fst (se_nice E raw) \<le> fst raw" "snd raw \<le> snd (se_nice E raw)"
      using fits(2) holds(3) unfolding nice_law_def by (metis prod.collapse)+
    with holds show ?thesis by (simp add: within_domain_def)
  qed
  then show ?thesis by (auto simp: holds_line_def dom list_all_iff split: option.split)
qed

subsection \<open>The domains of a chart that shows its data\<close>

lemma start_of_holds:
  assumes "map_of doms (fst d) = Some a"
  shows "start_of doms d = a"
  using assms by (simp add: start_of_def)

text \<open>What a render does to the axes: they stay or snap to the data, and an animation it leaves running is the one of
  before, on the same way, or starts where they are.\<close>

definition starts_from :: "y_domains \<Rightarrow> y_domains \<Rightarrow> y_tween \<Rightarrow> bool" where
  "starts_from doms destination c \<longleftrightarrow> c = \<lparr>yt_fromByAxis = map (\<lambda>d. (fst d, start_of doms d)) destination, yt_destination = destination\<rparr>"

lemma tween_starts:
  assumes "proper (ya_animated st)" and "proper ds" and "tweenDomains p ds st = (st', c)"
  shows "map_of (ya_animated st') = map_of (ya_animated st) \<or> map_of (ya_animated st') = map_of ds"
    and "c = Some c' \<Longrightarrow> starts_from (ya_animated st') ds c'"
  using assms(3) snap_facts [OF assms(1,2)] by (auto simp: tweenDomains_def starts_from_def split: if_splits)

lemma target_effect_moves:
  assumes "proper (ya_animated st)" and "proper (yo_targetByAxis q)"
  shows "map_of (ya_animated (y_target_effect q st)) = map_of (ya_animated st) \<or>
      map_of (ya_animated (y_target_effect q st)) = map_of (yo_targetByAxis q)"
    and "ya_targetTween (y_target_effect q st) = Some c \<Longrightarrow> ya_targetTween st = Some c \<or>
      starts_from (ya_animated (y_target_effect q st)) (yo_targetByAxis q) c"
proof -
  let ?st = "st\<lparr>ya_prevTarget := yo_targetByAxis q\<rparr>"
  obtain st2 c2 where tween: "tweenDomains q (yo_targetByAxis q) ?st = (st2, c2)" by (cases "tweenDomains q (yo_targetByAxis q) ?st")
  have "proper (ya_animated ?st)" using assms(1) by simp
  note moves = tween_starts [OF this assms(2) tween] and snap = snap_facts [OF this assms(2)] rest_fields(4) [OF rest_snap(1)]
  show "map_of (ya_animated (y_target_effect q st)) = map_of (ya_animated st) \<or>
      map_of (ya_animated (y_target_effect q st)) = map_of (yo_targetByAxis q)"
    using moves(1) snap tween by (auto simp: y_target_effect_def Let_def)
  show "ya_targetTween (y_target_effect q st) = Some c \<Longrightarrow> ya_targetTween st = Some c \<or>
      starts_from (ya_animated (y_target_effect q st)) (yo_targetByAxis q) c"
    using moves(2) snap tween by (auto simp: y_target_effect_def Let_def split: if_splits)
qed

lemma render_moves:
  assumes "y_inv (p, st)" and "proper_options q" and "live_phase (yo_chartPhase q)"
  shows "map_of (ya_animated (y_commit q st)) = map_of (ya_animated st) \<or>
      map_of (ya_animated (y_commit q st)) = map_of (yo_targetByAxis q)"
    and "ya_targetTween (y_commit q st) = Some c \<Longrightarrow>
      (ya_targetTween st = Some c \<and> yo_targetByAxis q = yo_targetByAxis p) \<or>
      starts_from (ya_animated (y_commit q st)) (yo_targetByAxis q) c"
proof -
  define st1 where "st1 = (y_cleanup q st)\<lparr>ya_deps1 := Some (y_deps1 q), ya_deps2 := Some (y_deps2 q)\<rparr>"
  define st2 where "st2 = (if ya_deps1 st \<noteq> Some (y_deps1 q) then y_phase_effect q st1 else st1)"
  have commit: "y_commit q st = (if ya_deps2 st \<noteq> Some (y_deps2 q) then y_target_effect q st2 else st2)"
    by (simp add: y_commit_def Let_def st1_def st2_def)
  have target: "proper (yo_targetByAxis q)" using assms(2) by (simp add: proper_options_def)
  have st1: "ya_animated st1 = ya_animated st" "proper (ya_animated st1)"
    "ya_targetTween st1 = (if ya_deps2 st = Some (y_deps2 q) then ya_targetTween st else None)"
    using assms(1) by (simp_all add: st1_def y_cleanup_def y_inv_def)
  have phase: "y_phase_effect q st1 = st1 \<or> y_phase_effect q st1 = snapDomains (yo_targetByAxis q) (st1\<lparr>ya_prevPhase := yo_chartPhase q\<rparr>)"
    using assms(3) by (auto simp: y_phase_effect_def live_phase_def Let_def)
  have "proper (ya_animated (st1\<lparr>ya_prevPhase := yo_chartPhase q\<rparr>))" using st1(2) by simp
  note snap = snap_facts [OF this target] rest_fields(4) [OF rest_snap(1)]
  have st2: "map_of (ya_animated st2) = map_of (ya_animated st) \<or> map_of (ya_animated st2) = map_of (yo_targetByAxis q)"
    "proper (ya_animated st2)" "ya_targetTween st2 = ya_targetTween st1"
    using phase snap st1 by (auto simp: st2_def)
  note moves = target_effect_moves [OF st2(2) target]
  show "map_of (ya_animated (y_commit q st)) = map_of (ya_animated st) \<or>
      map_of (ya_animated (y_commit q st)) = map_of (yo_targetByAxis q)"
    using moves(1) st2(1) unfolding commit by auto
  have same: "yo_targetByAxis q = yo_targetByAxis p" if "ya_deps2 st = Some (y_deps2 q)"
    using that assms(1) by (simp add: y_inv_def y_deps2_def)
  show "ya_targetTween (y_commit q st) = Some c \<Longrightarrow>
      (ya_targetTween st = Some c \<and> yo_targetByAxis q = yo_targetByAxis p) \<or>
      starts_from (ya_animated (y_commit q st)) (yo_targetByAxis q) c"
    using moves(2) [of c] st2(3) st1(3) same unfolding commit by (auto split: if_splits)
qed

text \<open>Half way between two domains that hold a line every domain does.\<close>

lemma lerp_within:
  assumes "within_domain a v" and "within_domain b v" and "0 \<le> t" and "t \<le> 1"
  shows "within_domain (lerpDomain a b t) v"
proof -
  have mix: "x + (y - x) * t = x * (1 - t) + y * t" for x y :: rat by (simp add: algebra_simps)
  have "fst a * (1 - t) + fst b * t \<le> v * (1 - t) + v * t" "v * (1 - t) + v * t \<le> snd a * (1 - t) + snd b * t"
    using assms by (intro add_mono mult_right_mono; simp add: within_domain_def)+
  then show ?thesis by (simp add: within_domain_def lerpDomain_def mix algebra_simps)
qed

lemma tween_holds:
  assumes "holds_line E line (yt_fromByAxis c)" and "holds_line E line (yt_destination c)" and "0 \<le> t" and "t \<le> 1"
  shows "holds_line E line (tween_at c t)"
proof -
  obtain a where a: "map_of (yt_fromByAxis c) (axis_of line) = Some a"
    using assms(1) by (auto simp: holds_line_def split: option.splits)
  obtain b where b: "map_of (yt_destination c) (axis_of line) = Some b"
    using assms(2) by (auto simp: holds_line_def split: option.splits)
  have "start_of (yt_fromByAxis c) (axis_of line, b) = a" using a by (simp add: start_of_def)
  moreover have "map_of (tween_at c t) (axis_of line) =
      (let start = start_of (yt_fromByAxis c) (axis_of line, b) in
       Some (if shouldTweenYDomain start b then lerpDomain start b t else b))"
  proof -
    have "tween_at c t = map (\<lambda>(k, d). (k, let start = start_of (yt_fromByAxis c) (k, d) in
        if shouldTweenYDomain start d then lerpDomain start d t else d)) (yt_destination c)"
      by (simp add: tween_at_def split_beta)
    then show ?thesis by (simp add: map_of_map_snd b Let_def)
  qed
  ultimately have "map_of (tween_at c t) (axis_of line) = Some (if shouldTweenYDomain a b then lerpDomain a b t else b)"
    by (simp add: Let_def)
  then show ?thesis
    using assms(1,2) lerp_within [OF _ _ assms(3,4), of a _ b] by (auto simp: holds_line_def a b list_all_iff split: option.splits)
qed

lemma holds_cong: "map_of doms = map_of doms' \<Longrightarrow> holds_line E line doms = holds_line E line doms'"
  by (simp add: holds_line_def)

lemma start_holds:
  assumes "starts_from doms destination c" and "holds_line E line doms" and "holds_line E line destination"
  shows "holds_line E line (yt_fromByAxis c)"
proof -
  obtain a where a: "map_of doms (axis_of line) = Some a" using assms(2) by (auto simp: holds_line_def split: option.splits)
  obtain b where b: "map_of destination (axis_of line) = Some b" using assms(3) by (auto simp: holds_line_def split: option.splits)
  have "yt_fromByAxis c = map (\<lambda>(k, d). (k, start_of doms (k, d))) destination"
    using assms(1) by (simp add: starts_from_def split_beta)
  then have "map_of (yt_fromByAxis c) (axis_of line) = Some (start_of doms (axis_of line, b))"
    by (simp only: map_of_map_snd b option.map)
  then have "map_of (yt_fromByAxis c) (axis_of line) = Some a" using a by (simp add: start_of_def)
  then show ?thesis using assms(2) by (simp add: holds_line_def a)
qed

subsection \<open>A line stays in the plot over axes that have room for it\<close>

text \<open>The axis has room for rows: their figures are within the domain it shows and, while it moves, within the one it
  comes from. The domain it moves to always holds the rows of the chart.\<close>

definition axis_room :: "'r series_env \<Rightarrow> LineConfig \<Rightarrow> y_state \<Rightarrow> bool" where
  "axis_room E line st \<longleftrightarrow> holds_line E line (ya_animated st) \<and>
     (case ya_targetTween st of Some c \<Rightarrow> holds_line E line (yt_fromByAxis c) | None \<Rightarrow> True)"

definition motion_event_fits :: "rat \<Rightarrow> rat \<Rightarrow> LineConfig \<Rightarrow> 'r chart_motion \<Rightarrow> 'r motion_event \<Rightarrow> bool" where
  "motion_event_fits width height line S e \<longleftrightarrow> (case e of
     NewRows E ph _ _ \<Rightarrow> live_phase ph \<and> line_fits width height line E \<and> axis_room E line (snd (cm_axes S))
   | AxisFrame t _ \<Rightarrow> 0 \<le> t \<and> t \<le> 1
   | _ \<Rightarrow> True)"

fun rows_fit :: "rat \<Rightarrow> rat \<Rightarrow> bool \<Rightarrow> LineConfig \<Rightarrow> 'r chart_motion \<Rightarrow> 'r motion_event list \<Rightarrow> bool" where
  "rows_fit width height animate line S [] \<longleftrightarrow> True"
| "rows_fit width height animate line S (e # es) \<longleftrightarrow>
     motion_event_fits width height line S e \<and> rows_fit width height animate line (motion_step animate line S e) es"

definition motion_inv :: "rat \<Rightarrow> rat \<Rightarrow> LineConfig \<Rightarrow> 'r chart_motion \<Rightarrow> bool" where
  "motion_inv width height line S \<longleftrightarrow> line_fits width height line (cm_env S) \<and> y_inv (cm_axes S) \<and>
     live_phase (yo_chartPhase (fst (cm_axes S))) \<and> yo_targetByAxis (fst (cm_axes S)) = yDomainTargetByAxis (cm_env S) \<and>
     axis_room (cm_env S) line (snd (cm_axes S)) \<and> path_in_plot (cm_env S) (cm_line S)"

lemma path_in_plot_size:
  assumes "line_fits width height line E" and "line_fits width height line E'"
  shows "path_in_plot E s = path_in_plot E' s"
proof -
  have "in_plot E = in_plot E'" using assms by (auto simp: in_plot_def line_fits_def fun_eq_iff)
  then show ?thesis by (simp add: path_in_plot_def points_ok_def cong: option.case_cong)
qed

lemma render_in_plot:
  assumes "path_in_plot E s" and "line_fits width height line E" and "0 < height" and "0 \<le> width" and "proper doms" and "holds_line E line doms"
  shows "path_in_plot E (path_step s (PathRender (moving_options p E doms line animate memo)))"
  using assms by (intro step_in_plot) (simp_all add: moving_options_def moving_in_plot)

lemma axis_room_step:
  assumes "y_inv (p, st)" and "y_inv (q, st')" and "axis_room E line st" and "holds_line E line (yo_targetByAxis q)"
    and "map_of (ya_animated st') = map_of (ya_animated st) \<or> map_of (ya_animated st') = map_of (yo_targetByAxis q)"
    and "\<And>c. ya_targetTween st' = Some c \<Longrightarrow> ya_targetTween st = Some c \<or> starts_from (ya_animated st') (yo_targetByAxis q) c"
  shows "axis_room E line st'"
proof -
  have shown: "holds_line E line (ya_animated st')"
    using assms(3-5) holds_cong [of "ya_animated st'" "ya_animated st" E line] holds_cong [of "ya_animated st'" "yo_targetByAxis q" E line]
    by (auto simp: axis_room_def)
  moreover have "holds_line E line (yt_fromByAxis c)" if c: "ya_targetTween st' = Some c" for c
    using assms(6) [OF c] assms(3,4) start_holds [OF _ shown, of "yo_targetByAxis q" c] by (auto simp: axis_room_def split: option.splits)
  ultimately show ?thesis by (simp add: axis_room_def split: option.split)
qed

lemma axis_room_shown: "axis_room E line st \<Longrightarrow> holds_line E line (ya_animated st)"
  by (simp add: axis_room_def)

lemma y_inv_shown: "y_inv (p, st) \<Longrightarrow> proper (ya_animated st)"
  by (simp add: y_inv_def)

lemma axis_frame_room:
  assumes "y_inv (p, st)" and "axis_room E line st" and "holds_line E line (yo_targetByAxis p)" and "0 \<le> t" and "t \<le> 1"
  shows "axis_room E line (snd (y_step (p, st) (TargetFrame t)))"
proof (cases "ya_targetTween st")
  case (Some c)
  then have "yt_destination c = yo_targetByAxis p" using assms(1) by (simp add: y_inv_def)
  then show ?thesis using Some assms(2,3) tween_holds [OF _ _ assms(4,5), of E line c] by (simp add: axis_room_def)
qed (use assms(2) in simp)

lemma axis_done_room:
  assumes "y_inv (p, st)" and "axis_room E line st" and "holds_line E line (yo_targetByAxis p)"
  shows "axis_room E line (snd (y_step (p, st) TargetDone))"
proof (cases "ya_targetTween st")
  case (Some c)
  have c: "yt_destination c = yo_targetByAxis p" "proper (ya_animated st)" "proper (yt_destination c)"
    using assms(1) Some by (simp_all add: y_inv_def y_tween_ok_def proper_options_def)
  have "holds_line E line (ya_animated (snapDomains (yt_destination c) st))"
    unfolding holds_cong [OF snap_facts(2) [OF c(2,3)]] unfolding c(1) by (rule assms(3))
  then show ?thesis using Some by (simp add: axis_room_def tween_done_def)
qed (use assms(2) in simp)

lemma motion_inv_step:
  assumes "motion_inv width height line S" and "motion_event_fits width height line S e" and "0 < height" and "0 \<le> width"
  shows "motion_inv width height line (motion_step animate line S e)"
proof -
  obtain p st where axes: "cm_axes S = (p, st)" by (cases "cm_axes S")
  have inv: "line_fits width height line (cm_env S)" "y_inv (p, st)" "live_phase (yo_chartPhase p)"
    "yo_targetByAxis p = yDomainTargetByAxis (cm_env S)" "axis_room (cm_env S) line st" "path_in_plot (cm_env S) (cm_line S)"
    using assms(1) by (simp_all add: motion_inv_def axes)
  note room = axis_room_shown and proper = y_inv_shown
  have again: "motion_inv width height line (line_again animate line memo S1 (q, st'))"
    if "line_fits width height line (cm_env S1)" "y_inv (q, st')" "live_phase (yo_chartPhase q)"
      "yo_targetByAxis q = yDomainTargetByAxis (cm_env S1)" "axis_room (cm_env S1) line st'" "path_in_plot (cm_env S1) (cm_line S1)"
    for S1 q st' memo
    using that render_in_plot [OF that(6,1) assms(3,4) proper [OF that(2)] room [OF that(5)]]
    by (simp add: motion_inv_def line_again_def)
  have held: "holds_line (cm_env S) line (yo_targetByAxis p)" unfolding inv(4) by (rule target_holds_line [OF inv(1)])
  show ?thesis
  proof (cases e)
    case (NewRows E ph memo memo')
    define q where "q = axis_options p E ph"
    define st' where "st' = y_commit q st"
    have new: "live_phase ph" "line_fits width height line E" "axis_room E line st"
      using assms(2) by (simp_all add: NewRows motion_event_fits_def axes)
    have same: "same_settings p q" by (simp add: q_def axis_options_def same_settings_def)
    have options: "proper_options q"
      using inv(2) new(2) targets_proper [of E] by (simp add: q_def axis_options_def proper_options_def y_inv_def line_fits_def)
    have live: "live_phase (yo_chartPhase q)" and target: "yo_targetByAxis q = yDomainTargetByAxis E"
      using new(1) by (simp_all add: q_def axis_options_def)
    have inv': "y_inv (q, st')" unfolding st'_def by (rule commit_keeps [OF inv(2) same options])
    have heldE: "holds_line E line (yo_targetByAxis q)" unfolding target by (rule target_holds_line [OF new(2)])
    have room': "axis_room E line st'"
      using render_moves [OF inv(2) options live] by (intro axis_room_step [OF inv(2) inv' new(3) heldE]) (auto simp: st'_def)
    have "path_in_plot E (cm_line S)" using inv(6) path_in_plot_size [OF inv(1) new(2)] by simp
    note drawn = render_in_plot [OF this new(2) assms(3,4) proper [OF inv(2)] room [OF new(3)]]
    show ?thesis
      using again [of "S\<lparr>cm_env := E, cm_line := path_step (cm_line S) (PathRender (moving_options q E (ya_animated st) line animate memo))\<rparr>"
          q st' memo'] new inv' live target room' drawn
      by (simp add: NewRows axes q_def [symmetric] st'_def [symmetric] Let_def) (simp add: motion_inv_def)
  next
    case (AxisFrame t memo)
    then have t: "0 \<le> t" "t \<le> 1" using assms(2) by (simp_all add: motion_event_fits_def)
    have "y_inv (y_step (p, st) (TargetFrame t))" using t by (intro y_inv_step inv(2)) (simp add: axis_event_ok_def)
    then show ?thesis
      using again [of S p "snd (y_step (p, st) (TargetFrame t))" memo] inv axis_frame_room [OF inv(2,5) held t] by (simp add: AxisFrame axes)
  next
    case (AxisDone memo)
    have "y_inv (y_step (p, st) TargetDone)" by (intro y_inv_step inv(2)) (simp add: axis_event_ok_def)
    then show ?thesis
      using again [of S p "snd (y_step (p, st) TargetDone)" memo] inv axis_done_room [OF inv(2,5) held] by (simp add: AxisDone axes)
  next
    case (LineFrame t)
    then show ?thesis using assms(1) step_in_plot [of "cm_env S" "cm_line S" "PathFrame t"] by (simp add: motion_inv_def)
  next
    case LineDone
    then show ?thesis using assms(1) step_in_plot [of "cm_env S" "cm_line S" PathComplete] by (simp add: motion_inv_def)
  qed
qed

lemma motion_inv_mount:
  assumes "line_fits width height line E" and "live_phase ph" and "proper (yo_skeletonByAxis base)" and "0 < height" and "0 \<le> width"
  shows "motion_inv width height line (motion_mount animate line base E ph memo)"
proof -
  let ?p = "axis_options base E ph"
  have target: "yo_targetByAxis ?p = yDomainTargetByAxis E" "yo_chartPhase ?p = ph" by (simp_all add: axis_options_def)
  have "proper_options ?p"
    using assms(1,3) targets_proper [of E] by (simp add: axis_options_def proper_options_def line_fits_def)
  then have inv: "y_inv (y_mount ?p)" by (rule y_inv_mount)
  have "destinationByAxis ?p = yDomainTargetByAxis E"
    using assms(2) by (auto simp: live_phase_def destinationByAxis_def resolveAnimatedYDestinationDomains_def axis_options_def)
  then have shown: "ya_animated (snd (y_mount ?p)) = yDomainTargetByAxis E" "ya_targetTween (snd (y_mount ?p)) = None" "fst (y_mount ?p) = ?p"
    by (simp_all add: y_mount_def y_commit_def y_cleanup_def y_init_def y_phase_effect_def y_target_effect_def Let_def)
  note held = target_holds_line [OF assms(1)]
  have "proper (yDomainTargetByAxis E)" using assms(1) targets_proper [of E] by (simp add: line_fits_def)
  then have "path_in_plot E (path_mount (moving_options ?p E (yDomainTargetByAxis E) line animate memo))"
    using moving_in_plot [OF assms(1,4,5) _ held] by (intro mount_in_plot) (simp add: moving_options_def)
  then show ?thesis
    using assms(1,2) inv held by (simp add: motion_inv_def motion_mount_def shown target axis_room_def Let_def)
qed

lemma motion_inv_run:
  assumes "motion_inv width height line S" and "rows_fit width height animate line S events" and "0 < height" and "0 \<le> width"
  shows "motion_inv width height line (foldl (motion_step animate line) S events)"
  using assms(1,2)
proof (induction events arbitrary: S)
  case (Cons e es)
  then show ?case using motion_inv_step [OF Cons.prems(1) _ assms(3,4), of e animate] by simp
qed simp

text \<open>C35. Axes with room keep a line in its plot: in a chart of a fixed size that shows its data, whose rows all have the
  figures of the line, over any renders with other rows and any frames and ends of the animations of the axes and
  of the line, started, stopped and started again in any order, every vertex of the line on the screen is inside
  the plot, as long as new rows come with figures within the domain their axis shows at that moment and, where the
  axis is moving, within the one it started from.\<close>

theorem line_never_leaves_plot:
  assumes "line_fits width height line E" and "live_phase ph" and "proper (yo_skeletonByAxis base)"
    and "0 < height" and "0 \<le> width"
    and "rows_fit width height animate line (motion_mount animate line base E ph memo) events"
  shows "let S = foldl (motion_step animate line) (motion_mount animate line base E ph memo) events
    in list_all (in_plot (cm_env S)) (drawn_points (cm_line S)) \<and> se_innerWidth (cm_env S) = width \<and> se_innerHeight (cm_env S) = height"
proof -
  define S where "S = foldl (motion_step animate line) (motion_mount animate line base E ph memo) events"
  have "motion_inv width height line S"
    unfolding S_def by (rule motion_inv_run [OF motion_inv_mount [OF assms(1-5)] assms(6,4,5)])
  then have inv: "path_in_plot (cm_env S) (cm_line S)" "line_fits width height line (cm_env S)" by (simp_all add: motion_inv_def)
  then have "list_all (in_plot (cm_env S)) (drawn_points (cm_line S))"
    by (auto simp: path_in_plot_def points_ok_def drawn_points_def activePoints_def list_all_iff split: option.splits if_splits)
  then show ?thesis using inv(2) by (simp add: S_def [symmetric] Let_def line_fits_def)
qed

subsection \<open>Runs of a small chart\<close>

text \<open>Smaller figures come: they are drawn over the old axis at first, then over one on its way down.\<close>

definition demo_lower :: "(int \<times> rat) series_env" where
  "demo_lower = demo_series\<lparr>se_plotData := [(0, 2), (5, 3), (10, 5)]\<rparr>"

definition demo_smaller :: "(int \<times> rat) motion_event list" where
  "demo_smaller = [NewRows demo_lower PhReady 1 2, AxisFrame (1 / 2) 3, LineFrame (1 / 3), AxisDone 4]"

abbreviation demo_base :: y_options where
  "demo_base \<equiv> demo_axes PhReady []"

lemma demo_smaller_fits:
  "rows_fit 100 110 True demo_series_line (motion_mount True demo_series_line demo_base demo_series PhReady 0) demo_smaller"
proof -
  have "x_domain demo_lower = (0, 10)" by code_simp
  then have lower: "line_fits 100 110 demo_series_line demo_lower"
    using demo_parts by (simp add: line_fits_def) (simp add: demo_lower_def demo_series_def)
  have "axis_room demo_lower demo_series_line
    (snd (cm_axes (motion_mount True demo_series_line demo_base demo_series PhReady 0)))" by code_simp
  then show ?thesis using lower by (simp add: demo_smaller_def motion_event_fits_def live_phase_def)
qed

theorem line_never_leaves_plot_witness:
  "let S = foldl (motion_step True demo_series_line) (motion_mount True demo_series_line demo_base demo_series PhReady 0) demo_smaller
   in list_all (in_plot (cm_env S)) (drawn_points (cm_line S)) \<and> se_innerWidth (cm_env S) = 100 \<and> se_innerHeight (cm_env S) = 110"
  by (rule line_never_leaves_plot [OF demo_fits(1) _ _ _ _ demo_smaller_fits])
    (simp_all add: live_phase_def demo_axes_def proper_def)

text \<open>Larger figures come: the first picture of the new rows is above the plot, and where a frame of the line is painted before
  one of the axes the line stays there, also when the axes have arrived.\<close>

definition demo_draws :: "bool \<Rightarrow> (int \<times> rat) motion_event list \<Rightarrow> rat list" where
  "demo_draws animate events = map pp_y (drawn_points (cm_line (foldl (motion_step animate demo_series_line)
     (motion_mount animate demo_series_line demo_base demo_series PhReady 0) events)))"

lemma larger_rows_leave_plot:
  "demo_draws False [] = [10, 70, 40]"
  "demo_draws False [NewRows demo_later PhReady 1 2] = [90, - 190, 40]"
  "demo_draws True [NewRows demo_later PhReady 1 2, LineFrame (1 / 4), AxisFrame (1 / 2) 3, AxisDone 4, LineDone] = [90, - 190, 40]"
  "map pp_y (line_points demo_later demo_series_line) = [310 / 3, 10, 260 / 3]"
  by code_simp+

end
