(* ===== verification/Series_Charts.thy ===== *)
theory Series_Charts
  imports Time_Series Chart_Data Period
begin

section \<open>The lines of the application's charts\<close>

text \<open>
  What \<open>RevenueExpenseChart.tsx\<close> and the facets of \<open>CategoryTrendChart.tsx\<close> in \<open>src/web/src/app/charts\<close> ask the chart
  library to draw: their rows, their children and their margins put together with \<open>line-chart.tsx\<close> and
  \<open>time-series-chart-shell.tsx\<close>, down to the vertices of the lines.
\<close>

subsection \<open>The time of a month\<close>

text \<open>Days from 1970 to the first of a month, in the proleptic Gregorian calendar counted from March.\<close>

definition first_of_month :: "int \<Rightarrow> int \<Rightarrow> int" where
  "first_of_month y m =
     (let y' = (if m \<le> 2 then y - 1 else y); mp = (if m \<le> 2 then m + 9 else m - 3)
      in 365 * y' + y' div 4 - y' div 100 + y' div 400 + (153 * mp + 2) div 5 - 719468)"

text \<open>\<open>new Date("YYYY-MM")\<close> is the first instant of the month in UTC; of any other text it is no date, which the
  theorems leave out.\<close>

definition period_time :: "string \<Rightarrow> int" where
  "period_time s = first_of_month (int (number (take 4 s))) (int (number (drop 5 s))) * 86400000"

definition month_number :: "string \<Rightarrow> int" where
  "month_number s = 12 * int (number (take 4 s)) + int (number (drop 5 s)) - 1"

subsection \<open>The charts\<close>

definition line_child :: "string \<Rightarrow> string option \<Rightarrow> string option \<Rightarrow> rat option \<Rightarrow> chart_node" where
  "line_child name key stroke strokeWidth = Elem
     \<lparr>ty_name = name, ty_isChartMarkers = False, ty_isPostOverlay = False, ty_isBarDepthLayer = False,
      ty_clipPassthrough = False\<rparr>
     \<lparr>pr_dataKey = key, pr_stroke = stroke, pr_strokeWidth = strokeWidth, pr_fill = None, pr_yAxisId = None, pr_y1 = None,
      pr_y2 = None, pr_axisLabelColor = None\<rparr> Inert"

definition revenue_children :: chart_node where
  "revenue_children = Many
     [line_child ''Grid'' None None None, line_child ''Line'' (Some ''revenue'') (Some ''var(--chart-1)'') None,
      line_child ''Line'' (Some ''expenses'') (Some ''var(--chart-2)'') None, line_child ''ChartTooltip'' None None None]"

definition facet_children :: chart_node where
  "facet_children = Many
     [line_child ''Line'' (Some ''value'') (Some ''var(--chart-1)'') (Some 2),
      line_child ''Line'' (Some ''avg'') (Some ''var(--vk-chart-deemph)'') (Some 1),
      line_child ''ChartTooltip'' None None None]"

record Margin =
  mg_top :: rat
  mg_right :: rat
  mg_bottom :: rat
  mg_left :: rat

definition revenue_MARGIN :: Margin where
  "revenue_MARGIN = \<lparr>mg_top = 24, mg_right = 16, mg_bottom = 8, mg_left = 16\<rparr>"

definition facet_margin :: Margin where
  "facet_margin = \<lparr>mg_top = 8, mg_right = 4, mg_bottom = 4, mg_left = 4\<rparr>"

text \<open>The scales of d3 a chart is drawn with: of time, of figures, and the rounding of a domain.\<close>

record d3_scales =
  d3_time :: "rat \<times> rat \<Rightarrow> int \<times> int \<Rightarrow> int \<Rightarrow> rat"
  d3_linear :: "rat \<times> rat \<Rightarrow> rat \<times> rat \<Rightarrow> rat \<Rightarrow> rat"
  d3_nice :: "rat \<times> rat \<Rightarrow> rat \<times> rat"

text \<open>The chart with the defaults of \<open>LineChart\<close>, once it shows its data; the size is what \<open>ParentSize\<close> measured.\<close>

definition app_lines ::
    "d3_scales \<Rightarrow> Margin \<Rightarrow> rat \<times> rat \<Rightarrow> ('r \<Rightarrow> string) \<Rightarrow> (string \<times> ('r \<Rightarrow> rat)) list \<Rightarrow> chart_node \<Rightarrow> 'r list \<Rightarrow> 'r series_env" where
  "app_lines S margin sz period numbers children rows =
     \<lparr>se_plotData = rows, se_number = (\<lambda>row key. map_option (\<lambda>f. f row) (map_of numbers key)),
      se_values = (\<lambda>row. map (\<lambda>n. snd n row) numbers), se_time = (\<lambda>row. period_time (period row)),
      se_lines = extractLineConfigs children, se_innerWidth = fst sz - mg_left margin - mg_right margin,
      se_innerHeight = snd sz - mg_top margin - mg_bottom margin, se_xDomain = None, se_xDomainSlotCount = None,
      se_yScaleDomainMax = None, se_scaleTime = d3_time S, se_nice = d3_nice S, se_scaleLinear = d3_linear S\<rparr>"

definition revenue_lines :: "d3_scales \<Rightarrow> rat \<times> rat \<Rightarrow> RevenueExpenseRow list \<Rightarrow> RevenueExpenseRow series_env" where
  "revenue_lines S sz rows =
     app_lines S revenue_MARGIN sz re_period [(''revenue'', re_revenue), (''expenses'', re_expenses)] revenue_children rows"

text \<open>The rows of a facet beside its average: period, value, average.\<close>

definition rowsWithAvg :: "facet \<Rightarrow> (string \<times> rat \<times> rat) list" where
  "rowsWithAvg f = map (\<lambda>r. (fst r, snd r, facet_avg f)) (fc_rows f)"

definition facet_lines :: "d3_scales \<Rightarrow> rat \<times> rat \<Rightarrow> facet \<Rightarrow> (string \<times> rat \<times> rat) series_env" where
  "facet_lines S sz f =
     app_lines S facet_margin sz fst [(''value'', \<lambda>r. fst (snd r)), (''avg'', \<lambda>r. snd (snd r))] facet_children (rowsWithAvg f)"

text \<open>The rows of the tooltip: the texts of the first row with the period of the point.\<close>

definition revenue_tooltip_texts :: "RevenueExpenseRow list \<Rightarrow> string \<Rightarrow> string list" where
  "revenue_tooltip_texts rows point =
     (case find (\<lambda>r. re_period r = point) rows of
        Some r \<Rightarrow> [re_revenueText r, re_expensesText r] | None \<Rightarrow> [[], []])"

definition facet_tooltip_text :: "facet \<Rightarrow> string \<Rightarrow> string" where
  "facet_tooltip_text f point =
     (case find (\<lambda>i. fst (fc_rows f ! i) = point) [0..<length (fc_rows f)] of
        Some i \<Rightarrow> (case js_at (fc_texts f) i of Some s \<Rightarrow> s | None \<Rightarrow> []) | None \<Rightarrow> [])"

subsection \<open>Months in their order\<close>

lemma leap_days: "(y - 1 :: int) div 4 - (y - 1) div 100 + (y - 1) div 400 \<le> y div 4 - y div 100 + y div 400"
proof -
  have hundred: "z div 100 = z div 4 div 25" for z :: int by (simp add: zdiv_zmult2_eq [symmetric])
  have step: "(u + 1) div 25 \<le> u div 25 + 1" for u :: int
    using zdiv_mono1 [of "u + 1" "u + 25" 25] by simp
  have "y div 4 = (y - 1) div 4 \<or> y div 4 = (y - 1) div 4 + 1" by presburger
  then have "y div 4 div 25 - (y - 1) div 4 div 25 \<le> y div 4 - (y - 1) div 4" using step [of "(y - 1) div 4"] by auto
  moreover have "(y - 1) div 400 \<le> y div 400" by (rule zdiv_mono1) simp_all
  ultimately show ?thesis unfolding hundred by linarith
qed

lemma next_month: "1 \<le> m \<Longrightarrow> m \<le> 11 \<Longrightarrow> first_of_month y m < first_of_month y (m + 1)"
  "first_of_month y 12 < first_of_month (y + 1) 1"
proof -
  show "first_of_month y 12 < first_of_month (y + 1) 1" by (simp add: first_of_month_def)
  assume m: "1 \<le> m" "m \<le> 11"
  have step: "(153 * k + 2) div 5 < (153 * (k + 1) + 2) div 5" for k :: int by presburger
  consider "m = 1" | "m = 2" | "3 \<le> m" using m by linarith
  then show "first_of_month y m < first_of_month y (m + 1)"
  proof cases
    case 2
    then show ?thesis using leap_days [of y] by (simp add: first_of_month_def Let_def)
  next
    case 3
    then show ?thesis using step [of "m - 3"] by (simp add: first_of_month_def)
  qed (simp add: first_of_month_def Let_def)
qed

lemma later_month:
  assumes "1 \<le> m" "m \<le> 12" "1 \<le> m'" "m' \<le> 12" and "12 * y + m < 12 * y' + m'"
  shows "first_of_month y m < first_of_month y' m'"
proof -
  define F where "F k = first_of_month (k div 12) (k mod 12 + 1)" for k
  have parts: "k div 12 = q" "k mod 12 = r" if "k = 12 * q + r" "0 \<le> r" "r < 12" for k q r :: int
    using int_div_pos_eq [OF that] int_mod_pos_eq [OF that] by simp_all
  have step: "F k < F (k + 1)" for k
  proof -
    define q r where "q = k div 12" and "r = k mod 12"
    have k: "k = 12 * q + r" "0 \<le> r" "r < 12" by (simp_all add: q_def r_def)
    show ?thesis
    proof (cases "r = 11")
      case True
      then have "k + 1 = 12 * (q + 1) + 0" using k(1) by simp
      from parts [OF this] parts [OF k] show ?thesis using next_month(2) [of q] True by (simp add: F_def)
    next
      case False
      then have "k + 1 = 12 * q + (r + 1)" "0 \<le> r + 1" "r + 1 < 12" using k by simp_all
      from parts [OF this] parts [OF k] show ?thesis using next_month(1) [of "r + 1" q] k(2) False k(3) by (simp add: F_def)
    qed
  qed
  have "F k < F (k + 1 + int n)" for k n
  proof (induction n)
    case (Suc n)
    then show ?case using step [of "k + 1 + int n"] by (simp add: algebra_simps)
  qed (use step in simp)
  moreover have "12 * y + m - 1 + 1 + int (nat (12 * y' + m' - (12 * y + m) - 1)) = 12 * y' + m' - 1" using assms(5) by simp
  ultimately have "F (12 * y + m - 1) < F (12 * y' + m' - 1)" by metis
  moreover have "F (12 * y + m - 1) = first_of_month y m" if "1 \<le> m" "m \<le> 12" for y m
  proof -
    have k: "12 * y + m - 1 = 12 * y + (m - 1)" "0 \<le> m - 1" "m - 1 < 12" using that by simp_all
    from parts [OF k] show ?thesis by (simp add: F_def)
  qed
  ultimately show ?thesis using assms(1-4) by simp
qed

lemma two_digits: "f < 10 \<Longrightarrow> g < 10 \<Longrightarrow> number (map digit_char [f, g]) = 10 * f + g"
  by (simp add: number_def)

lemma PERIOD_month:
  assumes "PERIOD_test s"
  shows "1 \<le> number (drop 5 s)" and "number (drop 5 s) \<le> 12"
proof -
  obtain a b c d f g where "s = map digit_char [a, b, c, d] @ ''-'' @ map digit_char [f, g]" "f < 10" "g < 10"
    "1 \<le> 10 * f + g" "10 * f + g \<le> 12"
    using period_shape [OF assms] by metis
  then show "1 \<le> number (drop 5 s)" "number (drop 5 s) \<le> 12" using two_digits [of f g] by simp_all
qed

lemma period_time_order:
  assumes "PERIOD_test s" and "PERIOD_test t" and "month_number s < month_number t"
  shows "period_time s < period_time t"
proof -
  have "first_of_month (int (number (take 4 s))) (int (number (drop 5 s))) < first_of_month (int (number (take 4 t))) (int (number (drop 5 t)))"
    using PERIOD_month [OF assms(1)] PERIOD_month [OF assms(2)] assms(3) by (intro later_month) (simp_all add: month_number_def)
  then show ?thesis by (simp add: period_time_def)
qed

subsection \<open>Lines to scale\<close>

definition d3_laws :: "d3_scales \<Rightarrow> bool" where
  "d3_laws S \<longleftrightarrow> nice_law (d3_nice S) \<and> span_law (d3_linear S) \<and> time_law (d3_time S)"

text \<open>The vertices of a line stand to scale: the height over the figure, the place over the month, inside the plot.\<close>

definition drawn_to_scale :: "'r series_env \<Rightarrow> rat \<Rightarrow> rat \<Rightarrow> ('r \<Rightarrow> rat) \<Rightarrow> LineConfig \<Rightarrow> bool" where
  "drawn_to_scale E c k fig line \<longleftrightarrow>
     map pp_y (line_points E line) = map (\<lambda>row. c - k * fig row) (se_plotData E) \<and>
     sorted_wrt (<) (map pp_x (line_points E line)) \<and> list_all (in_plot E) (line_points E line)"

lemma app_lines_drawn:
  fixes rows :: "'r list"
  assumes laws: "d3_laws S" and E_def: "E = app_lines S margin sz period numbers children rows"
    and first: "first \<in> set (se_lines E)" "lc_yAxisId first = None" "map_of numbers (lc_dataKey first) = Some fig_of_first"
    and size: "0 < se_innerWidth E" "0 < se_innerHeight E"
    and rows: "2 \<le> length rows" "length rows \<le> 64" "sorted_wrt (<) (map (\<lambda>row. period_time (period row)) rows)"
  obtains c k where "0 < k"
    and "\<And>line fig. line \<in> set (se_lines E) \<Longrightarrow> lc_yAxisId line = None \<Longrightarrow> map_of numbers (lc_dataKey line) = Some fig \<Longrightarrow>
      drawn_to_scale E c k fig line"
proof -
  have env: "se_plotData E = rows" "se_xDomain E = None" "se_yScaleDomainMax E = None" "nice_law (se_nice E)"
    "span_law (se_scaleLinear E)" "time_law (se_scaleTime E)" "\<And>row. se_time E row = period_time (period row)"
    "\<And>row key fig. map_of numbers key = Some fig \<Longrightarrow> se_number E row key = Some (fig row)"
    using laws by (simp_all add: E_def app_lines_def d3_laws_def)
  obtain r0 r1 rs where rs: "rows = r0 # r1 # rs" using rows(1) by (cases rows; cases "tl rows") auto
  obtain t0 t1 where ext: "resolveDataXExtent (se_time E) rows = Some (t0, t1)" by (simp add: resolveDataXExtent_def rs)
  have "t0 \<le> se_time E r0" "se_time E r1 \<le> t1" using extent_bounds [OF ext] by (simp_all add: rs)
  moreover have "se_time E r0 < se_time E r1" using rows(3) by (simp add: rs env(7))
  ultimately have t: "t0 < t1" by simp
  have dom: "x_domain E = (t0, t1)" by (simp add: x_domain_def env(1,2) ext)
  have "64 \<le> maxRenderPointsForWidth (se_innerWidth E)" unfolding maxRenderPointsForWidth_def by linarith
  then have render: "renderData E = rows" using rows(2) by (simp add: renderData_def decimateTimeSeries_def env(1))
  have x: "series_xScale E m = of_int (m - t0) / of_int (t1 - t0) * se_innerWidth E" for m
  proof -
    have "se_scaleTime E (0, se_innerWidth E) (t0, t1) m = 0 + of_int (m - t0) / of_int (t1 - t0) * (se_innerWidth E - 0)"
      using env(6) t unfolding time_law_def by blast
    then show ?thesis by (simp add: series_xScale_def dom)
  qed
  have later: "series_xScale E m < series_xScale E m'" if "m < m'" for m m'
  proof -
    have "rat_of_int (m - t0) / of_int (t1 - t0) < of_int (m' - t0) / of_int (t1 - t0)"
      using that t by (intro divide_strict_right_mono) simp_all
    then show ?thesis unfolding x using size(1) by (rule mult_strict_right_mono)
  qed
  have visible: "r0 \<in> set (visiblePlotData E)" by (simp add: visiblePlotData_def env(1,2) rs)
  obtain a b where ab: "a < b" "\<And>w. series_yScale E None w = se_innerHeight E - (w - a) / (b - a) * se_innerHeight E"
    using line_scale [OF env(4,5) first(1) env(3) visible env(8) [OF first(3)] size(2)] unfolding first(2) by metis
  define k c where "k = se_innerHeight E / (b - a)" and "c = se_innerHeight E + k * a"
  have "h - (w - a) / d * h = (h + h / d * a) - h / d * w" for h d w :: rat by (simp add: algebra_simps diff_divide_distrib)
  then have y: "series_yScale E None w = c - k * w" for w unfolding ab(2) c_def k_def .
  have "drawn_to_scale E c k fig line"
    if line: "line \<in> set (se_lines E)" "lc_yAxisId line = None" "map_of numbers (lc_dataKey line) = Some fig" for line fig
  proof -
    have points: "line_points E line = map (\<lambda>row. \<lparr>pp_x = series_xScale E (se_time E row), pp_y = c - k * fig row,
        pp_key = show_int (se_time E row)\<rparr>) rows"
      by (simp add: line_points_def computeSeriesPathPoints_def render env(8) [OF line(3)] line(2) y)
    have "\<forall>p \<in> set (line_points E line). in_plot E p"
      using size t env(8) [OF line(3)] by (intro vertices_in_plot env(2-6) line(1)) (simp_all add: dom)
    moreover have "sorted_wrt (<) (map pp_x (line_points E line))"
      using rows(3) later by (simp add: points sorted_wrt_map env(7) comp_def sorted_wrt_mono_rel [rotated])
    ultimately show ?thesis by (simp add: drawn_to_scale_def list_all_iff points env(1) comp_def)
  qed
  moreover have "0 < k" using ab(1) size(2) by (simp add: k_def)
  ultimately show ?thesis using that by blast
qed

lemma ordered_times:
  assumes "list_all PERIOD_test ps" and "sorted_wrt (<) (map month_number ps)"
  shows "sorted_wrt (<) (map period_time ps)"
  using assms by (induction ps) (auto simp: list_all_iff intro: period_time_order)

lemma extracted_lines:
  "se_lines (revenue_lines S sz rows) =
     [\<lparr>lc_dataKey = ''revenue'', lc_stroke = ''var(--chart-1)'', lc_strokeWidth = 5 / 2, lc_yAxisId = None\<rparr>,
      \<lparr>lc_dataKey = ''expenses'', lc_stroke = ''var(--chart-2)'', lc_strokeWidth = 5 / 2, lc_yAxisId = None\<rparr>]"
  "se_lines (facet_lines S sz f) =
     [\<lparr>lc_dataKey = ''value'', lc_stroke = ''var(--chart-1)'', lc_strokeWidth = 2, lc_yAxisId = None\<rparr>,
      \<lparr>lc_dataKey = ''avg'', lc_stroke = ''var(--vk-chart-deemph)'', lc_strokeWidth = 1, lc_yAxisId = None\<rparr>]"
proof -
  have "extractLineConfigs revenue_children =
     [\<lparr>lc_dataKey = ''revenue'', lc_stroke = ''var(--chart-1)'', lc_strokeWidth = 5 / 2, lc_yAxisId = None\<rparr>,
      \<lparr>lc_dataKey = ''expenses'', lc_stroke = ''var(--chart-2)'', lc_strokeWidth = 5 / 2, lc_yAxisId = None\<rparr>]" by code_simp
  then show "se_lines (revenue_lines S sz rows) =
     [\<lparr>lc_dataKey = ''revenue'', lc_stroke = ''var(--chart-1)'', lc_strokeWidth = 5 / 2, lc_yAxisId = None\<rparr>,
      \<lparr>lc_dataKey = ''expenses'', lc_stroke = ''var(--chart-2)'', lc_strokeWidth = 5 / 2, lc_yAxisId = None\<rparr>]"
    by (simp add: revenue_lines_def app_lines_def)
  have "extractLineConfigs facet_children =
     [\<lparr>lc_dataKey = ''value'', lc_stroke = ''var(--chart-1)'', lc_strokeWidth = 2, lc_yAxisId = None\<rparr>,
      \<lparr>lc_dataKey = ''avg'', lc_stroke = ''var(--vk-chart-deemph)'', lc_strokeWidth = 1, lc_yAxisId = None\<rparr>]" by code_simp
  then show "se_lines (facet_lines S sz f) =
     [\<lparr>lc_dataKey = ''value'', lc_stroke = ''var(--chart-1)'', lc_strokeWidth = 2, lc_yAxisId = None\<rparr>,
      \<lparr>lc_dataKey = ''avg'', lc_stroke = ''var(--vk-chart-deemph)'', lc_strokeWidth = 1, lc_yAxisId = None\<rparr>]"
    by (simp add: facet_lines_def app_lines_def)
qed

lemma revenue_periods: "revenue_expense_rows r l = Inr rows \<Longrightarrow> map re_period rows = rp_periods r"
proof -
  assume run: "revenue_expense_rows r l = Inr rows"
  have "map re_period rows = map snd (enumerate 0 (rp_periods r))"
    by (rule emap_values [OF run [unfolded revenue_expense_rows_def Let_def]]) (auto simp: ebind_Inr_iff)
  then show ?thesis by simp
qed

text \<open>C37. Revenue and expenses are drawn to one scale: over the scales d3 documents and months in their order, both lines
  have a vertex for every month, further right for a later month and inside the plot, and one scale gives the
  heights of both, greater figures higher, so that the lines cross where one figure overtakes the other.\<close>

theorem revenue_lines_to_scale:
  assumes "d3_laws S" and "revenue_expense_rows r l = Inr rows"
    and "list_all PERIOD_test (rp_periods r)" and "sorted_wrt (<) (map month_number (rp_periods r))"
    and "2 \<le> length (rp_periods r)" and "length (rp_periods r) \<le> 64" and "32 < fst sz" and "32 < snd sz"
  shows "\<exists>c k. 0 < k \<and> list_all (\<lambda>(line, fig). drawn_to_scale (revenue_lines S sz rows) c k fig line)
    (zip (se_lines (revenue_lines S sz rows)) [re_revenue, re_expenses])"
proof -
  let ?E = "revenue_lines S sz rows"
  have periods: "map re_period rows = rp_periods r" by (rule revenue_periods [OF assms(2)])
  have times: "sorted_wrt (<) (map (\<lambda>row. period_time (re_period row)) rows)"
    using ordered_times [OF assms(3,4)] by (simp add: periods [symmetric] comp_def)
  have len: "2 \<le> length rows" "length rows \<le> 64" using assms(5,6) by (simp_all add: periods [symmetric])
  have size: "0 < se_innerWidth ?E" "0 < se_innerHeight ?E"
    using assms(7,8) by (simp_all add: revenue_lines_def app_lines_def revenue_MARGIN_def)
  have first: "hd (se_lines ?E) \<in> set (se_lines ?E)" "lc_yAxisId (hd (se_lines ?E)) = None"
    "map_of [(''revenue'', re_revenue), (''expenses'', re_expenses)] (lc_dataKey (hd (se_lines ?E))) = Some (re_revenue)"
    by (simp_all add: extracted_lines)
  obtain c k where k: "0 < k" and drawn: "\<And>line fig. line \<in> set (se_lines ?E) \<Longrightarrow> lc_yAxisId line = None \<Longrightarrow>
      map_of [(''revenue'', re_revenue), (''expenses'', re_expenses)] (lc_dataKey line) = Some fig \<Longrightarrow> drawn_to_scale ?E c k fig line"
    by (rule app_lines_drawn [OF assms(1) revenue_lines_def first size len times]) blast
  have "list_all (\<lambda>(line, fig). drawn_to_scale ?E c k fig line) (zip (se_lines ?E) [re_revenue, re_expenses])"
    using drawn [of "se_lines ?E ! 0"] drawn [of "se_lines ?E ! 1"] by (simp add: extracted_lines)
  then show ?thesis using k by blast
qed

lemma facet_periods: "facets r l = Inr fs \<Longrightarrow> f \<in> set fs \<Longrightarrow> map fst (fc_rows f) = rp_periods r"
  using facets_ranked [of r l] by (auto simp: list_all_iff)

text \<open>A facet of the trend shows its section to scale, and its level line at its mean: the line of the values has a
  vertex for every month, further right for a later month, inside the plot and to scale; the line beside it is
  level, at the mean of the heights of the first.\<close>

theorem facet_lines_to_scale:
  assumes "d3_laws S" and "facets r l = Inr fs" and "f \<in> set fs"
    and "list_all PERIOD_test (rp_periods r)" and "sorted_wrt (<) (map month_number (rp_periods r))"
    and "2 \<le> length (rp_periods r)" and "length (rp_periods r) \<le> 64" and "12 < fst sz" and "12 < snd sz"
  shows "\<exists>c k. 0 < k \<and> (case se_lines (facet_lines S sz f) of
      [values_line, mean_line] \<Rightarrow>
        drawn_to_scale (facet_lines S sz f) c k (\<lambda>row. fst (snd row)) values_line \<and>
        map pp_y (line_points (facet_lines S sz f) values_line) = map (\<lambda>row. c - k * snd row) (fc_rows f) \<and>
        map pp_y (line_points (facet_lines S sz f) mean_line) = replicate (length (rp_periods r))
          (sum_list (map pp_y (line_points (facet_lines S sz f) values_line)) / of_nat (length (rp_periods r)))
    | _ \<Rightarrow> False)"
proof -
  let ?E = "facet_lines S sz f" and ?n = "length (rp_periods r)"
  have periods: "map fst (fc_rows f) = rp_periods r" by (rule facet_periods [OF assms(2,3)])
  have rows: "se_plotData ?E = rowsWithAvg f" by (simp add: facet_lines_def app_lines_def)
  have "map fst (rowsWithAvg f) = rp_periods r" by (simp add: rowsWithAvg_def comp_def periods)
  then have times: "sorted_wrt (<) (map (\<lambda>row. period_time (fst row)) (rowsWithAvg f))"
    using ordered_times [OF assms(4,5)] by (metis (no_types, lifting) list.map_comp comp_def map_eq_conv)
  have n: "length (fc_rows f) = ?n" by (simp add: periods [symmetric])
  have len: "2 \<le> length (rowsWithAvg f)" "length (rowsWithAvg f) \<le> 64" using assms(6,7) n by (simp_all add: rowsWithAvg_def)
  have size: "0 < se_innerWidth ?E" "0 < se_innerHeight ?E"
    using assms(8,9) by (simp_all add: facet_lines_def app_lines_def facet_margin_def)
  have first: "hd (se_lines ?E) \<in> set (se_lines ?E)" "lc_yAxisId (hd (se_lines ?E)) = None"
    "map_of [(''value'', \<lambda>r. fst (snd r)), (''avg'', \<lambda>r. snd (snd r))] (lc_dataKey (hd (se_lines ?E))) = Some (\<lambda>r. fst (snd r))"
    by (simp_all add: extracted_lines)
  obtain c k where k: "0 < k" and drawn: "\<And>line fig. line \<in> set (se_lines ?E) \<Longrightarrow> lc_yAxisId line = None \<Longrightarrow>
      map_of [(''value'', \<lambda>r. fst (snd r)), (''avg'', \<lambda>r. snd (snd r))] (lc_dataKey line) = Some fig \<Longrightarrow> drawn_to_scale ?E c k fig line"
    by (rule app_lines_drawn [OF assms(1) facet_lines_def first size len times]) blast
  let ?value_line = "se_lines ?E ! 0" and ?mean = "se_lines ?E ! 1"
  have to_scale: "drawn_to_scale ?E c k (\<lambda>row. fst (snd row)) ?value_line" "drawn_to_scale ?E c k (\<lambda>row. snd (snd row)) ?mean"
    using drawn [of ?value_line] drawn [of ?mean] by (simp_all add: extracted_lines)
  have heights: "map pp_y (line_points ?E ?value_line) = map (\<lambda>row. c - k * snd row) (fc_rows f)"
    "map pp_y (line_points ?E ?mean) = map (\<lambda>row. c - k * facet_avg f) (fc_rows f)"
    using to_scale by (simp_all add: drawn_to_scale_def rows rowsWithAvg_def comp_def)
  have count: "(0 :: rat) < of_nat ?n" "fc_rows f \<noteq> []" using assms(6) n by auto
  have "sum_list (map (\<lambda>row. c - k * snd row) xs) = of_nat (length xs) * c - k * sum_list (map snd xs)" for xs :: "(string \<times> rat) list"
    by (induction xs) (simp_all add: algebra_simps)
  moreover have "facet_avg f = sum_list (map snd (fc_rows f)) / of_nat ?n" using count(2) n by (simp add: facet_avg_def foldl_sum)
  ultimately have "sum_list (map pp_y (line_points ?E ?value_line)) / of_nat ?n = c - k * facet_avg f"
    unfolding heights(1) using count(1) by (simp add: n diff_divide_distrib)
  then have "map pp_y (line_points ?E ?mean) = replicate ?n (sum_list (map pp_y (line_points ?E ?value_line)) / of_nat ?n)"
    unfolding heights(2) by (simp add: map_replicate_const n)
  then show ?thesis using k to_scale(1) heights(1) by (intro exI [of _ c] exI [of _ k]) (simp add: extracted_lines)
qed

subsection \<open>Two months of a small report\<close>

definition demo_scales :: d3_scales where
  "demo_scales = \<lparr>d3_time = demo_time, d3_linear = demo_span, d3_nice = (\<lambda>d. d)\<rparr>"

definition two_months :: Report where
  "two_months =
     (let m = (\<lambda>u. \<lparr>minorUnits = u, currencyCode = ''PLN''\<rparr>);
          line = (\<lambda>c comp u v w. \<lparr>ln_categoryId = c, ln_label = c, ln_computed = comp, ln_values = [m u, m v], ln_total = m w,
            ln_percentOfRevenue = None\<rparr>)
      in \<lparr>rp_currencyCode = ''PLN'', rp_periods = [''2025-12'', ''2026-01''], rp_basis = Cash,
          rp_lines = [line ''01'' False ''10'' ''20'' ''30'', line ''04'' False ''4'' ''2'' ''6'', line ''95'' True ''6'' ''18'' ''24''],
          rp_buckets = [], rp_netByPeriod = [m ''6'', m ''18''], rp_netTotal = m ''24'', rp_revenueTotal = m ''30'',
          rp_expensesTotal = m ''6'', rp_expensesByPeriod = [m ''4'', m ''2''], rp_cash = [],
          rp_reconciliation = \<lparr>rcn_opening = ZERO, rcn_moneyIn = ZERO, rcn_moneyOut = ZERO, rcn_transfers = ZERO, rcn_closing = ZERO\<rparr>,
          rp_provenance = \<lparr>taxonomyVersion = [], rulesetVersion = [], engineVersion = []\<rparr>, rp_unreviewedAmount = m ''0''\<rparr>)"

lemma two_months_ok:
  "d3_laws demo_scales" "rp_periods two_months = [''2025-12'', ''2026-01'']"
  by (simp add: d3_laws_def demo_scales_def demo_span_law) (simp add: two_months_def Let_def)

definition demo_rows :: "RevenueExpenseRow list" where
  "demo_rows =
     [\<lparr>re_period = ''2025-12'', re_revenue = 1 / 10, re_expenses = 4 / 100, re_revenueText = ''0.10'', re_expensesText = ''0.04''\<rparr>,
      \<lparr>re_period = ''2026-01'', re_revenue = 2 / 10, re_expenses = 2 / 100, re_revenueText = ''0.20'', re_expensesText = ''0.02''\<rparr>]"

lemma demo_rows_of: "revenue_expense_rows two_months En = Inr demo_rows"
  by code_simp

lemma demo_month_order: "PERIOD_test ''2025-12''" "PERIOD_test ''2026-01''" "month_number ''2025-12'' < month_number ''2026-01''"
  by code_simp+

theorem revenue_lines_to_scale_witness:
  "\<exists>c k. 0 < k \<and> list_all (\<lambda>(line, fig). drawn_to_scale (revenue_lines demo_scales (132, 132) demo_rows) c k fig line)
    (zip (se_lines (revenue_lines demo_scales (132, 132) demo_rows)) [re_revenue, re_expenses])"
  by (rule revenue_lines_to_scale [OF two_months_ok(1) demo_rows_of]) (simp_all add: two_months_ok demo_month_order)

definition demo_facet :: facet where
  "demo_facet =
     \<lparr>fc_categoryId = ''04'', fc_label = lineName ''04'' ''04'' En, fc_totalAbs = 6,
      fc_rows = [(''2025-12'', 4 / 100), (''2026-01'', 2 / 100)], fc_texts = [''0.04'', ''0.02'']\<rparr>"

lemma demo_facets: "facets two_months En = Inr [demo_facet]"
proof -
  have parse: "js_BigInt ''4'' = Inr 4" "js_BigInt ''2'' = Inr 2" "js_BigInt ''6'' = Inr 6" "exponentOf ''PLN'' = Some 2"
    "formatMinorUnits ''4'' 2 En = Inr ''0.04''" "formatMinorUnits ''2'' 2 En = Inr ''0.02''" by code_simp+
  have "cost_sections two_months = [\<lparr>ln_categoryId = ''04'', ln_label = ''04'', ln_computed = False,
      ln_values = [\<lparr>minorUnits = ''4'', currencyCode = ''PLN''\<rparr>, \<lparr>minorUnits = ''2'', currencyCode = ''PLN''\<rparr>],
      ln_total = \<lparr>minorUnits = ''6'', currencyCode = ''PLN''\<rparr>, ln_percentOfRevenue = None\<rparr>]"
    by (simp add: cost_sections_def two_months_def Let_def)
  moreover have "rp_currencyCode two_months = ''PLN''" by (simp add: two_months_def Let_def)
  ultimately show ?thesis
    by (simp add: facets_def facet_of_def two_months_ok parse to_major_def text_or_def MAX_FACETS_def demo_facet_def js_at_def Let_def)
qed

theorem facet_lines_to_scale_witness:
  "\<exists>c k. 0 < k \<and> (case se_lines (facet_lines demo_scales (112, 62) demo_facet) of
      [values_line, mean_line] \<Rightarrow>
        drawn_to_scale (facet_lines demo_scales (112, 62) demo_facet) c k (\<lambda>row. fst (snd row)) values_line \<and>
        map pp_y (line_points (facet_lines demo_scales (112, 62) demo_facet) values_line) = map (\<lambda>row. c - k * snd row) (fc_rows demo_facet) \<and>
        map pp_y (line_points (facet_lines demo_scales (112, 62) demo_facet) mean_line) = replicate (length (rp_periods two_months))
          (sum_list (map pp_y (line_points (facet_lines demo_scales (112, 62) demo_facet) values_line)) / of_nat (length (rp_periods two_months)))
    | _ \<Rightarrow> False)"
  by (rule facet_lines_to_scale [OF two_months_ok(1) demo_facets]) (simp_all add: two_months_ok demo_month_order)

end
