(* ===== verification/Bar_Squares.thy ===== *)
theory Bar_Squares
  imports Bar_Drawing
begin

section \<open>Bars of squares: bar-squares.tsx\<close>

text \<open>
  \<open>src/web/src/components/charts/bar-squares.tsx\<close> draws a bar as a column of squares (\<open>BarSquares\<close>) and above it the
  track that is left to the upper edge of the plot (\<open>BarColumnTrack\<close>), each on its own, over the layout of
  \<^const>\<open>computeSquareColumn\<close>. Both draw standing, grouped charts only. Lengths are pixels, delays seconds.
\<close>

subsection \<open>Transitions\<close>

text \<open>What the code reads of a transition of motion: whether its type is a tween, and its duration.\<close>

record transition =
  tx_tween :: bool
  tx_duration :: "rat option"

definition DEFAULT_CHART_ENTER_TRANSITION :: transition where
  "DEFAULT_CHART_ENTER_TRANSITION = \<lparr>tx_tween = True, tx_duration = Some (11 / 10)\<rparr>"

text \<open>The transition and its delay.\<close>

definition transitionWithDelay :: "transition option \<Rightarrow> rat \<Rightarrow> transition \<times> rat" where
  "transitionWithDelay t delaySeconds = ((case t of Some x \<Rightarrow> x | None \<Rightarrow> DEFAULT_CHART_ENTER_TRANSITION), delaySeconds)"

definition squareCascadeStepSeconds :: "transition option \<Rightarrow> rat \<Rightarrow> nat \<Rightarrow> rat" where
  "squareCascadeStepSeconds enterTransition animationDurationMs squareCount =
     (if squareCount \<le> 1 then 0
      else
        let durationMs = (case enterTransition of
              Some t \<Rightarrow> (case tx_duration t of Some s \<Rightarrow> if tx_tween t then s * 1000 else animationDurationMs | None \<Rightarrow> animationDurationMs)
            | None \<Rightarrow> animationDurationMs)
        in durationMs * (4 / 10) / 1000 / (of_nat squareCount - 1))"

definition cascadeColumnTransition :: "transition option \<Rightarrow> rat \<Rightarrow> nat \<Rightarrow> rat \<Rightarrow> nat \<Rightarrow> transition \<times> rat" where
  "cascadeColumnTransition enterTransition animationDurationMs columnIndex columnStaggerDelay squareCount =
     (let cascadeStep = squareCascadeStepSeconds enterTransition animationDurationMs squareCount;
          (base, d) = transitionWithDelay enterTransition (of_nat columnIndex * columnStaggerDelay)
      in if squareCount \<le> 1 \<or> \<not> tx_tween base then (base, d)
         else
           let baseDuration = (case tx_duration base of Some s \<Rightarrow> s | None \<Rightarrow> animationDurationMs / 1000)
           in (base\<lparr>tx_duration := Some (baseDuration + cascadeStep * (of_nat squareCount - 1))\<rparr>, d))"

subsection \<open>BarSquares\<close>

record squares_props =
  sp_dataKey :: string
  sp_yAxisId :: "axis_id option"
  sp_fill :: string
  sp_squareGap :: rat
  sp_squareRadius :: rat
  sp_squareFit :: bool
  sp_useGradient :: bool
  sp_gradientStops :: "(rat \<times> string) list"
  sp_patternPreset :: "string option"
  sp_animate :: bool
  sp_fadedOpacity :: rat
  sp_staggerDelay :: "rat option"
  sp_groupGap :: rat

text \<open>What the chart gives beside its rows and scales.\<close>

record squares_chart =
  sc_hoveredBarIndex :: "nat option"
  sc_legendHoveredIndex :: "nat option"
  sc_animationDuration :: rat
  sc_enterTransition :: "transition option"
  sc_revealEpoch :: nat

definition isPatternFill :: "string \<Rightarrow> bool" where
  "isPatternFill fill = js_startsWith ''url('' fill"

definition squares_duration :: "squares_chart \<Rightarrow> rat" where
  "squares_duration C = (if sc_animationDuration C = 0 then 1100 else sc_animationDuration C)"

definition squareSize :: "'r bar_env \<Rightarrow> rat \<Rightarrow> rat" where
  "squareSize E gap =
     (let n = length (be_lines E) in
      if bandWidth E = 0 \<or> n = 0 then 0
      else (bandWidth E - (if n > 1 then gap else 0) * (of_nat n - 1)) / of_nat n)"

definition calculatedStaggerDelay :: "'r bar_env \<Rightarrow> squares_chart \<Rightarrow> rat option \<Rightarrow> rat" where
  "calculatedStaggerDelay E C staggerDelay =
     (case staggerDelay of
        Some s \<Rightarrow> s
      | None \<Rightarrow> if length (be_data E) > 1 then squares_duration C * (4 / 10) / 1000 / of_nat (length (be_data E)) else 0)"

definition gradientId :: "squares_chart \<Rightarrow> nat \<Rightarrow> string" where
  "gradientId C i = ''bar-squares-gradient-'' @ show_nat i @ ''-'' @ show_nat (sc_revealEpoch C)"

definition patternId :: "squares_chart \<Rightarrow> nat \<Rightarrow> string" where
  "patternId C i = ''bar-squares-pattern-'' @ show_nat i @ ''-'' @ show_nat (sc_revealEpoch C)"

definition effectiveFill :: "squares_chart \<Rightarrow> squares_props \<Rightarrow> nat \<Rightarrow> string" where
  "effectiveFill C p i =
     (if sp_useGradient p
      then if isPatternFill (sp_fill p) \<and> sp_patternPreset p \<noteq> None \<and> sp_patternPreset p \<noteq> Some [] \<and> sp_patternPreset p \<noteq> Some ''none''
        then ''url(#'' @ patternId C i @ '')'' else ''url(#'' @ gradientId C i @ '')''
      else sp_fill p)"

text \<open>The definitions a column brings with it: the gradient from the foot of the column to its top, in user space.\<close>

record column_gradient =
  cg_id :: string
  cg_y1 :: rat
  cg_y2 :: rat
  cg_stops :: "(rat \<times> string) list"

text \<open>A square: where it starts when it is animated and where it is in the end, and the delay.\<close>

record square_element =
  se_key :: string
  se_initial :: bar_rect
  se_target :: bar_rect
  se_fill :: string
  se_opacity :: rat
  se_rx :: rat
  se_delay :: rat

definition squares_stops :: "squares_props \<Rightarrow> (rat \<times> string) list" where
  "squares_stops p = (if length (sp_gradientStops p) \<ge> 2 then sp_gradientStops p else [(0, sp_fill p), (100, sp_fill p)])"

definition SquareColumn ::
    "squares_chart \<Rightarrow> squares_props \<Rightarrow> rat \<Rightarrow> rat \<Rightarrow> rat \<Rightarrow> rat \<Rightarrow> rat \<Rightarrow> nat \<Rightarrow> bool \<Rightarrow> column_gradient option \<times> square_element list" where
  "SquareColumn C p x baselineY barLengthPx w staggerDelay i faded =
     (let layout = computeSquareColumn barLengthPx w (sp_squareGap p) (sp_squareFit p);
          columnTop = baselineY - sq_columnHeight layout;
          cascadeStep = squareCascadeStepSeconds (sc_enterTransition C) (squares_duration C) (sq_count layout);
          square = (\<lambda>(k, relY). let y = columnTop + relY; r = \<lparr>br_x = x, br_y = y, br_width = w, br_height = w\<rparr> in
            \<lparr>se_key = ''sq-'' @ show_nat i @ ''-'' @ show_nat k @ ''-'' @ show_nat (sc_revealEpoch C),
             se_initial = (if sp_animate p then r\<lparr>br_y := y + w, br_height := 0\<rparr> else r), se_target = r,
             se_fill = effectiveFill C p i, se_opacity = (if faded then sp_fadedOpacity p else 1), se_rx = w * sp_squareRadius p,
             se_delay = (if sp_animate p then snd (transitionWithDelay (sc_enterTransition C) (of_nat i * staggerDelay + of_nat k * cascadeStep)) else 0)\<rparr>)
      in (if sp_useGradient p then Some \<lparr>cg_id = gradientId C i, cg_y1 = baselineY, cg_y2 = columnTop, cg_stops = squares_stops p\<rparr> else None,
          map square (enumerate 0 (sq_positions layout))))"

definition squares_series :: "'r bar_env \<Rightarrow> string \<Rightarrow> nat" where
  "squares_series E dataKey = (case index_where (\<lambda>l. lc_dataKey l = dataKey) (be_lines E) of Some i \<Rightarrow> i | None \<Rightarrow> 0)"

definition squares_scale :: "'r bar_env \<Rightarrow> squares_props \<Rightarrow> rat \<Rightarrow> rat" where
  "squares_scale E p =
     useYScale E (case sp_yAxisId p of
        Some i \<Rightarrow> Some i
      | None \<Rightarrow> (case js_at (be_lines E) (squares_series E (sp_dataKey p)) of Some l \<Rightarrow> lc_yAxisId l | None \<Rightarrow> None))"

definition column_x :: "'r bar_env \<Rightarrow> rat \<Rightarrow> 'r \<Rightarrow> nat \<Rightarrow> rat" where
  "column_x E gap d series = bandPos E d + of_nat series * (squareSize E gap + (if length (be_lines E) > 1 then gap else 0))"

definition BarSquares_row :: "'r bar_env \<Rightarrow> squares_chart \<Rightarrow> squares_props \<Rightarrow> nat \<Rightarrow> 'r \<Rightarrow> (column_gradient option \<times> square_element list) option" where
  "BarSquares_row E C p i d =
     (case be_number E d (sp_dataKey p) of
        None \<Rightarrow> None
      | Some v \<Rightarrow>
          if v \<le> 0 then None
          else
            let series = squares_series E (sp_dataKey p); scale = squares_scale E p
            in Some (SquareColumn C p (column_x E (sp_groupGap p) d series) (scale 0) (scale 0 - scale v) (squareSize E (sp_groupGap p))
                 (calculatedStaggerDelay E C (sp_staggerDelay p)) i
                 (isFaded (sc_hoveredBarIndex C) (sc_legendHoveredIndex C) series i)))"

definition BarSquares :: "'r bar_env \<Rightarrow> squares_chart \<Rightarrow> squares_props \<Rightarrow> (column_gradient option \<times> square_element list) option list" where
  "BarSquares E C p =
     (if bandWidth E = 0 \<or> be_horizontal E \<or> be_stacked E then []
      else map (\<lambda>(i, d). BarSquares_row E C p i d) (enumerate 0 (be_data E)))"

subsection \<open>BarColumnTrack\<close>

record track_props =
  tp_fill :: string
  tp_opacity :: rat
  tp_squareGap :: rat
  tp_squareRadius :: rat
  tp_groupGap :: rat
  tp_squareFit :: bool
  tp_staggerDelay :: "rat option"

record track_element =
  te_initial :: bar_rect
  te_target :: bar_rect
  te_opacity :: rat
  te_rx :: rat
  te_transition :: "transition \<times> rat"

definition TrackColumn :: "'r bar_env \<Rightarrow> squares_chart \<Rightarrow> track_props \<Rightarrow> nat \<Rightarrow> 'r \<Rightarrow> nat \<Rightarrow> LineConfig \<Rightarrow> track_element option" where
  "TrackColumn E C p i d series line =
     (case be_number E d (lc_dataKey line) of
        None \<Rightarrow> None
      | Some v \<Rightarrow>
          if v \<le> 0 then None
          else
            let scale = useYScale E (lc_yAxisId line); baselineY = scale 0; w = squareSize E (tp_groupGap p);
                layout = computeSquareColumn (baselineY - scale v) w (tp_squareGap p) (tp_squareFit p);
                trackHeight = max 0 (baselineY - sq_columnHeight layout);
                r = \<lparr>br_x = column_x E (tp_groupGap p) d series, br_y = 0, br_width = w, br_height = trackHeight\<rparr>
            in Some \<lparr>te_initial = r\<lparr>br_height := baselineY\<rparr>, te_target = r,
                 te_opacity = (if sc_hoveredBarIndex C = None then tp_opacity p else 0), te_rx = w * tp_squareRadius p,
                 te_transition = cascadeColumnTransition (sc_enterTransition C) (squares_duration C) i
                   (calculatedStaggerDelay E C (tp_staggerDelay p)) (sq_count layout)\<rparr>)"

definition BarColumnTrack :: "'r bar_env \<Rightarrow> squares_chart \<Rightarrow> track_props \<Rightarrow> track_element option list list" where
  "BarColumnTrack E C p =
     (if bandWidth E = 0 \<or> be_horizontal E \<or> be_stacked E then []
      else map (\<lambda>(i, d). map (\<lambda>(s, line). TrackColumn E C p i d s line) (enumerate 0 (be_lines E))) (enumerate 0 (be_data E)))"

subsection \<open>The column, the track and the dot meet\<close>

lemma column_stands:
  assumes "0 < w" and "0 \<le> gap" and "0 < len"
  shows "case computeSquareColumn len w gap fit of c \<Rightarrow>
    0 < sq_count c \<and> length (sq_positions c) = sq_count c \<and> sq_positions c ! 0 = sq_columnHeight c - w \<and> gap \<le> max gap (sq_gap c) \<and>
    (\<forall>i < sq_count c - 1. sq_positions c ! Suc i + w + gap \<le> sq_positions c ! i) \<and>
    (if fit then sq_columnHeight c = len else True) \<and>
    (if fit \<and> sq_count c = 1 then True else sq_positions c ! (sq_count c - 1) = 0)"
proof (cases fit)
  case True
  have "0 < sq_count (computeSquareColumn len w gap True)" "sq_columnHeight (computeSquareColumn len w gap True) = len"
    using assms by (simp_all add: computeSquareColumn_def Let_def)
  then show ?thesis using squares_fill_bar [OF assms] True by (auto simp: Let_def split: if_splits)
next
  case False
  define n where "n = nat (max 1 (math_round (len / (w + gap))))"
  have n: "0 < n" by (simp add: n_def)
  have c: "computeSquareColumn len w gap False =
      \<lparr>sq_count = n, sq_positions = map (\<lambda>i. of_nat n * w + (of_nat n - 1) * gap - w - of_nat i * (w + gap)) [0..<n],
       sq_columnHeight = of_nat n * w + (of_nat n - 1) * gap, sq_size = w, sq_gap = gap\<rparr>"
    using assms n unfolding computeSquareColumn_def Let_def n_def [symmetric] by simp
  have "rat_of_nat (n - 1) = of_nat n - 1" using n by (simp add: of_nat_diff)
  then show ?thesis using False n by (auto simp: c algebra_simps)
qed

lemma squares_of_line:
  assumes "distinct (map lc_dataKey (be_lines E))" and "i < length (be_lines E)" and "sp_dataKey p = lc_dataKey (be_lines E ! i)"
    and "sp_yAxisId p = None"
  shows "squares_series E (sp_dataKey p) = i" and "squares_scale E p = useYScale E (lc_yAxisId (be_lines E ! i))"
proof -
  show "squares_series E (sp_dataKey p) = i"
    using index_where_distinct [OF assms(1,2)] assms(3) by (simp add: squares_series_def)
  then show "squares_scale E p = useYScale E (lc_yAxisId (be_lines E ! i))"
    using assms(2,4) by (simp add: squares_scale_def js_at_def)
qed

lemma map_over_enumerate: "map (\<lambda>x. f (snd x)) (enumerate n ys) = map f ys"
  by (induction ys arbitrary: n) simp_all

lemma column_rects:
  "map se_target (snd (SquareColumn C p x b len w stagger k faded)) =
     (let c = computeSquareColumn len w (sp_squareGap p) (sp_squareFit p) in
      map (\<lambda>y. \<lparr>br_x = x, br_y = b - sq_columnHeight c + y, br_width = w, br_height = w\<rparr>) (sq_positions c))"
  by (simp add: SquareColumn_def Let_def comp_def case_prod_beta) (rule map_over_enumerate)

text \<open>Three components that know nothing of each other draw one figure: in a standing, grouped chart of squares the
  squares of a bar stand on the base line, each at least the gap above the one before; the track above them starts where
  the topmost ends; and the dot of the tooltip is in the middle of the topmost square. A column that is made to fit ends
  where the bar would. The one exception is a column made to fit that has a single square.\<close>

theorem squares_meet_track_and_dot:
  assumes "linear_law (be_scaleLinear E)" and "0 < be_innerHeight E" and "\<not> be_horizontal E" and "\<not> be_stacked E"
    and "distinct (map lc_dataKey (be_lines E))" and "i < length (be_lines E)" and "line = be_lines E ! i"
    and "be_number E d (lc_dataKey line) = Some v" and "0 < v" and "be_squareSnap E = Some (gap, fit)" and "0 \<le> gap" and "0 < squareSize E 4"
    and "(sp_dataKey p, sp_yAxisId p, sp_squareGap p, sp_squareFit p, sp_groupGap p) = (lc_dataKey line, None, gap, fit, 4)"
    and "(tp_squareGap q, tp_squareFit q, tp_groupGap q) = (gap, fit, 4)"
  shows "case (BarSquares_row E C p k d, TrackColumn E C q k d i line) of
      (Some (_, squares), Some track) \<Rightarrow>
        let rs = map se_target squares; w = squareSize E 4 in
        rs \<noteq> [] \<and>
        list_all (\<lambda>r. br_width r = w \<and> br_height r = w \<and> br_x r = br_x (te_target track)) rs \<and> br_width (te_target track) = w \<and>
        br_y (hd rs) + w = be_innerHeight E \<and>
        successively (\<lambda>r r'. br_y r' + w + gap \<le> br_y r) rs \<and>
        (if fit \<and> length rs = 1 then True
         else br_height (te_target track) = max 0 (br_y (last rs)) \<and>
           map_of (bar_yPositions E d) (lc_dataKey line) = Some (br_y (last rs) + w / 2) \<and>
           map_of (bar_xPositions E d) (lc_dataKey line) = Some (br_x (last rs) + w / 2) \<and>
           (if fit then br_y (last rs) = useYScale E (lc_yAxisId line) v else True))
    | _ \<Rightarrow> False"
proof -
  let ?scale = "useYScale E (lc_yAxisId line)" and ?w = "squareSize E 4"
  have mem: "line \<in> set (be_lines E)" using assms(6,7) by simp
  obtain f where f: "0 < f" "\<And>v. ?scale v = be_innerHeight E - f * v"
    using axis_factor [OF assms(1-3), of "axis_of line"] mem by metis
  define len where "len = ?scale 0 - ?scale v"
  define c where "c = computeSquareColumn len ?w gap fit"
  define x where "x = column_x E 4 d i"
  let ?rs = "map (\<lambda>y. \<lparr>br_x = x, br_y = be_innerHeight E - sq_columnHeight c + y, br_width = ?w, br_height = ?w\<rparr>) (sq_positions c)"
  have len: "0 < len" "?scale v = be_innerHeight E - len" "?scale 0 = be_innerHeight E" using f assms(9) by (simp_all add: len_def)
  note stands = column_stands [OF assms(12,11) len(1), of fit, folded c_def]
  have p: "sp_dataKey p = lc_dataKey (be_lines E ! i)" "sp_yAxisId p = None" "sp_squareGap p = gap" "sp_squareFit p = fit" "sp_groupGap p = 4"
    using assms(7,13) by simp_all
  note series = squares_of_line [OF assms(5,6) p(1,2), folded assms(7)]
  obtain g squares where row: "BarSquares_row E C p k d = Some (g, squares)" and rs: "map se_target squares = ?rs"
  proof -
    let ?col = "SquareColumn C p x (?scale 0) len ?w (calculatedStaggerDelay E C (sp_staggerDelay p)) k
      (isFaded (sc_hoveredBarIndex C) (sc_legendHoveredIndex C) i k)"
    have "BarSquares_row E C p k d = Some ?col"
      using assms(7,8,9) p series by (simp add: BarSquares_row_def Let_def x_def len_def)
    moreover have "map se_target (snd ?col) = ?rs"
      unfolding column_rects using p len by (simp add: Let_def c_def)
    ultimately show ?thesis by (intro that [of "fst ?col" "snd ?col"]) simp_all
  qed
  obtain track where track: "TrackColumn E C q k d i line = Some track"
    "te_target track = \<lparr>br_x = x, br_y = 0, br_width = ?w, br_height = max 0 (be_innerHeight E - sq_columnHeight c)\<rparr>"
    using assms(8,9,14) len(2,3) by (simp add: TrackColumn_def Let_def x_def c_def)
  have bar: "individualBarSize E = ?w" "groupGap E = (if length (be_lines E) > 1 then 4 else 0)"
    using assms(12) by (auto simp: individualBarSize_def squareSize_def groupGap_def Let_def split: if_splits)
  have dots: "map_of (bar_yPositions E d) (lc_dataKey line) = Some (topSquareCenterY (?scale 0) len ?w gap fit)"
    "map_of (bar_xPositions E d) (lc_dataKey line) = Some (x + ?w / 2)"
  proof -
    have "map_of (bar_yPositions E d) (lc_dataKey line) = Some (topSquareCenterY (?scale 0) (?scale 0 - ?scale v) (individualBarSize E) gap fit)"
      using grouped_at [OF assms(5,6), of "\<lambda>l. be_number E d (lc_dataKey l)" v
          "\<lambda>_ l v. let s = useYScale E (lc_yAxisId l) in if v > 0 then topSquareCenterY (s 0) (s 0 - s v) (individualBarSize E) gap fit else s v" 0,
          folded grouped_def] assms(3,4,7-10)
      by (simp add: bar_yPositions_def Let_def)
    then show "map_of (bar_yPositions E d) (lc_dataKey line) = Some (topSquareCenterY (?scale 0) len ?w gap fit)"
      by (simp add: bar(1) len_def)
    have "map_of (bar_xPositions E d) (lc_dataKey line) = Some (bar_center E d i)"
      using grouped_at [OF assms(5,6), of "\<lambda>l. be_number E d (lc_dataKey l)" v "\<lambda>i _ _. bar_center E d i" 0, folded grouped_def] assms(3,4,7,8)
      by (simp add: bar_xPositions_def)
    then show "map_of (bar_xPositions E d) (lc_dataKey line) = Some (x + ?w / 2)"
      by (simp add: bar_center_def bar x_def column_x_def)
  qed
  have "sq_positions c \<noteq> []" using stands by auto
  then have ends: "?rs \<noteq> []" "br_y (hd ?rs) + ?w = be_innerHeight E"
    "br_y (last ?rs) = be_innerHeight E - sq_columnHeight c + sq_positions c ! (sq_count c - 1)" "br_x (last ?rs) = x"
    using stands by (simp_all add: hd_map hd_conv_nth last_map last_conv_nth)
  have up: "successively (\<lambda>r r'. br_y r' + ?w + gap \<le> br_y r) ?rs"
    using stands by (auto simp: successively_conv_nth add.assoc less_diff_conv)
  have size: "sq_size c = ?w" by (simp add: c_def computeSquareColumn_def Let_def)
  define R where "R = ?rs"
  have top: "\<not> (fit \<and> sq_count c = 1) \<Longrightarrow> br_y (last R) = be_innerHeight E - sq_columnHeight c"
    "fit \<Longrightarrow> sq_columnHeight c = len"
    using ends(3) stands by (auto simp: R_def)
  have number: "length R = sq_count c" using stands by (simp add: R_def)
  have each: "list_all (\<lambda>r. br_width r = ?w \<and> br_height r = ?w \<and> br_x r = x) R" by (simp add: R_def list_all_iff)
  have center: "topSquareCenterY (?scale 0) len ?w gap fit = be_innerHeight E - sq_columnHeight c + ?w / 2"
    using stands by (simp add: topSquareCenterY_def Let_def c_def [symmetric] size len(3))
  have last: "if fit \<and> length R = 1 then True
      else max 0 (be_innerHeight E - sq_columnHeight c) = max 0 (br_y (last R)) \<and>
        map_of (bar_yPositions E d) (lc_dataKey line) = Some (br_y (last R) + ?w / 2) \<and>
        map_of (bar_xPositions E d) (lc_dataKey line) = Some (br_x (last R) + ?w / 2) \<and>
        (if fit then br_y (last R) = ?scale v else True)"
    using top ends(4) [folded R_def] unfolding dots center number len(2) by auto
  note facts = ends(1,2) [folded R_def] up [folded R_def] each last
  show ?thesis
    using facts by (simp add: row rs [folded R_def] track Let_def)
qed

subsection \<open>A chart of squares\<close>

definition demo_squares :: "bool \<Rightarrow> squares_props" where
  "demo_squares fit = \<lparr>sp_dataKey = ''in'', sp_yAxisId = None, sp_fill = ''red'', sp_squareGap = 3, sp_squareRadius = 1 / 4, sp_squareFit = fit,
     sp_useGradient = False, sp_gradientStops = [], sp_patternPreset = None, sp_animate = True, sp_fadedOpacity = 3 / 10, sp_staggerDelay = None,
     sp_groupGap = 4\<rparr>"

definition demo_track :: "bool \<Rightarrow> track_props" where
  "demo_track fit = \<lparr>tp_fill = ''gray'', tp_opacity = 3 / 10, tp_squareGap = 3, tp_squareRadius = 1 / 4, tp_groupGap = 4, tp_squareFit = fit,
     tp_staggerDelay = None\<rparr>"

definition demo_squares_chart :: squares_chart where
  "demo_squares_chart = \<lparr>sc_hoveredBarIndex = None, sc_legendHoveredIndex = None, sc_animationDuration = 1000, sc_enterTransition = None,
     sc_revealEpoch = 1\<rparr>"

abbreviation demo_square_bars :: "bool \<Rightarrow> (string \<times> rat \<times> rat) bar_env" where
  "demo_square_bars fit \<equiv> (demo_bars False False)\<lparr>be_squareSnap := Some (3, fit)\<rparr>"

lemma demo_square_size: "squareSize (demo_square_bars fit) 4 = 38"
  by (cases fit) code_simp+

theorem squares_meet_track_and_dot_witness:
  "case (BarSquares_row (demo_square_bars False) demo_squares_chart (demo_squares False) 0 (''Jan'', 10, 4),
      TrackColumn (demo_square_bars False) demo_squares_chart (demo_track False) 0 (''Jan'', 10, 4) 0 (demo_line ''in'')) of
     (Some (_, squares), Some track) \<Rightarrow> br_height (te_target track) = max 0 (br_y (last (map se_target squares)))
   | _ \<Rightarrow> False"
proof -
  have "0 < squareSize (demo_square_bars False) 4" by (simp add: demo_square_size)
  from squares_meet_track_and_dot [of "demo_square_bars False" 0 "demo_line ''in''" "(''Jan'', 10, 4)" 10 3 False "demo_squares False" "demo_track False"
      demo_squares_chart 0, OF _ _ _ _ _ _ _ _ _ _ _ this]
  show ?thesis
    by (simp add: demo_linear_law demo_line_def demo_squares_def demo_track_def Let_def demo_bars_def split: option.splits prod.splits)
qed

subsection \<open>What is worth knowing\<close>

text \<open>The track withdraws as long as the column grows: it reaches its place when the topmost square does.\<close>

lemma track_recedes_with_column:
  assumes "tx_tween base" and "tx_duration base = Some s" and "base = fst (transitionWithDelay (sc_enterTransition C) 0)" and "0 < n"
  shows "(let (t, d) = cascadeColumnTransition (sc_enterTransition C) (squares_duration C) i stagger n in d + the (tx_duration t)) =
    of_nat i * stagger + of_nat (n - 1) * squareCascadeStepSeconds (sc_enterTransition C) (squares_duration C) n + s"
  using assms by (cases "n = 1") (auto simp: cascadeColumnTransition_def transitionWithDelay_def Let_def of_nat_diff squareCascadeStepSeconds_def)

text \<open>A column made to fit that has room for one square only leaves the square at its foot, while the track and the dot go to
  the top of the bar.\<close>

lemma lone_square_misses_top:
  "map (\<lambda>y. 100 - sq_columnHeight (computeSquareColumn 70 38 3 True) + y) (sq_positions (computeSquareColumn 70 38 3 True)) = [62]"
  "topSquareCenterY 100 70 38 3 True = 49"
  by (simp_all add: computeSquareColumn_def topSquareCenterY_def Let_def)

text \<open>The name of a gradient is made of the row and the epoch: two series, or two charts of a page, use the same names, and a name
  of a page stands for the first element that has it.\<close>

lemma gradients_share_names:
  "sp_useGradient p \<Longrightarrow> sp_useGradient p' \<Longrightarrow> \<not> isPatternFill (sp_fill p) \<Longrightarrow> \<not> isPatternFill (sp_fill p') \<Longrightarrow>
   effectiveFill C p i = effectiveFill C p' i"
  by (simp add: effectiveFill_def)

end
