(* ===== verification/Series_Marks.thy ===== *)
theory Series_Marks
  imports Series_Charts Bar_Squares
begin

section \<open>On and around a line: series-markers.tsx, chart-reveal-clip.tsx and the layers of line.tsx\<close>

text \<open>
  What \<open>src/web/src/components/charts/line.tsx\<close> draws beside the stroke: the markers of \<open>series-markers.tsx\<close> and
  \<open>series-point-marker.tsx\<close>, the marker at the end of a line and of a projection, the fading edges (\<open>fade-edges.ts\<close>),
  the dashed tail (\<open>series-dash-tail-overlay.tsx\<close>, \<open>dash-tail-stroke.tsx\<close>, \<open>path-stroke-utils.ts\<close>), the dimming
  and the bright band under the pointer, and the clip of \<open>chart-reveal-clip.tsx\<close> the whole is behind. The line chart
  of revenue and expenses draws its lines with markers.
\<close>

subsection \<open>series-point-marker.tsx\<close>

record marker_style =
  mk_fill :: string
  mk_stroke :: string
  mk_strokeWidth :: rat
  mk_ringGap :: rat
  mk_outlineWidth :: rat
  mk_outlineColor :: "string option"
  mk_radius :: rat

text \<open>A circle around the point: its radius, the width of its stroke (none when it is filled) and its paint.\<close>

record circle =
  ci_r :: rat
  ci_strokeWidth :: "rat option"
  ci_paint :: string

definition MarkerCircles :: "marker_style \<Rightarrow> circle list" where
  "MarkerCircles m =
     (let ringOuter = (if mk_strokeWidth m > 0 then mk_radius m + mk_ringGap m + mk_strokeWidth m else mk_radius m) in
      (if mk_outlineWidth m > 0
       then [\<lparr>ci_r = ringOuter + mk_outlineWidth m / 2, ci_strokeWidth = Some (mk_outlineWidth m),
              ci_paint = (case mk_outlineColor m of Some c \<Rightarrow> c | None \<Rightarrow> mk_stroke m)\<rparr>] else []) @
      [\<lparr>ci_r = mk_radius m, ci_strokeWidth = None, ci_paint = mk_fill m\<rparr>] @
      (if mk_strokeWidth m > 0
       then [\<lparr>ci_r = mk_radius m + mk_ringGap m + mk_strokeWidth m / 2, ci_strokeWidth = Some (mk_strokeWidth m), ci_paint = mk_stroke m\<rparr>]
       else []))"

definition circle_reach :: "circle \<Rightarrow> rat" where
  "circle_reach c = ci_r c + (case ci_strokeWidth c of Some w \<Rightarrow> w / 2 | None \<Rightarrow> 0)"

definition getSeriesMarkerVisualExtent :: "marker_style \<Rightarrow> bool \<Rightarrow> rat" where
  "getSeriesMarkerVisualExtent m showActiveHighlight =
     (let ring = (if mk_strokeWidth m > 0 then mk_ringGap m + mk_strokeWidth m else 0);
          outline = (if mk_outlineWidth m > 0 then mk_outlineWidth m else 0);
          highlightPad = (if showActiveHighlight then mk_radius m * (35 / 100) else 0)
      in mk_radius m + ring + outline + highlightPad + 2)"

subsection \<open>chart-reveal-clip.tsx\<close>

text \<open>\<open>clipRevealTransition\<close> of \<open>animation.ts\<close>: always a tween; a tween without a duration stays without one.\<close>

definition clipRevealTransition :: "transition option \<Rightarrow> transition" where
  "clipRevealTransition enterTransition =
     (case enterTransition of
        Some t \<Rightarrow> if tx_tween t then t
          else \<lparr>tx_tween = True, tx_duration = Some (case tx_duration t of Some s \<Rightarrow> s | None \<Rightarrow> 11 / 10)\<rparr>
      | None \<Rightarrow> \<lparr>tx_tween = True, tx_duration = Some (11 / 10)\<rparr>)"

datatype ChartRevealClipMode = ClipReveal | ClipConceal

text \<open>The rectangle of the clip: where it starts and where it comes to rest.\<close>

definition ChartRevealClip :: "rat \<Rightarrow> rat \<Rightarrow> rat \<Rightarrow> bool \<Rightarrow> ChartRevealClipMode \<Rightarrow> bar_rect \<times> bar_rect" where
  "ChartRevealClip height targetWidth padding animating mode =
     (let paddedWidth = max 0 (targetWidth + padding * 2);
          whole = \<lparr>br_x = - padding, br_y = - padding, br_width = paddedWidth, br_height = height + padding * 2\<rparr>
      in if \<not> animating then (whole, whole)
         else if mode = ClipConceal then (whole, whole\<lparr>br_x := - padding + paddedWidth, br_width := 0\<rparr>)
         else (whole\<lparr>br_width := 0\<rparr>, whole))"

text \<open>\<open>series-bar-layout.ts\<close>: the padding a chart with bars gives the clip; a chart of lines gives none.\<close>

definition computeSeriesBarWidth :: "rat \<Rightarrow> nat \<Rightarrow> rat \<Rightarrow> nat \<Rightarrow> rat option \<Rightarrow> rat option \<Rightarrow> rat option \<Rightarrow> bool \<Rightarrow> rat" where
  "computeSeriesBarWidth innerWidth dataLength column seriesCount composedBarSize composedMaxBarSize composedBarGap stacked =
     (let gap = (case composedBarGap of Some g \<Rightarrow> g | None \<Rightarrow> 4);
          groupCount = (if stacked then 1 else max 1 seriesCount);
          slot = (if column \<le> 0 then (if dataLength < 2 then innerWidth else innerWidth / (of_nat dataLength - 1)) else column);
          w = (case composedBarSize of Some w \<Rightarrow> w
            | None \<Rightarrow> (case composedMaxBarSize of Some m \<Rightarrow> min (slot * (88 / 100)) m | None \<Rightarrow> slot * (88 / 100)));
          w = (case composedMaxBarSize of Some m \<Rightarrow> min w m | None \<Rightarrow> w);
          maxGroup = slot * (92 / 100); needed = of_nat groupCount * w + (of_nat groupCount - 1) * gap;
          w = (if groupCount > 1 \<and> needed > maxGroup \<and> maxGroup > 0
            then max 4 ((maxGroup - (of_nat groupCount - 1) * gap) / of_nat groupCount) else w)
      in max 2 w)"

definition computeSeriesBarRevealClipPadding :: "rat \<Rightarrow> nat \<Rightarrow> rat option \<Rightarrow> bool \<Rightarrow> int" where
  "computeSeriesBarRevealClipPadding w seriesCount composedBarGap stacked =
     (let gap = (case composedBarGap of Some g \<Rightarrow> g | None \<Rightarrow> 4) in
      if stacked \<or> seriesCount \<le> 1 then \<lceil>w / 2\<rceil>
      else \<lceil>(of_nat seriesCount * w + (of_nat seriesCount - 1) * gap) / 2\<rceil>)"

text \<open>Whether the shell of a time series clips, and the clip of a chart without bars.\<close>

definition useClipReveal :: "'r series_env \<Rightarrow> bool \<Rightarrow> rat \<Rightarrow> bool" where
  "useClipReveal E staticPreview animationDuration \<longleftrightarrow>
     \<not> staticPreview \<and> length (renderData E) > 1 \<and> se_innerWidth E > 0 \<and> animationDuration > 0"

definition series_clip :: "'r series_env \<Rightarrow> ChartPhase \<Rightarrow> rat \<Rightarrow> bar_rect \<times> bar_rect" where
  "series_clip E ph animationDuration =
     (let concealing = (ph = PhExitingReady \<and> animationDuration > 0) in
      ChartRevealClip (se_innerHeight E + 20) (se_innerWidth E) 0 (ph = PhRevealing \<or> concealing)
        (if concealing then ClipConceal else ClipReveal))"

subsection \<open>series-markers.tsx\<close>

record PointAt =
  pa_index :: nat
  pa_cx :: rat
  pa_cy :: rat
  pa_revealDelay :: rat

record markers_props =
  sm_dataKey :: string
  sm_fill :: "string option"
  sm_stroke :: "string option"
  sm_strokeWidth :: rat
  sm_ringGap :: rat
  sm_outlineWidth :: rat
  sm_outlineColor :: "string option"
  sm_radius :: rat
  sm_animate :: bool
  sm_fadeOnHover :: bool
  sm_inactiveOpacity :: rat
  sm_inactiveBlur :: rat
  sm_showActiveHighlight :: bool

definition markers_series :: "'r series_env \<Rightarrow> string \<Rightarrow> nat" where
  "markers_series E dataKey = (case index_where (\<lambda>l. lc_dataKey l = dataKey) (se_lines E) of Some i \<Rightarrow> i | None \<Rightarrow> 0)"

definition seriesConfig :: "'r series_env \<Rightarrow> string \<Rightarrow> LineConfig option" where
  "seriesConfig E dataKey = js_at (se_lines E) (markers_series E dataKey)"

definition defaultScatterColors :: "string list" where
  "defaultScatterColors = map (\<lambda>k. ''var(--chart-'' @ show_nat k @ '')'') [1, 2, 3, 4, 5]"

definition markerStyle :: "'r series_env \<Rightarrow> markers_props \<Rightarrow> marker_style" where
  "markerStyle E p =
     (let i = markers_series E (sm_dataKey p);
          fill = (case sm_fill p of Some f \<Rightarrow> f
            | None \<Rightarrow> (case seriesConfig E (sm_dataKey p) of Some l \<Rightarrow> lc_stroke l
              | None \<Rightarrow> defaultScatterColors ! (i mod length defaultScatterColors)))
      in \<lparr>mk_fill = fill, mk_stroke = (case sm_stroke p of Some s \<Rightarrow> s | None \<Rightarrow> fill), mk_strokeWidth = sm_strokeWidth p,
          mk_ringGap = sm_ringGap p, mk_outlineWidth = sm_outlineWidth p, mk_outlineColor = sm_outlineColor p, mk_radius = sm_radius p\<rparr>)"

definition isRevealing :: "markers_props \<Rightarrow> bool \<Rightarrow> bool" where
  "isRevealing p isLoaded \<longleftrightarrow> sm_animate p \<and> \<not> isLoaded"

definition revealDurationSec :: "transition option \<Rightarrow> rat \<Rightarrow> rat" where
  "revealDurationSec enterTransition animationDuration =
     (case tx_duration (clipRevealTransition enterTransition) of Some s \<Rightarrow> s | None \<Rightarrow> animationDuration / 1000)"

text \<open>A row without a figure has no marker.\<close>

definition marker_points :: "'r series_env \<Rightarrow> markers_props \<Rightarrow> bool \<Rightarrow> rat \<Rightarrow> PointAt list" where
  "marker_points E p isLoaded durationSec =
     (let yScale = series_yScale E (case seriesConfig E (sm_dataKey p) of Some l \<Rightarrow> lc_yAxisId l | None \<Rightarrow> None);
          extent = getSeriesMarkerVisualExtent (markerStyle E p) (sm_showActiveHighlight p)
      in concat (map (\<lambda>(index, d). case se_number E d (sm_dataKey p) of
           None \<Rightarrow> []
         | Some v \<Rightarrow>
             let cx = series_xScale E (se_time E d); leadingEdge = max 0 (cx - extent) in
             [\<lparr>pa_index = index, pa_cx = cx, pa_cy = yScale v,
               pa_revealDelay = (if se_innerWidth E > 0 \<and> isRevealing p isLoaded then leadingEdge / se_innerWidth E * durationSec else 0)\<rparr>])
           (enumerate 0 (visiblePlotData E))))"

definition dim_base :: "markers_props \<Rightarrow> nat option \<Rightarrow> nat option \<Rightarrow> nat \<Rightarrow> bool" where
  "dim_base p hovered legend series \<longleftrightarrow> sm_fadeOnHover p \<and> (hovered \<noteq> None \<or> (legend \<noteq> None \<and> legend \<noteq> Some series))"

text \<open>The markers at rest: opacity and blur of the layer, the places of the markers, and the one that is enlarged with its
  scale; while the chart is revealed each marker fades in after its delay instead.\<close>

datatype markers_view =
    RevealingMarkers "PointAt list"
  | RestingMarkers rat rat "PointAt list" "(PointAt \<times> rat) option"

definition SeriesMarkers :: "'r series_env \<Rightarrow> markers_props \<Rightarrow> bool \<Rightarrow> rat \<Rightarrow> nat option \<Rightarrow> nat option \<Rightarrow> markers_view" where
  "SeriesMarkers E p isLoaded durationSec hovered legend =
     (let points = marker_points E p isLoaded durationSec in
      if isRevealing p isLoaded then RevealingMarkers points
      else
        let dimmed = dim_base p hovered legend (markers_series E (sm_dataKey p)) in
        RestingMarkers (if dimmed then sm_inactiveOpacity p else 1) (if dimmed \<and> sm_inactiveBlur p > 0 then sm_inactiveBlur p else 0) points
          (if sm_fadeOnHover p
           then (case hovered of
               None \<Rightarrow> None
             | Some i \<Rightarrow> map_option (\<lambda>a. (a, if sm_showActiveHighlight p then 135 / 100 else 1)) (find (\<lambda>a. pa_index a = i) points))
           else None))"

subsection \<open>line-series-terminal-marker.tsx, projection-line-end-marker.tsx\<close>

definition terminal_point :: "'r series_env \<Rightarrow> string \<Rightarrow> axis_id option \<Rightarrow> (rat \<times> rat) option" where
  "terminal_point E dataKey yAxisId =
     (case rev (visiblePlotData E) of
        [] \<Rightarrow> None
      | d # _ \<Rightarrow> map_option (\<lambda>v. (series_xScale E (se_time E d), series_yScale E yAxisId v)) (se_number E d dataKey))"

definition isTerminalMarkerPhaseVisible :: "ChartPhase \<Rightarrow> bool" where
  "isTerminalMarkerPhaseVisible ph \<longleftrightarrow> ph = PhReady \<or> ph = PhExitingReady"

text \<open>The opacity and the scale the marker comes to.\<close>

definition terminal_look :: "ChartPhase \<Rightarrow> rat \<times> rat" where
  "terminal_look ph = (if isTerminalMarkerPhaseVisible ph then (1, 1) else (0, 55 / 100))"

subsection \<open>fade-edges.ts\<close>

datatype FadeEdges = FadeFlag bool | FadeLeft | FadeRight

fun resolveFadeSides :: "FadeEdges \<Rightarrow> bool \<times> bool" where
  "resolveFadeSides (FadeFlag b) = (b, b)"
| "resolveFadeSides FadeLeft = (True, False)"
| "resolveFadeSides FadeRight = (False, True)"

definition fadeGradientStops :: "bool \<times> bool \<Rightarrow> (nat \<times> rat) list" where
  "fadeGradientStops sides = [(0, if fst sides then 0 else 1), (15, 1), (85, 1), (100, if snd sides then 0 else 1)]"

subsection \<open>path-stroke-utils.ts and the dashed tail\<close>

lemma half_ceiling:
  fixes x :: rat
  assumes "1 / 2 < x"
  shows "nat \<lceil>x\<rceil> < nat \<lceil>2 * x\<rceil>"
proof -
  have "\<lceil>x\<rceil> < \<lceil>2 * x\<rceil>"
  proof (cases "x \<le> 1")
    case True
    then have "\<lceil>x\<rceil> \<le> 1" by (simp add: ceiling_le_iff)
    moreover have "1 < \<lceil>2 * x\<rceil>" using assms by (simp add: less_ceiling_iff)
    ultimately show ?thesis by linarith
  next
    case False
    have "of_int \<lceil>x\<rceil> < x + 1" using ceiling_correct [of x] by linarith
    also have "x + 1 < 2 * x" using False by simp
    finally show ?thesis by (simp add: less_ceiling_iff)
  qed
  moreover have "0 < \<lceil>2 * x\<rceil>" using assms by (simp add: less_ceiling_iff)
  ultimately show ?thesis by simp
qed

text \<open>\<open>px\<close> is the x of \<open>getPointAtLength\<close>.\<close>

function bisect_length :: "(rat \<Rightarrow> rat) \<Rightarrow> rat \<Rightarrow> rat \<Rightarrow> rat \<Rightarrow> rat \<times> rat" where
  "bisect_length px targetX low high =
     (if high - low > 1 / 2
      then let mid = (low + high) / 2 in
        if px mid < targetX then bisect_length px targetX mid high else bisect_length px targetX low mid
      else (low, high))"
  by pat_completeness auto

termination
proof (relation "measure (\<lambda>(px, targetX, low, high). nat \<lceil>2 * (high - low)\<rceil>)", goal_cases)
  case (2 px targetX low high mid)
  then have half: "2 * (high - mid) = high - low" by (simp add: field_simps)
  show ?case using half_ceiling [OF 2(1)] by (simp only: in_measure prod.case half)
next
  case (3 px targetX low high mid)
  then have half: "2 * (mid - low) = high - low" by (simp add: field_simps)
  show ?case using half_ceiling [OF 3(1)] by (simp only: in_measure prod.case half)
qed simp

declare bisect_length.simps [simp del]

definition findPathLengthAtX :: "(rat \<Rightarrow> rat) option \<Rightarrow> rat \<Rightarrow> rat \<Rightarrow> rat" where
  "findPathLengthAtX path pathLength targetX =
     (case path of
        None \<Rightarrow> 0
      | Some px \<Rightarrow> if pathLength = 0 then 0 else let (low, high) = bisect_length px targetX 0 pathLength in (low + high) / 2)"

definition resolveDashStartX :: "'r list \<Rightarrow> nat \<Rightarrow> (int \<Rightarrow> rat) \<Rightarrow> ('r \<Rightarrow> int) \<Rightarrow> rat" where
  "resolveDashStartX data dashFromIndex xScale xAccessor =
     (case js_at data dashFromIndex of Some d \<Rightarrow> xScale (xAccessor d) | None \<Rightarrow> 0)"

text \<open>The tail: the length the solid head ends at, and the clip of the dashes.\<close>

definition dashStartLength :: "nat \<Rightarrow> nat \<Rightarrow> rat \<Rightarrow> rat" where
  "dashStartLength dashFromIndex dataLength pathLength =
     of_nat dashFromIndex / max 1 (of_nat dataLength - 1) * pathLength"

definition DashTail :: "'r series_env \<Rightarrow> nat option \<Rightarrow> rat \<Rightarrow> rat \<Rightarrow> (rat \<times> rat \<times> bar_rect) option" where
  "DashTail E dashFromIndex pathLength strokeWidth =
     (let data = visiblePlotData E in
      case dashFromIndex of
        None \<Rightarrow> None
      | Some i \<Rightarrow>
          if \<not> resolveDashTailBounds (Some i) (length data) \<or> pathLength \<le> 0 then None
          else
            let startX = resolveDashStartX data i (series_xScale E) (se_time E); startLength = dashStartLength i (length data) pathLength;
                pad = strokeWidth * 2
            in if startLength \<ge> pathLength then None
               else Some (startLength, max 1 (pathLength - startLength),
                 \<lparr>br_x = startX - strokeWidth, br_y = - strokeWidth, br_width = max 0 (se_innerWidth E - startX + pad),
                  br_height = se_innerHeight E + pad\<rparr>))"

subsection \<open>Under the pointer\<close>

text \<open>\<open>SeriesHoverDim\<close>: the opacity of the stroke.\<close>

definition SeriesHoverDim :: "bool \<Rightarrow> rat \<Rightarrow> nat option \<Rightarrow> bool \<Rightarrow> nat option \<Rightarrow> nat \<Rightarrow> rat" where
  "SeriesHoverDim enabled dimOpacity hovered selecting legend series =
     (if enabled \<and> ((hovered \<noteq> None \<or> selecting) \<or> (legend \<noteq> None \<and> legend \<noteq> Some series)) then dimOpacity else 1)"

text \<open>\<open>useHighlightSegment\<close>: a band that appears jumps to its place, one that is there is sent there.\<close>

record highlight_band =
  hb_wasActive :: bool
  hb_x :: "rat \<times> bool"
  hb_width :: "rat \<times> bool"

definition band_init :: highlight_band where
  "band_init = \<lparr>hb_wasActive = False, hb_x = (0, True), hb_width = (0, True)\<rparr>"

text \<open>A spring is what it is sent to and whether it is there.\<close>

definition useHighlightSegment :: "bool \<Rightarrow> SegmentBounds \<Rightarrow> highlight_band \<Rightarrow> highlight_band" where
  "useHighlightSegment enabled found st =
     (let bounds = (if enabled then found else INACTIVE_SEGMENT); there = (sg_isActive bounds \<and> \<not> hb_wasActive st)
      in \<lparr>hb_wasActive = sg_isActive bounds,
          hb_x = (sg_x bounds, there \<or> hb_x st = (sg_x bounds, True)),
          hb_width = (sg_width bounds, there \<or> hb_width st = (sg_width bounds, True))\<rparr>)"

text \<open>\<open>SeriesHighlightLayer\<close>: whether the band is seen.\<close>

definition highlight_visible :: "bool \<Rightarrow> highlight_band \<Rightarrow> bool \<Rightarrow> bool" where
  "highlight_visible enabled st isLoaded \<longleftrightarrow> enabled \<and> hb_wasActive st \<and> isLoaded"

subsection \<open>Markers are on the line\<close>

text \<open>The markers \<open>Line\<close> asks for with nothing but the defaults.\<close>

definition line_markers :: "LineConfig \<Rightarrow> bool \<Rightarrow> markers_props" where
  "line_markers line animate =
     \<lparr>sm_dataKey = lc_dataKey line, sm_fill = Some (lc_stroke line), sm_stroke = Some (lc_stroke line), sm_strokeWidth = 2, sm_ringGap = 2,
      sm_outlineWidth = 0, sm_outlineColor = None, sm_radius = 5, sm_animate = animate, sm_fadeOnHover = True, sm_inactiveOpacity = 1 / 2,
      sm_inactiveBlur = 2, sm_showActiveHighlight = True\<rparr>"

lemma series_of_line:
  assumes "distinct (map lc_dataKey (se_lines E))" and "line \<in> set (se_lines E)"
  shows "seriesConfig E (lc_dataKey line) = Some line"
proof -
  obtain i where i: "i < length (se_lines E)" "line = se_lines E ! i" using assms(2) by (auto simp: in_set_conv_nth)
  then show ?thesis using index_where_distinct [OF assms(1) i(1)] by (simp add: seriesConfig_def markers_series_def js_at_def)
qed

lemma upt_first: "[n..<n + length (x # xs)] = n # [Suc n..<Suc n + length xs]"
  by (subst upt_conv_Cons) simp_all

lemma markers_on_line:
  assumes "distinct (map lc_dataKey (se_lines E))" and "line \<in> set (se_lines E)" and "sm_dataKey p = lc_dataKey line"
    and "se_xDomain E = None" and "renderData E = se_plotData E" and "\<And>d. d \<in> set (se_plotData E) \<Longrightarrow> se_number E d (lc_dataKey line) \<noteq> None"
  shows "map (\<lambda>a. (pa_cx a, pa_cy a)) (marker_points E p isLoaded dur) = map (\<lambda>v. (pp_x v, pp_y v)) (line_points E line)"
    and "map pa_index (marker_points E p isLoaded dur) = [0..<length (se_plotData E)]"
proof -
  define f where "f = (\<lambda>(index, d). case se_number E d (lc_dataKey line) of
      None \<Rightarrow> []
    | Some v \<Rightarrow>
        let cx = series_xScale E (se_time E d); leadingEdge = max 0 (cx - getSeriesMarkerVisualExtent (markerStyle E p) (sm_showActiveHighlight p)) in
        [\<lparr>pa_index = index, pa_cx = cx, pa_cy = series_yScale E (lc_yAxisId line) v,
          pa_revealDelay = (if se_innerWidth E > 0 \<and> isRevealing p isLoaded then leadingEdge / se_innerWidth E * dur else 0)\<rparr>])"
  have points: "marker_points E p isLoaded dur = concat (map f (enumerate 0 (se_plotData E)))"
    using series_of_line [OF assms(1,2)] assms(3,4) by (simp add: marker_points_def Let_def f_def visiblePlotData_def)
  have "(\<forall>d \<in> set ds. se_number E d (lc_dataKey line) \<noteq> None) \<Longrightarrow>
      map (\<lambda>a. (pa_cx a, pa_cy a)) (concat (map f (enumerate n ds))) =
        map (\<lambda>d. (series_xScale E (se_time E d), case se_number E d (lc_dataKey line) of Some v \<Rightarrow> series_yScale E (lc_yAxisId line) v | None \<Rightarrow> 0)) ds \<and>
      map pa_index (concat (map f (enumerate n ds))) = [n..<n + length ds]" for n ds
  proof (induction ds arbitrary: n)
    case (Cons d ds)
    then show ?case unfolding upt_first by (auto simp: f_def Let_def simp del: upt_Suc)
  qed simp
  from this [of "se_plotData E" 0] assms(5,6)
  show "map (\<lambda>a. (pa_cx a, pa_cy a)) (marker_points E p isLoaded dur) = map (\<lambda>v. (pp_x v, pp_y v)) (line_points E line)"
    "map pa_index (marker_points E p isLoaded dur) = [0..<length (se_plotData E)]"
    by (simp_all add: points line_points_def computeSeriesPathPoints_def comp_def)
qed

lemma find_by_index:
  "map pa_index ps = [n..<n + length ps] \<Longrightarrow> i < length ps \<Longrightarrow> find (\<lambda>a. pa_index a = n + i) ps = Some (ps ! i)"
proof (induction ps arbitrary: n i)
  case (Cons a ps)
  have first: "pa_index a = n" "map pa_index ps = [Suc n..<Suc n + length ps]" using Cons.prems(1) unfolding upt_first by (simp_all del: upt_Suc)
  show ?case
  proof (cases i)
    case (Suc j)
    then show ?thesis using Cons.IH [OF first(2), of j] Cons.prems(2) first(1) by simp
  qed (simp add: first)
qed simp

text \<open>C38. The markers of the chart of revenue and expenses are on its lines: each line has a marker for every month, in the order
  of the months, exactly at the vertex another component draws the line through, while the chart is revealed and at
  rest; and with the pointer at a month the one marker that is enlarged is the one at the vertex of that month.\<close>

theorem revenue_markers_on_vertices:
  assumes "revenue_expense_rows r l = Inr rows" and "length (rp_periods r) \<le> 64" and "i < length (rp_periods r)"
  shows "let E = revenue_lines S sz rows in
    list_all (\<lambda>line.
      case SeriesMarkers E (line_markers line animate) isLoaded dur (Some i) legend of
        RevealingMarkers ps \<Rightarrow> map (\<lambda>a. (pa_cx a, pa_cy a)) ps = map (\<lambda>v. (pp_x v, pp_y v)) (line_points E line)
      | RestingMarkers _ _ ps active \<Rightarrow> map (\<lambda>a. (pa_cx a, pa_cy a)) ps = map (\<lambda>v. (pp_x v, pp_y v)) (line_points E line) \<and>
          map_option (\<lambda>(a, k). (pa_cx a, pa_cy a)) active = Some (pp_x (line_points E line ! i), pp_y (line_points E line ! i)))
      (se_lines E)"
proof -
  let ?E = "revenue_lines S sz rows"
  have len: "length rows = length (rp_periods r)" using revenue_periods [OF assms(1)] by (metis length_map)
  have plot: "se_plotData ?E = rows" "se_xDomain ?E = None" by (simp_all add: revenue_lines_def app_lines_def)
  have "64 \<le> maxRenderPointsForWidth (se_innerWidth ?E)" unfolding maxRenderPointsForWidth_def by linarith
  then have render: "renderData ?E = se_plotData ?E" using assms(2) len by (simp add: renderData_def decimateTimeSeries_def plot)
  have keys: "distinct (map lc_dataKey (se_lines ?E))" by (simp add: extracted_lines)
  have each: "case SeriesMarkers ?E (line_markers line animate) isLoaded dur (Some i) legend of
        RevealingMarkers ps \<Rightarrow> map (\<lambda>a. (pa_cx a, pa_cy a)) ps = map (\<lambda>v. (pp_x v, pp_y v)) (line_points ?E line)
      | RestingMarkers _ _ ps active \<Rightarrow> map (\<lambda>a. (pa_cx a, pa_cy a)) ps = map (\<lambda>v. (pp_x v, pp_y v)) (line_points ?E line) \<and>
          map_option (\<lambda>(a, k). (pa_cx a, pa_cy a)) active = Some (pp_x (line_points ?E line ! i), pp_y (line_points ?E line ! i))"
    if line: "line \<in> set (se_lines ?E)" for line
  proof -
    let ?ps = "marker_points ?E (line_markers line animate) isLoaded dur"
    have "lc_dataKey line = ''revenue'' \<or> lc_dataKey line = ''expenses''" using line by (auto simp: extracted_lines)
    then have numbers: "se_number ?E d (lc_dataKey line) \<noteq> None" for d by (auto simp: revenue_lines_def app_lines_def)
    have key: "sm_dataKey (line_markers line animate) = lc_dataKey line" by (simp add: line_markers_def)
    note on = markers_on_line [OF keys line key plot(2) render numbers, of isLoaded dur]
    have n: "length ?ps = length rows" using arg_cong [OF on(2), of length] by (simp add: plot)
    have found: "find (\<lambda>a. pa_index a = i) ?ps = Some (?ps ! i)"
      using find_by_index [of ?ps 0 i] on(2) n assms(3) len by (simp add: plot)
    have points: "length (line_points ?E line) = length rows" by (simp add: line_points_def computeSeriesPathPoints_def render plot)
    have "(pa_cx (?ps ! i), pa_cy (?ps ! i)) = (pp_x (line_points ?E line ! i), pp_y (line_points ?E line ! i))"
      using arg_cong [OF on(1), of "\<lambda>xs. xs ! i"] n points assms(3) len by simp
    then show ?thesis
      using on(1) found by (simp add: SeriesMarkers_def Let_def) (simp add: line_markers_def)
  qed
  then show ?thesis by (simp add: Let_def list_all_iff)
qed

theorem revenue_markers_on_vertices_witness:
  "let E = revenue_lines demo_scales (132, 132) demo_rows in
    list_all (\<lambda>line.
      case SeriesMarkers E (line_markers line False) True 1 (Some 1) None of
        RevealingMarkers ps \<Rightarrow> map (\<lambda>a. (pa_cx a, pa_cy a)) ps = map (\<lambda>v. (pp_x v, pp_y v)) (line_points E line)
      | RestingMarkers _ _ ps active \<Rightarrow> map (\<lambda>a. (pa_cx a, pa_cy a)) ps = map (\<lambda>v. (pp_x v, pp_y v)) (line_points E line) \<and>
          map_option (\<lambda>(a, k). (pa_cx a, pa_cy a)) active = Some (pp_x (line_points E line ! 1), pp_y (line_points E line ! 1)))
      (se_lines E)"
  by (rule revenue_markers_on_vertices [OF demo_rows_of]) (simp_all add: two_months_ok)

subsection \<open>The clip\<close>

text \<open>The clip of a line chart ends where the plot does, at rest too, and the first and the last point of a line are on its edges: of
  their markers one half is cut off, as the comment on the padding of the clip says it is there to prevent.\<close>

lemma edge_markers_cut:
  assumes "time_law (se_scaleTime E)" and "x_domain E = (t0, t1)" and "t0 < t1" and "0 < se_innerWidth E"
  shows "series_xScale E t0 = br_x (snd (series_clip E PhReady dur))"
    and "series_xScale E t1 = br_x (snd (series_clip E PhReady dur)) + br_width (snd (series_clip E PhReady dur))"
    and "map circle_reach (MarkerCircles (markerStyle E (line_markers line animate))) = [5, 9]"
proof -
  have x: "series_xScale E m = of_int (m - t0) / of_int (t1 - t0) * se_innerWidth E" for m
  proof -
    have "se_scaleTime E (0, se_innerWidth E) (t0, t1) m = 0 + of_int (m - t0) / of_int (t1 - t0) * (se_innerWidth E - 0)"
      using assms(1,3) unfolding time_law_def by blast
    then show ?thesis by (simp add: series_xScale_def assms(2))
  qed
  show "series_xScale E t0 = br_x (snd (series_clip E PhReady dur))"
    "series_xScale E t1 = br_x (snd (series_clip E PhReady dur)) + br_width (snd (series_clip E PhReady dur))"
    using assms(3,4) by (simp_all add: x series_clip_def ChartRevealClip_def Let_def)
  show "map circle_reach (MarkerCircles (markerStyle E (line_markers line animate))) = [5, 9]"
    by (simp add: MarkerCircles_def markerStyle_def line_markers_def circle_reach_def Let_def)
qed

text \<open>A reveal starts with nothing and a conceal ends with nothing, and each has the whole at its other end, with its right edge
  where the clip of the chart at rest has it.\<close>

lemma clip_ends:
  assumes "0 \<le> w" and "0 \<le> pad"
  shows "br_width (fst (ChartRevealClip h w pad True ClipReveal)) = 0"
    and "snd (ChartRevealClip h w pad True ClipReveal) = snd (ChartRevealClip h w pad False m)"
    and "fst (ChartRevealClip h w pad True ClipConceal) = snd (ChartRevealClip h w pad False m)"
    and "br_x (snd (ChartRevealClip h w pad True ClipConceal)) = w + pad" and "br_width (snd (ChartRevealClip h w pad True ClipConceal)) = 0"
  using assms by (simp_all add: ChartRevealClip_def Let_def)

text \<open>The padding of a chart with bars is enough for half a group at either end.\<close>

lemma padding_holds_group:
  assumes "1 \<le> n" and "0 \<le> gap" and "0 \<le> w"
  shows "(if stacked \<or> n \<le> 1 then w else of_nat n * w + (of_nat n - 1) * gap) \<le>
    2 * of_int (computeSeriesBarRevealClipPadding w n (Some gap) stacked)"
proof -
  have up: "x \<le> 2 * of_int \<lceil>x / 2\<rceil>" for x :: rat using le_of_int_ceiling [of "x / 2"] by linarith
  show ?thesis using up [of w] up [of "of_nat n * w + (of_nat n - 1) * gap"] by (simp add: computeSeriesBarRevealClipPadding_def Let_def)
qed

text \<open>The extent a marker is revealed by holds all its circles, enlarged too, while ring and outline are not too wide.\<close>

lemma marker_within_extent:
  assumes "ci \<in> set (MarkerCircles m)" and "0 \<le> mk_radius m" and "0 \<le> mk_ringGap m"
    and "mk_ringGap m + max 0 (mk_strokeWidth m) + max 0 (mk_outlineWidth m) \<le> 40 / 7"
  shows "circle_reach ci * (if active then 135 / 100 else 1) \<le> getSeriesMarkerVisualExtent m active"
  using assms by (auto simp: MarkerCircles_def circle_reach_def getSeriesMarkerVisualExtent_def Let_def split: if_splits)

subsection \<open>The search along a path\<close>

text \<open>The search ends, and within half a pixel: below the place it finds the path has not come to the x asked for, or starts there;
  above it has, or ends there.\<close>

lemma bisect_found:
  assumes "low \<le> high" and "lo0 \<le> low" and "high \<le> hi0" and "low = lo0 \<or> px low < targetX" and "high = hi0 \<or> targetX \<le> px high"
  shows "case bisect_length px targetX low high of (a, b) \<Rightarrow>
    lo0 \<le> a \<and> a \<le> b \<and> b \<le> hi0 \<and> b - a \<le> 1 / 2 \<and> (a = lo0 \<or> px a < targetX) \<and> (b = hi0 \<or> targetX \<le> px b)"
  using assms
proof (induction px targetX low high rule: bisect_length.induct)
  case (1 px targetX low high)
  show ?case
  proof (cases "high - low > 1 / 2")
    case True
    define mid where "mid = (low + high) / 2"
    have mid: "low \<le> mid" "mid \<le> high" using 1(3) by (simp_all add: mid_def)
    show ?thesis
    proof (cases "px mid < targetX")
      case True
      then show ?thesis
        using 1(1) [OF \<open>high - low > 1 / 2\<close> mid_def] mid 1(3-7) \<open>high - low > 1 / 2\<close>
        by (subst bisect_length.simps) (simp add: Let_def mid_def [symmetric])
    next
      case False
      then show ?thesis
        using 1(2) [OF \<open>high - low > 1 / 2\<close> mid_def] mid 1(3-7) \<open>high - low > 1 / 2\<close>
        by (subst bisect_length.simps) (simp add: Let_def mid_def [symmetric])
    qed
  next
    case False
    then show ?thesis using 1(3-7) by (subst bisect_length.simps) simp
  qed
qed

lemma found_length_near:
  assumes "0 < len"
  obtains a b where "0 \<le> a" and "b \<le> len" and "a = 0 \<or> px a < targetX" and "b = len \<or> targetX \<le> px b"
    and "\<bar>findPathLengthAtX (Some px) len targetX - a\<bar> \<le> 1 / 4" and "\<bar>findPathLengthAtX (Some px) len targetX - b\<bar> \<le> 1 / 4"
proof -
  obtain a b where ab: "bisect_length px targetX 0 len = (a, b)" by fastforce
  have "0 \<le> a \<and> a \<le> b \<and> b \<le> len \<and> b - a \<le> 1 / 2 \<and> (a = 0 \<or> px a < targetX) \<and> (b = len \<or> targetX \<le> px b)"
    using bisect_found [of 0 len 0 len px targetX] assms by (simp add: ab)
  moreover have "findPathLengthAtX (Some px) len targetX = (a + b) / 2" using assms by (simp add: findPathLengthAtX_def ab)
  ultimately show ?thesis by (intro that [of a b]) (auto simp: abs_le_iff)
qed

end
