(* ===== verification/Flow_Chart.thy ===== *)
theory Flow_Chart
  imports Js_Prelude
begin

section \<open>The canvas of the money flow: the instance MoneyFlowChart.tsx manages by hand\<close>

text \<open>
  \<open>src/web/src/app/charts/MoneyFlowChart.tsx\<close> draws with ECharts on a canvas and looks after the instance itself: a
  callback ref makes one, a frame after the \<open>div\<close> is there, and disposes of it with the \<open>div\<close>; a \<open>ResizeObserver\<close>
  watches the \<open>div\<close>; an effect hands a changed option on. The state holds the three refs, and what the platform holds:
  the instances that are not disposed of, the observers that are connected and the frames that are asked for. React
  runs a callback ref that is another function than before with \<open>null\<close> first, the old one, and then with the
  element, the new one; \<open>attach\<close> is another function in every render. Options are opaque here.
\<close>

subsection \<open>The refs and what they manage\<close>

text \<open>A frame that is asked for holds the \<open>div\<close> and the option it was asked with; an instance the \<open>div\<close> it draws on and
  the option it was given last; an observer the \<open>div\<close> it watches and the instance it resizes. Each has a number.\<close>

record 'o flow_canvas =
  fc_instance :: "nat option"
  fc_observer :: "nat option"
  fc_initFrame :: "nat option"
  fc_charts :: "(nat \<times> nat \<times> 'o option) list"
  fc_watching :: "(nat \<times> nat \<times> nat) list"
  fc_frames :: "(nat \<times> nat \<times> 'o) list"
  fc_fresh :: nat

definition canvas_init :: "'o flow_canvas" where
  "canvas_init = \<lparr>fc_instance = None, fc_observer = None, fc_initFrame = None, fc_charts = [], fc_watching = [], fc_frames = [], fc_fresh = 0\<rparr>"

definition drop_key :: "nat option \<Rightarrow> (nat \<times> 'a) list \<Rightarrow> (nat \<times> 'a) list" where
  "drop_key k xs = (case k of Some i \<Rightarrow> filter (\<lambda>x. fst x \<noteq> i) xs | None \<Rightarrow> xs)"

definition attach :: "'o option \<Rightarrow> nat option \<Rightarrow> 'o flow_canvas \<Rightarrow> 'o flow_canvas" where
  "attach opt node w =
     (let w' = w\<lparr>fc_watching := drop_key (fc_observer w) (fc_watching w), fc_charts := drop_key (fc_instance w) (fc_charts w),
            fc_instance := None, fc_frames := drop_key (fc_initFrame w) (fc_frames w)\<rparr>
      in case (node, opt) of
           (Some n, Some v) \<Rightarrow>
             w'\<lparr>fc_initFrame := Some (fc_fresh w'), fc_frames := fc_frames w' @ [(fc_fresh w', n, v)], fc_fresh := fc_fresh w' + 1\<rparr>
         | _ \<Rightarrow> w')"

definition attachResizeObserver :: "bool \<Rightarrow> nat \<Rightarrow> nat \<Rightarrow> 'o flow_canvas \<Rightarrow> 'o flow_canvas" where
  "attachResizeObserver has_observer node chart w =
     (if has_observer
      then w\<lparr>fc_observer := Some (fc_fresh w), fc_watching := fc_watching w @ [(fc_fresh w, node, chart)], fc_fresh := fc_fresh w + 1\<rparr>
      else w)"

text \<open>The frame: the instance is made, given its option and watched.\<close>

definition init_frame :: "bool \<Rightarrow> nat \<Rightarrow> 'o flow_canvas \<Rightarrow> 'o flow_canvas" where
  "init_frame has_observer h w =
     (case map_of (fc_frames w) h of
        None \<Rightarrow> w
      | Some (node, v) \<Rightarrow>
          let w' = w\<lparr>fc_frames := drop_key (Some h) (fc_frames w), fc_initFrame := None, fc_charts := fc_charts w @ [(fc_fresh w, node, Some v)],
                fc_instance := Some (fc_fresh w), fc_fresh := fc_fresh w + 1\<rparr>
          in attachResizeObserver has_observer node (fc_fresh w) w')"

text \<open>What an observer does when its \<open>div\<close> changes: nothing to measure, nothing to do; else the instance is resized and
  what ECharts throws is swallowed.\<close>

datatype resize_outcome = Skipped | Resized | Swallowed

definition on_resize :: "nat \<times> nat \<Rightarrow> bool \<Rightarrow> resize_outcome" where
  "on_resize sz throws = (if fst sz = 0 \<or> snd sz = 0 then Skipped else if throws then Swallowed else Resized)"

text \<open>When a \<open>div\<close> changes its size, the observers that watch it run: which instances are resized, and how that goes.\<close>

definition node_resized :: "nat \<Rightarrow> nat \<times> nat \<Rightarrow> bool \<Rightarrow> 'o flow_canvas \<Rightarrow> (nat \<times> resize_outcome) list" where
  "node_resized node sz throws w =
     map (\<lambda>(k, n, i). (i, on_resize sz throws)) (filter (\<lambda>(k, n, i). n = node) (fc_watching w))"

text \<open>The effect on a changed option: \<open>setOption(option ?? {})\<close>, where nothing stands for the empty option.\<close>

definition option_effect :: "'o option \<Rightarrow> 'o flow_canvas \<Rightarrow> 'o flow_canvas" where
  "option_effect opt w =
     (case fc_instance w of
        None \<Rightarrow> w
      | Some i \<Rightarrow> w\<lparr>fc_charts := map (\<lambda>(k, n, v). if k = i then (k, n, opt) else (k, n, v)) (fc_charts w)\<rparr>)"

subsection \<open>The life of the card\<close>

text \<open>The \<open>div\<close> that is mounted, the option of the last render, and the canvas. A render brings an option and the \<open>div\<close> that
  is there after it; the switch of the card to its table and back takes the \<open>div\<close> away and brings another without a
  render of the chart, so the callback is the one of the last render.\<close>

record 'o flow_card =
  fl_div :: "nat option"
  fl_option :: "'o option"
  fl_canvas :: "'o flow_canvas"

definition card_init :: "'o flow_card" where
  "card_init = \<lparr>fl_div = None, fl_option = None, fl_canvas = canvas_init\<rparr>"

datatype 'o flow_event =
    FlowRender "'o option" "nat option"
  | FlowSwitch "nat option"
  | FlowFrame nat

fun flow_step :: "bool \<Rightarrow> 'o flow_card \<Rightarrow> 'o flow_event \<Rightarrow> 'o flow_card" where
  "flow_step ro c (FlowRender opt node) =
     (let w1 = (if fl_div c = None then fl_canvas c else attach (fl_option c) None (fl_canvas c));
          w2 = (if node = None then w1 else attach opt node w1);
          w3 = (if opt = fl_option c then w2 else option_effect opt w2)
      in \<lparr>fl_div = node, fl_option = opt, fl_canvas = w3\<rparr>)"
| "flow_step ro c (FlowSwitch node) =
     (let w1 = (if fl_div c = None then fl_canvas c else attach (fl_option c) None (fl_canvas c));
          w2 = (if node = None then w1 else attach (fl_option c) node w1)
      in c\<lparr>fl_div := node, fl_canvas := w2\<rparr>)"
| "flow_step ro c (FlowFrame h) = c\<lparr>fl_canvas := init_frame ro h (fl_canvas c)\<rparr>"

subsection \<open>Nothing leaks, and the chart comes\<close>

text \<open>In every state: no more is alive than the refs hold, all of it on the \<open>div\<close> that is mounted and with the option of
  the last render; and while a \<open>div\<close> and an option are there, the chart is, or the frame that makes it.\<close>

definition canvas_clean :: "bool \<Rightarrow> nat option \<Rightarrow> 'o option \<Rightarrow> 'o flow_canvas \<Rightarrow> bool" where
  "canvas_clean ro node opt w \<longleftrightarrow>
     (case (node, opt) of
        (Some n, Some v) \<Rightarrow>
          (case fc_instance w of
             Some i \<Rightarrow> fc_charts w = [(i, n, Some v)] \<and> fc_frames w = [] \<and>
               (if ro then (case fc_observer w of Some k \<Rightarrow> fc_watching w = [(k, n, i)] | None \<Rightarrow> False) else fc_watching w = [])
           | None \<Rightarrow> fc_charts w = [] \<and> fc_watching w = [] \<and>
               (case fc_initFrame w of Some h \<Rightarrow> fc_frames w = [(h, n, v)] | None \<Rightarrow> False))
      | _ \<Rightarrow> fc_instance w = None \<and> fc_charts w = [] \<and> fc_watching w = [] \<and> fc_frames w = [])"

lemma attach_clean:
  assumes "canvas_clean ro node opt w"
  shows "canvas_clean ro None opt' (attach opt'' None w)"
    and "node = None \<Longrightarrow> canvas_clean ro node' opt' (attach opt' node' w)"
  using assms by (auto simp: canvas_clean_def attach_def drop_key_def Let_def split: option.splits if_splits)

lemma frame_clean:
  assumes "canvas_clean ro node opt w"
  shows "canvas_clean ro node opt (init_frame ro h w)"
  using assms
  by (auto simp: canvas_clean_def init_frame_def attachResizeObserver_def drop_key_def Let_def split: option.splits if_splits)

lemma effect_finds_no_chart: "fc_instance (attach opt node w) = None"
  by (simp add: attach_def Let_def split: option.split)

lemma clean_without_div: "canvas_clean ro None opt w \<longleftrightarrow> canvas_clean ro None opt' w"
  by (simp add: canvas_clean_def)

lemma flow_step_clean:
  assumes "canvas_clean ro (fl_div c) (fl_option c) (fl_canvas c)"
  shows "canvas_clean ro (fl_div (flow_step ro c e)) (fl_option (flow_step ro c e)) (fl_canvas (flow_step ro c e))"
proof -
  define w1 where "w1 = (if fl_div c = None then fl_canvas c else attach (fl_option c) None (fl_canvas c))"
  have empty: "canvas_clean ro None opt w1" for opt
    using assms attach_clean(1) [OF assms] clean_without_div [of ro opt w1 "fl_option c"] by (cases "fl_div c") (simp_all add: w1_def)
  have gone: "fc_instance w1 = None" using empty [of None] by (simp add: canvas_clean_def)
  have mounted: "canvas_clean ro node opt (if node = None then w1 else attach opt node w1)"
    "fc_instance (if node = None then w1 else attach opt node w1) = None" for node opt
    using attach_clean(2) [OF empty refl] empty gone effect_finds_no_chart by auto
  show ?thesis
  proof (cases e)
    case (FlowRender opt node)
    have "option_effect opt (if node = None then w1 else attach opt node w1) = (if node = None then w1 else attach opt node w1)"
      using mounted(2) [of node opt] by (simp add: option_effect_def split: option.split)
    then show ?thesis
      using mounted(1) [of node opt] by (cases node; cases "opt = fl_option c") (simp_all add: FlowRender w1_def [symmetric] Let_def)
  next
    case (FlowSwitch node)
    then show ?thesis
      using mounted(1) [of node "fl_option c"] by (cases node) (simp_all add: w1_def [symmetric] Let_def)
  next
    case (FlowFrame h)
    then show ?thesis using frame_clean [OF assms] by simp
  qed
qed

text \<open>C39. The canvas of the money flow leaks nothing and is never left blank: after any renders, switches between chart and
  table, and frames, at most one instance is alive, on the mounted \<open>div\<close> and with the option of the last render, its
  observer watches that \<open>div\<close> for it, nothing is alive and no frame is asked for without a \<open>div\<close>, and while a \<open>div\<close> and an
  option are there the chart is, or the one frame that is asked for brings it. A \<open>div\<close> that changes its size has
  the instance on it resized once, if it is the mounted one and has an instance, and nothing else is touched.\<close>

theorem flow_canvas_clean:
  "let c = foldl (flow_step ro) card_init events in
   canvas_clean ro (fl_div c) (fl_option c) (fl_canvas c) \<and>
   (case (fl_div c, fl_option c, fc_instance (fl_canvas c), fc_initFrame (fl_canvas c)) of
      (Some n, Some v, None, Some h) \<Rightarrow>
        map snd (fc_charts (fl_canvas (flow_step ro c (FlowFrame h)))) = [(n, Some v)]
    | (Some n, Some v, None, None) \<Rightarrow> False
    | _ \<Rightarrow> True) \<and>
   node_resized node sz throws (fl_canvas c) =
     (case (fl_div c, fc_instance (fl_canvas c)) of
        (Some n, Some i) \<Rightarrow> if ro \<and> n = node then [(i, on_resize sz throws)] else []
      | _ \<Rightarrow> [])"
proof -
  define c where "c = foldl (flow_step ro) card_init events"
  have step: "canvas_clean ro (fl_div c) (fl_option c) (fl_canvas c) \<Longrightarrow>
      canvas_clean ro (fl_div (foldl (flow_step ro) c es)) (fl_option (foldl (flow_step ro) c es)) (fl_canvas (foldl (flow_step ro) c es))" for c es
    by (induction es arbitrary: c) (simp_all add: flow_step_clean)
  have clean: "canvas_clean ro (fl_div c) (fl_option c) (fl_canvas c)"
    unfolding c_def by (rule step) (simp add: card_init_def canvas_init_def canvas_clean_def)
  then show ?thesis
    unfolding c_def [symmetric] Let_def
    by (auto simp: canvas_clean_def init_frame_def attachResizeObserver_def drop_key_def node_resized_def Let_def
        split: option.splits if_splits)
qed

text \<open>The comment at the effect says a changed option is drawn in place. It never is: the callback ref is another function
  in every render, so before the effect runs the instance is disposed of - in a render that changes nothing, too.\<close>

lemma every_render_rebuilds:
  assumes "canvas_clean ro (Some n) (Some v) (fl_canvas c)" and "fl_div c = Some n" and "fl_option c = Some v"
  shows "let w = fl_canvas (flow_step ro c (FlowRender (Some v) (Some n))) in
    fc_charts w = [] \<and> fc_watching w = [] \<and> map snd (fc_frames w) = [(n, v)]"
  using assms by (auto simp: canvas_clean_def attach_def drop_key_def Let_def split: option.splits if_splits)

end
