(* ===== verification/Projection.thy ===== *)
theory Projection
  imports Axis_Motion
begin

section \<open>Where a series is going: projection-utils.ts, projection-config.ts\<close>

text \<open>
  \<open>src/web/src/components/charts/projection-utils.ts\<close> makes the path of a projection from the rows of a series - by a
  regression, by its last segment, to a target or by hand -, \<open>projection-config.ts\<close> finds the projections among a
  chart's children and widens the domains of the chart for them, as \<open>time-series-chart-shell.tsx\<close> does, and
  \<open>projection-line.tsx\<close> places the segment that is drawn. Figures are rationals, a \<open>Date\<close> its milliseconds.
\<close>

subsection \<open>Reading a row\<close>

text \<open>What a row may hold under a key; a \<open>Date\<close> may be invalid, a number may be none. The platform reads dates from text.\<close>

datatype cell = CellDate "int option" | CellNumber "rat option" | CellText string | CellOther

text \<open>The milliseconds of \<open>new Date(ms)\<close> are whole, and within the days JavaScript has.\<close>

definition whole_part :: "rat \<Rightarrow> int" where
  "whole_part ms = (if ms \<ge> 0 then \<lfloor>ms\<rfloor> else \<lceil>ms\<rceil>)"

definition date_of_ms :: "rat \<Rightarrow> int option" where
  "date_of_ms ms = (if \<bar>ms\<bar> \<le> 8640000000000000 then Some (whole_part ms) else None)"

definition readDate :: "(string \<Rightarrow> int option) \<Rightarrow> ('r \<Rightarrow> string \<Rightarrow> cell) \<Rightarrow> 'r \<Rightarrow> string \<Rightarrow> int option" where
  "readDate parse get row xDataKey =
     (case get row xDataKey of
        CellDate d \<Rightarrow> d
      | CellNumber n \<Rightarrow> Option.bind n date_of_ms
      | CellText s \<Rightarrow> parse s
      | CellOther \<Rightarrow> None)"

definition readValue :: "('r \<Rightarrow> string \<Rightarrow> cell) \<Rightarrow> 'r \<Rightarrow> string \<Rightarrow> rat option" where
  "readValue get row seriesKey = (case get row seriesKey of CellNumber n \<Rightarrow> n | _ \<Rightarrow> None)"

subsection \<open>The path\<close>

text \<open>The rows as they are read: a date and a figure, where there is one. The dates of a path are within those of
  JavaScript.\<close>

type_synonym history = "(int option \<times> rat option) list"

record ProjectionPoint =
  pj_date :: int
  pj_value :: rat

definition read_rows :: "(string \<Rightarrow> int option) \<Rightarrow> ('r \<Rightarrow> string \<Rightarrow> cell) \<Rightarrow> string \<Rightarrow> string \<Rightarrow> 'r list \<Rightarrow> history" where
  "read_rows parse get xDataKey seriesKey rows = map (\<lambda>row. (readDate parse get row xDataKey, readValue get row seriesKey)) rows"

definition resolveStartIndex :: "nat \<Rightarrow> rat option \<Rightarrow> int" where
  "resolveStartIndex len startIndex =
     (case startIndex of
        None \<Rightarrow> max 0 (int len - 1)
      | Some i \<Rightarrow> min (max 0 \<lfloor>i\<rfloor>) (int len - 1))"

definition intervalFromAdjacentRows :: "history \<Rightarrow> nat \<Rightarrow> rat option" where
  "intervalFromAdjacentRows rows startIndex =
     (if startIndex < 1 then None
      else case (Option.bind (js_at rows (startIndex - 1)) fst, Option.bind (js_at rows startIndex) fst) of
        (Some a, Some b) \<Rightarrow> if b - a > 0 then Some (of_int (b - a)) else None
      | _ \<Rightarrow> None)"

definition intervalFromSeriesSpan :: "history \<Rightarrow> rat option" where
  "intervalFromSeriesSpan rows =
     (if length rows < 2 then None
      else case (fst (hd rows), fst (last rows)) of
        (Some a, Some b) \<Rightarrow> if b - a > 0 then Some (of_int (b - a) / (of_nat (length rows) - 1)) else None
      | _ \<Rightarrow> None)"

definition resolveIntervalMs :: "history \<Rightarrow> nat \<Rightarrow> rat" where
  "resolveIntervalMs rows startIndex =
     (case intervalFromAdjacentRows rows startIndex of
        Some ms \<Rightarrow> ms
      | None \<Rightarrow> (case intervalFromSeriesSpan rows of Some ms \<Rightarrow> ms | None \<Rightarrow> 86400000))"

definition linearRegressionSlope :: "(int \<times> rat) list \<Rightarrow> rat" where
  "linearRegressionSlope points =
     (if length points < 2 then 0
      else
        let n = of_nat (length points);
            sumT = foldl (\<lambda>s p. s + of_int (fst p)) 0 points;
            sumY = foldl (\<lambda>s p. s + snd p) 0 points;
            sumTY = foldl (\<lambda>s p. s + of_int (fst p) * snd p) 0 points;
            sumTT = foldl (\<lambda>s p. s + of_int (fst p) * of_int (fst p)) 0 points;
            denom = n * sumTT - sumT * sumT
        in if \<bar>denom\<bar> < 1 / 10 ^ 12 then 0 else (n * sumTY - sumT * sumY) / denom)"

definition lastSegmentSlope :: "(int \<times> rat) list \<Rightarrow> rat" where
  "lastSegmentSlope points =
     (if length points < 2 then 0
      else let p = points ! (length points - 2); q = last points; dt = fst q - fst p
        in if dt = 0 then 0 else (snd q - snd p) / of_int dt)"

datatype ProjectionMode = ModeAuto | ModeTarget | ModeManual
datatype ProjectionAutoMethod = LinearRegression | LastSegment
datatype ProjectionPathDensity = Stepped | Endpoints

definition future_point :: "int \<Rightarrow> rat \<Rightarrow> rat \<Rightarrow> rat \<Rightarrow> nat \<Rightarrow> ProjectionPoint" where
  "future_point anchorTime anchorValue slope intervalMs i =
     \<lparr>pj_date = whole_part (of_int anchorTime + intervalMs * of_nat i), pj_value = anchorValue + slope * intervalMs * of_nat i\<rparr>"

definition buildAutoFutureValues ::
    "int \<Rightarrow> rat \<Rightarrow> ProjectionAutoMethod \<Rightarrow> (int \<times> rat) list \<Rightarrow> nat \<Rightarrow> rat \<Rightarrow> ProjectionPathDensity \<Rightarrow> ProjectionPoint list" where
  "buildAutoFutureValues anchorTime anchorValue autoMethod historyPoints horizonPoints intervalMs pathDensity =
     (let slope = (if autoMethod = LastSegment \<and> length historyPoints \<ge> 2 then lastSegmentSlope historyPoints
            else linearRegressionSlope historyPoints);
          anchor = \<lparr>pj_date = anchorTime, pj_value = anchorValue\<rparr>;
          future = future_point anchorTime anchorValue slope intervalMs
      in if pathDensity = Endpoints then [anchor, future horizonPoints]
         else anchor # map future [1..<Suc horizonPoints])"

text \<open>The rows up to the anchor that have both a date and a figure.\<close>

definition history_points :: "history \<Rightarrow> nat \<Rightarrow> (int \<times> rat) list" where
  "history_points rows startIndex =
     concat (map (\<lambda>r. case r of (Some t, Some y) \<Rightarrow> [(t, y)] | _ \<Rightarrow> []) (take (Suc startIndex) rows))"

definition computeProjectionAnchorTangentSlope :: "history \<Rightarrow> rat option \<Rightarrow> rat" where
  "computeProjectionAnchorTangentSlope rows startIndexProp =
     (if length rows < 2 then 0
      else lastSegmentSlope (history_points rows (nat (resolveStartIndex (length rows) startIndexProp))))"

definition buildTargetPath :: "int \<Rightarrow> rat \<Rightarrow> rat \<Rightarrow> nat \<Rightarrow> rat \<Rightarrow> ProjectionPoint list" where
  "buildTargetPath anchorTime anchorValue endValue horizonPoints intervalMs =
     [\<lparr>pj_date = anchorTime, pj_value = anchorValue\<rparr>,
      \<lparr>pj_date = whole_part (of_int anchorTime + intervalMs * of_nat horizonPoints), pj_value = endValue\<rparr>]"

record projection_options =
  bp_mode :: ProjectionMode
  bp_autoMethod :: ProjectionAutoMethod
  bp_pathDensity :: ProjectionPathDensity
  bp_startIndex :: "rat option"
  bp_horizonPoints :: nat
  bp_endValue :: "rat option"
  bp_points :: "ProjectionPoint list option"

text \<open>The defaults of the code.\<close>

definition projection_defaults :: projection_options where
  "projection_defaults = \<lparr>bp_mode = ModeAuto, bp_autoMethod = LinearRegression, bp_pathDensity = Endpoints, bp_startIndex = None,
     bp_horizonPoints = 6, bp_endValue = None, bp_points = None\<rparr>"

definition buildProjectionPath :: "projection_options \<Rightarrow> history \<Rightarrow> ProjectionPoint list" where
  "buildProjectionPath p rows =
     (case (bp_mode p, bp_points p) of
        (ModeManual, Some (a # b # ps)) \<Rightarrow> a # b # ps
      | _ \<Rightarrow>
        if rows = [] then []
        else
          let startIndex = nat (resolveStartIndex (length rows) (bp_startIndex p)) in
          case js_at rows startIndex of
            Some (Some anchorTime, Some anchorValue) \<Rightarrow>
              let intervalMs = resolveIntervalMs rows startIndex; historyPoints = history_points rows startIndex in
              (case (bp_mode p, bp_endValue p) of
                 (ModeTarget, Some endValue) \<Rightarrow> buildTargetPath anchorTime anchorValue endValue (bp_horizonPoints p) intervalMs
               | _ \<Rightarrow> buildAutoFutureValues anchorTime anchorValue (bp_autoMethod p) historyPoints (bp_horizonPoints p) intervalMs
                   (bp_pathDensity p))
          | _ \<Rightarrow> [])"

text \<open>The extents of paths; none when they have no points.\<close>

definition extent_of :: "'a :: linorder list \<Rightarrow> ('a \<times> 'a) option" where
  "extent_of vs =
     (case vs of
        [] \<Rightarrow> None
      | v # vs \<Rightarrow> Some (foldl (\<lambda>m v. if v < m then v else m) v vs, foldl (\<lambda>m v. if v > m then v else m) v vs))"

definition projectionValueExtents :: "ProjectionPoint list list \<Rightarrow> (rat \<times> rat) option" where
  "projectionValueExtents paths = extent_of (concat (map (map pj_value) paths))"

definition projectionDateExtents :: "ProjectionPoint list list \<Rightarrow> (int \<times> int) option" where
  "projectionDateExtents paths = extent_of (concat (map (map pj_date) paths))"

subsection \<open>The curve\<close>

datatype curve_path = Segment "rat \<times> rat" "rat \<times> rat" | Cubic "rat \<times> rat" "rat \<times> rat" "rat \<times> rat" "rat \<times> rat"

definition buildHorizontalTangentBezierPath :: "rat \<Rightarrow> rat \<Rightarrow> rat \<Rightarrow> rat \<Rightarrow> rat \<Rightarrow> curve_path" where
  "buildHorizontalTangentBezierPath x0 y0 x1 y1 tension =
     (let dx = x1 - x0 in
      if \<bar>dx\<bar> < 1 / 10 ^ 6 then Segment (x0, y0) (x1, y1)
      else let t = min (1 / 2) (max (5 / 100) tension) in
        Cubic (x0, y0) (x0 + dx * t, y0) (x1 - dx * t, y1) (x1, y1))"

definition resolveVisibleEndX :: "rat \<Rightarrow> rat \<Rightarrow> rat \<Rightarrow> rat \<Rightarrow> rat" where
  "resolveVisibleEndX endX innerWidth endpointRadius strokeWidth =
     (let edgePadding = endpointRadius + strokeWidth * (1 / 2) + 1 in min endX (max 0 (innerWidth - edgePadding)))"

datatype ProjectionCurveKind = CurveLinear | CurveBezier

text \<open>The segment a projection is drawn as, in pixels.\<close>

definition projection_curve ::
    "(int \<Rightarrow> rat) \<Rightarrow> (rat \<Rightarrow> rat) \<Rightarrow> rat \<Rightarrow> ProjectionCurveKind \<Rightarrow> bool \<Rightarrow> rat \<Rightarrow> rat \<Rightarrow> ProjectionPoint list \<Rightarrow> curve_path option" where
  "projection_curve xScale yScale innerWidth curveKind showMarker endpointRadius strokeWidth data =
     (if length data < 2 then None
      else
        let startX = xScale (pj_date (hd data)); startY = yScale (pj_value (hd data));
            endY = yScale (pj_value (last data));
            visibleEndX = resolveVisibleEndX (xScale (pj_date (last data))) innerWidth (if showMarker then endpointRadius else 0) strokeWidth
        in Some (if curveKind = CurveBezier then buildHorizontalTangentBezierPath startX startY visibleEndX endY (45 / 100)
                 else Segment (startX, startY) (visibleEndX, endY)))"

subsection \<open>projection-config.ts and the domains of the chart\<close>

record ProjectionLineConfig =
  pc_yAxisId :: string
  pc_data :: "ProjectionPoint list"

text \<open>\<open>data_of\<close> is the \<open>data\<close> property of an element.\<close>

fun extractProjectionLineConfigs :: "(chart_props \<Rightarrow> ProjectionPoint list) \<Rightarrow> chart_node \<Rightarrow> ProjectionLineConfig list" where
  "extractProjectionLineConfigs data_of Inert = []"
| "extractProjectionLineConfigs data_of (Many ns) = concat (map (extractProjectionLineConfigs data_of) ns)"
| "extractProjectionLineConfigs data_of (Frag n) = extractProjectionLineConfigs data_of n"
| "extractProjectionLineConfigs data_of (Elem ty pr n) =
     (if ty_name ty = ''ProjectionLine'' then
        (if length (data_of pr) \<ge> 2 then [\<lparr>pc_yAxisId = normalizeYAxisId (pr_yAxisId pr), pc_data = data_of pr\<rparr>] else [])
      else extractProjectionLineConfigs data_of n)"

definition mergeProjectionYDomain :: "rat \<times> rat \<Rightarrow> ProjectionLineConfig list \<Rightarrow> string \<Rightarrow> rat \<times> rat" where
  "mergeProjectionYDomain domain configs yAxisId =
     (case projectionValueExtents (map pc_data (filter (\<lambda>c. pc_yAxisId c = yAxisId) configs)) of
        None \<Rightarrow> domain
      | Some (minValue, maxValue) \<Rightarrow>
          let nextMin = min (fst domain) minValue; nextMax = max (snd domain) maxValue in
          if nextMin \<ge> 0 \<and> fst domain \<ge> 0 then (0, if nextMax \<le> 0 then 100 else nextMax * (11 / 10))
          else let p = (nextMax - nextMin) * (5 / 100); padding = (if p = 0 then 1 else p) in (nextMin - padding, nextMax + padding))"

definition mergeProjectionXDomainMax :: "int \<Rightarrow> ProjectionLineConfig list \<Rightarrow> int" where
  "mergeProjectionXDomainMax maxTime configs =
     (case projectionDateExtents (map pc_data configs) of None \<Rightarrow> maxTime | Some (_, latest) \<Rightarrow> max maxTime latest)"

text \<open>\<open>yDomainTargetByAxis\<close> of the shell: the axes of the series first, then those only projections use.\<close>

definition projected_axes :: "ProjectionLineConfig list \<Rightarrow> (string \<times> rat \<times> rat) list \<Rightarrow> (string \<times> rat \<times> rat) list" where
  "projected_axes configs merged =
     foldl (\<lambda>merged config. if map_of merged (pc_yAxisId config) = None
       then merged @ [(pc_yAxisId config, mergeProjectionYDomain (0, 100) configs (pc_yAxisId config))] else merged) merged configs"

definition projectedTargetByAxis :: "'r series_env \<Rightarrow> ProjectionLineConfig list \<Rightarrow> (string \<times> rat \<times> rat) list" where
  "projectedTargetByAxis E configs =
     (let base = yDomainTargetByAxis E in
      if configs = [] then base
      else projected_axes configs (map (\<lambda>(axisId, d). (axisId, mergeProjectionYDomain d configs axisId)) base))"

definition projected_x_domain :: "'r series_env \<Rightarrow> ProjectionLineConfig list \<Rightarrow> int \<times> int" where
  "projected_x_domain E configs =
     (let (a, b) = x_domain E in
      (a, if se_xDomain E = None then mergeProjectionXDomainMax b configs else b))"

subsection \<open>A regression finds the line the points are on\<close>

lemma foldl_plus: "foldl (\<lambda>s p. s + f p) (z :: rat) ps = z + (\<Sum>p \<leftarrow> ps. f p)"
  by (induction ps arbitrary: z) (simp_all add: add.assoc)

lemma spread_sum:
  fixes xs :: "int list"
  shows "(\<Sum>x \<leftarrow> xs. (c * x - s)\<^sup>2) = c\<^sup>2 * (\<Sum>x \<leftarrow> xs. x * x) - 2 * c * s * sum_list xs + int (length xs) * s\<^sup>2"
  by (induction xs) (simp_all add: power2_eq_square algebra_simps)

lemma spread_positive:
  fixes xs :: "int list"
  assumes "x \<in> set xs" and "y \<in> set xs" and "x \<noteq> y"
  shows "0 < int (length xs) * (\<Sum>x \<leftarrow> xs. x * x) - sum_list xs * sum_list xs"
proof -
  define n s where "n = int (length xs)" and "s = sum_list xs"
  have n: "0 < n" using assms(1) by (auto simp: n_def)
  have "n * x \<noteq> s \<or> n * y \<noteq> s" using assms(3) n by auto
  then obtain z where z: "z \<in> set xs" "n * z - s \<noteq> 0" using assms(1,2) by auto
  have "0 < (n * z - s)\<^sup>2" using z(2) by simp
  also have "(n * z - s)\<^sup>2 \<le> (\<Sum>x \<leftarrow> xs. (n * x - s)\<^sup>2)"
    using z(1) by (intro member_le_sum_list) auto
  also have "\<dots> = n * (n * (\<Sum>x \<leftarrow> xs. x * x) - s * s)"
    unfolding spread_sum by (simp add: n_def [symmetric] s_def [symmetric] power2_eq_square algebra_simps)
  finally show ?thesis using n by (simp add: zero_less_mult_iff n_def s_def)
qed

lemma regression_recovers_line:
  assumes "\<forall>p \<in> set points. snd p = a + b * of_int (fst p)" and "p \<in> set points" and "q \<in> set points" and "fst p \<noteq> fst q"
  shows "linearRegressionSlope points = b"
proof -
  let ?ts = "map fst points"
  define n where "n = length points"
  define S SS where "S = sum_list ?ts" and "SS = (\<Sum>p \<leftarrow> points. fst p * fst p)"
  define D where "D = int n * SS - S * S"
  have D: "1 \<le> D"
    using spread_positive [of "fst p" ?ts "fst q"] assms(2-4) by (simp add: D_def n_def S_def SS_def comp_def)
  have many: "\<not> length points < 2"
    using assms(2-4) by (cases points; cases "tl points") auto
  have sums: "(\<Sum>p \<leftarrow> ps. of_int (fst p)) = rat_of_int (sum_list (map fst ps))"
    "(\<Sum>p \<leftarrow> ps. of_int (fst p) * of_int (fst p)) = rat_of_int (\<Sum>p \<leftarrow> ps. fst p * fst p)" for ps :: "(int \<times> rat) list"
    by (induction ps) simp_all
  have figures: "(\<forall>p \<in> set ps. snd p = a + b * of_int (fst p)) \<Longrightarrow>
      (\<Sum>p \<leftarrow> ps. snd p) = of_nat (length ps) * a + b * of_int (sum_list (map fst ps)) \<and>
      (\<Sum>p \<leftarrow> ps. of_int (fst p) * snd p) = a * of_int (sum_list (map fst ps)) + b * of_int (\<Sum>p \<leftarrow> ps. fst p * fst p)"
    for ps :: "(int \<times> rat) list"
    by (induction ps) (simp_all add: algebra_simps)
  have denom: "of_nat n * rat_of_int SS - of_int S * of_int S = of_int D" by (simp add: D_def)
  have "1 \<le> rat_of_int D" using D by simp
  then have big: "\<not> \<bar>rat_of_int D\<bar> < 1 / 10 ^ 12" by simp
  have "of_nat n * (a * of_int S + b * of_int SS) - of_int S * (of_nat n * a + b * of_int S) = b * rat_of_int D"
    by (simp add: D_def algebra_simps)
  then show ?thesis
    using many figures [OF assms(1)] big D
    by (simp add: linearRegressionSlope_def foldl_plus sums Let_def n_def [symmetric] S_def [symmetric] SS_def [symmetric] denom)
qed

lemma last_segment_recovers_line:
  assumes "\<forall>p \<in> set points. snd p = a + b * of_int (fst p)" and "2 \<le> length points" and "sorted_wrt (<) (map fst points)"
  shows "lastSegmentSlope points = b"
proof -
  let ?p = "points ! (length points - 2)" and ?q = "last points"
  have q: "?q = points ! (length points - 1)" using assms(2) by (intro last_conv_nth) auto
  have "fst ?p < fst ?q"
    using sorted_wrt_nth_less [OF assms(3), of "length points - 2" "length points - 1"] assms(2) by (simp add: q)
  moreover have "snd ?p = a + b * of_int (fst ?p)" "snd ?q = a + b * of_int (fst ?q)"
    using assms(1,2) by (simp_all add: q)
  ultimately show ?thesis
    using assms(2) by (simp add: lastSegmentSlope_def Let_def right_diff_distrib [symmetric])
qed

lemma resolve_range: "0 < n \<Longrightarrow> 0 \<le> resolveStartIndex n i \<and> resolveStartIndex n i < int n"
  by (cases i) (simp_all add: resolveStartIndex_def)

text \<open>A straight history is continued straight: when the rows up to the anchor lie on a line and follow each other in
  time, both methods give a path that starts at the anchor and stays on that line, a step of the series' own
  interval after the other up to the horizon - all the steps, or only the two ends.\<close>

theorem straight_history_continued:
  assumes "rows ! nat (resolveStartIndex (length rows) (bp_startIndex p)) = (Some t, Some y)" and "rows \<noteq> []" and "bp_mode p = ModeAuto"
    and "\<forall>r \<in> set (history_points rows (nat (resolveStartIndex (length rows) (bp_startIndex p)))). snd r = a + b * of_int (fst r)"
    and "sorted_wrt (<) (map fst (history_points rows (nat (resolveStartIndex (length rows) (bp_startIndex p)))))"
    and "2 \<le> length (history_points rows (nat (resolveStartIndex (length rows) (bp_startIndex p))))"
  shows "let step = resolveIntervalMs rows (nat (resolveStartIndex (length rows) (bp_startIndex p)));
             steps = (if bp_pathDensity p = Endpoints then [0, bp_horizonPoints p] else [0..<Suc (bp_horizonPoints p)])
    in buildProjectionPath p rows =
      map (\<lambda>i. \<lparr>pj_date = whole_part (of_int t + step * of_nat i), pj_value = a + b * (of_int t + step * of_nat i)\<rparr>) steps"
proof -
  define i where "i = nat (resolveStartIndex (length rows) (bp_startIndex p))"
  define points where "points = history_points rows i"
  have len: "0 < length rows" using assms(2) by simp
  have i: "i < length rows"
    unfolding i_def using resolve_range [OF len, of "bp_startIndex p"] by (simp add: nat_less_iff)
  note hist = assms(4-6) [folded i_def, folded points_def]
  obtain u v ws where "points = u # v # ws" using hist(3) by (cases points; cases "tl points") auto
  then have "u \<in> set points" "v \<in> set points" "fst u \<noteq> fst v" using hist(2) by auto
  note regression = regression_recovers_line [OF hist(1) this]
  note segment = last_segment_recovers_line [OF hist(1,3,2)]
  have row: "rows ! i = (Some t, Some y)" using assms(1) by (simp add: i_def)
  have "(t, y) \<in> set points"
    using i row by (force simp: points_def history_points_def in_set_conv_nth)
  then have y: "y = a + b * of_int t" using hist(1) by auto
  have anchor: "\<lparr>pj_date = t, pj_value = y\<rparr> = \<lparr>pj_date = whole_part (of_int t + step * of_nat 0), pj_value = a + b * (of_int t + step * of_nat 0)\<rparr>"
    for step by (simp add: y whole_part_def)
  have future: "future_point t y b step k = \<lparr>pj_date = whole_part (of_int t + step * of_nat k), pj_value = a + b * (of_int t + step * of_nat k)\<rparr>"
    for step k by (simp add: future_point_def y algebra_simps)
  have upt: "[0..<Suc n] = 0 # [1..<Suc n]" for n by (simp add: upt_conv_Cons)
  have path: "buildProjectionPath p rows =
      buildAutoFutureValues t y (bp_autoMethod p) points (bp_horizonPoints p) (resolveIntervalMs rows i) (bp_pathDensity p)"
    using assms(2,3) i row by (simp add: buildProjectionPath_def i_def [symmetric] points_def js_at_def Let_def)
  have slope: "(if bp_autoMethod p = LastSegment \<and> 2 \<le> length points then lastSegmentSlope points else linearRegressionSlope points) = b"
    using regression segment by simp
  show ?thesis
    unfolding i_def [symmetric] Let_def path buildAutoFutureValues_def slope
    by (simp add: anchor [of "resolveIntervalMs rows i"] future upt del: upt_Suc of_nat_0 mult_zero_right add_0_right)
qed

theorem straight_history_continued_witness:
  "buildProjectionPath (projection_defaults\<lparr>bp_horizonPoints := 2, bp_pathDensity := Stepped\<rparr>) [(Some 0, Some 1), (Some 10, Some 3)] =
     map (\<lambda>i. \<lparr>pj_date = whole_part (10 + 10 * of_nat i), pj_value = 1 + 1 / 5 * (10 + 10 * of_nat i)\<rparr>) [0, 1, 2]"
proof -
  let ?p = "projection_defaults\<lparr>bp_horizonPoints := 2, bp_pathDensity := Stepped\<rparr>"
  let ?rows = "[(Some 0, Some 1), (Some 10, Some 3)] :: history"
  have i: "nat (resolveStartIndex (length ?rows) (bp_startIndex ?p)) = 1"
    by (simp add: projection_defaults_def resolveStartIndex_def)
  have points: "history_points ?rows 1 = [(0, 1), (10, 3)]" by (simp add: history_points_def)
  have interval: "resolveIntervalMs ?rows 1 = 10" by (simp add: resolveIntervalMs_def intervalFromAdjacentRows_def js_at_def)
  have steps: "(if bp_pathDensity ?p = Endpoints then [0, bp_horizonPoints ?p] else [0..<Suc (bp_horizonPoints ?p)]) = [0, 1, 2]"
    by (simp add: projection_defaults_def upt_rec)
  have auto: "?rows \<noteq> []" "bp_mode ?p = ModeAuto" by (simp_all add: projection_defaults_def)
  show ?thesis
    using straight_history_continued [of ?rows ?p 10 3 1 "1 / 5", unfolded i points interval steps Let_def, OF _ auto] by simp
qed

subsection \<open>The domains hold what is projected\<close>

lemma extent_holds:
  assumes "v \<in> set vs"
  obtains a b where "extent_of vs = Some (a, b)" and "\<forall>x \<in> set vs. a \<le> x \<and> x \<le> b" and "a \<le> b"
proof -
  obtain w ws where vs: "vs = w # ws" using assms by (cases vs) auto
  have "\<forall>x \<in> set vs. foldl (\<lambda>m v. if v < m then v else m) w ws \<le> x \<and> x \<le> foldl (\<lambda>m v. if v > m then v else m) w ws"
    using fold_extreme [of _ w ws] by (simp add: vs)
  then show ?thesis using vs assms by (intro that [of "foldl (\<lambda>m v. if v < m then v else m) w ws"]) (auto simp: extent_of_def)
qed

lemma extent_none [simp]: "extent_of vs = None \<longleftrightarrow> vs = []"
  by (simp add: extent_of_def split: list.split)

definition in_domain :: "rat \<times> rat \<Rightarrow> rat \<Rightarrow> bool" where
  "in_domain d v \<longleftrightarrow> fst d \<le> v \<and> v \<le> snd d"

lemma widened:
  assumes "c \<le> a" and "b \<le> e" and "a < b"
  shows "let d = (if c \<ge> 0 \<and> a \<ge> 0 then (0, if e \<le> 0 then 100 else e * (11 / 10))
      else let p = (e - c) * (5 / 100); padding = (if p = 0 then 1 else p) in (c - padding, e + padding))
    in fst d < snd d \<and> fst d \<le> c \<and> (e :: rat) \<le> snd d"
proof (cases "c \<ge> 0 \<and> a \<ge> 0")
  case True
  then have "0 < e" using assms by linarith
  with True show ?thesis by (simp add: Let_def)
next
  case False
  define p where "p = (e - c) * (5 / 100)"
  have "c < e" using assms by linarith
  then have "0 < p" by (simp add: p_def)
  then show ?thesis
    unfolding Let_def if_not_P [OF False] p_def [symmetric] using \<open>c < e\<close> by simp
qed

lemma merge_holds:
  assumes "fst d < snd d"
  shows "fst (mergeProjectionYDomain d configs axisId) < snd (mergeProjectionYDomain d configs axisId)"
    and "in_domain d v \<Longrightarrow> in_domain (mergeProjectionYDomain d configs axisId) v"
    and "c \<in> set configs \<Longrightarrow> pc_yAxisId c = axisId \<Longrightarrow> pt \<in> set (pc_data c) \<Longrightarrow>
      in_domain (mergeProjectionYDomain d configs axisId) (pj_value pt)"
proof -
  let ?vs = "concat (map (map pj_value) (map pc_data (filter (\<lambda>c. pc_yAxisId c = axisId) configs)))"
  let ?m = "mergeProjectionYDomain d configs axisId"
  have wide: "fst ?m < snd ?m \<and> (\<forall>v. in_domain d v \<or> a \<le> v \<and> v \<le> b \<longrightarrow> in_domain ?m v)" if e: "extent_of ?vs = Some (a, b)" for a b
  proof -
    have "?m = (if min (fst d) a \<ge> 0 \<and> fst d \<ge> 0 then (0, if max (snd d) b \<le> 0 then 100 else max (snd d) b * (11 / 10))
        else let p = (max (snd d) b - min (fst d) a) * (5 / 100); padding = (if p = 0 then 1 else p)
          in (min (fst d) a - padding, max (snd d) b + padding))"
      using e by (simp add: mergeProjectionYDomain_def projectionValueExtents_def Let_def)
    then have "fst ?m < snd ?m" "fst ?m \<le> min (fst d) a" "max (snd d) b \<le> snd ?m"
      using widened [of "min (fst d) a" "fst d" "snd d" "max (snd d) b"] assms by (simp_all only: Let_def)
    then show ?thesis by (auto simp: in_domain_def)
  qed
  have all: "fst ?m < snd ?m \<and> (in_domain d v \<longrightarrow> in_domain ?m v)" for v
  proof (cases "extent_of ?vs")
    case None
    then show ?thesis using assms by (simp only: mergeProjectionYDomain_def projectionValueExtents_def) simp
  next
    case (Some ab)
    then show ?thesis using wide [of "fst ab" "snd ab"] by simp
  qed
  show "fst ?m < snd ?m" "in_domain d v \<Longrightarrow> in_domain ?m v" using all by blast+
  show "in_domain ?m (pj_value pt)" if "c \<in> set configs" "pc_yAxisId c = axisId" "pt \<in> set (pc_data c)"
  proof -
    have pt: "pj_value pt \<in> set ?vs" using that by force
    obtain a b where "extent_of ?vs = Some (a, b)" "a \<le> pj_value pt \<and> pj_value pt \<le> b" using extent_holds [OF pt] pt by metis
    then show ?thesis using wide by blast
  qed
qed

lemma added_axes:
  assumes "proper merged"
  shows "proper (projected_axes configs merged)"
    and "map_of merged i = Some d \<Longrightarrow> map_of (projected_axes configs merged) i = Some d"
    and "map_of merged i = None \<Longrightarrow> i \<in> pc_yAxisId ` set configs \<Longrightarrow>
      map_of (projected_axes configs merged) i = Some (mergeProjectionYDomain (0, 100) configs i)"
proof -
  define add where "add = (\<lambda>merged (config :: ProjectionLineConfig). if map_of merged (pc_yAxisId config) = None
       then merged @ [(pc_yAxisId config, mergeProjectionYDomain (0, 100) configs (pc_yAxisId config))] else merged)"
  have "proper ms \<Longrightarrow> proper (foldl add ms cs) \<and>
      (map_of ms i = Some d \<longrightarrow> map_of (foldl add ms cs) i = Some d) \<and>
      (map_of ms i = None \<longrightarrow> i \<in> pc_yAxisId ` set cs \<longrightarrow> map_of (foldl add ms cs) i = Some (mergeProjectionYDomain (0, 100) configs i)) \<and>
      (map_of ms i = None \<longrightarrow> i \<notin> pc_yAxisId ` set cs \<longrightarrow> map_of (foldl add ms cs) i = None)" for cs :: "ProjectionLineConfig list" and ms d
  proof (induction cs arbitrary: ms d)
    case (Cons c cs)
    have one: "proper (add ms c)"
      using Cons.prems merge_holds(1) [of "(0, 100)" configs "pc_yAxisId c"]
      by (auto simp: add_def proper_def map_of_eq_None_iff)
    have "map_of (add ms c) i = (if map_of ms i = None \<and> i = pc_yAxisId c then Some (mergeProjectionYDomain (0, 100) configs i) else map_of ms i)"
      by (auto simp: add_def map_add_def split: option.split)
    then show ?case using Cons.IH [OF one] by (auto split: if_splits)
  qed simp
  from this [OF assms, where cs = configs]
  show "proper (projected_axes configs merged)"
    and "map_of merged i = Some d \<Longrightarrow> map_of (projected_axes configs merged) i = Some d"
    and "map_of merged i = None \<Longrightarrow> i \<in> pc_yAxisId ` set configs \<Longrightarrow>
      map_of (projected_axes configs merged) i = Some (mergeProjectionYDomain (0, 100) configs i)"
    unfolding projected_axes_def add_def by blast+
qed

lemma map_of_at: "map_of (map (\<lambda>(k, v). (k, f v k)) kvs) i = map_option (\<lambda>v. f v i) (map_of kvs i)"
  by (induction kvs) auto

text \<open>C40. The chart makes room for its projections: with them every axis keeps one domain of two different ends, the domain
  of an axis holds all it held without them and every figure a projection on that axis has, and unless a range of time
  is picked the time axis runs at least to the last day of every projection.\<close>

theorem projections_in_domain:
  assumes "nice_law (se_nice E)" and "se_yScaleDomainMax E = None"
  shows "let T = projectedTargetByAxis E configs in
    proper T \<and>
    list_all (\<lambda>(axisId, d). case map_of T axisId of Some d' \<Rightarrow> fst d' \<le> fst d \<and> snd d \<le> snd d' | None \<Rightarrow> False) (yDomainTargetByAxis E) \<and>
    list_all (\<lambda>c. list_all (\<lambda>pt. case map_of T (pc_yAxisId c) of Some d \<Rightarrow> in_domain d (pj_value pt) | None \<Rightarrow> False) (pc_data c)) configs \<and>
    fst (projected_x_domain E configs) = fst (x_domain E) \<and>
    (if se_xDomain E = None
     then snd (x_domain E) \<le> snd (projected_x_domain E configs) \<and>
       list_all (\<lambda>c. list_all (\<lambda>pt. pj_date pt \<le> snd (projected_x_domain E configs)) (pc_data c)) configs
     else projected_x_domain E configs = x_domain E)"
proof -
  let ?base = "yDomainTargetByAxis E"
  let ?m = "map (\<lambda>(axisId, d). (axisId, mergeProjectionYDomain d configs axisId)) ?base"
  define T where "T = projectedTargetByAxis E configs"
  have base: "proper ?base" by (rule targets_proper [OF assms])
  then have distinct: "distinct (map fst ?base)" and spread: "(i, d) \<in> set ?base \<Longrightarrow> fst d < snd d" for i d
    by (auto simp: proper_def list_all_iff)
  have T: "T = (if configs = [] then ?base else projected_axes configs ?m)" by (simp add: T_def projectedTargetByAxis_def Let_def)
  have find: "map_of ?m i = map_option (\<lambda>d. mergeProjectionYDomain d configs i) (map_of ?base i)" for i
    by (rule map_of_at)
  have m: "proper ?m"
    using distinct spread merge_holds(1) by (auto simp: proper_def list_all_iff comp_def case_prod_beta)
  note more = added_axes [OF m, where configs = configs]
  have "proper T" using base more(1) T by simp
  moreover have "list_all (\<lambda>(axisId, d). case map_of T axisId of Some d' \<Rightarrow> fst d' \<le> fst d \<and> snd d \<le> snd d' | None \<Rightarrow> False) ?base"
  proof (unfold list_all_iff, intro ballI)
    fix x assume mem: "x \<in> set ?base"
    obtain i a b where x: "x = (i, a, b)" by (cases x)
    with mem have i: "(i, a, b) \<in> set ?base" by simp
    then have at: "map_of ?base i = Some (a, b)" using distinct by simp
    have less: "fst (a, b) < snd (a, b)" using spread [OF i] by simp
    let ?d = "mergeProjectionYDomain (a, b) configs i"
    have held: "fst ?d \<le> a" "b \<le> snd ?d"
      using merge_holds(2) [OF less, of a configs i] merge_holds(2) [OF less, of b configs i] less by (simp_all add: in_domain_def)
    have "map_of T i = Some (if configs = [] then (a, b) else ?d)"
      using at find more(2) T by simp
    then show "case x of (axisId, d) \<Rightarrow> case map_of T axisId of Some d' \<Rightarrow> fst d' \<le> fst d \<and> snd d \<le> snd d' | None \<Rightarrow> False"
      using held x by simp
  qed
  moreover have "list_all (\<lambda>c. list_all (\<lambda>pt. case map_of T (pc_yAxisId c) of Some d \<Rightarrow> in_domain d (pj_value pt) | None \<Rightarrow> False) (pc_data c)) configs"
  proof (unfold list_all_iff, intro ballI)
    fix c pt assume c: "c \<in> set configs" and pt: "pt \<in> set (pc_data c)"
    let ?i = "pc_yAxisId c"
    let ?d = "case map_of ?base ?i of Some d \<Rightarrow> d | None \<Rightarrow> (0, 100)"
    have less: "fst ?d < snd ?d" using spread by (auto dest!: map_of_SomeD split: option.split)
    have "map_of T ?i = Some (mergeProjectionYDomain ?d configs ?i)"
    proof (cases "map_of ?base ?i")
      case None
      then have "map_of ?m ?i = None" by (simp add: find)
      from more(3) [OF this] show ?thesis using None T c by auto
    next
      case (Some d)
      then have "map_of ?m ?i = Some (mergeProjectionYDomain d configs ?i)" by (simp add: find)
      from more(2) [OF this] show ?thesis using Some T c by auto
    qed
    then show "case map_of T ?i of Some d \<Rightarrow> in_domain d (pj_value pt) | None \<Rightarrow> False"
      using merge_holds(3) [OF less c refl pt] by simp
  qed
  moreover have "pj_date pt \<le> mergeProjectionXDomainMax t configs" if "c \<in> set configs" "pt \<in> set (pc_data c)" for c pt t
  proof -
    let ?ts = "concat (map (map pj_date) (map pc_data configs))"
    have pt: "pj_date pt \<in> set ?ts" using that by force
    obtain a b where "extent_of ?ts = Some (a, b)" "pj_date pt \<le> b" using extent_holds [OF pt] pt by metis
    then show ?thesis by (simp add: mergeProjectionXDomainMax_def projectionDateExtents_def)
  qed
  moreover have "t \<le> mergeProjectionXDomainMax t configs" for t
    by (auto simp: mergeProjectionXDomainMax_def split: option.split)
  ultimately show ?thesis
    by (simp add: Let_def T_def [symmetric] projected_x_domain_def case_prod_beta list_all_iff)
qed

text \<open>A projection of two points on the rows of a chart.\<close>

definition demo_projection :: ProjectionLineConfig where
  "demo_projection = \<lparr>pc_yAxisId = ''left'', pc_data = [\<lparr>pj_date = 10, pj_value = 7\<rparr>, \<lparr>pj_date = 25, pj_value = 400\<rparr>]\<rparr>"

theorem projections_in_domain_witness:
  "let T = projectedTargetByAxis demo_series [demo_projection]
   in proper T \<and> (case map_of T ''left'' of Some d \<Rightarrow> in_domain d 400 | None \<Rightarrow> False)"
proof -
  have parts: "pc_yAxisId demo_projection = ''left''" "map pj_value (pc_data demo_projection) = [7, 400]"
    by (simp_all add: demo_projection_def)
  have "list_all P (pc_data demo_projection) \<Longrightarrow> P \<lparr>pj_date = 25, pj_value = 400\<rparr>" for P
    by (simp add: demo_projection_def)
  from this [where P = "\<lambda>pt. case map_of (projectedTargetByAxis demo_series [demo_projection]) ''left'' of
      Some d \<Rightarrow> in_domain d (pj_value pt) | None \<Rightarrow> False"]
  show ?thesis
    using projections_in_domain [OF demo_parts(1,5), where configs = "[demo_projection]"]
    unfolding Let_def list.pred_inject parts simp_thms ProjectionPoint.select_convs by blast
qed

subsection \<open>What is worth knowing\<close>

text \<open>Three steps of room: the domain comes with a tenth of headroom above the data, and a projection inside it adds a tenth
  to that.\<close>

lemma inner_projection_stretches:
  "mergeProjectionYDomain (0, 110) [\<lparr>pc_yAxisId = ''left'', pc_data = [\<lparr>pj_date = 0, pj_value = 20\<rparr>, \<lparr>pj_date = 1, pj_value = 30\<rparr>]\<rparr>] ''left'' = (0, 121)"
  by (simp add: mergeProjectionYDomain_def projectionValueExtents_def extent_of_def Let_def)

text \<open>The scales are made for the axes of the lines; an axis only a projection has gets a domain and no scale.\<close>

lemma projection_axis_without_scale:
  "map_of (projectedTargetByAxis demo_series [\<lparr>pc_yAxisId = ''right'', pc_data = [\<lparr>pj_date = 0, pj_value = 900\<rparr>, \<lparr>pj_date = 1, pj_value = 1000\<rparr>]\<rparr>])
     ''right'' = Some (0, 1100) \<and>
   map fst (buildYScalesFromDomains (\<lambda>d. d) (0, 100) (se_lines demo_series)
     (projectedTargetByAxis demo_series [\<lparr>pc_yAxisId = ''right'', pc_data = [\<lparr>pj_date = 0, pj_value = 900\<rparr>, \<lparr>pj_date = 1, pj_value = 1000\<rparr>]\<rparr>])) =
     [''left'']"
  by code_simp

text \<open>Points between the ends of a manual path are not drawn.\<close>

lemma middle_points_not_drawn:
  "buildProjectionPath (projection_defaults\<lparr>bp_mode := ModeManual, bp_points := Some (a # b # ps)\<rparr>) rows = a # b # ps"
  "projection_curve x y w k m r sw (a # b # b' # ps) = projection_curve x y w k m r sw (a # b'' # b' # ps)"
  by (simp_all add: buildProjectionPath_def projection_curve_def)

text \<open>A curved projection leaves and arrives level and its handles stay between its ends, whatever the tension.\<close>

lemma curve_in_box:
  assumes "x0 \<le> x1" and "buildHorizontalTangentBezierPath x0 y0 x1 y1 tension = Cubic a b c d"
  shows "a = (x0, y0) \<and> d = (x1, y1) \<and> snd b = y0 \<and> snd c = y1 \<and> x0 \<le> fst b \<and> fst b \<le> fst c \<and> fst c \<le> x1"
proof -
  define t where "t = min (1 / 2) (max (5 / 100) tension)"
  have t: "0 \<le> t" "t \<le> 1 / 2" by (simp_all add: t_def le_max_iff_disj)
  have "(x1 - x0) * t \<le> (x1 - x0) * (1 / 2)" using t assms(1) by (intro mult_left_mono) auto
  moreover have "0 \<le> (x1 - x0) * t" using t assms(1) by simp
  moreover have "a = (x0, y0) \<and> b = (x0 + (x1 - x0) * t, y0) \<and> c = (x1 - (x1 - x0) * t, y1) \<and> d = (x1, y1)"
    using assms(2) unfolding buildHorizontalTangentBezierPath_def Let_def t_def [symmetric] by (simp split: if_splits)
  ultimately show ?thesis by (auto simp: field_simps)
qed

end
