(* ===== verification/Sankey.thy ===== *)
theory Sankey
  imports Tooltip_View
begin

section \<open>The flow diagram of the library: sankey-chart.tsx, sankey-node.tsx, sankey-link.tsx, sankey-tooltip.tsx\<close>

text \<open>
  \<open>src/web/src/components/charts/sankey\<close> lays a graph out with d3-sankey and draws its nodes and links; what is under
  the pointer is lit with all it is connected to, the rest fades. The nodes and the links work out what is lit each
  on their own. The laid out graph is an argument: a link of it refers to its nodes by objects that know their index.
\<close>

subsection \<open>The graph\<close>

text \<open>\<open>SankeyNode | number\<close>: an object may lack its index and its name.\<close>

datatype NodeOrIndex = NodeIndex nat | NodeObject "nat option" "string option"

fun getNodeIndex :: "NodeOrIndex \<Rightarrow> nat option" where
  "getNodeIndex (NodeIndex i) = Some i"
| "getNodeIndex (NodeObject i name) = i"

fun getNodeName :: "NodeOrIndex \<Rightarrow> nat \<Rightarrow> string" where
  "getNodeName (NodeIndex i) fallbackIndex = ''Node '' @ show_nat i"
| "getNodeName (NodeObject i name) fallbackIndex = (case name of Some s \<Rightarrow> s | None \<Rightarrow> ''Node '' @ show_nat fallbackIndex)"

record SankeyNodeDatum =
  sn_name :: string
  sn_category :: "string option"
  sn_x0 :: "rat option"
  sn_y0 :: "rat option"
  sn_x1 :: "rat option"
  sn_y1 :: "rat option"
  sn_value :: "rat option"

record SankeyLinkDatum =
  sl_source :: NodeOrIndex
  sl_target :: NodeOrIndex
  sl_value :: rat
  sl_width :: "rat option"

record SankeyGraph =
  gr_nodes :: "SankeyNodeDatum list"
  gr_links :: "SankeyLinkDatum list"

definition or_zero :: "rat option \<Rightarrow> rat" where
  "or_zero v = (case v of Some x \<Rightarrow> x | None \<Rightarrow> 0)"

subsection \<open>The chart: what is under the pointer\<close>

datatype SankeyTooltipData = NodeTooltip nat | LinkTooltip nat

record sankey_chart =
  sk_internalHoveredNodeIndex :: "nat option"
  sk_hoveredLinkIndex :: "nat option"
  sk_tooltipData :: "SankeyTooltipData option"
  sk_mousePos :: "(rat \<times> rat) option"
  sk_reported :: "nat option list"

definition sankey_init :: sankey_chart where
  "sankey_init = \<lparr>sk_internalHoveredNodeIndex = None, sk_hoveredLinkIndex = None, sk_tooltipData = None, sk_mousePos = None, sk_reported = []\<rparr>"

text \<open>\<open>prop\<close> is \<open>hoveredNodeIndexProp\<close>: absent, or the index or \<open>null\<close> the parent decides on.\<close>

definition hoveredNodeIndex :: "nat option option \<Rightarrow> sankey_chart \<Rightarrow> nat option" where
  "hoveredNodeIndex prop st = (case prop of Some i \<Rightarrow> i | None \<Rightarrow> sk_internalHoveredNodeIndex st)"

definition setHoveredNodeIndex :: "nat option option \<Rightarrow> nat option \<Rightarrow> sankey_chart \<Rightarrow> sankey_chart" where
  "setHoveredNodeIndex prop i st =
     (if prop \<noteq> None then st\<lparr>sk_reported := sk_reported st @ [i]\<rparr> else st\<lparr>sk_internalHoveredNodeIndex := i\<rparr>)"

datatype sankey_event = NodeEnter nat | NodeLeave | LinkEnter nat | LinkLeave | ChartMove "(rat \<times> rat) option" | ChartLeave

fun sankey_step :: "nat option option \<Rightarrow> sankey_chart \<Rightarrow> sankey_event \<Rightarrow> sankey_chart" where
  "sankey_step prop st (NodeEnter i) = (setHoveredNodeIndex prop (Some i) st)\<lparr>sk_tooltipData := Some (NodeTooltip i)\<rparr>"
| "sankey_step prop st NodeLeave = (setHoveredNodeIndex prop None st)\<lparr>sk_tooltipData := None\<rparr>"
| "sankey_step prop st (LinkEnter k) = st\<lparr>sk_hoveredLinkIndex := Some k, sk_tooltipData := Some (LinkTooltip k)\<rparr>"
| "sankey_step prop st LinkLeave = st\<lparr>sk_hoveredLinkIndex := None, sk_tooltipData := None\<rparr>"
| "sankey_step prop st (ChartMove point) = (case point of Some p \<Rightarrow> st\<lparr>sk_mousePos := Some p\<rparr> | None \<Rightarrow> st)"
| "sankey_step prop st ChartLeave = (setHoveredNodeIndex prop None st)\<lparr>sk_hoveredLinkIndex := None, sk_tooltipData := None, sk_mousePos := None\<rparr>"

text \<open>The pointer goes from one place to another; the browser reports what is left, from the inside out, and then what is
  entered, and the move.\<close>

datatype sankey_place = Outside | OnSurface | OnNode nat | OnLink nat

fun left_behind :: "sankey_place \<Rightarrow> sankey_event list" where
  "left_behind (OnNode i) = [NodeLeave]"
| "left_behind (OnLink k) = [LinkLeave]"
| "left_behind _ = []"

fun come_upon :: "sankey_place \<Rightarrow> sankey_event list" where
  "come_upon (OnNode i) = [NodeEnter i]"
| "come_upon (OnLink k) = [LinkEnter k]"
| "come_upon _ = []"

definition pointer_events :: "sankey_place \<Rightarrow> sankey_place \<Rightarrow> rat \<times> rat \<Rightarrow> sankey_event list" where
  "pointer_events a b p =
     (if a = b then [] else left_behind a @ (if b = Outside then [ChartLeave] else []) @ come_upon b) @
     (if b = Outside then [] else [ChartMove (Some p)])"

fun sankey_pointer_run :: "nat option option \<Rightarrow> sankey_place \<times> sankey_chart \<Rightarrow> (sankey_place \<times> rat \<times> rat) list \<Rightarrow> sankey_place \<times> sankey_chart" where
  "sankey_pointer_run prop s [] = s"
| "sankey_pointer_run prop (a, st) ((b, p) # path) = sankey_pointer_run prop (b, foldl (sankey_step prop) st (pointer_events a b p)) path"

text \<open>The reveal: an epoch is counted and a timer started whenever the length or the signature changes.\<close>

record sankey_reveal =
  kr_deps :: "rat \<times> string"
  kr_revealEpoch :: nat
  kr_isLoaded :: bool
  kr_timeout :: "rat option"

definition reveal_sankey :: "rat \<times> string \<Rightarrow> sankey_reveal \<Rightarrow> sankey_reveal" where
  "reveal_sankey deps st =
     st\<lparr>kr_deps := deps, kr_revealEpoch := kr_revealEpoch st + 1, kr_isLoaded := False, kr_timeout := Some (fst deps)\<rparr>"

definition render_sankey :: "rat \<times> string \<Rightarrow> sankey_reveal \<Rightarrow> sankey_reveal" where
  "render_sankey deps st = (if deps = kr_deps st then st else reveal_sankey deps st)"

definition sankey_timeout :: "sankey_reveal \<Rightarrow> sankey_reveal" where
  "sankey_timeout st = (if kr_timeout st = None then st else st\<lparr>kr_isLoaded := True, kr_timeout := None\<rparr>)"

definition sankey_mounted :: "rat \<Rightarrow> rat \<Rightarrow> bool" where
  "sankey_mounted width height \<longleftrightarrow> \<not> (width < 10 \<or> height < 10)"

subsection \<open>The nodes\<close>

definition isNodeConnected :: "SankeyLinkDatum list \<Rightarrow> nat option \<Rightarrow> nat option \<Rightarrow> nat \<Rightarrow> bool" where
  "isNodeConnected ls hoveredNode hoveredLink nodeIndex =
     (case hoveredNode of
        Some h \<Rightarrow> h = nodeIndex \<or>
          list_ex (\<lambda>l. (getNodeIndex (sl_source l) = Some h \<and> getNodeIndex (sl_target l) = Some nodeIndex) \<or>
            (getNodeIndex (sl_target l) = Some h \<and> getNodeIndex (sl_source l) = Some nodeIndex)) ls
      | None \<Rightarrow> (case hoveredLink of
          Some k \<Rightarrow> (case js_at ls k of
              Some l \<Rightarrow> getNodeIndex (sl_source l) = Some nodeIndex \<or> getNodeIndex (sl_target l) = Some nodeIndex
            | None \<Rightarrow> False)
        | None \<Rightarrow> False))"

definition isAnyHovered :: "nat option \<Rightarrow> nat option \<Rightarrow> bool" where
  "isAnyHovered hoveredNode hoveredLink \<longleftrightarrow> hoveredNode \<noteq> None \<or> hoveredLink \<noteq> None"

definition isNodeFaded :: "SankeyLinkDatum list \<Rightarrow> nat option \<Rightarrow> nat option \<Rightarrow> nat \<Rightarrow> bool" where
  "isNodeFaded ls hoveredNode hoveredLink i \<longleftrightarrow>
     isAnyHovered hoveredNode hoveredLink \<and> \<not> isNodeConnected ls hoveredNode hoveredLink i"

text \<open>The value under the name of a node: what leaves a source, what comes to any other.\<close>

definition displayValue :: "SankeyLinkDatum list \<Rightarrow> SankeyNodeDatum \<Rightarrow> nat \<Rightarrow> rat" where
  "displayValue ls node index =
     foldl (\<lambda>total l.
       if sn_category node = Some ''source'' \<and> getNodeIndex (sl_source l) = Some index then total + sl_value l
       else if sn_category node \<noteq> Some ''source'' \<and> getNodeIndex (sl_target l) = Some index then total + sl_value l
       else total) 0 ls"

definition sankey_colors :: "string list" where
  "sankey_colors = map (\<lambda>k. ''var(--chart-'' @ show_nat k @ '')'') [1, 2, 3, 4, 5]"

definition node_color :: "string option \<Rightarrow> (SankeyNodeDatum \<Rightarrow> nat \<Rightarrow> string) option \<Rightarrow> SankeyNodeDatum \<Rightarrow> nat \<Rightarrow> string" where
  "node_color fill getNodeColor node index =
     (if fill \<noteq> None \<and> fill \<noteq> Some [] then the fill
      else case getNodeColor of Some f \<Rightarrow> f node index | None \<Rightarrow> sankey_colors ! (index mod length sankey_colors))"

datatype SankeyLabelOrientation = LabelsHorizontal | LabelsVertical

record NodeLabelLayout =
  nl_x :: rat
  nl_y :: rat
  nl_textAnchor :: string
  nl_textLocalX :: rat
  nl_rotate :: int
  nl_initialX :: rat
  nl_initialY :: rat

definition LABEL_OFFSET :: rat where "LABEL_OFFSET = 12"
definition VALUE_LABEL_GAP :: rat where "VALUE_LABEL_GAP = 16"

definition getNodeLabelLayouts ::
    "SankeyLabelOrientation \<Rightarrow> bool \<Rightarrow> rat \<Rightarrow> rat \<Rightarrow> rat \<Rightarrow> rat \<Rightarrow> bool \<Rightarrow> NodeLabelLayout \<times> NodeLabelLayout option" where
  "getNodeLabelLayouts labelOrientation isLeftSide x y width height showValueLabels =
     (let centerY = y + height / 2;
          initialX = (if isLeftSide then x + 8 else x + width - 8);
          labelX = (if isLeftSide then x - LABEL_OFFSET else x + width + LABEL_OFFSET)
      in case labelOrientation of
           LabelsHorizontal \<Rightarrow>
             let name = \<lparr>nl_x = labelX, nl_y = centerY, nl_textAnchor = (if isLeftSide then ''end'' else ''start''), nl_textLocalX = 0,
                   nl_rotate = 0, nl_initialX = initialX, nl_initialY = centerY\<rparr>
             in (name, if showValueLabels
                then Some (name\<lparr>nl_y := centerY + VALUE_LABEL_GAP, nl_initialY := centerY + VALUE_LABEL_GAP\<rparr>) else None)
         | LabelsVertical \<Rightarrow>
             let halfGap = VALUE_LABEL_GAP / 2;
                 nameLocalX = (if showValueLabels then (if isLeftSide then halfGap else - halfGap) else 0);
                 name = \<lparr>nl_x = labelX, nl_y = centerY, nl_textAnchor = ''middle'', nl_textLocalX = nameLocalX,
                   nl_rotate = (if isLeftSide then - 90 else 90), nl_initialX = initialX, nl_initialY = centerY\<rparr>
             in (name, if showValueLabels then Some (name\<lparr>nl_textLocalX := (if isLeftSide then - halfGap else halfGap)\<rparr>) else None))"

text \<open>A node: its rectangle, its color and opacities, its labels and the delays they come with.\<close>

record sankey_node_props =
  np_fill :: "string option"
  np_lineCap :: rat
  np_fadedOpacity :: rat
  np_showLabels :: bool
  np_showValueLabels :: bool
  np_labelOrientation :: SankeyLabelOrientation
  np_getNodeColor :: "(SankeyNodeDatum \<Rightarrow> nat \<Rightarrow> string) option"

record sankey_label =
  lb_layout :: NodeLabelLayout
  lb_opacity :: rat
  lb_delay :: rat
  lb_text :: string

record node_element =
  ne_rect :: bar_rect
  ne_fill :: string
  ne_rx :: rat
  ne_opacity :: rat
  ne_delay :: rat
  ne_labels :: "sankey_label list"

definition AnimatedNode ::
    "(rat \<Rightarrow> string) \<Rightarrow> sankey_node_props \<Rightarrow> rat \<Rightarrow> nat \<Rightarrow> bar_rect \<Rightarrow> string \<Rightarrow> nat \<Rightarrow> bool \<Rightarrow> string \<Rightarrow> rat \<Rightarrow> bool \<Rightarrow> node_element" where
  "AnimatedNode intFmt p animationDuration totalNodes r fill index faded name value isLeftSide =
     (let nodeAnimDuration = animationDuration * (6 / 10);
          staggerDelaySec = of_nat index / of_nat totalNodes * nodeAnimDuration * (4 / 10) / 1000;
          nameLabelDelaySec = staggerDelaySec + nodeAnimDuration * (6 / 10) * (3 / 10) / 1000;
          valueLabelDelaySec = nameLabelDelaySec + 6 / 100;
          nodeOpacity = (if faded then np_fadedOpacity p else 1);
          valueOpacity = (if faded then np_fadedOpacity p * (8 / 10) else 6 / 10);
          (name_layout, value_layout) = getNodeLabelLayouts (np_labelOrientation p) isLeftSide (br_x r) (br_y r) (br_width r) (br_height r)
            (np_showValueLabels p)
      in \<lparr>ne_rect = r, ne_fill = fill, ne_rx = np_lineCap p, ne_opacity = nodeOpacity, ne_delay = staggerDelaySec,
          ne_labels = (if np_showLabels p
            then \<lparr>lb_layout = name_layout, lb_opacity = nodeOpacity, lb_delay = nameLabelDelaySec, lb_text = name\<rparr> #
              (case value_layout of
                 Some v \<Rightarrow> [\<lparr>lb_layout = v, lb_opacity = valueOpacity, lb_delay = valueLabelDelaySec, lb_text = intFmt value @ '' sessions''\<rparr>]
               | None \<Rightarrow> [])
            else [])\<rparr>)"

definition SankeyNode ::
    "(rat \<Rightarrow> string) \<Rightarrow> SankeyGraph \<Rightarrow> rat \<Rightarrow> rat \<Rightarrow> sankey_node_props \<Rightarrow> nat option \<Rightarrow> nat option \<Rightarrow> node_element list" where
  "SankeyNode intFmt g innerWidth animationDuration p hoveredNode hoveredLink =
     map (\<lambda>(index, node).
       let nodeX = or_zero (sn_x0 node); nodeY = or_zero (sn_y0 node);
           r = \<lparr>br_x = nodeX, br_y = nodeY, br_width = or_zero (sn_x1 node) - nodeX, br_height = or_zero (sn_y1 node) - nodeY\<rparr>
       in AnimatedNode intFmt p animationDuration (length (gr_nodes g)) r (node_color (np_fill p) (np_getNodeColor p) node index) index
            (isNodeFaded (gr_links g) hoveredNode hoveredLink index) (sn_name node) (displayValue (gr_links g) node index)
            (nodeX < innerWidth / 2)) (enumerate 0 (gr_nodes g))"

subsection \<open>The links\<close>

definition isLinkHighlighted :: "nat option \<Rightarrow> nat option \<Rightarrow> nat \<Rightarrow> SankeyLinkDatum \<Rightarrow> bool" where
  "isLinkHighlighted hoveredNode hoveredLink index l \<longleftrightarrow>
     hoveredLink = Some index \<or>
     (hoveredNode \<noteq> None \<and> (hoveredNode = getNodeIndex (sl_source l) \<or> hoveredNode = getNodeIndex (sl_target l)))"

definition isLinkFaded :: "nat option \<Rightarrow> nat option \<Rightarrow> nat \<Rightarrow> SankeyLinkDatum \<Rightarrow> bool" where
  "isLinkFaded hoveredNode hoveredLink index l \<longleftrightarrow>
     isAnyHovered hoveredNode hoveredLink \<and> \<not> isLinkHighlighted hoveredNode hoveredLink index l"

definition getTargetOpacity :: "bool \<Rightarrow> bool \<Rightarrow> rat \<Rightarrow> rat \<Rightarrow> rat" where
  "getTargetOpacity faded highlighted strokeOpacity fadedOpacity =
     (if faded then fadedOpacity else if highlighted then min 1 (strokeOpacity * (13 / 10)) else strokeOpacity)"

record sankey_link_props =
  lp_stroke :: "string option"
  lp_strokeOpacity :: rat
  lp_fadedOpacity :: rat
  lp_useGradient :: bool
  lp_getNodeColor :: "(nat option \<Rightarrow> string option \<Rightarrow> string) option"
  lp_getLinkColor :: "(SankeyLinkDatum \<Rightarrow> nat \<Rightarrow> string) option"
  lp_getLinkPattern :: "(SankeyLinkDatum \<Rightarrow> nat \<Rightarrow> string option) option"

definition has_stroke :: "sankey_link_props \<Rightarrow> bool" where
  "has_stroke p \<longleftrightarrow> lp_stroke p \<noteq> None \<and> lp_stroke p \<noteq> Some []"

definition link_stroke :: "sankey_link_props \<Rightarrow> nat \<Rightarrow> SankeyLinkDatum \<Rightarrow> string" where
  "link_stroke p index l =
     (case Option.bind (lp_getLinkPattern p) (\<lambda>f. f l index) of
        Some (c # cs) \<Rightarrow> ''url(#'' @ (c # cs) @ '')''
      | _ \<Rightarrow>
          if lp_useGradient p \<and> \<not> has_stroke p \<and> lp_getLinkColor p = None then ''url(#link-gradient-'' @ show_nat index @ '')''
          else case lp_getLinkColor p of
            Some f \<Rightarrow> f l index
          | None \<Rightarrow> if has_stroke p then the (lp_stroke p) else ''var(--chart-line-primary)'')"

text \<open>The gradients that are defined, by name; the ends of a link that is no object have the first color.\<close>

fun end_color :: "sankey_link_props \<Rightarrow> NodeOrIndex \<Rightarrow> string" where
  "end_color p (NodeIndex i) = ''var(--chart-1)''"
| "end_color p (NodeObject i name) =
     (case lp_getNodeColor p of
        Some f \<Rightarrow> f i name
      | None \<Rightarrow> sankey_colors ! ((case i of Some k \<Rightarrow> k | None \<Rightarrow> 0) mod length sankey_colors))"

definition gradientDefs :: "sankey_link_props \<Rightarrow> SankeyLinkDatum list \<Rightarrow> (string \<times> string \<times> string) list" where
  "gradientDefs p ls =
     (if \<not> lp_useGradient p \<or> has_stroke p \<or> lp_getLinkColor p \<noteq> None then []
      else map (\<lambda>(index, l). (''link-gradient-'' @ show_nat index, end_color p (sl_source l), end_color p (sl_target l))) (enumerate 0 ls))"

record link_element =
  le_path :: string
  le_stroke :: string
  le_strokeWidth :: rat
  le_opacity :: rat
  le_delay :: rat

definition AnimatedLink :: "sankey_link_props \<Rightarrow> rat \<Rightarrow> nat \<Rightarrow> nat \<Rightarrow> string \<Rightarrow> rat \<Rightarrow> string \<Rightarrow> bool \<Rightarrow> bool \<Rightarrow> link_element" where
  "AnimatedLink p animationDuration totalLinks index path width stroke faded highlighted =
     \<lparr>le_path = path, le_stroke = stroke, le_strokeWidth = max 1 width,
      le_opacity = getTargetOpacity faded highlighted (lp_strokeOpacity p) (lp_fadedOpacity p),
      le_delay = (animationDuration * (2 / 10) + of_nat index / of_nat totalLinks * (animationDuration * (8 / 10)) * (4 / 10)) / 1000\<rparr>"

definition SankeyLink ::
    "(SankeyLinkDatum \<Rightarrow> string) \<Rightarrow> SankeyGraph \<Rightarrow> rat \<Rightarrow> sankey_link_props \<Rightarrow> nat option \<Rightarrow> nat option \<Rightarrow> link_element option list" where
  "SankeyLink createPath g animationDuration p hoveredNode hoveredLink =
     map (\<lambda>(index, l).
       let path = createPath l in
       if js_trim path = [] then None
       else Some (AnimatedLink p animationDuration (length (gr_links g)) index path (case sl_width l of Some w \<Rightarrow> w | None \<Rightarrow> 1)
         (link_stroke p index l) (isLinkFaded hoveredNode hoveredLink index l) (isLinkHighlighted hoveredNode hoveredLink index l)))
     (enumerate 0 (gr_links g))"

subsection \<open>The tooltip\<close>

definition ARROW :: string where
  "ARROW = '' '' @ [CHR 0xE2, CHR 0x86, CHR 0x92] @ '' ''"

text \<open>Its place - the anchor of the data is the origin - and its content.\<close>

definition SankeyTooltip ::
    "(rat \<Rightarrow> string) \<Rightarrow> (rat \<Rightarrow> string) \<Rightarrow> (SankeyNodeDatum \<Rightarrow> nat \<Rightarrow> html) option \<Rightarrow> (SankeyLinkDatum \<Rightarrow> nat \<Rightarrow> html) option \<Rightarrow>
     rat \<times> rat \<Rightarrow> SankeyGraph \<Rightarrow> sankey_chart \<Rightarrow> ((rat \<times> rat) \<times> html) option" where
  "SankeyTooltip intFmt formatValue nodeContent linkContent margin g st =
     (let place = (case sk_mousePos st of Some p \<Rightarrow> p | None \<Rightarrow> margin) in
      case sk_tooltipData st of
        None \<Rightarrow> None
      | Some (NodeTooltip i) \<Rightarrow> (case js_at (gr_nodes g) i of
            None \<Rightarrow> None
          | Some node \<Rightarrow> Some (place, case nodeContent of
                Some f \<Rightarrow> f node i
              | None \<Rightarrow> TooltipContent intFmt (Some (sn_name node))
                  [\<lparr>tr_color = ''var(--chart-line-primary)'', tr_label = ''Sessions'', tr_value = ValueText (formatValue (or_zero (sn_value node)))\<rparr>] None))
      | Some (LinkTooltip k) \<Rightarrow> (case js_at (gr_links g) k of
            None \<Rightarrow> None
          | Some l \<Rightarrow> Some (place, case linkContent of
                Some f \<Rightarrow> f l k
              | None \<Rightarrow> TooltipContent intFmt (Some (getNodeName (sl_source l) k @ ARROW @ getNodeName (sl_target l) k))
                  [\<lparr>tr_color = ''var(--chart-foreground-muted)'', tr_label = ''Flow'', tr_value = ValueText (formatValue (sl_value l))\<rparr>] None)))"

subsection \<open>What is lit\<close>

definition link_ends :: "SankeyLinkDatum \<Rightarrow> nat list" where
  "link_ends l = concat (map (\<lambda>e. case getNodeIndex e of Some i \<Rightarrow> [i] | None \<Rightarrow> []) [sl_source l, sl_target l])"

lemma link_ends_iff: "i \<in> set (link_ends l) \<longleftrightarrow> getNodeIndex (sl_source l) = Some i \<or> getNodeIndex (sl_target l) = Some i"
  by (auto simp: link_ends_def split: option.splits)

fun place_node :: "sankey_place \<Rightarrow> nat option" where
  "place_node (OnNode i) = Some i"
| "place_node _ = None"

fun place_link :: "sankey_place \<Rightarrow> nat option" where
  "place_link (OnLink k) = Some k"
| "place_link _ = None"

fun place_tooltip :: "sankey_place \<Rightarrow> SankeyTooltipData option" where
  "place_tooltip (OnNode i) = Some (NodeTooltip i)"
| "place_tooltip (OnLink k) = Some (LinkTooltip k)"
| "place_tooltip _ = None"

text \<open>A chart that decides itself on what is hovered knows where the pointer is.\<close>

definition knows :: "sankey_place \<Rightarrow> sankey_chart \<Rightarrow> bool" where
  "knows place st \<longleftrightarrow>
     hoveredNodeIndex None st = place_node place \<and> sk_hoveredLinkIndex st = place_link place \<and>
     sk_tooltipData st = place_tooltip place \<and> (sk_mousePos st = None \<longleftrightarrow> place = Outside)"

lemma knows_move: "knows a st \<Longrightarrow> knows b (foldl (sankey_step None) st (pointer_events a b p))"
  by (cases a; cases b) (auto simp: knows_def pointer_events_def hoveredNodeIndex_def setHoveredNodeIndex_def)

lemma knows_run: "knows (fst s) (snd s) \<Longrightarrow> knows (fst (sankey_pointer_run None s path)) (snd (sankey_pointer_run None s path))"
proof (induction path arbitrary: s)
  case (Cons m path)
  show ?case using Cons.prems Cons.IH knows_move by (cases s; cases m) simp
qed simp

lemma in_enumerate: "x \<in> set (enumerate 0 ls) \<longleftrightarrow> fst x < length ls \<and> snd x = ls ! fst x"
  by (cases x) (auto simp: in_set_enumerate_eq)

lemma ex_link: "list_ex (\<lambda>(k, l). P l) (filter (\<lambda>(k, l). Q l) (enumerate n ls)) \<longleftrightarrow> (\<exists>l \<in> set ls. Q l \<and> P l)"
  by (induction ls arbitrary: n) auto

text \<open>What is lit is what is connected: wherever the pointer was before, the tooltip is about what is under it now; over a node
  the links lit are those that end at it and the nodes lit the ends of those links, over a link it alone is lit and the
  nodes it ends at, and elsewhere nothing fades - although nodes and links find that out on their own.\<close>

theorem lit_is_connected:
  "let (place, st) = sankey_pointer_run None (Outside, sankey_init) path; hn = hoveredNodeIndex None st; hl = sk_hoveredLinkIndex st;
       ls = enumerate 0 (gr_links g); lit_links = filter (\<lambda>(k, l). \<not> isLinkFaded hn hl k l) ls;
       lit_nodes = filter (\<lambda>j. \<not> isNodeFaded (gr_links g) hn hl j) [0..<length (gr_nodes g)] in
   sk_tooltipData st = place_tooltip place \<and>
   (case place of
      OnNode i \<Rightarrow> lit_links = filter (\<lambda>(k, l). i \<in> set (link_ends l)) ls \<and>
        lit_nodes = filter (\<lambda>j. j = i \<or> list_ex (\<lambda>(k, l). j \<in> set (link_ends l)) lit_links) [0..<length (gr_nodes g)]
    | OnLink k0 \<Rightarrow> lit_links = filter (\<lambda>(k, l). k = k0) ls \<and>
        lit_nodes = filter (\<lambda>j. list_ex (\<lambda>(k, l). j \<in> set (link_ends l)) lit_links) [0..<length (gr_nodes g)]
    | _ \<Rightarrow> lit_links = ls \<and> lit_nodes = [0..<length (gr_nodes g)])"
proof -
  obtain place st where run: "sankey_pointer_run None (Outside, sankey_init) path = (place, st)" by fastforce
  have "knows Outside sankey_init" by (simp add: knows_def sankey_init_def hoveredNodeIndex_def)
  then have knows: "knows place st" using knows_run [of "(Outside, sankey_init)" path] run by simp
  then have hn: "hoveredNodeIndex None st = place_node place" and hl: "sk_hoveredLinkIndex st = place_link place"
    and tip: "sk_tooltipData st = place_tooltip place" by (simp_all add: knows_def)
  let ?ls = "enumerate 0 (gr_links g)"
  show ?thesis
  proof (cases place)
    case (OnNode i)
    have one: "(\<lambda>(k, l). \<not> isLinkFaded (Some i) None k l) = (\<lambda>(k, l). i \<in> set (link_ends l))"
      by (intro ext) (auto simp: isLinkFaded_def isLinkHighlighted_def isAnyHovered_def link_ends_iff)
    have node: "(\<not> isNodeFaded (gr_links g) (Some i) None j) =
        (j = i \<or> list_ex (\<lambda>(k, l). j \<in> set (link_ends l)) (filter (\<lambda>(k, l). i \<in> set (link_ends l)) ?ls))" for j
      unfolding ex_link by (auto simp: isNodeFaded_def isAnyHovered_def isNodeConnected_def link_ends_iff list_ex_iff)
    show ?thesis by (simp add: run hn hl tip OnNode Let_def one node)
  next
    case (OnLink k0)
    have one: "(\<lambda>(k, l). \<not> isLinkFaded None (Some k0) k l) = (\<lambda>(k, l). k = k0)"
      by (intro ext) (auto simp: isLinkFaded_def isLinkHighlighted_def isAnyHovered_def)
    have node: "(\<not> isNodeFaded (gr_links g) None (Some k0) j) =
        list_ex (\<lambda>(k, l). j \<in> set (link_ends l)) (filter (\<lambda>(k, l). k = k0) ?ls)" for j
      by (auto simp: isNodeFaded_def isAnyHovered_def isNodeConnected_def link_ends_iff list_ex_iff in_enumerate js_at_def split: if_splits)
    show ?thesis by (simp add: run hn hl tip OnLink Let_def one node)
  qed (simp_all add: run hn hl tip Let_def isLinkFaded_def isNodeFaded_def isAnyHovered_def)
qed

text \<open>A stroke never names a gradient that is not there.\<close>

lemma gradients_defined:
  assumes "index < length ls" and "Option.bind (lp_getLinkPattern p) (\<lambda>f. f (ls ! index) index) = None"
    and "lp_useGradient p \<and> \<not> has_stroke p \<and> lp_getLinkColor p = None"
  shows "\<exists>k. link_stroke p index (ls ! index) = ''url(#'' @ k @ '')'' \<and> k \<in> set (map fst (gradientDefs p ls))"
proof -
  have "(index, ls ! index) \<in> set (enumerate 0 ls)" using assms(1) by (simp add: in_enumerate)
  then have "''link-gradient-'' @ show_nat index \<in> set (map fst (gradientDefs p ls))"
    using assms(3) by (force simp: gradientDefs_def)
  moreover have "link_stroke p index (ls ! index) = ''url(#'' @ (''link-gradient-'' @ show_nat index) @ '')''"
    using assms(2,3) by (simp add: link_stroke_def)
  ultimately show ?thesis by blast
qed

text \<open>When new data has fewer links and the one under the pointer is gone, no element is left to tell that the pointer left it:
  the hovered index stands for nothing, all nodes and links fade, and there is no tooltip to say why.\<close>

lemma stale_hover_fades_all:
  assumes "length (gr_links g) \<le> k" and "hoveredNodeIndex None st = None" and "sk_hoveredLinkIndex st = Some k"
    and "sk_tooltipData st = Some (LinkTooltip k)"
  shows "isNodeFaded (gr_links g) (hoveredNodeIndex None st) (sk_hoveredLinkIndex st) i"
    and "j < length (gr_links g) \<Longrightarrow> isLinkFaded (hoveredNodeIndex None st) (sk_hoveredLinkIndex st) j (gr_links g ! j)"
    and "SankeyTooltip f f2 nc lc margin g st = None"
  using assms by (simp_all add: isNodeFaded_def isNodeConnected_def isAnyHovered_def isLinkFaded_def isLinkHighlighted_def js_at_def
      SankeyTooltip_def Let_def)

text \<open>Turned labels are in one line: name and value of a node have one place, one turn and one middle each, sixteen pixels apart
  along the line they are read on, so they are printed on top of each other.\<close>

lemma vertical_labels_on_one_line:
  "case getNodeLabelLayouts LabelsVertical left x y w h True of (name, Some v) \<Rightarrow>
     (nl_x name, nl_y name, nl_rotate name, nl_textAnchor name) = (nl_x v, nl_y v, nl_rotate v, nl_textAnchor v) \<and>
     \<bar>nl_textLocalX name - nl_textLocalX v\<bar> = 16
   | _ \<Rightarrow> False"
  by (simp add: getNodeLabelLayouts_def Let_def VALUE_LABEL_GAP_def)

text \<open>Labels stand outside their nodes, and come in from the node.\<close>

lemma labels_outside:
  assumes "0 \<le> w" and "(name, v) = getNodeLabelLayouts orientation left x y w h values_shown"
  shows "if left then nl_x name < x \<and> nl_x name < nl_initialX name else x + w < nl_x name \<and> nl_initialX name < nl_x name"
  using assms by (cases orientation) (auto simp: getNodeLabelLayouts_def Let_def LABEL_OFFSET_def)

text \<open>The bands of all charts of a page share their names, as the name is that of the index of the link.\<close>

lemma sankey_gradients_share_names:
  "length ls = length ls' \<Longrightarrow> lp_useGradient p \<and> \<not> has_stroke p \<and> lp_getLinkColor p = None \<Longrightarrow>
   map fst (gradientDefs p ls) = map fst (gradientDefs p ls')"
  by (simp add: gradientDefs_def comp_def case_prod_beta) (simp add: enumerate_eq_zip map_equality_iff)

end
