(* ===== verification/Spec2Isabelle.thy ===== *)
theory Spec2Isabelle
  imports Money_Format Batch_Reports Report_Data Report_View Imports_View Preferences Review_Live Shell_Spec Home_View
    Chart_View Client Review_View Routes Chart_Phase Chart_Config Tooltip_View X_Ticks
    Chart_Motion Series_Charts Series_Marks Flow_Chart Projection Sankey
begin

text \<open>
  A verification development of the web client of vekst (\<open>src/web/src\<close>): a management-accounting application
  that uploads bank and ledger files, lets a person review the categories of their rows, and shows a
  Management P\&L with drill-downs and charts. The client is a React application over a Connect backend; its
  own logic is in the data modules (\<open>data\<close>), the pure modules (\<open>money.ts\<close>, \<open>i18n.ts\<close>, \<open>ui/period.ts\<close>,
  \<open>app/lineName.ts\<close>, \<open>app/categoryTree.ts\<close>, \<open>app/charts/support.ts\<close>) and the screens (\<open>app\<close>).

  \<^bold>\<open>The language.\<close> \<open>Js_Prelude\<close> holds the JavaScript the code is written in: strings as UTF-8 bytes, \<open>BigInt\<close>
  parsing and printing, \<open>slice\<close>, \<open>padStart\<close>, \<open>trim\<close> and the rest; a thrown error is the left of the sum
  \<open>'a js\<close>. \<open>Session_Io\<close> holds asynchronous code: a function from the world (the session variable of
  \<open>data/session.ts\<close>, the server's state, everything sent so far) to a result or an error and a new world. The
  answers of the backend, of the object store and of the protobuf runtime are the fields of the record \<open>env\<close>, an
  argument of every operation; a theorem assumes nothing about them unless it says so. \<open>Html\<close> holds what a
  component renders, an element tree, and the state of a query, and the small components of \<open>ui/\<close>.

  \<^bold>\<open>Data.\<close> \<open>Wire\<close>: the protobuf messages of \<open>gen/\<close> the client reads and writes. \<open>Data_Types\<close>: \<open>data/types.ts\<close>.
  \<open>Money_Format\<close>: \<open>money.ts\<close>, with the exactness of formatting, sums and percentages. \<open>Messages\<close> and
  \<open>I18n\<close>: both catalogues of \<open>i18n.ts\<close> and the lookup. \<open>Imports_Data\<close>: \<open>data/importUpload.ts\<close> and
  \<open>data/imports.ts\<close>, with the order of an upload and the tolerance of a batch detail. \<open>Batch_Reports\<close>:
  \<open>data/validation.ts\<close>, \<open>data/dedup.ts\<close>, \<open>data/org.ts\<close>. \<open>Report_Data\<close>: \<open>data/report.ts\<close>, with the
  uniform basis, the derived figures, the reconciliation strip and the drill-down, which derives the
  basis twice. \<open>Review_Data\<close>:
  \<open>data/review.ts\<close>. Every operation that runs for a tenant interprets the locale \<open>tenant_call\<close>.
  \<open>Demo_Env\<close> is a concrete environment for the witnesses.

  \<^bold>\<open>Names, trees, periods, preferences.\<close> \<open>Category_Names\<close>: \<open>app/lineName.ts\<close>, \<open>app/categoryName.ts\<close>.
  \<open>Category_Tree\<close>: \<open>app/categoryTree.ts\<close>, with completeness of the tree and of its folding. \<open>Period\<close>:
  \<open>ui/period.ts\<close> and the months of \<open>app/PeriodPicker.tsx\<close>. \<open>Preferences\<close>: \<open>ui/preferences.ts\<close>,
  \<open>ui/periodPreference.ts\<close> and the report search of \<open>router.tsx\<close>; the locale \<open>remembered\<close> is the contract
  of a choice and is interpreted for theme, language and range.

  \<^bold>\<open>Screens.\<close> \<open>Review_Screen\<close>: \<open>app/ReviewScreen.tsx\<close> as a state machine over keys, clicks, answers and
  reloads, with its invariants; \<open>Review_Live\<close>: every category can be reached by clicking. \<open>Report_View\<close>:
  \<open>PnlTable\<close>, \<open>StatTiles\<close>, \<open>Reconciliation\<close>, \<open>ReportScreen\<close>, \<open>DrilldownPanel\<close>. \<open>Imports_View\<close>:
  \<open>Upload\<close> as a state machine, \<open>ImportsScreen\<close>, \<open>BatchScreen\<close> and the downloaded error file, which a CSV
  reader reads back. \<open>Shell\<close>: \<open>AppLayout\<close>, \<open>Rail\<close>, \<open>TopBar\<close>, \<open>PeriodPicker\<close>; \<open>Shell_Spec\<close>: the
  abstract machine the shell refines. \<open>Home_View\<close>: \<open>FirstRunScreen\<close> as a state machine, \<open>HomeScreen\<close>,
  \<open>AccountCard\<close>. \<open>Chart_Data\<close> and \<open>Chart_View\<close>: \<open>app/charts\<close>, the rows of each chart as a function of
  the report, and the cards. \<open>Review_View\<close>: what the queue shows - options with their digits, crumbs, legend,
  decisions - tied to the state machine of \<open>Review_Screen\<close>. \<open>Site_View\<close>: \<open>site\<close>, the sample report and the
  public pages. \<open>Routes\<close>: the route table of \<open>router.tsx\<close>, that it is unambiguous and that no link of a screen
  is dead. \<open>Client\<close> composes the operations: over any sequence of them each tenant's data is
  asked for under that tenant's name only.

  \<^bold>\<open>The chart library (\<open>components/charts\<close>).\<close> Its logic, apart from drawing: \<open>Chart_Phase\<close>, the phases of a chart
  (\<open>use-chart-phase-orchestrator.ts\<close>) as a machine over renders, ends of animations and its timer, with the
  effects of a render and React's batching written out; \<open>Chart_Pointer\<close>, the tooltip scheduler and the handlers
  of mouse and touch; \<open>Chart_Config\<close>, which children are series, on which layer each is drawn, how the series
  share axes, which labels of an axis are printed. \<open>Bar_Chart\<close>: the scales of a bar chart, the rectangle of every
  bar (\<open>bar.tsx\<close>) and the row under the pointer (\<open>bar-chart.tsx\<close>), with the bars to scale and the dots on the
  bars (the pointer over any history of moves, leavings and frames is in \<open>Bar_Drawing\<close>); what d3 documents of its band and linear scales is stated as \<open>band_law\<close> and \<open>linear_law\<close>, hypotheses of the
  theorems that need them, and \<open>demo_band\<close> and \<open>demo_linear\<close> keep them. \<open>Bar_Drawing\<close>: the reveal of a bar chart
  and when it can be used, the element of each bar, the axes. \<open>Chart_Bars\<close>: the three bar charts of \<open>app/charts\<close> put
  together with the library, down to the rectangles and their colours: each column is shown to have the height of its
  figure, to stand inside the plot and not to overlap the next, as long as the printed months are different. \<open>Tooltip_View\<close>: the directory \<open>tooltip\<close> - crosshair, dots,
  panel and pill - and the rows the application's charts give it. \<open>X_Ticks\<close>: the ticks of a time axis
  (\<open>x-axis.tsx\<close>), whose exhaustive search is shown to try every layout and never more than four hundred.
  \<open>Time_Series\<close>: the line of a time series (\<open>time-series-chart-shell.tsx\<close>, \<open>decimate-time-series.ts\<close>,
  \<open>series-path-utils.ts\<close>, \<open>line.tsx\<close>) from the rows that are drawn to its vertices, over scales with \<open>nice_law\<close>,
  \<open>span_law\<close> and \<open>time_law\<close>; \<open>Line_Motion\<close> and \<open>Axis_Motion\<close>, the hooks that move a line to new rows and the axes to new
  domains (\<open>use-animated-series-path.ts\<close>, \<open>use-animated-y-domains.ts\<close>) as machines over renders, frames and ends of
  animations, and \<open>Chart_Motion\<close>, both at once, the line drawn over the domains of the moment: new rows are in the plot as
  far as their figures are within the axis that is shown; \<open>Series_Charts\<close>, the two line charts of \<open>app/charts\<close> put together with the library. \<open>Projection\<close>: where a
  series is going (\<open>projection-utils.ts\<close>, \<open>projection-config.ts\<close>) and the room the axes make for it. \<open>Flow_Chart\<close>: the
  ECharts instance \<open>app/charts/MoneyFlowChart.tsx\<close> makes and disposes of by hand, with nothing left behind. \<open>Series_Marks\<close>:
  the markers of a line and what else \<open>line.tsx\<close> draws around it, behind the clip of \<open>chart-reveal-clip.tsx\<close>. \<open>Bar_Squares\<close>:
  bars drawn as squares, with the track above them and the dot of the tooltip meeting at the topmost. \<open>Sankey\<close>: the flow
  diagram of the library (\<open>sankey\<close>), whose lit nodes and links are shown to be those connected to what is pointed at.

  \<^bold>\<open>Bounds.\<close> Nothing runs on fuel: every loop of the modelled code is structural or has a measure (the \<open>while\<close>
  of \<open>fold\<close> in \<open>categoryTree.ts\<close> by the number of nodes). The renders a chart's effects ask for are four commits;
  \<open>commits_settle\<close> shows that three reach a state a further commit leaves as it is. The caps of the code (200 errors, eight chart
  slots, eight facets) are definitions and their effect is proved.

  \<^bold>\<open>Choices.\<close> Doubles that hold a quotient (the wire's percentages and confidences, plotted values) are exact
  rationals. Month names and percent formats of \<open>Intl\<close> are the record \<open>intl\<close>, an argument; the digit grouping of
  \<open>Intl.NumberFormat\<close> is written out for the two locales. \<open>Promise.all\<close> runs its calls in the order they are
  started. Class names and styles are left out of the element trees. A query is waiting, failed or loaded;
  caching, retries and invalidation of the query library are not modelled, and a reload is an event.

  \<^bold>\<open>Not modelled.\<close> What draws: springs on their way, the curves, patterns and SVG paths of \<open>components/charts\<close>, the
  placeholders of a loading chart (\<open>loading-sweep.tsx\<close>, \<open>use-grid-shimmer.ts\<close>), visx, ECharts, the
  entrance animations of the landing page and the calendar widget; the development backend \<open>mock\<close> and the token
  sheet; the transport and the runtime of
  the generated code; the Go backend and the Python classifier, which the client knows by their answers only.
\<close>

end
